(* ===== verification/Prelude.thy ===== *)
theory Prelude
  imports Main "HOL-Library.Char_ord" "HOL-Library.List_Lexorder"
begin

text \<open>
  What every component of the agent service shares.
  \<^item> Exceptions as values.  A handler returns \<open>exn + 'a\<close>: \<open>Inl\<close> is the exception the Python
    raises, and since every handler runs inside a database transaction, \<open>Inl\<close> also means that
    nothing was written.  The simp rules of this section turn \<open>handler ... = Inr y\<close> into the
    conjunction of the guards the code has passed.
  \<^item> Tables.  A database table is the list of its rows in insertion order; \<open>tbl_get\<close>,
    \<open>tbl_save\<close>, \<open>tbl_where\<close> and \<open>max_row\<close> are the query-set calls the code uses
    (\<open>.get(id=...)\<close>, \<open>.save()\<close>, \<open>.filter(...).update(...)\<close>, \<open>.order_by("-n").first()\<close>).
  \<^item> The locale \<open>row_store\<close>, the contract of one table inside the database state; each table of
    the model interprets it.
\<close>

section \<open>Identifiers, time, exceptions\<close>

type_synonym uuid = nat
type_synonym uid = nat
type_synonym time = int

text \<open>
  The exception classes the agent code raises and catches.  \<open>ValueErr\<close> carries the message;
  \<open>ProtocolInvalid\<close> is pydantic's \<open>ValidationError\<close> (a \<open>ValueError\<close>), \<open>ModelInvalid\<close>
  Django's (not one).
\<close>

datatype exn =
    ValueErr string
  | ProtocolInvalid
  | AudienceChanged
  | RequiredChecksFailed
  | OutcomeUnknown
  | AgentUserErr string
  | CredentialErr string
  | AccessDenied
  | JsonableErr
  | ModelInvalid string
  | DoesNotExist string
  | IntegrityErr string
  | AssertionErr

fun is_value_error :: "exn \<Rightarrow> bool" where
  "is_value_error (ValueErr _) = True"
| "is_value_error ProtocolInvalid = True"
| "is_value_error AudienceChanged = True"
| "is_value_error RequiredChecksFailed = True"
| "is_value_error OutcomeUnknown = True"
| "is_value_error (AgentUserErr _) = True"
| "is_value_error (CredentialErr _) = True"
| "is_value_error _ = False"

fun is_jsonable_error :: "exn \<Rightarrow> bool" where
  "is_jsonable_error AccessDenied = True"
| "is_jsonable_error JsonableErr = True"
| "is_jsonable_error _ = False"

fun is_missing_row :: "exn \<Rightarrow> bool" where
  "is_missing_row (DoesNotExist _) = True"
| "is_missing_row _ = False"

section \<open>Sequencing fallible computations\<close>

definition rbind :: "'e + 'a \<Rightarrow> ('a \<Rightarrow> 'e + 'b) \<Rightarrow> 'e + 'b" where
  "rbind m k = (case m of Inl e \<Rightarrow> Inl e | Inr x \<Rightarrow> k x)"

definition succeeds :: "'e + 'a \<Rightarrow> bool" where
  "succeeds m = (case m of Inl _ \<Rightarrow> False | Inr _ \<Rightarrow> True)"

definition fetch :: "string \<Rightarrow> 'a option \<Rightarrow> exn + 'a" where
  "fetch what x = (case x of None \<Rightarrow> Inl (DoesNotExist what) | Some v \<Rightarrow> Inr v)"

fun each :: "('a \<Rightarrow> 'e + unit) \<Rightarrow> 'a list \<Rightarrow> 'e + unit" where
  "each f [] = Inr ()"
| "each f (x # xs) = rbind (f x) (\<lambda>_. each f xs)"

fun rmap :: "('a \<Rightarrow> 'e + 'b) \<Rightarrow> 'a list \<Rightarrow> 'e + 'b list" where
  "rmap f [] = Inr []"
| "rmap f (x # xs) = rbind (f x) (\<lambda>y. rbind (rmap f xs) (\<lambda>ys. Inr (y # ys)))"

lemma rbind_Inl [simp]: "rbind (Inl e) k = Inl e"
  by (simp add: rbind_def)

lemma rbind_Inr [simp]: "rbind (Inr x) k = k x"
  by (simp add: rbind_def)

lemma rbind_eq_Inr [simp]: "(rbind m k = Inr y) = (\<exists>x. m = Inr x \<and> k x = Inr y)"
  by (cases m) simp_all

lemma rbind_assoc: "rbind (rbind m f) g = rbind m (\<lambda>x. rbind (f x) g)"
  by (cases m) simp_all

lemma succeeds_simps [simp]: "succeeds (Inr x)" "\<not> succeeds (Inl e)"
  by (simp_all add: succeeds_def)

lemma succeeds_iff: "succeeds m = (\<exists>x. m = Inr x)"
  by (cases m) simp_all

lemma guard_eq_Inr [simp]:
  "((if b then Inl e else m) = Inr y) = (\<not> b \<and> m = Inr y)"
  "((if b then m else Inl e) = Inr y) = (b \<and> m = Inr y)"
  by auto

lemma option_eq_Inr [simp]:
  "((case x of None \<Rightarrow> Inl e | Some v \<Rightarrow> k v) = Inr y) = (\<exists>v. x = Some v \<and> k v = Inr y)"
  by (cases x) auto

lemma rbind_If: "rbind (if b then m else n) k = (if b then rbind m k else rbind n k)"
  by simp

lemma fetch_eq_Inr [simp]: "(fetch w x = Inr v) = (x = Some v)"
  by (auto simp: fetch_def split: option.splits)

lemma fetch_Some [simp]: "fetch w (Some v) = Inr v"
  by (simp add: fetch_def)

lemma each_eq_Inr [simp]: "(each f xs = Inr u) = (\<forall>x\<in>set xs. f x = Inr ())"
  by (induction xs) auto

lemma rmap_length: "rmap f xs = Inr ys \<Longrightarrow> length ys = length xs"
  by (induction xs arbitrary: ys) auto

section \<open>What a successful result satisfies\<close>

text \<open>
  \<open>yields P m\<close>: if \<open>m\<close> returns a value, the value satisfies \<open>P\<close>.  The rules of \<open>yields_rules\<close>
  follow the code down to its returns, one premise for each \<open>return\<close>, with the guards passed on
  the way as assumptions.
\<close>

named_theorems yields_rules

definition yields :: "('a \<Rightarrow> bool) \<Rightarrow> 'e + 'a \<Rightarrow> bool" where
  "yields P m = (\<forall>x. m = Inr x \<longrightarrow> P x)"

lemma yieldsD: "yields P m \<Longrightarrow> m = Inr x \<Longrightarrow> P x"
  by (simp add: yields_def)

lemma yieldsI: "(\<And>x. m = Inr x \<Longrightarrow> P x) \<Longrightarrow> yields P m"
  by (simp add: yields_def)

lemma yields_Inl [yields_rules]: "yields P (Inl e)"
  by (simp add: yields_def)

lemma yields_Inr [yields_rules]: "P x \<Longrightarrow> yields P (Inr x)"
  by (simp add: yields_def)

lemma yields_rbind [yields_rules]: "(\<And>x. m = Inr x \<Longrightarrow> yields P (k x)) \<Longrightarrow> yields P (rbind m k)"
  by (auto simp: yields_def)

lemma yields_if [yields_rules]:
  "(b \<Longrightarrow> yields P m) \<Longrightarrow> (\<not> b \<Longrightarrow> yields P n) \<Longrightarrow> yields P (if b then m else n)"
  by simp

lemma yields_option [yields_rules]:
  "(x = None \<Longrightarrow> yields P m) \<Longrightarrow> (\<And>v. x = Some v \<Longrightarrow> yields P (n v)) \<Longrightarrow>
   yields P (case x of None \<Rightarrow> m | Some v \<Rightarrow> n v)"
  by (cases x) simp_all

lemma yields_sum [yields_rules]:
  "(\<And>u. x = Inl u \<Longrightarrow> yields P (m u)) \<Longrightarrow> (\<And>v. x = Inr v \<Longrightarrow> yields P (n v)) \<Longrightarrow>
   yields P (case x of Inl u \<Rightarrow> m u | Inr v \<Rightarrow> n v)"
  by (cases x) simp_all

lemma yields_prod [yields_rules]:
  "(\<And>u v. p = (u, v) \<Longrightarrow> yields P (m u v)) \<Longrightarrow> yields P (case p of (u, v) \<Rightarrow> m u v)"
  by (cases p) simp

lemma yields_Let [yields_rules]: "yields P (f x) \<Longrightarrow> yields P (Let x f)"
  by simp

lemma yields_imp: "yields P m \<Longrightarrow> (\<And>x. P x \<Longrightarrow> Q x) \<Longrightarrow> yields Q m"
  by (simp add: yields_def)

text \<open>Which exceptions a computation raises.\<close>

lemma rbind_eq_Inl [simp]:
  "(rbind m k = Inl e) = (m = Inl e \<or> (\<exists>x. m = Inr x \<and> k x = Inl e))"
  by (cases m) simp_all

lemma fetch_eq_Inl [simp]: "(fetch w x = Inl e) = (x = None \<and> e = DoesNotExist w)"
  by (auto simp: fetch_def split: option.splits)

lemma each_eq_Inl: "each f xs = Inl e \<Longrightarrow> \<exists>x\<in>set xs. f x = Inl e"
  by (induction xs) auto

section \<open>Tables\<close>

definition tbl_get :: "('r \<Rightarrow> 'k) \<Rightarrow> 'k \<Rightarrow> 'r list \<Rightarrow> 'r option" where
  "tbl_get key k t = find (\<lambda>r. key r = k) t"

definition tbl_save :: "('r \<Rightarrow> 'k) \<Rightarrow> 'r \<Rightarrow> 'r list \<Rightarrow> 'r list" where
  "tbl_save key r t = map (\<lambda>x. if key x = key r then r else x) t"

definition tbl_where :: "('r \<Rightarrow> bool) \<Rightarrow> ('r \<Rightarrow> 'r) \<Rightarrow> 'r list \<Rightarrow> 'r list" where
  "tbl_where P f t = map (\<lambda>x. if P x then f x else x) t"

fun max_row :: "('r \<Rightarrow> 'n::linorder) \<Rightarrow> 'r list \<Rightarrow> 'r option" where
  "max_row f [] = None"
| "max_row f (x # xs) =
     (case max_row f xs of None \<Rightarrow> Some x | Some y \<Rightarrow> if f x < f y then Some y else Some x)"

definition row_count :: "('r \<Rightarrow> bool) \<Rightarrow> 'r list \<Rightarrow> nat" where
  "row_count P t = length (filter P t)"

lemma tbl_get_SomeD: "tbl_get key k t = Some r \<Longrightarrow> r \<in> set t \<and> key r = k"
  by (auto simp: tbl_get_def find_Some_iff)

lemma tbl_get_key: "tbl_get key k t = Some r \<Longrightarrow> key r = k"
  by (blast dest: tbl_get_SomeD)

lemma tbl_get_in: "tbl_get key k t = Some r \<Longrightarrow> r \<in> set t"
  by (blast dest: tbl_get_SomeD)

lemma tbl_get_None: "(tbl_get key k t = None) = (k \<notin> key ` set t)"
  by (auto simp: tbl_get_def find_None_iff)

lemma tbl_get_not_None: "(\<exists>r. tbl_get key k t = Some r) = (k \<in> key ` set t)"
  using tbl_get_None [of key k t] by (auto simp del: not_None_eq simp: not_None_eq [symmetric])

lemma tbl_get_append:
  "tbl_get key k (t @ u) = (case tbl_get key k t of None \<Rightarrow> tbl_get key k u | Some r \<Rightarrow> Some r)"
  by (induction t) (simp_all add: tbl_get_def)

lemma tbl_get_Nil [simp]: "tbl_get key k [] = None"
  by (simp add: tbl_get_def)

lemma tbl_get_Cons [simp]:
  "tbl_get key k (r # t) = (if key r = k then Some r else tbl_get key k t)"
  by (simp add: tbl_get_def)

lemma tbl_get_save:
  "tbl_get key k (tbl_save key r t) =
     (if key r = k then (if k \<in> key ` set t then Some r else None) else tbl_get key k t)"
  by (induction t) (auto simp: tbl_save_def)

lemma tbl_save_keys [simp]: "map key (tbl_save key r t) = map key t"
  by (auto simp: tbl_save_def)

lemma tbl_save_length [simp]: "length (tbl_save key r t) = length t"
  by (simp add: tbl_save_def)

lemma in_tbl_save:
  "x \<in> set (tbl_save key r t) =
     ((x = r \<and> key r \<in> key ` set t) \<or> (x \<in> set t \<and> key x \<noteq> key r))"
proof -
  have "x \<in> set (tbl_save key r t) \<longleftrightarrow> (\<exists>y\<in>set t. x = (if key y = key r then r else y))"
    by (auto simp: tbl_save_def)
  also have "\<dots> \<longleftrightarrow> (x = r \<and> (\<exists>y\<in>set t. key y = key r)) \<or> (x \<in> set t \<and> key x \<noteq> key r)"
    by auto
  finally show ?thesis
    by (simp add: image_iff eq_commute)
qed

lemma in_tbl_saveD: "x \<in> set (tbl_save key r t) \<Longrightarrow> x = r \<or> (x \<in> set t \<and> key x \<noteq> key r)"
  by (blast dest: in_tbl_save [THEN iffD1])

lemma in_tbl_where:
  "x \<in> set (tbl_where P f t) = ((\<exists>y\<in>set t. P y \<and> x = f y) \<or> (x \<in> set t \<and> \<not> P x))"
  by (auto simp: tbl_where_def)

lemma tbl_where_keys [simp]: "(\<And>r. key (f r) = key r) \<Longrightarrow> map key (tbl_where P f t) = map key t"
  by (auto simp: tbl_where_def)

lemma tbl_where_id: "(\<And>x. x \<in> set t \<Longrightarrow> \<not> P x) \<Longrightarrow> tbl_where P f t = t"
  by (auto simp: tbl_where_def intro: map_idI)

lemma tbl_get_where:
  "(\<And>r. key (f r) = key r) \<Longrightarrow>
   tbl_get key k (tbl_where P f t) = map_option (\<lambda>r. if P r then f r else r) (tbl_get key k t)"
  by (induction t) (auto simp: tbl_where_def)

lemma tbl_get_distinct:
  "distinct (map key t) \<Longrightarrow> r \<in> set t \<Longrightarrow> tbl_get key (key r) t = Some r"
  by (induction t) (auto simp: image_iff)

lemma distinct_key_eq:
  "distinct (map key t) \<Longrightarrow> x \<in> set t \<Longrightarrow> y \<in> set t \<Longrightarrow> key x = key y \<Longrightarrow> x = y"
  by (metis tbl_get_distinct option.inject)

lemma max_row_None [simp]: "(max_row f t = None) = (t = [])"
  by (cases t) (auto split: option.splits)

lemma max_row_SomeD:
  "max_row f t = Some m \<Longrightarrow> m \<in> set t \<and> (\<forall>x\<in>set t. f x \<le> f m)"
  by (induction t arbitrary: m) (fastforce split: option.splits if_splits)+

lemma max_row_in: "max_row f t = Some m \<Longrightarrow> m \<in> set t"
  by (blast dest: max_row_SomeD)

lemma max_row_le: "max_row f t = Some m \<Longrightarrow> x \<in> set t \<Longrightarrow> f x \<le> f m"
  by (blast dest: max_row_SomeD)

lemma row_count_append [simp]: "row_count P (t @ u) = row_count P t + row_count P u"
  by (simp add: row_count_def)

section \<open>Sorted duplicates-free lists\<close>

definition sorted_set :: "('a \<Rightarrow> 'b::linorder) \<Rightarrow> 'a list \<Rightarrow> 'a list" where
  "sorted_set f xs = sort_key f (remdups xs)"

lemma set_sorted_set [simp]: "set (sorted_set f xs) = set xs"
  by (simp add: sorted_set_def)

lemma distinct_sorted_set [simp]: "distinct (sorted_set f xs)"
  by (simp add: sorted_set_def)

lemma sorted_sorted_set [simp]: "sorted (map f (sorted_set f xs))"
  by (simp add: sorted_set_def)

lemma sorted_set_cong:
  assumes "inj f" and "set xs = set ys"
  shows "sorted_set f xs = sorted_set f ys"
proof -
  have d: "distinct (map f (sorted_set f zs))" for zs
    using assms(1) by (simp add: distinct_map inj_on_def inj_def)
  have "set (map f (sorted_set f xs)) = set (map f (sorted_set f ys))"
    using assms(2) by simp
  then have "map f (sorted_set f xs) = map f (sorted_set f ys)"
    using d by (intro sorted_distinct_set_unique) simp_all
  then show ?thesis
    using assms(1) by (simp add: inj_map_eq_map)
qed

section \<open>The contract of one table of the database\<close>

text \<open>
  \<open>rows\<close> reads the table out of the state \<open>'s\<close>, \<open>get\<close> looks a row up by its primary key,
  \<open>put\<close> saves a row and \<open>add\<close> inserts one.  The laws are those the code relies on: a saved row
  is read back, other rows are untouched, keys never change on a save.
\<close>

locale row_store =
  fixes key :: "'r \<Rightarrow> 'k"
    and rows :: "'s \<Rightarrow> 'r list"
    and get :: "'k \<Rightarrow> 's \<Rightarrow> 'r option"
    and put :: "'r \<Rightarrow> 's \<Rightarrow> 's"
    and add :: "'r \<Rightarrow> 's \<Rightarrow> 's"
  assumes get_rows: "get k s = tbl_get key k (rows s)"
    and rows_put: "rows (put r s) = tbl_save key r (rows s)"
    and rows_add: "rows (add r s) = rows s @ [r]"
begin

lemma get_key: "get k s = Some r \<Longrightarrow> key r = k"
  unfolding get_rows by (rule tbl_get_key)

lemma get_in: "get k s = Some r \<Longrightarrow> r \<in> set (rows s)"
  unfolding get_rows by (rule tbl_get_in)

lemma get_put_same: "get k s = Some x \<Longrightarrow> key r = k \<Longrightarrow> get k (put r s) = Some r"
  using tbl_get_in [of key k "rows s" x] tbl_get_key [of key k "rows s" x]
  by (simp add: get_rows rows_put tbl_get_save image_iff) metis

lemma get_put_other: "key r \<noteq> k \<Longrightarrow> get k (put r s) = get k s"
  by (simp add: get_rows rows_put tbl_get_save)

lemma get_add: "get k (add r s) = (case get k s of None \<Rightarrow> if key r = k then Some r else None | x \<Rightarrow> x)"
  by (simp add: get_rows rows_add tbl_get_append split: option.split)

lemma keys_put: "map key (rows (put r s)) = map key (rows s)"
  by (simp add: rows_put)

lemma all_put: "(\<forall>x\<in>set (rows s). P x) \<Longrightarrow> P r \<Longrightarrow> \<forall>x\<in>set (rows (put r s)). P x"
  by (auto simp: rows_put in_tbl_save)

lemma all_add: "(\<forall>x\<in>set (rows s). P x) \<Longrightarrow> P r \<Longrightarrow> \<forall>x\<in>set (rows (add r s)). P x"
  by (simp add: rows_add)

lemma distinct_put: "distinct (map key (rows s)) \<Longrightarrow> distinct (map key (rows (put r s)))"
  by (simp add: rows_put)

lemma distinct_add:
  "distinct (map key (rows s)) \<Longrightarrow> get (key r) s = None \<Longrightarrow> distinct (map key (rows (add r s)))"
  by (simp add: rows_add get_rows tbl_get_None)

lemma unique: "distinct (map key (rows s)) \<Longrightarrow> r \<in> set (rows s) \<Longrightarrow> get (key r) s = Some r"
  by (simp add: get_rows tbl_get_distinct)

end

end
