(* ===== verification/Url.thy ===== *)
theory Url
  imports Prelude
begin

text \<open>
  The parts of \<^verbatim>\<open>urllib.parse.urlsplit\<close> that the agent code reads (\<open>scheme\<close>, \<open>hostname\<close>,
  \<open>username\<close>, \<open>password\<close>, \<open>port\<close>, \<open>query\<close>, \<open>fragment\<close>), the two URL guards of
  \<^verbatim>\<open>zerver/actions/agents.py\<close>, the path and branch guards of
  \<^verbatim>\<open>zerver/actions/agent_approvals.py\<close>, and the pattern that recognises pasted credentials.
  Not modelled of \<open>urlsplit\<close>: the NFKC check on non-ASCII hosts and the syntax check inside
  the brackets of an IPv6 host.
\<close>

section \<open>Splitting strings\<close>

text \<open>\<open>str.partition\<close>: \<open>None\<close> when the separator does not occur.\<close>

fun partition_at :: "char \<Rightarrow> string \<Rightarrow> (string \<times> string) option" where
  "partition_at c [] = None"
| "partition_at c (x # xs) =
     (if x = c then Some ([], xs) else map_option (\<lambda>(a, b). (x # a, b)) (partition_at c xs))"

definition rpartition_at :: "char \<Rightarrow> string \<Rightarrow> (string \<times> string) option" where
  "rpartition_at c s = map_option (\<lambda>(a, b). (rev b, rev a)) (partition_at c (rev s))"

fun split_on :: "char \<Rightarrow> string \<Rightarrow> string list" where
  "split_on c [] = [[]]"
| "split_on c (x # xs) =
     (if x = c then [] # split_on c xs
      else case split_on c xs of [] \<Rightarrow> [[x]] | w # ws \<Rightarrow> (x # w) # ws)"

fun starts_with :: "string \<Rightarrow> string \<Rightarrow> bool" where
  "starts_with [] s = True"
| "starts_with (p # ps) [] = False"
| "starts_with (p # ps) (c # cs) = (p = c \<and> starts_with ps cs)"

lemma starts_with_iff: "starts_with p s = (\<exists>t. s = p @ t)"
  by (induction p s rule: starts_with.induct) auto

lemma partition_at_Some: "partition_at c s = Some (a, b) \<longleftrightarrow> s = a @ c # b \<and> c \<notin> set a"
proof (induction s arbitrary: a)
  case (Cons x s)
  then show ?case
    by (cases a) auto
qed simp

lemma partition_at_None: "partition_at c s = None \<longleftrightarrow> c \<notin> set s"
  by (induction s) auto

lemma split_on_nonempty [simp]: "split_on c s \<noteq> []"
  by (induction s) (auto split: list.splits)

lemma split_on_no_sep: "w \<in> set (split_on c s) \<Longrightarrow> c \<notin> set w"
  by (induction s arbitrary: w) (auto split: list.splits if_splits)

section \<open>urlsplit\<close>

record url =
  url_scheme :: string
  url_netloc :: string
  url_path :: string
  url_query :: string
  url_fragment :: string

definition lower_char :: "char \<Rightarrow> char" where
  "lower_char c = (let n = of_char c :: nat in if 65 \<le> n \<and> n \<le> 90 then char_of (n + 32) else c)"

definition lower :: "string \<Rightarrow> string" where
  "lower s = map lower_char s"

definition is_scheme_char :: "char \<Rightarrow> bool" where
  "is_scheme_char c = (let n = of_char c :: nat in
     (65 \<le> n \<and> n \<le> 90) \<or> (97 \<le> n \<and> n \<le> 122) \<or> (48 \<le> n \<and> n \<le> 57) \<or>
     c \<in> {CHR ''+'', CHR ''-'', CHR ''.''})"

definition is_letter :: "char \<Rightarrow> bool" where
  "is_letter c = (let n = of_char c :: nat in (65 \<le> n \<and> n \<le> 90) \<or> (97 \<le> n \<and> n \<le> 122))"

definition is_decimal :: "char \<Rightarrow> bool" where
  "is_decimal c = (let n = of_char c :: nat in 48 \<le> n \<and> n \<le> 57)"

text \<open>
  Leading blanks and control characters are stripped, tabs and line ends removed.  \<open>None\<close> stands
  for the \<open>ValueError\<close> on unbalanced brackets of an IPv6 host.
\<close>

definition clean_url :: "string \<Rightarrow> string" where
  "clean_url s = filter (\<lambda>c. (of_char c :: nat) \<notin> {9, 10, 13}) (dropWhile (\<lambda>c. (of_char c :: nat) \<le> 32) s)"

definition urlsplit :: "string \<Rightarrow> url option" where
  "urlsplit v =
     (let s = clean_url v;
          (sch, rest) =
            (case partition_at (CHR '':'') s of
               Some (a, b) \<Rightarrow>
                 if a \<noteq> [] \<and> is_letter (hd a) \<and> list_all is_scheme_char a then (lower a, b) else ([], s)
             | None \<Rightarrow> ([], s));
          stop = (\<lambda>c. c \<in> {CHR ''/'', CHR ''?'', CHR ''#''});
          (netloc, rest) =
            (if starts_with ''//'' rest
             then (takeWhile (\<lambda>c. \<not> stop c) (drop 2 rest), dropWhile (\<lambda>c. \<not> stop c) (drop 2 rest))
             else ([], rest));
          (rest, fragment) =
            (case partition_at (CHR ''#'') rest of Some (a, b) \<Rightarrow> (a, b) | None \<Rightarrow> (rest, []));
          (path, query) =
            (case partition_at (CHR ''?'') rest of Some (a, b) \<Rightarrow> (a, b) | None \<Rightarrow> (rest, []))
      in if (CHR ''['' \<in> set netloc) \<noteq> (CHR '']'' \<in> set netloc) then None
         else Some \<lparr>url_scheme = sch, url_netloc = netloc, url_path = path,
                    url_query = query, url_fragment = fragment\<rparr>)"

definition userinfo :: "url \<Rightarrow> (string \<times> string) option" where
  "userinfo u = (case rpartition_at (CHR ''@'') (url_netloc u) of
     None \<Rightarrow> None
   | Some (info, _) \<Rightarrow>
       Some (case partition_at (CHR '':'') info of Some (n, p) \<Rightarrow> (n, p) | None \<Rightarrow> (info, [])))"

definition username :: "url \<Rightarrow> string" where
  "username u = (case userinfo u of None \<Rightarrow> [] | Some (n, _) \<Rightarrow> n)"

definition password :: "url \<Rightarrow> string" where
  "password u = (case userinfo u of None \<Rightarrow> [] | Some (_, p) \<Rightarrow> p)"

definition hostport :: "url \<Rightarrow> string \<times> string" where
  "hostport u =
     (let hostinfo = (case rpartition_at (CHR ''@'') (url_netloc u) of
                        None \<Rightarrow> url_netloc u | Some (_, h) \<Rightarrow> h);
          cut = (\<lambda>c s. case partition_at c s of Some (a, b) \<Rightarrow> (a, b) | None \<Rightarrow> (s, []))
      in case partition_at (CHR ''['') hostinfo of
           Some (_, bracketed) \<Rightarrow>
             (let (h, p) = cut (CHR '']'') bracketed in (h, snd (cut (CHR '':'') p)))
         | None \<Rightarrow> cut (CHR '':'') hostinfo)"

definition hostname :: "url \<Rightarrow> string" where
  "hostname u = lower (fst (hostport u))"

definition decimal_val :: "string \<Rightarrow> nat" where
  "decimal_val s = foldl (\<lambda>n c. 10 * n + (of_char c - 48)) 0 s"

text \<open>\<open>port\<close>: \<open>None\<close> is the \<open>ValueError\<close>, \<open>Some None\<close> an absent port.\<close>

definition port :: "url \<Rightarrow> nat option option" where
  "port u = (let p = snd (hostport u) in
     if p = [] then Some None
     else if list_all is_decimal p \<and> decimal_val p \<le> 65535 then Some (Some (decimal_val p))
     else None)"

section \<open>URL, path and branch guards\<close>

definition safe_provider_url :: "string \<Rightarrow> exn + string" where
  "safe_provider_url v = (case urlsplit v of
     None \<Rightarrow> Inl (ValueErr ''Invalid IPv6 URL'')
   | Some u \<Rightarrow>
       if url_scheme u \<notin> {''https'', ''http''} \<or> hostname u = [] \<or> username u \<noteq> [] \<or>
          password u \<noteq> [] \<or> url_query u \<noteq> [] \<or> url_fragment u \<noteq> []
       then Inl (ValueErr ''Invalid provider configuration.'') else Inr v)"

definition safe_origin :: "string \<Rightarrow> exn + string" where
  "safe_origin v = (case urlsplit v of
     None \<Rightarrow> Inl (ValueErr ''Invalid IPv6 URL'')
   | Some u \<Rightarrow>
       if url_scheme u \<notin> {''https'', ''ssh''} \<or> hostname u = [] \<or> url_query u \<noteq> [] \<or>
          url_fragment u \<noteq> []
       then Inl (ValueErr ''Invalid repository configuration.'')
       else if username u \<noteq> [] \<or> password u \<noteq> [] \<or> starts_with ''/'' v \<or> starts_with ''file:'' v \<or>
               starts_with ''~'' v
       then Inl (ValueErr ''Invalid repository configuration.'') else Inr v)"

definition path_escapes :: "string \<Rightarrow> bool" where
  "path_escapes p = (starts_with ''/'' p \<or> ''..'' \<in> set (split_on (CHR ''/'') p))"

definition branch_char_bad :: "char \<Rightarrow> bool" where
  "branch_char_bad c = (c \<in> set '' ~^:?*['' \<or> c = CHR 0x5C)"

section \<open>Pasted credentials\<close>

definition is_space :: "char \<Rightarrow> bool" where
  "is_space c = (let n = of_char c :: nat in n = 32 \<or> (9 \<le> n \<and> n \<le> 13) \<or> (28 \<le> n \<and> n \<le> 31) \<or>
     n = 133 \<or> n = 160)"

fun skip_ci :: "string \<Rightarrow> string \<Rightarrow> string option" where
  "skip_ci [] s = Some s"
| "skip_ci (p # ps) [] = None"
| "skip_ci (p # ps) (c # cs) = (if lower_char c = lower_char p then skip_ci ps cs else None)"

definition is_byte_space :: "char \<Rightarrow> bool" where
  "is_byte_space c = (let n = of_char c :: nat in n = 32 \<or> (9 \<le> n \<and> n \<le> 13))"

text \<open>
  The same pattern is used on text and on bytes; they differ in what \<open>\s\<close> accepts, the
  parameter \<open>sp\<close>.
\<close>

definition bearer_here :: "(char \<Rightarrow> bool) \<Rightarrow> string \<Rightarrow> bool" where
  "bearer_here sp s = (case skip_ci ''authorization'' s of
     None \<Rightarrow> False
   | Some r \<Rightarrow> (case dropWhile sp r of
       c # r' \<Rightarrow> c = CHR '':'' \<and>
         (case skip_ci ''bearer'' (dropWhile sp r') of
            Some (d # q) \<Rightarrow> sp d \<and> dropWhile sp q \<noteq> []
          | _ \<Rightarrow> False)
     | [] \<Rightarrow> False))"

fun key_label_here :: "string \<Rightarrow> bool" where
  "key_label_here s =
     (skip_ci ''PRIVATE KEY-----'' s \<noteq> None \<or>
      (case s of c # r \<Rightarrow> (is_letter c \<or> c = CHR '' '') \<and> key_label_here r | [] \<Rightarrow> False))"

declare key_label_here.simps [simp del]

definition private_key_here :: "string \<Rightarrow> bool" where
  "private_key_here s = (case skip_ci ''-----BEGIN '' s of None \<Rightarrow> False | Some r \<Rightarrow> key_label_here r)"

fun credential_search :: "(char \<Rightarrow> bool) \<Rightarrow> string \<Rightarrow> bool" where
  "credential_search sp [] = False"
| "credential_search sp (c # cs) =
     (bearer_here sp (c # cs) \<or> private_key_here (c # cs) \<or> credential_search sp cs)"

lemma credential_search_suffix: "credential_search sp s \<Longrightarrow> credential_search sp (p @ s)"
  by (induction p) auto

definition credential_pattern :: "string \<Rightarrow> bool" where
  "credential_pattern s = credential_search is_space s"

definition credential_bytes :: "nat list \<Rightarrow> bool" where
  "credential_bytes bs = credential_search is_byte_space (map char_of bs)"

definition reject_credential_like_instructions :: "string \<Rightarrow> exn + unit" where
  "reject_credential_like_instructions t =
     (if credential_pattern t then Inl (AgentUserErr ''instructions_rejected'') else Inr ())"

text \<open>What the URL guard establishes, on the parts a client would use.\<close>

lemma safe_provider_url_no_credentials:
  "safe_provider_url v = Inr w \<Longrightarrow>
   w = v \<and> (\<exists>u. urlsplit v = Some u \<and> url_scheme u \<in> {''https'', ''http''} \<and> hostname u \<noteq> [] \<and>
      username u = [] \<and> password u = [] \<and> url_query u = [] \<and> url_fragment u = [])"
  by (auto simp: safe_provider_url_def split: option.splits if_splits)

end
