(* ===== verification/Protocol_Data.thy ===== *)
theory Protocol_Data
  imports Url
begin

text \<open>
  The version 1 agent DTOs of \<^verbatim>\<open>zerver/lib/agent_protocol.py\<close>: the enumerations, and for every
  pydantic model a record with the model's fields and a predicate \<open>valid_...\<close> that holds exactly
  when \<open>model_validate\<close> accepts the typed value: every field constraint and every
  \<open>model_validator\<close> of the class.  All rejections of a model are one exception
  (\<open>ProtocolInvalid\<close>), so a predicate is the whole behaviour.  The coercion of untyped JSON to
  the typed fields (\<open>extra="forbid"\<close>, strict integers) is pydantic's and not modelled.
\<close>

section \<open>Enumerations\<close>

datatype action =
    ContextRead | RepositoryRead | RepositoryEdit | ChecksRun | ShellRun | DependenciesInstall
  | GitCommit | GitPush | GitDraftPr | JobControl | JobReview | ProfileUse | ProviderUse
  | RunnerUse | ProfileManage | TeamManage

fun action_name :: "action \<Rightarrow> string" where
  "action_name ContextRead = ''context.read''"
| "action_name RepositoryRead = ''repository.read''"
| "action_name RepositoryEdit = ''repository.edit''"
| "action_name ChecksRun = ''checks.run''"
| "action_name ShellRun = ''shell.run''"
| "action_name DependenciesInstall = ''dependencies.install''"
| "action_name GitCommit = ''git.commit''"
| "action_name GitPush = ''git.push''"
| "action_name GitDraftPr = ''git.draft_pr''"
| "action_name JobControl = ''job.control''"
| "action_name JobReview = ''job.review''"
| "action_name ProfileUse = ''profile.use''"
| "action_name ProviderUse = ''provider.use''"
| "action_name RunnerUse = ''runner.use''"
| "action_name ProfileManage = ''profile.manage''"
| "action_name TeamManage = ''team.manage''"

definition execution_actions :: "action list" where
  "execution_actions = [ContextRead, RepositoryRead, RepositoryEdit, ChecksRun, ShellRun,
     DependenciesInstall, GitCommit, GitPush, GitDraftPr]"

lemma inj_action_name: "inj action_name"
proof (rule injI)
  fix a b assume "action_name a = action_name b"
  then show "a = b" by (cases a; cases b; simp)
qed

datatype job_state =
    Draft | Queued | Running | WaitingForInput | WaitingForApproval | Blocked | Verifying
  | CancelRequested | Cancelled | Interrupted | Failed | Completed

fun job_state_name :: "job_state \<Rightarrow> string" where
  "job_state_name Draft = ''draft''"
| "job_state_name Queued = ''queued''"
| "job_state_name Running = ''running''"
| "job_state_name WaitingForInput = ''waiting_for_input''"
| "job_state_name WaitingForApproval = ''waiting_for_approval''"
| "job_state_name Blocked = ''blocked''"
| "job_state_name Verifying = ''verifying''"
| "job_state_name CancelRequested = ''cancel_requested''"
| "job_state_name Cancelled = ''cancelled''"
| "job_state_name Interrupted = ''interrupted''"
| "job_state_name Failed = ''failed''"
| "job_state_name Completed = ''completed''"

datatype job_kind = KAnswer | KCode | KManage
datatype delivery_target = TAnswer | TPatch | TDraftPr
datatype profile_state = PDraft | PEnabled | PPaused | PArchived
datatype runner_state = ROnline | ROffline | RUnknown | RRevoked
datatype readiness_state = Unchecked | Checking | Ready | NeedsAction | ReadinessError
datatype process_state = Starting | Active | Stopping | Stopped | ProcUnknown
datatype phase = Inspect | Plan | Edit | Verify | Review | Deliver
datatype capability_result = CapPassed | CapUnsupported | CapUnknown
datatype input_state = InPending | InDelivered | InApplied | InUncertain | InCancelled
datatype trigger_kind = Mention | DirectMessage | Manual
datatype operation_state =
    Proposed | Authorized | OpStarted | OpSucceeded | OpFailed | OutcomeUnk | OpCancelled
datatype approval_state =
    ApPending | ApApproved | ApRejected | ApExpired | ApCancelled | ApConsumed

section \<open>Field types\<close>

abbreviation positive :: "int \<Rightarrow> bool" where "positive n \<equiv> 1 \<le> n"

definition opt_all :: "('a \<Rightarrow> bool) \<Rightarrow> 'a option \<Rightarrow> bool" where
  "opt_all P x = (case x of None \<Rightarrow> True | Some v \<Rightarrow> P v)"

lemma opt_all_simps [simp]: "opt_all P None" "opt_all P (Some v) = P v"
  by (simp_all add: opt_all_def)

definition len_in :: "nat \<Rightarrow> nat \<Rightarrow> 'a list \<Rightarrow> bool" where
  "len_in lo hi s = (lo \<le> length s \<and> length s \<le> hi)"

abbreviation text_ok :: "string \<Rightarrow> bool" where "text_ok s \<equiv> len_in 1 4096 s"

text \<open>Instructions are measured in UTF-16 code units, so their text is kept as code points.\<close>

type_synonym codepoints = "nat list"

definition utf16_units :: "codepoints \<Rightarrow> nat" where
  "utf16_units cps = sum_list (map (\<lambda>c. if c \<ge> 0x10000 then 2 else 1) cps)"

definition instructions_max_chars :: nat where "instructions_max_chars = 8000"

definition instructions_text_ok :: "codepoints \<Rightarrow> bool" where
  "instructions_text_ok cps =
     (length cps \<le> instructions_max_chars \<and> utf16_units cps \<le> instructions_max_chars)"

definition is_hex :: "char \<Rightarrow> bool" where
  "is_hex c = (is_decimal c \<or> c \<in> set ''abcdef'')"

definition digest_ok :: "string \<Rightarrow> bool" where
  "digest_ok s = (length s = 64 \<and> list_all is_hex s)"

definition git_hash_ok :: "string \<Rightarrow> bool" where
  "git_hash_ok s = (length s \<in> {40, 64} \<and> list_all is_hex s)"

definition is_word_char :: "char \<Rightarrow> bool" where
  "is_word_char c = (is_letter c \<or> is_decimal c \<or> c = CHR ''_'' \<or> c = CHR ''-'')"

definition alias_ok :: "nat \<Rightarrow> string \<Rightarrow> bool" where
  "alias_ok hi s = (len_in 1 hi s \<and> list_all is_word_char s)"

definition code_char :: "char \<Rightarrow> bool" where
  "code_char c = ((is_letter c \<and> lower_char c = c) \<or> is_decimal c \<or> c = CHR ''_'')"

definition max_event_bytes :: nat where "max_event_bytes = 64 * 1024"
definition max_artifact_bytes :: int where "max_artifact_bytes = 10 * 1024 * 1024"
definition max_job_artifact_bytes :: int where "max_job_artifact_bytes = 50 * 1024 * 1024"

section \<open>Readiness\<close>

record capability_report =
  cap_chat_ready :: bool
  cap_code_ready :: bool
  cap_tool_calling :: capability_result
  cap_team_tools :: capability_result
  cap_streaming :: capability_result
  cap_usage :: capability_result
  cap_native_resume :: capability_result
  cap_steering :: capability_result
  cap_sandbox :: capability_result
  cap_probed_at :: "time option"
  cap_runner_version :: string
  cap_adapter_version :: string
  cap_config_version :: int

definition valid_capability :: "capability_report \<Rightarrow> bool" where
  "valid_capability r =
     (positive (cap_config_version r) \<and>
      \<not> (cap_code_ready r \<and>
         (\<not> cap_chat_ready r \<or> cap_tool_calling r \<noteq> CapPassed \<or> cap_sandbox r \<noteq> CapPassed)))"

definition default_capability :: "int \<Rightarrow> capability_report" where
  "default_capability v = \<lparr>cap_chat_ready = False, cap_code_ready = False,
     cap_tool_calling = CapUnknown, cap_team_tools = CapUnknown, cap_streaming = CapUnknown,
     cap_usage = CapUnknown, cap_native_resume = CapUnknown, cap_steering = CapUnknown,
     cap_sandbox = CapUnknown, cap_probed_at = None, cap_runner_version = [],
     cap_adapter_version = [], cap_config_version = v\<rparr>"

datatype requirement_surface =
    SRunner | SRunnerWorkspace | SAdapter | SProvider | SGrant | SSandbox | SDiagnostic
datatype requirement_action =
    ConnectRunner | RegisterWorkspace | InstallAdapter | LoginVendor | EditProvider | ProbeAgain
  | RequestGrant | ConfigureSandbox | ViewDiagnostic

record requirement =
  req_code :: string
  req_surface :: requirement_surface
  req_action :: requirement_action
  req_diagnostic_id :: "uuid option"

definition valid_requirement :: "requirement \<Rightarrow> bool" where
  "valid_requirement r = (len_in 1 80 (req_code r) \<and> list_all code_char (req_code r))"

record readiness_report =
  rr_profile_id :: uuid
  rr_profile_revision :: int
  rr_runner_id :: uuid
  rr_descriptor_digest :: string
  rr_configuration_digest :: string
  rr_state :: readiness_state
  rr_capabilities :: capability_report
  rr_requirements :: "requirement list"

definition valid_readiness :: "readiness_report \<Rightarrow> bool" where
  "valid_readiness r =
     (positive (rr_profile_revision r) \<and> digest_ok (rr_descriptor_digest r) \<and>
      digest_ok (rr_configuration_digest r) \<and> valid_capability (rr_capabilities r) \<and>
      len_in 0 32 (rr_requirements r) \<and> list_all valid_requirement (rr_requirements r))"

section \<open>Network, provider\<close>

record network_target =
  nt_hostname :: string
  nt_port :: int
  nt_allow_private :: bool
  nt_allow_http_loopback :: bool
  nt_allow_http_private :: bool

definition valid_network_target :: "network_target \<Rightarrow> bool" where
  "valid_network_target t =
     (len_in 1 253 (nt_hostname t) \<and>
      list_all (\<lambda>c. is_letter c \<or> is_decimal c \<or> c \<in> set ''.:-'') (nt_hostname t) \<and>
      1 \<le> nt_port t \<and> nt_port t \<le> 65535 \<and>
      \<not> (nt_allow_http_private t \<and> \<not> nt_allow_private t))"

record network_policy =
  np_targets :: "network_target list"
  np_public_https_only :: bool
  np_block_metadata :: bool
  np_cross_origin_authorization :: bool
  np_project_network :: bool

definition valid_network_policy :: "network_policy \<Rightarrow> bool" where
  "valid_network_policy n =
     (len_in 0 32 (np_targets n) \<and> list_all valid_network_target (np_targets n) \<and>
      np_public_https_only n \<and> np_block_metadata n \<and>
      \<not> np_cross_origin_authorization n \<and> \<not> np_project_network n)"

definition default_network :: network_policy where
  "default_network = \<lparr>np_targets = [], np_public_https_only = True, np_block_metadata = True,
     np_cross_origin_authorization = False, np_project_network = False\<rparr>"

datatype secret_kind = ServerSecret | LocalSecret

record secret_reference =
  sr_kind :: secret_kind
  sr_id :: string
  sr_version :: int

definition valid_secret_reference :: "secret_reference \<Rightarrow> bool" where
  "valid_secret_reference r = (text_ok (sr_id r) \<and> positive (sr_version r))"

datatype api_mode = ChatCompletions | Responses
datatype data_scope = Synthetic | SelectedChat | SelectedRepository

record provider_config =
  prov_id :: uuid
  prov_owner_user_id :: uid
  prov_runner_id :: uuid
  prov_name :: string
  prov_base_url :: string
  prov_api_mode :: api_mode
  prov_model_id :: string
  prov_allowed_models :: "string list"
  prov_credential_ref :: "secret_reference option"
  prov_context_window_tokens :: int
  prov_max_output_tokens :: int
  prov_config_version :: int
  prov_data_scope :: "data_scope list"
  prov_network :: network_policy
  prov_capability_report :: capability_report

definition http_url_pattern :: "string \<Rightarrow> bool" where
  "http_url_pattern s =
     (((starts_with ''http://'' s \<and> drop 7 s \<noteq> []) \<or> (starts_with ''https://'' s \<and> drop 8 s \<noteq> [])) \<and>
      list_all (\<lambda>c. \<not> is_space c) s)"

definition base_url_ok :: "string \<Rightarrow> bool" where
  "base_url_ok s =
     (length s \<le> 2048 \<and> http_url_pattern s \<and>
      (case urlsplit s of
         None \<Rightarrow> False
       | Some u \<Rightarrow>
           hostname u \<noteq> [] \<and> username u = [] \<and> password u = [] \<and> url_query u = [] \<and>
           url_fragment u = [] \<and>
           (case port u of None \<Rightarrow> False | Some None \<Rightarrow> True | Some (Some n) \<Rightarrow> 1 \<le> n \<and> n \<le> 65535)))"

definition valid_provider_config :: "provider_config \<Rightarrow> bool" where
  "valid_provider_config p =
     (1 \<le> prov_owner_user_id p \<and> text_ok (prov_name p) \<and> base_url_ok (prov_base_url p) \<and>
      text_ok (prov_model_id p) \<and> len_in 1 100 (prov_allowed_models p) \<and>
      list_all text_ok (prov_allowed_models p) \<and>
      opt_all valid_secret_reference (prov_credential_ref p) \<and>
      positive (prov_context_window_tokens p) \<and> positive (prov_max_output_tokens p) \<and>
      positive (prov_config_version p) \<and> prov_data_scope p \<noteq> [] \<and>
      valid_network_policy (prov_network p) \<and> valid_capability (prov_capability_report p) \<and>
      prov_model_id p \<in> set (prov_allowed_models p) \<and>
      prov_max_output_tokens p \<le> prov_context_window_tokens p \<and>
      cap_config_version (prov_capability_report p) = prov_config_version p)"

section \<open>Repository, conversation, audience\<close>

record required_check =
  chk_id :: string
  chk_argv :: "string list"
  chk_cwd :: string
  chk_timeout_seconds :: int

definition workspace_path_ok :: "string \<Rightarrow> bool" where
  "workspace_path_ok p =
     (\<not> (starts_with ''/'' p \<or> starts_with [CHR 0x5C] p \<or>
         ''..'' \<in> set (split_on (CHR ''/'') (map (\<lambda>c. if c = CHR 0x5C then CHR ''/'' else c) p)) \<or>
         CHR '':'' \<in> set p))"

definition valid_required_check :: "required_check \<Rightarrow> bool" where
  "valid_required_check c =
     (alias_ok 80 (chk_id c) \<and> len_in 1 64 (chk_argv c) \<and> list_all text_ok (chk_argv c) \<and>
      len_in 0 512 (chk_cwd c) \<and> 1 \<le> chk_timeout_seconds c \<and> chk_timeout_seconds c \<le> 1200 \<and>
      workspace_path_ok (chk_cwd c))"

record repository_config =
  rc_id :: uuid
  rc_owner_user_id :: uid
  rc_runner_id :: uuid
  rc_workspace_alias :: string
  rc_canonical_origin :: "string option"
  rc_allowed_refs :: "string list"
  rc_base_ref :: string
  rc_base_commit :: "string option"
  rc_policy_version :: int
  rc_required_checks :: "required_check list"

definition valid_repository_config :: "repository_config \<Rightarrow> bool" where
  "valid_repository_config r =
     (1 \<le> rc_owner_user_id r \<and> alias_ok 80 (rc_workspace_alias r) \<and>
      len_in 1 100 (rc_allowed_refs r) \<and> list_all text_ok (rc_allowed_refs r) \<and>
      text_ok (rc_base_ref r) \<and> opt_all git_hash_ok (rc_base_commit r) \<and>
      positive (rc_policy_version r) \<and> len_in 0 64 (rc_required_checks r) \<and>
      list_all valid_required_check (rc_required_checks r) \<and>
      rc_base_ref r \<in> set (rc_allowed_refs r))"

datatype scope_kind = ScStream | ScDirect | ScSelected

record scope =
  sc_kind :: scope_kind
  sc_stream_id :: "nat option"
  sc_topic :: "string option"
  sc_participants :: "uid list"
  sc_anchor :: "nat option"

definition valid_scope :: "scope \<Rightarrow> bool" where
  "valid_scope s =
     (opt_all (\<lambda>n. 1 \<le> n) (sc_stream_id s) \<and> opt_all (len_in 0 200) (sc_topic s) \<and>
      len_in 0 100 (sc_participants s) \<and> list_all (\<lambda>n. 1 \<le> n) (sc_participants s) \<and>
      opt_all (\<lambda>n. 1 \<le> n) (sc_anchor s) \<and>
      \<not> (sc_kind s = ScStream \<and> (sc_stream_id s = None \<or> sc_participants s \<noteq> [])) \<and>
      \<not> (sc_kind s = ScDirect \<and> (sc_stream_id s \<noteq> None \<or> sc_participants s = [])) \<and>
      \<not> (sc_kind s = ScSelected \<and> sc_anchor s = None))"

datatype route_kind = RStream | RDirect

record audience =
  aud_conversation_id :: uuid
  aud_epoch :: int
  aud_realm_id :: nat
  aud_profile_id :: uuid
  aud_requester :: uid
  aud_bot :: uid
  aud_anchor :: nat
  aud_recipient_id :: nat
  aud_kind :: route_kind
  aud_stream_id :: "nat option"
  aud_invite_only :: "bool option"
  aud_web_public :: "bool option"
  aud_history_public :: "bool option"
  aud_user_ids :: "uid list"

definition valid_audience :: "audience \<Rightarrow> bool" where
  "valid_audience a =
     (positive (aud_epoch a) \<and> 1 \<le> aud_realm_id a \<and> 1 \<le> aud_requester a \<and> 1 \<le> aud_bot a \<and>
      1 \<le> aud_anchor a \<and> 1 \<le> aud_recipient_id a \<and> opt_all (\<lambda>n. 1 \<le> n) (aud_stream_id a) \<and>
      len_in 1 10000 (aud_user_ids a) \<and> list_all (\<lambda>n. 1 \<le> n) (aud_user_ids a) \<and>
      (aud_kind a = RStream) = (aud_stream_id a \<noteq> None) \<and>
      (let visibility = [aud_invite_only a, aud_web_public a, aud_history_public a] in
        \<not> ((aud_kind a = RStream \<and> list_ex (\<lambda>v. v = None) visibility) \<or>
           (aud_kind a = RDirect \<and> list_ex (\<lambda>v. v \<noteq> None) visibility))) \<and>
      aud_user_ids a = sorted_set id (aud_user_ids a) \<and>
      {aud_requester a, aud_bot a} \<subseteq> set (aud_user_ids a))"

section \<open>Grants\<close>

datatype target_kind = TkRunner | TkProvider | TkRepository | TkProfile

record grant_config =
  gc_principal_user :: "uid option"
  gc_principal_group :: "nat option"
  gc_target_kind :: target_kind
  gc_runner_id :: "uuid option"
  gc_provider_id :: "uuid option"
  gc_profile_id :: "uuid option"
  gc_repository_id :: "uuid option"
  gc_scope :: "scope option"
  gc_actions :: "action list"
  gc_policy_version :: int

fun gc_target :: "target_kind \<Rightarrow> grant_config \<Rightarrow> uuid option" where
  "gc_target TkRunner g = gc_runner_id g"
| "gc_target TkProvider g = gc_provider_id g"
| "gc_target TkRepository g = gc_repository_id g"
| "gc_target TkProfile g = gc_profile_id g"

definition repository_actions :: "action list" where
  "repository_actions = [RepositoryRead, RepositoryEdit, ChecksRun, ShellRun, DependenciesInstall,
     GitCommit, GitPush, GitDraftPr]"

fun target_actions :: "target_kind \<Rightarrow> action list option" where
  "target_actions TkRunner = Some [RunnerUse]"
| "target_actions TkProvider = Some [ProviderUse]"
| "target_actions TkRepository = Some repository_actions"
| "target_actions TkProfile = None"

definition valid_grant :: "grant_config \<Rightarrow> bool" where
  "valid_grant g =
     (opt_all (\<lambda>n. 1 \<le> n) (gc_principal_user g) \<and> opt_all (\<lambda>n. 1 \<le> n) (gc_principal_group g) \<and>
      opt_all valid_scope (gc_scope g) \<and> gc_actions g \<noteq> [] \<and> positive (gc_policy_version g) \<and>
      (gc_principal_user g = None) \<noteq> (gc_principal_group g = None) \<and>
      gc_target (gc_target_kind g) g \<noteq> None \<and>
      (let allowed = gc_target_kind g #
             (if gc_target_kind g = TkProfile then [TkRepository] else [])
       in list_all (\<lambda>k. gc_target k g \<noteq> None \<longrightarrow> k \<in> set allowed)
            [TkRunner, TkProvider, TkRepository, TkProfile]) \<and>
      (case target_actions (gc_target_kind g) of
         None \<Rightarrow> True | Some as \<Rightarrow> set (gc_actions g) \<subseteq> set as))"

end
