(* ===== verification/Json.thy ===== *)
theory Json
  imports Prelude "HOL-Library.Multiset"
begin

text \<open>
  The canonical JSON text that every digest and every size limit of the protocol is taken over
  (\<open>canonical_json\<close>, \<open>descriptor_digest\<close> and \<open>digest\<close> of \<^verbatim>\<open>zerver/lib/agent_protocol.py\<close> and
  \<^verbatim>\<open>zerver/actions/agent_jobs.py\<close>): \<open>json.dumps\<close> with sorted keys, no blanks and no escapes
  of non-ASCII characters, encoded as UTF-8.  A Python \<open>str\<close> is a list of characters with code
  points below 256; a dictionary is an association list.  The main lemma is unique decoding:
  two values have the same canonical text only if they are equal up to the order of their keys.
\<close>

section \<open>JSON values and their canonical form\<close>

datatype json =
    JNull
  | JBool bool
  | JInt int
  | JStr string
  | JList "json list"
  | JObj "(string \<times> json) list"

text \<open>\<open>sort_keys=True\<close>, on every level.\<close>

fun norm :: "json \<Rightarrow> json" where
  "norm (JList xs) = JList (map norm xs)"
| "norm (JObj kvs) = JObj (sort_key fst (map (\<lambda>(k, v). (k, norm v)) kvs))"
| "norm v = v"

section \<open>The text of a value\<close>

definition digit_char :: "nat \<Rightarrow> char" where
  "digit_char n = (if n < 10 then char_of (48 + n) else char_of (87 + n))"

fun nat_str :: "nat \<Rightarrow> string" where
  "nat_str n = (if n < 10 then [digit_char n] else nat_str (n div 10) @ [digit_char (n mod 10)])"

declare nat_str.simps [simp del]

definition int_str :: "int \<Rightarrow> string" where
  "int_str i = (if i < 0 then CHR ''-'' # nat_str (nat (- i)) else nat_str (nat i))"

text \<open>The two-character escapes of \<open>json.dumps\<close>; the other control characters become \<open>\u00XX\<close>.\<close>

definition escape_char :: "char \<Rightarrow> string" where
  "escape_char c =
     (if c = CHR 0x22 then [CHR 0x5C, CHR 0x22]
      else if c = CHR 0x5C then [CHR 0x5C, CHR 0x5C]
      else if c = CHR 0x0A then [CHR 0x5C, CHR ''n'']
      else if c = CHR 0x0D then [CHR 0x5C, CHR ''r'']
      else if c = CHR 0x09 then [CHR 0x5C, CHR ''t'']
      else if c = CHR 0x0C then [CHR 0x5C, CHR ''f'']
      else if c = CHR 0x08 then [CHR 0x5C, CHR ''b'']
      else if (of_char c :: nat) < 32 then
        [CHR 0x5C, CHR ''u'', CHR ''0'', CHR ''0'',
         digit_char (of_char c div 16), digit_char (of_char c mod 16)]
      else [c])"

definition quote :: "string \<Rightarrow> string" where
  "quote s = CHR 0x22 # concat (map escape_char s) @ [CHR 0x22]"

fun join_comma :: "string list \<Rightarrow> string" where
  "join_comma [] = []"
| "join_comma [x] = x"
| "join_comma (x # y # ys) = x @ CHR '','' # join_comma (y # ys)"

fun render :: "json \<Rightarrow> string" where
  "render JNull = ''null''"
| "render (JBool b) = (if b then ''true'' else ''false'')"
| "render (JInt i) = int_str i"
| "render (JStr s) = quote s"
| "render (JList xs) = CHR ''['' # join_comma (map render xs) @ '']''"
| "render (JObj kvs) =
     CHR ''{'' # join_comma (map (\<lambda>(k, v). quote k @ CHR '':'' # render v) kvs) @ ''}''"

definition utf8 :: "string \<Rightarrow> nat list" where
  "utf8 s = concat (map (\<lambda>c. let n = of_char c
       in if n < 128 then [n] else [192 + n div 64, 128 + n mod 64]) s)"

definition canonical_json :: "json \<Rightarrow> nat list" where
  "canonical_json v = utf8 (render (norm v))"

text \<open>
  \<open>digest\<close>: the hash function is a parameter, from bytes to the hexadecimal text.
  \<open>descriptor_digest\<close> leaves out the descriptor's own digest field.
\<close>

definition digest :: "(nat list \<Rightarrow> string) \<Rightarrow> json \<Rightarrow> string" where
  "digest sha v = sha (canonical_json v)"

definition descriptor_digest :: "(nat list \<Rightarrow> string) \<Rightarrow> (string \<times> json) list \<Rightarrow> string" where
  "descriptor_digest sha kvs =
     sha (canonical_json (JObj (filter (\<lambda>(k, v). k \<noteq> ''descriptor_digest'') kvs)))"

section \<open>Unique decoding\<close>

text \<open>What follows a value inside a text: nothing, a comma or a closing bracket.\<close>

definition delimited :: "string \<Rightarrow> bool" where
  "delimited r = (r = [] \<or> hd r \<in> {CHR '','', CHR '']'', CHR ''}''})"

lemma delimited_simps [simp]:
  "delimited []" "delimited (CHR '','' # r)" "delimited (CHR '']'' # r)" "delimited (CHR ''}'' # r)"
  by (simp_all add: delimited_def)

lemma digit_char_inj: "m < 16 \<Longrightarrow> n < 16 \<Longrightarrow> digit_char m = digit_char n \<Longrightarrow> m = n"
  by (auto simp: digit_char_def split: if_splits dest!: arg_cong [where f = "of_char :: char \<Rightarrow> nat"])

definition is_digit :: "char \<Rightarrow> bool" where
  "is_digit c = ((48::nat) \<le> of_char c \<and> (of_char c :: nat) < 58)"

lemma is_digit_digit_char: "n < 10 \<Longrightarrow> is_digit (digit_char n)"
  by (simp add: digit_char_def is_digit_def)

lemma nat_str_digits: "list_all is_digit (nat_str n)"
proof (induction n rule: nat_str.induct)
  case (1 n)
  then show ?case
    by (subst nat_str.simps) (simp add: is_digit_digit_char)
qed

lemma nat_str_nonempty [simp]: "nat_str n \<noteq> []"
  by (subst nat_str.simps) simp

definition digits_val :: "string \<Rightarrow> nat" where
  "digits_val s = foldl (\<lambda>n c. 10 * n + (of_char c - 48)) 0 s"

lemma digits_val_snoc: "digits_val (s @ [c]) = 10 * digits_val s + (of_char c - 48)"
  by (simp add: digits_val_def)

lemma digits_val_nat_str: "digits_val (nat_str n) = n"
proof (induction n rule: nat_str.induct)
  case (1 n)
  show ?case
  proof (cases "n < 10")
    case True
    then show ?thesis
      by (subst nat_str.simps) (simp add: digits_val_def digit_char_def)
  next
    case False
    with 1 have "digits_val (nat_str (n div 10)) = n div 10" by simp
    with False show ?thesis
      by (subst nat_str.simps) (simp add: digits_val_snoc digit_char_def)
  qed
qed

lemma nat_str_inj: "nat_str m = nat_str n \<Longrightarrow> m = n"
  by (metis digits_val_nat_str)

lemma delimited_not_digit: "delimited (c # r) \<Longrightarrow> \<not> is_digit c"
  by (auto simp: delimited_def is_digit_def)

lemma digits_split:
  assumes "list_all is_digit s" "list_all is_digit t" "delimited r" "delimited q" "s @ r = t @ q"
  shows "s = t \<and> r = q"
proof -
  have "takeWhile is_digit (s @ r) = s" if "list_all is_digit s" "delimited r" for s r
    using that by (cases r) (auto simp: list_all_iff takeWhile_append2 dest: delimited_not_digit)
  with assms have "s = t" by metis
  with assms(5) show ?thesis by simp
qed

lemma hd_int_str: "hd (int_str i @ r) = CHR ''-'' \<or> is_digit (hd (int_str i @ r))"
proof -
  have "is_digit (hd (nat_str n @ x))" for n x
    using nat_str_digits [of n] by (cases "nat_str n") auto
  then show ?thesis
    by (simp add: int_str_def)
qed

lemma int_str_nonempty [simp]: "int_str i \<noteq> []"
  by (simp add: int_str_def)

lemma int_str_split:
  assumes "int_str i @ r = int_str j @ q" "delimited r" "delimited q"
  shows "i = j \<and> r = q"
proof -
  have nd: "nat_str n @ x \<noteq> CHR ''-'' # y" for n x y
    using nat_str_digits [of n] by (cases "nat_str n") (auto simp: is_digit_def)
  have neq: "(i < 0) = (j < 0)"
    using assms(1) nd by (auto simp: int_str_def split: if_splits) metis+
  then have "nat_str (nat \<bar>i\<bar>) @ r = nat_str (nat \<bar>j\<bar>) @ q"
    using assms(1) by (auto simp: int_str_def split: if_splits)
  then have "nat_str (nat \<bar>i\<bar>) = nat_str (nat \<bar>j\<bar>) \<and> r = q"
    using digits_split nat_str_digits assms(2,3) by blast
  with neq show ?thesis
    by (auto dest!: nat_str_inj)
qed

lemma escape_char_nonempty [simp]: "escape_char c \<noteq> []"
  by (simp add: escape_char_def)

lemma escape_char_hd: "hd (escape_char c @ r) \<noteq> CHR 0x22"
  by (simp add: escape_char_def)

lemma escape_char_split:
  assumes "escape_char c @ r = escape_char d @ q"
  shows "c = d \<and> r = q"
proof -
  let ?low = "\<lambda>x. (of_char x :: nat) < 32"
  have small: "of_char x div 16 < (16::nat)" "of_char x mod 16 < (16::nat)" if "?low x" for x :: char
    using that by auto
  have hex: "x = y"
    if "?low x" "?low y"
      "digit_char (of_char x div 16) = digit_char (of_char y div 16)"
      "digit_char (of_char x mod 16) = digit_char (of_char y mod 16)" for x y :: char
  proof -
    have "of_char x div 16 = (of_char y div 16 :: nat)" "of_char x mod 16 = (of_char y mod 16 :: nat)"
      using that small by (auto intro: digit_char_inj)
    then have "of_char x = (of_char y :: nat)"
      by (metis div_mult_mod_eq)
    then show ?thesis by simp
  qed
  show ?thesis
    using assms by (auto simp: escape_char_def split: if_splits dest: hex)
qed

lemma escaped_split:
  "concat (map escape_char s) @ CHR 0x22 # r = concat (map escape_char t) @ CHR 0x22 # q \<Longrightarrow>
   s = t \<and> r = q"
proof (induction s arbitrary: t)
  case Nil
  then show ?case
    by (cases t) (auto, metis append_assoc escape_char_hd list.sel(1))
next
  case (Cons c s)
  show ?case
  proof (cases t)
    case Nil
    with Cons.prems show ?thesis
      by simp (metis escape_char_hd list.sel(1))
  next
    case (Cons d t')
    with Cons.prems have eq: "escape_char c @ (concat (map escape_char s) @ CHR 0x22 # r) =
        escape_char d @ (concat (map escape_char t') @ CHR 0x22 # q)"
      by simp
    show ?thesis
      using escape_char_split [OF eq] Cons.IH [of t'] Cons by auto
  qed
qed

lemma quote_split: "quote s @ r = quote t @ q \<Longrightarrow> s = t \<and> r = q"
  by (auto simp: quote_def dest: escaped_split)

text \<open>
  A comma-separated sequence is decoded uniquely when its elements are, no element starts with a
  delimiter, and a closing bracket follows.
\<close>

lemma join_comma_Cons:
  "join_comma (x # xs) = x @ (if xs = [] then [] else CHR '','' # join_comma xs)"
  by (cases xs) simp_all

lemma join_split:
  assumes split: "\<And>x y r q. x \<in> set xs \<Longrightarrow> f x @ r = f y @ q \<Longrightarrow> delimited r \<Longrightarrow> delimited q \<Longrightarrow>
      x = y \<and> r = q"
    and start: "\<And>x. f x \<noteq> [] \<and> \<not> delimited (f x)"
    and close: "c = CHR '']'' \<or> c = CHR ''}''"
    and eq: "join_comma (map f xs) @ c # r = join_comma (map f ys) @ c # q"
  shows "xs = ys \<and> r = q"
  using split eq
proof (induction xs arbitrary: ys)
  case Nil
  then show ?case
    using start close by (cases ys) (auto simp: join_comma_Cons delimited_def neq_Nil_conv, (metis append_Cons list.sel(1))+)
next
  case (Cons x xs)
  show ?case
  proof (cases ys)
    case Nil
    with Cons.prems(2) start [of x] close show ?thesis
      by (auto simp: join_comma_Cons delimited_def neq_Nil_conv)
  next
    case (Cons y ys')
    let ?t = "\<lambda>zs r. (if zs = [] then [] else CHR '','' # join_comma (map f zs)) @ c # r"
    from Cons.prems(2) Cons have "f x @ ?t xs r = f y @ ?t ys' q"
      by (simp add: join_comma_Cons)
    then have xy: "x = y" and t: "?t xs r = ?t ys' q"
      using Cons.prems(1) [of x "?t xs r" y "?t ys' q"] close by (auto simp: delimited_def)
    from t close have "join_comma (map f xs) @ c # r = join_comma (map f ys') @ c # q"
      by (auto split: if_splits)
    then have "xs = ys' \<and> r = q"
      using Cons.IH Cons.prems(1) by (meson list.set_intros(2))
    with xy Cons show ?thesis by simp
  qed
qed

lemma render_start: "render v \<noteq> [] \<and> \<not> delimited (render v)"
proof (cases v)
  case (JInt i)
  then show ?thesis
    using hd_int_str [of i "[]"] by (auto simp: delimited_def is_digit_def)
qed (auto simp: delimited_def quote_def)

text \<open>The first character of a text tells the constructor of the value.\<close>

definition kind_of :: "char \<Rightarrow> nat" where
  "kind_of c = (if c = CHR ''n'' then 0 else if c = CHR ''t'' then 1 else if c = CHR ''f'' then 2
     else if c = CHR 0x22 then 3 else if c = CHR ''['' then 4 else if c = CHR ''{'' then 5 else 6)"

fun json_kind :: "json \<Rightarrow> nat" where
  "json_kind JNull = 0"
| "json_kind (JBool b) = (if b then 1 else 2)"
| "json_kind (JStr _) = 3"
| "json_kind (JList _) = 4"
| "json_kind (JObj _) = 5"
| "json_kind (JInt _) = 6"

lemma kind_of_render: "kind_of (hd (render v @ r)) = json_kind v"
proof (cases v)
  case (JInt i)
  then show ?thesis
    using hd_int_str [of i r] by (auto simp: kind_of_def is_digit_def)
qed (auto simp: kind_of_def quote_def)

lemma json_kind_cases:
  "json_kind v = json_kind w \<Longrightarrow>
   (v = JNull \<and> w = JNull) \<or> (\<exists>b. v = JBool b \<and> w = JBool b) \<or> (\<exists>s t. v = JStr s \<and> w = JStr t) \<or>
   (\<exists>xs ys. v = JList xs \<and> w = JList ys) \<or> (\<exists>xs ys. v = JObj xs \<and> w = JObj ys) \<or>
   (\<exists>i j. v = JInt i \<and> w = JInt j)"
  by (cases v; cases w) (auto split: if_splits)

lemma member_split:
  assumes "\<And>w r q. render v @ r = render w @ q \<Longrightarrow> delimited r \<Longrightarrow> delimited q \<Longrightarrow> v = w \<and> r = q"
    and "(\<lambda>(k, v). quote k @ CHR '':'' # render v) (k, v) @ r =
         (\<lambda>(k, v). quote k @ CHR '':'' # render v) y @ q"
    and "delimited r" "delimited q"
  shows "(k, v) = y \<and> r = q"
proof (cases y)
  case (Pair k' w)
  with assms(2) have "quote k @ (CHR '':'' # render v @ r) = quote k' @ (CHR '':'' # render w @ q)"
    by simp
  then have "k = k' \<and> render v @ r = render w @ q"
    by (auto dest: quote_split)
  with assms(1) [of r w q] assms(3,4) Pair show ?thesis by simp
qed

lemma render_split:
  "render v @ r = render w @ q \<Longrightarrow> delimited r \<Longrightarrow> delimited q \<Longrightarrow> v = w \<and> r = q"
proof (induction v arbitrary: w r q)
  case (JList xs)
  then obtain ys where w: "w = JList ys"
    using json_kind_cases [of "JList xs" w] kind_of_render [of "JList xs" r] kind_of_render [of w q] by auto
  have "xs = ys \<and> r = q"
    by (rule join_split [where f = render and c = "CHR '']''"])
      (use JList w render_start in auto)
  with w show ?case by simp
next
  case (JObj kvs)
  then obtain ys where w: "w = JObj ys"
    using json_kind_cases [of "JObj kvs" w] kind_of_render [of "JObj kvs" r] kind_of_render [of w q] by auto
  let ?f = "\<lambda>(k, v). quote k @ CHR '':'' # render v"
  have st: "?f x \<noteq> [] \<and> \<not> delimited (?f x)" for x
    by (cases x) (simp add: quote_def delimited_def)
  have sp: "x = y \<and> r = q" if "x \<in> set kvs" "?f x @ r = ?f y @ q" "delimited r" "delimited q" for x y r q
  proof (cases x)
    case (Pair k v)
    have "\<And>w r q. render v @ r = render w @ q \<Longrightarrow> delimited r \<Longrightarrow> delimited q \<Longrightarrow> v = w \<and> r = q"
      using JObj.IH [of "(k, v)" v] that(1) Pair by simp
    from member_split [OF this that(2) [unfolded Pair] that(3,4)] Pair show ?thesis by simp
  qed
  have "kvs = ys \<and> r = q"
    by (rule join_split [where f = ?f and c = "CHR ''}''", OF sp st]) (use JObj.prems w in auto)
  with w show ?case by simp
next
  case (JInt i)
  have "json_kind (JInt i) = json_kind w"
    using JInt(1) kind_of_render by metis
  then obtain j where w: "w = JInt j"
    by (cases w) (auto split: if_splits)
  with JInt int_str_split [of i r j q] show ?case by simp
next
  case (JStr s)
  have "json_kind (JStr s) = json_kind w"
    using JStr(1) kind_of_render by metis
  then obtain t where w: "w = JStr t"
    by (cases w) (auto split: if_splits)
  with JStr quote_split [of s r t q] show ?case by simp
next
  case (JBool b)
  have "json_kind (JBool b) = json_kind w"
    using JBool(1) kind_of_render by metis
  then have "w = JBool b"
    by (cases w) (auto split: if_splits)
  with JBool show ?case by simp
next
  case JNull
  have "json_kind JNull = json_kind w"
    using JNull(1) kind_of_render by metis
  then have "w = JNull"
    by (cases w) (auto split: if_splits)
  with JNull show ?case by simp
qed

lemma render_inj: "render v = render w \<Longrightarrow> v = w"
  using render_split [of v "[]" w "[]"] by simp

section \<open>UTF-8\<close>

definition utf8_char :: "char \<Rightarrow> nat list" where
  "utf8_char c = (let n = of_char c in if n < 128 then [n] else [192 + n div 64, 128 + n mod 64])"

lemma utf8_char_split: "utf8_char c @ r = utf8_char d @ q \<Longrightarrow> c = d \<and> r = q"
proof -
  assume eq: "utf8_char c @ r = utf8_char d @ q"
  have b: "(of_char x :: nat) < 256" for x :: char
    by (rule nat_of_char_less_256)
  let ?n = "of_char c :: nat" and ?m = "of_char d :: nat"
  have "(?n < 128) = (?m < 128)" and "r = q"
    using eq b [of c] b [of d] by (auto simp: utf8_char_def Let_def split: if_splits)
  moreover have "?n = ?m"
  proof (cases "?n < 128")
    case True
    with eq calculation show ?thesis by (simp add: utf8_char_def Let_def)
  next
    case False
    with eq calculation have "?n div 64 = ?m div 64" "?n mod 64 = ?m mod 64"
      by (auto simp: utf8_char_def Let_def)
    then show ?thesis by (metis div_mult_mod_eq)
  qed
  ultimately show "c = d \<and> r = q" by simp
qed

lemma utf8_inj: "utf8 s = utf8 t \<Longrightarrow> s = t"
proof (induction s arbitrary: t)
  case Nil
  then show ?case by (cases t) (auto simp: utf8_def Let_def split: if_splits)
next
  case (Cons c s)
  then show ?case
  proof (cases t)
    case Nil
    with Cons.prems show ?thesis by (simp add: utf8_def Let_def split: if_splits)
  next
    case (Cons d t')
    with Cons.prems have "utf8_char c @ utf8 s = utf8_char d @ utf8 t'"
      by (simp add: utf8_def utf8_char_def)
    with Cons.IH Cons show ?thesis by (auto dest: utf8_char_split)
  qed
qed

section \<open>What the canonical text identifies\<close>

lemma canonical_json_eq_iff: "canonical_json v = canonical_json w \<longleftrightarrow> norm v = norm w"
  by (auto simp: canonical_json_def dest!: utf8_inj render_inj)

lemma sort_key_perm:
  assumes "mset kvs = mset kvs'" "distinct (map fst kvs)"
  shows "sort_key fst kvs = sort_key fst kvs'"
proof -
  have "distinct (map fst kvs')"
    using assms by (metis mset_map mset_eq_imp_distinct_iff)
  then show ?thesis
    using assms by (intro sort_key_eq_sort_key) (auto simp: distinct_map)
qed

end
