(* ===== verification/Protocol_Attempt.thy ===== *)
theory Protocol_Attempt
  imports Protocol_Data Json
begin

text \<open>
  Runtime configuration in \<^verbatim>\<open>zerver/lib/agent_protocol.py\<close>: sandbox, catalog, policy, budget,
  the tested execution configuration, and the attempt and probe descriptors with their
  validators.  \<open>validate_attempt_configuration\<close> is the rule that an attempt may only narrow the
  authority its configuration was tested with.  The hash function \<open>sha\<close> is a parameter, from
  bytes to the hexadecimal digest.
\<close>

section \<open>Sandbox, catalog, policy, budget\<close>

datatype adapter_mode = Acp | Endpoint

record adapter_config =
  ad_id :: string
  ad_version :: string
  ad_mode :: adapter_mode

definition valid_adapter :: "adapter_config \<Rightarrow> bool" where
  "valid_adapter a = (alias_ok 80 (ad_id a) \<and> text_ok (ad_version a))"

record sandbox_config =
  sb_alias :: string
  sb_image_digest :: string
  sb_toolchain_digest :: string
  sb_catalog_revision :: int
  sb_cpu_millicores :: int
  sb_memory_bytes :: int
  sb_pids_limit :: int
  sb_temporary_bytes :: int

definition valid_sandbox :: "sandbox_config \<Rightarrow> bool" where
  "valid_sandbox s =
     (alias_ok 80 (sb_alias s) \<and>
      starts_with ''sha256:'' (sb_image_digest s) \<and> digest_ok (drop 7 (sb_image_digest s)) \<and>
      digest_ok (sb_toolchain_digest s) \<and> positive (sb_catalog_revision s) \<and>
      100 \<le> sb_cpu_millicores s \<and> sb_cpu_millicores s \<le> 64000 \<and>
      67108864 \<le> sb_memory_bytes s \<and> sb_memory_bytes s \<le> 137438953472 \<and>
      16 \<le> sb_pids_limit s \<and> sb_pids_limit s \<le> 4096 \<and>
      1048576 \<le> sb_temporary_bytes s \<and> sb_temporary_bytes s \<le> 10737418240)"

datatype auth_state = AuthUnchecked | AuthReady | LoginRequired | AuthExpired | AuthError

record adapter_entry =
  ae_id :: string
  ae_version :: string
  ae_auth_state :: auth_state
  ae_capabilities :: capability_report

definition valid_adapter_entry :: "adapter_entry \<Rightarrow> bool" where
  "valid_adapter_entry e =
     (alias_ok 80 (ae_id e) \<and> text_ok (ae_version e) \<and> valid_capability (ae_capabilities e))"

record runner_catalog =
  cat_revision :: int
  cat_reported_at :: "time option"
  cat_adapters :: "adapter_entry list"
  cat_sandboxes :: "sandbox_config list"

definition valid_catalog :: "runner_catalog \<Rightarrow> bool" where
  "valid_catalog c =
     (positive (cat_revision c) \<and>
      len_in 0 100 (cat_adapters c) \<and> list_all valid_adapter_entry (cat_adapters c) \<and>
      len_in 0 100 (cat_sandboxes c) \<and> list_all valid_sandbox (cat_sandboxes c))"

record policy =
  pol_version :: int
  pol_actions :: "action list"
  pol_grant_ids :: "uuid list"
  pol_scope :: scope
  pol_sandbox :: sandbox_config
  pol_network :: network_policy
  pol_hard_cost_cap :: bool

definition valid_policy :: "policy \<Rightarrow> bool" where
  "valid_policy p =
     (positive (pol_version p) \<and> set (pol_actions p) \<subseteq> set execution_actions \<and>
      len_in 0 100 (pol_grant_ids p) \<and> valid_scope (pol_scope p) \<and>
      valid_sandbox (pol_sandbox p) \<and> valid_network_policy (pol_network p))"

record budget =
  bud_active_seconds :: int
  bud_tool_rounds :: int
  bud_shell_timeout_seconds :: int
  bud_transport_retries :: int
  bud_context_recoveries :: int
  bud_input_tokens :: int
  bud_output_tokens :: int
  bud_tool_output_bytes :: int
  bud_artifact_bytes :: int
  bud_job_artifact_bytes :: int
  bud_cost_limit :: "int option"

definition valid_budget :: "budget \<Rightarrow> bool" where
  "valid_budget b =
     (1 \<le> bud_active_seconds b \<and> bud_active_seconds b \<le> 7200 \<and>
      1 \<le> bud_tool_rounds b \<and> bud_tool_rounds b \<le> 40 \<and>
      1 \<le> bud_shell_timeout_seconds b \<and> bud_shell_timeout_seconds b \<le> 120 \<and>
      0 \<le> bud_transport_retries b \<and> bud_transport_retries b \<le> 2 \<and>
      0 \<le> bud_context_recoveries b \<and> bud_context_recoveries b \<le> 2 \<and>
      positive (bud_input_tokens b) \<and> positive (bud_output_tokens b) \<and>
      1 \<le> bud_tool_output_bytes b \<and> bud_tool_output_bytes b \<le> 51200 \<and>
      1 \<le> bud_artifact_bytes b \<and> bud_artifact_bytes b \<le> max_artifact_bytes \<and>
      1 \<le> bud_job_artifact_bytes b \<and> bud_job_artifact_bytes b \<le> max_job_artifact_bytes \<and>
      opt_all positive (bud_cost_limit b))"

text \<open>The defaults of \<open>Budget\<close>, with the two required fields.\<close>

definition default_budget_fields :: "int \<Rightarrow> int \<Rightarrow> budget" where
  "default_budget_fields inp out = \<lparr>bud_active_seconds = 3600, bud_tool_rounds = 40,
     bud_shell_timeout_seconds = 120, bud_transport_retries = 2, bud_context_recoveries = 2,
     bud_input_tokens = inp, bud_output_tokens = out, bud_tool_output_bytes = 51200,
     bud_artifact_bytes = max_artifact_bytes, bud_job_artifact_bytes = max_job_artifact_bytes,
     bud_cost_limit = None\<rparr>"

record profile_config =
  pf_id :: uuid
  pf_owner_user_id :: uid
  pf_bot_user_id :: uid
  pf_runner_id :: uuid
  pf_name :: string
  pf_description :: string
  pf_revision :: int
  pf_desired_state :: profile_state
  pf_default_mode :: job_kind
  pf_default_repository_id :: "uuid option"
  pf_adapter :: adapter_config
  pf_provider_id :: "uuid option"
  pf_enabled_revision :: "int option"
  pf_readiness_revision :: "int option"
  pf_readiness_state :: readiness_state
  pf_capabilities :: capability_report
  pf_policy :: policy
  pf_budget :: budget

definition valid_profile_config :: "profile_config \<Rightarrow> bool" where
  "valid_profile_config p =
     (1 \<le> pf_owner_user_id p \<and> 1 \<le> pf_bot_user_id p \<and> text_ok (pf_name p) \<and>
      len_in 0 4096 (pf_description p) \<and> positive (pf_revision p) \<and> valid_adapter (pf_adapter p) \<and>
      opt_all positive (pf_enabled_revision p) \<and> opt_all positive (pf_readiness_revision p) \<and>
      valid_capability (pf_capabilities p) \<and> valid_policy (pf_policy p) \<and> valid_budget (pf_budget p) \<and>
      \<not> (ad_mode (pf_adapter p) = Endpoint \<and> pf_provider_id p = None) \<and>
      \<not> (pf_desired_state p = PEnabled \<and> pf_enabled_revision p = None) \<and>
      opt_all (\<lambda>r. r \<le> pf_revision p) (pf_enabled_revision p) \<and>
      opt_all (\<lambda>r. r \<le> pf_revision p) (pf_readiness_revision p))"

section \<open>Context, inputs, checkpoints\<close>

datatype ref_kind = RefMessage | RefAttachment | RefRepository

record context_reference =
  cx_id :: uuid
  cx_kind :: ref_kind
  cx_message_id :: "nat option"
  cx_attachment_id :: "nat option"
  cx_repository_id :: "uuid option"
  cx_scope :: scope
  cx_validated_at :: time

definition valid_context_reference :: "context_reference \<Rightarrow> bool" where
  "valid_context_reference c =
     (opt_all (\<lambda>n. 1 \<le> n) (cx_message_id c) \<and> opt_all (\<lambda>n. 1 \<le> n) (cx_attachment_id c) \<and>
      valid_scope (cx_scope c) \<and>
      (let fields = [cx_message_id c \<noteq> None, cx_attachment_id c \<noteq> None, cx_repository_id c \<noteq> None]
       in (case cx_kind c of RefMessage \<Rightarrow> fields ! 0 | RefAttachment \<Rightarrow> fields ! 1
           | RefRepository \<Rightarrow> fields ! 2) \<and>
          length (filter (\<lambda>b. b) fields) = 1))"

datatype input_type = Steering | Answer | Replan

record input_record =
  ir_id :: uuid
  ir_author :: uid
  ir_source_message_id :: "nat option"
  ir_client_key :: uuid
  ir_sequence :: int
  ir_input_type :: input_type
  ir_text :: string
  ir_delivery_state :: input_state

definition valid_input_record :: "input_record \<Rightarrow> bool" where
  "valid_input_record i =
     (1 \<le> ir_author i \<and> opt_all (\<lambda>n. 1 \<le> n) (ir_source_message_id i) \<and>
      positive (ir_sequence i) \<and> len_in 1 20000 (ir_text i))"

record checkpoint_dto =
  cp_id :: uuid
  cp_source_attempt_id :: uuid
  cp_base_commit :: "string option"
  cp_tree_hash :: "string option"
  cp_summary :: string
  cp_context_ref_ids :: "uuid list"
  cp_artifact_ids :: "uuid list"
  cp_remaining_work :: "string list"
  cp_next_step :: string
  cp_adapter_session_ref :: "string option"
  cp_input_cursor :: int

definition valid_checkpoint :: "checkpoint_dto \<Rightarrow> bool" where
  "valid_checkpoint c =
     (opt_all git_hash_ok (cp_base_commit c) \<and> opt_all git_hash_ok (cp_tree_hash c) \<and>
      len_in 0 20000 (cp_summary c) \<and> len_in 0 100 (cp_context_ref_ids c) \<and>
      len_in 0 100 (cp_artifact_ids c) \<and> len_in 0 100 (cp_remaining_work c) \<and>
      list_all text_ok (cp_remaining_work c) \<and> text_ok (cp_next_step c) \<and> 0 \<le> cp_input_cursor c)"

record lease_identity =
  li_job_id :: uuid
  li_attempt_id :: uuid
  li_lease_epoch :: int

definition valid_lease :: "lease_identity \<Rightarrow> bool" where
  "valid_lease l = positive (li_lease_epoch l)"

section \<open>The tested execution configuration\<close>

record workspace_binding =
  wb_canonical_origin :: "string option"
  wb_repository_id :: uuid
  wb_workspace_alias :: string
  wb_policy_version :: int
  wb_checks_digest :: string
  wb_allowed_refs :: "string list"

definition valid_binding :: "workspace_binding \<Rightarrow> bool" where
  "valid_binding w =
     (opt_all text_ok (wb_canonical_origin w) \<and> alias_ok 80 (wb_workspace_alias w) \<and>
      positive (wb_policy_version w) \<and> digest_ok (wb_checks_digest w) \<and>
      list_all text_ok (wb_allowed_refs w))"

record effective_provider =
  ep_id :: uuid
  ep_config_version :: int
  ep_base_url :: string
  ep_api_mode :: api_mode
  ep_model_id :: string
  ep_allowed_models :: "string list"
  ep_credential_ref :: "secret_reference option"
  ep_context_window_tokens :: int
  ep_max_output_tokens :: int
  ep_data_scope :: "data_scope list"
  ep_network :: network_policy

definition valid_effective_provider :: "effective_provider \<Rightarrow> bool" where
  "valid_effective_provider p =
     (positive (ep_config_version p) \<and> opt_all valid_secret_reference (ep_credential_ref p) \<and>
      positive (ep_context_window_tokens p) \<and> positive (ep_max_output_tokens p) \<and>
      valid_network_policy (ep_network p))"

text \<open>\<open>model_dump(include=...)\<close>: the fields of \<open>EffectiveProvider\<close> out of a provider.\<close>

definition effective_provider_of :: "provider_config \<Rightarrow> effective_provider" where
  "effective_provider_of p = \<lparr>ep_id = prov_id p, ep_config_version = prov_config_version p,
     ep_base_url = prov_base_url p, ep_api_mode = prov_api_mode p, ep_model_id = prov_model_id p,
     ep_allowed_models = prov_allowed_models p, ep_credential_ref = prov_credential_ref p,
     ep_context_window_tokens = prov_context_window_tokens p,
     ep_max_output_tokens = prov_max_output_tokens p, ep_data_scope = prov_data_scope p,
     ep_network = prov_network p\<rparr>"

definition utf8_point :: "nat \<Rightarrow> nat list" where
  "utf8_point n =
     (if n < 0x80 then [n]
      else if n < 0x800 then [0xC0 + n div 64, 0x80 + n mod 64]
      else if n < 0x10000 then [0xE0 + n div 4096, 0x80 + n div 64 mod 64, 0x80 + n mod 64]
      else [0xF0 + n div 262144, 0x80 + n div 4096 mod 64, 0x80 + n div 64 mod 64, 0x80 + n mod 64])"

definition instructions_digest :: "(nat list \<Rightarrow> string) \<Rightarrow> codepoints \<Rightarrow> string option" where
  "instructions_digest sha cps = (if cps = [] then None else Some (sha (concat (map utf8_point cps))))"

record instruction_text =
  it_revision :: int
  it_text :: codepoints

definition valid_instruction_text :: "instruction_text \<Rightarrow> bool" where
  "valid_instruction_text t =
     (positive (it_revision t) \<and> it_text t \<noteq> [] \<and> instructions_text_ok (it_text t))"

record attempt_instructions =
  ai_team :: "instruction_text option"
  ai_profile :: "instruction_text option"

record execution_configuration =
  ec_runner_id :: uuid
  ec_profile_revision :: int
  ec_adapter :: adapter_config
  ec_provider :: "effective_provider option"
  ec_workspace_binding :: "workspace_binding option"
  ec_policy_version :: int
  ec_actions :: "action list"
  ec_sandbox :: sandbox_config
  ec_network :: network_policy
  ec_hard_cost_cap :: bool
  ec_budget :: budget
  ec_instructions_digest :: "string option"

definition valid_configuration :: "execution_configuration \<Rightarrow> bool" where
  "valid_configuration c =
     (positive (ec_profile_revision c) \<and> valid_adapter (ec_adapter c) \<and>
      opt_all valid_effective_provider (ec_provider c) \<and>
      opt_all valid_binding (ec_workspace_binding c) \<and> positive (ec_policy_version c) \<and>
      set (ec_actions c) \<subseteq> set execution_actions \<and> valid_sandbox (ec_sandbox c) \<and>
      valid_network_policy (ec_network c) \<and> valid_budget (ec_budget c) \<and>
      opt_all digest_ok (ec_instructions_digest c))"

section \<open>Configurations as JSON\<close>

text \<open>\<open>str(uuid)\<close>: 32 hexadecimal digits in groups of 8, 4, 4, 4 and 12.\<close>

fun hex_digits :: "nat \<Rightarrow> nat \<Rightarrow> string" where
  "hex_digits 0 n = []"
| "hex_digits (Suc k) n = hex_digits k (n div 16) @ [digit_char (n mod 16)]"

definition uuid_str :: "uuid \<Rightarrow> string" where
  "uuid_str u = (let h = hex_digits 32 u in
     take 8 h @ ''-'' @ take 4 (drop 8 h) @ ''-'' @ take 4 (drop 12 h) @ ''-'' @
     take 4 (drop 16 h) @ ''-'' @ drop 20 h)"

definition opt_json :: "('a \<Rightarrow> json) \<Rightarrow> 'a option \<Rightarrow> json" where
  "opt_json f x = (case x of None \<Rightarrow> JNull | Some v \<Rightarrow> f v)"

definition strs_json :: "string list \<Rightarrow> json" where
  "strs_json xs = JList (map JStr xs)"

fun secret_kind_name :: "secret_kind \<Rightarrow> string" where
  "secret_kind_name ServerSecret = ''server''" | "secret_kind_name LocalSecret = ''local''"

fun api_mode_name :: "api_mode \<Rightarrow> string" where
  "api_mode_name ChatCompletions = ''chat_completions''" | "api_mode_name Responses = ''responses''"

fun data_scope_name :: "data_scope \<Rightarrow> string" where
  "data_scope_name Synthetic = ''synthetic''"
| "data_scope_name SelectedChat = ''selected_chat''"
| "data_scope_name SelectedRepository = ''selected_repository''"

definition secret_json :: "secret_reference \<Rightarrow> json" where
  "secret_json r = JObj [(''kind'', JStr (secret_kind_name (sr_kind r))), (''id'', JStr (sr_id r)),
     (''version'', JInt (sr_version r))]"

definition target_json :: "network_target \<Rightarrow> json" where
  "target_json t = JObj [(''hostname'', JStr (nt_hostname t)), (''port'', JInt (nt_port t)),
     (''allow_private'', JBool (nt_allow_private t)),
     (''allow_http_loopback'', JBool (nt_allow_http_loopback t)),
     (''allow_http_private'', JBool (nt_allow_http_private t))]"

definition network_json :: "network_policy \<Rightarrow> json" where
  "network_json n = JObj [(''targets'', JList (map target_json (np_targets n))),
     (''public_https_only'', JBool (np_public_https_only n)),
     (''block_metadata'', JBool (np_block_metadata n)),
     (''cross_origin_authorization'', JBool (np_cross_origin_authorization n)),
     (''project_network'', JBool (np_project_network n))]"

definition adapter_json :: "adapter_config \<Rightarrow> json" where
  "adapter_json a = JObj [(''id'', JStr (ad_id a)), (''version'', JStr (ad_version a)),
     (''mode'', JStr (case ad_mode a of Acp \<Rightarrow> ''acp'' | Endpoint \<Rightarrow> ''endpoint''))]"

definition sandbox_json :: "sandbox_config \<Rightarrow> json" where
  "sandbox_json s = JObj [(''kind'', JStr ''rootless_container''), (''alias'', JStr (sb_alias s)),
     (''image_digest'', JStr (sb_image_digest s)), (''toolchain_digest'', JStr (sb_toolchain_digest s)),
     (''catalog_revision'', JInt (sb_catalog_revision s)),
     (''cpu_millicores'', JInt (sb_cpu_millicores s)), (''memory_bytes'', JInt (sb_memory_bytes s)),
     (''pids_limit'', JInt (sb_pids_limit s)), (''temporary_bytes'', JInt (sb_temporary_bytes s)),
     (''network_mode'', JStr ''none''), (''read_only_root'', JBool True),
     (''drop_all_capabilities'', JBool True)]"

definition budget_json :: "budget \<Rightarrow> json" where
  "budget_json b = JObj [(''active_seconds'', JInt (bud_active_seconds b)),
     (''tool_rounds'', JInt (bud_tool_rounds b)),
     (''shell_timeout_seconds'', JInt (bud_shell_timeout_seconds b)),
     (''transport_retries'', JInt (bud_transport_retries b)),
     (''context_recoveries'', JInt (bud_context_recoveries b)),
     (''input_tokens'', JInt (bud_input_tokens b)), (''output_tokens'', JInt (bud_output_tokens b)),
     (''tool_output_bytes'', JInt (bud_tool_output_bytes b)),
     (''artifact_bytes'', JInt (bud_artifact_bytes b)),
     (''job_artifact_bytes'', JInt (bud_job_artifact_bytes b)),
     (''cost_limit_microunits'', opt_json JInt (bud_cost_limit b))]"

definition effective_provider_json :: "effective_provider \<Rightarrow> json" where
  "effective_provider_json p = JObj [(''id'', JStr (uuid_str (ep_id p))),
     (''config_version'', JInt (ep_config_version p)), (''base_url'', JStr (ep_base_url p)),
     (''api_mode'', JStr (api_mode_name (ep_api_mode p))), (''model_id'', JStr (ep_model_id p)),
     (''allowed_models'', strs_json (ep_allowed_models p)),
     (''credential_ref'', opt_json secret_json (ep_credential_ref p)),
     (''context_window_tokens'', JInt (ep_context_window_tokens p)),
     (''max_output_tokens'', JInt (ep_max_output_tokens p)),
     (''data_scope'', strs_json (map data_scope_name (ep_data_scope p))),
     (''network'', network_json (ep_network p))]"

definition binding_json :: "workspace_binding \<Rightarrow> json" where
  "binding_json w = JObj [(''canonical_origin'', opt_json JStr (wb_canonical_origin w)),
     (''repository_id'', JStr (uuid_str (wb_repository_id w))),
     (''workspace_alias'', JStr (wb_workspace_alias w)),
     (''policy_version'', JInt (wb_policy_version w)),
     (''checks_digest'', JStr (wb_checks_digest w)),
     (''allowed_refs'', strs_json (wb_allowed_refs w))]"

definition check_json :: "required_check \<Rightarrow> json" where
  "check_json c = JObj [(''id'', JStr (chk_id c)), (''argv'', strs_json (chk_argv c)),
     (''cwd'', JStr (chk_cwd c)), (''timeout_seconds'', JInt (chk_timeout_seconds c))]"

text \<open>\<open>_omit_none_instruction_fields\<close>: the optional instruction keys are dropped when unset.\<close>

definition omit_none_instruction_fields :: "(string \<times> json) list \<Rightarrow> (string \<times> json) list" where
  "omit_none_instruction_fields kvs =
     filter (\<lambda>(k, v). \<not> (k \<in> {''instructions_digest'', ''instructions''} \<and> v = JNull)) kvs"

definition configuration_json :: "execution_configuration \<Rightarrow> json" where
  "configuration_json c = JObj (omit_none_instruction_fields
     [(''schema_version'', JInt 1), (''runner_id'', JStr (uuid_str (ec_runner_id c))),
      (''profile_revision'', JInt (ec_profile_revision c)), (''adapter'', adapter_json (ec_adapter c)),
      (''provider'', opt_json effective_provider_json (ec_provider c)),
      (''workspace_binding'', opt_json binding_json (ec_workspace_binding c)),
      (''policy_version'', JInt (ec_policy_version c)),
      (''actions'', strs_json (map action_name (ec_actions c))),
      (''sandbox'', sandbox_json (ec_sandbox c)), (''network'', network_json (ec_network c)),
      (''hard_cost_cap'', JBool (ec_hard_cost_cap c)), (''budget'', budget_json (ec_budget c)),
      (''instructions_digest'', opt_json JStr (ec_instructions_digest c))])"

definition checks_digest :: "(nat list \<Rightarrow> string) \<Rightarrow> required_check list \<Rightarrow> string" where
  "checks_digest sha cs = digest sha (JList (map check_json cs))"

section \<open>Descriptors\<close>

record attempt_descriptor =
  de_job_id :: uuid
  de_attempt_id :: uuid
  de_lease_epoch :: int
  de_audience :: audience
  de_tested :: execution_configuration
  de_profile_id :: uuid
  de_profile_revision :: int
  de_descriptor_digest :: string
  de_configuration_digest :: string
  de_lease_expires_at :: time
  de_job_kind :: job_kind
  de_delivery_target :: delivery_target
  de_request :: string
  de_runner_id :: uuid
  de_adapter :: adapter_config
  de_provider :: "provider_config option"
  de_repository :: "repository_config option"
  de_policy :: policy
  de_budget :: budget
  de_context_refs :: "context_reference list"
  de_inputs :: "input_record list"
  de_checkpoint :: "checkpoint_dto option"
  de_instructions :: "attempt_instructions option"

definition binding_of_repository :: "(nat list \<Rightarrow> string) \<Rightarrow> repository_config \<Rightarrow> workspace_binding" where
  "binding_of_repository sha r = \<lparr>wb_canonical_origin = rc_canonical_origin r,
     wb_repository_id = rc_id r, wb_workspace_alias = rc_workspace_alias r,
     wb_policy_version = rc_policy_version r, wb_checks_digest = checks_digest sha (rc_required_checks r),
     wb_allowed_refs = rc_allowed_refs r\<rparr>"

text \<open>The profile's own instructions of an attempt, and the rule \<open>sorted(set(actions))\<close>.\<close>

definition profile_instructions :: "attempt_descriptor \<Rightarrow> instruction_text option" where
  "profile_instructions d = (case de_instructions d of None \<Rightarrow> None | Some i \<Rightarrow> ai_profile i)"

abbreviation sorted_actions :: "action list \<Rightarrow> action list" where
  "sorted_actions as \<equiv> sorted_set action_name as"

definition derive_attempt_configuration ::
    "(nat list \<Rightarrow> string) \<Rightarrow> attempt_descriptor \<Rightarrow> execution_configuration" where
  "derive_attempt_configuration sha d = \<lparr>
     ec_runner_id = de_runner_id d,
     ec_profile_revision = de_profile_revision d,
     ec_adapter = de_adapter d,
     ec_provider = map_option effective_provider_of (de_provider d),
     ec_workspace_binding = map_option (binding_of_repository sha) (de_repository d),
     ec_policy_version = pol_version (de_policy d),
     ec_actions = sorted_actions (pol_actions (de_policy d)),
     ec_sandbox = pol_sandbox (de_policy d),
     ec_network = pol_network (de_policy d),
     ec_hard_cost_cap = pol_hard_cost_cap (de_policy d),
     ec_budget = de_budget d,
     ec_instructions_digest = (case profile_instructions d of None \<Rightarrow> None
                               | Some t \<Rightarrow> instructions_digest sha (it_text t))\<rparr>"

text \<open>The fields of \<open>Budget\<close>, in the order of \<open>Budget.model_fields\<close>; only the cost limit is optional.\<close>

definition budget_fields :: "budget \<Rightarrow> int option list" where
  "budget_fields b = map Some [bud_active_seconds b, bud_tool_rounds b, bud_shell_timeout_seconds b,
     bud_transport_retries b, bud_context_recoveries b, bud_input_tokens b, bud_output_tokens b,
     bud_tool_output_bytes b, bud_artifact_bytes b, bud_job_artifact_bytes b] @ [bud_cost_limit b]"

definition within_ceiling :: "int option \<Rightarrow> int option \<Rightarrow> bool" where
  "within_ceiling ceiling actual = (case ceiling of None \<Rightarrow> True
     | Some c \<Rightarrow> (case actual of None \<Rightarrow> False | Some a \<Rightarrow> a \<le> c))"

definition validate_attempt_configuration :: "(nat list \<Rightarrow> string) \<Rightarrow> attempt_descriptor \<Rightarrow> exn + unit" where
  "validate_attempt_configuration sha d =
     (let tested = de_tested d; effective = derive_attempt_configuration sha d in
      if \<not> valid_configuration effective then Inl ProtocolInvalid
      else if ec_runner_id effective \<noteq> ec_runner_id tested \<or>
         ec_profile_revision effective \<noteq> ec_profile_revision tested \<or>
         ec_adapter effective \<noteq> ec_adapter tested \<or>
         ec_provider effective \<noteq> ec_provider tested \<or>
         ec_policy_version effective \<noteq> ec_policy_version tested \<or>
         ec_sandbox effective \<noteq> ec_sandbox tested \<or>
         ec_network effective \<noteq> ec_network tested \<or>
         ec_instructions_digest effective \<noteq> ec_instructions_digest tested
      then Inl (ValueErr ''Attempt runtime differs from its tested configuration'')
      else if ec_workspace_binding effective \<noteq> ec_workspace_binding tested \<and>
              \<not> (de_job_kind d \<in> {KAnswer, KManage} \<and> ec_workspace_binding effective = None)
      then Inl (ValueErr ''Attempt repository differs from its tested configuration'')
      else if \<not> set (ec_actions effective) \<subseteq> set (ec_actions tested)
      then Inl (ValueErr ''Attempt actions exceed the tested configuration'')
      else if ec_hard_cost_cap tested \<and> \<not> ec_hard_cost_cap effective
      then Inl (ValueErr ''Attempt cannot remove the tested hard cost cap'')
      else if \<not> list_all2 within_ceiling (budget_fields (ec_budget tested)) (budget_fields (ec_budget effective))
      then Inl (ValueErr ''Attempt budget exceeds the tested configuration'')
      else Inr ())"

text \<open>\<open>AttemptDescriptor.constrain_execution\<close>, each raise a branch.\<close>

definition constrain_execution :: "(nat list \<Rightarrow> string) \<Rightarrow> attempt_descriptor \<Rightarrow> exn + unit" where
  "constrain_execution sha d =
     (if (case profile_instructions d of None \<Rightarrow> False
          | Some t \<Rightarrow> it_revision t \<noteq> de_profile_revision d)
      then Inl (ValueErr ''Attempt instructions revision does not match the profile revision'')
      else if aud_profile_id (de_audience d) \<noteq> de_profile_id d \<or>
         (sc_anchor (pol_scope (de_policy d)) \<noteq> None \<and>
          sc_anchor (pol_scope (de_policy d)) \<noteq> Some (aud_anchor (de_audience d))) \<or>
         (sc_kind (pol_scope (de_policy d)) = ScStream \<and>
          sc_stream_id (pol_scope (de_policy d)) \<noteq> aud_stream_id (de_audience d)) \<or>
         (sc_kind (pol_scope (de_policy d)) = ScDirect \<and>
          sort (sc_participants (pol_scope (de_policy d))) \<noteq> aud_user_ids (de_audience d))
      then Inl (ValueErr ''Attempt audience does not match its scope'')
      else rbind
        (case de_job_kind d of
           KAnswer \<Rightarrow>
             if de_delivery_target d \<noteq> TAnswer \<or>
                \<not> set (pol_actions (de_policy d)) \<subseteq> {ContextRead, RepositoryRead}
             then Inl (ValueErr ''Answer jobs cannot carry mutation authority'') else Inr ()
         | KManage \<Rightarrow>
             if de_delivery_target d \<noteq> TAnswer \<or> de_repository d \<noteq> None \<or>
                \<not> set (pol_actions (de_policy d)) \<subseteq> {ContextRead}
             then Inl (ValueErr ''Manage jobs cannot carry a repository or code authority'') else Inr ()
         | KCode \<Rightarrow>
             if de_delivery_target d = TAnswer \<or> de_repository d = None
             then Inl (ValueErr ''Code jobs require a repository and code delivery target'') else Inr ())
        (\<lambda>_.
          if ad_mode (de_adapter d) = Endpoint \<and> de_provider d = None
          then Inl (ValueErr ''Endpoint descriptor requires a provider'')
          else if \<not> opt_all (\<lambda>p. prov_runner_id p = de_runner_id d) (de_provider d) \<or>
                  \<not> opt_all (\<lambda>r. rc_runner_id r = de_runner_id d) (de_repository d)
          then Inl (ValueErr ''Descriptor references a different runner'')
          else if pol_hard_cost_cap (de_policy d) \<and>
                  (bud_cost_limit (de_budget d) = None \<or>
                   (case de_provider d of None \<Rightarrow> True
                    | Some p \<Rightarrow> cap_usage (prov_capability_report p) \<noteq> CapPassed))
          then Inl (ValueErr ''Hard cost cap requires measured usage and a limit'')
          else validate_attempt_configuration sha d))"

definition descriptor_fields_ok :: "attempt_descriptor \<Rightarrow> bool" where
  "descriptor_fields_ok d =
     (positive (de_lease_epoch d) \<and> valid_audience (de_audience d) \<and> valid_configuration (de_tested d) \<and>
      positive (de_profile_revision d) \<and> digest_ok (de_descriptor_digest d) \<and>
      digest_ok (de_configuration_digest d) \<and> len_in 1 20000 (de_request d) \<and>
      valid_adapter (de_adapter d) \<and> opt_all valid_provider_config (de_provider d) \<and>
      opt_all valid_repository_config (de_repository d) \<and> valid_policy (de_policy d) \<and>
      valid_budget (de_budget d) \<and> len_in 0 100 (de_context_refs d) \<and>
      list_all valid_context_reference (de_context_refs d) \<and> len_in 0 100 (de_inputs d) \<and>
      list_all valid_input_record (de_inputs d) \<and> opt_all valid_checkpoint (de_checkpoint d) \<and>
      opt_all (\<lambda>i. opt_all valid_instruction_text (ai_team i) \<and>
                   opt_all valid_instruction_text (ai_profile i)) (de_instructions d))"

definition valid_descriptor :: "(nat list \<Rightarrow> string) \<Rightarrow> attempt_descriptor \<Rightarrow> bool" where
  "valid_descriptor sha d = (descriptor_fields_ok d \<and> succeeds (constrain_execution sha d))"

record probe_grant_dto =
  pg_id :: uuid
  pg_runner_id :: uuid
  pg_provider_id :: "uuid option"
  pg_provider_config_version :: "int option"
  pg_profile_revision :: int
  pg_expires_at :: time

record probe_descriptor =
  pd_setup_operation_id :: uuid
  pd_profile_id :: "uuid option"
  pd_profile_revision :: int
  pd_runner_id :: uuid
  pd_descriptor_digest :: string
  pd_configuration_digest :: string
  pd_adapter :: adapter_config
  pd_provider :: "provider_config option"
  pd_grant :: probe_grant_dto
  pd_workspace_binding :: "workspace_binding option"
  pd_policy :: policy
  pd_budget :: budget
  pd_instructions_digest :: "string option"

definition valid_probe_grant :: "probe_grant_dto \<Rightarrow> bool" where
  "valid_probe_grant g =
     (opt_all positive (pg_provider_config_version g) \<and> positive (pg_profile_revision g))"

definition valid_probe :: "probe_descriptor \<Rightarrow> bool" where
  "valid_probe d =
     (positive (pd_profile_revision d) \<and> digest_ok (pd_descriptor_digest d) \<and>
      digest_ok (pd_configuration_digest d) \<and> valid_adapter (pd_adapter d) \<and>
      opt_all valid_provider_config (pd_provider d) \<and> valid_probe_grant (pd_grant d) \<and>
      opt_all valid_binding (pd_workspace_binding d) \<and> valid_policy (pd_policy d) \<and>
      valid_budget (pd_budget d) \<and> opt_all digest_ok (pd_instructions_digest d) \<and>
      \<not> (ad_mode (pd_adapter d) = Endpoint \<and> pd_provider d = None) \<and>
      pg_runner_id (pd_grant d) = pd_runner_id d \<and>
      pg_profile_revision (pd_grant d) = pd_profile_revision d \<and>
      (case pd_provider d of
         Some p \<Rightarrow> prov_runner_id p = pd_runner_id d \<and> pg_provider_id (pd_grant d) = Some (prov_id p) \<and>
           pg_provider_config_version (pd_grant d) = Some (prov_config_version p)
       | None \<Rightarrow> pg_provider_id (pd_grant d) = None \<and> pg_provider_config_version (pd_grant d) = None))"

definition derive_probe_configuration :: "probe_descriptor \<Rightarrow> execution_configuration" where
  "derive_probe_configuration d = \<lparr>
     ec_runner_id = pd_runner_id d, ec_profile_revision = pd_profile_revision d,
     ec_adapter = pd_adapter d, ec_provider = map_option effective_provider_of (pd_provider d),
     ec_workspace_binding = pd_workspace_binding d, ec_policy_version = pol_version (pd_policy d),
     ec_actions = sorted_actions (pol_actions (pd_policy d)), ec_sandbox = pol_sandbox (pd_policy d),
     ec_network = pol_network (pd_policy d), ec_hard_cost_cap = pol_hard_cost_cap (pd_policy d),
     ec_budget = pd_budget d, ec_instructions_digest = pd_instructions_digest d\<rparr>"

text \<open>\<open>execution_configuration\<close>: an attempt keeps the configuration it was tested with.\<close>

definition attempt_execution_configuration ::
    "(nat list \<Rightarrow> string) \<Rightarrow> attempt_descriptor \<Rightarrow> exn + execution_configuration" where
  "attempt_execution_configuration sha d =
     rbind (validate_attempt_configuration sha d) (\<lambda>_. Inr (de_tested d))"

definition probe_execution_configuration :: "probe_descriptor \<Rightarrow> exn + execution_configuration" where
  "probe_execution_configuration d =
     (let c = derive_probe_configuration d in
      if valid_configuration c then Inr c else Inl ProtocolInvalid)"

definition configuration_digest :: "(nat list \<Rightarrow> string) \<Rightarrow> execution_configuration \<Rightarrow> string" where
  "configuration_digest sha c = digest sha (configuration_json c)"

end
