(* ===== verification/Protocol_Events.thy ===== *)
theory Protocol_Events
  imports Protocol_Attempt
begin

text \<open>
  The messages of \<^verbatim>\<open>zerver/lib/agent_protocol.py\<close>: the arguments of an operation and of an
  approval, the payloads and envelopes of runner events and of the server's own events, receipts
  and claims.  An event's type decides which payload model is used (\<open>typed_event_payload\<close>,
  \<open>typed_authority_payload\<close>) and which states that payload may report (\<open>check_event_state\<close>).
\<close>

section \<open>Operation arguments\<close>

record push_args =
  pu_repository_id :: uuid
  pu_remote :: string
  pu_branch :: string
  pu_commit :: string
  pu_expected_remote_head :: "string option"

record draft_pr_args =
  dp_repository_id :: uuid
  dp_remote :: string
  dp_base :: string
  dp_head :: string
  dp_commit :: string
  dp_title :: string
  dp_body :: string

record tool_args =
  ta_action :: action
  ta_repository_id :: uuid
  ta_argv :: "string list"
  ta_cwd :: string
  ta_network :: network_policy

datatype find_kind = FindPerson | FindChannel | FindGroup

datatype team_input =
    TeamFind string "find_kind list"
  | ChannelCreate string string bool "uid list"
  | ChannelSubscribe nat "uid list"
  | ChannelUnsubscribe nat "uid list"
  | GroupCreate string string "uid list"
  | GroupAddMembers nat "uid list"
  | GroupRemoveMembers nat "uid list"
  | TopicPost nat string string
  | TopicAddPerson nat string "uid list"
  | TopicResolve nat string bool
  | TopicMove nat string string "nat option"

fun valid_team_input :: "team_input \<Rightarrow> bool" where
  "valid_team_input (TeamFind q ks) = (len_in 1 100 q \<and> len_in 1 3 ks)"
| "valid_team_input (ChannelCreate n d p us) =
     (len_in 1 60 n \<and> len_in 0 1024 d \<and> len_in 0 50 us \<and> list_all ((\<le>) 1) us)"
| "valid_team_input (ChannelSubscribe c us) = (1 \<le> c \<and> len_in 1 50 us \<and> list_all ((\<le>) 1) us)"
| "valid_team_input (ChannelUnsubscribe c us) = (1 \<le> c \<and> len_in 1 50 us \<and> list_all ((\<le>) 1) us)"
| "valid_team_input (GroupCreate n d us) =
     (len_in 1 100 n \<and> len_in 0 1024 d \<and> len_in 0 50 us \<and> list_all ((\<le>) 1) us)"
| "valid_team_input (GroupAddMembers g us) = (1 \<le> g \<and> len_in 1 50 us \<and> list_all ((\<le>) 1) us)"
| "valid_team_input (GroupRemoveMembers g us) = (1 \<le> g \<and> len_in 1 50 us \<and> list_all ((\<le>) 1) us)"
| "valid_team_input (TopicPost c t b) = (1 \<le> c \<and> len_in 1 60 t \<and> len_in 1 10000 b)"
| "valid_team_input (TopicAddPerson c t us) =
     (1 \<le> c \<and> len_in 1 60 t \<and> len_in 1 20 us \<and> list_all ((\<le>) 1) us)"
| "valid_team_input (TopicResolve c t r) = (1 \<le> c \<and> len_in 1 60 t)"
| "valid_team_input (TopicMove c t n d) =
     (1 \<le> c \<and> len_in 1 60 t \<and> len_in 1 60 n \<and> opt_all ((\<le>) 1) d)"

record edit_args =
  ea_repository_id :: uuid
  ea_patch_artifact_id :: uuid
  ea_patch_checksum :: string
  ea_expected_tree :: string

record checks_args =
  ca_repository_id :: uuid
  ca_check_ids :: "string list"
  ca_tree_hash :: string

record commit_args =
  cm_repository_id :: uuid
  cm_message :: string
  cm_tree_hash :: string
  cm_expected_parent :: string

datatype operation_args =
    OPush push_args
  | ODraftPr draft_pr_args
  | OTool tool_args
  | OContextRead "uuid list"
  | ORepositoryRead uuid "string list"
  | ORepositoryEdit edit_args
  | OChecks checks_args
  | OCommit commit_args
  | OTeam team_input

fun op_action :: "operation_args \<Rightarrow> action" where
  "op_action (OPush _) = GitPush"
| "op_action (ODraftPr _) = GitDraftPr"
| "op_action (OTool t) = ta_action t"
| "op_action (OContextRead _) = ContextRead"
| "op_action (ORepositoryRead _ _) = RepositoryRead"
| "op_action (ORepositoryEdit _) = RepositoryEdit"
| "op_action (OChecks _) = ChecksRun"
| "op_action (OCommit _) = GitCommit"
| "op_action (OTeam _) = TeamManage"

fun valid_operation_args :: "operation_args \<Rightarrow> bool" where
  "valid_operation_args (OPush a) =
     (text_ok (pu_remote a) \<and> text_ok (pu_branch a) \<and> git_hash_ok (pu_commit a) \<and>
      opt_all git_hash_ok (pu_expected_remote_head a))"
| "valid_operation_args (ODraftPr a) =
     (text_ok (dp_remote a) \<and> text_ok (dp_base a) \<and> text_ok (dp_head a) \<and> git_hash_ok (dp_commit a) \<and>
      text_ok (dp_title a) \<and> len_in 0 20000 (dp_body a))"
| "valid_operation_args (OTool a) =
     (ta_action a \<in> {DependenciesInstall, ShellRun} \<and> len_in 1 64 (ta_argv a) \<and>
      list_all text_ok (ta_argv a) \<and> text_ok (ta_cwd a) \<and> valid_network_policy (ta_network a))"
| "valid_operation_args (OContextRead ids) = len_in 1 100 ids"
| "valid_operation_args (ORepositoryRead r ps) = (len_in 1 100 ps \<and> list_all text_ok ps)"
| "valid_operation_args (ORepositoryEdit a) =
     (digest_ok (ea_patch_checksum a) \<and> git_hash_ok (ea_expected_tree a))"
| "valid_operation_args (OChecks a) =
     (len_in 1 100 (ca_check_ids a) \<and> list_all text_ok (ca_check_ids a) \<and> git_hash_ok (ca_tree_hash a))"
| "valid_operation_args (OCommit a) =
     (len_in 1 20000 (cm_message a) \<and> git_hash_ok (cm_tree_hash a) \<and> git_hash_ok (cm_expected_parent a))"
| "valid_operation_args (OTeam t) = valid_team_input t"

fun op_repository_id :: "operation_args \<Rightarrow> uuid option" where
  "op_repository_id (OPush a) = Some (pu_repository_id a)"
| "op_repository_id (ODraftPr a) = Some (dp_repository_id a)"
| "op_repository_id (OTool a) = Some (ta_repository_id a)"
| "op_repository_id (OContextRead _) = None"
| "op_repository_id (ORepositoryRead r _) = Some r"
| "op_repository_id (ORepositoryEdit a) = Some (ea_repository_id a)"
| "op_repository_id (OChecks a) = Some (ca_repository_id a)"
| "op_repository_id (OCommit a) = Some (cm_repository_id a)"
| "op_repository_id (OTeam _) = None"

text \<open>Only these arguments can be carried by an approval (\<open>ApprovalArguments\<close>).\<close>

fun is_approval_args :: "operation_args \<Rightarrow> bool" where
  "is_approval_args (OPush _) = True"
| "is_approval_args (ODraftPr _) = True"
| "is_approval_args (OTool _) = True"
| "is_approval_args (OTeam _) = True"
| "is_approval_args _ = False"

section \<open>Runner events\<close>

record process_payload =
  pp_process_state :: process_state
  pp_adapter_session_ref :: "string option"
  pp_stop_confirmed :: bool
  pp_summary :: string

record tool_payload =
  tp_operation_id :: uuid
  tp_tool_class :: action
  tp_argument_digest :: string
  tp_status :: operation_state
  tp_artifact_id :: "uuid option"
  tp_exit_code :: "int option"
  tp_summary :: string

record input_payload =
  ip_input_id :: uuid
  ip_input_sequence :: int
  ip_delivery_state :: input_state

record verification_record =
  vr_operation_id :: uuid
  vr_check_id :: string
  vr_command :: "string list"
  vr_cwd :: string
  vr_exit_code :: "int option"
  vr_started_at :: time
  vr_finished_at :: time
  vr_tree_hash :: string
  vr_artifact_id :: uuid
  vr_timed_out :: bool

definition valid_verification :: "verification_record \<Rightarrow> bool" where
  "valid_verification v =
     (text_ok (vr_check_id v) \<and> len_in 1 64 (vr_command v) \<and> list_all text_ok (vr_command v) \<and>
      text_ok (vr_cwd v) \<and> git_hash_ok (vr_tree_hash v) \<and>
      \<not> vr_finished_at v < vr_started_at v \<and> \<not> (vr_timed_out v \<and> vr_exit_code v = Some 0))"

record result_payload =
  rp_artifact_ids :: "uuid list"
  rp_tree_hash :: "string option"
  rp_summary :: string

definition valid_result :: "result_payload \<Rightarrow> bool" where
  "valid_result r =
     (len_in 1 100 (rp_artifact_ids r) \<and> opt_all git_hash_ok (rp_tree_hash r) \<and>
      len_in 0 4096 (rp_summary r))"

record workspace_payload =
  wp_repository_id :: uuid
  wp_workspace_reference :: string
  wp_base_ref :: string
  wp_base_commit :: string
  wp_tree_hash :: string
  wp_user_worktree_dirty :: bool

datatype runner_payload =
    PProcess process_payload
  | PTool tool_payload
  | PInput input_payload
  | PVerification verification_record
  | PInputRequest string "string list"
  | PResult result_payload
  | PWorkspace workspace_payload

fun valid_runner_payload :: "runner_payload \<Rightarrow> bool" where
  "valid_runner_payload (PProcess p) = len_in 0 2048 (pp_summary p)"
| "valid_runner_payload (PTool t) =
     (tp_tool_class t \<in> set execution_actions \<and> digest_ok (tp_argument_digest t) \<and>
      len_in 0 2048 (tp_summary t))"
| "valid_runner_payload (PInput i) = positive (ip_input_sequence i)"
| "valid_runner_payload (PVerification v) = valid_verification v"
| "valid_runner_payload (PInputRequest q os) =
     (len_in 1 2048 q \<and> len_in 0 10 os \<and> list_all text_ok os)"
| "valid_runner_payload (PResult r) = valid_result r"
| "valid_runner_payload (PWorkspace w) =
     (alias_ok 200 (wp_workspace_reference w) \<and> text_ok (wp_base_ref w) \<and>
      git_hash_ok (wp_base_commit w) \<and> git_hash_ok (wp_tree_hash w))"

datatype runner_event_type =
    WorkspacePrepared | AttemptStarting | AttemptStarted | AttemptStopped | AttemptInterrupted
  | InputAppliedEv | InputUncertainEv | ToolStarted | ToolFinished | VerificationFinished
  | InputRequested | ResultPrepared

text \<open>The payload model of each event type (\<open>typed_event_payload\<close>).\<close>

fun payload_matches :: "runner_event_type \<Rightarrow> runner_payload \<Rightarrow> bool" where
  "payload_matches t (PWorkspace _) = (t = WorkspacePrepared)"
| "payload_matches t (PProcess _) =
     (t \<in> {AttemptStarting, AttemptStarted, AttemptStopped, AttemptInterrupted})"
| "payload_matches t (PTool _) = (t \<in> {ToolStarted, ToolFinished})"
| "payload_matches t (PInput _) = (t \<in> {InputAppliedEv, InputUncertainEv})"
| "payload_matches t (PVerification _) = (t = VerificationFinished)"
| "payload_matches t (PInputRequest _ _) = (t = InputRequested)"
| "payload_matches t (PResult _) = (t = ResultPrepared)"

fun expected_process_state :: "runner_event_type \<Rightarrow> process_state option" where
  "expected_process_state AttemptStarting = Some Starting"
| "expected_process_state AttemptStarted = Some Active"
| "expected_process_state AttemptStopped = Some Stopped"
| "expected_process_state AttemptInterrupted = Some ProcUnknown"
| "expected_process_state _ = None"

record runner_event =
  ev_job_id :: uuid
  ev_attempt_id :: uuid
  ev_lease_epoch :: int
  ev_event_id :: uuid
  ev_sequence :: int
  ev_type :: runner_event_type
  ev_occurred_at :: time
  ev_payload :: runner_payload

text \<open>\<open>RunnerEvent.check_event_state\<close>.\<close>

definition runner_event_state_ok :: "runner_event \<Rightarrow> bool" where
  "runner_event_state_ok e = (case ev_payload e of
     PProcess p \<Rightarrow>
       Some (pp_process_state p) = expected_process_state (ev_type e) \<and>
       \<not> (ev_type e = AttemptStopped \<and> \<not> pp_stop_confirmed p) \<and>
       \<not> (ev_type e \<noteq> AttemptStopped \<and> pp_stop_confirmed p)
   | PInput i \<Rightarrow>
       ip_delivery_state i = (if ev_type e = InputAppliedEv then InApplied else InUncertain)
   | PTool t \<Rightarrow>
       tp_status t \<in> (if ev_type e = ToolStarted then {OpStarted}
                      else {OpSucceeded, OpFailed, OutcomeUnk, OpCancelled}) \<and>
       \<not> (ev_type e = ToolStarted \<and> (tp_exit_code t \<noteq> None \<or> tp_artifact_id t \<noteq> None)) \<and>
       \<not> (tp_status t = OpSucceeded \<and> tp_exit_code t \<notin> {None, Some 0})
   | _ \<Rightarrow> True)"

definition valid_runner_event :: "runner_event \<Rightarrow> bool" where
  "valid_runner_event e =
     (positive (ev_lease_epoch e) \<and> positive (ev_sequence e) \<and>
      payload_matches (ev_type e) (ev_payload e) \<and> valid_runner_payload (ev_payload e) \<and>
      runner_event_state_ok e)"

text \<open>
  \<open>parse_runner_event\<close>: the size of the canonical text is checked before the schema; the dump of
  the event to JSON is pydantic's and a parameter.
\<close>

definition parse_runner_event :: "(runner_event \<Rightarrow> json) \<Rightarrow> runner_event \<Rightarrow> exn + runner_event" where
  "parse_runner_event dump e =
     (if length (canonical_json (dump e)) > max_event_bytes
      then Inl (ValueErr ''Agent event exceeds 64 KiB'')
      else if valid_runner_event e then Inr e else Inl ProtocolInvalid)"

section \<open>Server events\<close>

record team_receipt =
  tr_tool :: string
  tr_succeeded :: bool
  tr_summary :: string
  tr_channel_id :: "nat option"
  tr_group_id :: "nat option"
  tr_message_id :: "nat option"
  tr_user_ids :: "uid list option"
  tr_error :: "string option"

definition team_tool_ids :: "string list" where
  "team_tool_ids = [''team.find'', ''channel.create'', ''channel.subscribe'', ''channel.unsubscribe'',
     ''group.create'', ''group.add_members'', ''group.remove_members'', ''topic.post'',
     ''topic.add_person'', ''topic.resolve'', ''topic.move'']"

definition valid_team_receipt :: "team_receipt \<Rightarrow> bool" where
  "valid_team_receipt r =
     (tr_tool r \<in> set team_tool_ids \<and> len_in 0 2048 (tr_summary r) \<and>
      opt_all ((\<le>) 1) (tr_channel_id r) \<and> opt_all ((\<le>) 1) (tr_group_id r) \<and>
      opt_all ((\<le>) 1) (tr_message_id r) \<and> opt_all (list_all ((\<le>) 1)) (tr_user_ids r) \<and>
      opt_all (len_in 0 2048) (tr_error r))"

datatype authority_payload =
    AJobState job_state string
  | AInput uuid int input_state
  | AApproval uuid string int approval_state
  | APublication "nat option" string
  | ATeamExecuted uuid team_receipt

datatype authority_event_type =
    JobQueued | SrvAttemptStarting | SrvAttemptInterrupted | InputReceived | ApprovalRequested
  | ApprovalResolved | StopRequested | ResultPublished | PublicationBlocked | JobCompleted | TeamExecuted

datatype authority = AuthServer | AuthRunner | AuthVerifier | AuthPublisher

fun authority_payload_matches :: "authority_event_type \<Rightarrow> authority_payload \<Rightarrow> bool" where
  "authority_payload_matches t (AJobState _ _) =
     (t \<in> {JobQueued, SrvAttemptStarting, SrvAttemptInterrupted, JobCompleted, StopRequested})"
| "authority_payload_matches t (AInput _ _ _) = (t = InputReceived)"
| "authority_payload_matches t (AApproval _ _ _ _) = (t \<in> {ApprovalRequested, ApprovalResolved})"
| "authority_payload_matches t (APublication _ _) = (t \<in> {ResultPublished, PublicationBlocked})"
| "authority_payload_matches t (ATeamExecuted _ _) = (t = TeamExecuted)"

fun expected_job_state :: "authority_event_type \<Rightarrow> job_state option" where
  "expected_job_state JobQueued = Some Queued"
| "expected_job_state SrvAttemptStarting = Some Running"
| "expected_job_state SrvAttemptInterrupted = Some Interrupted"
| "expected_job_state JobCompleted = Some Completed"
| "expected_job_state StopRequested = Some CancelRequested"
| "expected_job_state _ = None"

fun valid_authority_payload :: "authority_event_type \<Rightarrow> authority_payload \<Rightarrow> bool" where
  "valid_authority_payload t (AJobState s r) =
     (len_in 0 200 r \<and> Some s = expected_job_state t)"
| "valid_authority_payload t (AInput i n s) = (positive n \<and> s = InPending)"
| "valid_authority_payload t (AApproval i h v d) =
     (digest_ok h \<and> positive v \<and>
      d \<in> (if t = ApprovalRequested then {ApPending}
           else {ApApproved, ApRejected, ApExpired, ApCancelled, ApConsumed}))"
| "valid_authority_payload t (APublication m r) =
     (opt_all ((\<le>) 1) m \<and> len_in 0 200 r \<and>
      \<not> (t = ResultPublished \<and> m = None) \<and> \<not> (t = PublicationBlocked \<and> (m \<noteq> None \<or> r = [])))"
| "valid_authority_payload t (ATeamExecuted i r) = valid_team_receipt r"

definition event_authorities :: "authority \<Rightarrow> authority_event_type list" where
  "event_authorities a = (case a of
     AuthServer \<Rightarrow> [JobQueued, SrvAttemptStarting, SrvAttemptInterrupted, InputReceived,
       ApprovalRequested, ApprovalResolved, StopRequested, TeamExecuted]
   | AuthVerifier \<Rightarrow> [JobCompleted]
   | AuthPublisher \<Rightarrow> [ResultPublished, PublicationBlocked]
   | AuthRunner \<Rightarrow> [])"

definition parse_authority_event ::
    "json \<Rightarrow> authority \<Rightarrow> authority_event_type \<Rightarrow> int \<Rightarrow> (uuid \<times> int) option \<Rightarrow>
     authority_payload \<Rightarrow> exn + unit" where
  "parse_authority_event value a t seq lease pl =
     (if length (canonical_json value) > max_event_bytes
      then Inl (ValueErr ''Agent event exceeds 64 KiB'')
      else if \<not> (positive seq \<and> opt_all (\<lambda>(_, epoch). positive epoch) lease \<and>
           authority_payload_matches t pl \<and> valid_authority_payload t pl) then Inl ProtocolInvalid
      else if t \<notin> set (event_authorities a)
      then Inl (ValueErr ''Event authority does not match its type'') else Inr ())"

fun authority_event_name :: "authority_event_type \<Rightarrow> string" where
  "authority_event_name JobQueued = ''job.queued''"
| "authority_event_name SrvAttemptStarting = ''attempt.starting''"
| "authority_event_name SrvAttemptInterrupted = ''attempt.interrupted''"
| "authority_event_name InputReceived = ''input.received''"
| "authority_event_name ApprovalRequested = ''approval.requested''"
| "authority_event_name ApprovalResolved = ''approval.resolved''"
| "authority_event_name StopRequested = ''attempt.stop_requested''"
| "authority_event_name ResultPublished = ''result.published''"
| "authority_event_name PublicationBlocked = ''publication.blocked''"
| "authority_event_name JobCompleted = ''job.completed''"
| "authority_event_name TeamExecuted = ''team.executed''"

section \<open>Receipts, claims, jobs\<close>

datatype local_outcome = LoSucceeded | LoFailed | LoNoEffect

record local_receipt =
  lr_operation_id :: uuid
  lr_argument_digest :: string
  lr_base_commit :: "string option"
  lr_tree_hash :: "string option"
  lr_outcome :: local_outcome
  lr_observed_at :: time

definition valid_local_receipt :: "local_receipt \<Rightarrow> bool" where
  "valid_local_receipt r =
     (digest_ok (lr_argument_digest r) \<and> opt_all git_hash_ok (lr_base_commit r) \<and>
      opt_all git_hash_ok (lr_tree_hash r))"

record remote_receipt =
  rm_remote :: string
  rm_branch :: string
  rm_commit :: string
  rm_operation_id :: uuid
  rm_pull_request_id :: "string option"
  rm_pull_request_url :: "string option"
  rm_observed_at :: time

definition valid_remote_receipt :: "remote_receipt \<Rightarrow> bool" where
  "valid_remote_receipt r = (text_ok (rm_remote r) \<and> text_ok (rm_branch r) \<and> git_hash_ok (rm_commit r))"

datatype artifact_kind = ArtDiff | ArtSummary | ArtVerification | ArtLog | ArtFile
datatype media_type = TextPlain | TextDiff | AppJson | OctetStream

record artifact_record =
  ar_kind :: artifact_kind
  ar_checksum :: string
  ar_size :: int
  ar_media_type :: media_type
  ar_filename :: string

definition valid_artifact_record :: "artifact_record \<Rightarrow> bool" where
  "valid_artifact_record a =
     (digest_ok (ar_checksum a) \<and> 0 \<le> ar_size a \<and> ar_size a \<le> max_artifact_bytes \<and>
      len_in 1 255 (ar_filename a))"

definition target_matches_kind :: "job_kind \<Rightarrow> delivery_target \<Rightarrow> bool" where
  "target_matches_kind k t = ((k \<in> {KAnswer, KManage}) = (t = TAnswer))"

text \<open>A claim returns at most one work item (\<open>ClaimResponse.single_work_item\<close>).\<close>

definition claim_response_ok :: "attempt_descriptor option \<Rightarrow> int option \<Rightarrow> probe_descriptor option \<Rightarrow> bool" where
  "claim_response_ok a v p = (opt_all positive v \<and> \<not> (a \<noteq> None \<and> p \<noteq> None))"

section \<open>Event properties\<close>

lemma stopped_event_confirms:
  "valid_runner_event e \<Longrightarrow> ev_type e = AttemptStopped \<Longrightarrow>
   \<exists>p. ev_payload e = PProcess p \<and> pp_stop_confirmed p \<and> pp_process_state p = Stopped"
  by (cases "ev_payload e") (auto simp: valid_runner_event_def runner_event_state_ok_def)

lemma only_stopped_confirms:
  "valid_runner_event e \<Longrightarrow> ev_payload e = PProcess p \<Longrightarrow> pp_stop_confirmed p \<Longrightarrow> ev_type e = AttemptStopped"
  by (cases "ev_type e") (auto simp: valid_runner_event_def runner_event_state_ok_def)

end
