(* ===== verification/Agent_Models.thy ===== *)
theory Agent_Models
  imports Protocol_Events
begin

text \<open>
  The durable records of \<^verbatim>\<open>zerver/models/agents.py\<close> and the database that holds them.  A table
  is a list of rows in insertion order, \<open>db\<close> is the record of all tables, \<open>db_next\<close> the source
  of fresh UUIDs (\<open>uuid4\<close>).  \<open>db_on_commit\<close> is the list of \<open>transaction.on_commit\<close> hooks a
  transaction has registered, in order.  \<open>env\<close> is what the agent service reads outside its own
  tables: the chat core (users, groups, messages, streams) and the third-party functions (the
  SHA-256 digest, pydantic's dumps).  Every table interprets the locale \<open>row_store\<close>.
\<close>

section \<open>The surroundings of the agent service\<close>

record user =
  us_id :: uid
  us_full_name :: string
  us_realm :: nat
  us_active :: bool
  us_bot :: bool
  us_admin :: bool

record message =
  ms_id :: nat
  ms_realm :: nat
  ms_sender :: uid
  ms_recipient_id :: nat
  ms_stream :: "nat option"
  ms_topic :: string
  ms_content :: string

record stream =
  sm_id :: nat
  sm_realm :: nat
  sm_deactivated :: bool
  sm_invite_only :: bool
  sm_web_public :: bool
  sm_history_public :: bool

record attachment =
  atm_id :: nat
  atm_realm :: nat
  atm_messages :: "nat list"
  atm_name :: string
  atm_size :: int

text \<open>
  \<open>en_access_message u m\<close> is \<open>access_message\<close> for reading, \<open>None\<close> its \<open>JsonableError\<close>;
  \<open>en_dm_members\<close> the members of a direct message group; \<open>en_group_members\<close> the recursive
  members of a user group; \<open>en_display_recipients\<close> the users of a personal or direct message
  recipient; \<open>en_content_access u s subscribed\<close> is \<open>user_has_content_access\<close>;
  \<open>en_attachment_readable\<close> is \<open>validate_attachment_request\<close>, \<open>en_silent_mention\<close> is
  \<open>silent_mention_syntax_for_user\<close>, \<open>en_team_lines\<close> is \<open>team_manage_result_lines\<close>.  The dump functions are pydantic's
  \<open>model_dump\<close> to JSON, \<open>en_iso\<close> is \<open>datetime.isoformat\<close>, and \<open>en_sha\<close> is SHA-256 from bytes to the hexadecimal digest.
\<close>

record env =
  en_users :: "user list"
  en_can_command :: "uid \<Rightarrow> bool"
  en_messages :: "nat \<Rightarrow> message option"
  en_access_message :: "uid \<Rightarrow> nat \<Rightarrow> message option"
  en_dm_members :: "nat \<Rightarrow> uid list"
  en_group_members :: "nat \<Rightarrow> uid list"
  en_group_deactivated :: "nat \<Rightarrow> bool"
  en_streams :: "nat \<Rightarrow> stream option"
  en_display_recipients :: "nat \<Rightarrow> uid list"
  en_subscribed :: "uid \<Rightarrow> nat \<Rightarrow> bool"
  en_attachments :: "nat \<Rightarrow> attachment option"
  en_attachment_readable :: "uid \<Rightarrow> nat \<Rightarrow> bool"
  en_access_stream :: "uid \<Rightarrow> nat \<Rightarrow> bool"
  en_content_access :: "uid \<Rightarrow> nat \<Rightarrow> bool \<Rightarrow> bool"
  en_sha :: "nat list \<Rightarrow> string"
  en_iso :: "time \<Rightarrow> string"
  en_silent_mention :: "uid \<Rightarrow> string"
  en_realm_url :: "nat \<Rightarrow> string"
  en_team_lines :: "uuid \<Rightarrow> string list"
  en_dump_event :: "runner_event \<Rightarrow> json"
  en_dump_runner_payload :: "runner_payload \<Rightarrow> json"
  en_dump_authority_payload :: "authority_payload \<Rightarrow> json"
  en_dump_descriptor :: "attempt_descriptor \<Rightarrow> (string \<times> json) list"
  en_dump_checkpoint :: "checkpoint_dto \<Rightarrow> json"
  en_dump_arguments :: "operation_args \<Rightarrow> json"
  en_dump_audience :: "audience \<Rightarrow> json"

section \<open>Configuration records\<close>

record realm_settings =
  rs_realm :: nat
  rs_enabled :: bool
  rs_active_job_limit :: nat
  rs_queued_job_limit :: nat
  rs_profile_queue_limit :: nat
  rs_team_instructions :: codepoints
  rs_team_instructions_revision :: int
  rs_default_profile :: "uuid option"
  rs_default_selection_revision :: int
  rs_default_selected_by :: "uid option"

datatype host_kind = Workstation | ServerHost | UnknownHost

record runner =
  ru_id :: uuid
  ru_realm :: nat
  ru_owner :: uid
  ru_name :: string
  ru_host_kind :: host_kind
  ru_metadata_revision :: int
  ru_fingerprint :: string
  ru_status :: runner_state
  ru_last_heartbeat_at :: "time option"
  ru_revoked_at :: "time option"
  ru_capacity :: nat
  ru_catalog_revision :: int
  ru_catalog_report :: runner_catalog

datatype pairing_state = PaPending | PaApproved | PaExchanged | PaExpired | PaRejected

record pairing =
  pa_id :: uuid
  pa_realm :: "nat option"
  pa_owner :: "uid option"
  pa_runner :: "uuid option"
  pa_device_name :: string
  pa_fingerprint :: string
  pa_polling_secret_hash :: string
  pa_user_code_hash :: string
  pa_expires_at :: time
  pa_approved_at :: "time option"
  pa_exchanged_at :: "time option"
  pa_failed_attempts :: nat
  pa_state :: pairing_state

record credential =
  cd_id :: uuid
  cd_realm :: nat
  cd_runner :: uuid
  cd_token_hash :: string
  cd_refresh_hash :: string
  cd_expires_at :: time
  cd_refresh_expires_at :: time
  cd_revoked_at :: "time option"
  cd_rotated_at :: "time option"
  cd_parent :: "uuid option"

record secret =
  se_id :: uuid
  se_realm :: nat
  se_owner :: uid
  se_version :: int
  se_revoked_at :: "time option"
  se_plaintext :: string

record provider =
  pv_id :: uuid
  pv_realm :: nat
  pv_owner :: uid
  pv_runner :: uuid
  pv_name :: string
  pv_base_url :: string
  pv_api_mode :: api_mode
  pv_model_id :: string
  pv_allowed_models :: "string list"
  pv_secret :: "uuid option"
  pv_local_credential_ref :: string
  pv_config_version :: int
  pv_metadata_revision :: int
  pv_context_window_tokens :: int
  pv_max_output_tokens :: int
  pv_data_scope :: "data_scope list"
  pv_network_policy :: network_policy
  pv_capability_report :: capability_report
  pv_disabled_at :: "time option"

record repository =
  repo_id :: uuid
  repo_realm :: nat
  repo_owner :: uid
  repo_runner :: uuid
  repo_workspace_alias :: string
  repo_canonical_origin :: string
  repo_allowed_refs :: "string list"
  repo_required_checks :: "required_check list"
  repo_policy_version :: int
  repo_disabled_at :: "time option"

record profile =
  pr_id :: uuid
  pr_realm :: nat
  pr_owner :: uid
  pr_bot_user :: uid
  pr_runner :: uuid
  pr_name :: string
  pr_description :: string
  pr_instructions :: codepoints
  pr_mode :: adapter_mode
  pr_adapter_id :: string
  pr_adapter_version :: string
  pr_provider :: "uuid option"
  pr_revision :: int
  pr_metadata_revision :: int
  pr_policy_version :: int
  pr_desired_state :: profile_state
  pr_default_mode :: job_kind
  pr_default_repository :: "uuid option"
  pr_readiness_state :: readiness_state
  pr_enabled_revision :: "int option"
  pr_readiness_revision :: "int option"
  pr_readiness_digest :: string
  pr_readiness_configuration_digest :: string
  pr_readiness_configuration :: "execution_configuration option"
  pr_capability_report :: capability_report
  pr_archived_at :: "time option"
  pr_policy :: policy
  pr_budget :: budget

record grant =
  gr_id :: uuid
  gr_realm :: nat
  gr_owner :: uid
  gr_principal_user :: "uid option"
  gr_principal_group :: "nat option"
  gr_target_kind :: target_kind
  gr_runner :: "uuid option"
  gr_provider :: "uuid option"
  gr_profile :: "uuid option"
  gr_repository :: "uuid option"
  gr_scope :: "scope option"
  gr_actions :: "action list"
  gr_policy_version :: int
  gr_expires_at :: "time option"
  gr_revoked_at :: "time option"

section \<open>Execution records\<close>

record conversation =
  cv_id :: uuid
  cv_realm :: nat
  cv_profile :: uuid
  cv_repository :: "uuid option"
  cv_anchor :: "nat option"
  cv_scope :: scope
  cv_epoch :: int
  cv_binding :: "audience option"

record result_receipt =
  rcp_message_id :: nat
  rcp_attempt_id :: uuid
  rcp_published_at :: time
  rcp_private :: bool

record draft_completion =
  dc_expected_version :: int
  dc_repository_id :: "uuid option"
  dc_base_ref :: string

record job =
  jb_id :: uuid
  jb_realm :: nat
  jb_created_at :: time
  jb_requester :: uid
  jb_conversation :: uuid
  jb_profile :: uuid
  jb_runner :: uuid
  jb_repository :: "uuid option"
  jb_source_message :: "nat option"
  jb_follows :: "uuid option"
  jb_trigger_kind :: trigger_kind
  jb_job_kind :: job_kind
  jb_delivery_target :: delivery_target
  jb_request :: string
  jb_base_ref :: string
  jb_idempotency_key :: uuid
  jb_payload_digest :: string
  jb_admission_revision :: int
  jb_status :: job_state
  jb_phase :: phase
  jb_version :: int
  jb_blocked_reason :: string
  jb_start_deadline :: "time option"
  jb_next_attempt_at :: time
  jb_resume_checkpoint :: "uuid option"
  jb_draft_completion :: "draft_completion option"
  jb_event_sequence :: int
  jb_input_sequence :: int
  jb_result_proposal :: "result_payload option"
  jb_result_receipt :: "result_receipt option"
  jb_result_message :: "nat option"
  jb_stop_target :: job_state
  jb_completed_at :: "time option"
  jb_policy :: policy
  jb_budget :: budget

record attempt =
  at_id :: uuid
  at_realm :: nat
  at_created_at :: time
  at_job :: uuid
  at_runner :: uuid
  at_number :: int
  at_active :: bool
  at_lease_epoch :: int
  at_lease_expires_at :: time
  at_claim_key :: uuid
  at_configuration_digest :: string
  at_descriptor_digest :: string
  at_descriptor :: attempt_descriptor
  at_adapter_version :: string
  at_provider_config_version :: "int option"
  at_audience_binding :: "audience option"
  at_base_commit :: string
  at_tree_hash :: string
  at_workspace_reference :: string
  at_workspace_prepared_at :: "time option"
  at_session_reference :: string
  at_input_cursor :: int
  at_event_cursor :: int
  at_tool_rounds :: int
  at_process_state :: process_state
  at_started_at :: "time option"
  at_stopped_at :: "time option"
  at_ended_at :: "time option"
  at_stop_receipt :: "runner_event option"
  at_source_checkpoint :: "uuid option"

record context_ref =
  cr_id :: uuid
  cr_realm :: nat
  cr_job :: uuid
  cr_kind :: ref_kind
  cr_message :: "nat option"
  cr_attachment :: "nat option"
  cr_repository :: "uuid option"
  cr_scope :: scope
  cr_validated_at :: time

record scope_binding =
  sbd_attempt_id :: uuid
  sbd_lease_epoch :: int
  sbd_policy_version :: int
  sbd_tree_hash :: "string option"
  sbd_diff_artifact_id :: "uuid option"
  sbd_diff_checksum :: "string option"
  sbd_audience :: "audience option"

record operation =
  oper_id :: uuid
  oper_realm :: nat
  oper_attempt :: uuid
  oper_operation_id :: uuid
  oper_tool_class :: action
  oper_argument_digest :: string
  oper_arguments :: operation_args
  oper_scope_binding :: scope_binding
  oper_status :: operation_state
  oper_version :: int
  oper_started_at :: "time option"
  oper_finished_at :: "time option"
  oper_remote_receipt :: "remote_receipt option"
  oper_local_receipt :: "local_receipt option"
  oper_server_receipt :: "team_receipt option"

record approval =
  ap_id :: uuid
  ap_realm :: nat
  ap_created_at :: time
  ap_job :: uuid
  ap_attempt :: uuid
  ap_operation :: uuid
  ap_approver :: "uid option"
  ap_operation_hash :: string
  ap_policy_version :: int
  ap_version :: int
  ap_tree_hash :: string
  ap_arguments :: operation_args
  ap_decision :: approval_state
  ap_expires_at :: time
  ap_nonce :: uuid
  ap_decided_at :: "time option"
  ap_consumed_at :: "time option"

record artifact =
  af_id :: uuid
  af_realm :: nat
  af_attempt :: uuid
  af_kind :: artifact_kind
  af_checksum :: string
  af_size :: int
  af_media_type :: media_type
  af_filename :: string
  af_expires_at :: time
  af_unavailable_at :: "time option"
  af_audience_binding :: "audience option"

record verification =
  vf_realm :: nat
  vf_attempt :: uuid
  vf_operation :: "uuid option"
  vf_check_id :: string
  vf_command :: "string list"
  vf_cwd :: string
  vf_exit_code :: "int option"
  vf_started_at :: time
  vf_finished_at :: time
  vf_tree_hash :: string
  vf_output_artifact :: uuid
  vf_timed_out :: bool

record checkpoint =
  ck_id :: uuid
  ck_realm :: nat
  ck_created_at :: time
  ck_attempt :: uuid
  ck_base_commit :: string
  ck_tree_hash :: string
  ck_summary :: string
  ck_context_refs :: "uuid list"
  ck_artifact_ids :: "uuid list"
  ck_remaining_work :: "string list"
  ck_next_step :: string
  ck_session_ref :: string
  ck_input_cursor :: int
  ck_audience_binding :: "audience option"

datatype input_outcome = OutcomeApplied | OutcomeNotApplied

record input_receipt =
  irc_outcome :: input_outcome
  irc_receipt_id :: uuid
  irc_attempt_id :: uuid
  irc_lease_epoch :: int

record input =
  in_id :: uuid
  in_realm :: nat
  in_job :: uuid
  in_author :: uid
  in_source_message :: "nat option"
  in_client_key :: uuid
  in_payload_digest :: string
  in_sequence :: int
  in_input_type :: input_type
  in_text :: string
  in_delivery_state :: input_state
  in_delivered_attempt :: "uuid option"
  in_applied_at :: "time option"
  in_receipts :: "input_receipt list"

datatype audit_type = RunnerEv runner_event_type | ServerEv authority_event_type
datatype audit_payload = RunnerPl runner_payload | ServerPl authority_payload

record audit_event =
  au_realm :: nat
  au_job :: uuid
  au_attempt :: "uuid option"
  au_event_id :: uuid
  au_sequence :: int
  au_attempt_sequence :: "int option"
  au_actor :: "uid option"
  au_authority :: authority
  au_type :: audit_type
  au_occurred_at :: time
  au_payload :: audit_payload

datatype dispatch_decision = DispatchAccepted | DispatchRejected | DispatchNeedsInput

record dispatch_receipt =
  dr_realm :: nat
  dr_source :: "nat option"
  dr_profile :: uuid
  dr_requester :: uid
  dr_trigger :: trigger_kind
  dr_decision :: dispatch_decision
  dr_reason :: string
  dr_job :: "uuid option"

datatype delivery_key =
    WakeKey uuid int | StopKey uuid | ResultKey uuid
  | AcceptedNotice uuid | EndNotice uuid int | InputNotice uuid | ApprovalNotice uuid

datatype outbox_event = JobWake | AttemptStop | ResultPublish | StatusNotice
datatype outbox_state = ObPending | ObProcessing | ObDelivered | ObBlocked

record outbox =
  ob_key :: delivery_key
  ob_realm :: nat
  ob_job :: "uuid option"
  ob_event_type :: outbox_event
  ob_payload_ref :: "uuid option"
  ob_attempt_count :: nat
  ob_next_attempt_at :: time
  ob_status :: outbox_state
  ob_delivered_at :: "time option"

text \<open>A registered hook: a status notice, the publication of a result, an edit of a draft.\<close>

datatype hook =
    NoticeHook uuid delivery_key string bool
  | PublishHook uuid
  | EditDraftHook nat string "uuid option"

text \<open>A message the agent's bot has sent for a job.\<close>

datatype destination = ToStream nat string | ToUsers "uid list"

record sent_message =
  sent_job :: uuid
  sent_to :: destination
  sent_content :: string
  sent_id :: nat

text \<open>
  \<open>db_blobs\<close> are the files of the private artifact storage, by artifact, and \<open>db_sent\<close> the
  messages sent by \<open>do_send_messages\<close>.
\<close>

record db =
  db_settings :: "realm_settings list"
  db_runners :: "runner list"
  db_pairings :: "pairing list"
  db_credentials :: "credential list"
  db_secrets :: "secret list"
  db_providers :: "provider list"
  db_repositories :: "repository list"
  db_profiles :: "profile list"
  db_grants :: "grant list"
  db_conversations :: "conversation list"
  db_jobs :: "job list"
  db_attempts :: "attempt list"
  db_context_refs :: "context_ref list"
  db_operations :: "operation list"
  db_approvals :: "approval list"
  db_artifacts :: "artifact list"
  db_verifications :: "verification list"
  db_checkpoints :: "checkpoint list"
  db_inputs :: "input list"
  db_audit :: "audit_event list"
  db_outbox :: "outbox list"
  db_receipts :: "dispatch_receipt list"
  db_blobs :: "(uuid \<times> nat list) list"
  db_sent :: "sent_message list"
  db_on_commit :: "hook list"
  db_next :: uuid

end
