(* ===== verification/Agent_Store.thy ===== *)
theory Agent_Store
  imports Agent_Models
begin

text \<open>
  Reading and writing one row of each table of \<open>db\<close>: \<open>get_x\<close> is \<open>.get(id=...)\<close>, \<open>put_x\<close>
  \<open>.save()\<close>, \<open>add_x\<close> \<open>.objects.create(...)\<close>.  Every table interprets the locale
  \<open>row_store\<close>, so that the components use its laws (\<open>jobs.get_put_same\<close>, \<open>attempts.get_in\<close>,
  and so on).  \<open>fresh\<close> is \<open>uuid4\<close>.  The last section is \<open>clean()\<close> of the records: no row may
  refer to another realm, or to the attempt, checkpoint or operation of another job.
\<close>

section \<open>Row access\<close>

definition get_runner :: "uuid \<Rightarrow> db \<Rightarrow> runner option" where
  "get_runner k d = tbl_get ru_id k (db_runners d)"

definition put_runner :: "runner \<Rightarrow> db \<Rightarrow> db" where
  "put_runner r d = d\<lparr>db_runners := tbl_save ru_id r (db_runners d)\<rparr>"

definition add_runner :: "runner \<Rightarrow> db \<Rightarrow> db" where
  "add_runner r d = d\<lparr>db_runners := db_runners d @ [r]\<rparr>"

interpretation runners: row_store ru_id db_runners get_runner put_runner add_runner
  by unfold_locales (simp_all add: get_runner_def put_runner_def add_runner_def)

definition get_pairing :: "uuid \<Rightarrow> db \<Rightarrow> pairing option" where
  "get_pairing k d = tbl_get pa_id k (db_pairings d)"

definition put_pairing :: "pairing \<Rightarrow> db \<Rightarrow> db" where
  "put_pairing r d = d\<lparr>db_pairings := tbl_save pa_id r (db_pairings d)\<rparr>"

definition add_pairing :: "pairing \<Rightarrow> db \<Rightarrow> db" where
  "add_pairing r d = d\<lparr>db_pairings := db_pairings d @ [r]\<rparr>"

interpretation pairings: row_store pa_id db_pairings get_pairing put_pairing add_pairing
  by unfold_locales (simp_all add: get_pairing_def put_pairing_def add_pairing_def)

definition get_credential :: "uuid \<Rightarrow> db \<Rightarrow> credential option" where
  "get_credential k d = tbl_get cd_id k (db_credentials d)"

definition put_credential :: "credential \<Rightarrow> db \<Rightarrow> db" where
  "put_credential r d = d\<lparr>db_credentials := tbl_save cd_id r (db_credentials d)\<rparr>"

definition add_credential :: "credential \<Rightarrow> db \<Rightarrow> db" where
  "add_credential r d = d\<lparr>db_credentials := db_credentials d @ [r]\<rparr>"

interpretation credentials: row_store cd_id db_credentials get_credential put_credential add_credential
  by unfold_locales (simp_all add: get_credential_def put_credential_def add_credential_def)

definition get_secret :: "uuid \<Rightarrow> db \<Rightarrow> secret option" where
  "get_secret k d = tbl_get se_id k (db_secrets d)"

definition put_secret :: "secret \<Rightarrow> db \<Rightarrow> db" where
  "put_secret r d = d\<lparr>db_secrets := tbl_save se_id r (db_secrets d)\<rparr>"

definition add_secret :: "secret \<Rightarrow> db \<Rightarrow> db" where
  "add_secret r d = d\<lparr>db_secrets := db_secrets d @ [r]\<rparr>"

interpretation secrets: row_store se_id db_secrets get_secret put_secret add_secret
  by unfold_locales (simp_all add: get_secret_def put_secret_def add_secret_def)

definition get_provider :: "uuid \<Rightarrow> db \<Rightarrow> provider option" where
  "get_provider k d = tbl_get pv_id k (db_providers d)"

definition put_provider :: "provider \<Rightarrow> db \<Rightarrow> db" where
  "put_provider r d = d\<lparr>db_providers := tbl_save pv_id r (db_providers d)\<rparr>"

definition add_provider :: "provider \<Rightarrow> db \<Rightarrow> db" where
  "add_provider r d = d\<lparr>db_providers := db_providers d @ [r]\<rparr>"

interpretation providers: row_store pv_id db_providers get_provider put_provider add_provider
  by unfold_locales (simp_all add: get_provider_def put_provider_def add_provider_def)

definition get_repository :: "uuid \<Rightarrow> db \<Rightarrow> repository option" where
  "get_repository k d = tbl_get repo_id k (db_repositories d)"

definition put_repository :: "repository \<Rightarrow> db \<Rightarrow> db" where
  "put_repository r d = d\<lparr>db_repositories := tbl_save repo_id r (db_repositories d)\<rparr>"

definition add_repository :: "repository \<Rightarrow> db \<Rightarrow> db" where
  "add_repository r d = d\<lparr>db_repositories := db_repositories d @ [r]\<rparr>"

interpretation repositories: row_store repo_id db_repositories get_repository put_repository add_repository
  by unfold_locales (simp_all add: get_repository_def put_repository_def add_repository_def)

definition get_profile :: "uuid \<Rightarrow> db \<Rightarrow> profile option" where
  "get_profile k d = tbl_get pr_id k (db_profiles d)"

definition put_profile :: "profile \<Rightarrow> db \<Rightarrow> db" where
  "put_profile r d = d\<lparr>db_profiles := tbl_save pr_id r (db_profiles d)\<rparr>"

definition add_profile :: "profile \<Rightarrow> db \<Rightarrow> db" where
  "add_profile r d = d\<lparr>db_profiles := db_profiles d @ [r]\<rparr>"

interpretation profiles: row_store pr_id db_profiles get_profile put_profile add_profile
  by unfold_locales (simp_all add: get_profile_def put_profile_def add_profile_def)

definition get_grant :: "uuid \<Rightarrow> db \<Rightarrow> grant option" where
  "get_grant k d = tbl_get gr_id k (db_grants d)"

definition put_grant :: "grant \<Rightarrow> db \<Rightarrow> db" where
  "put_grant r d = d\<lparr>db_grants := tbl_save gr_id r (db_grants d)\<rparr>"

definition add_grant :: "grant \<Rightarrow> db \<Rightarrow> db" where
  "add_grant r d = d\<lparr>db_grants := db_grants d @ [r]\<rparr>"

interpretation grants: row_store gr_id db_grants get_grant put_grant add_grant
  by unfold_locales (simp_all add: get_grant_def put_grant_def add_grant_def)

definition get_conversation :: "uuid \<Rightarrow> db \<Rightarrow> conversation option" where
  "get_conversation k d = tbl_get cv_id k (db_conversations d)"

definition put_conversation :: "conversation \<Rightarrow> db \<Rightarrow> db" where
  "put_conversation r d = d\<lparr>db_conversations := tbl_save cv_id r (db_conversations d)\<rparr>"

definition add_conversation :: "conversation \<Rightarrow> db \<Rightarrow> db" where
  "add_conversation r d = d\<lparr>db_conversations := db_conversations d @ [r]\<rparr>"

interpretation conversations: row_store cv_id db_conversations get_conversation put_conversation add_conversation
  by unfold_locales (simp_all add: get_conversation_def put_conversation_def add_conversation_def)

definition get_job :: "uuid \<Rightarrow> db \<Rightarrow> job option" where
  "get_job k d = tbl_get jb_id k (db_jobs d)"

definition put_job :: "job \<Rightarrow> db \<Rightarrow> db" where
  "put_job r d = d\<lparr>db_jobs := tbl_save jb_id r (db_jobs d)\<rparr>"

definition add_job :: "job \<Rightarrow> db \<Rightarrow> db" where
  "add_job r d = d\<lparr>db_jobs := db_jobs d @ [r]\<rparr>"

interpretation jobs: row_store jb_id db_jobs get_job put_job add_job
  by unfold_locales (simp_all add: get_job_def put_job_def add_job_def)

definition get_attempt :: "uuid \<Rightarrow> db \<Rightarrow> attempt option" where
  "get_attempt k d = tbl_get at_id k (db_attempts d)"

definition put_attempt :: "attempt \<Rightarrow> db \<Rightarrow> db" where
  "put_attempt r d = d\<lparr>db_attempts := tbl_save at_id r (db_attempts d)\<rparr>"

definition add_attempt :: "attempt \<Rightarrow> db \<Rightarrow> db" where
  "add_attempt r d = d\<lparr>db_attempts := db_attempts d @ [r]\<rparr>"

interpretation attempts: row_store at_id db_attempts get_attempt put_attempt add_attempt
  by unfold_locales (simp_all add: get_attempt_def put_attempt_def add_attempt_def)

definition get_context_ref :: "uuid \<Rightarrow> db \<Rightarrow> context_ref option" where
  "get_context_ref k d = tbl_get cr_id k (db_context_refs d)"

definition put_context_ref :: "context_ref \<Rightarrow> db \<Rightarrow> db" where
  "put_context_ref r d = d\<lparr>db_context_refs := tbl_save cr_id r (db_context_refs d)\<rparr>"

definition add_context_ref :: "context_ref \<Rightarrow> db \<Rightarrow> db" where
  "add_context_ref r d = d\<lparr>db_context_refs := db_context_refs d @ [r]\<rparr>"

interpretation context_refs: row_store cr_id db_context_refs get_context_ref put_context_ref add_context_ref
  by unfold_locales (simp_all add: get_context_ref_def put_context_ref_def add_context_ref_def)

definition get_operation :: "uuid \<Rightarrow> db \<Rightarrow> operation option" where
  "get_operation k d = tbl_get oper_id k (db_operations d)"

definition put_operation :: "operation \<Rightarrow> db \<Rightarrow> db" where
  "put_operation r d = d\<lparr>db_operations := tbl_save oper_id r (db_operations d)\<rparr>"

definition add_operation :: "operation \<Rightarrow> db \<Rightarrow> db" where
  "add_operation r d = d\<lparr>db_operations := db_operations d @ [r]\<rparr>"

interpretation operations: row_store oper_id db_operations get_operation put_operation add_operation
  by unfold_locales (simp_all add: get_operation_def put_operation_def add_operation_def)

definition get_approval :: "uuid \<Rightarrow> db \<Rightarrow> approval option" where
  "get_approval k d = tbl_get ap_id k (db_approvals d)"

definition put_approval :: "approval \<Rightarrow> db \<Rightarrow> db" where
  "put_approval r d = d\<lparr>db_approvals := tbl_save ap_id r (db_approvals d)\<rparr>"

definition add_approval :: "approval \<Rightarrow> db \<Rightarrow> db" where
  "add_approval r d = d\<lparr>db_approvals := db_approvals d @ [r]\<rparr>"

interpretation approvals: row_store ap_id db_approvals get_approval put_approval add_approval
  by unfold_locales (simp_all add: get_approval_def put_approval_def add_approval_def)

definition get_artifact :: "uuid \<Rightarrow> db \<Rightarrow> artifact option" where
  "get_artifact k d = tbl_get af_id k (db_artifacts d)"

definition put_artifact :: "artifact \<Rightarrow> db \<Rightarrow> db" where
  "put_artifact r d = d\<lparr>db_artifacts := tbl_save af_id r (db_artifacts d)\<rparr>"

definition add_artifact :: "artifact \<Rightarrow> db \<Rightarrow> db" where
  "add_artifact r d = d\<lparr>db_artifacts := db_artifacts d @ [r]\<rparr>"

interpretation artifacts: row_store af_id db_artifacts get_artifact put_artifact add_artifact
  by unfold_locales (simp_all add: get_artifact_def put_artifact_def add_artifact_def)

definition get_checkpoint :: "uuid \<Rightarrow> db \<Rightarrow> checkpoint option" where
  "get_checkpoint k d = tbl_get ck_id k (db_checkpoints d)"

definition put_checkpoint :: "checkpoint \<Rightarrow> db \<Rightarrow> db" where
  "put_checkpoint r d = d\<lparr>db_checkpoints := tbl_save ck_id r (db_checkpoints d)\<rparr>"

definition add_checkpoint :: "checkpoint \<Rightarrow> db \<Rightarrow> db" where
  "add_checkpoint r d = d\<lparr>db_checkpoints := db_checkpoints d @ [r]\<rparr>"

interpretation checkpoints: row_store ck_id db_checkpoints get_checkpoint put_checkpoint add_checkpoint
  by unfold_locales (simp_all add: get_checkpoint_def put_checkpoint_def add_checkpoint_def)

definition get_input :: "uuid \<Rightarrow> db \<Rightarrow> input option" where
  "get_input k d = tbl_get in_id k (db_inputs d)"

definition put_input :: "input \<Rightarrow> db \<Rightarrow> db" where
  "put_input r d = d\<lparr>db_inputs := tbl_save in_id r (db_inputs d)\<rparr>"

definition add_input_row :: "input \<Rightarrow> db \<Rightarrow> db" where
  "add_input_row r d = d\<lparr>db_inputs := db_inputs d @ [r]\<rparr>"

interpretation inputs: row_store in_id db_inputs get_input put_input add_input_row
  by unfold_locales (simp_all add: get_input_def put_input_def add_input_row_def)

definition get_outbox :: "delivery_key \<Rightarrow> db \<Rightarrow> outbox option" where
  "get_outbox k d = tbl_get ob_key k (db_outbox d)"

definition put_outbox :: "outbox \<Rightarrow> db \<Rightarrow> db" where
  "put_outbox r d = d\<lparr>db_outbox := tbl_save ob_key r (db_outbox d)\<rparr>"

definition add_outbox :: "outbox \<Rightarrow> db \<Rightarrow> db" where
  "add_outbox r d = d\<lparr>db_outbox := db_outbox d @ [r]\<rparr>"

interpretation outbox: row_store ob_key db_outbox get_outbox put_outbox add_outbox
  by unfold_locales (simp_all add: get_outbox_def put_outbox_def add_outbox_def)

lemmas put_defs = put_runner_def put_pairing_def put_credential_def put_secret_def put_provider_def put_repository_def put_profile_def put_grant_def put_conversation_def put_job_def put_attempt_def put_context_ref_def put_operation_def put_approval_def put_artifact_def put_checkpoint_def put_input_def put_outbox_def

lemmas add_defs = add_runner_def add_pairing_def add_credential_def add_secret_def add_provider_def add_repository_def add_profile_def add_grant_def add_conversation_def add_job_def add_attempt_def add_context_ref_def add_operation_def add_approval_def add_artifact_def add_checkpoint_def add_input_row_def add_outbox_def

lemmas get_defs = get_runner_def get_pairing_def get_credential_def get_secret_def get_provider_def get_repository_def get_profile_def get_grant_def get_conversation_def get_job_def get_attempt_def get_context_ref_def get_operation_def get_approval_def get_artifact_def get_checkpoint_def get_input_def get_outbox_def

definition fresh :: "db \<Rightarrow> uuid \<times> db" where
  "fresh d = (db_next d, d\<lparr>db_next := db_next d + 1\<rparr>)"

definition get_user :: "env \<Rightarrow> uid \<Rightarrow> user option" where
  "get_user en u = tbl_get us_id u (en_users en)"

lemma get_user_id: "get_user en u = Some r \<Longrightarrow> us_id r = u"
  by (auto simp: get_user_def dest: tbl_get_SomeD)

end
