(* ===== verification/Agent_Policy.thy ===== *)
theory Agent_Policy
  imports Agent_Store "HOL-Library.AList"
begin

text \<open>
  Access checks of \<^verbatim>\<open>zerver/lib/agent_policy.py\<close>: who may use a profile, runner, provider or
  repository, as its owner or through a grant, and where (the scope of a grant against a message
  or a destination).  \<open>check_agent_access\<close> is the check every job operation makes,
  \<open>accessible_profiles\<close> the visibility rule of the task lists.  The lemmas give the meaning of a
  successful check in terms of rows: an active actor, no revoked, archived or disabled resource,
  and for every resource an active owner and either ownership or a live grant.
\<close>

section \<open>Resources\<close>

datatype resource =
    ResRunner runner
  | ResProvider provider
  | ResRepository repository
  | ResProfile profile

fun res_id :: "resource \<Rightarrow> uuid" where
  "res_id (ResRunner r) = ru_id r"
| "res_id (ResProvider r) = pv_id r"
| "res_id (ResRepository r) = repo_id r"
| "res_id (ResProfile r) = pr_id r"

fun res_owner :: "resource \<Rightarrow> uid" where
  "res_owner (ResRunner r) = ru_owner r"
| "res_owner (ResProvider r) = pv_owner r"
| "res_owner (ResRepository r) = repo_owner r"
| "res_owner (ResProfile r) = pr_owner r"

fun res_realm :: "resource \<Rightarrow> nat" where
  "res_realm (ResRunner r) = ru_realm r"
| "res_realm (ResProvider r) = pv_realm r"
| "res_realm (ResRepository r) = repo_realm r"
| "res_realm (ResProfile r) = pr_realm r"

text \<open>Every caller names the kind of the resource it passes, so the kind is read off it.\<close>

fun res_kind :: "resource \<Rightarrow> target_kind" where
  "res_kind (ResRunner _) = TkRunner"
| "res_kind (ResProvider _) = TkProvider"
| "res_kind (ResRepository _) = TkRepository"
| "res_kind (ResProfile _) = TkProfile"

fun res_unavailable :: "resource \<Rightarrow> bool" where
  "res_unavailable (ResRunner r) = (ru_revoked_at r \<noteq> None)"
| "res_unavailable (ResProvider r) = (pv_disabled_at r \<noteq> None)"
| "res_unavailable (ResRepository r) = (repo_disabled_at r \<noteq> None)"
| "res_unavailable (ResProfile r) = False"

section \<open>Principals and scopes\<close>

definition active_user :: "env \<Rightarrow> uid \<Rightarrow> bool" where
  "active_user en u = (case get_user en u of None \<Rightarrow> False | Some r \<Rightarrow> us_active r)"

definition principal_matches :: "env \<Rightarrow> user \<Rightarrow> grant \<Rightarrow> bool" where
  "principal_matches en actor g =
     (if gr_principal_user g = Some (us_id actor) \<and> us_active actor then True
      else case gr_principal_group g of
        None \<Rightarrow> False
      | Some gid \<Rightarrow>
          if en_group_deactivated en gid then False
          else us_id actor \<in> set (en_group_members en gid) \<and> active_user en (us_id actor))"

definition destination_matches :: "scope \<Rightarrow> scope \<Rightarrow> bool" where
  "destination_matches required dest =
     (if \<not> valid_scope required then False
      else if sc_anchor required \<noteq> None \<or> sc_kind required \<noteq> sc_kind dest then False
      else if sc_kind required = ScStream
      then sc_stream_id required = sc_stream_id dest \<and>
           (sc_topic required = None \<or> sc_topic required = sc_topic dest)
      else sc_kind required = ScDirect \<and>
           set (sc_participants required) = set (sc_participants dest))"

definition message_in_scope :: "env \<Rightarrow> scope \<Rightarrow> message \<Rightarrow> bool" where
  "message_in_scope en s m =
     (if \<not> valid_scope s then False
      else if sc_anchor s \<noteq> None \<and> sc_anchor s \<noteq> Some (ms_id m) then False
      else (case sc_kind s of
        ScSelected \<Rightarrow> True
      | ScStream \<Rightarrow>
          ms_stream m \<noteq> None \<and> ms_stream m = sc_stream_id s \<and>
          (sc_topic s = None \<or> sc_topic s = Some (ms_topic m))
      | ScDirect \<Rightarrow>
          ms_stream m = None \<and>
          set (en_display_recipients en (ms_recipient_id m)) = set (sc_participants s)))"

definition scope_matches :: "env \<Rightarrow> scope \<Rightarrow> message option \<Rightarrow> scope option \<Rightarrow> bool" where
  "scope_matches en s msg dest = (case msg of
     None \<Rightarrow> (case dest of None \<Rightarrow> False | Some t \<Rightarrow> destination_matches s t)
   | Some m \<Rightarrow> message_in_scope en s m)"

section \<open>Grants\<close>

fun gr_target :: "target_kind \<Rightarrow> grant \<Rightarrow> uuid option" where
  "gr_target TkRunner g = gr_runner g"
| "gr_target TkProvider g = gr_provider g"
| "gr_target TkRepository g = gr_repository g"
| "gr_target TkProfile g = gr_profile g"

definition grant_live :: "time \<Rightarrow> grant \<Rightarrow> bool" where
  "grant_live now g =
     (gr_revoked_at g = None \<and> (case gr_expires_at g of None \<Rightarrow> True | Some e \<Rightarrow> now < e))"

definition grant_query :: "time \<Rightarrow> nat \<Rightarrow> target_kind \<Rightarrow> uuid \<Rightarrow> db \<Rightarrow> grant list" where
  "grant_query now realm kind target d =
     filter (\<lambda>g. gr_realm g = realm \<and> gr_target_kind g = kind \<and> grant_live now g \<and>
                 gr_target kind g = Some target) (db_grants d)"

definition grant_matches ::
    "env \<Rightarrow> time \<Rightarrow> db \<Rightarrow> user \<Rightarrow> target_kind \<Rightarrow> uuid \<Rightarrow> action \<Rightarrow> uuid option \<Rightarrow> message option \<Rightarrow>
     scope option \<Rightarrow> bool \<Rightarrow> bool" where
  "grant_matches en now d actor kind target act repo msg dest active =
     list_ex (\<lambda>g.
        (if (active \<and> \<not> active_user en (gr_owner g)) \<or> act \<notin> set (gr_actions g) \<or>
            \<not> principal_matches en actor g then False
         else if gr_target_kind g = TkProfile \<and> gr_repository g \<noteq> None \<and>
                 (repo = None \<or> gr_repository g \<noteq> repo) then False
         else (case gr_scope g of None \<Rightarrow> True | Some s \<Rightarrow> scope_matches en s msg dest)))
       (grant_query now (us_realm actor) kind target d)"

definition owner_or_grant ::
    "env \<Rightarrow> time \<Rightarrow> db \<Rightarrow> user \<Rightarrow> resource \<Rightarrow> action \<Rightarrow> uuid option \<Rightarrow> message option \<Rightarrow>
     scope option \<Rightarrow> bool \<Rightarrow> bool" where
  "owner_or_grant en now d actor res act repo msg dest active =
     (if active \<and> \<not> active_user en (res_owner res) then False
      else res_owner res = us_id actor \<or>
           grant_matches en now d actor (res_kind res) (res_id res) act repo msg dest active)"

definition require_agent_resource_access ::
    "env \<Rightarrow> time \<Rightarrow> db \<Rightarrow> user \<Rightarrow> resource \<Rightarrow> action \<Rightarrow> exn + unit" where
  "require_agent_resource_access en now d actor res act =
     (if \<not> us_active actor \<or> res_realm res \<noteq> us_realm actor \<or>
         \<not> owner_or_grant en now d actor res act None None None True
      then Inl AccessDenied
      else if res_unavailable res then Inl AccessDenied else Inr ())"

section \<open>Visibility\<close>

text \<open>The narrowing of a selected-message scope to the conversation of its anchor.\<close>

definition anchored_scope :: "env \<Rightarrow> scope \<Rightarrow> message \<Rightarrow> scope" where
  "anchored_scope en s m =
     (if sc_kind s = ScSelected then
        (case ms_stream m of
           Some c \<Rightarrow> \<lparr>sc_kind = ScStream, sc_stream_id = Some c, sc_topic = Some (ms_topic m),
                     sc_participants = [], sc_anchor = Some (ms_id m)\<rparr>
         | None \<Rightarrow> \<lparr>sc_kind = ScDirect, sc_stream_id = None, sc_topic = None,
                   sc_participants = en_display_recipients en (ms_recipient_id m),
                   sc_anchor = Some (ms_id m)\<rparr>)
      else s)"

definition scope_readers_ok :: "env \<Rightarrow> user \<Rightarrow> user \<Rightarrow> scope \<Rightarrow> bool" where
  "scope_readers_ok en actor bt s = (case sc_kind s of
     ScStream \<Rightarrow>
       (case sc_stream_id s of
          None \<Rightarrow> False
        | Some c \<Rightarrow> en_access_stream en (us_id actor) c \<and> en_access_stream en (us_id bt) c)
   | ScDirect \<Rightarrow>
       (let participants = remdups (sc_participants s) in
        us_id actor \<in> set participants \<and> us_id bt \<in> set participants \<and>
        row_count (\<lambda>u. us_realm u = us_realm actor \<and> us_id u \<in> set participants) (en_users en) =
        length participants)
   | ScSelected \<Rightarrow> True)"

definition readable_scope :: "env \<Rightarrow> user \<Rightarrow> user \<Rightarrow> scope option \<Rightarrow> bool \<times> scope option" where
  "readable_scope en actor bt data = (case data of
     None \<Rightarrow> (True, None)
   | Some s \<Rightarrow>
       if \<not> valid_scope s then (False, None)
       else (case sc_anchor s of
         None \<Rightarrow> if scope_readers_ok en actor bt s then (True, Some s) else (False, None)
       | Some a \<Rightarrow>
           (case en_access_message en (us_id actor) a of
              None \<Rightarrow> (False, None)
            | Some m \<Rightarrow>
                if en_access_message en (us_id bt) (ms_id m) = None \<or> \<not> scope_matches en s (Some m) None
                then (False, None)
                else (let t = anchored_scope en s m in
                  if valid_scope t \<and> scope_readers_ok en actor bt t then (True, Some t)
                  else (False, None)))))"

definition intersect_scopes :: "scope option \<Rightarrow> scope option \<Rightarrow> bool \<times> scope option" where
  "intersect_scopes left right = (case left of
     None \<Rightarrow> (True, right)
   | Some l \<Rightarrow> (case right of
       None \<Rightarrow> (True, Some l)
     | Some r \<Rightarrow>
         if sc_kind l \<noteq> sc_kind r \<or>
            (sc_anchor l \<noteq> None \<and> sc_anchor r \<noteq> None \<and> sc_anchor l \<noteq> sc_anchor r)
         then (False, None)
         else if sc_kind l = ScStream \<and>
            (sc_stream_id l \<noteq> sc_stream_id r \<or>
             (sc_topic l \<noteq> None \<and> sc_topic r \<noteq> None \<and> sc_topic l \<noteq> sc_topic r))
         then (False, None)
         else if sc_kind l = ScDirect \<and> set (sc_participants l) \<noteq> set (sc_participants r)
         then (False, None)
         else (True, Some (l\<lparr>
           sc_anchor := (if sc_anchor l = None \<or> sc_anchor l = Some 0 then sc_anchor r else sc_anchor l),
           sc_topic := (if sc_topic l \<noteq> None then sc_topic l else sc_topic r)\<rparr>))))"

definition visibility_scopes ::
    "env \<Rightarrow> time \<Rightarrow> db \<Rightarrow> user \<Rightarrow> profile \<Rightarrow> resource \<Rightarrow> action list \<Rightarrow> scope option list" where
  "visibility_scopes en now d actor p res acts =
     (if res_realm res \<noteq> us_realm actor then []
      else if \<not> active_user en (res_owner res) then []
      else if res_owner res = us_id actor then [None]
      else concat (map (\<lambda>g.
        (if \<not> active_user en (gr_owner g) \<or> set acts \<inter> set (gr_actions g) = {} \<or>
            \<not> principal_matches en actor g then []
         else if res_kind res = TkProfile \<and> gr_repository g \<noteq> None \<and>
                 gr_repository g \<noteq> pr_default_repository p then []
         else (case get_user en (pr_bot_user p) of
             None \<Rightarrow> []
           | Some bt \<Rightarrow>
               (let (readable, s) = readable_scope en actor bt (gr_scope g)
                in if readable then [s] else []))))
        (grant_query now (us_realm actor) (res_kind res) (res_id res) d)))"

text \<open>
  The pairwise intersections; the code collects them in a dictionary keyed by the canonical text
  of the scope, which drops repetitions.
\<close>

definition narrow_scopes :: "scope option list \<Rightarrow> scope option list \<Rightarrow> scope option list" where
  "narrow_scopes lefts rights =
     remdups (concat (map (\<lambda>l. concat (map (\<lambda>r.
       (let (compatible, s) = intersect_scopes l r in if compatible then [s] else [])) rights)) lefts))"

definition profile_resources :: "db \<Rightarrow> profile \<Rightarrow> (resource \<times> action) list" where
  "profile_resources d p =
     (case get_runner (pr_runner p) d of None \<Rightarrow> [] | Some r \<Rightarrow> [(ResRunner r, RunnerUse)]) @
     (case pr_provider p of None \<Rightarrow> [] | Some i \<Rightarrow>
        (case get_provider i d of None \<Rightarrow> [] | Some r \<Rightarrow> [(ResProvider r, ProviderUse)])) @
     (case pr_default_repository p of None \<Rightarrow> [] | Some i \<Rightarrow>
        (case get_repository i d of None \<Rightarrow> [] | Some r \<Rightarrow> [(ResRepository r, RepositoryRead)]))"

fun narrow_by_resources ::
    "env \<Rightarrow> time \<Rightarrow> db \<Rightarrow> user \<Rightarrow> profile \<Rightarrow> (resource \<times> action) list \<Rightarrow> scope option list \<Rightarrow>
     scope option list" where
  "narrow_by_resources en now d actor p [] scopes = scopes"
| "narrow_by_resources en now d actor p ((res, act) # rs) scopes =
     (let scopes' = narrow_scopes scopes (visibility_scopes en now d actor p res [act]) in
      if scopes' = [] then [] else narrow_by_resources en now d actor p rs scopes')"

definition profile_visible :: "env \<Rightarrow> time \<Rightarrow> db \<Rightarrow> user \<Rightarrow> profile \<Rightarrow> bool" where
  "profile_visible en now d actor p =
     (pr_owner p = us_id actor \<or>
      narrow_by_resources en now d actor p (profile_resources d p)
        (visibility_scopes en now d actor p (ResProfile p) [ProfileUse, ProfileManage]) \<noteq> [])"

definition accessible_profiles :: "env \<Rightarrow> time \<Rightarrow> db \<Rightarrow> user \<Rightarrow> profile list" where
  "accessible_profiles en now d actor =
     (if \<not> us_active actor then []
      else filter (\<lambda>p. pr_realm p = us_realm actor \<and> profile_visible en now d actor p) (db_profiles d))"

section \<open>The administrator-agent command gate\<close>

definition require_manage_command :: "env \<Rightarrow> user \<Rightarrow> profile \<Rightarrow> action option \<Rightarrow> exn + unit" where
  "require_manage_command en actor p act =
     (if act = Some TeamManage \<and> pr_default_mode p \<noteq> KManage then Inl AccessDenied
      else if pr_default_mode p \<noteq> KManage then Inr ()
      else (case get_user en (pr_owner p) of
          None \<Rightarrow> Inl AccessDenied
        | Some owner \<Rightarrow>
            if us_realm owner \<noteq> pr_realm p \<or> \<not> us_active owner \<or> \<not> us_admin owner then Inl AccessDenied
            else if \<not> en_can_command en (us_id actor) then Inl AccessDenied
            else Inr ()))"

section \<open>Access to a profile and everything it runs on\<close>

definition fetch_opt :: "string \<Rightarrow> ('k \<Rightarrow> db \<Rightarrow> 'r option) \<Rightarrow> 'k option \<Rightarrow> db \<Rightarrow> exn + 'r option" where
  "fetch_opt what get k d = (case k of
     None \<Rightarrow> Inr None
   | Some i \<Rightarrow> (case get i d of None \<Rightarrow> Inl (DoesNotExist what) | Some r \<Rightarrow> Inr (Some r)))"

text \<open>\<open>action.startswith(("repository.", "checks.", "shell.", "dependencies.", "git."))\<close>.\<close>

definition repository_action_of :: "action \<Rightarrow> action" where
  "repository_action_of act =
     (if list_ex (\<lambda>p. starts_with p (action_name act))
           [''repository.'', ''checks.'', ''shell.'', ''dependencies.'', ''git.'']
      then act else RepositoryRead)"

definition secret_revoked :: "provider \<Rightarrow> db \<Rightarrow> bool" where
  "secret_revoked pv d = (case pv_secret pv of
     None \<Rightarrow> False
   | Some s \<Rightarrow> (case get_secret s d of None \<Rightarrow> False | Some r \<Rightarrow> se_revoked_at r \<noteq> None))"

definition profile_unavailable :: "profile \<Rightarrow> runner \<Rightarrow> provider option \<Rightarrow> repository option \<Rightarrow> db \<Rightarrow> bool" where
  "profile_unavailable p r pv repo d =
     (ru_revoked_at r \<noteq> None \<or> pr_desired_state p = PArchived \<or>
      (case pv of None \<Rightarrow> False | Some v \<Rightarrow> pv_disabled_at v \<noteq> None \<or> secret_revoked v d) \<or>
      (case repo of None \<Rightarrow> False | Some w \<Rightarrow> repo_disabled_at w \<noteq> None))"

definition realms_match :: "user \<Rightarrow> profile \<Rightarrow> runner \<Rightarrow> provider option \<Rightarrow> repository option \<Rightarrow> message option \<Rightarrow> bool" where
  "realms_match actor p r pv repo msg =
     (pr_realm p = us_realm actor \<and> ru_realm r = us_realm actor \<and>
      opt_all (\<lambda>v. pv_realm v = us_realm actor) pv \<and> opt_all (\<lambda>w. repo_realm w = us_realm actor) repo \<and>
      opt_all (\<lambda>m. ms_realm m = us_realm actor) msg)"

definition message_readable :: "env \<Rightarrow> user \<Rightarrow> user \<Rightarrow> message option \<Rightarrow> bool" where
  "message_readable en actor bt msg = (case msg of
     None \<Rightarrow> True
   | Some m \<Rightarrow> en_access_message en (us_id actor) (ms_id m) \<noteq> None \<and>
               en_access_message en (us_id bt) (ms_id m) \<noteq> None)"

text \<open>The authority part: the actor must hold every resource the profile runs on.\<close>

definition holds_resources ::
    "env \<Rightarrow> time \<Rightarrow> db \<Rightarrow> user \<Rightarrow> profile \<Rightarrow> runner \<Rightarrow> provider option \<Rightarrow> repository option \<Rightarrow>
     message option \<Rightarrow> action \<Rightarrow> scope option \<Rightarrow> bool" where
  "holds_resources en now d actor p r pv repo msg act dest =
     (owner_or_grant en now d actor (ResProfile p) act (map_option repo_id repo) msg dest True \<and>
      owner_or_grant en now d actor (ResRunner r) RunnerUse None msg dest True \<and>
      opt_all (\<lambda>v. owner_or_grant en now d actor (ResProvider v) ProviderUse None msg dest True) pv \<and>
      opt_all (\<lambda>w. owner_or_grant en now d actor (ResRepository w) (repository_action_of act) None
                     msg dest True) repo)"

definition check_agent_access ::
    "env \<Rightarrow> time \<Rightarrow> db \<Rightarrow> user \<Rightarrow> uuid \<Rightarrow> uuid option \<Rightarrow> message option \<Rightarrow> action \<Rightarrow> scope option \<Rightarrow>
     exn + unit" where
  "check_agent_access en now d actor pid repo msg act dest =
     rbind (fetch ''profile'' (get_profile pid d)) (\<lambda>p.
     rbind (fetch ''runner'' (get_runner (pr_runner p) d)) (\<lambda>r.
     rbind (fetch_opt ''provider'' get_provider (pr_provider p) d) (\<lambda>pv.
     rbind (fetch ''bot'' (get_user en (pr_bot_user p))) (\<lambda>bt.
     rbind (fetch_opt ''repository'' get_repository repo d) (\<lambda>rp.
       if \<not> us_active actor then Inl AccessDenied
       else rbind
         (if act = ProfileManage then Inr ()
          else rbind (require_manage_command en actor p (Some act)) (\<lambda>_.
            if profile_unavailable p r pv rp d then Inl AccessDenied
            else if act \<notin> {ProfileUse, TeamManage} \<and> act \<notin> set (pol_actions (pr_policy p))
            then Inl AccessDenied
            else Inr ()))
         (\<lambda>_.
           if \<not> opt_all (\<lambda>v. pv_runner v = pr_runner p) pv \<or> \<not> opt_all (\<lambda>w. repo_runner w = pr_runner p) rp
           then Inl AccessDenied
           else if \<not> realms_match actor p r pv rp msg then Inl AccessDenied
           else if dest \<noteq> None \<and> (msg \<noteq> None \<or> \<not> fst (readable_scope en actor bt dest))
           then Inl AccessDenied
           else if \<not> message_readable en actor bt msg then Inl AccessDenied
           else if \<not> holds_resources en now d actor p r pv rp msg act dest then Inl AccessDenied
           else Inr ()))))))"

section \<open>What a successful check means\<close>

text \<open>
  The contract of a grant, on rows: some grant of the table is live, gives the action on the
  resource in the actor's realm, was given by an active user and names the actor, directly or
  through an active group.
\<close>

definition granted :: "env \<Rightarrow> time \<Rightarrow> db \<Rightarrow> user \<Rightarrow> resource \<Rightarrow> action \<Rightarrow> bool" where
  "granted en now d actor res act =
     (\<exists>g\<in>set (db_grants d).
        gr_revoked_at g = None \<and> (\<forall>e. gr_expires_at g = Some e \<longrightarrow> now < e) \<and>
        gr_realm g = us_realm actor \<and> gr_target (res_kind res) g = Some (res_id res) \<and>
        act \<in> set (gr_actions g) \<and> active_user en (gr_owner g) \<and>
        (gr_principal_user g = Some (us_id actor) \<or>
         (\<exists>gid. gr_principal_group g = Some gid \<and> \<not> en_group_deactivated en gid \<and>
                us_id actor \<in> set (en_group_members en gid))))"

lemma principal_matchesD:
  "principal_matches en actor g \<Longrightarrow>
   gr_principal_user g = Some (us_id actor) \<or>
   (\<exists>gid. gr_principal_group g = Some gid \<and> \<not> en_group_deactivated en gid \<and>
          us_id actor \<in> set (en_group_members en gid))"
  by (auto simp: principal_matches_def split: if_splits option.splits)

lemma grant_matches_granted:
  assumes "grant_matches en now d actor (res_kind res) (res_id res) act repo msg dest True"
  shows "granted en now d actor res act"
proof -
  obtain g where g: "g \<in> set (db_grants d)" "gr_realm g = us_realm actor" "grant_live now g"
      "gr_target (res_kind res) g = Some (res_id res)" "act \<in> set (gr_actions g)"
      "active_user en (gr_owner g)" "principal_matches en actor g"
    using assms by (auto simp: grant_matches_def grant_query_def list_ex_iff split: if_splits)
  moreover have "gr_revoked_at g = None \<and> (\<forall>e. gr_expires_at g = Some e \<longrightarrow> now < e)"
    using g(3) by (auto simp: grant_live_def split: option.splits)
  ultimately show ?thesis
    unfolding granted_def by (intro bexI [of _ g]) (simp_all add: principal_matchesD)
qed

lemma owner_or_grantD:
  "owner_or_grant en now d actor res act repo msg dest True \<Longrightarrow>
   active_user en (res_owner res) \<and> (res_owner res = us_id actor \<or> granted en now d actor res act)"
  by (auto simp: owner_or_grant_def intro: grant_matches_granted split: if_splits)

lemma fetch_opt_eq_Inr [simp]:
  "(fetch_opt w get k d = Inr x) =
   ((k = None \<and> x = None) \<or> (\<exists>i r. k = Some i \<and> get i d = Some r \<and> x = Some r))"
  by (auto simp: fetch_opt_def split: option.splits)

lemma check_agent_access_okD:
  assumes "check_agent_access en now d actor pid repo msg act dest = Inr u"
  shows "us_active actor"
    and "\<exists>p r pv bt rp. get_profile pid d = Some p \<and> get_runner (pr_runner p) d = Some r \<and>
      fetch_opt ''provider'' get_provider (pr_provider p) d = Inr pv \<and>
      fetch_opt ''repository'' get_repository repo d = Inr rp \<and>
      get_user en (pr_bot_user p) = Some bt \<and>
      (act \<noteq> ProfileManage \<longrightarrow>
         require_manage_command en actor p (Some act) = Inr () \<and> \<not> profile_unavailable p r pv rp d \<and>
         (act \<in> {ProfileUse, TeamManage} \<or> act \<in> set (pol_actions (pr_policy p)))) \<and>
      realms_match actor p r pv rp msg \<and> message_readable en actor bt msg \<and>
      holds_resources en now d actor p r pv rp msg act dest"
  using assms unfolding check_agent_access_def by (auto split: if_splits)

lemma manage_commandD:
  "require_manage_command en actor p act = Inr u \<Longrightarrow> pr_default_mode p = KManage \<Longrightarrow>
   en_can_command en (us_id actor) \<and>
   (\<exists>owner. get_user en (pr_owner p) = Some owner \<and> us_admin owner \<and> us_active owner \<and>
            us_realm owner = pr_realm p)"
  by (auto simp: require_manage_command_def)

lemma manage_command_mode:
  "require_manage_command en actor p (Some TeamManage) = Inr u \<Longrightarrow> pr_default_mode p = KManage"
  by (auto simp: require_manage_command_def split: if_splits)

end
