(* ===== verification/Agent_Context.thy ===== *)
theory Agent_Context
  imports Agent_Policy
begin

text \<open>
  The audience rules of \<^verbatim>\<open>zerver/lib/agent_context.py\<close>: who reads a conversation now
  (\<open>current_audience\<close>), whether that is still the accepted audience of a job
  (\<open>require_audience\<close>), who may see a job's history (\<open>require_job_access\<close>), and which messages
  and files may flow into it (\<open>require_reference_audience\<close>, \<open>selected_context\<close>).  Also
  \<open>observed_runner_status\<close> of \<^verbatim>\<open>zerver/lib/agent_presence.py\<close>.  The locks and time limits of
  \<open>agent_transaction\<close> have no counterpart: a handler is one atomic step.
\<close>

section \<open>Runner presence\<close>

definition heartbeat_stale_after :: int where "heartbeat_stale_after = 90"

definition observed_runner_status :: "time \<Rightarrow> runner \<Rightarrow> runner_state" where
  "observed_runner_status now r =
     (if ru_revoked_at r \<noteq> None then RRevoked
      else if ru_status r = ROnline \<and>
              (case ru_last_heartbeat_at r of None \<Rightarrow> True | Some h \<Rightarrow> h \<le> now - heartbeat_stale_after)
      then RUnknown
      else ru_status r)"

section \<open>The current audience of a conversation\<close>

definition active_realm_user :: "env \<Rightarrow> nat \<Rightarrow> uid \<Rightarrow> exn + user" where
  "active_realm_user en realm u = (case get_user en u of
     None \<Rightarrow> Inl (DoesNotExist ''user'')
   | Some r \<Rightarrow> if us_realm r = realm \<and> us_active r then Inr r else Inl (DoesNotExist ''user''))"

definition stream_members :: "env \<Rightarrow> nat \<Rightarrow> nat \<Rightarrow> exn + uid list" where
  "stream_members en realm c =
     (let users = take 10001 (sort_key us_id
            (filter (\<lambda>u. us_realm u = realm \<and> us_active u) (en_users en)))
      in if length users > 10000 then Inl (ValueErr ''Pilot audience limit exceeded.'')
         else Inr (map us_id
           (filter (\<lambda>u. en_content_access en (us_id u) c (en_subscribed en (us_id u) c)) users)))"

definition audience_of :: "conversation \<Rightarrow> uid \<Rightarrow> uid \<Rightarrow> message \<Rightarrow> stream option \<Rightarrow> uid list \<Rightarrow> audience" where
  "audience_of cv requester b m sm members = \<lparr>
     aud_conversation_id = cv_id cv, aud_epoch = cv_epoch cv, aud_realm_id = cv_realm cv,
     aud_profile_id = cv_profile cv, aud_requester = requester, aud_bot = b,
     aud_anchor = ms_id m, aud_recipient_id = ms_recipient_id m,
     aud_kind = (if sm = None then RDirect else RStream),
     aud_stream_id = map_option sm_id sm, aud_invite_only = map_option sm_invite_only sm,
     aud_web_public = map_option sm_web_public sm, aud_history_public = map_option sm_history_public sm,
     aud_user_ids = members\<rparr>"

definition checked_audience :: "audience \<Rightarrow> exn + audience" where
  "checked_audience a = (if valid_audience a then Inr a else Inl ProtocolInvalid)"

definition current_audience :: "env \<Rightarrow> conversation \<Rightarrow> uid \<Rightarrow> uid \<Rightarrow> exn + audience" where
  "current_audience en cv requester b = (case cv_anchor cv of
     None \<Rightarrow> Inl (ValueErr ''Conversation anchor is unavailable.'')
   | Some a \<Rightarrow>
       rbind (active_realm_user en (cv_realm cv) requester) (\<lambda>_.
       rbind (active_realm_user en (cv_realm cv) b) (\<lambda>_.
         (case en_access_message en requester a of
            None \<Rightarrow> Inl (ValueErr ''Conversation access changed.'')
          | Some m \<Rightarrow>
              if en_access_message en b (ms_id m) = None
              then Inl (ValueErr ''Conversation access changed.'')
              else (case ms_stream m of
                  Some c \<Rightarrow> (case en_streams en c of
                      None \<Rightarrow> Inl (DoesNotExist ''stream'')
                    | Some sm \<Rightarrow>
                        if sm_realm sm \<noteq> cv_realm cv \<or> sm_deactivated sm then Inl (DoesNotExist ''stream'')
                        else rbind (stream_members en (cv_realm cv) c) (\<lambda>members.
                          checked_audience (audience_of cv requester b m (Some sm) members)))
                | None \<Rightarrow>
                    checked_audience (audience_of cv requester b m None
                      (en_dm_members en (ms_recipient_id m))))))))"

definition scope_for_message :: "env \<Rightarrow> message \<Rightarrow> exn + scope" where
  "scope_for_message en m =
     (let s = (case ms_stream m of
          Some c \<Rightarrow> \<lparr>sc_kind = ScStream, sc_stream_id = Some c, sc_topic = Some (ms_topic m),
                    sc_participants = [], sc_anchor = Some (ms_id m)\<rparr>
        | None \<Rightarrow> \<lparr>sc_kind = ScDirect, sc_stream_id = None, sc_topic = None,
                  sc_participants = en_dm_members en (ms_recipient_id m), sc_anchor = Some (ms_id m)\<rparr>)
      in if valid_scope s then Inr s else Inl ProtocolInvalid)"

section \<open>The accepted audience of a job\<close>

definition accepted_audience :: "conversation \<Rightarrow> exn + audience" where
  "accepted_audience cv = (case cv_binding cv of
     None \<Rightarrow> Inl ProtocolInvalid | Some a \<Rightarrow> checked_audience a)"

definition job_conversation :: "job \<Rightarrow> db \<Rightarrow> exn + conversation" where
  "job_conversation j d = fetch ''conversation'' (get_conversation (jb_conversation j) d)"

definition job_profile :: "job \<Rightarrow> db \<Rightarrow> exn + profile" where
  "job_profile j d = fetch ''profile'' (get_profile (jb_profile j) d)"

definition require_audience :: "env \<Rightarrow> db \<Rightarrow> job \<Rightarrow> exn + audience" where
  "require_audience en d j =
     rbind (job_conversation j d) (\<lambda>cv.
     rbind (accepted_audience cv) (\<lambda>accepted.
     rbind (job_profile j d) (\<lambda>p.
     rbind (current_audience en cv (jb_requester j) (pr_bot_user p)) (\<lambda>current.
       if current \<noteq> accepted then Inl AudienceChanged else Inr current))))"

section \<open>Access to a job\<close>

definition job_source :: "env \<Rightarrow> job \<Rightarrow> message option" where
  "job_source en j = (case jb_source_message j of None \<Rightarrow> None | Some m \<Rightarrow> en_messages en m)"

definition job_attempts :: "uuid \<Rightarrow> db \<Rightarrow> attempt list" where
  "job_attempts j d = filter (\<lambda>a. at_job a = j) (db_attempts d)"

definition latest_attempt :: "uuid \<Rightarrow> db \<Rightarrow> attempt option" where
  "latest_attempt j d = max_row at_number (job_attempts j d)"

text \<open>
  The provider whose use a job's history needs: the one of the latest attempt's descriptor, or
  the profile's when there is no attempt yet.
\<close>

definition history_provider :: "db \<Rightarrow> job \<Rightarrow> profile \<Rightarrow> exn + provider option" where
  "history_provider d j p = (case latest_attempt (jb_id j) d of
     None \<Rightarrow> fetch_opt ''provider'' get_provider (pr_provider p) d
   | Some a \<Rightarrow> (case de_provider (at_descriptor a) of
       None \<Rightarrow> Inr None
     | Some c \<Rightarrow> (case get_provider (prov_id c) d of
         None \<Rightarrow> Inl (DoesNotExist ''provider'')
       | Some r \<Rightarrow> if pv_realm r = jb_realm j then Inr (Some r) else Inl (DoesNotExist ''provider''))))"

definition history_resources :: "profile \<Rightarrow> runner \<Rightarrow> repository option \<Rightarrow> provider option \<Rightarrow> (resource \<times> action) list" where
  "history_resources p r repo pv =
     [(ResProfile p, ProfileUse), (ResRunner r, RunnerUse)] @
     (case repo of None \<Rightarrow> [] | Some w \<Rightarrow> [(ResRepository w, RepositoryRead)]) @
     (case pv of None \<Rightarrow> [] | Some v \<Rightarrow> [(ResProvider v, ProviderUse)])"

definition require_job_access :: "env \<Rightarrow> time \<Rightarrow> db \<Rightarrow> user \<Rightarrow> job \<Rightarrow> exn + unit" where
  "require_job_access en now d who j =
     rbind (fetch ''user'' (get_user en (us_id who))) (\<lambda>actor.
       if \<not> us_active actor \<or> us_realm actor \<noteq> jb_realm j then Inl AccessDenied
       else rbind (job_profile j d) (\<lambda>p.
       rbind (fetch ''runner'' (get_runner (jb_runner j) d)) (\<lambda>r.
       rbind (fetch_opt ''repository'' get_repository (jb_repository j) d) (\<lambda>repo.
       rbind (history_provider d j p) (\<lambda>pv.
         if \<not> list_all (\<lambda>(res, act). res_realm res = us_realm actor \<and>
                owner_or_grant en now d actor res act (jb_repository j) (job_source en j) None False)
              (history_resources p r repo pv)
         then Inl AccessDenied
         else (case jb_source_message j of
             Some m \<Rightarrow>
               if en_access_message en (us_id actor) m = None then Inl JsonableErr
               else rbind (job_conversation j d) (\<lambda>cv.
                 rbind (accepted_audience cv) (\<lambda>binding.
                   if us_id actor \<notin> set (aud_user_ids binding) then Inl AccessDenied else Inr ()))
           | None \<Rightarrow>
               if us_id actor \<notin> {jb_requester j, pr_owner p} then Inl AccessDenied else Inr ()))))))"

section \<open>Context that may flow into a job\<close>

definition reference_conversation :: "job \<Rightarrow> nat \<Rightarrow> int \<Rightarrow> conversation \<Rightarrow> conversation" where
  "reference_conversation j mid epoch cv = cv\<lparr>cv_id := jb_conversation j, cv_realm := jb_realm j,
     cv_profile := jb_profile j, cv_anchor := Some mid, cv_epoch := epoch\<rparr>"

definition require_reference_audience :: "env \<Rightarrow> db \<Rightarrow> job \<Rightarrow> nat \<Rightarrow> exn + unit" where
  "require_reference_audience en d j mid =
     rbind (require_audience en d j) (\<lambda>accepted.
     rbind (job_conversation j d) (\<lambda>cv.
     rbind (job_profile j d) (\<lambda>p.
     rbind (current_audience en (reference_conversation j mid (aud_epoch accepted) cv)
              (jb_requester j) (pr_bot_user p)) (\<lambda>src.
       if \<not> set (aud_user_ids accepted) \<subseteq> set (aud_user_ids src) \<or>
          (aud_web_public accepted = Some True \<and> aud_web_public src \<noteq> Some True)
       then Inl (ValueErr ''Reference audience cannot flow to this destination.'')
       else Inr ()))))"

text \<open>One selected reference, as the runner receives it.\<close>

definition context_item :: "env \<Rightarrow> db \<Rightarrow> job \<Rightarrow> profile \<Rightarrow> context_ref \<Rightarrow> exn + json" where
  "context_item en d j p ref =
     (if cr_kind ref = RefMessage \<and> cr_message ref \<noteq> None then
        (let mid = the (cr_message ref) in
         rbind (require_reference_audience en d j mid) (\<lambda>_.
           (case en_access_message en (jb_requester j) mid of
              None \<Rightarrow> Inl JsonableErr
            | Some m \<Rightarrow>
                if en_access_message en (pr_bot_user p) mid = None then Inl JsonableErr
                else Inr (JObj [(''id'', JStr (uuid_str (cr_id ref))), (''kind'', JStr ''message''),
                       (''message_id'', JInt (int (ms_id m))), (''text'', JStr (ms_content m))]))))
      else if cr_kind ref = RefAttachment \<and> cr_attachment ref \<noteq> None then
        (case en_attachments en (the (cr_attachment ref)) of
           None \<Rightarrow> Inl (DoesNotExist ''attachment'')
         | Some f \<Rightarrow>
             (case cr_message ref of
                None \<Rightarrow> Inl (ValueErr ''Selected file source is unavailable.'')
              | Some mid \<Rightarrow>
                  if mid \<notin> set (atm_messages f)
                  then Inl (ValueErr ''Selected file source is unavailable.'')
                  else rbind (require_reference_audience en d j mid) (\<lambda>_.
                    if \<not> list_all (\<lambda>u. en_attachment_readable en u (atm_id f))
                           [jb_requester j, pr_bot_user p]
                    then Inl (ValueErr ''Context attachment is unavailable.'')
                    else Inr (JObj [(''id'', JStr (uuid_str (cr_id ref))),
                           (''kind'', JStr ''attachment''), (''attachment_id'', JInt (int (atm_id f))),
                           (''name'', JStr (atm_name f)), (''size'', JInt (atm_size f))]))))
      else if cr_kind ref = RefRepository \<and> cr_repository ref = jb_repository j then
        Inr (JObj [(''id'', JStr (uuid_str (cr_id ref))), (''kind'', JStr ''repository''),
               (''repository_id'', JStr (case cr_repository ref of None \<Rightarrow> ''None'' | Some i \<Rightarrow> uuid_str i))])
      else Inl (ValueErr ''Context reference is unavailable.''))"

definition selected_context :: "env \<Rightarrow> time \<Rightarrow> db \<Rightarrow> job \<Rightarrow> uuid list \<Rightarrow> exn + json list" where
  "selected_context en now d j ids =
     rbind (require_audience en d j) (\<lambda>_.
     rbind (fetch ''user'' (get_user en (jb_requester j))) (\<lambda>requester.
     rbind (job_profile j d) (\<lambda>p.
     rbind (check_agent_access en now d requester (jb_profile j) (jb_repository j) (job_source en j)
              ContextRead None) (\<lambda>_.
       (let refs = filter (\<lambda>r. cr_job r = jb_id j \<and> cr_realm r = jb_realm j \<and> cr_id r \<in> set ids)
                     (db_context_refs d) in
        if length refs \<noteq> length (remdups ids) then Inl (ValueErr ''Context reference is unavailable.'')
        else rbind (rmap (context_item en d j p) refs) (\<lambda>items.
          if int (length (canonical_json (JList items))) >
             min (1024 * 1024) (bud_input_tokens (jb_budget j) * 4)
          then Inl (ValueErr ''Selected context exceeds the input budget.'')
          else Inr items))))))"

section \<open>What the audience checks establish\<close>

lemma checked_audience_eq [simp]: "(checked_audience a = Inr b) = (valid_audience a \<and> b = a)"
  by (auto simp: checked_audience_def)

lemma require_audienceD:
  "require_audience en d j = Inr a \<Longrightarrow>
   \<exists>cv p. get_conversation (jb_conversation j) d = Some cv \<and> get_profile (jb_profile j) d = Some p \<and>
     cv_binding cv = Some a \<and> valid_audience a \<and>
     current_audience en cv (jb_requester j) (pr_bot_user p) = Inr a"
  by (auto simp: require_audience_def accepted_audience_def job_conversation_def job_profile_def
      split: option.splits if_splits)

lemma stream_members_sorted:
  assumes "stream_members en realm c = Inr ms"
  shows "sorted ms" "length ms \<le> 10000"
proof -
  define users where "users = take 10001 (sort_key us_id
     (filter (\<lambda>u. us_realm u = realm \<and> us_active u) (en_users en)))"
  let ?in = "\<lambda>u. en_content_access en (us_id u) c (en_subscribed en (us_id u) c)"
  have ms: "ms = map us_id (filter ?in users)" "length users \<le> 10000"
    using assms by (auto simp: stream_members_def users_def Let_def split: if_splits)
  have "sorted (map us_id users)"
    by (simp add: users_def take_map [symmetric] sorted_wrt_take)
  then show "sorted ms"
    by (simp add: ms(1) sorted_filter)
  show "length ms \<le> 10000"
    unfolding ms(1) length_map by (rule order_trans [OF length_filter_le ms(2)])
qed

lemma current_audience_members:
  "current_audience en cv u b = Inr a \<Longrightarrow> u \<in> set (aud_user_ids a) \<and> b \<in> set (aud_user_ids a)"
  by (auto simp: current_audience_def valid_audience_def audience_of_def split: option.splits if_splits)

end
