(* ===== verification/Agent_Runtime.thy ===== *)
theory Agent_Runtime
  imports Agent_Context
begin

text \<open>
  The live configuration of a profile and its readiness: \<open>provider_config\<close>,
  \<open>validate_runtime\<close>, \<open>current_execution_configuration\<close> and \<open>descriptor_instructions\<close> of
  \<^verbatim>\<open>zerver/actions/agents.py\<close> and \<open>require_ready\<close> of \<^verbatim>\<open>zerver/actions/agent_jobs.py\<close>.  A profile
  is ready when the configuration a probe has tested is still the one its rows describe.
\<close>

section \<open>Providers\<close>

definition provider_reference :: "provider \<Rightarrow> secret option \<Rightarrow> secret_reference" where
  "provider_reference pv s = (case s of
     Some r \<Rightarrow> \<lparr>sr_kind = ServerSecret, sr_id = uuid_str (se_id r), sr_version = se_version r\<rparr>
   | None \<Rightarrow> \<lparr>sr_kind = LocalSecret, sr_id = pv_local_credential_ref pv, sr_version = pv_config_version pv\<rparr>)"

definition provider_dto :: "provider \<Rightarrow> secret_reference \<Rightarrow> provider_config" where
  "provider_dto pv ref = \<lparr>prov_id = pv_id pv, prov_owner_user_id = pv_owner pv,
     prov_runner_id = pv_runner pv, prov_name = pv_name pv, prov_base_url = pv_base_url pv,
     prov_api_mode = pv_api_mode pv, prov_model_id = pv_model_id pv,
     prov_allowed_models = pv_allowed_models pv, prov_credential_ref = Some ref,
     prov_context_window_tokens = pv_context_window_tokens pv,
     prov_max_output_tokens = pv_max_output_tokens pv, prov_config_version = pv_config_version pv,
     prov_data_scope = pv_data_scope pv, prov_network = pv_network_policy pv,
     prov_capability_report = pv_capability_report pv\<rparr>"

definition provider_config_of :: "db \<Rightarrow> provider \<Rightarrow> exn + provider_config" where
  "provider_config_of d pv =
     rbind (fetch_opt ''secret'' get_secret (pv_secret pv) d) (\<lambda>s.
       if pv_disabled_at pv \<noteq> None \<or> (case s of None \<Rightarrow> False | Some r \<Rightarrow> se_revoked_at r \<noteq> None)
       then Inl (ValueErr ''Provider is unavailable.'')
       else (let c = provider_dto pv (provider_reference pv s) in
         if valid_provider_config c then Inr c else Inl ProtocolInvalid))"

section \<open>Runtime\<close>

definition catalog_serves :: "runner \<Rightarrow> profile \<Rightarrow> bool" where
  "catalog_serves r p =
     (cat_revision (ru_catalog_report r) = ru_catalog_revision r \<and>
      list_ex (\<lambda>e. ae_id e = pr_adapter_id p \<and> ae_version e = pr_adapter_version p)
        (cat_adapters (ru_catalog_report r)) \<and>
      pol_sandbox (pr_policy p) \<in> set (cat_sandboxes (ru_catalog_report r)) \<and>
      sb_catalog_revision (pol_sandbox (pr_policy p)) = cat_revision (ru_catalog_report r))"

definition runtime_provider_ok :: "env \<Rightarrow> time \<Rightarrow> db \<Rightarrow> user \<Rightarrow> profile \<Rightarrow> provider option \<Rightarrow> exn + unit" where
  "runtime_provider_ok en now d owner p x = (case x of
     None \<Rightarrow> Inr ()
   | Some pv \<Rightarrow>
       if pv_runner pv \<noteq> pr_runner p then Inl (ValueErr ''Provider is unavailable.'')
       else rbind (require_agent_resource_access en now d owner (ResProvider pv) ProviderUse) (\<lambda>_.
            rbind (provider_config_of d pv) (\<lambda>_. Inr ())))"

definition runtime_repository_ok :: "env \<Rightarrow> time \<Rightarrow> db \<Rightarrow> user \<Rightarrow> profile \<Rightarrow> repository option \<Rightarrow> exn + unit" where
  "runtime_repository_ok en now d owner p x = (case x of
     None \<Rightarrow> Inr ()
   | Some w \<Rightarrow>
       if repo_runner w \<noteq> pr_runner p then Inl (ValueErr ''Repository is unavailable.'')
       else rbind (require_agent_resource_access en now d owner (ResRepository w) RepositoryRead) (\<lambda>_.
         each (\<lambda>act. if act = ContextRead then Inr ()
                 else require_agent_resource_access en now d owner (ResRepository w) act)
           (pol_actions (pr_policy p))))"

definition validate_runtime :: "env \<Rightarrow> time \<Rightarrow> db \<Rightarrow> profile \<Rightarrow> exn + unit" where
  "validate_runtime en now d p =
     rbind (fetch ''owner'' (get_user en (pr_owner p))) (\<lambda>owner.
     rbind (fetch ''runner'' (get_runner (pr_runner p) d)) (\<lambda>r.
     rbind (fetch_opt ''provider'' get_provider (pr_provider p) d) (\<lambda>pv.
     rbind (fetch_opt ''repository'' get_repository (pr_default_repository p) d) (\<lambda>repo.
     rbind (require_agent_resource_access en now d owner (ResRunner r) RunnerUse) (\<lambda>_.
       if \<not> valid_catalog (ru_catalog_report r) \<or> \<not> valid_policy (pr_policy p) then Inl ProtocolInvalid
       else if \<not> catalog_serves r p then Inl (ValueErr ''Runtime configuration is unavailable.'')
       else rbind (runtime_provider_ok en now d owner p pv) (\<lambda>_.
            runtime_repository_ok en now d owner p repo))))))"

definition empty_none :: "string \<Rightarrow> string option" where
  "empty_none s = (if s = [] then None else Some s)"

definition repository_binding :: "env \<Rightarrow> repository \<Rightarrow> workspace_binding" where
  "repository_binding en w = \<lparr>wb_canonical_origin = empty_none (repo_canonical_origin w),
     wb_repository_id = repo_id w, wb_workspace_alias = repo_workspace_alias w,
     wb_policy_version = repo_policy_version w,
     wb_checks_digest = checks_digest (en_sha en) (repo_required_checks w),
     wb_allowed_refs = repo_allowed_refs w\<rparr>"

definition profile_adapter :: "profile \<Rightarrow> adapter_config" where
  "profile_adapter p = \<lparr>ad_id = pr_adapter_id p, ad_version = pr_adapter_version p, ad_mode = pr_mode p\<rparr>"

definition live_configuration ::
    "env \<Rightarrow> profile \<Rightarrow> provider_config option \<Rightarrow> repository option \<Rightarrow> execution_configuration" where
  "live_configuration en p pc repo = \<lparr>
     ec_runner_id = pr_runner p,
     ec_profile_revision = pr_revision p,
     ec_adapter = profile_adapter p,
     ec_provider = map_option effective_provider_of pc,
     ec_workspace_binding = map_option (repository_binding en) repo,
     ec_policy_version = pol_version (pr_policy p),
     ec_actions = sorted_actions (pol_actions (pr_policy p)),
     ec_sandbox = pol_sandbox (pr_policy p),
     ec_network = pol_network (pr_policy p),
     ec_hard_cost_cap = pol_hard_cost_cap (pr_policy p),
     ec_budget = pr_budget p,
     ec_instructions_digest = instructions_digest (en_sha en) (pr_instructions p)\<rparr>"

definition opt_config :: "db \<Rightarrow> provider option \<Rightarrow> exn + provider_config option" where
  "opt_config d x = (case x of None \<Rightarrow> Inr None | Some pv \<Rightarrow> rbind (provider_config_of d pv) (\<lambda>c. Inr (Some c)))"

definition current_execution_configuration ::
    "env \<Rightarrow> db \<Rightarrow> profile \<Rightarrow> exn + execution_configuration" where
  "current_execution_configuration en d p =
     (if \<not> valid_policy (pr_policy p) then Inl ProtocolInvalid
      else rbind (fetch_opt ''provider'' get_provider (pr_provider p) d) (\<lambda>pv.
           rbind (opt_config d pv) (\<lambda>pc.
           rbind (fetch_opt ''repository'' get_repository (pr_default_repository p) d) (\<lambda>repo.
             if \<not> opt_all (\<lambda>w. list_all valid_required_check (repo_required_checks w)) repo
             then Inl ProtocolInvalid
             else (let c = live_configuration en p pc repo in
               if valid_configuration c then Inr c else Inl ProtocolInvalid)))))"

definition realm_row :: "nat \<Rightarrow> db \<Rightarrow> realm_settings option" where
  "realm_row realm d = tbl_get rs_realm realm (db_settings d)"

definition descriptor_instructions :: "db \<Rightarrow> profile \<Rightarrow> exn + attempt_instructions option" where
  "descriptor_instructions d p =
     rbind (fetch ''settings'' (realm_row (pr_realm p) d)) (\<lambda>st.
       (let team = (if rs_team_instructions st = [] then None
              else Some \<lparr>it_revision = rs_team_instructions_revision st, it_text = rs_team_instructions st\<rparr>);
            own = (if pr_instructions p = [] then None
              else Some \<lparr>it_revision = pr_revision p, it_text = pr_instructions p\<rparr>)
        in Inr (if team = None \<and> own = None then None else Some \<lparr>ai_team = team, ai_profile = own\<rparr>)))"

section \<open>Readiness\<close>

definition readiness_current :: "profile \<Rightarrow> bool" where
  "readiness_current p =
     (pr_desired_state p = PEnabled \<and> pr_enabled_revision p = Some (pr_revision p) \<and>
      pr_readiness_revision p = Some (pr_revision p) \<and> pr_readiness_state p = Ready)"

definition require_ready :: "env \<Rightarrow> time \<Rightarrow> db \<Rightarrow> profile \<Rightarrow> exn + execution_configuration" where
  "require_ready en now d p =
     (if \<not> readiness_current p then Inl (ValueErr ''Profile readiness is stale.'')
      else rbind (validate_runtime en now d p) (\<lambda>_.
        (case pr_readiness_configuration p of
           None \<Rightarrow> Inl ProtocolInvalid
         | Some tested \<Rightarrow>
             if \<not> valid_configuration tested then Inl ProtocolInvalid
             else if configuration_digest (en_sha en) tested \<noteq> pr_readiness_configuration_digest p
             then Inl (ValueErr ''Profile readiness is stale.'')
             else rbind (current_execution_configuration en d p) (\<lambda>live.
               if live \<noteq> tested then Inl (ValueErr ''Profile readiness is stale.'') else Inr tested))))"

section \<open>What readiness establishes\<close>

lemma current_configuration_fields:
  "current_execution_configuration en d p = Inr c \<Longrightarrow>
   ec_runner_id c = pr_runner p \<and> ec_profile_revision c = pr_revision p \<and>
   ec_adapter c = profile_adapter p \<and> ec_policy_version c = pol_version (pr_policy p) \<and>
   set (ec_actions c) = set (pol_actions (pr_policy p)) \<and> ec_sandbox c = pol_sandbox (pr_policy p) \<and>
   ec_network c = pol_network (pr_policy p) \<and> ec_budget c = pr_budget p \<and>
   ec_hard_cost_cap c = pol_hard_cost_cap (pr_policy p) \<and> valid_configuration c"
  by (auto simp: current_execution_configuration_def live_configuration_def Let_def)

lemma require_readyD:
  "require_ready en now d p = Inr c \<Longrightarrow>
   readiness_current p \<and> validate_runtime en now d p = Inr () \<and>
   pr_readiness_configuration p = Some c \<and> current_execution_configuration en d p = Inr c \<and>
   configuration_digest (en_sha en) c = pr_readiness_configuration_digest p"
  by (auto simp: require_ready_def split: option.splits if_splits)

end
