(* ===== verification/Agent_Journal.thy ===== *)
theory Agent_Journal
  imports Agent_Runtime
begin

text \<open>
  The journal of a job and the primitive writes every handler is made of: \<open>reject_secrets\<close> of
  \<^verbatim>\<open>zerver/lib/agent_results.py\<close>, \<open>clean\<close> of the records of \<^verbatim>\<open>zerver/models/agents.py\<close>, and
  \<open>audit\<close>, \<open>transition\<close>, \<open>notify_conversation\<close> and the status sentences of
  \<^verbatim>\<open>zerver/actions/agent_jobs.py\<close>.  A Python job object is its row: a function that takes the
  job takes its id and reads the row.  The lemmas say which tables and which columns each
  primitive leaves alone; the components are proved from them.
\<close>

section \<open>Updating one row\<close>

text \<open>\<open>x.save(update_fields=...)\<close>: the row with this id gets the columns \<open>f\<close> sets.\<close>

definition update_job :: "uuid \<Rightarrow> (job \<Rightarrow> job) \<Rightarrow> db \<Rightarrow> db" where
  "update_job i f d = d\<lparr>db_jobs := tbl_where (\<lambda>r. jb_id r = i) f (db_jobs d)\<rparr>"

lemma update_job_frame [simp]:
  "db_settings (update_job i f d) = db_settings d"
  "db_runners (update_job i f d) = db_runners d"
  "db_pairings (update_job i f d) = db_pairings d"
  "db_credentials (update_job i f d) = db_credentials d"
  "db_secrets (update_job i f d) = db_secrets d"
  "db_providers (update_job i f d) = db_providers d"
  "db_repositories (update_job i f d) = db_repositories d"
  "db_profiles (update_job i f d) = db_profiles d"
  "db_grants (update_job i f d) = db_grants d"
  "db_conversations (update_job i f d) = db_conversations d"
  "db_attempts (update_job i f d) = db_attempts d"
  "db_context_refs (update_job i f d) = db_context_refs d"
  "db_operations (update_job i f d) = db_operations d"
  "db_approvals (update_job i f d) = db_approvals d"
  "db_artifacts (update_job i f d) = db_artifacts d"
  "db_verifications (update_job i f d) = db_verifications d"
  "db_checkpoints (update_job i f d) = db_checkpoints d"
  "db_inputs (update_job i f d) = db_inputs d"
  "db_audit (update_job i f d) = db_audit d"
  "db_outbox (update_job i f d) = db_outbox d"
  "db_blobs (update_job i f d) = db_blobs d"
  "db_sent (update_job i f d) = db_sent d"
  "db_on_commit (update_job i f d) = db_on_commit d"
  "db_next (update_job i f d) = db_next d"
  by (simp_all add: update_job_def)

lemma update_job_rows [simp]:
  "db_jobs (update_job i f d) = tbl_where (\<lambda>r. jb_id r = i) f (db_jobs d)"
  by (simp add: update_job_def)

lemma get_update_job:
  "(\<And>r. jb_id (f r) = jb_id r) \<Longrightarrow>
   get_job k (update_job i f d) = map_option (\<lambda>r. if jb_id r = i then f r else r) (get_job k d)"
  by (simp add: get_job_def tbl_get_where)

definition update_attempt :: "uuid \<Rightarrow> (attempt \<Rightarrow> attempt) \<Rightarrow> db \<Rightarrow> db" where
  "update_attempt i f d = d\<lparr>db_attempts := tbl_where (\<lambda>r. at_id r = i) f (db_attempts d)\<rparr>"

lemma update_attempt_frame [simp]:
  "db_settings (update_attempt i f d) = db_settings d"
  "db_runners (update_attempt i f d) = db_runners d"
  "db_pairings (update_attempt i f d) = db_pairings d"
  "db_credentials (update_attempt i f d) = db_credentials d"
  "db_secrets (update_attempt i f d) = db_secrets d"
  "db_providers (update_attempt i f d) = db_providers d"
  "db_repositories (update_attempt i f d) = db_repositories d"
  "db_profiles (update_attempt i f d) = db_profiles d"
  "db_grants (update_attempt i f d) = db_grants d"
  "db_conversations (update_attempt i f d) = db_conversations d"
  "db_jobs (update_attempt i f d) = db_jobs d"
  "db_context_refs (update_attempt i f d) = db_context_refs d"
  "db_operations (update_attempt i f d) = db_operations d"
  "db_approvals (update_attempt i f d) = db_approvals d"
  "db_artifacts (update_attempt i f d) = db_artifacts d"
  "db_verifications (update_attempt i f d) = db_verifications d"
  "db_checkpoints (update_attempt i f d) = db_checkpoints d"
  "db_inputs (update_attempt i f d) = db_inputs d"
  "db_audit (update_attempt i f d) = db_audit d"
  "db_outbox (update_attempt i f d) = db_outbox d"
  "db_blobs (update_attempt i f d) = db_blobs d"
  "db_sent (update_attempt i f d) = db_sent d"
  "db_on_commit (update_attempt i f d) = db_on_commit d"
  "db_next (update_attempt i f d) = db_next d"
  by (simp_all add: update_attempt_def)

lemma update_attempt_rows [simp]:
  "db_attempts (update_attempt i f d) = tbl_where (\<lambda>r. at_id r = i) f (db_attempts d)"
  by (simp add: update_attempt_def)

lemma get_update_attempt:
  "(\<And>r. at_id (f r) = at_id r) \<Longrightarrow>
   get_attempt k (update_attempt i f d) = map_option (\<lambda>r. if at_id r = i then f r else r) (get_attempt k d)"
  by (simp add: get_attempt_def tbl_get_where)

definition update_operation :: "uuid \<Rightarrow> (operation \<Rightarrow> operation) \<Rightarrow> db \<Rightarrow> db" where
  "update_operation i f d = d\<lparr>db_operations := tbl_where (\<lambda>r. oper_id r = i) f (db_operations d)\<rparr>"

lemma update_operation_frame [simp]:
  "db_settings (update_operation i f d) = db_settings d"
  "db_runners (update_operation i f d) = db_runners d"
  "db_pairings (update_operation i f d) = db_pairings d"
  "db_credentials (update_operation i f d) = db_credentials d"
  "db_secrets (update_operation i f d) = db_secrets d"
  "db_providers (update_operation i f d) = db_providers d"
  "db_repositories (update_operation i f d) = db_repositories d"
  "db_profiles (update_operation i f d) = db_profiles d"
  "db_grants (update_operation i f d) = db_grants d"
  "db_conversations (update_operation i f d) = db_conversations d"
  "db_jobs (update_operation i f d) = db_jobs d"
  "db_attempts (update_operation i f d) = db_attempts d"
  "db_context_refs (update_operation i f d) = db_context_refs d"
  "db_approvals (update_operation i f d) = db_approvals d"
  "db_artifacts (update_operation i f d) = db_artifacts d"
  "db_verifications (update_operation i f d) = db_verifications d"
  "db_checkpoints (update_operation i f d) = db_checkpoints d"
  "db_inputs (update_operation i f d) = db_inputs d"
  "db_audit (update_operation i f d) = db_audit d"
  "db_outbox (update_operation i f d) = db_outbox d"
  "db_blobs (update_operation i f d) = db_blobs d"
  "db_sent (update_operation i f d) = db_sent d"
  "db_on_commit (update_operation i f d) = db_on_commit d"
  "db_next (update_operation i f d) = db_next d"
  by (simp_all add: update_operation_def)

lemma update_operation_rows [simp]:
  "db_operations (update_operation i f d) = tbl_where (\<lambda>r. oper_id r = i) f (db_operations d)"
  by (simp add: update_operation_def)

lemma get_update_operation:
  "(\<And>r. oper_id (f r) = oper_id r) \<Longrightarrow>
   get_operation k (update_operation i f d) = map_option (\<lambda>r. if oper_id r = i then f r else r) (get_operation k d)"
  by (simp add: get_operation_def tbl_get_where)

definition update_approval :: "uuid \<Rightarrow> (approval \<Rightarrow> approval) \<Rightarrow> db \<Rightarrow> db" where
  "update_approval i f d = d\<lparr>db_approvals := tbl_where (\<lambda>r. ap_id r = i) f (db_approvals d)\<rparr>"

lemma update_approval_frame [simp]:
  "db_settings (update_approval i f d) = db_settings d"
  "db_runners (update_approval i f d) = db_runners d"
  "db_pairings (update_approval i f d) = db_pairings d"
  "db_credentials (update_approval i f d) = db_credentials d"
  "db_secrets (update_approval i f d) = db_secrets d"
  "db_providers (update_approval i f d) = db_providers d"
  "db_repositories (update_approval i f d) = db_repositories d"
  "db_profiles (update_approval i f d) = db_profiles d"
  "db_grants (update_approval i f d) = db_grants d"
  "db_conversations (update_approval i f d) = db_conversations d"
  "db_jobs (update_approval i f d) = db_jobs d"
  "db_attempts (update_approval i f d) = db_attempts d"
  "db_context_refs (update_approval i f d) = db_context_refs d"
  "db_operations (update_approval i f d) = db_operations d"
  "db_artifacts (update_approval i f d) = db_artifacts d"
  "db_verifications (update_approval i f d) = db_verifications d"
  "db_checkpoints (update_approval i f d) = db_checkpoints d"
  "db_inputs (update_approval i f d) = db_inputs d"
  "db_audit (update_approval i f d) = db_audit d"
  "db_outbox (update_approval i f d) = db_outbox d"
  "db_blobs (update_approval i f d) = db_blobs d"
  "db_sent (update_approval i f d) = db_sent d"
  "db_on_commit (update_approval i f d) = db_on_commit d"
  "db_next (update_approval i f d) = db_next d"
  by (simp_all add: update_approval_def)

lemma update_approval_rows [simp]:
  "db_approvals (update_approval i f d) = tbl_where (\<lambda>r. ap_id r = i) f (db_approvals d)"
  by (simp add: update_approval_def)

lemma get_update_approval:
  "(\<And>r. ap_id (f r) = ap_id r) \<Longrightarrow>
   get_approval k (update_approval i f d) = map_option (\<lambda>r. if ap_id r = i then f r else r) (get_approval k d)"
  by (simp add: get_approval_def tbl_get_where)

definition update_input :: "uuid \<Rightarrow> (input \<Rightarrow> input) \<Rightarrow> db \<Rightarrow> db" where
  "update_input i f d = d\<lparr>db_inputs := tbl_where (\<lambda>r. in_id r = i) f (db_inputs d)\<rparr>"

lemma update_input_frame [simp]:
  "db_settings (update_input i f d) = db_settings d"
  "db_runners (update_input i f d) = db_runners d"
  "db_pairings (update_input i f d) = db_pairings d"
  "db_credentials (update_input i f d) = db_credentials d"
  "db_secrets (update_input i f d) = db_secrets d"
  "db_providers (update_input i f d) = db_providers d"
  "db_repositories (update_input i f d) = db_repositories d"
  "db_profiles (update_input i f d) = db_profiles d"
  "db_grants (update_input i f d) = db_grants d"
  "db_conversations (update_input i f d) = db_conversations d"
  "db_jobs (update_input i f d) = db_jobs d"
  "db_attempts (update_input i f d) = db_attempts d"
  "db_context_refs (update_input i f d) = db_context_refs d"
  "db_operations (update_input i f d) = db_operations d"
  "db_approvals (update_input i f d) = db_approvals d"
  "db_artifacts (update_input i f d) = db_artifacts d"
  "db_verifications (update_input i f d) = db_verifications d"
  "db_checkpoints (update_input i f d) = db_checkpoints d"
  "db_audit (update_input i f d) = db_audit d"
  "db_outbox (update_input i f d) = db_outbox d"
  "db_blobs (update_input i f d) = db_blobs d"
  "db_sent (update_input i f d) = db_sent d"
  "db_on_commit (update_input i f d) = db_on_commit d"
  "db_next (update_input i f d) = db_next d"
  by (simp_all add: update_input_def)

lemma update_input_rows [simp]:
  "db_inputs (update_input i f d) = tbl_where (\<lambda>r. in_id r = i) f (db_inputs d)"
  by (simp add: update_input_def)

lemma get_update_input:
  "(\<And>r. in_id (f r) = in_id r) \<Longrightarrow>
   get_input k (update_input i f d) = map_option (\<lambda>r. if in_id r = i then f r else r) (get_input k d)"
  by (simp add: get_input_def tbl_get_where)

section \<open>Sensitive content\<close>

fun contains :: "'a list \<Rightarrow> 'a list \<Rightarrow> bool" where
  "contains x [] = (x = [])"
| "contains x (y # ys) = (take (length x) (y # ys) = x \<or> contains x ys)"

lemma contains_iff: "contains x ys = (\<exists>p s. ys = p @ x @ s)"
proof (induction ys)
  case Nil
  then show ?case by auto
next
  case (Cons y ys)
  have "take (length x) (y # ys) = x \<longleftrightarrow> (\<exists>s. y # ys = x @ s)"
    by (metis append_take_drop_id append_eq_conv_conj)
  moreover have "(\<exists>p s. y # ys = p @ x @ s) \<longleftrightarrow> (\<exists>s. y # ys = x @ s) \<or> (\<exists>p s. ys = p @ x @ s)"
    by (auto simp: Cons_eq_append_conv)
  ultimately show ?case
    using Cons.IH by simp
qed

definition attempt_secret_refs :: "uuid \<Rightarrow> db \<Rightarrow> string list" where
  "attempt_secret_refs j d = concat (map (\<lambda>a.
     (case de_provider (at_descriptor a) of
        None \<Rightarrow> []
      | Some c \<Rightarrow> (case prov_credential_ref c of
          None \<Rightarrow> []
        | Some r \<Rightarrow> if sr_kind r = ServerSecret then [sr_id r] else []))) (job_attempts j d))"

definition job_secrets :: "db \<Rightarrow> job \<Rightarrow> provider option \<Rightarrow> secret list" where
  "job_secrets d j pv = filter (\<lambda>s. se_realm s = jb_realm j \<and>
      ((case pv of None \<Rightarrow> False | Some v \<Rightarrow> pv_secret v = Some (se_id s)) \<or>
       uuid_str (se_id s) \<in> set (attempt_secret_refs (jb_id j) d))) (db_secrets d)"

text \<open>\<open>se_plaintext\<close> is what \<open>decrypt_agent_secret\<close> returns for the row.\<close>

definition reject_secrets :: "db \<Rightarrow> job \<Rightarrow> nat list \<Rightarrow> exn + unit" where
  "reject_secrets d j bytes =
     rbind (job_profile j d) (\<lambda>p.
     rbind (fetch_opt ''provider'' get_provider (pr_provider p) d) (\<lambda>pv.
       if list_ex (\<lambda>s. se_plaintext s \<noteq> [] \<and> contains (utf8 (se_plaintext s)) bytes) (job_secrets d j pv)
       then Inl (ValueErr ''Sensitive artifact content was rejected.'')
       else if credential_bytes bytes
       then Inl (ValueErr ''Sensitive artifact content was rejected.'') else Inr ()))"

section \<open>References inside one realm and one job\<close>

definition ref_in :: "nat \<Rightarrow> nat option \<Rightarrow> bool" where
  "ref_in realm x = (case x of None \<Rightarrow> True | Some r \<Rightarrow> r = realm)"

definition realm_of :: "('k \<Rightarrow> db \<Rightarrow> 'r option) \<Rightarrow> ('r \<Rightarrow> nat) \<Rightarrow> 'k option \<Rightarrow> db \<Rightarrow> nat option" where
  "realm_of get f k d = (case k of None \<Rightarrow> None | Some i \<Rightarrow> map_option f (get i d))"

definition user_realm :: "env \<Rightarrow> uid option \<Rightarrow> nat option" where
  "user_realm en u = (case u of None \<Rightarrow> None | Some i \<Rightarrow> map_option us_realm (get_user en i))"

definition message_realm :: "env \<Rightarrow> nat option \<Rightarrow> nat option" where
  "message_realm en m = (case m of None \<Rightarrow> None | Some i \<Rightarrow> map_option ms_realm (en_messages en i))"

definition job_of_attempt :: "uuid \<Rightarrow> db \<Rightarrow> uuid option" where
  "job_of_attempt a d = map_option at_job (get_attempt a d)"

definition checkpoint_job :: "uuid option \<Rightarrow> db \<Rightarrow> uuid option" where
  "checkpoint_job c d = (case c of None \<Rightarrow> None | Some i \<Rightarrow>
     (case get_checkpoint i d of None \<Rightarrow> None | Some k \<Rightarrow> job_of_attempt (ck_attempt k) d))"

definition clean_job :: "env \<Rightarrow> db \<Rightarrow> job \<Rightarrow> exn + unit" where
  "clean_job en d j =
     (if \<not> list_all (ref_in (jb_realm j))
          [realm_of get_checkpoint ck_realm (jb_resume_checkpoint j) d,
           realm_of get_job jb_realm (jb_follows j) d,
           user_realm en (Some (jb_requester j)),
           realm_of get_conversation cv_realm (Some (jb_conversation j)) d,
           realm_of get_profile pr_realm (Some (jb_profile j)) d,
           realm_of get_runner ru_realm (Some (jb_runner j)) d,
           realm_of get_repository repo_realm (jb_repository j) d,
           message_realm en (jb_source_message j), message_realm en (jb_result_message j)]
      then Inl (ModelInvalid ''Agent reference belongs to another realm.'')
      else if \<not> opt_all (\<lambda>i. i = jb_id j) (checkpoint_job (jb_resume_checkpoint j) d)
      then Inl (ModelInvalid ''Resume checkpoint does not belong to this job.'')
      else if \<not> (valid_policy (jb_policy j) \<and> valid_budget (jb_budget j))
      then Inl (ModelInvalid ''Invalid agent protocol data.'') else Inr ())"

definition clean_attempt :: "env \<Rightarrow> db \<Rightarrow> attempt \<Rightarrow> exn + unit" where
  "clean_attempt en d a =
     (if \<not> list_all (ref_in (at_realm a))
          [realm_of get_job jb_realm (Some (at_job a)) d,
           realm_of get_runner ru_realm (Some (at_runner a)) d,
           realm_of get_checkpoint ck_realm (at_source_checkpoint a) d]
      then Inl (ModelInvalid ''Agent reference belongs to another realm.'')
      else if \<not> opt_all (\<lambda>i. i = at_job a) (checkpoint_job (at_source_checkpoint a) d)
      then Inl (ModelInvalid ''Checkpoint does not belong to this job.'')
      else if \<not> (valid_descriptor (en_sha en) (at_descriptor a) \<and>
                 opt_all valid_audience (at_audience_binding a))
      then Inl (ModelInvalid ''Invalid agent protocol data.'') else Inr ())"

definition clean_input :: "env \<Rightarrow> db \<Rightarrow> input \<Rightarrow> exn + unit" where
  "clean_input en d i =
     (if \<not> list_all (ref_in (in_realm i))
          [realm_of get_job jb_realm (Some (in_job i)) d, user_realm en (Some (in_author i)),
           message_realm en (in_source_message i),
           realm_of get_attempt at_realm (in_delivered_attempt i) d]
      then Inl (ModelInvalid ''Agent reference belongs to another realm.'')
      else if \<not> opt_all (\<lambda>k. k = in_job i)
             (case in_delivered_attempt i of None \<Rightarrow> None | Some a \<Rightarrow> job_of_attempt a d)
      then Inl (ModelInvalid ''Input attempt does not belong to this job.'') else Inr ())"

definition clean_operation :: "db \<Rightarrow> operation \<Rightarrow> exn + unit" where
  "clean_operation d o' =
     (if \<not> ref_in (oper_realm o') (realm_of get_attempt at_realm (Some (oper_attempt o')) d)
      then Inl (ModelInvalid ''Agent reference belongs to another realm.'')
      else if \<not> (valid_operation_args (oper_arguments o') \<and>
                 opt_all valid_remote_receipt (oper_remote_receipt o') \<and>
                 opt_all valid_local_receipt (oper_local_receipt o') \<and>
                 opt_all valid_team_receipt (oper_server_receipt o'))
      then Inl (ModelInvalid ''Invalid agent protocol data.'')
      else if op_action (oper_arguments o') \<noteq> oper_tool_class o'
      then Inl (ModelInvalid ''Operation action does not match its tool class.'') else Inr ())"

section \<open>Audit events\<close>

definition opt_uuid_json :: "uuid option \<Rightarrow> json" where
  "opt_uuid_json x = opt_json (\<lambda>u. JStr (uuid_str u)) x"

text \<open>The envelope \<open>AgentAuditEvent.clean\<close> parses, for an event of the server's own authorities.\<close>

definition server_envelope ::
    "env \<Rightarrow> audit_event \<Rightarrow> int option \<Rightarrow> authority_event_type \<Rightarrow> authority_payload \<Rightarrow> json" where
  "server_envelope en r epoch t pl = JObj
     [(''schema_version'', JInt 1), (''job_id'', JStr (uuid_str (au_job r))),
      (''attempt_id'', opt_uuid_json (au_attempt r)), (''lease_epoch'', opt_json JInt epoch),
      (''event_id'', JStr (uuid_str (au_event_id r))), (''sequence'', JInt (au_sequence r)),
      (''type'', JStr (authority_event_name t)), (''occurred_at'', JStr (en_iso en (au_occurred_at r))),
      (''payload'', en_dump_authority_payload en pl)]"

definition audit_refs_ok :: "env \<Rightarrow> db \<Rightarrow> audit_event \<Rightarrow> bool" where
  "audit_refs_ok en d r =
     (list_all (ref_in (au_realm r))
        [realm_of get_job jb_realm (Some (au_job r)) d, realm_of get_attempt at_realm (au_attempt r) d,
         user_realm en (au_actor r)] \<and>
      opt_all (\<lambda>k. k = au_job r) (case au_attempt r of None \<Rightarrow> None | Some a \<Rightarrow> job_of_attempt a d))"

definition audit_payload_ok :: "env \<Rightarrow> db \<Rightarrow> audit_event \<Rightarrow> runner_event option \<Rightarrow> bool" where
  "audit_payload_ok en d r ev = (case (au_type r, au_payload r) of
     (RunnerEv _, RunnerPl _) \<Rightarrow> (case ev of
         None \<Rightarrow> False | Some e \<Rightarrow> succeeds (parse_runner_event (en_dump_event en) e))
   | (ServerEv t, ServerPl pl) \<Rightarrow>
       (let epoch = (case au_attempt r of None \<Rightarrow> None | Some a \<Rightarrow> map_option at_lease_epoch (get_attempt a d))
        in succeeds (parse_authority_event (server_envelope en r epoch t pl) (au_authority r) t
             (au_sequence r) (case au_attempt r of None \<Rightarrow> None | Some a \<Rightarrow> map_option (Pair a) epoch) pl))
   | _ \<Rightarrow> False)"

definition clean_audit :: "env \<Rightarrow> db \<Rightarrow> audit_event \<Rightarrow> runner_event option \<Rightarrow> exn + unit" where
  "clean_audit en d r ev =
     (if \<not> audit_refs_ok en d r then Inl (ModelInvalid ''Agent reference belongs to another realm.'')
      else if \<not> audit_payload_ok en d r ev
      then Inl (ModelInvalid ''Invalid agent event or authority.'') else Inr ())"

text \<open>The unique constraints of the journal.\<close>

definition audit_conflict :: "db \<Rightarrow> audit_event \<Rightarrow> bool" where
  "audit_conflict d r = list_ex (\<lambda>x.
     (au_job x = au_job r \<and> (au_event_id x = au_event_id r \<or> au_sequence x = au_sequence r)) \<or>
     (au_attempt r \<noteq> None \<and> au_attempt x = au_attempt r \<and>
       (au_event_id x = au_event_id r \<or>
        (au_attempt_sequence r \<noteq> None \<and> au_attempt_sequence x = au_attempt_sequence r)))) (db_audit d)"

definition unscreened_types :: "audit_type list" where
  "unscreened_types = [RunnerEv AttemptStopped, RunnerEv AttemptInterrupted,
     ServerEv SrvAttemptInterrupted, ServerEv StopRequested, ServerEv PublicationBlocked]"

definition dump_audit_payload :: "env \<Rightarrow> audit_payload \<Rightarrow> json" where
  "dump_audit_payload en pl = (case pl of
     RunnerPl x \<Rightarrow> en_dump_runner_payload en x | ServerPl x \<Rightarrow> en_dump_authority_payload en x)"

definition bump_sequence :: "job \<Rightarrow> job" where
  "bump_sequence j = j\<lparr>jb_event_sequence := jb_event_sequence j + 1\<rparr>"

definition audit_row ::
    "time \<Rightarrow> job \<Rightarrow> audit_type \<Rightarrow> audit_payload \<Rightarrow> uuid option \<Rightarrow> authority \<Rightarrow>
     runner_event option \<Rightarrow> uid option \<Rightarrow> uuid \<Rightarrow> audit_event" where
  "audit_row now j t pl att auth ev actor i =
     \<lparr>au_realm = jb_realm j, au_job = jb_id j, au_attempt = att, au_event_id = i,
      au_sequence = jb_event_sequence j, au_attempt_sequence = map_option ev_sequence ev,
      au_actor = actor, au_authority = auth, au_type = t,
      au_occurred_at = (case ev of None \<Rightarrow> now | Some e \<Rightarrow> ev_occurred_at e), au_payload = pl\<rparr>"

text \<open>The event id is the runner's, or a fresh one.\<close>

definition audit_event_id :: "runner_event option \<Rightarrow> db \<Rightarrow> uuid \<times> db" where
  "audit_event_id ev d = (case ev of None \<Rightarrow> fresh d | Some e \<Rightarrow> (ev_event_id e, d))"

definition audit ::
    "env \<Rightarrow> time \<Rightarrow> uuid \<Rightarrow> audit_type \<Rightarrow> audit_payload \<Rightarrow> uuid option \<Rightarrow> authority \<Rightarrow>
     runner_event option \<Rightarrow> uid option \<Rightarrow> db \<Rightarrow> exn + db" where
  "audit en now jid t pl att auth ev actor d0 =
     rbind (fetch ''job'' (get_job jid d0)) (\<lambda>j0.
       (let j = bump_sequence j0; d1 = update_job jid bump_sequence d0 in
        rbind (if t \<in> set unscreened_types then Inr ()
               else reject_secrets d1 j (canonical_json (dump_audit_payload en pl))) (\<lambda>_.
          (let (i, d2) = audit_event_id ev d1; r = audit_row now j t pl att auth ev actor i
           in rbind (clean_audit en d2 r ev) (\<lambda>_.
             if audit_conflict d2 r then Inl (IntegrityErr ''agent_event'')
             else Inr (d2\<lparr>db_audit := db_audit d2 @ [r]\<rparr>))))))"

text \<open>The server's own entries.\<close>

definition audit_server ::
    "env \<Rightarrow> time \<Rightarrow> uuid \<Rightarrow> authority_event_type \<Rightarrow> authority_payload \<Rightarrow> uuid option \<Rightarrow> uid option \<Rightarrow>
     db \<Rightarrow> exn + db" where
  "audit_server en now jid t pl att actor d =
     audit en now jid (ServerEv t) (ServerPl pl) att AuthServer None actor d"

section \<open>Notices and transitions\<close>

definition notify_conversation :: "uuid \<Rightarrow> delivery_key \<Rightarrow> string \<Rightarrow> bool \<Rightarrow> db \<Rightarrow> db" where
  "notify_conversation jid key sentence mention d =
     d\<lparr>db_on_commit := db_on_commit d @ [NoticeHook jid key sentence mention]\<rparr>"

definition end_reason_sentence :: "string \<Rightarrow> string" where
  "end_reason_sentence reason =
     (if reason = ''stop_unconfirmed'' then ''The runner did not confirm that the task stopped.''
      else if reason = ''runtime_stopped'' then ''The task stopped before it finished.''
      else if reason = ''lease_lost''
        then ''The server lost contact with the runner before the task stopped.''
      else if reason = ''start_failed'' then ''The runner could not start this task.''
      else if reason = ''result_invalid'' then ''The agent ended the task without a usable result.''
      else if reason = ''verification_failed'' then ''The required checks failed.''
      else ''The task ended without a result.'')"

definition notify_job_ended :: "uuid \<Rightarrow> string \<Rightarrow> db \<Rightarrow> db" where
  "notify_job_ended jid reason d = (case get_job jid d of
     None \<Rightarrow> d
   | Some j \<Rightarrow> notify_conversation jid (EndNotice jid (jb_version j)) (end_reason_sentence reason) False d)"

definition transition :: "uuid \<Rightarrow> job_state \<Rightarrow> string \<Rightarrow> db \<Rightarrow> db" where
  "transition jid status reason d =
     (let d1 = update_job jid (\<lambda>j. j\<lparr>jb_status := status, jb_blocked_reason := reason,
                                     jb_version := jb_version j + 1\<rparr>) d
      in if status \<in> {Failed, Interrupted} then notify_job_ended jid reason d1 else d1)"

text \<open>\<open>AgentOutbox.objects.create\<close>: the delivery key is unique.\<close>

definition create_outbox :: "time \<Rightarrow> delivery_key \<Rightarrow> nat \<Rightarrow> uuid option \<Rightarrow> outbox_event \<Rightarrow> uuid option \<Rightarrow> db \<Rightarrow> exn + db" where
  "create_outbox now key realm jid kind ref d =
     (if get_outbox key d \<noteq> None then Inl (IntegrityErr ''delivery_key'')
      else Inr (add_outbox \<lparr>ob_key = key, ob_realm = realm, ob_job = jid, ob_event_type = kind,
        ob_payload_ref = ref, ob_attempt_count = 0, ob_next_attempt_at = now, ob_status = ObPending,
        ob_delivered_at = None\<rparr> d))"

section \<open>What the primitives change\<close>

lemma notify_conversation_frame [simp]:
  "db_settings (notify_conversation i k m b d) = db_settings d"
  "db_runners (notify_conversation i k m b d) = db_runners d"
  "db_pairings (notify_conversation i k m b d) = db_pairings d"
  "db_credentials (notify_conversation i k m b d) = db_credentials d"
  "db_secrets (notify_conversation i k m b d) = db_secrets d"
  "db_providers (notify_conversation i k m b d) = db_providers d"
  "db_repositories (notify_conversation i k m b d) = db_repositories d"
  "db_profiles (notify_conversation i k m b d) = db_profiles d"
  "db_grants (notify_conversation i k m b d) = db_grants d"
  "db_conversations (notify_conversation i k m b d) = db_conversations d"
  "db_jobs (notify_conversation i k m b d) = db_jobs d"
  "db_attempts (notify_conversation i k m b d) = db_attempts d"
  "db_context_refs (notify_conversation i k m b d) = db_context_refs d"
  "db_operations (notify_conversation i k m b d) = db_operations d"
  "db_approvals (notify_conversation i k m b d) = db_approvals d"
  "db_artifacts (notify_conversation i k m b d) = db_artifacts d"
  "db_verifications (notify_conversation i k m b d) = db_verifications d"
  "db_checkpoints (notify_conversation i k m b d) = db_checkpoints d"
  "db_inputs (notify_conversation i k m b d) = db_inputs d"
  "db_audit (notify_conversation i k m b d) = db_audit d"
  "db_outbox (notify_conversation i k m b d) = db_outbox d"
  "db_blobs (notify_conversation i k m b d) = db_blobs d"
  "db_sent (notify_conversation i k m b d) = db_sent d"
  "db_next (notify_conversation i k m b d) = db_next d"
  by (simp_all add: notify_conversation_def)

lemma transition_frame [simp]:
  "db_settings (transition i st m d) = db_settings d"
  "db_runners (transition i st m d) = db_runners d"
  "db_pairings (transition i st m d) = db_pairings d"
  "db_credentials (transition i st m d) = db_credentials d"
  "db_secrets (transition i st m d) = db_secrets d"
  "db_providers (transition i st m d) = db_providers d"
  "db_repositories (transition i st m d) = db_repositories d"
  "db_profiles (transition i st m d) = db_profiles d"
  "db_grants (transition i st m d) = db_grants d"
  "db_conversations (transition i st m d) = db_conversations d"
  "db_attempts (transition i st m d) = db_attempts d"
  "db_context_refs (transition i st m d) = db_context_refs d"
  "db_operations (transition i st m d) = db_operations d"
  "db_approvals (transition i st m d) = db_approvals d"
  "db_artifacts (transition i st m d) = db_artifacts d"
  "db_verifications (transition i st m d) = db_verifications d"
  "db_checkpoints (transition i st m d) = db_checkpoints d"
  "db_inputs (transition i st m d) = db_inputs d"
  "db_audit (transition i st m d) = db_audit d"
  "db_outbox (transition i st m d) = db_outbox d"
  "db_blobs (transition i st m d) = db_blobs d"
  "db_sent (transition i st m d) = db_sent d"
  "db_next (transition i st m d) = db_next d"
  by (simp_all add: transition_def notify_job_ended_def Let_def split: option.split)

lemma transition_jobs [simp]:
  "db_jobs (transition i st m d) = tbl_where (\<lambda>r. jb_id r = i)
     (\<lambda>j. j\<lparr>jb_status := st, jb_blocked_reason := m, jb_version := jb_version j + 1\<rparr>) (db_jobs d)"
  by (simp add: transition_def notify_job_ended_def Let_def split: option.split)

text \<open>A successful entry bumps the job's sequence and appends one row; nothing else changes.\<close>

lemma audit_event_idD:
  "audit_event_id ev d = (i, d2) \<Longrightarrow>
   (\<exists>n. d2 = d\<lparr>db_next := n\<rparr> \<and> db_next d \<le> n) \<and> (\<forall>e. ev = Some e \<longrightarrow> i = ev_event_id e)"
  by (cases ev) (auto simp: audit_event_id_def fresh_def intro: exI [of _ "db_next d"])

lemma audit_row_simps [simp]:
  "au_job (audit_row now j t pl att auth ev actor i) = jb_id j"
  "au_sequence (audit_row now j t pl att auth ev actor i) = jb_event_sequence j"
  "au_attempt (audit_row now j t pl att auth ev actor i) = att"
  "au_type (audit_row now j t pl att auth ev actor i) = t"
  "au_authority (audit_row now j t pl att auth ev actor i) = auth"
  "au_payload (audit_row now j t pl att auth ev actor i) = pl"
  "au_actor (audit_row now j t pl att auth ev actor i) = actor"
  "au_event_id (audit_row now j t pl att auth ev actor i) = i"
  "au_attempt_sequence (audit_row now j t pl att auth ev actor i) = map_option ev_sequence ev"
  by (simp_all add: audit_row_def)

lemma bump_sequence_simps [simp]:
  "jb_id (bump_sequence j) = jb_id j" "jb_event_sequence (bump_sequence j) = jb_event_sequence j + 1"
  "jb_status (bump_sequence j) = jb_status j" "jb_version (bump_sequence j) = jb_version j"
  "jb_result_receipt (bump_sequence j) = jb_result_receipt j"
  "jb_stop_target (bump_sequence j) = jb_stop_target j"
  by (simp_all add: bump_sequence_def)

lemma auditE:
  assumes "audit en now jid t pl att auth ev actor d = Inr d'"
  obtains j i n where "get_job jid d = Some j" "jb_id j = jid"
    and "d' = (update_job jid bump_sequence d)\<lparr>db_next := n,
          db_audit := db_audit d @ [audit_row now (bump_sequence j) t pl att auth ev actor i]\<rparr>"
    and "db_next d \<le> n" "\<forall>e. ev = Some e \<longrightarrow> i = ev_event_id e"
    and "\<not> audit_conflict d (audit_row now (bump_sequence j) t pl att auth ev actor i)"
    and "t \<notin> set unscreened_types \<Longrightarrow>
      reject_secrets (update_job jid bump_sequence d) (bump_sequence j)
        (canonical_json (dump_audit_payload en pl)) = Inr ()"
proof -
  from assms obtain j where j: "get_job jid d = Some j" by (auto simp: audit_def)
  obtain i d2 where i: "audit_event_id ev (update_job jid bump_sequence d) = (i, d2)"
    by fastforce
  from audit_event_idD [OF i] obtain n where n: "d2 = (update_job jid bump_sequence d)\<lparr>db_next := n\<rparr>"
    "db_next d \<le> n" "\<forall>e. ev = Some e \<longrightarrow> i = ev_event_id e" by auto
  have same: "audit_conflict d2 r = audit_conflict d r" for r
    by (simp add: audit_conflict_def n(1))
  show thesis
    using assms j i n(2,3) same
    by (intro that [of j i n]) (auto simp: audit_def n(1) Let_def jobs.get_key split: if_splits)
qed

end
