(* ===== verification/Agent_Attempts.thy ===== *)
theory Agent_Attempts
  imports Agent_Journal
begin

text \<open>
  The life of an attempt in \<^verbatim>\<open>zerver/actions/agent_jobs.py\<close>: a runner claims a queued job
  (\<open>claim_work\<close>, with the descriptor of \<open>build_descriptor\<close>), proves its lease on every request
  (\<open>locked_attempt\<close>, \<open>check_attempt_access\<close>), renews it (\<open>heartbeat\<close>), saves checkpoints, and is
  asked to stop (\<open>request_stop\<close>, \<open>cancel_job\<close>).  A handler takes the surroundings, the time of
  the transaction and the database, and returns an exception or the new database.
\<close>

section \<open>Job states\<close>

definition terminal_states :: "job_state list" where
  "terminal_states = [Completed, Cancelled, Failed, Interrupted, Blocked]"

definition executing_states :: "job_state list" where
  "executing_states = [Running, WaitingForInput, WaitingForApproval, Verifying]"

section \<open>Access of an attempt\<close>

definition require_snapshot_resources :: "env \<Rightarrow> time \<Rightarrow> db \<Rightarrow> user \<Rightarrow> job \<Rightarrow> attempt \<Rightarrow> exn + unit" where
  "require_snapshot_resources en now d actor j a =
     rbind (fetch ''runner'' (get_runner (at_runner a) d)) (\<lambda>r.
       if ru_realm r \<noteq> jb_realm j then Inl (DoesNotExist ''runner'')
       else if ru_revoked_at r \<noteq> None \<or>
         \<not> owner_or_grant en now d actor (ResRunner r) RunnerUse (jb_repository j) (job_source en j) None True
       then Inl AccessDenied
       else if \<not> valid_descriptor (en_sha en) (at_descriptor a) then Inl ProtocolInvalid
       else (case de_provider (at_descriptor a) of
           None \<Rightarrow> Inr ()
         | Some snap \<Rightarrow>
             rbind (fetch ''provider'' (get_provider (prov_id snap) d)) (\<lambda>current.
               if pv_realm current \<noteq> jb_realm j then Inl (DoesNotExist ''provider'')
               else if pv_disabled_at current \<noteq> None \<or>
                 \<not> owner_or_grant en now d actor (ResProvider current) ProviderUse (jb_repository j)
                     (job_source en j) None True
               then Inl AccessDenied
               else if pv_config_version current \<noteq> prov_config_version snap
               then Inl (ValueErr ''Provider authority changed.'')
               else rbind (provider_config_of d current) (\<lambda>live.
                 if prov_credential_ref live \<noteq> prov_credential_ref snap
                 then Inl (ValueErr ''Provider authority changed.'') else Inr ()))))"

definition job_repository_ok :: "env \<Rightarrow> time \<Rightarrow> db \<Rightarrow> user \<Rightarrow> job \<Rightarrow> action \<Rightarrow> exn + unit" where
  "job_repository_ok en now d actor j act = (case jb_repository j of
     None \<Rightarrow> Inr ()
   | Some i \<Rightarrow>
       rbind (fetch ''repository'' (get_repository i d)) (\<lambda>w.
         if repo_realm w \<noteq> jb_realm j then Inl (DoesNotExist ''repository'')
         else if repo_disabled_at w \<noteq> None \<or>
           \<not> owner_or_grant en now d actor (ResRepository w) (repository_action_of act) None
               (job_source en j) None True
         then Inl AccessDenied else Inr ()))"

definition check_attempt_access ::
    "env \<Rightarrow> time \<Rightarrow> db \<Rightarrow> uid \<Rightarrow> job \<Rightarrow> attempt \<Rightarrow> action \<Rightarrow> exn + unit" where
  "check_attempt_access en now d who j a act =
     rbind (active_realm_user en (jb_realm j) who) (\<lambda>actor.
     rbind (job_profile j d) (\<lambda>p.
       if pr_realm p \<noteq> jb_realm j then Inl (DoesNotExist ''profile'')
       else rbind (require_manage_command en actor p (Some act)) (\<lambda>_.
         if \<not> valid_descriptor (en_sha en) (at_descriptor a) then Inl ProtocolInvalid
         else if pr_desired_state p = PArchived \<or>
                 pr_policy_version p \<noteq> pol_version (de_policy (at_descriptor a))
         then Inl AccessDenied
         else if act \<notin> {ProfileUse, TeamManage} \<and> act \<notin> set (ec_actions (de_tested (at_descriptor a)))
         then Inl AccessDenied
         else (case jb_source_message j of
             None \<Rightarrow> Inl AccessDenied
           | Some m \<Rightarrow>
               if en_access_message en (us_id actor) m = None \<or>
                  en_access_message en (pr_bot_user p) m = None then Inl JsonableErr
               else if \<not> owner_or_grant en now d actor (ResProfile p) act (jb_repository j)
                          (job_source en j) None True
               then Inl AccessDenied
               else rbind (job_repository_ok en now d actor j act) (\<lambda>_.
                 require_snapshot_resources en now d actor j a)))))"

text \<open>
  The rows a runner addresses, and the conditions of an execution request (\<open>execution=True\<close>).
  The \<open>runner\<close> argument is the authenticated object, which may be older than its row.
\<close>

definition find_attempt :: "runner \<Rightarrow> uuid \<Rightarrow> uuid \<Rightarrow> int \<Rightarrow> db \<Rightarrow> exn + runner \<times> job \<times> attempt" where
  "find_attempt ru jid aid epoch d =
     rbind (fetch ''runner'' (get_runner (ru_id ru) d)) (\<lambda>r.
     rbind (fetch ''job'' (get_job jid d)) (\<lambda>j.
     rbind (fetch ''attempt'' (get_attempt aid d)) (\<lambda>a.
       if ru_realm r \<noteq> ru_realm ru then Inl (DoesNotExist ''runner'')
       else if jb_runner j \<noteq> ru_id r \<or> jb_realm j \<noteq> ru_realm r then Inl (DoesNotExist ''job'')
       else if at_job a \<noteq> jb_id j \<or> at_runner a \<noteq> ru_id r \<or> at_realm a \<noteq> ru_realm r \<or>
               at_lease_epoch a \<noteq> epoch
       then Inl (DoesNotExist ''attempt'')
       else Inr (r, j, a))))"

definition lease_live :: "time \<Rightarrow> runner \<Rightarrow> job \<Rightarrow> attempt \<Rightarrow> bool" where
  "lease_live now r j a =
     (ru_revoked_at r = None \<and> at_active a \<and> now < at_lease_expires_at a \<and>
      at_process_state a \<in> {Starting, Active} \<and> jb_status j \<in> set executing_states)"

definition active_seconds :: "attempt \<Rightarrow> int" where
  "active_seconds a = bud_active_seconds (de_budget (at_descriptor a))"

definition require_execution :: "env \<Rightarrow> time \<Rightarrow> db \<Rightarrow> runner \<Rightarrow> job \<Rightarrow> attempt \<Rightarrow> exn + unit" where
  "require_execution en now d r j a =
     (if \<not> lease_live now r j a then Inl (ValueErr ''Execution lease is unavailable.'')
      else if now - at_created_at a > active_seconds a then Inl (ValueErr ''Job time budget exhausted.'')
      else rbind (require_audience en d j) (\<lambda>_.
           rbind (job_conversation j d) (\<lambda>cv.
             if at_audience_binding a \<noteq> cv_binding cv then Inl (ValueErr ''Attempt audience changed.'')
             else check_attempt_access en now d (jb_requester j) j a ProfileUse)))"

definition locked_attempt ::
    "env \<Rightarrow> time \<Rightarrow> runner \<Rightarrow> uuid \<Rightarrow> uuid \<Rightarrow> int \<Rightarrow> int option \<Rightarrow> bool \<Rightarrow> db \<Rightarrow> exn + job \<times> attempt" where
  "locked_attempt en now ru jid aid epoch expected execution d =
     rbind (find_attempt ru jid aid epoch d) (\<lambda>(r, j, a).
       if \<not> opt_all (\<lambda>v. v = jb_version j) expected then Inl (ValueErr ''Job version changed.'')
       else if \<not> execution then Inr (j, a)
       else rbind (require_execution en now d r j a) (\<lambda>_. Inr (j, a)))"

section \<open>The descriptor of an attempt\<close>

fun granted_actions :: "env \<Rightarrow> time \<Rightarrow> db \<Rightarrow> user \<Rightarrow> job \<Rightarrow> action list \<Rightarrow> exn + action list" where
  "granted_actions en now d requester j [] = Inr []"
| "granted_actions en now d requester j (act # acts) =
     (case check_agent_access en now d requester (jb_profile j) (jb_repository j) (job_source en j) act None of
        Inl e \<Rightarrow> if e = AccessDenied then granted_actions en now d requester j acts else Inl e
      | Inr _ \<Rightarrow> rbind (granted_actions en now d requester j acts) (\<lambda>rest. Inr (act # rest)))"

definition current_actions :: "env \<Rightarrow> time \<Rightarrow> db \<Rightarrow> job \<Rightarrow> action list \<Rightarrow> exn + action list" where
  "current_actions en now d j ceiling =
     rbind (fetch ''user'' (get_user en (jb_requester j))) (\<lambda>requester.
     rbind (granted_actions en now d requester j ceiling) (\<lambda>acts. Inr (sorted_actions acts)))"

definition input_data :: "input \<Rightarrow> input_record" where
  "input_data i = \<lparr>ir_id = in_id i, ir_author = in_author i, ir_source_message_id = in_source_message i,
     ir_client_key = in_client_key i, ir_sequence = in_sequence i, ir_input_type = in_input_type i,
     ir_text = in_text i, ir_delivery_state = in_delivery_state i\<rparr>"

definition checkpoint_data :: "checkpoint \<Rightarrow> checkpoint_dto" where
  "checkpoint_data k = \<lparr>cp_id = ck_id k, cp_source_attempt_id = ck_attempt k,
     cp_base_commit = empty_none (ck_base_commit k), cp_tree_hash = empty_none (ck_tree_hash k),
     cp_summary = ck_summary k, cp_context_ref_ids = ck_context_refs k,
     cp_artifact_ids = ck_artifact_ids k, cp_remaining_work = ck_remaining_work k,
     cp_next_step = ck_next_step k, cp_adapter_session_ref = None, cp_input_cursor = ck_input_cursor k\<rparr>"

definition context_data :: "context_ref \<Rightarrow> context_reference" where
  "context_data r = \<lparr>cx_id = cr_id r, cx_kind = cr_kind r,
     cx_message_id = (if cr_kind r = RefMessage then cr_message r else None),
     cx_attachment_id = cr_attachment r, cx_repository_id = cr_repository r, cx_scope = cr_scope r,
     cx_validated_at = cr_validated_at r\<rparr>"

definition repository_dto :: "job \<Rightarrow> repository \<Rightarrow> repository_config" where
  "repository_dto j w = \<lparr>rc_id = repo_id w, rc_owner_user_id = repo_owner w, rc_runner_id = repo_runner w,
     rc_workspace_alias = repo_workspace_alias w, rc_canonical_origin = empty_none (repo_canonical_origin w),
     rc_allowed_refs = repo_allowed_refs w, rc_base_ref = jb_base_ref j, rc_base_commit = None,
     rc_policy_version = repo_policy_version w, rc_required_checks = repo_required_checks w\<rparr>"

definition job_inputs :: "uuid \<Rightarrow> db \<Rightarrow> input list" where
  "job_inputs jid d = sort_key in_sequence (filter (\<lambda>i. in_job i = jid) (db_inputs d))"

definition coding_unready :: "profile \<Rightarrow> repository option \<Rightarrow> bool" where
  "coding_unready p repo =
     (\<not> cap_code_ready (pr_capability_report p) \<or>
      (case repo of None \<Rightarrow> True | Some w \<Rightarrow> repo_required_checks w = []))"

definition zero_digest :: string where "zero_digest = replicate 64 (CHR ''0'')"

definition draft_descriptor ::
    "job \<Rightarrow> lease_identity \<Rightarrow> time \<Rightarrow> profile \<Rightarrow> audience \<Rightarrow> execution_configuration \<Rightarrow>
     provider_config option \<Rightarrow> repository option \<Rightarrow> action list \<Rightarrow> attempt_instructions option \<Rightarrow>
     checkpoint option \<Rightarrow> db \<Rightarrow> attempt_descriptor" where
  "draft_descriptor j li expires p aud tested pc repo acts instr ck d = \<lparr>
     de_job_id = jb_id j, de_attempt_id = li_attempt_id li, de_lease_epoch = li_lease_epoch li,
     de_audience = aud, de_tested = tested, de_profile_id = pr_id p,
     de_profile_revision = pr_revision p, de_descriptor_digest = zero_digest,
     de_configuration_digest = pr_readiness_configuration_digest p,
     de_lease_expires_at = expires, de_job_kind = jb_job_kind j,
     de_delivery_target = jb_delivery_target j, de_request = jb_request j, de_runner_id = jb_runner j,
     de_adapter = profile_adapter p, de_provider = pc,
     de_repository = map_option (repository_dto j) repo,
     de_policy = (jb_policy j)\<lparr>pol_actions := acts\<rparr>, de_budget = jb_budget j,
     de_context_refs = map context_data (filter (\<lambda>r. cr_job r = jb_id j) (db_context_refs d)),
     de_inputs = map input_data (take 100 (job_inputs (jb_id j) d)),
     de_checkpoint = map_option checkpoint_data ck, de_instructions = instr\<rparr>"

text \<open>The new attempt is given by its identity, the end of its lease and its source checkpoint.\<close>

definition build_descriptor ::
    "env \<Rightarrow> time \<Rightarrow> db \<Rightarrow> job \<Rightarrow> lease_identity \<Rightarrow> time \<Rightarrow> checkpoint option \<Rightarrow> exn + attempt_descriptor" where
  "build_descriptor en now d j li expires ck =
     rbind (job_profile j d) (\<lambda>p.
     rbind (require_ready en now d p) (\<lambda>tested.
     rbind (fetch_opt ''repository'' get_repository (jb_repository j) d) (\<lambda>repo.
       if jb_job_kind j = KCode \<and> coding_unready p repo
       then Inl (ValueErr ''Coding readiness and required checks are required.'')
       else if \<not> valid_policy (jb_policy j) then Inl ProtocolInvalid
       else rbind (current_actions en now d j (pol_actions (jb_policy j))) (\<lambda>acts.
       rbind (job_conversation j d) (\<lambda>cv.
       rbind (fetch_opt ''provider'' get_provider (pr_provider p) d) (\<lambda>pv.
       rbind (opt_config d pv) (\<lambda>pc.
       rbind (descriptor_instructions d p) (\<lambda>instr.
           (case cv_binding cv of
            None \<Rightarrow> Inl ProtocolInvalid
          | Some aud \<Rightarrow>
              (let de = draft_descriptor j li expires p aud tested pc repo acts instr ck d in
               if \<not> valid_descriptor (en_sha en) de then Inl ProtocolInvalid
               else rbind (attempt_execution_configuration (en_sha en) de) (\<lambda>c.
                 if configuration_digest (en_sha en) c \<noteq> pr_readiness_configuration_digest p
                 then Inl (ValueErr ''Configuration changed.'')
                 else Inr (de\<lparr>de_descriptor_digest :=
                        descriptor_digest (en_sha en) (en_dump_descriptor en de)\<rparr>))))))))))))"

section \<open>Claiming work\<close>

definition active_attempts :: "uuid \<Rightarrow> db \<Rightarrow> attempt list" where
  "active_attempts jid d = filter (\<lambda>a. at_job a = jid \<and> at_active a) (db_attempts d)"

definition next_number :: "uuid \<Rightarrow> db \<Rightarrow> int" where
  "next_number jid d = (case latest_attempt jid d of None \<Rightarrow> 0 | Some a \<Rightarrow> at_number a) + 1"

definition resume_point :: "job \<Rightarrow> db \<Rightarrow> checkpoint option" where
  "resume_point j d = (case jb_resume_checkpoint j of
     Some c \<Rightarrow> get_checkpoint c d
   | None \<Rightarrow> (case latest_attempt (jb_id j) d of
       None \<Rightarrow> None
     | Some a \<Rightarrow> max_row ck_created_at (filter (\<lambda>k. ck_attempt k = at_id a) (db_checkpoints d))))"

definition lease_seconds :: int where "lease_seconds = 90"

definition new_attempt ::
    "time \<Rightarrow> runner \<Rightarrow> uuid \<Rightarrow> job \<Rightarrow> lease_identity \<Rightarrow> time \<Rightarrow> audience option \<Rightarrow> checkpoint option \<Rightarrow>
     profile \<Rightarrow> provider option \<Rightarrow> attempt_descriptor \<Rightarrow> attempt" where
  "new_attempt now r key j li expires aud ck p pv de = \<lparr>
     at_id = li_attempt_id li, at_realm = jb_realm j, at_created_at = now, at_job = jb_id j,
     at_runner = ru_id r, at_number = li_lease_epoch li, at_active = True,
     at_lease_epoch = li_lease_epoch li, at_lease_expires_at = expires,
     at_claim_key = key, at_configuration_digest = de_configuration_digest de,
     at_descriptor_digest = de_descriptor_digest de, at_descriptor = de,
     at_adapter_version = pr_adapter_version p,
     at_provider_config_version = map_option pv_config_version pv, at_audience_binding = aud,
     at_base_commit = [], at_tree_hash = [], at_workspace_reference = [],
     at_workspace_prepared_at = None, at_session_reference = [],
     at_input_cursor = (case ck of None \<Rightarrow> 0 | Some k \<Rightarrow> ck_input_cursor k), at_event_cursor = 0,
     at_tool_rounds = 0, at_process_state = Starting, at_started_at = None, at_stopped_at = None,
     at_ended_at = None, at_stop_receipt = None, at_source_checkpoint = map_option ck_id ck\<rparr>"

definition start_attempt ::
    "env \<Rightarrow> time \<Rightarrow> runner \<Rightarrow> uuid \<Rightarrow> job \<Rightarrow> lease_identity \<Rightarrow> time \<Rightarrow> audience option \<Rightarrow>
     checkpoint option \<Rightarrow> attempt_descriptor \<Rightarrow> db \<Rightarrow> exn + db \<times> attempt_descriptor option" where
  "start_attempt en now r key j li expires aud ck de d =
     rbind (job_profile j d) (\<lambda>p.
     rbind (fetch_opt ''provider'' get_provider (pr_provider p) d) (\<lambda>pv.
       (let a = new_attempt now r key j li expires aud ck p pv de
        in rbind (clean_attempt en d a) (\<lambda>_.
           rbind (audit_server en now (jb_id j) SrvAttemptStarting (AJobState Running []) (Some (at_id a)) None
                    (transition (jb_id j) Running [] (add_attempt a d))) (\<lambda>d'.
             Inr (d', Some de))))))"

definition claimable :: "env \<Rightarrow> time \<Rightarrow> db \<Rightarrow> job \<Rightarrow> exn + unit" where
  "claimable en now d j =
     rbind (require_audience en d j) (\<lambda>_.
     rbind (fetch ''user'' (get_user en (jb_requester j))) (\<lambda>requester.
     rbind (check_agent_access en now d requester (jb_profile j) (jb_repository j) (job_source en j)
              ProfileUse None) (\<lambda>_.
     rbind (job_profile j d) (\<lambda>p.
     rbind (require_ready en now d p) (\<lambda>_. Inr ())))))"

text \<open>The body of the loop for one candidate: \<open>None\<close> goes on with the next one.\<close>

definition claim_candidate ::
    "env \<Rightarrow> time \<Rightarrow> runner \<Rightarrow> uuid \<Rightarrow> job \<Rightarrow> db \<Rightarrow> exn + db \<times> attempt_descriptor option" where
  "claim_candidate en now r key j d =
     (if (case jb_start_deadline j of None \<Rightarrow> True | Some t \<Rightarrow> t \<le> now)
      then Inr (transition (jb_id j) Blocked ''start_deadline_expired'' d, None)
      else if active_attempts (jb_id j) d \<noteq> [] then Inr (d, None)
      else (case claimable en now d j of
          Inl e \<Rightarrow> if is_value_error e \<or> e = AccessDenied then Inr (d, None) else Inl e
        | Inr _ \<Rightarrow>
            rbind (job_conversation j d) (\<lambda>cv.
              (let (i, d1) = fresh d;
                   li = \<lparr>li_job_id = jb_id j, li_attempt_id = i, li_lease_epoch = next_number (jb_id j) d\<rparr>;
                   expires = now + lease_seconds;
                   ck = resume_point j d
               in (case build_descriptor en now d1 j li expires ck of
                     Inl e \<Rightarrow> if is_value_error e then Inr (d1, None) else Inl e
                   | Inr de \<Rightarrow> start_attempt en now r key j li expires (cv_binding cv) ck de d1)))))"

fun claim_loop ::
    "env \<Rightarrow> time \<Rightarrow> runner \<Rightarrow> uuid \<Rightarrow> job list \<Rightarrow> db \<Rightarrow> exn + db \<times> attempt_descriptor option" where
  "claim_loop en now r key [] d = Inr (d, None)"
| "claim_loop en now r key (j # js) d =
     rbind (claim_candidate en now r key j d) (\<lambda>(d', x).
       case x of Some de \<Rightarrow> Inr (d', Some de) | None \<Rightarrow> claim_loop en now r key js d')"

definition claim_candidates :: "time \<Rightarrow> uuid \<Rightarrow> db \<Rightarrow> job list" where
  "claim_candidates now r d = take 100 (sort_key jb_created_at (sort_key jb_id
     (filter (\<lambda>j. jb_runner j = r \<and> jb_status j = Queued \<and> jb_next_attempt_at j \<le> now) (db_jobs d))))"

definition at_capacity :: "realm_settings \<Rightarrow> runner \<Rightarrow> db \<Rightarrow> bool" where
  "at_capacity st r d =
     (ru_capacity r \<le> row_count (\<lambda>a. at_runner a = ru_id r \<and> at_active a) (db_attempts d) \<or>
      rs_active_job_limit st \<le> row_count (\<lambda>a. at_realm a = ru_realm r \<and> at_active a) (db_attempts d))"

definition claim_work ::
    "env \<Rightarrow> time \<Rightarrow> runner \<Rightarrow> uuid \<Rightarrow> db \<Rightarrow> exn + db \<times> attempt_descriptor option" where
  "claim_work en now ru key d =
     rbind (fetch ''settings'' (realm_row (ru_realm ru) d)) (\<lambda>st.
     rbind (fetch ''runner'' (get_runner (ru_id ru) d)) (\<lambda>r.
       if ru_revoked_at r \<noteq> None then Inl (DoesNotExist ''runner'')
       else (case find (\<lambda>a. at_runner a = ru_id r \<and> at_claim_key a = key) (db_attempts d) of
           Some a \<Rightarrow> Inr (d, Some (at_descriptor a))
         | None \<Rightarrow>
             if \<not> rs_enabled st then Inl (ValueErr ''Agent feature is disabled.'')
             else if at_capacity st r d then Inr (d, None)
             else claim_loop en now r key (claim_candidates now (ru_id r) d) d)))"

section \<open>Stopping\<close>

definition invalidate_approvals :: "uuid \<Rightarrow> db \<Rightarrow> db" where
  "invalidate_approvals aid d = d\<lparr>db_approvals :=
     tbl_where (\<lambda>p. ap_attempt p = aid \<and> ap_decision p \<in> {ApPending, ApApproved})
       (\<lambda>p. p\<lparr>ap_decision := ApCancelled\<rparr>) (db_approvals d)\<rparr>"

definition ensure_stop_outbox :: "time \<Rightarrow> job \<Rightarrow> uuid \<Rightarrow> db \<Rightarrow> db" where
  "ensure_stop_outbox now j aid d =
     (case create_outbox now (StopKey aid) (jb_realm j) (Some (jb_id j)) AttemptStop (Some aid) d of
        Inl _ \<Rightarrow> d | Inr d' \<Rightarrow> d')"

definition request_stop ::
    "env \<Rightarrow> time \<Rightarrow> job \<Rightarrow> uuid option \<Rightarrow> job_state \<Rightarrow> string \<Rightarrow> db \<Rightarrow> exn + db" where
  "request_stop en now j att target reason d0 =
     (let d = update_job (jb_id j) (\<lambda>r. r\<lparr>jb_stop_target := target\<rparr>) d0 in
      case att of
        None \<Rightarrow> Inr (transition (jb_id j) target reason d)
      | Some aid \<Rightarrow>
          audit_server en now (jb_id j) StopRequested (AJobState CancelRequested reason) (Some aid) None
            (ensure_stop_outbox now j aid
              (transition (jb_id j) CancelRequested reason
                (invalidate_approvals aid
                  (update_attempt aid (\<lambda>a. a\<lparr>at_process_state := Stopping\<rparr>) d)))))"

definition first_active :: "uuid \<Rightarrow> db \<Rightarrow> attempt option" where
  "first_active jid d = find (\<lambda>a. at_job a = jid \<and> at_active a) (db_attempts d)"

definition require_control :: "env \<Rightarrow> time \<Rightarrow> db \<Rightarrow> user \<Rightarrow> job \<Rightarrow> exn + unit" where
  "require_control en now d actor j =
     rbind (require_job_access en now d actor j) (\<lambda>_.
       if jb_job_kind j = KManage
       then (if us_id actor \<noteq> jb_requester j then Inl AccessDenied else Inr ())
       else rbind (job_profile j d) (\<lambda>p.
         if us_id actor \<noteq> jb_requester j \<and>
            \<not> owner_or_grant en now d actor (ResProfile p) JobControl (jb_repository j) (job_source en j) None True
         then Inl AccessDenied else Inr ()))"

definition realm_job :: "user \<Rightarrow> uuid \<Rightarrow> db \<Rightarrow> exn + job" where
  "realm_job actor jid d = rbind (fetch ''job'' (get_job jid d)) (\<lambda>j.
     if jb_realm j \<noteq> us_realm actor then Inl (DoesNotExist ''job'') else Inr j)"

definition cancel_job :: "env \<Rightarrow> time \<Rightarrow> user \<Rightarrow> uuid \<Rightarrow> int \<Rightarrow> db \<Rightarrow> exn + db" where
  "cancel_job en now actor jid expected d =
     rbind (realm_job actor jid d) (\<lambda>j.
     rbind (require_control en now d actor j) (\<lambda>_.
       if jb_status j \<in> {CancelRequested, Cancelled} then Inr d
       else if jb_version j \<noteq> expected \<or> jb_status j = Completed
       then Inl (ValueErr ''Job version changed.'')
       else request_stop en now j (map_option at_id (first_active jid d)) Cancelled [] d))"

section \<open>Leases\<close>

definition open_input_states :: "input_state list" where
  "open_input_states = [InPending, InDelivered, InUncertain]"

definition has_open_input :: "uuid \<Rightarrow> db \<Rightarrow> bool" where
  "has_open_input jid d =
     list_ex (\<lambda>i. in_job i = jid \<and> in_delivery_state i \<in> set open_input_states) (db_inputs d)"

definition fence_prepared_result :: "job \<Rightarrow> attempt \<Rightarrow> db \<Rightarrow> db" where
  "fence_prepared_result j a d =
     (if jb_status j \<noteq> Verifying \<or> jb_result_proposal j = None \<or> \<not> at_active a \<or>
         at_process_state a \<noteq> Active \<or> has_open_input (jb_id j) d
      then d
      else update_job (jb_id j) (\<lambda>r. r\<lparr>jb_version := jb_version r + 1\<rparr>)
             (update_attempt (at_id a) (\<lambda>r. r\<lparr>at_process_state := Stopping\<rparr>) d))"

datatype control = Continue | Stop

record heartbeat_entry =
  hb_job_id :: uuid
  hb_attempt_id :: uuid
  hb_lease_epoch :: int
  hb_job_version :: int
  hb_lease_expires_at :: time
  hb_control :: control

definition renew_lease :: "time \<Rightarrow> attempt \<Rightarrow> db \<Rightarrow> db" where
  "renew_lease now a d = update_attempt (at_id a) (\<lambda>r. r\<lparr>at_lease_expires_at :=
     min (now + lease_seconds) (at_created_at a + active_seconds a)\<rparr>) d"

definition heartbeat_entry_of :: "uuid \<Rightarrow> uuid \<Rightarrow> db \<Rightarrow> exn + heartbeat_entry" where
  "heartbeat_entry_of jid aid d =
     rbind (fetch ''job'' (get_job jid d)) (\<lambda>j.
     rbind (fetch ''attempt'' (get_attempt aid d)) (\<lambda>a.
       Inr \<lparr>hb_job_id = jid, hb_attempt_id = aid, hb_lease_epoch = at_lease_epoch a,
            hb_job_version = jb_version j, hb_lease_expires_at = at_lease_expires_at a,
            hb_control = (if at_process_state a \<in> {Stopping, ProcUnknown} then Stop else Continue)\<rparr>))"

definition heartbeat_one ::
    "env \<Rightarrow> time \<Rightarrow> runner \<Rightarrow> lease_identity \<Rightarrow> db \<Rightarrow> exn + db \<times> heartbeat_entry option" where
  "heartbeat_one en now r li d =
     rbind (locked_attempt en now r (li_job_id li) (li_attempt_id li) (li_lease_epoch li) None False d)
       (\<lambda>(j, a).
         if \<not> at_active a then Inr (d, None)
         else rbind
           (if at_process_state a \<in> {Starting, Active} \<and> jb_status j \<in> set executing_states
            then rbind (locked_attempt en now r (jb_id j) (at_id a) (at_lease_epoch a) None True d) (\<lambda>_.
                   Inr (renew_lease now a (fence_prepared_result j a d)))
            else Inr d)
           (\<lambda>d'. rbind (heartbeat_entry_of (jb_id j) (at_id a) d') (\<lambda>e. Inr (d', Some e))))"

fun heartbeat_loop ::
    "env \<Rightarrow> time \<Rightarrow> runner \<Rightarrow> lease_identity list \<Rightarrow> db \<Rightarrow> exn + db \<times> heartbeat_entry list" where
  "heartbeat_loop en now r [] d = Inr (d, [])"
| "heartbeat_loop en now r (li # lis) d =
     rbind (heartbeat_one en now r li d) (\<lambda>(d1, x).
     rbind (heartbeat_loop en now r lis d1) (\<lambda>(d2, rest).
       Inr (d2, (case x of None \<Rightarrow> rest | Some e \<Rightarrow> e # rest))))"

definition heartbeat ::
    "env \<Rightarrow> time \<Rightarrow> runner \<Rightarrow> lease_identity list \<Rightarrow> db \<Rightarrow> exn + db \<times> heartbeat_entry list" where
  "heartbeat en now ru lis d =
     rbind (fetch ''runner'' (get_runner (ru_id ru) d)) (\<lambda>r0.
       if ru_revoked_at r0 \<noteq> None then Inl (DoesNotExist ''runner'')
       else (let r = r0\<lparr>ru_last_heartbeat_at := Some now, ru_status := ROnline\<rparr>
             in heartbeat_loop en now r lis (put_runner r d)))"

section \<open>Checkpoints\<close>

definition available_artifacts :: "uuid \<Rightarrow> uuid list \<Rightarrow> db \<Rightarrow> artifact list" where
  "available_artifacts aid ids d = filter (\<lambda>f. af_attempt f = aid \<and> af_id f \<in> set ids \<and>
     af_unavailable_at f = None) (db_artifacts d)"

definition job_context_refs :: "uuid \<Rightarrow> uuid list \<Rightarrow> db \<Rightarrow> context_ref list" where
  "job_context_refs jid ids d = filter (\<lambda>r. cr_job r = jid \<and> cr_id r \<in> set ids) (db_context_refs d)"

definition none_empty :: "string option \<Rightarrow> string" where
  "none_empty x = (case x of None \<Rightarrow> [] | Some s \<Rightarrow> s)"

definition checkpoint_row :: "time \<Rightarrow> job \<Rightarrow> attempt \<Rightarrow> checkpoint_dto \<Rightarrow> checkpoint" where
  "checkpoint_row now j a c = \<lparr>ck_id = cp_id c, ck_realm = jb_realm j, ck_created_at = now,
     ck_attempt = at_id a, ck_base_commit = none_empty (cp_base_commit c),
     ck_tree_hash = none_empty (cp_tree_hash c), ck_summary = cp_summary c,
     ck_context_refs = cp_context_ref_ids c, ck_artifact_ids = cp_artifact_ids c,
     ck_remaining_work = cp_remaining_work c, ck_next_step = cp_next_step c,
     ck_session_ref = none_empty (cp_adapter_session_ref c), ck_input_cursor = cp_input_cursor c,
     ck_audience_binding = at_audience_binding a\<rparr>"

definition save_checkpoint ::
    "env \<Rightarrow> time \<Rightarrow> runner \<Rightarrow> uuid \<Rightarrow> uuid \<Rightarrow> int \<Rightarrow> checkpoint_dto \<Rightarrow> db \<Rightarrow> exn + db \<times> checkpoint" where
  "save_checkpoint en now ru jid aid epoch c d =
     rbind (locked_attempt en now ru jid aid epoch None True d) (\<lambda>(j, a).
       if cp_source_attempt_id c \<noteq> at_id a \<or> cp_input_cursor c \<noteq> at_input_cursor a
       then Inl (ValueErr ''Checkpoint attempt or cursor mismatch.'')
       else if jb_repository j \<noteq> None \<and>
               (cp_base_commit c \<noteq> Some (at_base_commit a) \<or> cp_tree_hash c = None \<or> cp_tree_hash c = Some [])
       then Inl (ValueErr ''Checkpoint workspace mismatch.'')
       else if length (job_context_refs (jb_id j) (cp_context_ref_ids c) d) \<noteq>
               length (remdups (cp_context_ref_ids c))
       then Inl (ValueErr ''Checkpoint context is unavailable.'')
       else if length (available_artifacts (at_id a) (cp_artifact_ids c) d) \<noteq>
               length (remdups (cp_artifact_ids c))
       then Inl (ValueErr ''Checkpoint artifact is unavailable.'')
       else (let row = checkpoint_row now j a c in
         case get_checkpoint (cp_id c) d of
           Some prior \<Rightarrow>
             if prior \<noteq> row\<lparr>ck_realm := ck_realm prior, ck_created_at := ck_created_at prior\<rparr>
             then Inl (ValueErr ''Checkpoint idempotency conflict.'') else Inr (d, prior)
         | None \<Rightarrow>
             rbind (reject_secrets d j (canonical_json (en_dump_checkpoint en c))) (\<lambda>_.
               Inr (update_attempt (at_id a) (\<lambda>r. r\<lparr>at_tree_hash := none_empty (cp_tree_hash c)\<rparr>)
                      (add_checkpoint row d), row))))"

end
