(* ===== verification/Agent_Inputs.thy ===== *)
theory Agent_Inputs
  imports Agent_Attempts
begin

text \<open>
  Steering a job in \<^verbatim>\<open>zerver/actions/agent_jobs.py\<close>: inputs are accepted (\<open>add_input\<close>), handed to
  the attempt (\<open>deliver_inputs\<close>) and, after a lost acknowledgement, reconciled by a supervisor's
  receipt (\<open>reconcile_input\<close>); a stopped job is queued again (\<open>resume_job\<close>, with the projections
  \<open>resume_eligibility\<close> and \<open>job_reason_code\<close>).
\<close>

section \<open>Accepting an input\<close>

definition input_digest :: "env \<Rightarrow> string \<Rightarrow> input_type \<Rightarrow> nat option \<Rightarrow> uid \<Rightarrow> string" where
  "input_digest en t ty src actor = digest (en_sha en) (JObj
     [(''text'', JStr t),
      (''type'', JStr (case ty of Steering \<Rightarrow> ''steering'' | Answer \<Rightarrow> ''answer'' | Replan \<Rightarrow> ''replan'')),
      (''source'', opt_json (\<lambda>n. JInt (int n)) src), (''actor'', JInt (int actor))])"

definition earlier_input :: "uuid \<Rightarrow> uuid \<Rightarrow> nat option \<Rightarrow> string \<Rightarrow> db \<Rightarrow> exn + input option" where
  "earlier_input jid key src h d =
     (case find (\<lambda>i. in_job i = jid \<and> in_client_key i = key) (db_inputs d) of
        Some i \<Rightarrow> if in_payload_digest i \<noteq> h then Inl (ValueErr ''Input idempotency conflict.'') else Inr (Some i)
      | None \<Rightarrow>
          (case src of
             None \<Rightarrow> Inr None
           | Some m \<Rightarrow> (case find (\<lambda>i. in_job i = jid \<and> in_source_message i = Some m) (db_inputs d) of
               Some i \<Rightarrow>
                 if in_payload_digest i \<noteq> h then Inl (ValueErr ''Input source idempotency conflict.'')
                 else Inr (Some i)
             | None \<Rightarrow> Inr None)))"

definition max_inputs :: int where "max_inputs = 100"

definition input_admissible :: "job \<Rightarrow> int \<Rightarrow> attempt option \<Rightarrow> exn + unit" where
  "input_admissible j expected att =
     (if jb_version j \<noteq> expected \<or> jb_status j \<in> set (CancelRequested # terminal_states)
      then Inl (ValueErr ''Job cannot accept input.'')
      else if jb_input_sequence j \<ge> max_inputs then Inl (ValueErr ''Job input limit exceeded.'')
      else if jb_status j \<noteq> Queued \<and> att = None
      then Inl (ValueErr ''Stopped execution cannot accept new input.'')
      else if (case att of None \<Rightarrow> False | Some a \<Rightarrow> at_process_state a \<in> {Stopping, ProcUnknown})
      then Inl (ValueErr ''Stopping execution cannot accept new input.'') else Inr ())"

definition input_source_ok :: "env \<Rightarrow> db \<Rightarrow> user \<Rightarrow> job \<Rightarrow> nat option \<Rightarrow> exn + unit" where
  "input_source_ok en d actor j src = (case src of
     None \<Rightarrow> Inr ()
   | Some m \<Rightarrow>
       rbind (require_reference_audience en d j m) (\<lambda>_.
       rbind (job_profile j d) (\<lambda>p.
         if en_access_message en (us_id actor) m = None \<or> en_access_message en (pr_bot_user p) m = None
         then Inl JsonableErr else Inr ())))"

definition reopening_states :: "job_state list" where
  "reopening_states = [Verifying, WaitingForInput, WaitingForApproval]"

definition take_input :: "job \<Rightarrow> job" where
  "take_input j = (let k = j\<lparr>jb_input_sequence := jb_input_sequence j + 1, jb_version := jb_version j + 1\<rparr>
     in if jb_status j \<in> set reopening_states then k\<lparr>jb_status := Running, jb_result_proposal := None\<rparr> else k)"

definition new_input ::
    "job \<Rightarrow> uuid \<Rightarrow> uid \<Rightarrow> nat option \<Rightarrow> uuid \<Rightarrow> string \<Rightarrow> int \<Rightarrow> input_type \<Rightarrow> string \<Rightarrow> input" where
  "new_input j i actor src key h n ty t = \<lparr>in_id = i, in_realm = jb_realm j, in_job = jb_id j,
     in_author = actor, in_source_message = src, in_client_key = key, in_payload_digest = h,
     in_sequence = n, in_input_type = ty, in_text = t, in_delivery_state = InPending,
     in_delivered_attempt = None, in_applied_at = None, in_receipts = []\<rparr>"

definition store_input ::
    "env \<Rightarrow> time \<Rightarrow> user \<Rightarrow> job \<Rightarrow> uuid \<Rightarrow> string \<Rightarrow> string \<Rightarrow> input_type \<Rightarrow> nat option \<Rightarrow> db \<Rightarrow> exn + db \<times> input" where
  "store_input en now actor j key h t ty src d0 =
     (let d1 = (if jb_status j \<in> set reopening_states
                then fold invalidate_approvals (map at_id (active_attempts (jb_id j) d0)) d0 else d0);
          d2 = update_job (jb_id j) take_input d1;
          (i, d3) = fresh d2;
          item = new_input j i (us_id actor) src key h (jb_input_sequence j + 1) ty t
      in rbind (audit_server en now (jb_id j) InputReceived (AInput i (in_sequence item) InPending) None
                  (Some (us_id actor)) (add_input_row item d3)) (\<lambda>d4. Inr (d4, item)))"

definition add_input ::
    "env \<Rightarrow> time \<Rightarrow> user \<Rightarrow> uuid \<Rightarrow> int \<Rightarrow> uuid \<Rightarrow> string \<Rightarrow> input_type \<Rightarrow> nat option \<Rightarrow> db \<Rightarrow> exn + db \<times> input" where
  "add_input en now actor jid expected key t ty src d =
     (if t = [] \<or> length t > 20000 then Inl (ValueErr ''Invalid input.'')
      else (let h = input_digest en t ty src (us_id actor) in
        rbind (realm_job actor jid d) (\<lambda>j.
        rbind (require_control en now d actor j) (\<lambda>_.
        rbind (earlier_input jid key src h d) (\<lambda>prior.
          case prior of
            Some i \<Rightarrow> Inr (d, i)
          | None \<Rightarrow>
              rbind (input_admissible j expected (first_active jid d)) (\<lambda>_.
              rbind (require_audience en d j) (\<lambda>_.
              rbind (check_agent_access en now d actor (jb_profile j) (jb_repository j) (job_source en j)
                       ProfileUse None) (\<lambda>_.
              rbind (input_source_ok en d actor j src) (\<lambda>_.
                store_input en now actor j key h t ty src d)))))))))"

section \<open>Delivery\<close>

definition open_inputs :: "uuid \<Rightarrow> db \<Rightarrow> input list" where
  "open_inputs jid d = take 100 (filter (\<lambda>i. in_delivery_state i \<in> set open_input_states) (job_inputs jid d))"

fun deliver_loop :: "env \<Rightarrow> uuid \<Rightarrow> input list \<Rightarrow> db \<Rightarrow> exn + db \<times> input list" where
  "deliver_loop en aid [] d = Inr (d, [])"
| "deliver_loop en aid (i # is) d =
     (if \<not> opt_all (\<lambda>a. a = aid) (in_delivered_attempt i)
      then Inl (ValueErr ''Earlier input delivery needs reconciliation.'')
      else (let k = (if in_delivery_state i = InPending
                     then i\<lparr>in_delivery_state := InDelivered, in_delivered_attempt := Some aid\<rparr> else i)
        in rbind (if in_delivery_state i = InPending then clean_input en d k else Inr ()) (\<lambda>_.
           rbind (deliver_loop en aid is
                    (update_input (in_id i) (\<lambda>r. r\<lparr>in_delivery_state := in_delivery_state k,
                       in_delivered_attempt := in_delivered_attempt k\<rparr>) d)) (\<lambda>(d', rest).
             Inr (d', k # rest)))))"

definition deliver_inputs ::
    "env \<Rightarrow> time \<Rightarrow> runner \<Rightarrow> uuid \<Rightarrow> uuid \<Rightarrow> int \<Rightarrow> db \<Rightarrow> exn + db \<times> input_record list" where
  "deliver_inputs en now ru jid aid epoch d =
     rbind (locked_attempt en now ru jid aid epoch None True d) (\<lambda>(j, a).
     rbind (deliver_loop en (at_id a) (open_inputs (jb_id j) d) d) (\<lambda>(d', items).
       Inr (d', map input_data items)))"

section \<open>Reconciling an uncertain delivery\<close>

definition superseded :: "uuid \<Rightarrow> attempt \<Rightarrow> db \<Rightarrow> bool" where
  "superseded jid a d = list_ex (\<lambda>b. at_job b = jid \<and> at_number a < at_number b) (db_attempts d)"

definition earlier_open_input :: "uuid \<Rightarrow> int \<Rightarrow> db \<Rightarrow> bool" where
  "earlier_open_input jid n d = list_ex (\<lambda>i. in_job i = jid \<and> in_sequence i < n \<and>
     in_delivery_state i \<in> set open_input_states) (db_inputs d)"

text \<open>
  What the recorded receipts of the input say about a new one: already recorded (\<open>True\<close>), new
  (\<open>False\<close>), or a conflict.  \<open>in_receipts\<close> is the history followed by the latest receipt.
\<close>

definition receipt_recorded :: "input_receipt list \<Rightarrow> input_receipt \<Rightarrow> exn + bool" where
  "receipt_recorded history r =
     (case find (\<lambda>x. irc_receipt_id x = irc_receipt_id r) history of
        Some x \<Rightarrow> if x \<noteq> r then Inl (ValueErr ''Input reconciliation conflict.'') else Inr True
      | None \<Rightarrow>
          if history = [] then Inr False
          else if list_ex (\<lambda>x. irc_attempt_id x = irc_attempt_id r) history
          then Inl (ValueErr ''Input reconciliation conflict.'')
          else if irc_outcome (last history) \<noteq> OutcomeNotApplied
          then Inl (ValueErr ''Input reconciliation conflict.'') else Inr False)"

definition settle_input :: "time \<Rightarrow> input_receipt \<Rightarrow> input \<Rightarrow> input" where
  "settle_input now r i = (let k = (case irc_outcome r of
       OutcomeApplied \<Rightarrow> i\<lparr>in_delivery_state := InApplied, in_applied_at := Some now\<rparr>
     | OutcomeNotApplied \<Rightarrow> i\<lparr>in_delivery_state := InPending, in_delivered_attempt := None\<rparr>)
     in k\<lparr>in_receipts := in_receipts i @ [r]\<rparr>)"

definition job_input :: "job \<Rightarrow> uuid \<Rightarrow> int \<Rightarrow> db \<Rightarrow> exn + input" where
  "job_input j iid n d = rbind (fetch ''input'' (get_input iid d)) (\<lambda>i.
     if in_job i \<noteq> jb_id j \<or> in_realm i \<noteq> jb_realm j \<or> in_sequence i \<noteq> n
     then Inl (DoesNotExist ''input'') else Inr i)"

definition reconcile_input ::
    "env \<Rightarrow> time \<Rightarrow> runner \<Rightarrow> uuid \<Rightarrow> uuid \<Rightarrow> int \<Rightarrow> uuid \<Rightarrow> int \<Rightarrow> input_outcome \<Rightarrow> uuid \<Rightarrow> db \<Rightarrow> exn + db \<times> input" where
  "reconcile_input en now ru jid aid epoch iid n outcome rid d =
     rbind (locked_attempt en now ru jid aid epoch None False d) (\<lambda>(j, a).
       if ru_revoked_at ru \<noteq> None \<or> superseded jid a d
       then Inl (ValueErr ''Input attempt is unavailable.'')
       else rbind (require_audience en d j) (\<lambda>_.
         rbind (fetch ''user'' (get_user en (jb_requester j))) (\<lambda>requester.
         rbind (check_agent_access en now d requester (jb_profile j) (jb_repository j) (job_source en j)
                  ProfileUse None) (\<lambda>_.
         rbind (job_input j iid n d) (\<lambda>i.
           (let r = \<lparr>irc_outcome = outcome, irc_receipt_id = rid, irc_attempt_id = at_id a,
                     irc_lease_epoch = epoch\<rparr>
            in rbind (receipt_recorded (in_receipts i) r) (\<lambda>recorded.
              if recorded then Inr (d, i)
              else if in_delivered_attempt i \<noteq> Some (at_id a) \<or> in_delivery_state i \<noteq> InUncertain
              then Inl (ValueErr ''Input is not uncertain for this attempt.'')
              else if outcome = OutcomeApplied \<and> earlier_open_input jid (in_sequence i) d
              then Inl (ValueErr ''Input reconciliation is out of order.'')
              else Inr (update_input (in_id i) (settle_input now r) d, settle_input now r i))))))))"

section \<open>Resuming a stopped job\<close>

text \<open>The tool class of server-side team operations does not hold a job back.\<close>

definition unresolved_operation :: "operation \<Rightarrow> bool" where
  "unresolved_operation x = (oper_status x \<in> {OpStarted, OutcomeUnk} \<and> oper_tool_class x \<noteq> TeamManage)"

definition job_unresolved :: "uuid \<Rightarrow> db \<Rightarrow> bool" where
  "job_unresolved jid d =
     list_ex (\<lambda>x. job_of_attempt (oper_attempt x) d = Some jid \<and> unresolved_operation x) (db_operations d)"

definition resumable_states :: "job_state list" where
  "resumable_states = [Cancelled, Failed, Interrupted, Blocked]"

definition resume_checkpoint_ok :: "job \<Rightarrow> uuid option \<Rightarrow> db \<Rightarrow> exn + unit" where
  "resume_checkpoint_ok j c d = (case c of
     None \<Rightarrow> Inr ()
   | Some i \<Rightarrow>
       rbind (fetch ''checkpoint'' (get_checkpoint i d)) (\<lambda>k.
         if job_of_attempt (ck_attempt k) d \<noteq> Some (jb_id j) \<or> ck_realm k \<noteq> jb_realm j
         then Inl (DoesNotExist ''checkpoint'')
         else rbind (job_conversation j d) (\<lambda>cv.
           if ck_audience_binding k \<noteq> cv_binding cv then Inl (ValueErr ''Checkpoint audience changed.'')
           else if length (available_artifacts (ck_attempt k) (ck_artifact_ids k) d) \<noteq>
                   length (remdups (ck_artifact_ids k))
           then Inl (ValueErr ''Checkpoint artifacts are unavailable.'')
           else if length (job_context_refs (jb_id j) (ck_context_refs k) d) \<noteq>
                   length (remdups (ck_context_refs k))
           then Inl (ValueErr ''Checkpoint context is unavailable.'') else Inr ())))"

definition start_window :: int where "start_window = 24 * 60 * 60"

definition requeue_job :: "time \<Rightarrow> job \<Rightarrow> uuid option \<Rightarrow> db \<Rightarrow> exn + db" where
  "requeue_job now j c d =
     (let d1 = update_job (jb_id j) (\<lambda>r. r\<lparr>jb_resume_checkpoint := c,
                 jb_start_deadline := Some (now + start_window), jb_result_proposal := None\<rparr>) d;
          d2 = transition (jb_id j) Queued [] d1
      in create_outbox now (WakeKey (jb_id j) (jb_version j + 1)) (jb_realm j) (Some (jb_id j)) JobWake None d2)"

definition resume_job ::
    "env \<Rightarrow> time \<Rightarrow> user \<Rightarrow> uuid \<Rightarrow> int \<Rightarrow> uuid option \<Rightarrow> db \<Rightarrow> exn + db" where
  "resume_job en now actor jid expected c d =
     rbind (realm_job actor jid d) (\<lambda>j.
     rbind (require_control en now d actor j) (\<lambda>_.
       if jb_version j \<noteq> expected \<or> jb_status j \<notin> set resumable_states
       then Inl (ValueErr ''Job cannot resume.'')
       else if active_attempts jid d \<noteq> [] then Inl (ValueErr ''Previous containment has not stopped.'')
       else if job_unresolved jid d then Inl (ValueErr ''Operation reconciliation is required.'')
       else if list_ex (\<lambda>i. in_job i = jid \<and> in_delivery_state i = InUncertain) (db_inputs d)
       then Inl (ValueErr ''Input reconciliation is required.'')
       else rbind (job_profile j d) (\<lambda>p.
         rbind (require_ready en now d p) (\<lambda>_.
         rbind (require_audience en d j) (\<lambda>_.
         rbind (check_agent_access en now d actor (jb_profile j) (jb_repository j) (job_source en j)
                  ProfileUse None) (\<lambda>_.
         rbind (resume_checkpoint_ok j c d) (\<lambda>_.
         rbind (fetch ''settings'' (realm_row (jb_realm j) d)) (\<lambda>st.
           if \<not> rs_enabled st then Inl (ValueErr ''Agents are disabled.'')
           else requeue_job now j c d))))))))"

definition resume_eligibility :: "time \<Rightarrow> job \<Rightarrow> runner \<Rightarrow> db \<Rightarrow> bool \<times> string option" where
  "resume_eligibility now j r d =
     (if active_attempts (jb_id j) d \<noteq> [] then (False, Some ''attempt_active'')
      else (case observed_runner_status now r of
          RRevoked \<Rightarrow> (False, Some ''runner_revoked'')
        | ROffline \<Rightarrow> (False, Some ''runner_offline'')
        | _ \<Rightarrow> (True, None)))"

definition latest_verification :: "uuid \<Rightarrow> string \<Rightarrow> string \<Rightarrow> db \<Rightarrow> verification option" where
  "latest_verification aid check tree d = max_row vf_finished_at
     (filter (\<lambda>v. vf_attempt v = aid \<and> vf_check_id v = check \<and> vf_tree_hash v = tree) (db_verifications d))"

definition verification_failing :: "verification option \<Rightarrow> bool" where
  "verification_failing v =
     (case v of None \<Rightarrow> True | Some x \<Rightarrow> vf_exit_code x \<noteq> Some 0 \<or> vf_timed_out x)"

definition attempt_end :: "attempt \<Rightarrow> time option" where
  "attempt_end a = (case at_stopped_at a of Some t \<Rightarrow> Some t | None \<Rightarrow> at_ended_at a)"

definition job_reason_code :: "job \<Rightarrow> db \<Rightarrow> string option" where
  "job_reason_code j d =
     (if jb_status j \<notin> {Blocked, Interrupted, Failed, Verifying} then None
      else if jb_blocked_reason j = [] then None
      else if jb_blocked_reason j = ''audience_changed'' then Some (jb_blocked_reason j)
      else (case latest_attempt (jb_id j) d of
          None \<Rightarrow> Some (jb_blocked_reason j)
        | Some a \<Rightarrow>
            if jb_blocked_reason j = ''publication_blocked'' \<and> jb_job_kind j = KCode then
              (if list_ex (\<lambda>c. verification_failing (latest_verification (at_id a) (chk_id c) (at_tree_hash a) d))
                    (case de_repository (at_descriptor a) of None \<Rightarrow> [] | Some w \<Rightarrow> rc_required_checks w)
               then Some ''verification_failed'' else Some (jb_blocked_reason j))
            else if (case attempt_end a of None \<Rightarrow> False | Some e \<Rightarrow>
                       active_seconds a \<noteq> 0 \<and> e - at_created_at a > active_seconds a)
            then Some ''budget_exhausted''
            else if jb_blocked_reason j = ''runtime_stopped'' \<and> at_started_at a = None
            then Some ''start_failed''
            else Some (jb_blocked_reason j)))"

end
