(* ===== verification/Agent_Credentials.thy ===== *)
theory Agent_Credentials
  imports Agent_Journal
begin

text \<open>
  Pairing a device and the credentials of a runner, \<open>start_pairing\<close> to \<open>revoke_runner\<close> and the
  authentication functions of \<^verbatim>\<open>zerver/actions/agents.py\<close>, with \<open>hash_agent_credential\<close> of
  \<^verbatim>\<open>zerver/lib/agent_secrets.py\<close>.  Several of these handlers commit and then raise, so that a
  wrong code is still counted; they return the committed database together with the outcome.
  The random tokens of \<open>secrets.token_urlsafe\<close> are arguments.
\<close>

section \<open>Hashes and lifetimes\<close>

definition hash_agent_credential :: "env \<Rightarrow> string \<Rightarrow> string" where
  "hash_agent_credential en v = en_sha en (utf8 v)"

definition credential_matches :: "env \<Rightarrow> string \<Rightarrow> string \<Rightarrow> bool" where
  "credential_matches en v h = (hash_agent_credential en v = h)"

definition pairing_max_failures :: nat where "pairing_max_failures = 5"
definition pairing_ttl :: int where "pairing_ttl = 10 * 60"
definition access_token_ttl :: int where "access_token_ttl = 24 * 60 * 60"
definition refresh_token_ttl :: int where "refresh_token_ttl = 30 * 24 * 60 * 60"

section \<open>Pairing\<close>

definition start_pairing ::
    "env \<Rightarrow> time \<Rightarrow> string \<Rightarrow> string \<Rightarrow> string \<Rightarrow> string \<Rightarrow> time option \<Rightarrow> db \<Rightarrow> exn + db \<times> uuid" where
  "start_pairing en now device fingerprint code secret expires d =
     (if \<not> len_in 1 200 device \<or> \<not> len_in 1 128 fingerprint \<or> \<not> len_in 4 64 code \<or>
         \<not> len_in 32 512 secret
      then Inl (ValueErr ''Invalid pairing request.'')
      else (let (i, d1) = fresh d;
                p = \<lparr>pa_id = i, pa_realm = None, pa_owner = None, pa_runner = None,
                     pa_device_name = device, pa_fingerprint = fingerprint,
                     pa_polling_secret_hash = hash_agent_credential en secret,
                     pa_user_code_hash = hash_agent_credential en code,
                     pa_expires_at = (case expires of None \<Rightarrow> now + pairing_ttl | Some t \<Rightarrow> t),
                     pa_approved_at = None, pa_exchanged_at = None, pa_failed_attempts = 0,
                     pa_state = PaPending\<rparr>
            in if list_ex (\<lambda>q. pa_polling_secret_hash q = pa_polling_secret_hash p \<or>
                              pa_user_code_hash q = pa_user_code_hash p) (db_pairings d)
               then Inl (IntegrityErr ''agent_pairing'')
               else Inr (add_pairing p d1, i)))"

definition count_failure :: "pairing \<Rightarrow> pairing" where
  "count_failure p = (let n = pa_failed_attempts p + 1 in
     p\<lparr>pa_failed_attempts := n,
       pa_state := (if n \<ge> pairing_max_failures then PaRejected else pa_state p)\<rparr>)"

text \<open>\<open>_check_pairing_code\<close>: the pairing after the check, and whether it is unavailable.\<close>

definition check_pairing_code :: "env \<Rightarrow> time \<Rightarrow> pairing \<Rightarrow> string \<Rightarrow> pairing \<times> bool" where
  "check_pairing_code en now p code =
     (if pa_state p \<noteq> PaPending \<or> pa_expires_at p \<le> now
      then (p\<lparr>pa_state := (if pa_expires_at p \<le> now then PaExpired else pa_state p)\<rparr>, True)
      else if \<not> credential_matches en code (pa_user_code_hash p) then (count_failure p, True)
      else (p, False))"

definition approved :: "time \<Rightarrow> user \<Rightarrow> pairing \<Rightarrow> pairing" where
  "approved now owner p = p\<lparr>pa_realm := Some (us_realm owner), pa_owner := Some (us_id owner),
     pa_approved_at := Some now, pa_state := PaApproved\<rparr>"

definition approve_pairing :: "env \<Rightarrow> time \<Rightarrow> user \<Rightarrow> uuid \<Rightarrow> string \<Rightarrow> db \<Rightarrow> db \<times> (exn + pairing)" where
  "approve_pairing en now owner i code d = (case get_pairing i d of
     None \<Rightarrow> (d, Inl (DoesNotExist ''pairing''))
   | Some p \<Rightarrow> (let (q, unavailable) = check_pairing_code en now p code in
       if unavailable then (put_pairing q d, Inl (ValueErr ''Pairing is unavailable.''))
       else (put_pairing (approved now owner q) d, Inr (approved now owner q))))"

definition preview_pairing :: "env \<Rightarrow> time \<Rightarrow> uuid \<Rightarrow> string \<Rightarrow> db \<Rightarrow> db \<times> (exn + pairing)" where
  "preview_pairing en now i code d = (case get_pairing i d of
     None \<Rightarrow> (d, Inl (DoesNotExist ''pairing''))
   | Some p \<Rightarrow> (let (q, unavailable) = check_pairing_code en now p code in
       if unavailable then (put_pairing q d, Inl (ValueErr ''Pairing is unavailable.''))
       else (d, Inr q)))"

text \<open>The catalog of a new runner is the empty dictionary, which no validation accepts.\<close>

definition empty_catalog :: runner_catalog where
  "empty_catalog = \<lparr>cat_revision = 0, cat_reported_at = None, cat_adapters = [], cat_sandboxes = []\<rparr>"

definition new_runner :: "uuid \<Rightarrow> nat \<Rightarrow> uid \<Rightarrow> pairing \<Rightarrow> runner" where
  "new_runner i realm owner p = \<lparr>ru_id = i, ru_realm = realm, ru_owner = owner,
     ru_name = pa_device_name p, ru_host_kind = UnknownHost, ru_metadata_revision = 1,
     ru_fingerprint = pa_fingerprint p, ru_status = RUnknown, ru_last_heartbeat_at = None,
     ru_revoked_at = None, ru_capacity = 1, ru_catalog_revision = 1,
     ru_catalog_report = empty_catalog\<rparr>"

definition new_credential ::
    "env \<Rightarrow> time \<Rightarrow> uuid \<Rightarrow> nat \<Rightarrow> uuid \<Rightarrow> string \<Rightarrow> string \<Rightarrow> uuid option \<Rightarrow> credential" where
  "new_credential en now i realm r token refresh parent = \<lparr>cd_id = i, cd_realm = realm, cd_runner = r,
     cd_token_hash = hash_agent_credential en token, cd_refresh_hash = hash_agent_credential en refresh,
     cd_expires_at = now + access_token_ttl, cd_refresh_expires_at = now + refresh_token_ttl,
     cd_revoked_at = None, cd_rotated_at = None, cd_parent = parent\<rparr>"

definition exchange_pairing ::
    "env \<Rightarrow> time \<Rightarrow> uuid \<Rightarrow> string \<Rightarrow> string \<Rightarrow> string \<Rightarrow> db \<Rightarrow> db \<times> (exn + string \<times> string)" where
  "exchange_pairing en now i secret token refresh d = (case get_pairing i d of
     None \<Rightarrow> (d, Inl (DoesNotExist ''pairing''))
   | Some p \<Rightarrow>
       (case pa_owner p of
          None \<Rightarrow> (d, Inl (ValueErr ''Pairing is unavailable.''))
        | Some owner \<Rightarrow>
            if pa_state p \<noteq> PaApproved \<or> pa_expires_at p \<le> now
            then (d, Inl (ValueErr ''Pairing is unavailable.''))
            else if \<not> credential_matches en secret (pa_polling_secret_hash p)
            then (put_pairing (count_failure p) d, Inl (ValueErr ''Pairing is unavailable.''))
            else (case get_user en owner of
                None \<Rightarrow> (d, Inl (DoesNotExist ''owner''))
              | Some u \<Rightarrow>
                  (let (rid, d1) = fresh d; (cid, d2) = fresh d1;
                       d3 = add_runner (new_runner rid (us_realm u) owner p) d2;
                       d4 = add_credential
                              (new_credential en now cid (us_realm u) rid token refresh None) d3
                   in (put_pairing (p\<lparr>pa_runner := Some rid, pa_exchanged_at := Some now,
                                      pa_state := PaExchanged\<rparr>) d4, Inr (token, refresh))))))"

section \<open>Credentials\<close>

definition rotate_runner_credential ::
    "env \<Rightarrow> time \<Rightarrow> uuid \<Rightarrow> string \<Rightarrow> string \<Rightarrow> string \<Rightarrow> db \<Rightarrow> exn + db \<times> credential" where
  "rotate_runner_credential en now cid presented token refresh d =
     rbind (fetch ''credential'' (get_credential cid d)) (\<lambda>c.
     rbind (fetch ''runner'' (get_runner (cd_runner c) d)) (\<lambda>r.
       if cd_revoked_at c \<noteq> None \<or> ru_revoked_at r \<noteq> None \<or> cd_refresh_expires_at c \<le> now \<or>
          \<not> credential_matches en presented (cd_refresh_hash c)
       then Inl (ValueErr ''Runner credential is unavailable.'')
       else (let (i, d1) = fresh d;
                 n = new_credential en now i (cd_realm c) (cd_runner c) token refresh (Some cid);
                 d2 = add_credential n d1
             in Inr (put_credential (c\<lparr>cd_revoked_at := Some now, cd_rotated_at := Some now\<rparr>) d2, n))))"

definition revoke_runner :: "time \<Rightarrow> uuid \<Rightarrow> db \<Rightarrow> exn + db" where
  "revoke_runner now rid d =
     rbind (fetch ''runner'' (get_runner rid d)) (\<lambda>r.
       if ru_revoked_at r \<noteq> None then Inr d
       else (let stopping = map at_job (filter (\<lambda>a. at_runner a = rid \<and> at_active a) (db_attempts d));
                 d1 = put_runner (r\<lparr>ru_revoked_at := Some now, ru_status := RRevoked\<rparr>) d
             in Inr (d1\<lparr>
               db_credentials := tbl_where (\<lambda>c. cd_runner c = rid \<and> cd_revoked_at c = None)
                 (\<lambda>c. c\<lparr>cd_revoked_at := Some now\<rparr>) (db_credentials d1),
               db_attempts := tbl_where (\<lambda>a. at_runner a = rid \<and> at_active a)
                 (\<lambda>a. a\<lparr>at_process_state := Stopping\<rparr>) (db_attempts d1),
               db_jobs := tbl_where (\<lambda>j. jb_id j \<in> set stopping)
                 (\<lambda>j. j\<lparr>jb_status := CancelRequested, jb_version := jb_version j + 1\<rparr>) (db_jobs d1)\<rparr>)))"

definition update_runner_metadata ::
    "env \<Rightarrow> time \<Rightarrow> user \<Rightarrow> uuid \<Rightarrow> int \<Rightarrow> string \<Rightarrow> host_kind \<Rightarrow> db \<Rightarrow> exn + db" where
  "update_runner_metadata en now owner rid expected nm host d =
     rbind (fetch ''runner'' (get_runner rid d)) (\<lambda>r.
     rbind (require_agent_resource_access en now d owner (ResRunner r) RunnerUse) (\<lambda>_.
       if ru_owner r \<noteq> us_id owner \<or> ru_metadata_revision r \<noteq> expected
       then Inl (ValueErr ''Runner metadata is stale.'')
       else Inr (put_runner (r\<lparr>ru_name := nm, ru_host_kind := host,
              ru_metadata_revision := ru_metadata_revision r + 1\<rparr>) d)))"

definition authenticate_runner ::
    "env \<Rightarrow> time \<Rightarrow> (credential \<Rightarrow> string) \<Rightarrow> (credential \<Rightarrow> time) \<Rightarrow> string \<Rightarrow> db \<Rightarrow> exn + credential \<times> runner" where
  "authenticate_runner en now field expiry v d =
     (case find (\<lambda>c. field c = hash_agent_credential en v) (db_credentials d) of
        None \<Rightarrow> Inl (CredentialErr ''credential_invalid'')
      | Some c \<Rightarrow>
          if \<not> credential_matches en v (field c) then Inl (CredentialErr ''credential_invalid'')
          else rbind (fetch ''runner'' (get_runner (cd_runner c) d)) (\<lambda>r.
            if cd_revoked_at c \<noteq> None \<or> ru_revoked_at r \<noteq> None
            then Inl (CredentialErr ''credential_revoked'')
            else if expiry c \<le> now then Inl (CredentialErr ''credential_expired'')
            else Inr (c, r)))"

definition authenticate_runner_token :: "env \<Rightarrow> time \<Rightarrow> string \<Rightarrow> db \<Rightarrow> exn + credential \<times> runner" where
  "authenticate_runner_token en now v d = authenticate_runner en now cd_token_hash cd_expires_at v d"

definition authenticate_runner_refresh :: "env \<Rightarrow> time \<Rightarrow> string \<Rightarrow> db \<Rightarrow> exn + credential \<times> runner" where
  "authenticate_runner_refresh en now v d =
     authenticate_runner en now cd_refresh_hash cd_refresh_expires_at v d"

text \<open>A token of a revoked runner authorizes stop evidence of one attempt, and nothing else.\<close>

definition stop_credential_ok :: "env \<Rightarrow> time \<Rightarrow> string \<Rightarrow> credential \<Rightarrow> runner \<Rightarrow> bool" where
  "stop_credential_ok en now token c r =
     (ru_revoked_at r \<noteq> None \<and> cd_rotated_at c = None \<and> cd_revoked_at c = ru_revoked_at r \<and>
      now < cd_expires_at c \<and> credential_matches en token (cd_token_hash c))"

definition stop_credential :: "env \<Rightarrow> time \<Rightarrow> string \<Rightarrow> db \<Rightarrow> exn + credential \<times> runner" where
  "stop_credential en now token d =
     rbind (fetch ''credential''
              (find (\<lambda>c. cd_token_hash c = hash_agent_credential en token) (db_credentials d))) (\<lambda>c.
     rbind (fetch ''runner'' (get_runner (cd_runner c) d)) (\<lambda>r.
       if \<not> stop_credential_ok en now token c r
       then Inl (ValueErr ''Stop credential is unavailable.'') else Inr (c, r)))"

definition authenticate_runner_stop_token ::
    "env \<Rightarrow> time \<Rightarrow> string \<Rightarrow> uuid \<Rightarrow> uuid \<Rightarrow> int \<Rightarrow> int \<Rightarrow> db \<Rightarrow> exn + attempt" where
  "authenticate_runner_stop_token en now token jid aid epoch version d =
     (case stop_credential en now token d of
        Inl _ \<Rightarrow> Inl (ValueErr ''Stop credential is unavailable.'')
      | Inr (c, r) \<Rightarrow>
          (case (get_attempt aid d, get_job jid d) of
             (Some a, Some j) \<Rightarrow>
               if at_job a = jid \<and> at_runner a = ru_id r \<and> at_realm a = cd_realm c \<and>
                  jb_realm j = cd_realm c \<and> at_lease_epoch a = epoch \<and> jb_version j = version \<and>
                  at_active a \<and> at_process_state a = Stopping
               then Inr a else Inl (ValueErr ''Stop attempt is unavailable.'')
           | _ \<Rightarrow> Inl (ValueErr ''Stop attempt is unavailable.'')))"

section \<open>Failed codes\<close>

lemma count_failure_simps [simp]:
  "pa_id (count_failure p) = pa_id p" "pa_failed_attempts (count_failure p) = pa_failed_attempts p + 1"
  "pa_user_code_hash (count_failure p) = pa_user_code_hash p"
  "pa_expires_at (count_failure p) = pa_expires_at p"
  by (simp_all add: count_failure_def Let_def)

lemma check_pairing_id [simp]: "pa_id (fst (check_pairing_code en now p code)) = pa_id p"
  by (simp add: check_pairing_code_def)

text \<open>A pairing is spent when no code can approve it any more.\<close>

definition spent :: "pairing \<Rightarrow> bool" where
  "spent p = (pa_state p \<notin> {PaPending, PaApproved})"

text \<open>
  The invariant of the failure counter: a pairing still open has fewer than five failures, so the
  fifth wrong code closes it for good.
\<close>

definition failures_bounded :: "pairing \<Rightarrow> bool" where
  "failures_bounded p = (spent p \<or> pa_failed_attempts p < pairing_max_failures)"

lemma failures_bounded_check:
  "failures_bounded p \<Longrightarrow> failures_bounded (fst (check_pairing_code en now p code))"
  by (auto simp: check_pairing_code_def failures_bounded_def spent_def count_failure_def Let_def)

fun try_codes :: "env \<Rightarrow> (time \<times> string) list \<Rightarrow> uuid \<Rightarrow> db \<Rightarrow> db" where
  "try_codes en [] i d = d"
| "try_codes en ((t, c) # cs) i d = try_codes en cs i (fst (preview_pairing en t i c d))"

lemma preview_wrong:
  assumes "get_pairing i d = Some p" "pa_state p = PaPending \<or> spent p"
    and "\<not> credential_matches en c (pa_user_code_hash p)" "failures_bounded p"
  shows "\<exists>q. get_pairing i (fst (preview_pairing en t i c d)) = Some q \<and> failures_bounded q \<and>
    (pa_state q = PaPending \<or> spent q) \<and> pa_user_code_hash q = pa_user_code_hash p \<and>
    (spent q \<or> (\<not> spent p \<and> pa_failed_attempts q = pa_failed_attempts p + 1))"
proof -
  let ?q = "fst (check_pairing_code en t p c)"
  have "snd (check_pairing_code en t p c)"
    using assms(3) by (simp add: check_pairing_code_def)
  then have "fst (preview_pairing en t i c d) = put_pairing ?q d"
    using assms(1) by (cases "check_pairing_code en t p c") (simp add: preview_pairing_def)
  moreover have "pa_id p = i"
    using assms(1) by (rule pairings.get_key)
  ultimately have "get_pairing i (fst (preview_pairing en t i c d)) = Some ?q"
    using assms(1) by (simp add: pairings.get_put_same)
  moreover have "pa_state ?q = PaPending \<or> spent ?q" "pa_user_code_hash ?q = pa_user_code_hash p"
    "spent ?q \<or> (\<not> spent p \<and> pa_failed_attempts ?q = pa_failed_attempts p + 1)"
    using assms(2,3) by (auto simp: check_pairing_code_def spent_def count_failure_def Let_def)
  ultimately show ?thesis
    using failures_bounded_check [OF assms(4)] by blast
qed

lemma preview_spent:
  assumes "get_pairing i d = Some p" "spent p"
  shows "\<exists>q. get_pairing i (fst (preview_pairing en t i c d)) = Some q \<and> spent q"
proof -
  have i: "pa_id p = i" using assms(1) by (rule pairings.get_key)
  let ?q = "fst (check_pairing_code en t p c)"
  have "check_pairing_code en t p c = (?q, True)" "spent ?q"
    using assms(2) by (auto simp: check_pairing_code_def spent_def)
  then have "fst (preview_pairing en t i c d) = put_pairing ?q d"
    using assms(1) by (auto simp: preview_pairing_def split: prod.splits)
  moreover have "get_pairing i (put_pairing ?q d) = Some ?q"
    using i by (intro pairings.get_put_same [OF assms(1)]) simp
  ultimately show ?thesis
    using \<open>spent ?q\<close> by auto
qed

lemma try_codes_spent:
  "get_pairing i d = Some p \<Longrightarrow> spent p \<Longrightarrow> \<exists>q. get_pairing i (try_codes en cs i d) = Some q \<and> spent q"
proof (induction cs arbitrary: d p)
  case (Cons tc cs)
  obtain t c where tc: "tc = (t, c)" by fastforce
  from preview_spent [OF Cons.prems] obtain q where
    "get_pairing i (fst (preview_pairing en t i c d)) = Some q" "spent q" by blast
  with Cons.IH tc show ?case by simp
qed auto

lemma wrong_codes_spend:
  assumes "get_pairing i d = Some p" "pa_state p = PaPending \<or> spent p" "failures_bounded p"
    and "\<forall>(t, c)\<in>set cs. \<not> credential_matches en c (pa_user_code_hash p)"
    and "pairing_max_failures \<le> pa_failed_attempts p + length cs"
  shows "\<exists>q. get_pairing i (try_codes en cs i d) = Some q \<and> spent q"
  using assms
proof (induction cs arbitrary: d p)
  case Nil
  then show ?case by (auto simp: failures_bounded_def)
next
  case (Cons tc cs)
  obtain t c where tc: "tc = (t, c)" by fastforce
  from preview_wrong [of i d p en c t] Cons.prems tc obtain q where
    q: "get_pairing i (fst (preview_pairing en t i c d)) = Some q" "failures_bounded q"
       "pa_state q = PaPending \<or> spent q" "pa_user_code_hash q = pa_user_code_hash p"
       "spent q \<or> (\<not> spent p \<and> pa_failed_attempts q = pa_failed_attempts p + 1)" by auto
  show ?case
  proof (cases "spent q")
    case False
    with q Cons.prems Cons.IH [OF q(1) q(3) q(2)] tc show ?thesis by auto
  qed (use try_codes_spent [OF q(1)] tc in simp)
qed

lemma spent_not_approved:
  assumes "get_pairing i d = Some p" "spent p"
  shows "\<exists>e. snd (approve_pairing en now owner i code d) = Inl e"
  using assms by (auto simp: approve_pairing_def check_pairing_code_def spent_def)

lemma spent_not_exchanged:
  "get_pairing i d = Some p \<Longrightarrow> spent p \<Longrightarrow>
   \<exists>e. exchange_pairing en now i secret token refresh d = (d, Inl e)"
  by (auto simp: exchange_pairing_def spent_def split: option.splits)

section \<open>Revoked credentials\<close>

lemma authenticate_runnerD:
  "authenticate_runner en now field expiry v d = Inr (c, r) \<Longrightarrow>
   c \<in> set (db_credentials d) \<and> field c = hash_agent_credential en v \<and> cd_revoked_at c = None \<and>
   get_runner (cd_runner c) d = Some r \<and> ru_revoked_at r = None \<and> now < expiry c"
  by (auto simp: authenticate_runner_def find_Some_iff split: option.splits if_splits)

lemma revoke_runner_runner:
  assumes "revoke_runner now rid d = Inr d'" "get_runner rid d' = Some r"
  shows "ru_revoked_at r \<noteq> None"
proof -
  obtain r0 where r0: "get_runner rid d = Some r0" "ru_id r0 = rid"
    using assms(1) by (auto simp: revoke_runner_def dest: runners.get_key)
  show ?thesis
  proof (cases "ru_revoked_at r0")
    case None
    let ?r1 = "r0\<lparr>ru_revoked_at := Some now, ru_status := RRevoked\<rparr>"
    from assms(1) r0 None have "db_runners d' = db_runners (put_runner ?r1 d)"
      by (auto simp: revoke_runner_def Let_def)
    then have "get_runner rid d' = get_runner rid (put_runner ?r1 d)"
      by (simp add: runners.get_rows)
    with assms(2) runners.get_put_same [OF r0(1), of ?r1] r0(2) show ?thesis by auto
  qed (use assms r0 in \<open>auto simp: revoke_runner_def\<close>)
qed

end
