(* ===== verification/Agent_Events.thy ===== *)
theory Agent_Events
  imports Agent_Inputs Agent_Credentials
begin

text \<open>
  The events a runner reports, \<open>record_event\<close> and \<open>stop_evidence\<close> of
  \<^verbatim>\<open>zerver/actions/agent_jobs.py\<close>.  An event is accepted once: a repeated one returns its first
  receipt, a changed one is refused.  One definition per payload branch, in the order of the
  code; \<open>record_event\<close> composes the checks, the branch and the journal entry.
\<close>

section \<open>Work that an ended lease leaves open\<close>

definition abandon_operations :: "uuid \<Rightarrow> db \<Rightarrow> db" where
  "abandon_operations aid d = d\<lparr>db_operations :=
     tbl_where (\<lambda>x. oper_attempt x = aid \<and> oper_status x = OpStarted)
       (\<lambda>x. x\<lparr>oper_status := OutcomeUnk\<rparr>) (db_operations d)\<rparr>"

definition abandon_inputs :: "uuid \<Rightarrow> db \<Rightarrow> db" where
  "abandon_inputs aid d = d\<lparr>db_inputs :=
     tbl_where (\<lambda>i. in_delivered_attempt i = Some aid \<and> in_delivery_state i = InDelivered)
       (\<lambda>i. i\<lparr>in_delivery_state := InUncertain\<rparr>) (db_inputs d)\<rparr>"

definition abandon_work :: "uuid \<Rightarrow> db \<Rightarrow> db" where
  "abandon_work aid d = abandon_inputs aid (abandon_operations aid (invalidate_approvals aid d))"

section \<open>Workspace and process events\<close>

definition apply_workspace :: "time \<Rightarrow> job \<Rightarrow> attempt \<Rightarrow> workspace_payload \<Rightarrow> db \<Rightarrow> exn + db" where
  "apply_workspace now j a w d =
     (if at_workspace_prepared_at a \<noteq> None \<or> at_process_state a \<noteq> Starting \<or>
         jb_repository j \<noteq> Some (wp_repository_id w) \<or> wp_base_ref w \<noteq> jb_base_ref j
      then Inl (ValueErr ''Workspace preparation is invalid.'')
      else rbind (fetch_opt ''checkpoint'' get_checkpoint (at_source_checkpoint a) d) (\<lambda>ck.
        if (case ck of None \<Rightarrow> False
            | Some k \<Rightarrow> wp_base_commit w \<noteq> ck_base_commit k \<or> wp_tree_hash w \<noteq> ck_tree_hash k)
        then Inl (ValueErr ''Prepared workspace does not match the resume checkpoint.'')
        else Inr (update_attempt (at_id a) (\<lambda>r. r\<lparr>at_base_commit := wp_base_commit w,
               at_tree_hash := wp_tree_hash w, at_workspace_reference := wp_workspace_reference w,
               at_workspace_prepared_at := Some now\<rparr>) d)))"

definition end_attempt :: "time \<Rightarrow> runner_event \<Rightarrow> attempt \<Rightarrow> attempt" where
  "end_attempt now ev r = r\<lparr>at_process_state := Stopped, at_stopped_at := Some now,
     at_ended_at := Some now, at_active := False, at_stop_receipt := Some ev\<rparr>"

text \<open>Where a job goes when its attempt has stopped.\<close>

definition settle_stopped_job :: "runner \<Rightarrow> job \<Rightarrow> attempt \<Rightarrow> db \<Rightarrow> db" where
  "settle_stopped_job ru j a d =
     (if jb_status j = CancelRequested \<or> ru_revoked_at ru \<noteq> None \<or> get_outbox (StopKey (at_id a)) d \<noteq> None
      then transition (jb_id j) (jb_stop_target j) (jb_blocked_reason j) d
      else if jb_status j \<notin> set terminal_states \<and> jb_status j \<noteq> Verifying
      then transition (jb_id j) Interrupted
             (if at_started_at a = None then ''start_failed'' else ''runtime_stopped'') d
      else d)"

definition apply_process ::
    "time \<Rightarrow> runner \<Rightarrow> job \<Rightarrow> attempt \<Rightarrow> runner_event \<Rightarrow> process_payload \<Rightarrow> db \<Rightarrow> exn + db" where
  "apply_process now ru j a ev p d = (case ev_type ev of
     AttemptStarting \<Rightarrow>
       if at_process_state a \<noteq> Starting then Inl (ValueErr ''Attempt already started.'') else Inr d
   | AttemptStarted \<Rightarrow>
       if at_process_state a \<noteq> Starting \<or> (jb_repository j \<noteq> None \<and> at_workspace_prepared_at a = None)
       then Inl (ValueErr ''Workspace must be prepared before runtime start.'')
       else Inr (update_attempt (at_id a) (\<lambda>r. r\<lparr>at_process_state := Active, at_started_at := Some now,
              at_session_reference := none_empty (pp_adapter_session_ref p)\<rparr>) d)
   | AttemptInterrupted \<Rightarrow>
       Inr (transition (jb_id j) Interrupted ''stop_unconfirmed''
              (abandon_work (at_id a) (update_attempt (at_id a) (\<lambda>r. r\<lparr>at_process_state := ProcUnknown\<rparr>) d)))
   | AttemptStopped \<Rightarrow>
       if \<not> pp_stop_confirmed p then Inl (ValueErr ''Empty containment evidence is required.'')
       else Inr (settle_stopped_job ru j a
              (abandon_work (at_id a) (update_attempt (at_id a) (end_attempt now ev) d)))
   | _ \<Rightarrow> Inr d)"

section \<open>Input and tool events\<close>

definition applied_input :: "job \<Rightarrow> attempt \<Rightarrow> input \<Rightarrow> db \<Rightarrow> db" where
  "applied_input j a i d =
     (let d1 = update_attempt (at_id a) (\<lambda>r. r\<lparr>at_input_cursor := in_sequence i\<rparr>) d in
      if jb_result_proposal j = None then d1
      else (let d2 = update_job (jb_id j) (\<lambda>r. r\<lparr>jb_result_proposal := None\<rparr>) d1
            in if jb_status j = Verifying then transition (jb_id j) Running [] d2 else d2))"

definition apply_input :: "time \<Rightarrow> job \<Rightarrow> attempt \<Rightarrow> input_payload \<Rightarrow> db \<Rightarrow> exn + db" where
  "apply_input now j a p d =
     rbind (job_input j (ip_input_id p) (ip_input_sequence p) d) (\<lambda>i.
       if in_delivered_attempt i \<noteq> Some (at_id a) \<or> in_delivery_state i \<notin> {InDelivered, InUncertain}
       then Inl (ValueErr ''Input was not delivered to this attempt.'')
       else if ip_delivery_state p = InApplied \<and> earlier_open_input (jb_id j) (in_sequence i) d
       then Inl (ValueErr ''Input acknowledgement is out of order.'')
       else Inr (update_input (in_id i)
              (\<lambda>r. r\<lparr>in_delivery_state := ip_delivery_state p,
                     in_applied_at := (if ip_delivery_state p = InApplied then Some now else in_applied_at r)\<rparr>)
              (if ip_delivery_state p = InApplied then applied_input j a i d else d)))"

definition mutating_tools :: "action list" where
  "mutating_tools = [RepositoryEdit, ShellRun, DependenciesInstall]"

definition remote_tools :: "action list" where
  "remote_tools = [GitPush, GitDraftPr]"

definition finish_tool :: "time \<Rightarrow> job \<Rightarrow> attempt \<Rightarrow> operation \<Rightarrow> operation_state \<Rightarrow> db \<Rightarrow> db" where
  "finish_tool now j a x st d =
     (let d1 = update_operation (oper_id x) (\<lambda>r. r\<lparr>oper_status := st, oper_finished_at := Some now\<rparr>) d in
      if oper_tool_class x \<in> set mutating_tools
      then update_job (jb_id j) (\<lambda>r. r\<lparr>jb_result_proposal := None\<rparr>)
             (update_attempt (at_id a) (\<lambda>r. r\<lparr>at_tree_hash := []\<rparr>) d1)
      else d1)"

definition apply_tool :: "time \<Rightarrow> job \<Rightarrow> attempt \<Rightarrow> runner_event_type \<Rightarrow> tool_payload \<Rightarrow> db \<Rightarrow> exn + db" where
  "apply_tool now j a ty p d =
     rbind (fetch ''operation'' (find (\<lambda>x. oper_attempt x = at_id a \<and>
              oper_operation_id x = tp_operation_id p \<and> oper_argument_digest x = tp_argument_digest p \<and>
              oper_tool_class x = tp_tool_class p) (db_operations d))) (\<lambda>x.
       if oper_status x \<noteq> OpStarted
       then Inl (ValueErr ''Tool requires durable execution authorization.'')
       else if ty \<noteq> ToolFinished then Inr d
       else if tp_status p = OpSucceeded \<and> oper_tool_class x \<in> set remote_tools
       then Inl (ValueErr ''Remote success requires a matching receipt.'')
       else Inr (finish_tool now j a x (tp_status p) d))"

section \<open>Verification events\<close>

text \<open>
  The authority of a check: a started \<open>checks.run\<close> operation of this attempt that names the check
  and the tree, the approved command, and plausible times.
\<close>

definition verification_operation :: "attempt \<Rightarrow> verification_record \<Rightarrow> db \<Rightarrow> operation option" where
  "verification_operation a v d = find (\<lambda>x. oper_attempt x = at_id a \<and>
     oper_operation_id x = vr_operation_id v \<and> oper_tool_class x = ChecksRun \<and>
     oper_status x \<in> {OpStarted, OpSucceeded, OpFailed}) (db_operations d)"

definition check_authority :: "attempt \<Rightarrow> verification_record \<Rightarrow> operation \<Rightarrow> checks_args \<Rightarrow> bool" where
  "check_authority a v x args =
     (vr_check_id v \<in> set (ca_check_ids args) \<and> vr_tree_hash v = ca_tree_hash args \<and>
      (case oper_started_at x of None \<Rightarrow> False | Some t \<Rightarrow> t \<le> vr_started_at v) \<and>
      vr_tree_hash v = at_tree_hash a)"

definition approved_check :: "attempt \<Rightarrow> verification_record \<Rightarrow> bool" where
  "approved_check a v = (case de_repository (at_descriptor a) of
     None \<Rightarrow> False
   | Some w \<Rightarrow> (case find (\<lambda>c. chk_id c = vr_check_id v) (rc_required_checks w) of
       None \<Rightarrow> False
     | Some c \<Rightarrow> chk_argv c = vr_command v \<and> chk_cwd c = vr_cwd v))"

definition verification_row :: "job \<Rightarrow> attempt \<Rightarrow> operation \<Rightarrow> verification_record \<Rightarrow> verification" where
  "verification_row j a x v = \<lparr>vf_realm = jb_realm j, vf_attempt = at_id a, vf_operation = Some (oper_id x),
     vf_check_id = vr_check_id v, vf_command = vr_command v, vf_cwd = vr_cwd v,
     vf_exit_code = vr_exit_code v, vf_started_at = vr_started_at v, vf_finished_at = vr_finished_at v,
     vf_tree_hash = vr_tree_hash v, vf_output_artifact = vr_artifact_id v,
     vf_timed_out = vr_timed_out v\<rparr>"

definition apply_verification ::
    "time \<Rightarrow> job \<Rightarrow> attempt \<Rightarrow> verification_record \<Rightarrow> db \<Rightarrow> exn + db" where
  "apply_verification now j a v d =
     rbind (fetch ''operation'' (verification_operation a v d)) (\<lambda>x.
       (case oper_arguments x of
          OChecks args \<Rightarrow>
            if \<not> valid_operation_args (OChecks args) then Inl ProtocolInvalid
            else if \<not> check_authority a v x args
            then Inl (ValueErr ''Check lacks matching durable execution authority.'')
            else if at_workspace_prepared_at a = None \<or> at_process_state a \<noteq> Active
            then Inl (ValueErr ''Workspace is unavailable.'')
            else if \<not> opt_all valid_repository_config (de_repository (at_descriptor a)) \<or>
                    de_repository (at_descriptor a) = None then Inl ProtocolInvalid
            else if \<not> approved_check a v then Inl (ValueErr ''Check differs from the approved check.'')
            else if vr_started_at v < at_created_at a \<or> now + 5 < vr_finished_at v
            then Inl (ValueErr ''Check timing is invalid.'')
            else rbind (fetch ''artifact'' (find (\<lambda>f. af_id f = vr_artifact_id v \<and>
                     af_attempt f = at_id a \<and> af_realm f = jb_realm j \<and> af_kind f = ArtVerification \<and>
                     af_unavailable_at f = None) (db_artifacts d))) (\<lambda>_.
                   Inr (d\<lparr>db_verifications := db_verifications d @ [verification_row j a x v]\<rparr>))
        | _ \<Rightarrow> Inl ProtocolInvalid))"

section \<open>Questions and results\<close>

definition apply_input_request :: "job \<Rightarrow> runner_event \<Rightarrow> db \<Rightarrow> db" where
  "apply_input_request j ev d =
     notify_conversation (jb_id j) (InputNotice (ev_event_id ev)) ''This task needs your answer.'' True
       (transition (jb_id j) WaitingForInput [] d)"

text \<open>\<open>update_or_create\<close>: an older row of the job is reset, every retry field included.\<close>

definition stage_publication :: "time \<Rightarrow> job \<Rightarrow> uuid \<Rightarrow> db \<Rightarrow> db" where
  "stage_publication now j aid d = (case get_outbox (ResultKey (jb_id j)) d of
     Some x \<Rightarrow> put_outbox (x\<lparr>ob_realm := jb_realm j, ob_job := Some (jb_id j), ob_event_type := ResultPublish,
                 ob_payload_ref := Some aid, ob_status := ObPending, ob_attempt_count := 0,
                 ob_next_attempt_at := now\<rparr>) d
   | None \<Rightarrow> add_outbox \<lparr>ob_key = ResultKey (jb_id j), ob_realm = jb_realm j, ob_job = Some (jb_id j),
                 ob_event_type = ResultPublish, ob_payload_ref = Some aid, ob_attempt_count = 0,
                 ob_next_attempt_at = now, ob_status = ObPending, ob_delivered_at = None\<rparr> d)"

definition attempt_unresolved :: "uuid \<Rightarrow> db \<Rightarrow> bool" where
  "attempt_unresolved aid d =
     list_ex (\<lambda>x. oper_attempt x = aid \<and> unresolved_operation x) (db_operations d)"

definition accept_result :: "time \<Rightarrow> job \<Rightarrow> attempt \<Rightarrow> result_payload \<Rightarrow> db \<Rightarrow> db" where
  "accept_result now j a p d =
     stage_publication now j (at_id a)
       (transition (jb_id j) Verifying []
         (update_job (jb_id j) (\<lambda>r. r\<lparr>jb_result_proposal := Some p, jb_phase := Review\<rparr>)
           (update_attempt (at_id a) (\<lambda>r. r\<lparr>at_tree_hash := none_empty (rp_tree_hash p)\<rparr>) d)))"

definition apply_result :: "time \<Rightarrow> job \<Rightarrow> attempt \<Rightarrow> result_payload \<Rightarrow> db \<Rightarrow> exn + db" where
  "apply_result now j a p d =
     (if at_process_state a \<noteq> Active then Inl (ValueErr ''Result is incomplete.'')
      else if list_all is_space (rp_summary p)
      then Inr (transition (jb_id j) Interrupted ''result_invalid'' d)
      else if length (filter (\<lambda>f. af_realm f = jb_realm j)
                  (available_artifacts (at_id a) (rp_artifact_ids p) d)) \<noteq>
              length (remdups (rp_artifact_ids p))
      then Inl (ValueErr ''Result artifacts are unavailable.'')
      else if attempt_unresolved (at_id a) d
      then Inl (ValueErr ''Operation outcomes are unresolved.'')
      else if jb_job_kind j = KCode \<and>
              (rp_tree_hash p = None \<or> rp_tree_hash p = Some [] \<or> at_workspace_prepared_at a = None)
      then Inl (ValueErr ''Final workspace evidence is required.'')
      else Inr (accept_result now j a p d))"

section \<open>Recording an event\<close>

record event_receipt =
  er_event_sequence :: int
  er_job_version :: int
  er_status :: job_state

definition prior_event :: "uuid \<Rightarrow> uuid \<Rightarrow> db \<Rightarrow> audit_event option" where
  "prior_event aid eid d = find (\<lambda>r. au_attempt r = Some aid \<and> au_event_id r = eid) (db_audit d)"

definition repeats_event :: "audit_event \<Rightarrow> runner_event \<Rightarrow> bool" where
  "repeats_event r ev =
     (au_type r = RunnerEv (ev_type ev) \<and> au_attempt_sequence r = Some (ev_sequence ev) \<and>
      au_payload r = RunnerPl (ev_payload ev) \<and> au_occurred_at r = ev_occurred_at ev)"

definition is_cleanup :: "runner_event \<Rightarrow> bool" where
  "is_cleanup ev = (ev_type ev \<in> {AttemptStopped, AttemptInterrupted})"

definition carries_text :: "runner_event \<Rightarrow> bool" where
  "carries_text ev = (case ev_payload ev of
     PProcess p \<Rightarrow> pp_summary p \<noteq> [] \<or> pp_adapter_session_ref p \<noteq> None | _ \<Rightarrow> False)"

definition event_skew :: int where "event_skew = 5 * 60"

definition event_admissible ::
    "env \<Rightarrow> time \<Rightarrow> runner \<Rightarrow> job \<Rightarrow> attempt \<Rightarrow> runner_event \<Rightarrow> int option \<Rightarrow> bool \<Rightarrow> db \<Rightarrow> exn + unit" where
  "event_admissible en now ru j a ev expected stop_only d =
     (if is_cleanup ev \<and> carries_text ev
      then Inl (ValueErr ''Cleanup evidence cannot contain runtime text.'')
      else if stop_only \<and> ev_type ev \<noteq> AttemptStopped
      then Inl (ValueErr ''Stop-only authority cannot report execution.'')
      else rbind
        (if \<not> is_cleanup ev
         then rbind (locked_attempt en now ru (jb_id j) (at_id a) (at_lease_epoch a) expected True d)
                (\<lambda>_. Inr ())
         else if \<not> at_active a then Inl (ValueErr ''Attempt has ended.'') else Inr ())
        (\<lambda>_.
          if ev_sequence ev \<noteq> at_event_cursor a + 1 then Inl (ValueErr ''Event sequence gap.'')
          else if now + event_skew < ev_occurred_at ev \<or> ev_occurred_at ev < at_created_at a - event_skew
          then Inl (ValueErr ''Event time is invalid.'') else Inr ()))"

definition apply_event :: "time \<Rightarrow> runner \<Rightarrow> job \<Rightarrow> attempt \<Rightarrow> runner_event \<Rightarrow> db \<Rightarrow> exn + db" where
  "apply_event now ru j a ev d = (case ev_payload ev of
     PWorkspace w \<Rightarrow> apply_workspace now j a w d
   | PProcess p \<Rightarrow> apply_process now ru j a ev p d
   | PInput p \<Rightarrow> apply_input now j a p d
   | PTool p \<Rightarrow> apply_tool now j a (ev_type ev) p d
   | PVerification v \<Rightarrow> apply_verification now j a v d
   | PInputRequest _ _ \<Rightarrow> Inr (apply_input_request j ev d)
   | PResult p \<Rightarrow> apply_result now j a p d)"

text \<open>The registration of \<open>_publish_after_commit\<close>.\<close>

definition after_event :: "runner_event \<Rightarrow> uuid \<Rightarrow> db \<Rightarrow> db" where
  "after_event ev jid d = (case get_job jid d of
     None \<Rightarrow> d
   | Some j \<Rightarrow> if ev_type ev = AttemptStopped \<and> jb_status j = Verifying
              then d\<lparr>db_on_commit := db_on_commit d @ [PublishHook jid]\<rparr> else d)"

definition journal_event ::
    "env \<Rightarrow> time \<Rightarrow> job \<Rightarrow> attempt \<Rightarrow> runner_event \<Rightarrow> db \<Rightarrow> exn + db \<times> event_receipt" where
  "journal_event en now j a ev d =
     rbind (audit en now (jb_id j) (RunnerEv (ev_type ev)) (RunnerPl (ev_payload ev)) (Some (at_id a))
              AuthRunner (Some ev) None
              (update_attempt (at_id a) (\<lambda>r. r\<lparr>at_event_cursor := ev_sequence ev\<rparr>) d)) (\<lambda>d'.
     rbind (fetch ''job'' (get_job (jb_id j) d')) (\<lambda>j'.
       Inr (after_event ev (jb_id j) d',
            \<lparr>er_event_sequence = jb_event_sequence j', er_job_version = jb_version j',
             er_status = jb_status j'\<rparr>)))"

definition record_event ::
    "env \<Rightarrow> time \<Rightarrow> runner \<Rightarrow> runner_event \<Rightarrow> int option \<Rightarrow> bool \<Rightarrow> db \<Rightarrow> exn + db \<times> event_receipt" where
  "record_event en now ru ev0 expected stop_only d =
     rbind (parse_runner_event (en_dump_event en) ev0) (\<lambda>ev.
     rbind (locked_attempt en now ru (ev_job_id ev) (ev_attempt_id ev) (ev_lease_epoch ev) None False d)
       (\<lambda>(j, a).
         if superseded (jb_id j) a d then Inl (ValueErr ''Attempt was superseded.'')
         else (case prior_event (at_id a) (ev_event_id ev) d of
             Some r \<Rightarrow>
               if \<not> repeats_event r ev then Inl (ValueErr ''Event idempotency conflict.'')
               else Inr (d, \<lparr>er_event_sequence = au_sequence r, er_job_version = jb_version j,
                             er_status = jb_status j\<rparr>)
           | None \<Rightarrow>
               rbind (event_admissible en now ru j a ev expected stop_only d) (\<lambda>_.
               rbind (apply_event now ru j a ev d) (\<lambda>d1.
                 journal_event en now j a ev d1)))))"

section \<open>Evidence of a stop\<close>

text \<open>The revoked runner's path: what its token may still confirm.\<close>

definition revoked_stop_ok :: "env \<Rightarrow> time \<Rightarrow> string \<Rightarrow> runner \<Rightarrow> runner_event \<Rightarrow> db \<Rightarrow> exn + unit" where
  "revoked_stop_ok en now token ru ev d =
     rbind (locked_attempt en now ru (ev_job_id ev) (ev_attempt_id ev) (ev_lease_epoch ev) None False d)
       (\<lambda>(j, a).
         if at_active a \<and> at_process_state a = Stopping
         then rbind (authenticate_runner_stop_token en now token (jb_id j) (at_id a) (at_lease_epoch a)
                       (jb_version j) d) (\<lambda>_. Inr ())
         else if at_active a
         then (if at_process_state a \<noteq> ProcUnknown \<or> jb_status j \<noteq> Interrupted
               then Inl (ValueErr ''Stop state is unavailable.'') else Inr ())
         else if at_stop_receipt a \<noteq> Some ev then Inl (ValueErr ''Stop receipt does not match.'')
         else Inr ())"

definition stop_principal :: "env \<Rightarrow> time \<Rightarrow> string \<Rightarrow> runner_event \<Rightarrow> db \<Rightarrow> exn + runner" where
  "stop_principal en now token ev d = (case authenticate_runner_token en now token d of
     Inr (_, r) \<Rightarrow> Inr r
   | Inl e \<Rightarrow>
       if \<not> is_value_error e then Inl e
       else rbind (stop_credential en now token d) (\<lambda>(_, r).
         rbind (revoked_stop_ok en now token r ev d) (\<lambda>_. Inr r)))"

definition stop_evidence ::
    "env \<Rightarrow> time \<Rightarrow> string \<Rightarrow> runner_event \<Rightarrow> db \<Rightarrow> exn + db \<times> event_receipt" where
  "stop_evidence en now token ev d =
     (if ev_type ev \<noteq> AttemptStopped then Inl (ValueErr ''Only stopped evidence is accepted.'')
      else rbind (stop_principal en now token ev d) (\<lambda>r.
        rbind (locked_attempt en now r (ev_job_id ev) (ev_attempt_id ev) (ev_lease_epoch ev) None False d)
          (\<lambda>(j, a).
            case at_stop_receipt a of
              Some e \<Rightarrow>
                if e \<noteq> ev then Inl (ValueErr ''Stop receipt does not match.'')
                else rbind (fetch ''event'' (prior_event (at_id a) (ev_event_id ev) d)) (\<lambda>p.
                  Inr (d, \<lparr>er_event_sequence = au_sequence p, er_job_version = jb_version j,
                           er_status = jb_status j\<rparr>))
            | None \<Rightarrow>
                rbind (record_event en now r (ev\<lparr>ev_sequence := at_event_cursor a + 1\<rparr>) None True d)
                  (\<lambda>(d', receipt).
                    Inr (update_attempt (at_id a) (\<lambda>x. x\<lparr>at_stop_receipt := Some ev\<rparr>) d', receipt)))))"

end
