(* ===== verification/Agent_Approvals.thy ===== *)
theory Agent_Approvals
  imports Agent_Events
begin

text \<open>
  Single-use authorization of operations, \<^verbatim>\<open>zerver/actions/agent_approvals.py\<close>: an operation is
  proposed, approved by a person when its action needs it, consumed once when it starts, and
  settled by a receipt.  \<open>team_tool_needs_confirmation\<close> is of
  \<^verbatim>\<open>zerver/actions/agent_team_tools.py\<close>; the team tools themselves act on the chat core and are
  not modelled: \<open>execute_operation\<close> is split into the transaction before the call
  (\<open>begin_team_operation\<close>) and the one that stores its receipt (\<open>store_team_receipt\<close>).
\<close>

section \<open>Team tools that need confirmation\<close>

fun always_confirm :: "team_input \<Rightarrow> bool" where
  "always_confirm (ChannelUnsubscribe _ _) = True"
| "always_confirm (GroupRemoveMembers _ _) = True"
| "always_confirm (TopicMove _ _ _ _) = True"
| "always_confirm (GroupAddMembers _ _) = True"
| "always_confirm _ = False"

definition realm_stream :: "env \<Rightarrow> nat \<Rightarrow> nat \<Rightarrow> stream option" where
  "realm_stream en realm c = (case en_streams en c of
     None \<Rightarrow> None | Some s \<Rightarrow> if sm_realm s = realm then Some s else None)"

fun owner_confirms :: "env \<Rightarrow> nat \<Rightarrow> team_input \<Rightarrow> bool" where
  "owner_confirms en realm (ChannelCreate _ _ private _) = private"
| "owner_confirms en realm (ChannelSubscribe c _) =
     (case realm_stream en realm c of None \<Rightarrow> True | Some s \<Rightarrow> sm_invite_only s)"
| "owner_confirms en realm (TopicAddPerson c _ us) =
     (case realm_stream en realm c of
        None \<Rightarrow> False
      | Some s \<Rightarrow> sm_invite_only s \<and> \<not> list_all (\<lambda>u. en_subscribed en u c) us)"
| "owner_confirms en realm _ = False"

definition team_tool_needs_confirmation :: "env \<Rightarrow> job \<Rightarrow> profile \<Rightarrow> team_input \<Rightarrow> bool" where
  "team_tool_needs_confirmation en j p t =
     (case t of
        TeamFind _ _ \<Rightarrow> False
      | _ \<Rightarrow> always_confirm t \<or> jb_requester j \<noteq> pr_owner p \<or> owner_confirms en (jb_realm j) t)"

section \<open>Proposals\<close>

definition approval_actions :: "action list" where
  "approval_actions = [GitPush, GitDraftPr, DependenciesInstall, ShellRun, TeamManage]"

record proposal =
  po_operation_id :: uuid
  po_operation_hash :: string
  po_version :: int
  po_status :: operation_state
  po_arguments :: operation_args
  po_scope :: scope_binding
  po_approval_id :: "uuid option"
  po_approval_version :: "int option"
  po_nonce :: "uuid option"
  po_expires_at :: "time option"
  po_server_receipt :: "team_receipt option"

definition latest_approval :: "uuid \<Rightarrow> db \<Rightarrow> approval option" where
  "latest_approval oid d = max_row ap_created_at (filter (\<lambda>p. ap_operation p = oid) (db_approvals d))"

definition proposal_data :: "operation \<Rightarrow> db \<Rightarrow> proposal" where
  "proposal_data x d = (let ap = latest_approval (oper_id x) d in
     \<lparr>po_operation_id = oper_operation_id x, po_operation_hash = oper_argument_digest x,
      po_version = oper_version x, po_status = oper_status x, po_arguments = oper_arguments x,
      po_scope = oper_scope_binding x, po_approval_id = map_option ap_id ap,
      po_approval_version = map_option ap_version ap, po_nonce = map_option ap_nonce ap,
      po_expires_at = map_option ap_expires_at ap, po_server_receipt = oper_server_receipt x\<rparr>)"

definition scope_binding_json :: "env \<Rightarrow> scope_binding \<Rightarrow> json" where
  "scope_binding_json en s = JObj
     [(''attempt_id'', JStr (uuid_str (sbd_attempt_id s))), (''lease_epoch'', JInt (sbd_lease_epoch s)),
      (''policy_version'', JInt (sbd_policy_version s)), (''tree_hash'', opt_json JStr (sbd_tree_hash s)),
      (''diff_artifact_id'', opt_uuid_json (sbd_diff_artifact_id s)),
      (''diff_checksum'', opt_json JStr (sbd_diff_checksum s)),
      (''audience'', opt_json (en_dump_audience en) (sbd_audience s))]"

definition operation_hash :: "env \<Rightarrow> operation_args \<Rightarrow> scope_binding \<Rightarrow> string" where
  "operation_hash en args s = digest (en_sha en)
     (JObj [(''arguments'', en_dump_arguments en args), (''scope'', scope_binding_json en s)])"

text \<open>The authority of the action itself.\<close>

definition proposal_authority ::
    "env \<Rightarrow> time \<Rightarrow> db \<Rightarrow> job \<Rightarrow> attempt \<Rightarrow> operation_args \<Rightarrow> string option \<Rightarrow> exn + unit" where
  "proposal_authority en now d j a args tree =
     (case args of
        OTeam _ \<Rightarrow>
          if jb_job_kind j \<noteq> KManage \<or> tree \<noteq> None
          then Inl (ValueErr ''Operation exceeds the tested authority.'')
          else check_attempt_access en now d (jb_requester j) j a TeamManage
      | _ \<Rightarrow>
          if op_action args \<notin> set (ec_actions (de_tested (at_descriptor a))) \<or>
             (jb_job_kind j = KAnswer \<and> op_action args \<notin> {ContextRead, RepositoryRead})
          then Inl (ValueErr ''Operation exceeds the tested authority.'') else Inr ())"

fun needs_workspace :: "operation_args \<Rightarrow> bool" where
  "needs_workspace (OContextRead _) = False"
| "needs_workspace (OTeam _) = False"
| "needs_workspace _ = True"

definition workspace_bound :: "job \<Rightarrow> attempt \<Rightarrow> operation_args \<Rightarrow> string option \<Rightarrow> bool" where
  "workspace_bound j a args tree =
     (op_repository_id args = jb_repository j \<and> at_workspace_prepared_at a \<noteq> None \<and>
      tree = Some (at_tree_hash a))"

definition branch_in_job :: "uuid \<Rightarrow> string \<Rightarrow> bool" where
  "branch_in_job jid b =
     (starts_with (''grow-agent/'' @ uuid_str jid @ ''/'') b \<and> list_all (\<lambda>c. \<not> branch_char_bad c) b)"

definition remote_target_ok :: "job \<Rightarrow> repository option \<Rightarrow> string \<Rightarrow> string option \<Rightarrow> string \<Rightarrow> exn + unit" where
  "remote_target_ok j repo remote base branch = (case repo of
     None \<Rightarrow> Inl (ValueErr ''Remote differs from the approved repository.'')
   | Some w \<Rightarrow>
       if repo_canonical_origin w = [] \<or> remote \<noteq> repo_canonical_origin w
       then Inl (ValueErr ''Remote differs from the approved repository.'')
       else if \<not> opt_all (\<lambda>b. b \<in> set (repo_allowed_refs w)) base
       then Inl (ValueErr ''Draft PR base is outside the approved refs.'')
       else if \<not> branch_in_job (jb_id j) branch
       then Inl (ValueErr ''Remote branch is outside this job.'') else Inr ())"

text \<open>The scope of the arguments, one branch per class of arguments.\<close>

definition proposal_scope ::
    "db \<Rightarrow> job \<Rightarrow> attempt \<Rightarrow> repository option \<Rightarrow> operation_args \<Rightarrow> string option \<Rightarrow> exn + unit" where
  "proposal_scope d j a repo args tree =
     (if needs_workspace args \<and> \<not> workspace_bound j a args tree
      then Inl (ValueErr ''Operation workspace is unavailable.'')
      else (case args of
          OContextRead ids \<Rightarrow>
            if length (job_context_refs (jb_id j) ids d) \<noteq> length (remdups ids)
            then Inl (ValueErr ''Context references are unavailable.'') else Inr ()
        | OTool t \<Rightarrow>
            if ta_network t \<noteq> pol_network (de_policy (at_descriptor a)) \<or> path_escapes (ta_cwd t)
            then Inl (ValueErr ''Tool scope is invalid.'') else Inr ()
        | OChecks c \<Rightarrow>
            (case de_repository (at_descriptor a) of
               None \<Rightarrow> Inl AssertionErr
             | Some w \<Rightarrow>
                 if \<not> set (ca_check_ids c) \<subseteq> set (map chk_id (rc_required_checks w)) \<or>
                    Some (ca_tree_hash c) \<noteq> tree
                 then Inl (ValueErr ''Check scope is invalid.'') else Inr ())
        | ORepositoryRead _ ps \<Rightarrow>
            if list_ex path_escapes ps then Inl (ValueErr ''Repository path is invalid.'') else Inr ()
        | OPush q \<Rightarrow> remote_target_ok j repo (pu_remote q) None (pu_branch q)
        | ODraftPr q \<Rightarrow> remote_target_ok j repo (dp_remote q) (Some (dp_base q)) (dp_head q)
        | _ \<Rightarrow> Inr ()))"

definition diff_checksum :: "db \<Rightarrow> job \<Rightarrow> attempt \<Rightarrow> uuid option \<Rightarrow> exn + string option" where
  "diff_checksum d j a diff = (case diff of
     None \<Rightarrow> Inr None
   | Some i \<Rightarrow>
       rbind (fetch ''artifact'' (find (\<lambda>f. af_id f = i \<and> af_attempt f = at_id a \<and>
                af_realm f = jb_realm j \<and> af_kind f = ArtDiff \<and> af_unavailable_at f = None)
              (db_artifacts d))) (\<lambda>f. Inr (Some (af_checksum f))))"

definition proposal_binding ::
    "attempt \<Rightarrow> int \<Rightarrow> string option \<Rightarrow> uuid option \<Rightarrow> string option \<Rightarrow> scope_binding" where
  "proposal_binding a epoch tree diff cksum = \<lparr>sbd_attempt_id = at_id a, sbd_lease_epoch = epoch,
     sbd_policy_version = pol_version (de_policy (at_descriptor a)), sbd_tree_hash = tree,
     sbd_diff_artifact_id = diff, sbd_diff_checksum = cksum, sbd_audience = at_audience_binding a\<rparr>"

definition requires_approval :: "env \<Rightarrow> job \<Rightarrow> profile \<Rightarrow> attempt \<Rightarrow> operation_args \<Rightarrow> bool" where
  "requires_approval en j p a args = (case args of
     OTeam t \<Rightarrow> team_tool_needs_confirmation en j p t
   | _ \<Rightarrow> op_action args \<in> set remote_tools \<or> op_action args \<notin> set (pol_actions (de_policy (at_descriptor a))))"

definition new_operation ::
    "job \<Rightarrow> attempt \<Rightarrow> uuid \<Rightarrow> uuid \<Rightarrow> operation_args \<Rightarrow> scope_binding \<Rightarrow> string \<Rightarrow> bool \<Rightarrow> operation" where
  "new_operation j a i oid args s h pending = \<lparr>oper_id = i, oper_realm = jb_realm j,
     oper_attempt = at_id a, oper_operation_id = oid, oper_tool_class = op_action args,
     oper_argument_digest = h, oper_arguments = args, oper_scope_binding = s,
     oper_status = (if pending then Proposed else Authorized), oper_version = 1,
     oper_started_at = None, oper_finished_at = None, oper_remote_receipt = None,
     oper_local_receipt = None, oper_server_receipt = None\<rparr>"

definition approval_window :: int where "approval_window = 15 * 60"

definition new_approval ::
    "time \<Rightarrow> job \<Rightarrow> attempt \<Rightarrow> uuid \<Rightarrow> uuid \<Rightarrow> uuid \<Rightarrow> operation_args \<Rightarrow> string \<Rightarrow> string option \<Rightarrow> approval" where
  "new_approval now j a i nonce oid args h tree = \<lparr>ap_id = i, ap_realm = jb_realm j,
     ap_created_at = now, ap_job = jb_id j, ap_attempt = at_id a, ap_operation = oid,
     ap_approver = None, ap_operation_hash = h,
     ap_policy_version = pol_version (de_policy (at_descriptor a)), ap_version = 1,
     ap_tree_hash = none_empty tree, ap_arguments = args, ap_decision = ApPending,
     ap_expires_at = now + approval_window, ap_nonce = nonce, ap_decided_at = None,
     ap_consumed_at = None\<rparr>"

text \<open>A proposal that waits for a person.\<close>

definition request_approval ::
    "env \<Rightarrow> time \<Rightarrow> job \<Rightarrow> attempt \<Rightarrow> operation \<Rightarrow> string option \<Rightarrow> db \<Rightarrow> exn + db" where
  "request_approval en now j a x tree d =
     (let (i, d1) = fresh d; (nonce, d2) = fresh d1;
          ap = new_approval now j a i nonce (oper_id x) (oper_arguments x) (oper_argument_digest x) tree
      in audit_server en now (jb_id j) ApprovalRequested
           (AApproval i (oper_argument_digest x) 1 ApPending) (Some (at_id a)) None
           (notify_conversation (jb_id j) (ApprovalNotice i) ''This task needs your approval.'' True
             (transition (jb_id j) WaitingForApproval [] (add_approval ap d2))))"

definition store_operation ::
    "env \<Rightarrow> time \<Rightarrow> job \<Rightarrow> attempt \<Rightarrow> uuid \<Rightarrow> operation_args \<Rightarrow> scope_binding \<Rightarrow> string \<Rightarrow> bool \<Rightarrow> db \<Rightarrow>
     exn + db \<times> operation" where
  "store_operation en now j a oid args s h pending d =
     (let (i, d1) = fresh d; x = new_operation j a i oid args s h pending; d2 = add_operation x d1
      in if pending then rbind (request_approval en now j a x (sbd_tree_hash s) d2) (\<lambda>d3. Inr (d3, x))
         else Inr (d2, x))"

definition admit_operation ::
    "env \<Rightarrow> time \<Rightarrow> job \<Rightarrow> attempt \<Rightarrow> uuid \<Rightarrow> operation_args \<Rightarrow> scope_binding \<Rightarrow> db \<Rightarrow> exn + db \<times> operation" where
  "admit_operation en now j a oid args s d =
     (let h = operation_hash en args s in
      case find (\<lambda>x. oper_operation_id x = oid) (db_operations d) of
        Some x \<Rightarrow>
          if oper_attempt x \<noteq> at_id a \<or> oper_argument_digest x \<noteq> h
          then Inl (ValueErr ''Operation idempotency conflict.'') else Inr (d, x)
      | None \<Rightarrow>
          rbind (job_profile j d) (\<lambda>p.
            (let pending = requires_approval en j p a args in
             if pending \<and> op_action args \<notin> set approval_actions
             then Inl (ValueErr ''Operation requires a new scoped task.'')
             else rbind (if pending then Inr ()
                         else check_attempt_access en now d (jb_requester j) j a (op_action args)) (\<lambda>_.
               store_operation en now j a oid args s h pending d))))"

definition propose_operation ::
    "env \<Rightarrow> time \<Rightarrow> runner \<Rightarrow> uuid \<Rightarrow> uuid \<Rightarrow> int \<Rightarrow> uuid \<Rightarrow> operation_args \<Rightarrow> string option \<Rightarrow>
     uuid option \<Rightarrow> db \<Rightarrow> exn + db \<times> operation" where
  "propose_operation en now ru jid aid epoch oid args tree diff d =
     (if \<not> valid_operation_args args then Inl ProtocolInvalid
      else rbind (locked_attempt en now ru jid aid epoch None True d) (\<lambda>(j, a).
        if \<not> valid_descriptor (en_sha en) (at_descriptor a) then Inl ProtocolInvalid
        else rbind (proposal_authority en now d j a args tree) (\<lambda>_.
        rbind (fetch_opt ''repository'' get_repository (jb_repository j) d) (\<lambda>repo.
        rbind (proposal_scope d j a repo args tree) (\<lambda>_.
        rbind (diff_checksum d j a diff) (\<lambda>cksum.
          if op_action args \<in> set remote_tools \<and> cksum = None
          then Inl (ValueErr ''Remote proposal requires a reviewable diff.'')
          else admit_operation en now j a oid args (proposal_binding a epoch tree diff cksum) d))))))"

section \<open>Decisions\<close>

definition approval_current ::
    "time \<Rightarrow> attempt \<Rightarrow> profile \<Rightarrow> approval \<Rightarrow> int \<Rightarrow> string \<Rightarrow> uuid \<Rightarrow> bool" where
  "approval_current now a p ap expected h nonce =
     (ap_operation_hash ap = h \<and> ap_nonce ap = nonce \<and> ap_version ap = expected \<and>
      ap_decision ap = ApPending \<and> now < ap_expires_at ap \<and> at_tree_hash a = ap_tree_hash ap \<and>
      pr_policy_version p = ap_policy_version ap)"

definition settle_approval ::
    "env \<Rightarrow> time \<Rightarrow> user \<Rightarrow> job \<Rightarrow> attempt \<Rightarrow> operation \<Rightarrow> approval \<Rightarrow> bool \<Rightarrow> db \<Rightarrow> exn + db" where
  "settle_approval en now actor j a x ap approve d =
     (let decision = (if approve then ApApproved else ApRejected);
          d1 = update_approval (ap_id ap) (\<lambda>r. r\<lparr>ap_approver := Some (us_id actor),
                 ap_decision := decision, ap_decided_at := Some now, ap_version := ap_version r + 1\<rparr>) d
      in rbind (if approve then Inr (transition (jb_id j) Running [] d1)
                else request_stop en now j (Some (at_id a)) Blocked ''approval_rejected'' d1) (\<lambda>d2.
         audit_server en now (jb_id j) ApprovalResolved
           (AApproval (ap_id ap) (oper_argument_digest x) (ap_version ap + 1) decision)
           (Some (at_id a)) (Some (us_id actor)) d2))"

definition decide_approval ::
    "env \<Rightarrow> time \<Rightarrow> user \<Rightarrow> uuid \<Rightarrow> int \<Rightarrow> string \<Rightarrow> uuid \<Rightarrow> bool \<Rightarrow> db \<Rightarrow> exn + db" where
  "decide_approval en now actor apid expected h nonce approve d =
     rbind (fetch ''approval'' (get_approval apid d)) (\<lambda>ap.
     rbind (fetch ''attempt'' (get_attempt (ap_attempt ap) d)) (\<lambda>a0.
     rbind (fetch ''runner'' (get_runner (at_runner a0) d)) (\<lambda>r.
       if ap_realm ap \<noteq> us_realm actor then Inl (DoesNotExist ''approval'')
       else rbind (locked_attempt en now r (ap_job ap) (ap_attempt ap) (at_lease_epoch a0) None True d)
         (\<lambda>(j, a).
         rbind (fetch ''operation'' (get_operation (ap_operation ap) d)) (\<lambda>x.
         rbind (require_job_access en now d actor j) (\<lambda>_.
           if oper_tool_class x = TeamManage \<and> us_id actor \<noteq> jb_requester j then Inl AccessDenied
           else rbind (check_attempt_access en now d (us_id actor) j a (oper_tool_class x)) (\<lambda>_.
             rbind (job_profile j d) (\<lambda>p.
               if \<not> approval_current now a p ap expected h nonce
               then Inl (ValueErr ''Approval proposal changed or expired.'')
               else settle_approval en now actor j a x ap approve d))))))))"

section \<open>Consumption\<close>

fun phase_of_tool :: "action \<Rightarrow> phase" where
  "phase_of_tool RepositoryEdit = Edit"
| "phase_of_tool ShellRun = Edit"
| "phase_of_tool DependenciesInstall = Edit"
| "phase_of_tool ChecksRun = Verify"
| "phase_of_tool GitCommit = Review"
| "phase_of_tool GitPush = Deliver"
| "phase_of_tool GitDraftPr = Deliver"
| "phase_of_tool _ = Inspect"

definition approved_approval :: "uuid \<Rightarrow> db \<Rightarrow> approval option" where
  "approved_approval oid d =
     find (\<lambda>p. ap_operation p = oid \<and> ap_decision p = ApApproved) (db_approvals d)"

text \<open>The guards on the operation itself.\<close>

definition consumable :: "job \<Rightarrow> profile \<Rightarrow> attempt \<Rightarrow> operation \<Rightarrow> int \<Rightarrow> string \<Rightarrow> exn + unit" where
  "consumable j p a x expected h =
     (if oper_version x \<noteq> expected \<or> oper_argument_digest x \<noteq> h \<or>
         oper_status x \<notin> {Proposed, Authorized}
      then Inl (ValueErr ''Operation was consumed or changed. Reconcile before retry.'')
      else if sbd_tree_hash (oper_scope_binding x) \<noteq> empty_none (at_tree_hash a) \<and>
              oper_tool_class x \<noteq> ContextRead
      then Inl (ValueErr ''Operation tree changed.'')
      else if sbd_policy_version (oper_scope_binding x) \<noteq> pr_policy_version p
      then Inl (ValueErr ''Operation policy changed.'')
      else if bud_tool_rounds (de_budget (at_descriptor a)) \<le> at_tool_rounds a
      then Inl (ValueErr ''Tool budget exhausted.'') else Inr ())"

definition spend_approval ::
    "env \<Rightarrow> time \<Rightarrow> job \<Rightarrow> attempt \<Rightarrow> operation \<Rightarrow> string \<Rightarrow> uuid option \<Rightarrow> db \<Rightarrow> exn + db" where
  "spend_approval en now j a x h nonce d =
     (case approved_approval (oper_id x) d of
        None \<Rightarrow> Inl (ValueErr ''Approval is unavailable.'')
      | Some ap \<Rightarrow>
          (case ap_approver ap of
             None \<Rightarrow> Inl (ValueErr ''Approval is unavailable.'')
           | Some who \<Rightarrow>
               if ap_expires_at ap \<le> now \<or> Some (ap_nonce ap) \<noteq> nonce
               then Inl (ValueErr ''Approval is unavailable.'')
               else rbind (check_attempt_access en now d who j a (oper_tool_class x)) (\<lambda>_.
                 if ap_operation_hash ap \<noteq> h \<or> ap_tree_hash ap \<noteq> at_tree_hash a
                 then Inl (ValueErr ''Approval no longer matches.'')
                 else Inr (update_approval (ap_id ap) (\<lambda>r. r\<lparr>ap_decision := ApConsumed,
                        ap_consumed_at := Some now, ap_version := ap_version r + 1\<rparr>) d))))"

definition start_operation :: "time \<Rightarrow> operation \<Rightarrow> operation" where
  "start_operation now x =
     x\<lparr>oper_status := OpStarted, oper_started_at := Some now, oper_version := oper_version x + 1\<rparr>"

definition attempt_operation :: "attempt \<Rightarrow> job \<Rightarrow> uuid \<Rightarrow> db \<Rightarrow> exn + operation" where
  "attempt_operation a j oid d = fetch ''operation'' (find (\<lambda>x. oper_operation_id x = oid \<and>
     oper_attempt x = at_id a \<and> oper_realm x = jb_realm j) (db_operations d))"

definition consume_operation ::
    "env \<Rightarrow> time \<Rightarrow> runner \<Rightarrow> uuid \<Rightarrow> uuid \<Rightarrow> int \<Rightarrow> uuid \<Rightarrow> int \<Rightarrow> string \<Rightarrow> uuid option \<Rightarrow> db \<Rightarrow>
     exn + db \<times> proposal" where
  "consume_operation en now ru jid aid epoch oid expected h nonce d =
     rbind (locked_attempt en now ru jid aid epoch None True d) (\<lambda>(j, a).
     rbind (attempt_operation a j oid d) (\<lambda>x.
       if \<not> valid_descriptor (en_sha en) (at_descriptor a) then Inl ProtocolInvalid
       else rbind (job_profile j d) (\<lambda>p.
         rbind (consumable j p a x expected h) (\<lambda>_.
         rbind (if oper_status x = Proposed then spend_approval en now j a x h nonce d
                else rbind (check_attempt_access en now d (jb_requester j) j a (oper_tool_class x))
                       (\<lambda>_. Inr d)) (\<lambda>d1.
           (let d2 = update_job (jb_id j) (\<lambda>r. r\<lparr>jb_phase := phase_of_tool (oper_tool_class x)\<rparr>) d1;
                d3 = update_operation (oper_id x) (start_operation now) d2;
                d4 = update_attempt (at_id a) (\<lambda>r. r\<lparr>at_tool_rounds := at_tool_rounds r + 1\<rparr>) d3
            in Inr (d4, proposal_data (start_operation now x) d4)))))))"

section \<open>Receipts\<close>

fun remote_fields :: "operation_args \<Rightarrow> (string \<times> string \<times> string) option" where
  "remote_fields (OPush q) = Some (pu_remote q, pu_commit q, pu_branch q)"
| "remote_fields (ODraftPr q) = Some (dp_remote q, dp_commit q, dp_head q)"
| "remote_fields _ = None"

definition remote_host :: "string \<Rightarrow> url \<Rightarrow> string option" where
  "remote_host remote u =
     (if hostname u \<noteq> [] then Some (hostname u)
      else (case partition_at (CHR ''@'') remote of
          None \<Rightarrow> None
        | Some (_, r) \<Rightarrow> Some (takeWhile (\<lambda>c. c \<noteq> CHR '':'') r)))"

text \<open>A draft PR must be identified by an https URL on the host of the remote.\<close>

definition pull_request_ok :: "remote_receipt \<Rightarrow> exn + unit" where
  "pull_request_ok r =
     (case (urlsplit (none_empty (rm_pull_request_url r)), urlsplit (rm_remote r)) of
        (Some u, Some v) \<Rightarrow>
          if none_empty (rm_pull_request_id r) = [] \<or> url_scheme u \<noteq> ''https'' \<or> username u \<noteq> [] \<or>
             hostname u = [] \<or> Some (hostname u) \<noteq> remote_host (rm_remote r) v
          then Inl (ValueErr ''Draft PR identity is invalid.'') else Inr ()
      | _ \<Rightarrow> Inl (ValueErr ''Invalid IPv6 URL''))"

definition remote_receipt_matches :: "operation \<Rightarrow> uuid \<Rightarrow> remote_receipt \<Rightarrow> bool" where
  "remote_receipt_matches x oid r = (case remote_fields (oper_arguments x) of
     None \<Rightarrow> False
   | Some (remote, commit, branch) \<Rightarrow>
       rm_operation_id r = oid \<and> rm_remote r = remote \<and> rm_commit r = commit \<and> rm_branch r = branch)"

definition consumed_approval :: "uuid \<Rightarrow> db \<Rightarrow> bool" where
  "consumed_approval oid d =
     list_ex (\<lambda>p. ap_operation p = oid \<and> ap_decision p = ApConsumed) (db_approvals d)"

definition accept_remote :: "time \<Rightarrow> remote_receipt \<Rightarrow> operation \<Rightarrow> operation" where
  "accept_remote now r x = x\<lparr>oper_remote_receipt := Some r, oper_status := OpSucceeded,
     oper_finished_at := Some now, oper_version := oper_version x + 1\<rparr>"

definition reconcile_operation ::
    "env \<Rightarrow> time \<Rightarrow> runner \<Rightarrow> uuid \<Rightarrow> uuid \<Rightarrow> int \<Rightarrow> uuid \<Rightarrow> remote_receipt \<Rightarrow> db \<Rightarrow> exn + db \<times> operation" where
  "reconcile_operation en now ru jid aid epoch oid r d =
     rbind (locked_attempt en now ru jid aid epoch None False d) (\<lambda>(j, a).
       if ru_revoked_at ru \<noteq> None then Inl (ValueErr ''Runner is revoked.'')
       else rbind (require_audience en d j) (\<lambda>_.
         rbind (check_attempt_access en now d (jb_requester j) j a ProfileUse) (\<lambda>_.
         rbind (attempt_operation a j oid d) (\<lambda>x.
           if oper_tool_class x \<notin> set remote_tools
           then Inl (ValueErr ''Operation has no remote receipt.'')
           else if \<not> remote_receipt_matches x oid r
           then Inl (ValueErr ''Remote receipt does not match the operation.'')
           else rbind (if oper_tool_class x = GitDraftPr then pull_request_ok r else Inr ()) (\<lambda>_.
             if oper_status x = OpSucceeded
             then (if oper_remote_receipt x \<noteq> Some r then Inl (ValueErr ''Remote receipt conflict.'')
                   else Inr (d, x))
             else if oper_status x \<notin> {OpStarted, OutcomeUnk} \<or> \<not> consumed_approval (oper_id x) d
             then Inl (ValueErr ''Remote operation was not authorized.'')
             else Inr (update_operation (oper_id x) (accept_remote now r) d, accept_remote now r x))))))"

definition local_status :: "local_outcome \<Rightarrow> operation_state" where
  "local_status o' = (case o' of LoNoEffect \<Rightarrow> OpCancelled | LoSucceeded \<Rightarrow> OpSucceeded | LoFailed \<Rightarrow> OpFailed)"

definition accept_local :: "time \<Rightarrow> local_receipt \<Rightarrow> operation \<Rightarrow> operation" where
  "accept_local now r x = x\<lparr>oper_local_receipt := Some r, oper_status := local_status (lr_outcome r),
     oper_finished_at := Some now, oper_version := oper_version x + 1\<rparr>"

definition local_observation_ok :: "time \<Rightarrow> attempt \<Rightarrow> local_receipt \<Rightarrow> bool" where
  "local_observation_ok now a r =
     (case at_stopped_at a of
        None \<Rightarrow> False
      | Some t \<Rightarrow> lr_base_commit r = empty_none (at_base_commit a) \<and> t \<le> lr_observed_at r \<and>
                 lr_observed_at r \<le> now + 5)"

definition reconcile_local_operation ::
    "env \<Rightarrow> time \<Rightarrow> runner \<Rightarrow> uuid \<Rightarrow> uuid \<Rightarrow> int \<Rightarrow> local_receipt \<Rightarrow> db \<Rightarrow> exn + db \<times> operation" where
  "reconcile_local_operation en now ru jid aid epoch r d =
     rbind (locked_attempt en now ru jid aid epoch None False d) (\<lambda>(j, a).
     rbind (require_audience en d j) (\<lambda>_.
     rbind (check_attempt_access en now d (jb_requester j) j a ProfileUse) (\<lambda>_.
       if at_active a \<or> at_process_state a \<noteq> Stopped \<or> superseded jid a d
       then Inl (ValueErr ''Local reconciliation requires the stopped latest attempt.'')
       else rbind (fetch ''operation'' (find (\<lambda>x. oper_attempt x = at_id a \<and>
                oper_operation_id x = lr_operation_id r \<and>
                oper_argument_digest x = lr_argument_digest r) (db_operations d))) (\<lambda>x.
         (case oper_local_receipt x of
            Some prior \<Rightarrow>
              if prior \<noteq> r then Inl (ValueErr ''Local reconciliation receipt changed.'') else Inr (d, x)
          | None \<Rightarrow>
              if oper_tool_class x \<in> set remote_tools \<or> oper_status x \<noteq> OutcomeUnk
              then Inl (ValueErr ''Operation does not permit local reconciliation.'')
              else if \<not> local_observation_ok now a r
              then Inl (ValueErr ''Local observation does not match the stopped workspace.'')
              else if jb_repository j \<noteq> None \<and> lr_tree_hash r = None
              then Inl (ValueErr ''Workspace tree observation is required.'')
              else if lr_outcome r = LoNoEffect \<and> lr_tree_hash r \<noteq> sbd_tree_hash (oper_scope_binding x)
              then Inl (ValueErr ''Workspace changed despite the no-effect receipt.'')
              else Inr (update_attempt (at_id a) (\<lambda>y. y\<lparr>at_tree_hash := none_empty (lr_tree_hash r)\<rparr>)
                          (update_operation (oper_id x) (accept_local now r) d), accept_local now r x))))))"

section \<open>Team operations run by the server\<close>

text \<open>Either the operation was executed before, or it is consumed now and the tool may run.\<close>

datatype team_start = AlreadyExecuted proposal | Execute uid uuid team_input

definition begin_team_operation ::
    "env \<Rightarrow> time \<Rightarrow> runner \<Rightarrow> uuid \<Rightarrow> uuid \<Rightarrow> int \<Rightarrow> int \<Rightarrow> uuid \<Rightarrow> int \<Rightarrow> string \<Rightarrow> uuid option \<Rightarrow> db \<Rightarrow>
     exn + db \<times> team_start" where
  "begin_team_operation en now ru jid aid epoch version oid expected h nonce d =
     rbind (locked_attempt en now ru jid aid epoch (Some version) True d) (\<lambda>(j, a).
     rbind (attempt_operation a j oid d) (\<lambda>x.
       if oper_tool_class x \<noteq> TeamManage then Inl (ValueErr ''Operation does not support execution.'')
       else if oper_server_receipt x \<noteq> None then Inr (d, AlreadyExecuted (proposal_data x d))
       else if oper_status x = OpStarted then Inl OutcomeUnknown
       else rbind (job_profile j d) (\<lambda>p.
         (case oper_arguments x of
            OTeam t \<Rightarrow>
              rbind (consume_operation en now ru jid aid epoch oid expected h nonce d) (\<lambda>(d', _).
                Inr (d', Execute (jb_requester j) (pr_id p) t))
          | _ \<Rightarrow> Inl ProtocolInvalid))))"

definition accept_team :: "time \<Rightarrow> team_receipt \<Rightarrow> operation \<Rightarrow> operation" where
  "accept_team now r x = x\<lparr>oper_server_receipt := Some r,
     oper_status := (if tr_succeeded r then OpSucceeded else OpFailed),
     oper_finished_at := Some now, oper_version := oper_version x + 1\<rparr>"

definition store_team_receipt ::
    "env \<Rightarrow> time \<Rightarrow> runner \<Rightarrow> uuid \<Rightarrow> uuid \<Rightarrow> int \<Rightarrow> uuid \<Rightarrow> team_receipt \<Rightarrow> db \<Rightarrow> exn + db \<times> proposal" where
  "store_team_receipt en now ru jid aid epoch oid r d =
     rbind (locked_attempt en now ru jid aid epoch None False d) (\<lambda>(j, a).
     rbind (attempt_operation a j oid d) (\<lambda>x.
       if oper_server_receipt x \<noteq> None then Inr (d, proposal_data x d)
       else rbind (clean_operation d (accept_team now r x)) (\<lambda>_.
         rbind (audit_server en now (jb_id j) TeamExecuted (ATeamExecuted (oper_operation_id x) r)
                  (Some (at_id a)) None (update_operation (oper_id x) (accept_team now r) d)) (\<lambda>d'.
           Inr (d', proposal_data (accept_team now r x) d')))))"

end
