(* ===== verification/Agent_Results.thy ===== *)
theory Agent_Results
  imports Agent_Approvals
begin

text \<open>
  Artifacts and the publication of a result, \<^verbatim>\<open>zerver/lib/agent_results.py\<close>.  A result is
  published only from \<open>verifying\<close>, after the attempt has stopped, with no open input or operation,
  and, for code, with required checks that prove the final tree (\<open>verify_result\<close>).  Sending a
  message is the chat core's: the id it returns, or its refusal, is an argument (\<open>sent\<close>), and
  \<open>db_sent\<close> records what was sent where.  A stored file is a list of bytes.
\<close>

section \<open>Private artifacts\<close>

text \<open>\<open>bytes.decode("utf-8")\<close> accepts exactly the well-formed sequences (no overlong forms, no
  surrogates, nothing above U+10FFFF).\<close>

definition cont_byte :: "nat \<Rightarrow> bool" where
  "cont_byte b = (0x80 \<le> b \<and> b < 0xC0)"

fun utf8_valid :: "nat list \<Rightarrow> bool" where
  "utf8_valid [] = True"
| "utf8_valid (a # r) =
     (if a < 0x80 then utf8_valid r
      else (case r of
        b # r1 \<Rightarrow>
          if 0xC2 \<le> a \<and> a < 0xE0 then cont_byte b \<and> utf8_valid r1
          else (case r1 of
            c # r2 \<Rightarrow>
              if 0xE0 \<le> a \<and> a < 0xF0
              then cont_byte b \<and> cont_byte c \<and> (a = 0xE0 \<longrightarrow> 0xA0 \<le> b) \<and> (a = 0xED \<longrightarrow> b < 0xA0) \<and>
                   utf8_valid r2
              else (case r2 of
                e # r3 \<Rightarrow>
                  0xF0 \<le> a \<and> a < 0xF5 \<and> cont_byte b \<and> cont_byte c \<and> cont_byte e \<and>
                  (a = 0xF0 \<longrightarrow> 0x90 \<le> b) \<and> (a = 0xF4 \<longrightarrow> b < 0x90) \<and> utf8_valid r3
              | [] \<Rightarrow> False)
          | [] \<Rightarrow> False)
      | [] \<Rightarrow> False))"

definition filename_ok :: "string \<Rightarrow> bool" where
  "filename_ok f = (f \<notin> {[], ''.''} \<and>
     list_all (\<lambda>c. c \<notin> {CHR 0x00, CHR 0x0D, CHR 0x0A, CHR 0x5C, CHR ''/''}) f)"

fun receive_chunks :: "int \<Rightarrow> nat list list \<Rightarrow> nat list \<Rightarrow> exn + nat list" where
  "receive_chunks limit [] data = Inr data"
| "receive_chunks limit (c # cs) data =
     (if int (length data + length c) > limit then Inl (ValueErr ''Artifact size limit exceeded.'')
      else receive_chunks limit cs (data @ c))"

text \<open>The first transaction of \<open>store_artifact\<close>: the lease, and the budget of the attempt.\<close>

definition artifact_budget ::
    "env \<Rightarrow> time \<Rightarrow> runner \<Rightarrow> uuid \<Rightarrow> uuid \<Rightarrow> int \<Rightarrow> artifact_record \<Rightarrow> db \<Rightarrow> exn + job \<times> budget" where
  "artifact_budget en now ru jid aid epoch meta d =
     (if \<not> valid_artifact_record meta then Inl ProtocolInvalid
      else if \<not> filename_ok (ar_filename meta) then Inl (ValueErr ''Invalid artifact filename.'')
      else rbind (locked_attempt en now ru jid aid epoch None True d) (\<lambda>(j, a).
        if valid_budget (de_budget (at_descriptor a)) then Inr (j, de_budget (at_descriptor a))
        else Inl ProtocolInvalid))"

definition checked_content ::
    "env \<Rightarrow> db \<Rightarrow> job \<Rightarrow> budget \<Rightarrow> artifact_record \<Rightarrow> nat list list \<Rightarrow> exn + nat list" where
  "checked_content en d j b meta chunks =
     rbind (receive_chunks (bud_artifact_bytes b) chunks []) (\<lambda>data.
       if en_sha en data \<noteq> ar_checksum meta then Inl (ValueErr ''Artifact checksum mismatch.'')
       else if ar_media_type meta \<noteq> OctetStream \<and> \<not> utf8_valid data then Inl (ValueErr ''decode'')
       else rbind (reject_secrets d j data) (\<lambda>_. Inr data))"

definition artifact_row :: "time \<Rightarrow> uuid \<Rightarrow> job \<Rightarrow> attempt \<Rightarrow> artifact_record \<Rightarrow> nat list \<Rightarrow> artifact" where
  "artifact_row now i j a meta data = \<lparr>af_id = i, af_realm = jb_realm j, af_attempt = at_id a,
     af_kind = ar_kind meta, af_checksum = ar_checksum meta, af_size = int (length data),
     af_media_type = ar_media_type meta, af_filename = ar_filename meta,
     af_expires_at = now + 7 * 24 * 60 * 60, af_unavailable_at = None,
     af_audience_binding = at_audience_binding a\<rparr>"

definition job_artifact_bytes :: "uuid \<Rightarrow> db \<Rightarrow> int" where
  "job_artifact_bytes jid d =
     sum_list (map af_size (filter (\<lambda>f. job_of_attempt (af_attempt f) d = Some jid) (db_artifacts d)))"

definition same_credential :: "env \<Rightarrow> time \<Rightarrow> runner \<Rightarrow> string option \<Rightarrow> db \<Rightarrow> exn + unit" where
  "same_credential en now ru token d = (case token of
     None \<Rightarrow> Inr ()
   | Some t \<Rightarrow> rbind (authenticate_runner_token en now t d) (\<lambda>(c, _).
       if cd_runner c \<noteq> ru_id ru then Inl (ValueErr ''Artifact credential changed.'') else Inr ()))"

text \<open>The second transaction: the file and its row exist together, or neither does.\<close>

definition register_artifact ::
    "env \<Rightarrow> time \<Rightarrow> runner \<Rightarrow> uuid \<Rightarrow> uuid \<Rightarrow> int \<Rightarrow> budget \<Rightarrow> artifact_record \<Rightarrow> nat list \<Rightarrow>
     string option \<Rightarrow> db \<Rightarrow> exn + db \<times> artifact" where
  "register_artifact en now ru jid aid epoch b meta data token d =
     rbind (same_credential en now ru token d) (\<lambda>_.
     rbind (locked_attempt en now ru jid aid epoch None True d) (\<lambda>(j, a).
       if job_artifact_bytes (jb_id j) d + int (length data) > bud_job_artifact_bytes b
       then Inl (ValueErr ''Job artifact limit exceeded.'')
       else (let (i, d1) = fresh d; f = artifact_row now i j a meta data
             in Inr (add_artifact f (d1\<lparr>db_blobs := db_blobs d1 @ [(i, data)]\<rparr>), f))))"

definition store_artifact ::
    "env \<Rightarrow> time \<Rightarrow> runner \<Rightarrow> uuid \<Rightarrow> uuid \<Rightarrow> int \<Rightarrow> artifact_record \<Rightarrow> nat list list \<Rightarrow> string option \<Rightarrow>
     db \<Rightarrow> exn + db \<times> artifact" where
  "store_artifact en now ru jid aid epoch meta chunks token d =
     rbind (artifact_budget en now ru jid aid epoch meta d) (\<lambda>(j, b).
     rbind (checked_content en d j b meta chunks) (\<lambda>data.
       register_artifact en now ru jid aid epoch b meta data token d))"

definition read_artifact :: "env \<Rightarrow> artifact \<Rightarrow> db \<Rightarrow> exn + nat list" where
  "read_artifact en f d =
     (if af_unavailable_at f \<noteq> None then Inl (ValueErr ''Artifact is unavailable.'')
      else (case map_of (db_blobs d) (af_id f) of
          None \<Rightarrow> Inl (ValueErr ''Artifact is unavailable.'')
        | Some content \<Rightarrow>
            (let data = take (nat max_artifact_bytes + 1) content in
             if int (length data) \<noteq> af_size f \<or> en_sha en data \<noteq> af_checksum f
             then Inl (ValueErr ''Artifact integrity check failed.'') else Inr data)))"

definition download_artifact :: "env \<Rightarrow> time \<Rightarrow> user \<Rightarrow> uuid \<Rightarrow> db \<Rightarrow> exn + artifact \<times> nat list" where
  "download_artifact en now actor i d =
     rbind (fetch ''artifact'' (get_artifact i d)) (\<lambda>f.
       if af_realm f \<noteq> us_realm actor then Inl (DoesNotExist ''artifact'')
       else rbind (read_artifact en f d) (\<lambda>data.
         rbind (fetch ''attempt'' (get_attempt (af_attempt f) d)) (\<lambda>a.
         rbind (fetch ''job'' (get_job (at_job a) d)) (\<lambda>j.
         rbind (require_job_access en now d actor j) (\<lambda>_.
           if af_audience_binding f \<noteq> at_audience_binding a
           then Inl (ValueErr ''Artifact scope is invalid.'') else Inr (f, data))))))"

section \<open>Verifying a result\<close>

definition summary_ok :: "result_payload \<Rightarrow> artifact list \<Rightarrow> bool" where
  "summary_ok r arts = (\<not> list_all is_space (rp_summary r) \<and> list_ex (\<lambda>f. af_kind f = ArtSummary) arts)"

definition last_mutation :: "uuid \<Rightarrow> db \<Rightarrow> operation option" where
  "last_mutation aid d = (let xs = filter (\<lambda>x. oper_attempt x = aid \<and> oper_tool_class x \<in> set mutating_tools)
       (db_operations d)
     in case find (\<lambda>x. oper_finished_at x = None) xs of
          Some x \<Rightarrow> Some x
        | None \<Rightarrow> max_row (\<lambda>x. case oper_finished_at x of None \<Rightarrow> 0 | Some t \<Rightarrow> t) xs)"

definition operation_succeeded :: "uuid option \<Rightarrow> db \<Rightarrow> bool" where
  "operation_succeeded o' d = (case o' of
     None \<Rightarrow> False
   | Some i \<Rightarrow> (case get_operation i d of None \<Rightarrow> False | Some x \<Rightarrow> oper_status x = OpSucceeded))"

definition artifact_available :: "uuid \<Rightarrow> db \<Rightarrow> bool" where
  "artifact_available i d = (case get_artifact i d of None \<Rightarrow> False | Some f \<Rightarrow> af_unavailable_at f = None)"

definition check_proves :: "attempt \<Rightarrow> operation option \<Rightarrow> required_check \<Rightarrow> db \<Rightarrow> bool" where
  "check_proves a mutation c d = (case latest_verification (at_id a) (chk_id c) (at_tree_hash a) d of
     None \<Rightarrow> False
   | Some v \<Rightarrow>
       vf_exit_code v = Some 0 \<and> \<not> vf_timed_out v \<and> artifact_available (vf_output_artifact v) d \<and>
       operation_succeeded (vf_operation v) d \<and> vf_command v = chk_argv c \<and> vf_cwd v = chk_cwd c \<and>
       (case mutation of
          None \<Rightarrow> True
        | Some x \<Rightarrow> (case oper_finished_at x of None \<Rightarrow> True | Some t \<Rightarrow> \<not> vf_started_at v < t)))"

definition remote_commit :: "operation \<Rightarrow> string option" where
  "remote_commit x = map_option (\<lambda>(_, c, _). c) (remote_fields (oper_arguments x))"

definition delivered_by :: "attempt \<Rightarrow> action \<Rightarrow> operation \<Rightarrow> db \<Rightarrow> bool" where
  "delivered_by a act x d =
     (oper_attempt x = at_id a \<and> oper_tool_class x = act \<and> oper_status x = OpSucceeded \<and>
      (case oper_remote_receipt x of
         None \<Rightarrow> False
       | Some r \<Rightarrow>
           Some (rm_commit r) = remote_commit x \<and>
           sbd_tree_hash (oper_scope_binding x) = Some (at_tree_hash a) \<and>
           consumed_approval (oper_id x) d \<and>
           (act = GitDraftPr \<longrightarrow> none_empty (rm_pull_request_id r) \<noteq> [] \<and> none_empty (rm_pull_request_url r) \<noteq> [])))"

definition verify_code :: "job \<Rightarrow> attempt \<Rightarrow> result_payload \<Rightarrow> artifact list \<Rightarrow> db \<Rightarrow> exn + unit" where
  "verify_code j a r arts d =
     (if at_base_commit a = [] \<or> at_tree_hash a = [] \<or> rp_tree_hash r \<noteq> Some (at_tree_hash a)
      then Inl (ValueErr ''Final tree is unavailable.'')
      else if \<not> list_ex (\<lambda>f. af_kind f = ArtDiff) arts then Inl (ValueErr ''Final diff is required.'')
      else (case de_repository (at_descriptor a) of
          None \<Rightarrow> Inl ProtocolInvalid
        | Some w \<Rightarrow>
            if \<not> valid_repository_config w then Inl ProtocolInvalid
            else if rc_required_checks w = [] then Inl (ValueErr ''Required checks are unavailable.'')
            else if \<not> list_all (\<lambda>c. check_proves a (last_mutation (at_id a) d) c d) (rc_required_checks w)
            then Inl RequiredChecksFailed
            else if jb_delivery_target j = TDraftPr \<and>
                    \<not> list_all (\<lambda>act. list_ex (\<lambda>x. delivered_by a act x d) (db_operations d)) remote_tools
            then Inl (ValueErr ''Draft PR delivery is unverified.'') else Inr ()))"

definition verify_result ::
    "job \<Rightarrow> attempt \<Rightarrow> artifact list \<Rightarrow> bool \<Rightarrow> db \<Rightarrow> exn + unit" where
  "verify_result j a arts check_audience d =
     (if jb_status j \<noteq> Verifying \<or> at_active a \<or> at_process_state a \<noteq> Stopped \<or> at_stopped_at a = None
      then Inl (ValueErr ''Empty containment is required before completion.'')
      else rbind (job_conversation j d) (\<lambda>cv.
        if check_audience \<and> at_audience_binding a \<noteq> cv_binding cv then Inl AudienceChanged
        else (case jb_result_proposal j of
            None \<Rightarrow> Inl ProtocolInvalid
          | Some r \<Rightarrow>
              if \<not> valid_result r then Inl ProtocolInvalid
              else if \<not> summary_ok r arts then Inl (ValueErr ''Result summary is required.'')
              else if list_ex (\<lambda>f. af_attempt f \<noteq> at_id a \<or> af_audience_binding f \<noteq> at_audience_binding a) arts
              then Inl (ValueErr ''Result artifact scope is invalid.'')
              else if has_open_input (jb_id j) d then Inl (ValueErr ''Inputs remain unapplied.'')
              else if job_unresolved (jb_id j) d
              then Inl (ValueErr ''Operation outcomes remain unresolved.'')
              else if jb_job_kind j = KCode then verify_code j a r arts d else Inr ())))"

section \<open>Publication\<close>

text \<open>Before the transaction: the proposal, its artifact rows, and every file read back.\<close>

definition proposal_artifacts :: "job \<Rightarrow> result_payload \<Rightarrow> db \<Rightarrow> artifact list" where
  "proposal_artifacts j r d = filter (\<lambda>f. af_id f \<in> set (rp_artifact_ids r) \<and>
     job_of_attempt (af_attempt f) d = Some (jb_id j)) (db_artifacts d)"

definition verification_artifacts :: "job \<Rightarrow> db \<Rightarrow> artifact list" where
  "verification_artifacts j d = filter (\<lambda>f. list_ex (\<lambda>v. vf_output_artifact v = af_id f \<and>
     job_of_attempt (vf_attempt v) d = Some (jb_id j)) (db_verifications d)) (db_artifacts d)"

definition prepare_publication :: "env \<Rightarrow> job \<Rightarrow> db \<Rightarrow> exn + result_payload \<times> artifact list" where
  "prepare_publication en j d = (case jb_result_proposal j of
     None \<Rightarrow> Inl ProtocolInvalid
   | Some r \<Rightarrow>
       if \<not> valid_result r then Inl ProtocolInvalid
       else (let arts = proposal_artifacts j r d in
         if length arts \<noteq> length (remdups (rp_artifact_ids r))
         then Inl (ValueErr ''Result artifacts are unavailable.'')
         else rbind (each (\<lambda>f. rbind (read_artifact en f d) (\<lambda>_. Inr ())) (arts @ verification_artifacts j d))
                (\<lambda>_. Inr (r, arts))))"

definition result_message_content :: "env \<Rightarrow> job \<Rightarrow> string \<Rightarrow> string" where
  "result_message_content en j summary = (case jb_job_kind j of
     KManage \<Rightarrow>
       (let steps = en_team_lines en (jb_id j) in
        if steps = [] then summary
        else summary @ [CHR 0x0A, CHR 0x0A] @ ''Steps taken:'' @ concat (map (\<lambda>s. CHR 0x0A # s) steps))
   | KCode \<Rightarrow> summary @ [CHR 0x0A, CHR 0x0A] @
       (if jb_delivery_target j = TPatch then ''Done. The diff is ready for review.''
        else ''Done. The draft pull request is ready for review.'')
   | KAnswer \<Rightarrow> summary)"

definition job_task_link :: "env \<Rightarrow> job \<Rightarrow> string" where
  "job_task_link en j = en_realm_url en (jb_realm j) @ ''/#agent-jobs/'' @ uuid_str (jb_id j)"

definition audience_destination :: "env \<Rightarrow> audience \<Rightarrow> exn + destination" where
  "audience_destination en aud =
     rbind (fetch ''message'' (en_messages en (aud_anchor aud))) (\<lambda>m.
       Inr (case aud_stream_id aud of
          Some c \<Rightarrow> ToStream c (ms_topic m) | None \<Rightarrow> ToUsers (aud_user_ids aud)))"

text \<open>\<open>check_message\<close> and \<open>do_send_messages\<close>: the new message's id, or a refusal.\<close>

definition send_message :: "job \<Rightarrow> destination \<Rightarrow> string \<Rightarrow> nat option \<Rightarrow> db \<Rightarrow> exn + db \<times> nat" where
  "send_message j dest content sent d = (case sent of
     None \<Rightarrow> Inl JsonableErr
   | Some m \<Rightarrow> Inr (d\<lparr>db_sent := db_sent d @ [\<lparr>sent_job = jb_id j, sent_to = dest,
                  sent_content = content, sent_id = m\<rparr>]\<rparr>, m))"

text \<open>A streamed draft becomes the result message; otherwise a message is sent.\<close>

definition post_result ::
    "job \<Rightarrow> destination \<Rightarrow> string \<Rightarrow> nat option \<Rightarrow> db \<Rightarrow> exn + db \<times> nat" where
  "post_result j dest content sent d = (case jb_result_message j of
     Some m \<Rightarrow> Inr (d\<lparr>db_on_commit := db_on_commit d @ [EditDraftHook m content None]\<rparr>, m)
   | None \<Rightarrow> send_message j dest content sent d)"

definition mark_delivered :: "time \<Rightarrow> job \<Rightarrow> db \<Rightarrow> db" where
  "mark_delivered now j d = (case get_outbox (ResultKey (jb_id j)) d of
     Some x \<Rightarrow> put_outbox (x\<lparr>ob_realm := jb_realm j, ob_job := Some (jb_id j),
                 ob_event_type := ResultPublish, ob_status := ObDelivered, ob_delivered_at := Some now\<rparr>) d
   | None \<Rightarrow> add_outbox \<lparr>ob_key = ResultKey (jb_id j), ob_realm = jb_realm j, ob_job = Some (jb_id j),
                 ob_event_type = ResultPublish, ob_payload_ref = None, ob_attempt_count = 0,
                 ob_next_attempt_at = now, ob_status = ObDelivered, ob_delivered_at = Some now\<rparr> d)"

definition complete_job ::
    "env \<Rightarrow> time \<Rightarrow> job \<Rightarrow> attempt \<Rightarrow> nat \<Rightarrow> bool \<Rightarrow> db \<Rightarrow> exn + db \<times> result_receipt" where
  "complete_job en now j a m private d =
     (let receipt = \<lparr>rcp_message_id = m, rcp_attempt_id = at_id a, rcp_published_at = now,
                     rcp_private = private\<rparr>;
          d1 = update_job (jb_id j) (\<lambda>r. r\<lparr>jb_result_message := Some m, jb_result_receipt := Some receipt,
                 jb_completed_at := Some now, jb_phase := Deliver\<rparr>) d;
          d2 = mark_delivered now j (transition (jb_id j) Completed [] d1)
      in rbind (audit en now (jb_id j) (ServerEv ResultPublished)
                  (ServerPl (APublication (Some m) (if private then ''delivered_privately'' else [])))
                  (Some (at_id a)) AuthPublisher None None d2) (\<lambda>d3. Inr (d3, receipt)))"

definition commit_publication ::
    "env \<Rightarrow> time \<Rightarrow> uuid \<Rightarrow> result_payload \<Rightarrow> artifact list \<Rightarrow> nat option \<Rightarrow> db \<Rightarrow> exn + db \<times> result_receipt" where
  "commit_publication en now jid r arts sent d =
     rbind (fetch ''job'' (get_job jid d)) (\<lambda>j.
       case jb_result_receipt j of
         Some receipt \<Rightarrow> Inr (d, receipt)
       | None \<Rightarrow>
           if \<not> opt_all valid_result (jb_result_proposal j) \<or> jb_result_proposal j = None
           then Inl ProtocolInvalid
           else if jb_result_proposal j \<noteq> Some r then Inl (ValueErr ''Result proposal changed.'')
           else (case latest_attempt jid d of
               None \<Rightarrow> Inl (ValueErr ''Attempt is unavailable.'')
             | Some a \<Rightarrow>
                 rbind (require_audience en d j) (\<lambda>aud.
                 rbind (check_attempt_access en now d (jb_requester j) j a ProfileUse) (\<lambda>_.
                 rbind (verify_result j a arts True d) (\<lambda>_.
                 rbind (reject_secrets d j (utf8 (rp_summary r))) (\<lambda>_.
                 rbind (audience_destination en aud) (\<lambda>dest.
                 rbind (post_result j dest (en_silent_mention en (jb_requester j) @ '' '' @
                          result_message_content en j (rp_summary r) @ '' '' @ job_task_link en j) sent d)
                   (\<lambda>(d1, m). complete_job en now j a m False d1))))))))"

definition park_publication :: "uuid \<Rightarrow> db \<Rightarrow> db" where
  "park_publication jid d = d\<lparr>db_outbox := tbl_where
     (\<lambda>x. ob_job x = Some jid \<and> ob_event_type x = ResultPublish \<and> ob_status x \<noteq> ObDelivered)
     (\<lambda>x. x\<lparr>ob_status := ObBlocked\<rparr>) (db_outbox d)\<rparr>"

definition block_publication ::
    "env \<Rightarrow> time \<Rightarrow> uuid \<Rightarrow> job_state \<Rightarrow> string \<Rightarrow> bool \<Rightarrow> db \<Rightarrow> exn + db" where
  "block_publication en now jid target reason park d =
     rbind (fetch ''job'' (get_job jid d)) (\<lambda>j.
       if jb_status j = Verifying \<and> jb_blocked_reason j \<noteq> reason
       then rbind (audit en now jid (ServerEv PublicationBlocked) (ServerPl (APublication None reason))
                     None AuthPublisher None None (transition jid target reason d)) (\<lambda>d'.
              Inr (if park then park_publication jid d' else d'))
       else Inr d)"

definition try_publication ::
    "env \<Rightarrow> time \<Rightarrow> uuid \<Rightarrow> nat option \<Rightarrow> db \<Rightarrow> exn + db \<times> result_receipt" where
  "try_publication en now jid sent d =
     rbind (fetch ''job'' (get_job jid d)) (\<lambda>j.
       case jb_result_receipt j of
         Some receipt \<Rightarrow> Inr (d, receipt)
       | None \<Rightarrow> rbind (prepare_publication en j d) (\<lambda>(r, arts). commit_publication en now jid r arts sent d))"

text \<open>
  What \<open>publish_result\<close> does with an exception: it parks or blocks the job in a second
  transaction and raises again.  \<open>None\<close> when it does not handle the exception.
\<close>

definition publication_failure :: "exn \<Rightarrow> (job_state \<times> string \<times> bool) option" where
  "publication_failure e =
     (if e = AudienceChanged then Some (Verifying, ''audience_changed'', True)
      else if e = RequiredChecksFailed then Some (Failed, ''verification_failed'', True)
      else if is_value_error e \<or> is_missing_row e \<or> is_jsonable_error e
      then Some (Verifying, ''publication_blocked'', False)
      else None)"

definition publish_result ::
    "env \<Rightarrow> time \<Rightarrow> uuid \<Rightarrow> nat option \<Rightarrow> db \<Rightarrow> db \<times> (exn + result_receipt)" where
  "publish_result en now jid sent d = (case try_publication en now jid sent d of
     Inr (d', receipt) \<Rightarrow> (d', Inr receipt)
   | Inl e \<Rightarrow> (case publication_failure e of
       None \<Rightarrow> (d, Inl e)
     | Some (target, reason, park) \<Rightarrow>
         (case block_publication en now jid target reason park d of
            Inl e' \<Rightarrow> (d, Inl e') | Inr d' \<Rightarrow> (d', Inl e))))"

definition private_first_line :: string where
  "private_first_line = ''This result was sent here because the conversation changed.''"

definition deliver_result_privately ::
    "env \<Rightarrow> time \<Rightarrow> user \<Rightarrow> uuid \<Rightarrow> int \<Rightarrow> nat option \<Rightarrow> db \<Rightarrow> exn + db" where
  "deliver_result_privately en now actor jid expected sent d =
     rbind (realm_job actor jid d) (\<lambda>j.
       if us_id actor \<noteq> jb_requester j then Inl (ValueErr ''Job cannot deliver privately.'')
       else if jb_result_receipt j \<noteq> None then Inr d
       else if jb_status j \<noteq> Verifying \<or> jb_blocked_reason j \<noteq> ''audience_changed'' \<or>
               jb_version j \<noteq> expected
       then Inl (ValueErr ''Job cannot deliver privately.'')
       else (case jb_source_message j of
           None \<Rightarrow> Inl AssertionErr
         | Some src \<Rightarrow>
             if en_access_message en (us_id actor) src = None then Inl JsonableErr
             else (case jb_result_proposal j of
                 None \<Rightarrow> Inl ProtocolInvalid
               | Some r \<Rightarrow>
                   if \<not> valid_result r then Inl ProtocolInvalid
                   else (let arts = proposal_artifacts j r d in
                     if length arts \<noteq> length (remdups (rp_artifact_ids r))
                     then Inl (ValueErr ''Result artifacts are unavailable.'')
                     else (case latest_attempt jid d of
                         None \<Rightarrow> Inl (ValueErr ''Attempt is unavailable.'')
                       | Some a \<Rightarrow>
                           rbind (check_attempt_access en now d (us_id actor) j a ProfileUse) (\<lambda>_.
                           rbind (verify_result j a arts False d) (\<lambda>_.
                           rbind (reject_secrets d j (utf8 (rp_summary r))) (\<lambda>_.
                           rbind (send_message j (ToUsers [jb_requester j])
                               (private_first_line @ CHR 0x0A # en_silent_mention en (jb_requester j) @ '' '' @
                                result_message_content en j (rp_summary r) @ '' '' @ job_task_link en j)
                               sent d) (\<lambda>(d1, m).
                           rbind (complete_job en now j a m True d1) (\<lambda>(d2, _). Inr d2))))))))))"

section \<open>Drafts and notices\<close>

text \<open>The mark at the end of a draft (U+258D) is outside the characters of the model.\<close>

definition publish_draft ::
    "env \<Rightarrow> time \<Rightarrow> string \<Rightarrow> runner \<Rightarrow> lease_identity \<Rightarrow> string \<Rightarrow> nat option \<Rightarrow> db \<Rightarrow> exn + db" where
  "publish_draft en now mark ru li t sent d =
     rbind (locked_attempt en now ru (li_job_id li) (li_attempt_id li) (li_lease_epoch li) None True d)
       (\<lambda>(j, a).
         if jb_job_kind j \<noteq> KAnswer \<or> jb_result_receipt j \<noteq> None then Inr d
         else rbind (require_audience en d j) (\<lambda>aud.
           rbind (check_attempt_access en now d (jb_requester j) j a ProfileUse) (\<lambda>_.
           rbind (reject_secrets d j (utf8 t)) (\<lambda>_.
             (let content = en_silent_mention en (jb_requester j) @ '' '' @ t @ mark in
              case jb_result_message j of
                Some m \<Rightarrow> Inr (d\<lparr>db_on_commit := db_on_commit d @ [EditDraftHook m content (Some (jb_id j))]\<rparr>)
              | None \<Rightarrow>
                  rbind (audience_destination en aud) (\<lambda>dest.
                  rbind (send_message j dest content sent d) (\<lambda>(d1, m).
                    Inr (update_job (jb_id j) (\<lambda>r. r\<lparr>jb_result_message := Some m\<rparr>) d1))))))))"

definition join_parts :: "string list \<Rightarrow> string" where
  "join_parts ps = (case filter (\<lambda>p. p \<noteq> []) ps of
     [] \<Rightarrow> [] | q # qs \<Rightarrow> q @ concat (map (\<lambda>s. '' '' @ s) qs))"

definition requester_mention :: "user \<Rightarrow> string" where
  "requester_mention u = ''@**'' @ us_full_name u @ ''|'' @ nat_str (us_id u) @ ''**''"

text \<open>At most one notice per marker: the marker row and the message are written together.\<close>

definition post_job_notice ::
    "env \<Rightarrow> time \<Rightarrow> uuid \<Rightarrow> delivery_key \<Rightarrow> string \<Rightarrow> bool \<Rightarrow> nat option \<Rightarrow> db \<Rightarrow> exn + db \<times> bool" where
  "post_job_notice en now jid marker sentence mention sent d =
     (if get_outbox marker d \<noteq> None then Inr (d, False)
      else rbind (fetch ''job'' (get_job jid d)) (\<lambda>j.
        rbind (require_audience en d j) (\<lambda>aud.
        rbind (audience_destination en aud) (\<lambda>dest.
        rbind (fetch ''user'' (get_user en (jb_requester j))) (\<lambda>u.
        rbind (send_message j dest
                 (join_parts [if mention then requester_mention u else [], sentence, job_task_link en j])
                 sent d) (\<lambda>(d1, _).
          Inr (add_outbox \<lparr>ob_key = marker, ob_realm = jb_realm j, ob_job = Some jid,
                 ob_event_type = StatusNotice, ob_payload_ref = None, ob_attempt_count = 0,
                 ob_next_attempt_at = now, ob_status = ObDelivered, ob_delivered_at = Some now\<rparr> d1, True)))))))"

end
