(* ===== verification/Agent_Reconcile.thy ===== *)
theory Agent_Reconcile
  imports Agent_Results
begin

text \<open>
  The recovery pass of \<^verbatim>\<open>zerver/lib/agent_reconcile.py\<close>: queues past their deadline, expired
  leases and approvals are settled in one transaction (\<open>reconcile_records\<close>), then every due row
  of the outbox is taken, delivered and settled (\<open>reconcile_outbox\<close>).  The exponential backoff
  is in seconds.
\<close>

section \<open>Records\<close>

fun over :: "('a \<Rightarrow> db \<Rightarrow> exn + db) \<Rightarrow> 'a list \<Rightarrow> db \<Rightarrow> exn + db" where
  "over f [] d = Inr d"
| "over f (x # xs) d = rbind (f x d) (over f xs)"

definition expired_queues :: "time \<Rightarrow> nat \<Rightarrow> db \<Rightarrow> job list" where
  "expired_queues now limit d = take limit (sort_key jb_created_at (filter (\<lambda>j. jb_status j = Queued \<and>
     (case jb_start_deadline j of None \<Rightarrow> False | Some t \<Rightarrow> t \<le> now)) (db_jobs d)))"

definition expire_queue :: "job \<Rightarrow> db \<Rightarrow> db" where
  "expire_queue j d = transition (jb_id j) Blocked ''start_deadline_expired'' d"

definition lost_leases :: "time \<Rightarrow> nat \<Rightarrow> db \<Rightarrow> attempt list" where
  "lost_leases now limit d = take limit (sort_key at_lease_expires_at (filter (\<lambda>a. at_active a \<and>
     at_lease_expires_at a \<le> now \<and> at_process_state a \<noteq> ProcUnknown) (db_attempts d)))"

definition interrupt_attempt :: "env \<Rightarrow> time \<Rightarrow> attempt \<Rightarrow> db \<Rightarrow> exn + db" where
  "interrupt_attempt en now a d =
     rbind (fetch ''job'' (get_job (at_job a) d)) (\<lambda>j.
       audit_server en now (jb_id j) SrvAttemptInterrupted (AJobState Interrupted ''lease_lost'')
         (Some (at_id a)) None
         (transition (jb_id j) Interrupted ''lease_lost''
           (abandon_work (at_id a) (update_attempt (at_id a) (\<lambda>r. r\<lparr>at_process_state := ProcUnknown\<rparr>) d))))"

definition expired_approvals :: "time \<Rightarrow> nat \<Rightarrow> db \<Rightarrow> approval list" where
  "expired_approvals now limit d = take limit (filter (\<lambda>p. ap_decision p \<in> {ApPending, ApApproved} \<and>
     ap_expires_at p \<le> now) (db_approvals d))"

definition expire_approval :: "env \<Rightarrow> time \<Rightarrow> approval \<Rightarrow> db \<Rightarrow> exn + db" where
  "expire_approval en now p d =
     (let d1 = update_approval (ap_id p) (\<lambda>r. r\<lparr>ap_decision := ApExpired\<rparr>) d in
      rbind (fetch ''job'' (get_job (ap_job p) d1)) (\<lambda>j.
      rbind (fetch ''attempt'' (get_attempt (ap_attempt p) d1)) (\<lambda>a.
        if at_active a then request_stop en now j (Some (at_id a)) Blocked ''approval_expired'' d1
        else Inr d1)))"

definition reconcile_records :: "env \<Rightarrow> time \<Rightarrow> nat \<Rightarrow> db \<Rightarrow> exn + db" where
  "reconcile_records en now limit d0 =
     (if \<not> (1 \<le> limit \<and> limit \<le> 1000) then Inl (ValueErr ''Invalid reconciliation limit.'')
      else (let d1 = fold expire_queue (expired_queues now limit d0) d0 in
        rbind (over (interrupt_attempt en now) (lost_leases now limit d1) d1) (\<lambda>d2.
          over (expire_approval en now) (expired_approvals now limit d2) d2)))"

section \<open>The outbox\<close>

definition due_deliveries :: "time \<Rightarrow> nat \<Rightarrow> db \<Rightarrow> outbox list" where
  "due_deliveries now limit d = take limit (sort_key ob_next_attempt_at
     (filter (\<lambda>x. ob_status x \<in> {ObPending, ObProcessing} \<and> ob_next_attempt_at x \<le> now) (db_outbox d)))"

definition backoff :: "nat \<Rightarrow> int" where
  "backoff n = min 300 (2 ^ min n 8)"

definition take_delivery :: "time \<Rightarrow> delivery_key \<Rightarrow> db \<Rightarrow> exn + db \<times> outbox option" where
  "take_delivery now key d =
     rbind (fetch ''outbox'' (get_outbox key d)) (\<lambda>x.
       if ob_status x = ObDelivered \<or> now < ob_next_attempt_at x then Inr (d, None)
       else (let y = x\<lparr>ob_status := ObProcessing, ob_attempt_count := ob_attempt_count x + 1,
                       ob_next_attempt_at := now + backoff (ob_attempt_count x + 1)\<rparr>
             in Inr (put_outbox y d, Some y)))"

text \<open>Without a notifier, a wake is done when its job left the queue, a stop when its attempt ended.\<close>

definition moot :: "outbox \<Rightarrow> db \<Rightarrow> bool" where
  "moot x d = (case ob_job x of
     None \<Rightarrow> False
   | Some jid \<Rightarrow>
       (if ob_event_type x = JobWake
        then (case get_job jid d of None \<Rightarrow> False | Some j \<Rightarrow> jb_status j \<noteq> Queued)
        else (case ob_payload_ref x of
            None \<Rightarrow> True
          | Some aid \<Rightarrow> \<not> list_ex (\<lambda>a. at_id a = aid \<and> at_active a) (db_attempts d))))"

text \<open>\<open>notify\<close>: no notifier, or whether it accepted the event.\<close>

definition deliver ::
    "env \<Rightarrow> time \<Rightarrow> (uuid \<Rightarrow> nat option) \<Rightarrow> (outbox \<Rightarrow> bool) option \<Rightarrow> outbox \<Rightarrow> db \<Rightarrow> db \<times> bool" where
  "deliver en now sent notify x d =
     (if ob_event_type x = ResultPublish \<and> ob_job x \<noteq> None then
        (let jid = the (ob_job x); (d', r) = publish_result en now jid (sent jid) d in (d', succeeds r))
      else (case notify of
          Some f \<Rightarrow> (d, f x)
        | None \<Rightarrow> (d, moot x d)))"

definition settle_delivery :: "time \<Rightarrow> delivery_key \<Rightarrow> bool \<Rightarrow> db \<Rightarrow> exn + db" where
  "settle_delivery now key delivered d =
     rbind (fetch ''outbox'' (get_outbox key d)) (\<lambda>x.
       if ob_status x \<in> {ObDelivered, ObBlocked} then Inr d
       else Inr (put_outbox (x\<lparr>ob_status := (if delivered then ObDelivered else ObPending),
                   ob_delivered_at := (if delivered then Some now else None)\<rparr>) d))"

definition reconcile_one ::
    "env \<Rightarrow> time \<Rightarrow> (uuid \<Rightarrow> nat option) \<Rightarrow> (outbox \<Rightarrow> bool) option \<Rightarrow> delivery_key \<Rightarrow> db \<Rightarrow> exn + db" where
  "reconcile_one en now sent notify key d =
     rbind (take_delivery now key d) (\<lambda>(d1, x). case x of
       None \<Rightarrow> Inr d1
     | Some y \<Rightarrow> (let (d2, delivered) = deliver en now sent notify y d1 in settle_delivery now key delivered d2))"

definition reconcile_outbox ::
    "env \<Rightarrow> time \<Rightarrow> (uuid \<Rightarrow> nat option) \<Rightarrow> (outbox \<Rightarrow> bool) option \<Rightarrow> nat \<Rightarrow> db \<Rightarrow> exn + db" where
  "reconcile_outbox en now sent notify limit d =
     over (reconcile_one en now sent notify) (map ob_key (due_deliveries now limit d)) d"

definition reconcile_agents ::
    "env \<Rightarrow> time \<Rightarrow> (uuid \<Rightarrow> nat option) \<Rightarrow> (outbox \<Rightarrow> bool) option \<Rightarrow> nat \<Rightarrow> db \<Rightarrow> exn + db" where
  "reconcile_agents en now sent notify limit d =
     rbind (reconcile_records en now limit d) (reconcile_outbox en now sent notify limit)"

section \<open>Folding a step over rows\<close>

lemma over_invariant:
  assumes "over f xs d = Inr d'" "P d"
    and "\<And>x d d'. x \<in> set xs \<Longrightarrow> f x d = Inr d' \<Longrightarrow> P d \<Longrightarrow> P d'"
  shows "P d'"
  using assms by (induction xs arbitrary: d) auto

lemma fold_invariant_db:
  assumes "P d" "\<And>x d. x \<in> set xs \<Longrightarrow> P d \<Longrightarrow> P (f x d)"
  shows "P (fold f xs d)"
  using assms by (induction xs arbitrary: d) auto

end
