(* ===== verification/Systems.thy ===== *)
theory Systems
  imports Main
begin

text \<open>
  Two interfaces between step relations.  \<open>invariant_system\<close> is a step relation together with a
  predicate every step keeps; what it promises is that the predicate holds along every run.
  \<open>simulation\<close> relates a detailed step relation to an abstract one through an abstraction
  function, on the states that are \<open>good\<close>; it promises that every detailed run is an abstract run,
  so that the invariants of the abstract system hold of the detailed one.
\<close>

section \<open>Invariants along runs\<close>

locale invariant_system =
  fixes step :: "'s \<Rightarrow> 's \<Rightarrow> bool"
    and inv :: "'s \<Rightarrow> bool"
  assumes keeps: "step s t \<Longrightarrow> inv s \<Longrightarrow> inv t"
begin

lemma along: "step\<^sup>*\<^sup>* s t \<Longrightarrow> inv s \<Longrightarrow> inv t"
  by (induction rule: rtranclp_induct) (auto intro: keeps)

end

section \<open>Relations kept along runs\<close>

text \<open>
  A relation between the first and the last state of a run: reflexive, transitive and true of
  every single step from a state that satisfies the invariant.
\<close>

locale evolution = invariant_system +
  fixes ordered :: "'s \<Rightarrow> 's \<Rightarrow> bool"
  assumes stays: "ordered s s"
    and chains: "ordered s t \<Longrightarrow> ordered t u \<Longrightarrow> ordered s u"
    and moves: "step s t \<Longrightarrow> inv s \<Longrightarrow> ordered s t"
begin

lemma evolves: "step\<^sup>*\<^sup>* s t \<Longrightarrow> inv s \<Longrightarrow> ordered s t"
proof (induction rule: rtranclp_induct)
  case base
  show ?case by (rule stays)
next
  case (step y z)
  from step.hyps(1) step.prems have "inv y" by (rule along)
  with step show ?case by (blast intro: chains moves)
qed

end

section \<open>Simulation\<close>

locale simulation =
  fixes cstep :: "'c \<Rightarrow> 'c \<Rightarrow> bool"
    and astep :: "'a \<Rightarrow> 'a \<Rightarrow> bool"
    and abs :: "'c \<Rightarrow> 'a"
    and good :: "'c \<Rightarrow> bool"
  assumes good_step: "cstep c d \<Longrightarrow> good c \<Longrightarrow> good d"
    and simulates: "cstep c d \<Longrightarrow> good c \<Longrightarrow> astep\<^sup>*\<^sup>* (abs c) (abs d)"
begin

lemma good_run: "cstep\<^sup>*\<^sup>* c d \<Longrightarrow> good c \<Longrightarrow> good d"
  by (induction rule: rtranclp_induct) (auto intro: good_step)

lemma run: "cstep\<^sup>*\<^sup>* c d \<Longrightarrow> good c \<Longrightarrow> astep\<^sup>*\<^sup>* (abs c) (abs d)"
proof (induction rule: rtranclp_induct)
  case (step y z)
  from step.hyps(1) step.prems have "good y" by (rule good_run)
  with step show ?case by (auto intro: rtranclp_trans simulates)
qed simp

end

text \<open>An invariant of the abstract system is one of the detailed system.\<close>

locale simulated_invariant = simulation cstep astep abs good + abstract: invariant_system astep inv
  for cstep :: "'c \<Rightarrow> 'c \<Rightarrow> bool" and astep :: "'a \<Rightarrow> 'a \<Rightarrow> bool" and abs :: "'c \<Rightarrow> 'a"
    and good :: "'c \<Rightarrow> bool" and inv :: "'a \<Rightarrow> bool"
begin

lemma concrete_keeps: "cstep c d \<Longrightarrow> good c \<and> inv (abs c) \<Longrightarrow> good d \<and> inv (abs d)"
  using good_step simulates abstract.along by blast

lemma concrete_along: "cstep\<^sup>*\<^sup>* c d \<Longrightarrow> good c \<Longrightarrow> inv (abs c) \<Longrightarrow> good d \<and> inv (abs d)"
  using good_run run abstract.along by blast

end

end
