(* ===== verification/Lifecycle.thy ===== *)
theory Lifecycle
  imports Systems Agent_Models
begin

text \<open>
  The abstract life of a task: a job has a status, a version, the state it goes to when a stop is
  confirmed and, once, a receipt; an attempt belongs to a job, has a number and a process state
  and is active until its containment is confirmed empty.  \<open>lstep\<close> is the whole state machine, one
  rule for each thing that can happen to a task; the handlers of the service are proved to be runs
  of it.  \<open>linv\<close> is its invariant: an active attempt is the newest of its job, exists exactly in
  the states that say so, and a job has a receipt exactly when it is completed.
\<close>

section \<open>States\<close>

record jcore =
  jc_status :: job_state
  jc_version :: int
  jc_target :: job_state
  jc_receipt :: "result_receipt option"

record acore =
  ac_job :: uuid
  ac_number :: int
  ac_active :: bool
  ac_process :: process_state

record lifecycle =
  lf_job :: "uuid \<Rightarrow> jcore option"
  lf_attempt :: "uuid \<Rightarrow> acore option"

definition set_job :: "uuid \<Rightarrow> jcore \<Rightarrow> lifecycle \<Rightarrow> lifecycle" where
  "set_job i j s = s\<lparr>lf_job := (lf_job s)(i \<mapsto> j)\<rparr>"

definition set_attempt :: "uuid \<Rightarrow> acore \<Rightarrow> lifecycle \<Rightarrow> lifecycle" where
  "set_attempt k a s = s\<lparr>lf_attempt := (lf_attempt s)(k \<mapsto> a)\<rparr>"

definition goto :: "job_state \<Rightarrow> jcore \<Rightarrow> jcore" where
  "goto st j = j\<lparr>jc_status := st, jc_version := jc_version j + 1\<rparr>"

lemma set_simps [simp]:
  "lf_job (set_job i j s) = (lf_job s)(i \<mapsto> j)" "lf_attempt (set_job i j s) = lf_attempt s"
  "lf_job (set_attempt k a s) = lf_job s" "lf_attempt (set_attempt k a s) = (lf_attempt s)(k \<mapsto> a)"
  by (simp_all add: set_job_def set_attempt_def)

lemma goto_simps [simp]:
  "jc_status (goto st j) = st" "jc_version (goto st j) = jc_version j + 1"
  "jc_target (goto st j) = jc_target j" "jc_receipt (goto st j) = jc_receipt j"
  by (simp_all add: goto_def)

text \<open>The active attempts of a job, no active attempt, the newest attempt.\<close>

definition runs :: "lifecycle \<Rightarrow> uuid \<Rightarrow> uuid \<Rightarrow> acore \<Rightarrow> bool" where
  "runs s i k a = (lf_attempt s k = Some a \<and> ac_job a = i \<and> ac_active a)"

definition idle :: "lifecycle \<Rightarrow> uuid \<Rightarrow> bool" where
  "idle s i = (\<forall>k a. \<not> runs s i k a)"

definition newest :: "lifecycle \<Rightarrow> uuid \<Rightarrow> uuid \<Rightarrow> acore \<Rightarrow> bool" where
  "newest s i k a = (lf_attempt s k = Some a \<and> ac_job a = i \<and>
     (\<forall>k' a'. lf_attempt s k' = Some a' \<longrightarrow> ac_job a' = i \<longrightarrow> ac_number a' \<le> ac_number a))"

definition ended_states :: "job_state set" where
  "ended_states = {Completed, Cancelled, Failed, Interrupted, Blocked}"

definition working_states :: "job_state set" where
  "working_states = {Running, WaitingForInput, WaitingForApproval, Verifying}"

definition stop_targets :: "job_state set" where
  "stop_targets = {Cancelled, Blocked}"

section \<open>The machine\<close>

inductive lstep :: "lifecycle \<Rightarrow> lifecycle \<Rightarrow> bool" where
  admit: "lf_job s i = None \<Longrightarrow> jc_status j \<in> {Draft, Queued, Blocked} \<Longrightarrow>
    jc_receipt j = None \<Longrightarrow> jc_target j \<in> stop_targets \<Longrightarrow> lstep s (set_job i j s)"
| complete_draft: "lf_job s i = Some j \<Longrightarrow> jc_status j = Draft \<Longrightarrow>
    lstep s (set_job i (goto Queued (j\<lparr>jc_target := Cancelled, jc_receipt := None\<rparr>)) s)"
| queue: "lf_job s i = Some j \<Longrightarrow> jc_status j \<in> {Cancelled, Failed, Interrupted, Blocked} \<Longrightarrow>
    idle s i \<Longrightarrow> lstep s (set_job i (goto Queued j) s)"
| expire: "lf_job s i = Some j \<Longrightarrow> jc_status j = Queued \<Longrightarrow> lstep s (set_job i (goto Blocked j) s)"
| withdraw: "lf_job s i = Some j \<Longrightarrow> jc_status j \<notin> {CancelRequested, Cancelled, Completed} \<Longrightarrow>
    idle s i \<Longrightarrow> t \<in> stop_targets \<Longrightarrow> lstep s (set_job i (goto t (j\<lparr>jc_target := t\<rparr>)) s)"
| claim: "lf_job s i = Some j \<Longrightarrow> jc_status j = Queued \<Longrightarrow> idle s i \<Longrightarrow> lf_attempt s k = None \<Longrightarrow>
    n = 1 \<or> (\<exists>k' a. lf_attempt s k' = Some a \<and> ac_job a = i \<and> n = ac_number a + 1) \<Longrightarrow>
    (\<And>k' a. lf_attempt s k' = Some a \<Longrightarrow> ac_job a = i \<Longrightarrow> ac_number a < n) \<Longrightarrow>
    lstep s (set_attempt k \<lparr>ac_job = i, ac_number = n, ac_active = True, ac_process = Starting\<rparr>
      (set_job i (goto Running j) s))"
| start: "runs s i k a \<Longrightarrow> ac_process a = Starting \<Longrightarrow> lstep s (set_attempt k (a\<lparr>ac_process := Active\<rparr>) s)"
| advance: "runs s i k a \<Longrightarrow> ac_process a \<in> {Starting, Active} \<Longrightarrow> lf_job s i = Some j \<Longrightarrow>
    jc_status j \<in> working_states \<Longrightarrow> st \<in> insert Interrupted working_states \<Longrightarrow>
    lstep s (set_job i (goto st j) s)"
| steer: "lf_job s i = Some j \<Longrightarrow> jc_status j \<notin> insert CancelRequested ended_states \<Longrightarrow>
    jc_status j = Queued \<or> \<not> idle s i \<Longrightarrow> st = jc_status j \<or> (st = Running \<and> \<not> idle s i) \<Longrightarrow>
    lstep s (set_job i (goto st j) s)"
| fence: "runs s i k a \<Longrightarrow> ac_process a = Active \<Longrightarrow> lf_job s i = Some j \<Longrightarrow> jc_status j = Verifying \<Longrightarrow>
    lstep s (set_attempt k (a\<lparr>ac_process := Stopping\<rparr>) (set_job i (goto Verifying j) s))"
| stop: "runs s i k a \<Longrightarrow> lf_job s i = Some j \<Longrightarrow> t \<in> stop_targets \<Longrightarrow>
    lstep s (set_attempt k (a\<lparr>ac_process := Stopping\<rparr>)
      (set_job i (goto CancelRequested (j\<lparr>jc_target := t\<rparr>)) s))"
| lose: "runs s i k a \<Longrightarrow> lf_job s i = Some j \<Longrightarrow>
    lstep s (set_attempt k (a\<lparr>ac_process := ProcUnknown\<rparr>) (set_job i (goto Interrupted j) s))"
| stopped: "runs s i k a \<Longrightarrow> lf_job s i = Some j \<Longrightarrow>
    j' = goto (jc_target j) j \<or>
    (jc_status j \<notin> insert Verifying ended_states \<and> j' = goto Interrupted j) \<or>
    (jc_status j \<in> insert Verifying ended_states \<and> j' = j) \<Longrightarrow>
    lstep s (set_attempt k (a\<lparr>ac_active := False, ac_process := Stopped\<rparr>) (set_job i j' s))"
| hold: "lf_job s i = Some j \<Longrightarrow> jc_status j = Verifying \<Longrightarrow>
    st = Verifying \<or> (st = Failed \<and> newest s i k a \<and> \<not> ac_active a) \<Longrightarrow>
    lstep s (set_job i (goto st j) s)"
| publish: "lf_job s i = Some j \<Longrightarrow> jc_status j = Verifying \<Longrightarrow> newest s i k a \<Longrightarrow> \<not> ac_active a \<Longrightarrow>
    lstep s (set_job i (goto Completed (j\<lparr>jc_receipt := Some r\<rparr>)) s)"
| revoke: "(\<And>k. k \<in> ks \<Longrightarrow> \<exists>i a. runs s i k a) \<Longrightarrow>
    lstep s \<lparr>lf_job = (\<lambda>i. if \<exists>k\<in>ks. \<exists>a. runs s i k a
                        then map_option (goto CancelRequested) (lf_job s i) else lf_job s i),
      lf_attempt = (\<lambda>k. if k \<in> ks then map_option (\<lambda>a. a\<lparr>ac_process := Stopping\<rparr>) (lf_attempt s k)
                        else lf_attempt s k)\<rparr>"

section \<open>The invariant\<close>

definition attempts_ok :: "lifecycle \<Rightarrow> bool" where
  "attempts_ok s = (\<forall>k a. lf_attempt s k = Some a \<longrightarrow>
     lf_job s (ac_job a) \<noteq> None \<and> 1 \<le> ac_number a \<and> ac_active a = (ac_process a \<noteq> Stopped))"

definition numbers_ok :: "lifecycle \<Rightarrow> bool" where
  "numbers_ok s = (\<forall>k a k' a'. lf_attempt s k = Some a \<longrightarrow> lf_attempt s k' = Some a' \<longrightarrow> k \<noteq> k' \<longrightarrow>
     ac_job a = ac_job a' \<longrightarrow>
     ac_number a \<noteq> ac_number a' \<and> (ac_active a \<longrightarrow> ac_number a' < ac_number a))"

definition job_ok :: "bool \<Rightarrow> jcore \<Rightarrow> bool" where
  "job_ok running j =
     ((jc_status j \<in> {Running, WaitingForInput, WaitingForApproval, CancelRequested} \<longrightarrow> running) \<and>
      (jc_status j \<in> {Draft, Queued, Cancelled, Blocked, Failed, Completed} \<longrightarrow> \<not> running) \<and>
      jc_target j \<in> stop_targets \<and> (jc_receipt j \<noteq> None) = (jc_status j = Completed))"

definition jobs_ok :: "lifecycle \<Rightarrow> bool" where
  "jobs_ok s = (\<forall>i j. lf_job s i = Some j \<longrightarrow> job_ok (\<not> idle s i) j)"

definition linv :: "lifecycle \<Rightarrow> bool" where
  "linv s = (attempts_ok s \<and> numbers_ok s \<and> jobs_ok s)"

lemma linvD:
  "linv s \<Longrightarrow> attempts_ok s" "linv s \<Longrightarrow> numbers_ok s" "linv s \<Longrightarrow> jobs_ok s"
  by (simp_all add: linv_def)

lemma runs_newest: "numbers_ok s \<Longrightarrow> runs s i k a \<Longrightarrow> newest s i k' a' \<Longrightarrow> k' = k \<and> a' = a"
  unfolding numbers_ok_def runs_def newest_def by (metis linorder_not_less option.inject)

lemma newest_idle: "numbers_ok s \<Longrightarrow> newest s i k a \<Longrightarrow> \<not> ac_active a \<Longrightarrow> idle s i"
  unfolding idle_def by (metis runs_newest runs_def)

lemma runs_unique: "numbers_ok s \<Longrightarrow> runs s i k a \<Longrightarrow> runs s i k' a' \<Longrightarrow> k' = k \<and> a' = a"
  unfolding numbers_ok_def runs_def by (metis less_asym option.inject)

subsection \<open>Changing one job\<close>

lemma runs_set_job [simp]: "runs (set_job i j s) = runs s"
  by (intro ext) (simp add: runs_def)

lemma idle_set_job [simp]: "idle (set_job i j s) = idle s"
  by (intro ext) (simp add: idle_def)

lemma linv_set_job: "linv s \<Longrightarrow> job_ok (\<not> idle s i) j \<Longrightarrow> linv (set_job i j s)"
  unfolding linv_def attempts_ok_def numbers_ok_def jobs_ok_def by auto

lemma linv_job: "linv s \<Longrightarrow> lf_job s i = Some j \<Longrightarrow> job_ok (\<not> idle s i) j"
  by (simp add: linv_def jobs_ok_def)

lemma runs_not_idle: "runs s i k a \<Longrightarrow> \<not> idle s i"
  by (auto simp: idle_def)

subsection \<open>Changing one attempt\<close>

lemma runs_set_attempt:
  "runs (set_attempt k a s) i k' b =
     (if k' = k then b = a \<and> ac_job a = i \<and> ac_active a else runs s i k' b)"
  by (auto simp: runs_def)

lemma idle_set_attempt:
  "idle (set_attempt k a s) i =
     (\<not> (ac_job a = i \<and> ac_active a) \<and> (\<forall>k' b. k' \<noteq> k \<longrightarrow> \<not> runs s i k' b))"
  by (auto simp: idle_def runs_set_attempt)

lemma idle_set_other:
  "(\<And>b. \<not> runs s x k b) \<Longrightarrow> \<not> (ac_job a = x \<and> ac_active a) \<Longrightarrow> idle (set_attempt k a s) x = idle s x"
  unfolding idle_def runs_set_attempt by metis

lemma runs_job: "runs s i k a \<Longrightarrow> runs s i' k b \<Longrightarrow> i' = i \<and> b = a"
  by (auto simp: runs_def)

lemma numbers_ok_mono:
  assumes "numbers_ok s"
    and sub: "\<And>k a. lf_attempt t k = Some a \<Longrightarrow> \<exists>b. lf_attempt s k = Some b \<and> ac_job b = ac_job a \<and>
      ac_number b = ac_number a \<and> (ac_active a \<longrightarrow> ac_active b)"
  shows "numbers_ok t"
  unfolding numbers_ok_def
proof (intro allI impI)
  fix k a k' a'
  assume "lf_attempt t k = Some a" "lf_attempt t k' = Some a'" and n: "k \<noteq> k'" "ac_job a = ac_job a'"
  with sub obtain b b' where "lf_attempt s k = Some b" "lf_attempt s k' = Some b'"
    "ac_job b = ac_job a" "ac_number b = ac_number a" "ac_active a \<longrightarrow> ac_active b"
    "ac_job b' = ac_job a'" "ac_number b' = ac_number a'" by metis
  with n assms(1) show "ac_number a \<noteq> ac_number a' \<and> (ac_active a \<longrightarrow> ac_number a' < ac_number a)"
    unfolding numbers_ok_def by (metis (no_types, lifting))
qed

text \<open>A running attempt that keeps running.\<close>

lemma runs_set_running:
  assumes "runs s i k a" "ac_job a' = i" "ac_active a'"
  shows "idle (set_attempt k a' s) = idle s"
proof
  fix x
  show "idle (set_attempt k a' s) x = idle s x"
  proof (cases "x = i")
    case True
    with assms runs_not_idle [OF assms(1)] show ?thesis by (simp add: idle_set_attempt)
  next
    case False
    with assms runs_job [OF assms(1), of x] show ?thesis
      by (intro idle_set_other) auto
  qed
qed

lemma linv_set_running:
  assumes "linv s" "runs s i k a" "ac_job a' = i" "ac_active a'" "ac_process a' \<noteq> Stopped"
    and "ac_number a' = ac_number a"
  shows "linv (set_attempt k a' s)"
proof -
  have "lf_job s i \<noteq> None" "1 \<le> ac_number a"
    using assms(1,2) by (auto simp: linv_def attempts_ok_def runs_def)
  then have "attempts_ok (set_attempt k a' s)"
    using assms(1,3-6) by (auto simp: linv_def attempts_ok_def)
  moreover have "numbers_ok (set_attempt k a' s)"
    by (rule numbers_ok_mono [OF linvD(2) [OF assms(1)]])
      (use assms in \<open>auto simp: runs_def split: if_splits\<close>)
  moreover have "jobs_ok (set_attempt k a' s)"
    using assms(1) by (simp add: linv_def jobs_ok_def runs_set_running [OF assms(2-4)])
  ultimately show ?thesis by (simp add: linv_def)
qed

text \<open>Ending the attempt that runs.\<close>

lemma idle_end:
  assumes "numbers_ok s" "runs s i k a"
  shows "idle (set_attempt k (a\<lparr>ac_active := False, ac_process := Stopped\<rparr>) s) x =
    (if x = i then True else idle s x)"
proof (cases "x = i")
  case True
  with runs_unique [OF assms] show ?thesis
    unfolding idle_set_attempt by simp blast
next
  case False
  with runs_job [OF assms(2), of x] have "\<not> runs s x k b" for b by blast
  with False show ?thesis
    by (simp add: idle_set_other)
qed

lemma linv_end:
  assumes "linv s" "runs s i k a" "job_ok False j"
  shows "linv (set_attempt k (a\<lparr>ac_active := False, ac_process := Stopped\<rparr>) (set_job i j s))"
    (is "linv ?t")
proof -
  have n: "numbers_ok (set_job i j s)" and r: "runs (set_job i j s) i k a"
    using assms by (auto simp: linv_def numbers_ok_def)
  have "attempts_ok ?t"
    using assms(1,2) by (auto simp: linv_def attempts_ok_def runs_def)
  moreover have "numbers_ok ?t"
    by (rule numbers_ok_mono [OF n]) (use r in \<open>auto simp: runs_def split: if_splits\<close>)
  moreover have "jobs_ok ?t"
    using assms(1,3) by (auto simp: linv_def jobs_ok_def idle_end [OF n r])
  ultimately show ?thesis by (simp add: linv_def)
qed

text \<open>A new attempt of an idle job.\<close>

lemma linv_claim:
  assumes "linv s" "lf_job s i = Some j" "idle s i" "lf_attempt s k = None" "1 \<le> n"
    and less: "\<And>k' a. lf_attempt s k' = Some a \<Longrightarrow> ac_job a = i \<Longrightarrow> ac_number a < n"
    and ok: "job_ok True j'"
  shows "linv (set_attempt k \<lparr>ac_job = i, ac_number = n, ac_active = True, ac_process = Starting\<rparr>
      (set_job i j' s))" (is "linv ?t")
proof -
  have i: "idle ?t x = (if x = i then False else idle s x)" for x
  proof (cases "x = i")
    case False
    then show ?thesis using assms(4) by (subst idle_set_other) (auto simp: runs_def)
  qed (simp add: idle_set_attempt)
  have "attempts_ok ?t"
    using assms(1,5) by (auto simp: linv_def attempts_ok_def)
  moreover have "numbers_ok ?t"
    unfolding numbers_ok_def
  proof (intro allI impI)
    fix x a y b
    assume x: "lf_attempt ?t x = Some a" and y: "lf_attempt ?t y = Some b" and "x \<noteq> y"
      and same: "ac_job a = ac_job b"
    from x y \<open>x \<noteq> y\<close> consider "x = k" "lf_attempt s y = Some b" | "y = k" "lf_attempt s x = Some a"
      | "lf_attempt s x = Some a" "lf_attempt s y = Some b" by (auto split: if_splits)
    then show "ac_number a \<noteq> ac_number b \<and> (ac_active a \<longrightarrow> ac_number b < ac_number a)"
    proof cases
      case 1
      with x same less [of y b] show ?thesis by auto
    next
      case 2
      with y same less [of x a] assms(3) \<open>x \<noteq> y\<close> show ?thesis by (auto simp: idle_def runs_def)
    next
      case 3
      with assms(1) \<open>x \<noteq> y\<close> same show ?thesis by (simp add: linv_def numbers_ok_def)
    qed
  qed
  moreover have "jobs_ok ?t"
    using assms(1) ok by (auto simp: linv_def jobs_ok_def i)
  ultimately show ?thesis by (simp add: linv_def)
qed

text \<open>Revocation stops several attempts at once.\<close>

lemma linv_revoke:
  assumes inv: "linv s" and ks: "\<And>k. k \<in> ks \<Longrightarrow> \<exists>i a. runs s i k a"
  shows "linv \<lparr>lf_job = (\<lambda>i. if \<exists>k\<in>ks. \<exists>a. runs s i k a
                        then map_option (goto CancelRequested) (lf_job s i) else lf_job s i),
      lf_attempt = (\<lambda>k. if k \<in> ks then map_option (\<lambda>a. a\<lparr>ac_process := Stopping\<rparr>) (lf_attempt s k)
                        else lf_attempt s k)\<rparr>" (is "linv ?t")
proof -
  have r: "runs ?t i k a' \<longleftrightarrow>
      (\<exists>a. runs s i k a \<and> a' = (if k \<in> ks then a\<lparr>ac_process := Stopping\<rparr> else a))" for i k a'
    by (auto simp: runs_def)
  have idl: "idle ?t = idle s"
    unfolding idle_def r by (intro ext) blast
  have "ac_active a" if "k \<in> ks" "lf_attempt s k = Some a" for k a
    using ks [OF that(1)] that(2) by (auto simp: runs_def)
  then have "attempts_ok ?t"
    using inv by (auto simp: linv_def attempts_ok_def split: if_splits)
  moreover have "numbers_ok ?t"
    by (rule numbers_ok_mono [OF linvD(2) [OF inv]]) (auto split: if_splits)
  moreover have "job_ok (\<not> idle s i) (goto CancelRequested j)"
    if "k \<in> ks" "runs s i k a" "lf_job s i = Some j" for k a i j
    using linv_job [OF inv that(3)] runs_not_idle [OF that(2)] by (simp add: job_ok_def)
  then have "jobs_ok ?t"
    using linv_job [OF inv] unfolding jobs_ok_def idl by (auto split: if_splits)
  ultimately show ?thesis by (simp add: linv_def)
qed

subsection \<open>Every step\<close>

theorem lstep_linv: "lstep s t \<Longrightarrow> linv s \<Longrightarrow> linv t"
proof (induction rule: lstep.induct)
  case (admit s i j)
  have "\<not> runs s i k a" for k a
    using admit by (fastforce simp: linv_def attempts_ok_def runs_def)
  then have "idle s i" by (simp add: idle_def)
  with admit show ?case by (auto intro!: linv_set_job simp: job_ok_def)
next
  case (complete_draft s i j)
  with linv_job [of s i j] show ?case by (auto intro!: linv_set_job simp: job_ok_def stop_targets_def)
next
  case (queue s i j)
  with linv_job [of s i j] show ?case by (auto intro!: linv_set_job simp: job_ok_def)
next
  case (expire s i j)
  with linv_job [of s i j] show ?case by (auto intro!: linv_set_job simp: job_ok_def)
next
  case (withdraw s i j t)
  with linv_job [of s i j] show ?case
    by (auto intro!: linv_set_job simp: job_ok_def stop_targets_def)
next
  case (claim s i j k n)
  then have "1 \<le> n" by (fastforce simp: linv_def attempts_ok_def)
  with claim linv_job [of s i j] show ?case by (intro linv_claim) (auto simp: job_ok_def)
next
  case (start s i k a)
  then show ?case by (intro linv_set_running) (auto simp: runs_def)
next
  case (advance s i k a j st)
  with linv_job [of s i j] runs_not_idle [of s i k a] show ?case
    by (auto intro!: linv_set_job simp: job_ok_def working_states_def)
next
  case (steer s i j st)
  with linv_job [of s i j] show ?case
    by (auto intro!: linv_set_job simp: job_ok_def ended_states_def)
next
  case (fence s i k a j)
  with linv_job [of s i j] runs_not_idle [of s i k a]
  show ?case by (intro linv_set_running linv_set_job) (auto simp: runs_def job_ok_def)
next
  case (stop s i k a j t)
  with linv_job [of s i j] runs_not_idle [of s i k a]
  show ?case by (intro linv_set_running linv_set_job) (auto simp: runs_def job_ok_def)
next
  case (lose s i k a j)
  with linv_job [of s i j] runs_not_idle [of s i k a]
  show ?case by (intro linv_set_running linv_set_job) (auto simp: runs_def job_ok_def)
next
  case (stopped s i k a j j')
  with linv_job [of s i j] runs_not_idle [of s i k a]
  show ?case by (intro linv_end) (auto simp: job_ok_def ended_states_def stop_targets_def)
next
  case (hold s i j st k a)
  then have "st = Verifying \<or> (st = Failed \<and> idle s i)"
    using newest_idle [OF linvD(2), of s i k a] by blast
  with hold linv_job [of s i j] show ?case
    by (intro linv_set_job) (auto simp: job_ok_def)
next
  case (publish s i j k a r)
  then have "idle s i"
    using newest_idle [OF linvD(2), of s i k a] by blast
  with publish linv_job [of s i j] show ?case
    by (intro linv_set_job) (auto simp: job_ok_def)
next
  case (revoke ks s)
  show ?case by (rule linv_revoke [OF revoke(2) revoke(1)])
qed

interpretation life: invariant_system lstep linv
  by unfold_locales (rule lstep_linv)

section \<open>What never goes back\<close>

text \<open>
  Versions never decrease, and a completed job keeps its status, its receipt and its version for
  ever: nothing happens to it any more.
\<close>

definition forward :: "lifecycle \<Rightarrow> lifecycle \<Rightarrow> bool" where
  "forward s t = (\<forall>i j. lf_job s i = Some j \<longrightarrow>
     (\<exists>j'. lf_job t i = Some j' \<and> jc_version j \<le> jc_version j' \<and> (jc_status j = Completed \<longrightarrow> j' = j)))"

lemma forward_refl: "forward s s"
  by (simp add: forward_def)

lemma forward_trans: "forward s t \<Longrightarrow> forward t u \<Longrightarrow> forward s u"
  unfolding forward_def by (metis order_trans)

lemma forward_set_job:
  assumes "lf_job s i = Some j" "jc_version j \<le> jc_version j'" "jc_status j \<noteq> Completed \<or> j' = j"
  shows "forward s (set_job i j' s)"
  using assms by (auto simp: forward_def)

lemma forward_set_attempt: "forward s (set_attempt k a t) = forward s t"
  by (simp add: forward_def)

lemma runs_not_completed:
  "linv s \<Longrightarrow> runs s i k a \<Longrightarrow> lf_job s i = Some j \<Longrightarrow> jc_status j \<noteq> Completed"
  using linv_job [of s i j] runs_not_idle [of s i k a] by (auto simp: job_ok_def)

theorem lstep_forward: "lstep s t \<Longrightarrow> linv s \<Longrightarrow> forward s t"
proof (induction rule: lstep.induct)
  case (admit s i j)
  then show ?case by (auto simp: forward_def)
next
  case (stopped s i k a j j')
  then show ?case
    using runs_not_completed [of s i k a j] by (auto simp: forward_set_attempt intro!: forward_set_job)
next
  case (revoke ks s)
  then show ?case
    unfolding forward_def by (auto dest: runs_not_completed)
qed (auto simp: forward_set_attempt forward_refl working_states_def ended_states_def
    intro!: forward_set_job dest: runs_not_completed)

text \<open>Nothing goes back to being a draft, and nothing but its completion happens to a draft.\<close>

theorem lstep_draft:
  "lstep s t \<Longrightarrow> linv s \<Longrightarrow> lf_job t i = Some j \<Longrightarrow> jc_status j = Draft \<Longrightarrow>
   lf_job s i = None \<or> lf_job s i = Some j"
proof (induction rule: lstep.induct)
  case (steer s k j' st)
  then show ?case
    using linv_job [of s k j'] by (auto simp: job_ok_def split: if_splits)
next
  case (withdraw s k j' t)
  then show ?case by (auto simp: stop_targets_def split: if_splits)
next
  case (stopped s k n a j' j'')
  then show ?case
    using linv_job [of s k j'] by (auto simp: job_ok_def stop_targets_def split: if_splits)
qed (auto simp: working_states_def ended_states_def split: if_splits)

interpretation progress: evolution lstep linv forward
  by unfold_locales (auto intro: forward_refl forward_trans lstep_forward)

end
