(* ===== verification/Agent_Lifecycle.thy ===== *)
theory Agent_Lifecycle
  imports Agent_Reconcile Lifecycle
begin

text \<open>
  The database as a state of the abstract machine: \<open>life\<close> forgets everything of a job but its
  status, version, stop target and receipt, and everything of an attempt but its job, number,
  activity and process state.  \<open>same_life\<close> says that a write leaves all of that alone; the first
  group of lemmas proves it for the primitives, the second for every handler that only touches
  other columns.
\<close>

section \<open>Abstraction\<close>

definition jcore_of :: "job \<Rightarrow> jcore" where
  "jcore_of j = \<lparr>jc_status = jb_status j, jc_version = jb_version j, jc_target = jb_stop_target j,
     jc_receipt = jb_result_receipt j\<rparr>"

definition acore_of :: "attempt \<Rightarrow> acore" where
  "acore_of a = \<lparr>ac_job = at_job a, ac_number = at_number a, ac_active = at_active a,
     ac_process = at_process_state a\<rparr>"

definition life :: "db \<Rightarrow> lifecycle" where
  "life d = \<lparr>lf_job = (\<lambda>i. map_option jcore_of (get_job i d)),
     lf_attempt = (\<lambda>k. map_option acore_of (get_attempt k d))\<rparr>"

text \<open>
  Primary keys are unique, the identifiers of attempts are ones already handed out, and an approval
  names the job of its attempt.
\<close>

definition keyed :: "uuid list \<Rightarrow> uuid list \<Rightarrow> uuid \<Rightarrow> bool" where
  "keyed js as n = (distinct js \<and> distinct as \<and> (\<forall>k\<in>set as. k < n))"

definition approval_links :: "db \<Rightarrow> (uuid \<times> uuid) list" where
  "approval_links d = map (\<lambda>p. (ap_job p, ap_attempt p)) (db_approvals d)"

definition linked :: "lifecycle \<Rightarrow> uuid \<times> uuid \<Rightarrow> bool" where
  "linked s l = (\<exists>a. lf_attempt s (snd l) = Some a \<and> ac_job a = fst l)"

definition keys_ok :: "db \<Rightarrow> bool" where
  "keys_ok d = (keyed (map jb_id (db_jobs d)) (map at_id (db_attempts d)) (db_next d) \<and>
     (\<forall>l\<in>set (approval_links d). linked (life d) l))"

definition same_life :: "db \<Rightarrow> db \<Rightarrow> bool" where
  "same_life d e =
     (life e = life d \<and> map jb_id (db_jobs e) = map jb_id (db_jobs d) \<and>
      map at_id (db_attempts e) = map at_id (db_attempts d) \<and> db_next d \<le> db_next e \<and>
      approval_links e = approval_links d)"

text \<open>A write is a run of the machine that keeps the keys in order.\<close>

definition sim :: "db \<Rightarrow> db \<Rightarrow> bool" where
  "sim d e = (keys_ok d \<longrightarrow> keys_ok e \<and> lstep\<^sup>*\<^sup>* (life d) (life e))"

lemma jcore_of_simps [simp]:
  "jc_status (jcore_of j) = jb_status j" "jc_version (jcore_of j) = jb_version j"
  "jc_target (jcore_of j) = jb_stop_target j" "jc_receipt (jcore_of j) = jb_result_receipt j"
  by (simp_all add: jcore_of_def)

lemma acore_of_simps [simp]:
  "ac_job (acore_of a) = at_job a" "ac_number (acore_of a) = at_number a"
  "ac_active (acore_of a) = at_active a" "ac_process (acore_of a) = at_process_state a"
  by (simp_all add: acore_of_def)

lemma life_simps [simp]:
  "lf_job (life d) i = map_option jcore_of (get_job i d)"
  "lf_attempt (life d) k = map_option acore_of (get_attempt k d)"
  by (simp_all add: life_def)

lemma keyed_mono: "keyed js as n \<Longrightarrow> n \<le> m \<Longrightarrow> keyed js as m"
  by (auto simp: keyed_def)

lemma same_life_refl [simp]: "same_life d d"
  by (simp add: same_life_def)

lemma same_life_trans: "same_life d e \<Longrightarrow> same_life e f \<Longrightarrow> same_life d f"
  by (simp add: same_life_def)

lemma sim_refl [simp]: "sim d d"
  by (simp add: sim_def)

lemma sim_trans: "sim d e \<Longrightarrow> sim e f \<Longrightarrow> sim d f"
  by (auto simp: sim_def)

lemma same_life_sim: "same_life d e \<Longrightarrow> sim d e"
  by (auto simp: same_life_def sim_def keys_ok_def intro: keyed_mono)

text \<open>An attempt keeps its job for ever.\<close>

lemma lstep_linked: "lstep s t \<Longrightarrow> linked s l \<Longrightarrow> linked t l"
  by (induction rule: lstep.induct) (auto simp: linked_def runs_def)

lemma sim_stepI:
  assumes "map jb_id (db_jobs e) = map jb_id (db_jobs d)"
    and "map at_id (db_attempts e) = map at_id (db_attempts d)" "db_next d \<le> db_next e"
    and "approval_links e = approval_links d" "keys_ok d \<Longrightarrow> lstep (life d) (life e)"
  shows "sim d e"
  using assms lstep_linked [of "life d" "life e"]
  by (auto simp: sim_def keys_ok_def intro: keyed_mono)

section \<open>Rows read after a write\<close>

lemma get_job_cong: "db_jobs e = db_jobs d \<Longrightarrow> get_job i e = get_job i d"
  by (simp add: get_job_def)

lemma get_attempt_cong: "db_attempts e = db_attempts d \<Longrightarrow> get_attempt k e = get_attempt k d"
  by (simp add: get_attempt_def)

lemma life_cong: "db_jobs e = db_jobs d \<Longrightarrow> db_attempts e = db_attempts d \<Longrightarrow> life e = life d"
  by (simp add: life_def get_job_def get_attempt_def)

lemma get_job_frame [simp]:
  "get_job i (update_attempt k g d) = get_job i d"
  "get_job i (update_operation o' h d) = get_job i d"
  "get_job i (update_approval p q d) = get_job i d"
  "get_job i (update_input n u d) = get_job i d"
  "get_job i (add_attempt a d) = get_job i d"
  "get_job i (invalidate_approvals k d) = get_job i d"
  "get_job i (abandon_work k d) = get_job i d"
  "get_job i (ensure_stop_outbox now j k d) = get_job i d"
  "get_job i (notify_conversation x y s b d) = get_job i d"
  "get_job i (stage_publication now j k d) = get_job i d"
  "get_job i (mark_delivered now j d) = get_job i d"
  by (auto intro!: get_job_cong simp: add_attempt_def invalidate_approvals_def abandon_work_def
      abandon_inputs_def abandon_operations_def ensure_stop_outbox_def create_outbox_def
      stage_publication_def mark_delivered_def put_outbox_def add_outbox_def split: option.splits sum.splits)

lemma get_attempt_frame [simp]:
  "get_attempt i (update_job k g d) = get_attempt i d"
  "get_attempt i (update_operation o' h d) = get_attempt i d"
  "get_attempt i (update_approval p q d) = get_attempt i d"
  "get_attempt i (update_input n u d) = get_attempt i d"
  "get_attempt i (transition x st s d) = get_attempt i d"
  "get_attempt i (invalidate_approvals k d) = get_attempt i d"
  "get_attempt i (abandon_work k d) = get_attempt i d"
  "get_attempt i (ensure_stop_outbox now j k d) = get_attempt i d"
  "get_attempt i (notify_conversation x y s b d) = get_attempt i d"
  "get_attempt i (stage_publication now j k d) = get_attempt i d"
  "get_attempt i (mark_delivered now j d) = get_attempt i d"
  by (auto intro!: get_attempt_cong simp: invalidate_approvals_def abandon_work_def
      abandon_inputs_def abandon_operations_def ensure_stop_outbox_def create_outbox_def
      stage_publication_def mark_delivered_def put_outbox_def add_outbox_def split: option.splits sum.splits)

lemma links_where:
  "(\<And>p. g (f p) = g p) \<Longrightarrow> map g (tbl_where P f t) = map g t"
  by (induction t) (simp_all add: tbl_where_def)

lemma approval_links_frame [simp]:
  "approval_links (update_job i f d) = approval_links d"
  "approval_links (update_attempt k g d) = approval_links d"
  "approval_links (update_operation o' h d) = approval_links d"
  "(\<And>r. ap_job (q r) = ap_job r) \<Longrightarrow> (\<And>r. ap_attempt (q r) = ap_attempt r) \<Longrightarrow>
   approval_links (update_approval p q d) = approval_links d"
  "approval_links (update_input n u d) = approval_links d"
  "approval_links (transition x st s d) = approval_links d"
  "approval_links (invalidate_approvals k d) = approval_links d"
  "approval_links (abandon_work k d) = approval_links d"
  "approval_links (notify_conversation x y s b d) = approval_links d"
  by (simp_all add: approval_links_def invalidate_approvals_def abandon_work_def abandon_inputs_def
      abandon_operations_def links_where)

section \<open>Writes that change one row\<close>

lemma set_job_twice [simp]: "set_job i j (set_job i j' s) = set_job i j s"
  by (simp add: set_job_def)

lemma set_attempt_twice [simp]: "set_attempt k a (set_attempt k a' s) = set_attempt k a s"
  by (simp add: set_attempt_def)

lemma set_job_attempt [simp]: "set_job i j (set_attempt k a s) = set_attempt k a (set_job i j s)"
  by (simp add: set_job_def set_attempt_def)

lemma set_job_same: "lf_job s i = Some j \<Longrightarrow> set_job i j s = s"
  by (cases s) (auto simp: set_job_def fun_eq_iff)

lemma life_update_job:
  assumes "get_job i d = Some j" "\<And>r. jb_id (f r) = jb_id r"
  shows "life (update_job i f d) = set_job i (jcore_of (f j)) (life d)"
proof -
  have "jb_id j = i" using assms(1) by (rule jobs.get_key)
  moreover have "get_job k d = Some r \<Longrightarrow> jb_id r = k" for k r by (rule jobs.get_key)
  ultimately show ?thesis
    using assms by (auto simp: life_def set_job_def get_update_job fun_eq_iff option.map_comp
        split: option.splits intro!: option.map_cong)
qed

lemma life_update_attempt:
  assumes "get_attempt k d = Some a" "\<And>r. at_id (f r) = at_id r"
  shows "life (update_attempt k f d) = set_attempt k (acore_of (f a)) (life d)"
proof -
  have "at_id a = k" using assms(1) by (rule attempts.get_key)
  moreover have "get_attempt x d = Some r \<Longrightarrow> at_id r = x" for x r by (rule attempts.get_key)
  ultimately show ?thesis
    using assms by (auto simp: life_def set_attempt_def get_update_attempt fun_eq_iff option.map_comp
        split: option.splits intro!: option.map_cong)
qed

lemma life_transition:
  assumes "get_job i d = Some j"
  shows "life (transition i st m d) = set_job i (goto st (jcore_of j)) (life d)"
proof -
  let ?u = "update_job i (\<lambda>j. j\<lparr>jb_status := st, jb_blocked_reason := m, jb_version := jb_version j + 1\<rparr>) d"
  have "life (transition i st m d) = life ?u"
    by (rule life_cong) simp_all
  also have "\<dots> = set_job i (goto st (jcore_of j)) (life d)"
    using assms by (simp add: life_update_job jcore_of_def goto_def)
  finally show ?thesis .
qed

lemma get_job_update_same [simp]:
  "get_job i d = Some j \<Longrightarrow> (\<And>r. jb_id (f r) = jb_id r) \<Longrightarrow> get_job i (update_job i f d) = Some (f j)"
  using jobs.get_key [of i d j] by (simp add: get_update_job)

lemma get_attempt_update_same [simp]:
  "get_attempt i d = Some j \<Longrightarrow> (\<And>r. at_id (f r) = at_id r) \<Longrightarrow>
   get_attempt i (update_attempt i f d) = Some (f j)"
  using attempts.get_key [of i d j] by (simp add: get_update_attempt)

section \<open>Writes that change no row of the machine\<close>

lemma life_update_job_same:
  assumes "\<And>r. jb_id (f r) = jb_id r" "\<And>r. jcore_of (f r) = jcore_of r"
  shows "life (update_job i f d) = life d"
proof -
  have "map_option jcore_of (map_option (\<lambda>r. if jb_id r = i then f r else r) x) = map_option jcore_of x" for x
    by (cases x) (simp_all add: assms)
  then show ?thesis by (simp add: life_def get_update_job assms(1))
qed

lemma life_update_attempt_same:
  assumes "\<And>r. at_id (f r) = at_id r" "\<And>r. acore_of (f r) = acore_of r"
  shows "life (update_attempt i f d) = life d"
proof -
  have "map_option acore_of (map_option (\<lambda>r. if at_id r = i then f r else r) x) = map_option acore_of x" for x
    by (cases x) (simp_all add: assms)
  then show ?thesis by (simp add: life_def get_update_attempt assms(1))
qed

lemma same_life_update_job:
  assumes "\<And>r. jb_id (f r) = jb_id r" "\<And>r. jcore_of (f r) = jcore_of r"
  shows "same_life d (update_job i f d)"
  using assms by (simp add: same_life_def life_update_job_same)

lemma same_life_update_attempt:
  assumes "\<And>r. at_id (f r) = at_id r" "\<And>r. acore_of (f r) = acore_of r"
  shows "same_life d (update_attempt i f d)"
  using assms by (simp add: same_life_def life_update_attempt_same)

text \<open>Everything outside the two tables.\<close>

lemma same_life_tables:
  "db_jobs e = db_jobs d \<Longrightarrow> db_attempts e = db_attempts d \<Longrightarrow> db_next d \<le> db_next e \<Longrightarrow>
   db_approvals e = db_approvals d \<Longrightarrow> same_life d e"
  using life_cong [of e d] by (simp add: same_life_def approval_links_def)

lemma audit_life: "audit en now jid t pl att auth ev actor d = Inr e \<Longrightarrow> same_life d e"
proof (elim auditE)
  fix j i n
  assume e: "e = (update_job jid bump_sequence d)\<lparr>db_next := n,
      db_audit := db_audit d @ [audit_row now (bump_sequence j) t pl att auth ev actor i]\<rparr>"
    and "db_next d \<le> n"
  have "same_life d (update_job jid bump_sequence d)"
    by (rule same_life_update_job) (simp_all add: jcore_of_def)
  moreover have "same_life (update_job jid bump_sequence d) e"
    using \<open>db_next d \<le> n\<close> by (intro same_life_tables) (simp_all add: e)
  ultimately show "same_life d e" by (rule same_life_trans)
qed

lemma audit_server_life: "audit_server en now jid t pl att actor d = Inr e \<Longrightarrow> same_life d e"
  unfolding audit_server_def by (rule audit_life)

lemma audit_from: "audit en now jid t pl att auth ev actor d = Inr e \<Longrightarrow> same_life c d \<Longrightarrow> same_life c e"
  by (blast intro: audit_life same_life_trans)

lemma audit_server_from: "audit_server en now jid t pl att actor d = Inr e \<Longrightarrow> same_life c d \<Longrightarrow> same_life c e"
  by (blast intro: audit_server_life same_life_trans)

lemma quiet_tables [simp]:
  "same_life d (update_operation o' h e) = same_life d e"
  "(\<And>r. ap_job (q r) = ap_job r) \<Longrightarrow> (\<And>r. ap_attempt (q r) = ap_attempt r) \<Longrightarrow>
   same_life d (update_approval p q e) = same_life d e"
  "same_life d (update_input n u e) = same_life d e"
  "same_life d (e\<lparr>db_verifications := vs\<rparr>) = same_life d e"
  "same_life d (e\<lparr>db_on_commit := hs\<rparr>) = same_life d e"
  "same_life d (e\<lparr>db_sent := ms\<rparr>) = same_life d e"
  "same_life d (e\<lparr>db_blobs := bs\<rparr>) = same_life d e"
  "same_life d (add_operation x e) = same_life d e"
  "same_life d (add_input_row n' e) = same_life d e"
  "same_life d (add_artifact f e) = same_life d e"
  "same_life d (add_checkpoint c e) = same_life d e"
  "same_life d (add_outbox b e) = same_life d e"
  "same_life d (put_outbox b e) = same_life d e"
  "same_life d (put_runner r e) = same_life d e"
  "same_life d (invalidate_approvals k e) = same_life d e"
  "same_life d (abandon_work k e) = same_life d e"
  "same_life d (notify_conversation i z s w e) = same_life d e"
  by (simp_all add: same_life_def life_def get_job_def get_attempt_def add_defs put_defs
      invalidate_approvals_def abandon_work_def abandon_inputs_def abandon_operations_def
      notify_conversation_def update_operation_def update_approval_def update_input_def
      approval_links_def links_where)

lemma quiet_attempt [simp]:
  assumes "\<And>r. at_id (f r) = at_id r" "\<And>r. acore_of (f r) = acore_of r"
  shows "same_life d (update_attempt i f e) = same_life d e"
  using assms by (simp add: same_life_def life_update_attempt_same)

lemma quiet_job [simp]:
  assumes "\<And>r. jb_id (f r) = jb_id r" "\<And>r. jcore_of (f r) = jcore_of r"
  shows "same_life d (update_job i f e) = same_life d e"
  using assms by (simp add: same_life_def life_update_job_same)

lemma quiet_fresh: "fresh d = (i, e) \<Longrightarrow> same_life d e"
  by (auto simp: fresh_def intro!: same_life_tables)

section \<open>Handlers that leave the machine alone\<close>

abbreviation quiet :: "db \<Rightarrow> exn + db \<times> 'r \<Rightarrow> bool" where
  "quiet d m \<equiv> yields (\<lambda>(e, r). same_life d e) m"

lemmas core_defs = acore_of_def jcore_of_def

lemma save_checkpoint_quiet: "quiet d (save_checkpoint en now ru jid aid epoch c d)"
  unfolding save_checkpoint_def
  by (intro yields_rules) (simp_all add: core_defs)

lemma deliver_loop_quiet: "quiet d (deliver_loop en aid is d)"
proof (induction "is" arbitrary: d)
  case Nil
  show ?case by (simp add: yields_def)
next
  case (Cons i "is")
  show ?case
    unfolding deliver_loop.simps Let_def
    by (intro yields_rules) (auto dest!: yieldsD [OF Cons.IH] elim: same_life_trans [rotated])
qed

lemma deliver_inputs_quiet: "quiet d (deliver_inputs en now ru jid aid epoch d)"
  unfolding deliver_inputs_def
  by (intro yields_rules) (auto dest: yieldsD [OF deliver_loop_quiet])

lemma reconcile_input_quiet: "quiet d (reconcile_input en now ru jid aid epoch iid n out rid d)"
  unfolding reconcile_input_def
  by (intro yields_rules) simp_all

lemma spend_approval_quiet: "yields (same_life d) (spend_approval en now j a x h nonce d)"
  unfolding spend_approval_def
  by (intro yields_rules) simp_all

lemma consume_start:
  "yields (same_life d) (if b then spend_approval en now j a x h nonce d else rbind m (\<lambda>_. Inr d))"
  by (intro yields_rules spend_approval_quiet) simp

lemma consume_operation_quiet: "quiet d (consume_operation en now ru jid aid epoch oid ev h nonce d)"
  unfolding consume_operation_def
  by (intro yields_rules) (auto simp: core_defs dest!: yieldsD [OF consume_start])

lemma reconcile_operation_quiet: "quiet d (reconcile_operation en now ru jid aid epoch oid r d)"
  unfolding reconcile_operation_def
  by (intro yields_rules) simp_all

lemma reconcile_local_quiet: "quiet d (reconcile_local_operation en now ru jid aid epoch r d)"
  unfolding reconcile_local_operation_def
  by (intro yields_rules) (simp_all add: core_defs)

lemma begin_team_quiet: "quiet d (begin_team_operation en now ru jid aid epoch v oid ev h nonce d)"
  unfolding begin_team_operation_def
  by (intro yields_rules)
    (auto split: operation_args.split intro!: yields_rules dest: yieldsD [OF consume_operation_quiet])

lemma store_team_receipt_quiet: "quiet d (store_team_receipt en now ru jid aid epoch oid r d)"
  unfolding store_team_receipt_def
  by (intro yields_rules) (auto intro: audit_server_from)

lemma store_artifact_quiet: "quiet d (store_artifact en now ru jid aid epoch meta chunks token d)"
  unfolding store_artifact_def register_artifact_def
  by (intro yields_rules) (auto dest: quiet_fresh)

lemma send_message_quiet: "quiet d (send_message j dest c sent d)"
  unfolding send_message_def by (intro yields_rules) simp

lemma post_result_quiet: "quiet d (post_result j dest c sent d)"
  unfolding post_result_def by (intro yields_rules send_message_quiet) simp

lemma publish_draft_quiet: "yields (same_life d) (publish_draft en now mark ru li t sent d)"
  unfolding publish_draft_def
  by (intro yields_rules) (auto simp: core_defs dest: yieldsD [OF send_message_quiet])

lemma post_job_notice_quiet: "quiet d (post_job_notice en now jid marker s b sent d)"
  unfolding post_job_notice_def
  by (intro yields_rules) (auto dest: yieldsD [OF send_message_quiet])

lemma mark_delivered_quiet [simp]: "same_life d (mark_delivered now j e) = same_life d e"
  by (simp add: mark_delivered_def split: option.splits)

lemma stage_publication_quiet [simp]: "same_life d (stage_publication now j k e) = same_life d e"
  by (simp add: stage_publication_def split: option.splits)

lemma ensure_stop_outbox_quiet [simp]: "same_life d (ensure_stop_outbox now j k e) = same_life d e"
  by (simp add: ensure_stop_outbox_def create_outbox_def split: sum.splits)

lemma create_outbox_quiet: "yields (same_life d) (create_outbox now k r j t p d)"
  unfolding create_outbox_def by (intro yields_rules) simp

lemma take_delivery_quiet: "quiet d (take_delivery now k d)"
  unfolding take_delivery_def by (intro yields_rules) simp_all

lemma settle_delivery_quiet: "yields (same_life d) (settle_delivery now k b d)"
  unfolding settle_delivery_def by (intro yields_rules) simp_all

end
