(* ===== verification/Agent_Simulation.thy ===== *)
theory Agent_Simulation
  imports Agent_Lifecycle
begin

text \<open>
  The handlers that move a task are runs of the abstract machine.  Each lemma names the rules of
  \<open>lstep\<close> a handler takes; the guards of the code discharge their conditions.  The last section
  collects every handler of the service into one step relation and interprets the simulation and
  the invariant of the machine on it.
\<close>

section \<open>Keys and frames\<close>

definition same_keys :: "db \<Rightarrow> db \<Rightarrow> bool" where
  "same_keys d e =
     (map jb_id (db_jobs e) = map jb_id (db_jobs d) \<and>
      map at_id (db_attempts e) = map at_id (db_attempts d) \<and> db_next d \<le> db_next e \<and>
      approval_links e = approval_links d)"

lemma same_life_keys: "same_life d e \<Longrightarrow> same_keys d e"
  by (simp add: same_life_def same_keys_def)

lemma same_keys_refl [simp]: "same_keys d d"
  by (simp add: same_keys_def)

lemma keys_simps [simp]:
  "(\<And>r. jb_id (f r) = jb_id r) \<Longrightarrow> same_keys d (update_job i f e) = same_keys d e"
  "(\<And>r. at_id (g r) = at_id r) \<Longrightarrow> same_keys d (update_attempt k g e) = same_keys d e"
  "same_keys d (transition i st m e) = same_keys d e"
  "same_keys d (invalidate_approvals k e) = same_keys d e"
  "same_keys d (abandon_work k e) = same_keys d e"
  "same_keys d (ensure_stop_outbox now j k e) = same_keys d e"
  "(\<And>r. ap_job (q r) = ap_job r) \<Longrightarrow> (\<And>r. ap_attempt (q r) = ap_attempt r) \<Longrightarrow>
   same_keys d (update_approval p q e) = same_keys d e"
  "same_keys d (update_input n u e) = same_keys d e"
  "same_keys d (update_operation o' h e) = same_keys d e"
  "same_keys d (notify_conversation i z s w e) = same_keys d e"
  "same_keys d (stage_publication now j k e) = same_keys d e"
  "same_keys d (mark_delivered now j e) = same_keys d e"
  "same_keys d (add_operation x e) = same_keys d e"
  "same_keys d (e\<lparr>db_on_commit := hs\<rparr>) = same_keys d e"
  by (auto simp: same_keys_def ensure_stop_outbox_def create_outbox_def add_defs put_defs
      stage_publication_def mark_delivered_def invalidate_approvals_def abandon_work_def
      abandon_inputs_def abandon_operations_def approval_links_def links_where
      split: option.splits sum.splits)

lemma life_frame [simp]:
  "life (invalidate_approvals k e) = life e"
  "life (abandon_work k e) = life e"
  "life (ensure_stop_outbox now j k e) = life e"
  "life (update_approval p q e) = life e"
  "life (update_input n u e) = life e"
  "life (update_operation o' h e) = life e"
  "life (notify_conversation i z s w e) = life e"
  "life (stage_publication now j k e) = life e"
  "life (mark_delivered now j e) = life e"
  "life (add_approval y e) = life e"
  "life (add_operation x e) = life e"
  "life (e\<lparr>db_on_commit := hs\<rparr>) = life e"
  by (auto intro!: life_cong simp: invalidate_approvals_def abandon_work_def abandon_inputs_def
      abandon_operations_def ensure_stop_outbox_def create_outbox_def add_defs put_defs
      stage_publication_def mark_delivered_def split: option.splits sum.splits)

lemma sim_step: "same_keys d e \<Longrightarrow> lstep (life d) (life e) \<Longrightarrow> sim d e"
  by (auto simp: same_keys_def intro: sim_stepI)

lemma sim_quiet: "sim d e \<Longrightarrow> same_life e f \<Longrightarrow> sim d f"
  by (blast intro: sim_trans same_life_sim)

lemma sim_audit: "audit en now jid t pl att auth ev actor e = Inr f \<Longrightarrow> sim d e \<Longrightarrow> sim d f"
  by (blast intro: sim_quiet audit_life)

lemma sim_audit_server: "audit_server en now jid t pl att actor e = Inr f \<Longrightarrow> sim d e \<Longrightarrow> sim d f"
  by (blast intro: sim_quiet audit_server_life)

lemma sim_fresh: "fresh e = (i, f) \<Longrightarrow> sim d e \<Longrightarrow> sim d f"
  by (blast intro: sim_quiet quiet_fresh)

lemma sim_write:
  "sim d e \<Longrightarrow> sim d (add_input_row n e)"
  "sim d e \<Longrightarrow> sim d (add_operation x e)"
  "sim d e \<Longrightarrow> sim d (stage_publication now j k e)"
  "sim d e \<Longrightarrow> sim d (mark_delivered now j e)"
  "sim d e \<Longrightarrow> sim d (notify_conversation i z s w e)"
  "sim d e \<Longrightarrow> sim d (update_input v u e)"
  "sim d e \<Longrightarrow> sim d (e\<lparr>db_on_commit := hs\<rparr>)"
  by (simp_all add: sim_quiet)

section \<open>What the guards of a request establish\<close>

lemma locked_attemptD:
  assumes "locked_attempt en now ru jid aid epoch ex b d = Inr (j, a)"
  shows "get_job jid d = Some j" "get_attempt aid d = Some a" "jb_id j = jid" "at_id a = aid"
    "at_job a = jid" "at_lease_epoch a = epoch" "opt_all (\<lambda>v. v = jb_version j) ex"
  using assms jobs.get_key [of jid d] attempts.get_key [of aid d]
  by (auto simp: locked_attempt_def find_attempt_def split: if_splits)

lemma execution_live:
  assumes "locked_attempt en now ru jid aid epoch ex True d = Inr (j, a)"
  obtains r where "get_runner (ru_id ru) d = Some r" "lease_live now r j a"
    "require_execution en now d r j a = Inr ()"
  using assms by (auto simp: locked_attempt_def find_attempt_def require_execution_def)

lemma executionD:
  assumes "locked_attempt en now ru jid aid epoch ex True d = Inr (j, a)"
  shows "at_active a" "at_process_state a \<in> {Starting, Active}" "jb_status j \<in> working_states"
    "now < at_lease_expires_at a"
  using execution_live [OF assms]
  by (metis lease_live_def, metis lease_live_def,
      metis (no_types) lease_live_def executing_states_def working_states_def list.set(1,2),
      metis lease_live_def)

lemma life_runs: "get_attempt k d = Some a \<Longrightarrow> at_active a \<Longrightarrow> runs (life d) (at_job a) k (acore_of a)"
  by (simp add: runs_def)

lemma execution_runs:
  assumes "locked_attempt en now ru jid aid epoch ex True d = Inr (j, a)"
  shows "runs (life d) jid aid (acore_of a)"
  using locked_attemptD [OF assms] executionD [OF assms] by (simp add: runs_def)

lemma no_active_idle: "active_attempts i d = [] \<Longrightarrow> idle (life d) i"
  by (auto simp: active_attempts_def idle_def runs_def filter_empty_conv dest: attempts.get_in)

lemma first_active_None: "first_active i d = None \<Longrightarrow> idle (life d) i"
  by (auto simp: first_active_def find_None_iff idle_def runs_def dest: attempts.get_in)

lemma keys_unique_attempt:
  "keys_ok d \<Longrightarrow> a \<in> set (db_attempts d) \<Longrightarrow> get_attempt (at_id a) d = Some a"
  by (intro attempts.unique) (simp_all add: keys_ok_def keyed_def)

lemma keys_unique_job: "keys_ok d \<Longrightarrow> j \<in> set (db_jobs d) \<Longrightarrow> get_job (jb_id j) d = Some j"
  by (intro jobs.unique) (simp_all add: keys_ok_def keyed_def)

lemma first_active_runs:
  "keys_ok d \<Longrightarrow> first_active i d = Some a \<Longrightarrow>
   get_attempt (at_id a) d = Some a \<and> at_job a = i \<and> at_active a"
  by (auto simp: first_active_def find_Some_iff keys_unique_attempt)

lemma first_active_not_idle: "keys_ok d \<Longrightarrow> first_active i d \<noteq> None \<Longrightarrow> \<not> idle (life d) i"
  using first_active_runs [of d i] life_runs runs_not_idle by blast

text \<open>The newest attempt of a job is the newest of the machine.\<close>

lemma latest_newest:
  assumes "keys_ok d" "latest_attempt i d = Some a"
  shows "newest (life d) i (at_id a) (acore_of a)"
proof -
  have a: "a \<in> set (job_attempts i d)" "\<forall>x\<in>set (job_attempts i d). at_number x \<le> at_number a"
    using max_row_SomeD [OF assms(2) [unfolded latest_attempt_def]] by blast+
  then show ?thesis
    using keys_unique_attempt [OF assms(1)]
    by (auto simp: newest_def job_attempts_def dest: attempts.get_in)
qed

section \<open>Stopping\<close>

lemma request_stop_idle:
  assumes "get_job (jb_id j) d = Some j" "idle (life d) (jb_id j)" "t \<in> stop_targets"
    and "jb_status j \<notin> {CancelRequested, Cancelled, Completed}"
  shows "yields (sim d) (request_stop en now j None t reason d)"
proof -
  let ?u = "update_job (jb_id j) (\<lambda>r. r\<lparr>jb_stop_target := t\<rparr>) d"
  have "life (transition (jb_id j) t reason ?u) =
      set_job (jb_id j) (goto t ((jcore_of j)\<lparr>jc_target := t\<rparr>)) (life d)"
    using assms(1) by (subst life_transition [where j = "j\<lparr>jb_stop_target := t\<rparr>"])
      (simp_all add: life_update_job jcore_of_def goto_def)
  moreover have "lstep (life d) (set_job (jb_id j) (goto t ((jcore_of j)\<lparr>jc_target := t\<rparr>)) (life d))"
    using assms by (intro lstep.withdraw) simp_all
  ultimately have "sim d (transition (jb_id j) t reason ?u)"
    by (intro sim_step) simp_all
  then show ?thesis by (simp add: request_stop_def yields_Inr)
qed

lemma request_stop_running:
  assumes "get_job (jb_id j) d = Some j" "get_attempt k d = Some a" "at_job a = jb_id j"
    and "at_active a" "t \<in> stop_targets"
  shows "yields (sim d) (request_stop en now j (Some k) t reason d)"
proof -
  let ?u = "update_job (jb_id j) (\<lambda>r. r\<lparr>jb_stop_target := t\<rparr>) d"
  let ?x = "ensure_stop_outbox now j k (transition (jb_id j) CancelRequested reason
      (invalidate_approvals k (update_attempt k (\<lambda>a. a\<lparr>at_process_state := Stopping\<rparr>) ?u)))"
  let ?t = "set_attempt k ((acore_of a)\<lparr>ac_process := Stopping\<rparr>)
      (set_job (jb_id j) (goto CancelRequested ((jcore_of j)\<lparr>jc_target := t\<rparr>)) (life d))"
  have "life ?x = ?t"
    using assms by (simp add: life_transition [where j = "j\<lparr>jb_stop_target := t\<rparr>"]
        life_update_job life_update_attempt) (simp add: jcore_of_def acore_of_def goto_def)
  moreover have "lstep (life d) ?t"
    using assms life_runs [of k d a] by (intro lstep.stop [where i = "jb_id j"]) simp_all
  ultimately have "sim d ?x"
    by (intro sim_step) simp_all
  then show ?thesis
    unfolding request_stop_def by (auto intro!: yieldsI intro: sim_audit_server)
qed

lemma cancel_job_sim: "keys_ok d \<Longrightarrow> yields (sim d) (cancel_job en now actor jid expected d)"
  unfolding cancel_job_def realm_job_def
proof (intro yields_rules)
  fix j
  assume ok: "keys_ok d"
    and j: "rbind (fetch ''job'' (get_job jid d)) (\<lambda>j. if jb_realm j \<noteq> us_realm actor
          then Inl (DoesNotExist ''job'') else Inr j) = Inr j"
    and st: "jb_status j \<notin> {CancelRequested, Cancelled}"
    and "\<not> (jb_version j \<noteq> expected \<or> jb_status j = Completed)"
  from j have g: "get_job jid d = Some j" "jb_id j = jid" by (auto dest: jobs.get_key)
  show "yields (sim d) (request_stop en now j (map_option at_id (first_active jid d)) Cancelled [] d)"
  proof (cases "first_active jid d")
    case None
    then have "idle (life d) (jb_id j)" using g first_active_None by blast
    with None g st \<open>\<not> (jb_version j \<noteq> expected \<or> jb_status j = Completed)\<close> show ?thesis
      by (auto intro!: request_stop_idle simp: stop_targets_def)
  next
    case (Some a)
    with first_active_runs [OF ok Some] g show ?thesis
      by (auto intro!: request_stop_running simp: stop_targets_def)
  qed
qed simp_all

section \<open>Leases and inputs\<close>

abbreviation moves :: "db \<Rightarrow> exn + db \<times> 'r \<Rightarrow> bool" where
  "moves d m \<equiv> yields (\<lambda>(e, r). sim d e) m"

lemma moves_after: "sim d e \<Longrightarrow> moves e m \<Longrightarrow> moves d m"
  by (auto simp: yields_def intro: sim_trans)

lemma renew_sim [intro]: "sim d e \<Longrightarrow> sim d (renew_lease now a e)"
  by (erule sim_quiet) (simp add: renew_lease_def core_defs)

lemma fence_sim:
  assumes "get_job (jb_id j) d = Some j" "get_attempt (at_id a) d = Some a" "at_job a = jb_id j"
  shows "sim d (fence_prepared_result j a d)"
proof (cases "jb_status j \<noteq> Verifying \<or> jb_result_proposal j = None \<or> \<not> at_active a \<or>
         at_process_state a \<noteq> Active \<or> has_open_input (jb_id j) d")
  case False
  let ?x = "fence_prepared_result j a d"
  let ?t = "set_attempt (at_id a) ((acore_of a)\<lparr>ac_process := Stopping\<rparr>)
      (set_job (jb_id j) (goto Verifying (jcore_of j)) (life d))"
  from False have x: "?x = update_job (jb_id j) (\<lambda>r. r\<lparr>jb_version := jb_version r + 1\<rparr>)
             (update_attempt (at_id a) (\<lambda>r. r\<lparr>at_process_state := Stopping\<rparr>) d)"
    by (auto simp: fence_prepared_result_def)
  have "life ?x = ?t"
    using assms False unfolding x
    by (simp add: life_update_job life_update_attempt) (simp add: core_defs goto_def)
  moreover have "lstep (life d) ?t"
    using assms False life_runs [OF assms(2)] by (intro lstep.fence [where i = "jb_id j"]) simp_all
  ultimately show ?thesis by (intro sim_step) (simp_all add: x)
next
  case True
  then have "fence_prepared_result j a d = d" by (simp add: fence_prepared_result_def)
  then show ?thesis by simp
qed

lemma heartbeat_one_sim: "moves d (heartbeat_one en now r li d)"
  unfolding heartbeat_one_def
proof (intro yields_rules)
  fix x j a e d'
  assume l: "locked_attempt en now r (li_job_id li) (li_attempt_id li) (li_lease_epoch li) None False d = Inr x"
    and x: "x = (j, a)"
    and d': "(if at_process_state a \<in> {Starting, Active} \<and> jb_status j \<in> set executing_states
      then rbind (locked_attempt en now r (jb_id j) (at_id a) (at_lease_epoch a) None True d)
             (\<lambda>_. Inr (renew_lease now a (fence_prepared_result j a d))) else Inr d) = Inr d'"
  note k = locked_attemptD [OF l [unfolded x]]
  have "sim d (fence_prepared_result j a d)" by (rule fence_sim) (use k in auto)
  then show "case (d', Some e) of (e, r) \<Rightarrow> sim d e"
    using d' by (auto split: if_splits)
qed simp_all

lemma heartbeat_loop_sim: "moves d (heartbeat_loop en now r lis d)"
proof (induction lis arbitrary: d)
  case (Cons li lis)
  show ?case
    unfolding heartbeat_loop.simps
    by (intro yields_rules)
      (auto dest!: yieldsD [OF Cons.IH] yieldsD [OF heartbeat_one_sim] intro: sim_trans)
qed (simp add: yields_Inr)

lemma heartbeat_sim: "moves d (heartbeat en now ru lis d)"
  unfolding heartbeat_def
  by (intro yields_rules) (auto intro: moves_after [OF same_life_sim heartbeat_loop_sim])

text \<open>A changed job that keeps the machine's rules.\<close>

lemma job_step:
  assumes "get_job i d = Some j" "\<And>r. jb_id (f r) = jb_id r"
    and "lstep (life d) (set_job i (jcore_of (f j)) (life d))"
  shows "sim d (update_job i f d)"
  using assms by (intro sim_step) (simp_all add: life_update_job)

lemma transition_step:
  assumes "get_job i d = Some j" "lstep (life d) (set_job i (goto st (jcore_of j)) (life d))"
  shows "sim d (transition i st m d)"
  using assms by (intro sim_step) (simp_all add: life_transition)

lemma advance_sim:
  assumes "get_job (at_job a) d = Some j" "get_attempt k d = Some a" "at_active a"
    and "at_process_state a \<in> {Starting, Active}" "jb_status j \<in> working_states"
    and "st \<in> insert Interrupted working_states"
  shows "sim d (transition (at_job a) st m d)"
  using assms life_runs [of k d a]
  by (intro transition_step lstep.advance [where k = k and a = "acore_of a"]) simp_all

lemma terminal_set: "set terminal_states = ended_states"
  by (auto simp: terminal_states_def ended_states_def)

lemma take_input_core:
  "jcore_of (take_input j) =
     goto (if jb_status j \<in> set reopening_states then Running else jb_status j) (jcore_of j)"
  by (simp add: take_input_def Let_def jcore_of_def goto_def)

lemma take_input_id [simp]: "jb_id (take_input j) = jb_id j"
  by (simp add: take_input_def Let_def)

lemma fold_invalidate_frame [simp]:
  "life (fold invalidate_approvals ks d) = life d"
  "get_job i (fold invalidate_approvals ks d) = get_job i d"
  "same_keys d (fold invalidate_approvals ks e) = same_keys d e"
  by (induction ks arbitrary: d e) simp_all

lemma store_input_sim:
  assumes "get_job (jb_id j) d = Some j" "keys_ok d"
    and "input_admissible j expected (first_active (jb_id j) d) = Inr u"
  shows "moves d (store_input en now actor j key h t ty src d)"
proof -
  let ?d1 = "if jb_status j \<in> set reopening_states
             then fold invalidate_approvals (map at_id (active_attempts (jb_id j) d)) d else d"
  have "jb_status j \<in> set reopening_states \<Longrightarrow> first_active (jb_id j) d \<noteq> None"
    using assms(3) by (auto simp: input_admissible_def reopening_states_def)
  then have run: "jb_status j \<in> set reopening_states \<Longrightarrow> \<not> idle (life d) (jb_id j)"
    using first_active_not_idle [OF assms(2)] by blast
  have "jb_status j = Queued \<or> first_active (jb_id j) d \<noteq> None"
    using assms(3) by (auto simp: input_admissible_def)
  then have live: "jb_status j = Queued \<or> \<not> idle (life d) (jb_id j)"
    using first_active_not_idle [OF assms(2)] by blast
  have st: "jb_status j \<notin> insert CancelRequested ended_states"
    using assms(3) by (auto simp: input_admissible_def terminal_set)
  have "lstep (life d) (set_job (jb_id j) (jcore_of (take_input j)) (life d))"
    unfolding take_input_core using assms(1) run live st by (intro lstep.steer) simp_all
  then have "sim d (update_job (jb_id j) take_input ?d1)"
    using assms(1) by (intro sim_step) (simp_all add: life_update_job)
  then show ?thesis
    unfolding store_input_def Let_def
    by (intro yields_rules) (auto intro: sim_audit_server sim_write sim_fresh)
qed

lemma realm_jobD: "realm_job actor jid d = Inr j \<Longrightarrow> get_job jid d = Some j \<and> jb_id j = jid"
  by (auto simp: realm_job_def dest: jobs.get_key)

lemma add_input_sim: "keys_ok d \<Longrightarrow> moves d (add_input en now actor jid expected key t ty src d)"
  unfolding add_input_def Let_def
  by (intro yields_rules) (auto dest!: realm_jobD intro: store_input_sim)

lemma requeue_job_sim:
  assumes "get_job (jb_id j) d = Some j" "idle (life d) (jb_id j)"
    and "jb_status j \<in> set resumable_states"
  shows "yields (sim d) (requeue_job now j c d)"
proof -
  let ?f = "\<lambda>r. r\<lparr>jb_resume_checkpoint := c, jb_start_deadline := Some (now + start_window),
      jb_result_proposal := None\<rparr>"
  have "same_life d (update_job (jb_id j) ?f d)"
    by (simp add: core_defs)
  moreover from this have "sim (update_job (jb_id j) ?f d)
      (transition (jb_id j) Queued [] (update_job (jb_id j) ?f d))"
    using assms by (intro transition_step [where j = "?f j"] lstep.queue)
      (auto simp: same_life_def resumable_states_def core_defs)
  ultimately have "sim d (transition (jb_id j) Queued [] (update_job (jb_id j) ?f d))"
    by (blast intro: sim_trans same_life_sim)
  then show ?thesis
    unfolding requeue_job_def Let_def
    by (auto intro!: yieldsI dest!: yieldsD [OF create_outbox_quiet] intro: sim_quiet)
qed

lemma resume_job_sim: "yields (sim d) (resume_job en now actor jid expected c d)"
  unfolding resume_job_def
  by (intro yields_rules) (auto dest!: realm_jobD no_active_idle intro: requeue_job_sim)

end
