(* ===== verification/Agent_Writes.thy ===== *)
theory Agent_Writes
  imports Agent_Simulation
begin

text \<open>
  The writes every handler is made of.  \<open>row_write d e\<close> is one of the changes the code makes to the
  execution tables, with the condition under which it makes it: a journal entry is appended with
  the next number, an operation starts when it is authorized or its approval is consumed, and so
  on.  \<open>kept\<close> relations list the columns that never change once a row exists, \<open>step\<close> relations
  the moves of a status column.  What is true of every write is proved here once, and holds of every
  handler because each handler is a sequence of writes (\<^verbatim>\<open>Agent_Handlers.thy\<close>).
\<close>

section \<open>Columns that never change\<close>

definition job_identity :: "job \<Rightarrow> job \<Rightarrow> bool" where
  "job_identity r s =
     (jb_id s = jb_id r \<and> jb_realm s = jb_realm r \<and> jb_created_at s = jb_created_at r \<and>
      jb_requester s = jb_requester r \<and> jb_conversation s = jb_conversation r \<and>
      jb_profile s = jb_profile r \<and> jb_source_message s = jb_source_message r \<and>
      jb_trigger_kind s = jb_trigger_kind r \<and> jb_job_kind s = jb_job_kind r \<and>
      jb_delivery_target s = jb_delivery_target r \<and> jb_request s = jb_request r \<and>
      jb_idempotency_key s = jb_idempotency_key r)"

text \<open>
  A job is admitted once; after that its runner, what it follows and the digest of its request stay,
  its version never decreases, and its two counters are moved by two kinds of write only.
\<close>

definition job_admitted :: "job \<Rightarrow> job \<Rightarrow> bool" where
  "job_admitted r s = (jb_runner s = jb_runner r \<and> jb_follows s = jb_follows r \<and>
     jb_payload_digest s = jb_payload_digest r)"

definition job_kept :: "job \<Rightarrow> job \<Rightarrow> bool" where
  "job_kept r s = (job_identity r s \<and> job_admitted r s \<and> jb_version r \<le> jb_version s \<and>
     jb_event_sequence s = jb_event_sequence r \<and> jb_input_sequence s = jb_input_sequence r)"

definition attempt_kept :: "attempt \<Rightarrow> attempt \<Rightarrow> bool" where
  "attempt_kept a b =
     (at_id b = at_id a \<and> at_realm b = at_realm a \<and> at_created_at b = at_created_at a \<and>
      at_job b = at_job a \<and> at_runner b = at_runner a \<and> at_number b = at_number a \<and>
      at_lease_epoch b = at_lease_epoch a \<and> at_claim_key b = at_claim_key a \<and>
      at_configuration_digest b = at_configuration_digest a \<and>
      at_descriptor_digest b = at_descriptor_digest a \<and> at_descriptor b = at_descriptor a \<and>
      at_audience_binding b = at_audience_binding a \<and>
      at_source_checkpoint b = at_source_checkpoint a)"

text \<open>The two counters of an attempt, moved by two kinds of write only.\<close>

definition attempt_counts :: "attempt \<Rightarrow> attempt \<Rightarrow> bool" where
  "attempt_counts a b = (at_tool_rounds b = at_tool_rounds a \<and> at_event_cursor b = at_event_cursor a)"

definition operation_kept :: "operation \<Rightarrow> operation \<Rightarrow> bool" where
  "operation_kept x y =
     (oper_id y = oper_id x \<and> oper_realm y = oper_realm x \<and> oper_attempt y = oper_attempt x \<and>
      oper_operation_id y = oper_operation_id x \<and> oper_tool_class y = oper_tool_class x \<and>
      oper_argument_digest y = oper_argument_digest x \<and> oper_arguments y = oper_arguments x \<and>
      oper_scope_binding y = oper_scope_binding x)"

definition approval_kept :: "approval \<Rightarrow> approval \<Rightarrow> bool" where
  "approval_kept p q =
     (ap_id q = ap_id p \<and> ap_realm q = ap_realm p \<and> ap_created_at q = ap_created_at p \<and>
      ap_job q = ap_job p \<and> ap_attempt q = ap_attempt p \<and> ap_operation q = ap_operation p \<and>
      ap_operation_hash q = ap_operation_hash p \<and> ap_policy_version q = ap_policy_version p \<and>
      ap_tree_hash q = ap_tree_hash p \<and> ap_arguments q = ap_arguments p \<and>
      ap_expires_at q = ap_expires_at p \<and> ap_nonce q = ap_nonce p)"

definition input_kept :: "input \<Rightarrow> input \<Rightarrow> bool" where
  "input_kept i k =
     (in_id k = in_id i \<and> in_realm k = in_realm i \<and> in_job k = in_job i \<and> in_author k = in_author i \<and>
      in_source_message k = in_source_message i \<and> in_client_key k = in_client_key i \<and>
      in_payload_digest k = in_payload_digest i \<and> in_sequence k = in_sequence i \<and>
      in_input_type k = in_input_type i \<and> in_text k = in_text i)"

section \<open>Moves of a status column\<close>

text \<open>An operation that has started is settled, once, or its outcome stays unknown until it is.\<close>

fun operation_rank :: "operation_state \<Rightarrow> nat" where
  "operation_rank Proposed = 0"
| "operation_rank Authorized = 0"
| "operation_rank OpStarted = 1"
| "operation_rank OutcomeUnk = 2"
| "operation_rank _ = 3"

text \<open>
  The receipt of a team operation is stored in a later transaction than the one that started it; it
  settles the operation even when the recovery pass or the device settled it in between.
\<close>

definition team_settles :: "operation \<Rightarrow> operation \<Rightarrow> bool" where
  "team_settles x y =
     (oper_tool_class x = TeamManage \<and> oper_server_receipt x = None \<and> oper_server_receipt y \<noteq> None \<and>
      1 \<le> operation_rank (oper_status x) \<and> operation_rank (oper_status y) = 3)"

definition operation_settles :: "operation \<Rightarrow> operation \<Rightarrow> bool" where
  "operation_settles x y =
     (operation_kept x y \<and>
      (team_settles x y \<or>
       (oper_server_receipt y = oper_server_receipt x \<and>
        (oper_status y = oper_status x \<or>
         (1 \<le> operation_rank (oper_status x) \<and>
          operation_rank (oper_status x) < operation_rank (oper_status y))))))"

text \<open>
  A decision is final, but an approved proposal may still be consumed, cancelled or expire.  The
  recovery pass saves the rows it has read, so it may mark as expired what the same pass has just
  cancelled.
\<close>

fun decision_after :: "approval_state \<Rightarrow> approval_state \<Rightarrow> bool" where
  "decision_after ApPending t = (t \<noteq> ApPending)"
| "decision_after ApApproved t = (t \<in> {ApConsumed, ApCancelled, ApExpired})"
| "decision_after ApCancelled t = (t = ApExpired)"
| "decision_after _ t = False"

lemma decision_after_pending [simp]: "\<not> decision_after s ApPending"
  by (cases s) simp_all

lemma decision_after_trans: "decision_after s t \<Longrightarrow> decision_after t u \<Longrightarrow> decision_after s u"
  by (cases s; cases t) auto

definition approval_moves :: "approval \<Rightarrow> approval \<Rightarrow> bool" where
  "approval_moves p q =
     (approval_kept p q \<and>
      ((ap_decision q = ap_decision p \<and> ap_approver q = ap_approver p) \<or>
       (decision_after (ap_decision p) (ap_decision q) \<and>
        (ap_decision q = ApConsumed \<longrightarrow> ap_decision p = ApApproved) \<and>
        (ap_approver q = ap_approver p \<or> ap_decision p = ApPending \<and> ap_approver q \<noteq> None) \<and>
        (ap_decision q = ApApproved \<longrightarrow> ap_approver q \<noteq> None))))"

text \<open>An input that was applied stays applied; receipts are only added.\<close>

definition input_moves :: "input \<Rightarrow> input \<Rightarrow> bool" where
  "input_moves i k =
     (input_kept i k \<and> (\<exists>rs. in_receipts k = in_receipts i @ rs) \<and>
      (in_delivery_state i = InApplied \<longrightarrow>
         in_delivery_state k = InApplied \<and> in_applied_at k = in_applied_at i))"

section \<open>The writes\<close>

text \<open>The execution tables; everything else is configuration, credentials and effects.\<close>

definition same_execution :: "db \<Rightarrow> db \<Rightarrow> bool" where
  "same_execution d e =
     (db_jobs e = db_jobs d \<and> db_attempts e = db_attempts d \<and> db_operations e = db_operations d \<and>
      db_approvals e = db_approvals d \<and> db_inputs e = db_inputs d \<and> db_audit e = db_audit d \<and>
      db_artifacts e = db_artifacts d \<and> db_blobs e = db_blobs d \<and> db_checkpoints e = db_checkpoints d \<and>
      db_verifications e = db_verifications d \<and> db_outbox e = db_outbox d \<and> db_sent e = db_sent d \<and>
      db_next d \<le> db_next e)"

definition outbox_kept :: "outbox list \<Rightarrow> outbox list \<Rightarrow> bool" where
  "outbox_kept xs ys =
     ((distinct (map ob_key xs) \<longrightarrow> distinct (map ob_key ys)) \<and> ob_key ` set xs \<subseteq> ob_key ` set ys)"

definition startable :: "db \<Rightarrow> operation \<Rightarrow> bool" where
  "startable d x = (oper_status x = Authorized \<or> (oper_status x = Proposed \<and> consumed_approval (oper_id x) d))"

definition fresh_operation :: "operation \<Rightarrow> bool" where
  "fresh_operation x = (oper_status x = Proposed \<or>
     (oper_status x = Authorized \<and> oper_tool_class x \<notin> set remote_tools))"

definition asks_for :: "approval \<Rightarrow> operation \<Rightarrow> bool" where
  "asks_for p x = (ap_operation p = oper_id x \<and> ap_operation_hash p = oper_argument_digest x \<and>
     ap_arguments p = oper_arguments x \<and> ap_attempt p = oper_attempt x \<and>
     ap_decision p = ApPending \<and> ap_approver p = None)"

inductive row_write :: "db \<Rightarrow> db \<Rightarrow> bool" where
  config: "same_execution d e \<Longrightarrow> row_write d e"
| jobs: "(\<And>r. job_kept r (f r)) \<Longrightarrow> row_write d (d\<lparr>db_jobs := tbl_where P f (db_jobs d)\<rparr>)"
| attempts: "(\<And>r. attempt_kept r (f r)) \<Longrightarrow> (\<And>r. attempt_counts r (f r)) \<Longrightarrow>
    row_write d (d\<lparr>db_attempts := tbl_where P f (db_attempts d)\<rparr>)"
| attempt_new: "fresh d = (at_id a, e) \<Longrightarrow> at_tool_rounds a = 0 \<Longrightarrow> at_event_cursor a = 0 \<Longrightarrow>
    0 \<le> bud_tool_rounds (de_budget (at_descriptor a)) \<Longrightarrow> row_write d (add_attempt a e)"
| tool_round: "get_attempt k d = Some a \<Longrightarrow>
    at_tool_rounds a < bud_tool_rounds (de_budget (at_descriptor a)) \<Longrightarrow>
    row_write d (update_attempt k (\<lambda>r. r\<lparr>at_tool_rounds := at_tool_rounds r + 1\<rparr>) d)"
| journal: "audit en now jid t pl att auth None actor d = Inr e \<Longrightarrow> row_write d e"
| event: "get_attempt k d = Some a \<Longrightarrow> ev_sequence ev = at_event_cursor a + 1 \<Longrightarrow>
    audit en now jid t pl (Some k) AuthRunner (Some ev) None
      (update_attempt k (\<lambda>r. r\<lparr>at_event_cursor := ev_sequence ev\<rparr>) d) = Inr e \<Longrightarrow> row_write d e"
| operations: "(\<And>x. x \<in> set (db_operations d) \<Longrightarrow> P x \<Longrightarrow> operation_settles x (f x)) \<Longrightarrow>
    row_write d (d\<lparr>db_operations := tbl_where P f (db_operations d)\<rparr>)"
| operation_new: "fresh d = (oper_id x, e) \<Longrightarrow> fresh_operation x \<Longrightarrow> row_write d (add_operation x e)"
| operation_start: "get_operation i d = Some x \<Longrightarrow> startable d x \<Longrightarrow>
    row_write d (update_operation i (start_operation now) d)"
| approvals: "(\<And>p. p \<in> set (db_approvals d) \<Longrightarrow> P p \<Longrightarrow> approval_moves p (f p)) \<Longrightarrow>
    row_write d (d\<lparr>db_approvals := tbl_where P f (db_approvals d)\<rparr>)"
| approval_new: "fresh d = (ap_id p, e) \<Longrightarrow> get_operation (ap_operation p) d = Some x \<Longrightarrow>
    asks_for p x \<Longrightarrow> row_write d (add_approval p e)"
| inputs: "(\<And>x. x \<in> set (db_inputs d) \<Longrightarrow> P x \<Longrightarrow> input_moves x (f x)) \<Longrightarrow>
    row_write d (d\<lparr>db_inputs := tbl_where P f (db_inputs d)\<rparr>)"
| input_new: "get_job i d = Some j \<Longrightarrow> fresh (update_job i take_input d) = (in_id x, e) \<Longrightarrow>
    in_job x = i \<Longrightarrow> in_sequence x = jb_input_sequence j + 1 \<Longrightarrow> jb_input_sequence j < max_inputs \<Longrightarrow>
    in_receipts x = [] \<Longrightarrow> row_write d (add_input_row x e)"
| checkpoint_new: "get_checkpoint (ck_id c) d = None \<Longrightarrow> row_write d (add_checkpoint c d)"
| artifact_new: "fresh d = (af_id f, e) \<Longrightarrow> af_size f = int (length data) \<Longrightarrow>
    row_write d (add_artifact f (e\<lparr>db_blobs := db_blobs e @ [(af_id f, data)]\<rparr>))"
| verification_new: "row_write d (d\<lparr>db_verifications := db_verifications d @ [v]\<rparr>)"
| outbox: "outbox_kept (db_outbox d) ob \<Longrightarrow> row_write d (d\<lparr>db_outbox := ob\<rparr>)"
| send: "row_write d (d\<lparr>db_sent := db_sent d @ [m]\<rparr>)"

abbreviation writes :: "db \<Rightarrow> db \<Rightarrow> bool" where
  "writes \<equiv> row_write\<^sup>*\<^sup>*"

section \<open>Rows never disappear\<close>

text \<open>\<open>grown R xs ys\<close>: the rows of \<open>xs\<close> are still there, each changed only as \<open>R\<close> allows, and
  new rows come after them.\<close>

definition grown :: "('r \<Rightarrow> 'r \<Rightarrow> bool) \<Rightarrow> 'r list \<Rightarrow> 'r list \<Rightarrow> bool" where
  "grown R xs ys = (\<exists>zs ws. ys = zs @ ws \<and> list_all2 R xs zs)"

lemma grown_refl: "(\<And>x. R x x) \<Longrightarrow> grown R xs xs"
  unfolding grown_def by (intro exI [of _ xs] exI [of _ "[]"]) (simp add: list_all2_same)

lemma grown_append: "(\<And>x. R x x) \<Longrightarrow> grown R xs (xs @ ys)"
  unfolding grown_def by (intro exI [of _ xs] exI [of _ ys]) (simp add: list_all2_same)

lemma grown_where:
  assumes "\<And>x. R x x" "\<And>x. x \<in> set xs \<Longrightarrow> P x \<Longrightarrow> R x (f x)"
  shows "grown R xs (tbl_where P f xs)"
  unfolding grown_def
  by (intro exI [of _ "tbl_where P f xs"] exI [of _ "[]"])
    (use assms in \<open>auto simp: tbl_where_def list_all2_map2 intro: list_all2_refl list.rel_refl_strong\<close>)

lemma grown_trans:
  assumes "\<And>x y z. R x y \<Longrightarrow> R y z \<Longrightarrow> R x z" "grown R xs ys" "grown R ys zs"
  shows "grown R xs zs"
proof -
  obtain us vs where ys: "ys = us @ vs" "list_all2 R xs us"
    using assms(2) by (auto simp: grown_def)
  obtain ps qs where zs: "zs = ps @ qs" "list_all2 R ys ps"
    using assms(3) by (auto simp: grown_def)
  from zs(2) [unfolded ys(1) list_all2_append1]
  obtain p1 p2 where ps: "ps = p1 @ p2" "list_all2 R us p1" by blast
  have "list_all2 R xs p1"
    by (rule list_all2_trans [OF assms(1) ys(2) ps(2)])
  with zs(1) ps(1) show ?thesis
    unfolding grown_def by (intro exI [of _ p1] exI [of _ "p2 @ qs"]) simp
qed

lemma grownD:
  assumes "grown R xs ys" "x \<in> set xs"
  shows "\<exists>y\<in>set ys. R x y"
proof -
  obtain zs ws where ys: "ys = zs @ ws" "list_all2 R xs zs"
    using assms(1) by (auto simp: grown_def)
  obtain n where n: "n < length xs" "x = xs ! n"
    using assms(2) by (auto simp: in_set_conv_nth)
  from ys(2) n have "zs ! n \<in> set zs" "R x (zs ! n)"
    by (auto simp: list_all2_conv_all_nth)
  with ys(1) show ?thesis by auto
qed

lemma grown_prefix: "grown (=) xs ys = (\<exists>zs. ys = xs @ zs)"
  by (auto simp: grown_def list_all2_eq [symmetric])

definition job_later :: "job \<Rightarrow> job \<Rightarrow> bool" where
  "job_later r s = (job_identity r s \<and> jb_version r \<le> jb_version s \<and>
     jb_event_sequence r \<le> jb_event_sequence s \<and> jb_input_sequence r \<le> jb_input_sequence s \<and>
     (jb_version s = jb_version r \<longrightarrow> jb_input_sequence s = jb_input_sequence r))"

definition attempt_later :: "attempt \<Rightarrow> attempt \<Rightarrow> bool" where
  "attempt_later a b = (attempt_kept a b \<and> at_tool_rounds a \<le> at_tool_rounds b \<and>
     at_event_cursor a \<le> at_event_cursor b)"

definition operation_later :: "operation \<Rightarrow> operation \<Rightarrow> bool" where
  "operation_later x y = (operation_kept x y \<and>
     operation_rank (oper_status x) \<le> operation_rank (oper_status y) \<and>
     (oper_server_receipt x \<noteq> None \<or> oper_tool_class x \<noteq> TeamManage \<longrightarrow>
        oper_server_receipt y = oper_server_receipt x) \<and>
     (oper_server_receipt y = oper_server_receipt x \<and>
      operation_rank (oper_status y) = operation_rank (oper_status x) \<longrightarrow>
        oper_status y = oper_status x))"

definition approval_later :: "approval \<Rightarrow> approval \<Rightarrow> bool" where
  "approval_later p q = (approval_kept p q \<and>
     ((ap_decision q = ap_decision p \<and> ap_approver q = ap_approver p) \<or>
      (decision_after (ap_decision p) (ap_decision q) \<and>
       (ap_decision p \<noteq> ApPending \<longrightarrow> ap_approver q = ap_approver p))))"

definition later :: "db \<Rightarrow> db \<Rightarrow> bool" where
  "later d e =
     (grown job_later (db_jobs d) (db_jobs e) \<and> grown attempt_later (db_attempts d) (db_attempts e) \<and>
      grown operation_later (db_operations d) (db_operations e) \<and>
      grown approval_later (db_approvals d) (db_approvals e) \<and>
      grown input_moves (db_inputs d) (db_inputs e) \<and> grown (=) (db_audit d) (db_audit e) \<and>
      grown (=) (db_artifacts d) (db_artifacts e) \<and> grown (=) (db_blobs d) (db_blobs e) \<and>
      grown (=) (db_checkpoints d) (db_checkpoints e) \<and>
      grown (=) (db_verifications d) (db_verifications e) \<and> grown (=) (db_sent d) (db_sent e) \<and>
      ob_key ` set (db_outbox d) \<subseteq> ob_key ` set (db_outbox e) \<and> db_next d \<le> db_next e)"

lemmas kept_defs = job_identity_def job_admitted_def job_kept_def attempt_kept_def attempt_counts_def
  operation_kept_def approval_kept_def input_kept_def

lemmas later_defs = kept_defs job_later_def attempt_later_def operation_later_def
  approval_later_def input_moves_def

lemma later_row_refl [simp]:
  "job_later r r" "attempt_later a a" "operation_later x x" "approval_later p p" "input_moves i i"
  by (simp_all add: later_defs)

lemma later_row_trans:
  "job_later r s \<Longrightarrow> job_later s t \<Longrightarrow> job_later r t"
  "attempt_later a b \<Longrightarrow> attempt_later b c \<Longrightarrow> attempt_later a c"
  "operation_later x y \<Longrightarrow> operation_later y z \<Longrightarrow> operation_later x z"
  "approval_later p q \<Longrightarrow> approval_later q p' \<Longrightarrow> approval_later p p'"
  "input_moves i k \<Longrightarrow> input_moves k l \<Longrightarrow> input_moves i l"
  by (auto simp: job_later_def job_identity_def, auto simp: attempt_later_def attempt_kept_def,
      force simp: operation_later_def operation_kept_def,
      auto simp: approval_later_def approval_kept_def dest: decision_after_trans,
      auto simp: input_moves_def input_kept_def)

lemma later_refl: "later d d"
  by (simp add: later_def grown_refl)

lemma later_trans: "later d e \<Longrightarrow> later e f \<Longrightarrow> later d f"
  unfolding later_def
  by (blast intro: grown_trans later_row_trans trans order_trans subset_trans)

section \<open>Identifiers\<close>

definition id_lists :: "db \<Rightarrow> uuid list list" where
  "id_lists d = [map jb_id (db_jobs d), map at_id (db_attempts d), map oper_id (db_operations d),
     map ap_id (db_approvals d), map in_id (db_inputs d), map af_id (db_artifacts d)]"

definition ids_ok :: "db \<Rightarrow> bool" where
  "ids_ok d = (\<forall>xs\<in>set (id_lists d). distinct xs \<and> (\<forall>k\<in>set xs. k < db_next d))"

lemma ids_okI:
  assumes "ids_ok d" "db_next d \<le> db_next e"
    and "list_all2 (\<lambda>xs ys. ys = xs \<or> (ys = xs @ [db_next d] \<and> db_next d < db_next e)) (id_lists d) (id_lists e)"
  shows "ids_ok e"
  unfolding ids_ok_def
proof
  fix ys assume "ys \<in> set (id_lists e)"
  then obtain i where i: "i < length (id_lists e)" "ys = id_lists e ! i"
    by (auto simp: in_set_conv_nth)
  with assms(3) have xs: "id_lists d ! i \<in> set (id_lists d)"
    "ys = id_lists d ! i \<or> (ys = id_lists d ! i @ [db_next d] \<and> db_next d < db_next e)"
    by (auto simp: list_all2_conv_all_nth)
  with assms(1) have "distinct (id_lists d ! i)" "\<forall>k\<in>set (id_lists d ! i). k < db_next d"
    by (auto simp: ids_ok_def)
  with xs(2) assms(2) show "distinct ys \<and> (\<forall>k\<in>set ys. k < db_next e)" by fastforce
qed

lemma ids_unique:
  assumes "ids_ok d"
  shows "j \<in> set (db_jobs d) \<Longrightarrow> get_job (jb_id j) d = Some j"
    and "a \<in> set (db_attempts d) \<Longrightarrow> get_attempt (at_id a) d = Some a"
    and "x \<in> set (db_operations d) \<Longrightarrow> get_operation (oper_id x) d = Some x"
    and "p \<in> set (db_approvals d) \<Longrightarrow> get_approval (ap_id p) d = Some p"
    and "i \<in> set (db_inputs d) \<Longrightarrow> get_input (in_id i) d = Some i"
    and "f \<in> set (db_artifacts d) \<Longrightarrow> get_artifact (af_id f) d = Some f"
  using assms by (simp_all add: ids_ok_def id_lists_def jobs.unique attempts.unique operations.unique
      approvals.unique inputs.unique artifacts.unique)

lemma map_where: "(\<And>x. x \<in> set t \<Longrightarrow> P x \<Longrightarrow> g (f x) = g x) \<Longrightarrow> map g (tbl_where P f t) = map g t"
  by (simp add: tbl_where_def)

text \<open>The tables a journal entry leaves alone.\<close>

lemma audit_tables:
  assumes "audit en now jid t pl att auth ev actor d = Inr e"
  shows "db_jobs e = tbl_where (\<lambda>r. jb_id r = jid) bump_sequence (db_jobs d)"
    "db_attempts e = db_attempts d" "db_operations e = db_operations d"
    "db_approvals e = db_approvals d" "db_inputs e = db_inputs d" "db_artifacts e = db_artifacts d"
    "db_blobs e = db_blobs d" "db_checkpoints e = db_checkpoints d"
    "db_verifications e = db_verifications d" "db_outbox e = db_outbox d" "db_sent e = db_sent d"
    "db_next d \<le> db_next e"
  using assms by (auto elim!: auditE)

lemma take_input_kept [simp]:
  "jb_event_sequence (take_input j) = jb_event_sequence j"
  "jb_input_sequence (take_input j) = jb_input_sequence j + 1" "job_identity j (take_input j)"
  "jb_id (take_input j) = jb_id j"
  by (simp_all add: take_input_def Let_def job_identity_def)

lemma start_operation_kept [simp]:
  "operation_kept x (start_operation now x)" "oper_status (start_operation now x) = OpStarted"
  "oper_id (start_operation now x) = oper_id x"
  by (simp_all add: start_operation_def operation_kept_def)

theorem write_ids: "row_write d e \<Longrightarrow> ids_ok d \<Longrightarrow> ids_ok e"
proof (induction rule: row_write.induct)
  case (operations d P f)
  then show ?case
    by (intro ids_okI [OF operations(2)])
      (auto simp: id_lists_def map_where operation_settles_def operation_kept_def)
next
  case (approvals d P f)
  then show ?case
    by (intro ids_okI [OF approvals(2)])
      (auto simp: id_lists_def map_where approval_moves_def approval_kept_def)
next
  case (inputs d P f)
  then show ?case
    by (intro ids_okI [OF inputs(2)]) (auto simp: id_lists_def map_where input_moves_def input_kept_def)
next
  case (journal en now jid t pl att auth actor d e)
  then show ?case
    by (intro ids_okI [OF journal(2)])
      (auto simp: id_lists_def audit_tables [OF journal(1)] map_where)
next
  case (event k d a ev en now jid t pl e)
  then show ?case
    by (intro ids_okI [OF event(4)])
      (use audit_tables [OF event(3)] in \<open>auto simp: id_lists_def map_where\<close>)
next
  case (config d e)
  then show ?case
    by (intro ids_okI [OF config(2)]) (auto simp: id_lists_def same_execution_def)
next
  case (jobs f d P)
  then show ?case
    by (intro ids_okI [OF jobs(2)]) (auto simp: id_lists_def map_where kept_defs)
next
  case (attempts f d P)
  then show ?case
    by (intro ids_okI [OF attempts(3)]) (auto simp: id_lists_def map_where kept_defs)
next
  case (attempt_new d a e)
  then show ?case
    by (intro ids_okI [OF attempt_new(5)]) (auto simp: id_lists_def fresh_def add_attempt_def)
next
  case (tool_round k d a)
  then show ?case
    by (intro ids_okI [OF tool_round(3)]) (auto simp: id_lists_def map_where)
next
  case (operation_new d x e)
  then show ?case
    by (intro ids_okI [OF operation_new(3)]) (auto simp: id_lists_def fresh_def add_operation_def)
next
  case (operation_start i d x now)
  then show ?case
    by (intro ids_okI [OF operation_start(3)]) (auto simp: id_lists_def map_where)
next
  case (approval_new d p e x)
  then show ?case
    by (intro ids_okI [OF approval_new(4)]) (auto simp: id_lists_def fresh_def add_approval_def)
next
  case (input_new i d j x e)
  then show ?case
    by (intro ids_okI [OF input_new(7)]) (auto simp: id_lists_def fresh_def add_input_row_def map_where)
next
  case (checkpoint_new c d)
  then show ?case by (simp add: ids_ok_def id_lists_def add_checkpoint_def)
next
  case (artifact_new d f e data)
  then show ?case
    by (intro ids_okI [OF artifact_new(3)]) (auto simp: id_lists_def fresh_def add_artifact_def)
qed (simp_all add: ids_ok_def id_lists_def)

section \<open>Every write makes the database later\<close>

lemma bump_later: "job_later j (bump_sequence j)"
  by (simp add: job_later_def job_identity_def bump_sequence_def)

lemma later_same_simps:
  "grown job_later xs xs" "grown attempt_later as as" "grown operation_later os os"
  "grown approval_later ps ps" "grown input_moves is is" "grown (=) rs rs"
  by (simp_all add: grown_refl)

lemma laterI:
  assumes "grown job_later (db_jobs d) (db_jobs e)" "grown attempt_later (db_attempts d) (db_attempts e)"
    "grown operation_later (db_operations d) (db_operations e)"
    "grown approval_later (db_approvals d) (db_approvals e)"
    "grown input_moves (db_inputs d) (db_inputs e)" "grown (=) (db_audit d) (db_audit e)"
    "grown (=) (db_artifacts d) (db_artifacts e)" "grown (=) (db_blobs d) (db_blobs e)"
    "grown (=) (db_checkpoints d) (db_checkpoints e)"
    "grown (=) (db_verifications d) (db_verifications e)" "grown (=) (db_sent d) (db_sent e)"
    "ob_key ` set (db_outbox d) \<subseteq> ob_key ` set (db_outbox e)" "db_next d \<le> db_next e"
  shows "later d e"
  using assms by (simp add: later_def)

lemma audit_later:
  assumes "audit en now jid t pl att auth ev actor d = Inr e"
  shows "later d e"
proof -
  have "grown (=) (db_audit d) (db_audit e)"
    using assms by (auto elim!: auditE intro: grown_append)
  then show ?thesis
    by (intro laterI)
      (simp_all add: audit_tables [OF assms] later_same_simps grown_where bump_later)
qed

lemma moves_refl [simp]: "operation_settles x x" "approval_moves p p"
  by (simp_all add: operation_settles_def approval_moves_def kept_defs)

lemma settles_later: "operation_settles x y \<Longrightarrow> operation_later x y"
proof -
  have "operation_rank s \<le> 3" for s by (cases s) simp_all
  then show "operation_settles x y \<Longrightarrow> operation_later x y"
    by (auto simp: operation_settles_def team_settles_def operation_later_def)
qed

lemma moves_later: "approval_moves p q \<Longrightarrow> approval_later p q"
  by (auto simp: approval_moves_def approval_later_def)

lemma take_input_version [simp]: "jb_version (take_input j) = jb_version j + 1"
  by (simp add: take_input_def Let_def)

theorem write_later: "row_write d e \<Longrightarrow> ids_ok d \<Longrightarrow> later d e"
proof (induction rule: row_write.induct)
  case (event k d a ev en now jid t pl e)
  have "x = a" if "x \<in> set (db_attempts d)" "at_id x = k" for x
    using ids_unique(2) [OF event(4) that(1)] event(1) that(2) by simp
  then have "later d (update_attempt k (\<lambda>r. r\<lparr>at_event_cursor := ev_sequence ev\<rparr>) d)"
    using event(2) by (intro laterI)
      (auto simp: later_same_simps attempt_later_def attempt_kept_def intro!: grown_where)
  with audit_later [OF event(3)] show ?case by (blast intro: later_trans)
next
  case (operation_start i d x now)
  have "y = x" if "y \<in> set (db_operations d)" "oper_id y = i" for y
    using ids_unique(3) [OF operation_start(3) that(1)] operation_start(1) that(2) by simp
  with operation_start(2) show ?case
    by (intro laterI)
      (auto simp: later_same_simps operation_later_def operation_kept_def startable_def start_operation_def
        intro!: grown_where)
next
  case (input_new i d j x e)
  have e: "e = (update_job i take_input d)\<lparr>db_next := db_next d + 1\<rparr>"
    using input_new(2) by (auto simp: fresh_def)
  show ?case
    unfolding e by (intro laterI)
      (auto simp: add_input_row_def later_same_simps job_later_def intro!: grown_where grown_append)
next
  case (journal en now jid t pl att auth actor d e)
  then show ?case by (intro audit_later)
qed (auto intro!: laterI grown_where grown_append settles_later moves_later
      simp: later_same_simps same_execution_def fresh_def add_attempt_def add_operation_def
        add_approval_def add_checkpoint_def add_artifact_def outbox_kept_def
        job_kept_def job_later_def attempt_counts_def attempt_later_def attempt_kept_def)

interpretation history: evolution row_write ids_ok later
  by unfold_locales (auto intro: write_ids later_refl later_trans write_later)

end
