(* ===== verification/Agent_Records.thy ===== *)
theory Agent_Records
  imports Agent_Writes
begin

text \<open>
  The invariants of the records, each proved once for every write of \<^verbatim>\<open>Agent_Writes.thy\<close>: the
  journal of a job is numbered without gaps, so are its inputs (at most 100) and the events of an
  attempt; an attempt never exceeds its tool rounds; an approval describes exactly the operation
  it was asked for and is never approved by nobody; and a push or a draft pull request has started
  only after its approval was consumed.
\<close>

section \<open>The invariants\<close>

definition job_entries :: "uuid \<Rightarrow> db \<Rightarrow> audit_event list" where
  "job_entries i d = filter (\<lambda>r. au_job r = i) (db_audit d)"

definition job_input_rows :: "uuid \<Rightarrow> db \<Rightarrow> input list" where
  "job_input_rows i d = filter (\<lambda>x. in_job x = i) (db_inputs d)"

definition attempt_events :: "uuid \<Rightarrow> db \<Rightarrow> audit_event list" where
  "attempt_events k d =
     filter (\<lambda>r. au_attempt_sequence r \<noteq> None \<and> au_attempt r = Some k) (db_audit d)"

definition journal_ok :: "db \<Rightarrow> bool" where
  "journal_ok d =
     ((\<forall>i j. get_job i d = Some j \<longrightarrow> 0 \<le> jb_event_sequence j \<and>
         map au_sequence (job_entries i d) = [1..jb_event_sequence j]) \<and>
      (\<forall>i. get_job i d = None \<longrightarrow> job_entries i d = []))"

definition inputs_ok :: "db \<Rightarrow> bool" where
  "inputs_ok d =
     ((\<forall>i j. get_job i d = Some j \<longrightarrow> 0 \<le> jb_input_sequence j \<and> jb_input_sequence j \<le> max_inputs \<and>
         map in_sequence (job_input_rows i d) = [1..jb_input_sequence j]) \<and>
      (\<forall>i. get_job i d = None \<longrightarrow> job_input_rows i d = []))"

definition events_ok :: "db \<Rightarrow> bool" where
  "events_ok d =
     ((\<forall>k a. get_attempt k d = Some a \<longrightarrow> 0 \<le> at_event_cursor a \<and>
         map au_attempt_sequence (attempt_events k d) = map Some [1..at_event_cursor a]) \<and>
      (\<forall>k. get_attempt k d = None \<longrightarrow> attempt_events k d = []))"

definition rounds_ok :: "db \<Rightarrow> bool" where
  "rounds_ok d = (\<forall>a\<in>set (db_attempts d).
     0 \<le> at_tool_rounds a \<and> at_tool_rounds a \<le> bud_tool_rounds (de_budget (at_descriptor a)))"

definition approval_ok :: "db \<Rightarrow> approval \<Rightarrow> bool" where
  "approval_ok d p =
     ((\<exists>x\<in>set (db_operations d). ap_operation p = oper_id x \<and> ap_operation_hash p = oper_argument_digest x \<and>
         ap_arguments p = oper_arguments x \<and> ap_attempt p = oper_attempt x) \<and>
      (ap_decision p \<in> {ApApproved, ApConsumed} \<longrightarrow> ap_approver p \<noteq> None))"

definition approvals_ok :: "db \<Rightarrow> bool" where
  "approvals_ok d = (\<forall>p\<in>set (db_approvals d). approval_ok d p)"

definition remote_ok :: "db \<Rightarrow> bool" where
  "remote_ok d = (\<forall>x\<in>set (db_operations d). oper_tool_class x \<in> set remote_tools \<longrightarrow>
     oper_status x = Proposed \<or> consumed_approval (oper_id x) d)"

definition records_ok :: "db \<Rightarrow> bool" where
  "records_ok d = (ids_ok d \<and> journal_ok d \<and> inputs_ok d \<and> events_ok d \<and> rounds_ok d \<and>
     approvals_ok d \<and> remote_ok d)"

section \<open>Rows looked up after a write\<close>

lemma get_job_where:
  "(\<And>r. jb_id (f r) = jb_id r) \<Longrightarrow>
   get_job i (d\<lparr>db_jobs := tbl_where P f (db_jobs d)\<rparr>) = map_option (\<lambda>r. if P r then f r else r) (get_job i d)"
  by (simp add: get_job_def tbl_get_where)

lemma get_attempt_where:
  "(\<And>r. at_id (f r) = at_id r) \<Longrightarrow>
   get_attempt i (d\<lparr>db_attempts := tbl_where P f (db_attempts d)\<rparr>) =
     map_option (\<lambda>r. if P r then f r else r) (get_attempt i d)"
  by (simp add: get_attempt_def tbl_get_where)

lemma same_rows:
  "db_jobs e = db_jobs d \<Longrightarrow> get_job i e = get_job i d"
  "db_attempts e = db_attempts d \<Longrightarrow> get_attempt i e = get_attempt i d"
  by (simp_all add: get_job_def get_attempt_def)

lemma get_bump:
  assumes "get_job jid d = Some j"
  shows "get_job i ((update_job jid bump_sequence d)\<lparr>db_next := n, db_audit := rs\<rparr>) =
    (if i = jid then Some (bump_sequence j) else get_job i d)"
proof -
  have "get_job i ((update_job jid bump_sequence d)\<lparr>db_next := n, db_audit := rs\<rparr>) =
      get_job i (update_job jid bump_sequence d)" by (rule same_rows) simp
  also have "\<dots> = map_option (\<lambda>r. if jb_id r = jid then bump_sequence r else r) (get_job i d)"
    by (rule get_update_job) simp
  finally show ?thesis
    using assms jobs.get_key [of i d] by (cases "get_job i d") auto
qed

section \<open>The journal\<close>

lemma journal_cong:
  assumes "journal_ok d" "db_audit e = db_audit d"
    and "\<And>i. map_option jb_event_sequence (get_job i e) = map_option jb_event_sequence (get_job i d)"
  shows "journal_ok e"
  unfolding journal_ok_def
proof (intro conjI allI impI)
  note ok = assms(1) [unfolded journal_ok_def]
  fix i j assume "get_job i e = Some j"
  with assms(3) [of i] obtain k where k: "get_job i d = Some k" "jb_event_sequence k = jb_event_sequence j"
    by (cases "get_job i d") auto
  then show "0 \<le> jb_event_sequence j" using ok by metis
  show "map au_sequence (job_entries i e) = [1..jb_event_sequence j]"
    using k ok assms(2) by (simp add: job_entries_def)
next
  fix i assume "get_job i e = None"
  with assms(3) [of i] have "get_job i d = None" by simp
  with assms(1,2) show "job_entries i e = []" by (simp add: journal_ok_def job_entries_def)
qed

lemma audit_journal:
  assumes "audit en now jid t pl att auth ev actor d = Inr e" "journal_ok d"
  shows "journal_ok e"
  using assms(1)
proof (elim auditE)
  fix j x n
  assume j: "get_job jid d = Some j" "jb_id j = jid"
    and e: "e = (update_job jid bump_sequence d)\<lparr>db_next := n,
      db_audit := db_audit d @ [audit_row now (bump_sequence j) t pl att auth ev actor x]\<rparr>"
  let ?r = "audit_row now (bump_sequence j) t pl att auth ev actor x"
  have ent: "job_entries i e = job_entries i d @ (if i = jid then [?r] else [])" for i
    using j(2) by (simp add: e job_entries_def)
  have s: "0 \<le> jb_event_sequence j" "map au_sequence (job_entries jid d) = [1..jb_event_sequence j]"
    using assms(2) j(1) by (simp_all add: journal_ok_def)
  then have "[1..jb_event_sequence j + 1] = [1..jb_event_sequence j] @ [jb_event_sequence j + 1]"
    using upto_rec2 [of 1 "jb_event_sequence j + 1"] by simp
  with s assms(2) j show "journal_ok e"
    unfolding journal_ok_def ent by (auto simp: e get_bump)
qed

lemma write_journal: "row_write d e \<Longrightarrow> journal_ok d \<Longrightarrow> journal_ok e"
proof (induction rule: row_write.induct)
  case (jobs f d P)
  show ?case
    by (rule journal_cong [OF jobs(2)])
      (use jobs(1) in \<open>auto simp: get_job_where kept_defs option.map_comp intro!: option.map_cong\<close>)
next
  case (event k d a ev en now jid t pl e)
  show ?case
    by (rule audit_journal [OF event(3)], rule journal_cong [OF event(4)]) simp_all
next
  case (input_new i d j x e)
  have "get_job y (add_input_row x e) = get_job y (update_job i take_input d)" for y
    using input_new(2) by (intro same_rows) (auto simp: fresh_def add_input_row_def)
  then show ?case
    using input_new(2) by (intro journal_cong [OF input_new(7)])
      (auto simp: fresh_def add_input_row_def get_update_job option.map_comp intro!: option.map_cong)
next
  case (journal en now jid t pl att auth actor d e)
  then show ?case by (rule audit_journal)
qed (erule journal_cong; auto simp: same_execution_def fresh_def add_defs
      intro!: arg_cong [of _ _ "map_option _"] same_rows)+

section \<open>Inputs\<close>

lemma inputs_cong:
  assumes "inputs_ok d" "map (\<lambda>x. (in_job x, in_sequence x)) (db_inputs e) =
      map (\<lambda>x. (in_job x, in_sequence x)) (db_inputs d)"
    and "\<And>i. map_option jb_input_sequence (get_job i e) = map_option jb_input_sequence (get_job i d)"
  shows "inputs_ok e"
proof -
  have "map in_sequence (job_input_rows i c) =
      map snd (filter (\<lambda>p. fst p = i) (map (\<lambda>x. (in_job x, in_sequence x)) (db_inputs c)))" for i c
    by (simp add: job_input_rows_def filter_map comp_def)
  with assms(2) have m: "map in_sequence (job_input_rows i e) = map in_sequence (job_input_rows i d)" for i
    by simp
  then have n: "job_input_rows i e = [] \<longleftrightarrow> job_input_rows i d = []" for i
    by (metis map_is_Nil_conv)
  show ?thesis
    unfolding inputs_ok_def
  proof (intro conjI allI impI)
    note ok = assms(1) [unfolded inputs_ok_def]
    fix i j assume "get_job i e = Some j"
    with assms(3) [of i] obtain k where k: "get_job i d = Some k" "jb_input_sequence k = jb_input_sequence j"
      by (cases "get_job i d") auto
    show "0 \<le> jb_input_sequence j" "jb_input_sequence j \<le> max_inputs"
      "map in_sequence (job_input_rows i e) = [1..jb_input_sequence j]"
      using k ok m by (metis, metis, metis)
  next
    fix i assume "get_job i e = None"
    with assms(3) [of i] have "get_job i d = None" by simp
    with assms(1) n show "job_input_rows i e = []" by (simp add: inputs_ok_def)
  qed
qed

lemma audit_inputs:
  assumes "audit en now jid t pl att auth ev actor d = Inr e" "inputs_ok d"
  shows "inputs_ok e"
proof (rule inputs_cong [OF assms(2)])
  show "map_option jb_input_sequence (get_job i e) = map_option jb_input_sequence (get_job i d)" for i
    using assms(1) by (elim auditE, cases "i = jid") (simp_all add: get_bump bump_sequence_def)
qed (simp add: audit_tables [OF assms(1)])

lemma add_input_ok:
  assumes ok: "inputs_ok d" and j: "get_job i d = Some j" and x: "in_job x = i"
    "in_sequence x = jb_input_sequence j + 1" "jb_input_sequence j < max_inputs"
    and e: "db_inputs e = db_inputs d @ [x]" "\<And>y. get_job y e = get_job y (update_job i take_input d)"
  shows "inputs_ok e"
proof -
  have g: "get_job y e = (if y = i then Some (take_input j) else get_job y d)" for y
    using j jobs.get_key [of y d] by (cases "get_job y d") (auto simp: e(2) get_update_job)
  have r: "job_input_rows y e = job_input_rows y d @ (if y = i then [x] else [])" for y
    using x(1) by (simp add: e(1) job_input_rows_def)
  have s: "0 \<le> jb_input_sequence j" "map in_sequence (job_input_rows i d) = [1..jb_input_sequence j]"
    using ok j by (simp_all add: inputs_ok_def)
  then have "[1..jb_input_sequence j + 1] = [1..jb_input_sequence j] @ [jb_input_sequence j + 1]"
    using upto_rec2 [of 1 "jb_input_sequence j + 1"] by simp
  with s ok x show ?thesis
    unfolding inputs_ok_def r by (auto simp: g)
qed

lemma write_inputs: "row_write d e \<Longrightarrow> inputs_ok d \<Longrightarrow> inputs_ok e"
proof (induction rule: row_write.induct)
  case (jobs f d P)
  show ?case
    by (rule inputs_cong [OF jobs(2)])
      (use jobs(1) in \<open>auto simp: get_job_where kept_defs option.map_comp intro!: option.map_cong\<close>)
next
  case (event k d a ev en now jid t pl e)
  show ?case
    by (rule audit_inputs [OF event(3)], rule inputs_cong [OF event(4)]) simp_all
next
  case (input_new i d j x e)
  show ?case
    by (rule add_input_ok [OF input_new(7) input_new(1,3-5)])
      (use input_new(2) in \<open>auto simp: fresh_def add_input_row_def intro!: same_rows\<close>)
next
  case (journal en now jid t pl att auth actor d e)
  then show ?case by (rule audit_inputs)
next
  case (inputs d P f)
  show ?case
    by (rule inputs_cong [OF inputs(2)])
      (use inputs(1) in \<open>auto simp: input_moves_def input_kept_def tbl_where_def
        intro!: arg_cong [of _ _ "map_option _"] same_rows\<close>)
qed (erule inputs_cong; auto simp: same_execution_def fresh_def add_defs
      intro!: arg_cong [of _ _ "map_option _"] same_rows)+

section \<open>Events of an attempt\<close>

lemma events_cong:
  assumes "events_ok d"
    and "map (\<lambda>r. (au_attempt r, au_attempt_sequence r)) (filter (\<lambda>r. au_attempt_sequence r \<noteq> None) (db_audit e)) =
      map (\<lambda>r. (au_attempt r, au_attempt_sequence r)) (filter (\<lambda>r. au_attempt_sequence r \<noteq> None) (db_audit d))"
    and "\<And>k. map_option at_event_cursor (get_attempt k e) = map_option at_event_cursor (get_attempt k d)"
  shows "events_ok e"
proof -
  have ev: "map au_attempt_sequence (attempt_events k c) = map snd (filter (\<lambda>p. fst p = Some k)
      (map (\<lambda>r. (au_attempt r, au_attempt_sequence r)) (filter (\<lambda>r. au_attempt_sequence r \<noteq> None) (db_audit c))))" for k c
    by (simp only: attempt_events_def filter_map comp_def filter_filter map_map fst_conv snd_conv)
  have m: "map au_attempt_sequence (attempt_events k e) = map au_attempt_sequence (attempt_events k d)" for k
    unfolding ev assms(2) ..
  then have n: "attempt_events k e = [] \<longleftrightarrow> attempt_events k d = []" for k
    by (metis map_is_Nil_conv)
  show ?thesis
    unfolding events_ok_def
  proof (intro conjI allI impI)
    note ok = assms(1) [unfolded events_ok_def]
    fix k a assume "get_attempt k e = Some a"
    with assms(3) [of k] obtain b where b: "get_attempt k d = Some b" "at_event_cursor b = at_event_cursor a"
      by (cases "get_attempt k d") auto
    show "0 \<le> at_event_cursor a"
      "map au_attempt_sequence (attempt_events k e) = map Some [1..at_event_cursor a]"
      using b ok m by (metis, metis)
  next
    fix k assume "get_attempt k e = None"
    with assms(3) [of k] have "get_attempt k d = None" by simp
    with assms(1) n show "attempt_events k e = []" by (simp add: events_ok_def)
  qed
qed

lemma events_same:
  "events_ok d \<Longrightarrow> db_audit e = db_audit d \<Longrightarrow> db_attempts e = db_attempts d \<Longrightarrow> events_ok e"
  using same_rows(2) [of e d] by (intro events_cong [of d e]) simp_all

lemma journal_events:
  assumes "audit en now jid t pl att auth None actor d = Inr e" "events_ok d"
  shows "events_ok e"
proof (rule events_cong [OF assms(2)])
  obtain r where "db_audit e = db_audit d @ [r]" "au_attempt_sequence r = None"
    using assms(1) by (elim auditE) simp
  then show "map (\<lambda>r. (au_attempt r, au_attempt_sequence r)) (filter (\<lambda>r. au_attempt_sequence r \<noteq> None) (db_audit e)) =
      map (\<lambda>r. (au_attempt r, au_attempt_sequence r)) (filter (\<lambda>r. au_attempt_sequence r \<noteq> None) (db_audit d))"
    by simp
  show "map_option at_event_cursor (get_attempt k e) = map_option at_event_cursor (get_attempt k d)" for k
    by (simp add: same_rows(2) [OF audit_tables(2) [OF assms(1)]])
qed

lemma event_events:
  assumes "get_attempt k d = Some a" "ev_sequence ev = at_event_cursor a + 1" "events_ok d"
    and "audit en now jid t pl (Some k) AuthRunner (Some ev) None
      (update_attempt k (\<lambda>r. r\<lparr>at_event_cursor := ev_sequence ev\<rparr>) d) = Inr e"
  shows "events_ok e"
proof -
  let ?u = "update_attempt k (\<lambda>r. r\<lparr>at_event_cursor := ev_sequence ev\<rparr>) d"
  from assms(4) obtain j n x where e: "e = (update_job jid bump_sequence ?u)\<lparr>db_next := n,
      db_audit := db_audit ?u @ [audit_row now (bump_sequence j) t pl (Some k) AuthRunner (Some ev) None x]\<rparr>"
    by (elim auditE)
  let ?r = "audit_row now (bump_sequence j) t pl (Some k) AuthRunner (Some ev) None x"
  have g: "get_attempt y e = (if y = k then Some (a\<lparr>at_event_cursor := ev_sequence ev\<rparr>) else get_attempt y d)" for y
  proof -
    have "get_attempt y e = get_attempt y ?u" by (rule same_rows) (simp add: e)
    then show ?thesis
      using assms(1) attempts.get_key [of y d] by (cases "get_attempt y d") (auto simp: get_update_attempt)
  qed
  have r: "attempt_events y e = attempt_events y d @ (if y = k then [?r] else [])" for y
    by (simp add: e attempt_events_def)
  have s: "0 \<le> at_event_cursor a" "map au_attempt_sequence (attempt_events k d) = map Some [1..at_event_cursor a]"
    using assms(1,3) by (simp_all add: events_ok_def)
  then have "[1..at_event_cursor a + 1] = [1..at_event_cursor a] @ [at_event_cursor a + 1]"
    using upto_rec2 [of 1 "at_event_cursor a + 1"] by simp
  with s assms(2,3) show ?thesis
    unfolding events_ok_def r by (auto simp: g)
qed

lemma get_add_attempt:
  assumes "fresh d = (at_id a, e)" "ids_ok d"
  shows "get_attempt k (add_attempt a e) = (if k = at_id a then Some a else get_attempt k d)"
proof -
  have "get_attempt (at_id a) d = None"
    using assms by (auto simp: fresh_def ids_ok_def id_lists_def attempts.get_rows tbl_get_None)
  moreover have "get_attempt k e = get_attempt k d"
    using assms(1) by (intro same_rows) (auto simp: fresh_def)
  ultimately show ?thesis
    using attempts.get_add [of k a e] by (auto split: option.splits)
qed

lemma write_events: "row_write d e \<Longrightarrow> ids_ok d \<Longrightarrow> events_ok d \<Longrightarrow> events_ok e"
proof (induction rule: row_write.induct)
  case (attempts f d P)
  show ?case
    by (rule events_cong [OF attempts(4)])
      (use attempts(1,2) in \<open>auto simp: get_attempt_where kept_defs option.map_comp intro!: option.map_cong\<close>)
next
  case (attempt_new d a e)
  have ev: "attempt_events k (add_attempt a e) = attempt_events k d" for k
    using attempt_new(1) by (auto simp: fresh_def add_attempt_def attempt_events_def)
  have "get_attempt (at_id a) d = None"
    using attempt_new(1,5) by (auto simp: fresh_def ids_ok_def id_lists_def attempts.get_rows tbl_get_None)
  with attempt_new(3,6) show ?case
    unfolding events_ok_def ev by (simp add: get_add_attempt [OF attempt_new(1,5)])
next
  case (tool_round k d a)
  show ?case
    by (rule events_cong [OF tool_round(4)])
      (auto simp: get_update_attempt option.map_comp intro!: option.map_cong)
next
  case (event k d a ev en now jid t pl e)
  show ?case by (rule event_events [OF event(1,2,5,3)])
next
  case (journal en now jid t pl att auth actor d e)
  show ?case by (rule journal_events [OF journal(1,3)])
qed (erule events_same; auto simp: same_execution_def fresh_def add_defs)+

section \<open>Tool rounds\<close>

lemma write_rounds: "row_write d e \<Longrightarrow> ids_ok d \<Longrightarrow> rounds_ok d \<Longrightarrow> rounds_ok e"
proof (induction rule: row_write.induct)
  case (tool_round k d a)
  have "x = a" if "x \<in> set (db_attempts d)" "at_id x = k" for x
    using ids_unique(2) [OF tool_round(3) that(1)] tool_round(1) that(2) by simp
  with tool_round(2,4) show ?case by (fastforce simp: rounds_ok_def in_tbl_where)
next
  case (attempts f d P)
  then show ?case by (auto simp: rounds_ok_def in_tbl_where kept_defs)
next
  case (event k d a ev en now jid t pl e)
  then show ?case
    using audit_tables(2) [OF event(3)] by (auto simp: rounds_ok_def in_tbl_where)
next
  case (journal en now jid t pl att auth actor d e)
  then show ?case by (simp add: rounds_ok_def audit_tables)
qed (auto simp: rounds_ok_def same_execution_def fresh_def add_defs)

section \<open>Approvals and the operations they authorize\<close>

text \<open>The columns of an operation an approval repeats never change, so a matching row stays.\<close>

lemma approval_ok_cong:
  assumes "approval_ok d p" "grown operation_later (db_operations d) (db_operations e)"
  shows "approval_ok e p"
  using assms(1) grownD [OF assms(2)]
  unfolding approval_ok_def operation_later_def operation_kept_def by metis

lemma approvals_cong:
  assumes "approvals_ok d" "grown operation_later (db_operations d) (db_operations e)"
    "db_approvals e = db_approvals d"
  shows "approvals_ok e"
  using assms approval_ok_cong by (auto simp: approvals_ok_def)

lemma approval_moves_ok: "approval_moves p q \<Longrightarrow> approval_ok d p \<Longrightarrow> approval_ok d q"
  by (auto simp: approval_moves_def approval_kept_def approval_ok_def)

lemma write_approvals:
  assumes "row_write d e" "ids_ok d" "approvals_ok d"
  shows "approvals_ok e"
proof -
  have later: "grown operation_later (db_operations d) (db_operations e)"
    using write_later [OF assms(1,2)] by (simp add: later_def)
  show ?thesis
    using assms(1)
  proof cases
    case (approvals P f)
    have "approval_ok e p" if "p \<in> set (db_approvals d)" for p
      using that assms(3) approval_ok_cong [OF _ later] by (auto simp: approvals_ok_def)
    moreover from this have "approval_ok e (f p)" if "p \<in> set (db_approvals d)" "P p" for p
      using that approvals(2) by (blast intro: approval_moves_ok)
    moreover have "db_approvals e = tbl_where P f (db_approvals d)" by (simp add: approvals(1))
    ultimately show ?thesis
      by (auto simp: approvals_ok_def in_tbl_where)
  next
    case (approval_new p f x)
    have "approval_ok e p"
      using approval_new operations.get_in [OF approval_new(3)]
      by (auto simp: approval_ok_def asks_for_def fresh_def add_approval_def)
    moreover have "approval_ok e q" if "q \<in> set (db_approvals d)" for q
      using that assms(3) approval_ok_cong [OF _ later] by (auto simp: approvals_ok_def)
    ultimately show ?thesis
      using approval_new by (auto simp: approvals_ok_def fresh_def add_approval_def)
  next
    case (event k a ev en now jid t pl)
    then show ?thesis by (intro approvals_cong [OF assms(3) later]) (simp add: audit_tables(4) [OF event(3)])
  next
    case (journal en now jid t pl att auth actor)
    then show ?thesis by (intro approvals_cong [OF assms(3) later]) (simp add: audit_tables(4) [OF journal])
  qed (rule approvals_cong [OF assms(3) later]; auto simp: same_execution_def fresh_def add_defs)+
qed

lemma consumed_later:
  assumes "grown approval_later (db_approvals d) (db_approvals e)" "consumed_approval i d"
  shows "consumed_approval i e"
proof -
  obtain p where p: "p \<in> set (db_approvals d)" "ap_operation p = i" "ap_decision p = ApConsumed"
    using assms(2) by (auto simp: consumed_approval_def list_ex_iff)
  from grownD [OF assms(1) p(1)] obtain q where q: "q \<in> set (db_approvals e)" "approval_later p q" by blast
  with p have "ap_operation q = i" "ap_decision q = ApConsumed"
    by (auto simp: approval_later_def approval_kept_def)
  with q(1) show ?thesis by (auto simp: consumed_approval_def list_ex_iff)
qed

lemma remote_cong:
  assumes "remote_ok d" "grown approval_later (db_approvals d) (db_approvals e)"
    and "\<And>y. y \<in> set (db_operations e) \<Longrightarrow> oper_tool_class y \<in> set remote_tools \<Longrightarrow>
      oper_status y = Proposed \<or> consumed_approval (oper_id y) e \<or>
      (\<exists>x\<in>set (db_operations d). oper_id x = oper_id y \<and> oper_tool_class x = oper_tool_class y \<and>
         (oper_status x = Proposed \<longrightarrow> oper_status y = Proposed))"
  shows "remote_ok e"
  using assms(1) assms(3) consumed_later [OF assms(2)] unfolding remote_ok_def by metis

lemma remote_same:
  "remote_ok d \<Longrightarrow> grown approval_later (db_approvals d) (db_approvals e) \<Longrightarrow>
   db_operations e = db_operations d \<Longrightarrow> remote_ok e"
  by (erule (1) remote_cong) auto

lemma settles_class:
  "operation_settles x y \<Longrightarrow> oper_id y = oper_id x \<and> oper_tool_class y = oper_tool_class x \<and>
     (oper_status x = Proposed \<longrightarrow> oper_status y = Proposed)"
  by (auto simp: operation_settles_def team_settles_def operation_kept_def)

lemma write_remote:
  assumes "row_write d e" "ids_ok d" "remote_ok d"
  shows "remote_ok e"
proof -
  have later: "grown approval_later (db_approvals d) (db_approvals e)"
    using write_later [OF assms(1,2)] by (simp add: later_def)
  show ?thesis
    using assms(1)
  proof cases
    case (operations P f)
    then show ?thesis
      by (intro remote_cong [OF assms(3) later]) (auto simp: in_tbl_where, metis settles_class)
  next
    case (operation_start i x now)
    have u: "y = x" if "y \<in> set (db_operations d)" "oper_id y = i" for y
      using ids_unique(3) [OF assms(2) that(1)] operation_start(2) that(2) by simp
    have x: "x \<in> set (db_operations d)" "oper_id x = i"
      using operation_start(2) by (auto dest: operations.get_in operations.get_key)
    have "consumed_approval i e" if "oper_tool_class x \<in> set remote_tools"
    proof -
      have "oper_status x \<noteq> Authorized \<or> consumed_approval i d"
        using assms(3) x that by (auto simp: remote_ok_def)
      with operation_start(3) x(2) have "consumed_approval i d" by (auto simp: startable_def)
      then show ?thesis by (rule consumed_later [OF later])
    qed
    with u x operation_start(1) show ?thesis
      by (intro remote_cong [OF assms(3) later])
        (force simp: in_tbl_where start_operation_def)
  next
    case (operation_new x f)
    then show ?thesis
      by (intro remote_cong [OF assms(3) later]) (auto simp: fresh_def add_operation_def fresh_operation_def)
  next
    case (event k a ev en now jid t pl)
    then show ?thesis
      by (intro remote_same [OF assms(3) later]) (auto simp: audit_tables(3) [OF event(3)])
  next
    case (journal en now jid t pl att auth actor)
    then show ?thesis
      by (intro remote_same [OF assms(3) later]) (auto simp: audit_tables(3) [OF journal])
  qed (rule remote_same [OF assms(3) later]; auto simp: same_execution_def fresh_def add_defs)+
qed

section \<open>All of them\<close>

theorem write_records: "row_write d e \<Longrightarrow> records_ok d \<Longrightarrow> records_ok e"
  unfolding records_ok_def
  by (blast intro: write_ids write_journal write_inputs write_events write_rounds
      write_approvals write_remote)

interpretation records: evolution row_write records_ok later
  by unfold_locales (blast intro: write_records later_refl later_trans write_later
      records_ok_def [THEN iffD1, THEN conjunct1])+

end
