(* ===== verification/Agent_Handlers.thy ===== *)
theory Agent_Handlers
  imports Agent_Records
begin

text \<open>
  Every handler of the service is a sequence of the writes of \<^verbatim>\<open>Agent_Writes.thy\<close>.  One lemma per
  handler: the guards the code has passed are the conditions of the writes it then makes.
\<close>

section \<open>Primitive writes\<close>

lemma writes_one: "row_write d e \<Longrightarrow> writes d e"
  by blast

lemma writes_trans: "writes d e \<Longrightarrow> writes e f \<Longrightarrow> writes d f"
  by simp

lemma writes_config: "same_execution d e \<Longrightarrow> writes d e"
  by (intro writes_one row_write.config)

lemma writes_job: "(\<And>r. job_kept r (f r)) \<Longrightarrow> writes d (update_job i f d)"
  unfolding update_job_def by (intro writes_one row_write.jobs)

lemma writes_attempt:
  "(\<And>r. attempt_kept r (f r)) \<Longrightarrow> (\<And>r. attempt_counts r (f r)) \<Longrightarrow> writes d (update_attempt k f d)"
  unfolding update_attempt_def by (intro writes_one row_write.attempts)

lemma writes_operation:
  "ids_ok d \<Longrightarrow> get_operation i d = Some x \<Longrightarrow> operation_settles x (f x) \<Longrightarrow> writes d (update_operation i f d)"
  unfolding update_operation_def
  by (intro writes_one row_write.operations) (use ids_unique(3) in fastforce)

lemma writes_approval:
  "ids_ok d \<Longrightarrow> get_approval i d = Some p \<Longrightarrow> approval_moves p (f p) \<Longrightarrow> writes d (update_approval i f d)"
  unfolding update_approval_def
  by (intro writes_one row_write.approvals) (use ids_unique(4) in fastforce)

lemma writes_input:
  "ids_ok d \<Longrightarrow> get_input i d = Some x \<Longrightarrow> input_moves x (f x) \<Longrightarrow> writes d (update_input i f d)"
  unfolding update_input_def
  by (intro writes_one row_write.inputs) (use ids_unique(5) in fastforce)

lemma writes_outbox: "outbox_kept (db_outbox d) ob \<Longrightarrow> writes d (d\<lparr>db_outbox := ob\<rparr>)"
  by (intro writes_one row_write.outbox)

lemma writes_on_commit: "writes d (d\<lparr>db_on_commit := hs\<rparr>)"
  by (intro writes_config) (simp add: same_execution_def)

lemma writes_notify: "writes d (notify_conversation i k m b d)"
  unfolding notify_conversation_def by (rule writes_on_commit)

lemma writes_transition: "writes d (transition i st m d)"
proof -
  let ?u = "update_job i (\<lambda>j. j\<lparr>jb_status := st, jb_blocked_reason := m, jb_version := jb_version j + 1\<rparr>) d"
  have "writes d ?u"
    by (intro writes_job) (simp add: kept_defs)
  moreover have "writes ?u (notify_job_ended i m ?u)"
    by (simp add: notify_job_ended_def writes_notify split: option.split)
  ultimately show ?thesis
    unfolding transition_def Let_def by (auto intro: writes_trans)
qed

lemma writes_audit_server: "audit_server en now jid t pl att actor d = Inr e \<Longrightarrow> writes d e"
  unfolding audit_server_def by (intro writes_one row_write.journal)

lemma writes_audit: "audit en now jid t pl att auth None actor d = Inr e \<Longrightarrow> writes d e"
  by (intro writes_one row_write.journal)

lemma writes_fresh: "fresh d = (i, e) \<Longrightarrow> writes d e"
  by (intro writes_config) (auto simp: fresh_def same_execution_def)

lemma outbox_kept_put: "outbox_kept xs (tbl_save ob_key x xs)"
  by (auto simp: outbox_kept_def tbl_save_def comp_def image_iff if_distrib cong: if_cong)

lemma writes_put_outbox: "writes d (put_outbox x d)"
  unfolding put_outbox_def by (intro writes_outbox outbox_kept_put)

lemma writes_add_outbox: "get_outbox (ob_key x) d = None \<Longrightarrow> writes d (add_outbox x d)"
  unfolding add_outbox_def
  by (intro writes_outbox) (auto simp: outbox_kept_def outbox.get_rows tbl_get_None)

lemma writes_create_outbox: "create_outbox now k r j t p d = Inr e \<Longrightarrow> writes d e"
  by (auto simp: create_outbox_def intro: writes_add_outbox split: if_splits)

lemma writes_ensure_stop: "writes d (ensure_stop_outbox now j k d)"
  by (auto simp: ensure_stop_outbox_def intro: writes_create_outbox split: sum.split)

lemma writes_stage: "writes d (stage_publication now j k d)"
  by (auto simp: stage_publication_def intro: writes_put_outbox writes_add_outbox split: option.split)

lemma writes_delivered: "writes d (mark_delivered now j d)"
  by (auto simp: mark_delivered_def intro: writes_put_outbox writes_add_outbox split: option.split)

lemma writes_invalidate: "writes d (invalidate_approvals k d)"
  unfolding invalidate_approvals_def
  by (intro writes_one row_write.approvals) (auto simp: approval_moves_def approval_kept_def)

lemma writes_abandon: "writes d (abandon_work k d)"
proof -
  have "writes c (abandon_operations k c)" for c
    unfolding abandon_operations_def
    by (intro writes_one row_write.operations) (auto simp: operation_settles_def operation_kept_def)
  moreover have "writes c (abandon_inputs k c)" for c
    unfolding abandon_inputs_def
    by (intro writes_one row_write.inputs) (auto simp: input_moves_def input_kept_def)
  ultimately show ?thesis
    unfolding abandon_work_def using writes_invalidate by (blast intro: writes_trans)
qed

lemma writes_renew: "writes d (renew_lease now a d)"
  unfolding renew_lease_def by (intro writes_attempt) (simp_all add: kept_defs)

text \<open>Chaining: a sequence of writes followed by one of these.\<close>

lemmas writes_primitive = writes_transition writes_notify writes_on_commit writes_ensure_stop
  writes_stage writes_delivered writes_invalidate writes_abandon writes_renew

lemmas writes_then = writes_primitive [THEN writes_trans [rotated]]

lemma then_job: "writes d e \<Longrightarrow> (\<And>r. job_kept r (f r)) \<Longrightarrow> writes d (update_job i f e)"
  by (rule writes_trans [OF _ writes_job])

lemma then_attempt:
  "writes d e \<Longrightarrow> (\<And>r. attempt_kept r (f r)) \<Longrightarrow> (\<And>r. attempt_counts r (f r)) \<Longrightarrow>
   writes d (update_attempt k f e)"
  by (rule writes_trans [OF _ writes_attempt])

abbreviation written :: "db \<Rightarrow> exn + db \<times> 'r \<Rightarrow> bool" where
  "written d m \<equiv> yields (\<lambda>(e, r). writes d e) m"

lemma written_after: "writes d e \<Longrightarrow> written e m \<Longrightarrow> written d m"
  by (auto simp: yields_def)

lemma yields_after: "writes d e \<Longrightarrow> yields (writes e) m \<Longrightarrow> yields (writes d) m"
  by (auto simp: yields_def)

lemma writes_ids: "writes d e \<Longrightarrow> ids_ok d \<Longrightarrow> ids_ok e"
  by (rule history.along)

section \<open>Stopping and leases\<close>

lemma request_stop_written: "yields (writes d) (request_stop en now j att t reason d)"
proof -
  have t: "writes d (update_job (jb_id j) (\<lambda>r. r\<lparr>jb_stop_target := t\<rparr>) d)"
    by (intro writes_job) (simp add: kept_defs)
  have s: "writes c (update_attempt k (\<lambda>a. a\<lparr>at_process_state := Stopping\<rparr>) c)" for k c
    by (intro writes_attempt) (simp_all add: kept_defs)
  have all: "writes d (ensure_stop_outbox now j k (transition (jb_id j) CancelRequested reason
      (invalidate_approvals k (update_attempt k (\<lambda>a. a\<lparr>at_process_state := Stopping\<rparr>)
        (update_job (jb_id j) (\<lambda>r. r\<lparr>jb_stop_target := t\<rparr>) d)))))" for k
    by (intro writes_then writes_trans [OF t s])
  show ?thesis
    unfolding request_stop_def Let_def
    by (intro yields_option yields_Inr writes_then t)
      (auto intro: yieldsI writes_trans [OF all writes_audit_server])
qed

lemma cancel_job_written: "yields (writes d) (cancel_job en now actor jid expected d)"
  unfolding cancel_job_def
  by (intro yields_rules request_stop_written) simp

lemma fence_written: "writes d (fence_prepared_result j a d)"
proof -
  have "writes d (update_attempt (at_id a) (\<lambda>r. r\<lparr>at_process_state := Stopping\<rparr>) d)"
    by (intro writes_attempt) (simp_all add: kept_defs)
  moreover have "writes c (update_job (jb_id j) (\<lambda>r. r\<lparr>jb_version := jb_version r + 1\<rparr>) c)" for c
    by (intro writes_job) (simp add: kept_defs)
  ultimately show ?thesis
    unfolding fence_prepared_result_def by (auto intro: writes_trans)
qed

lemma heartbeat_one_written: "written d (heartbeat_one en now r li d)"
  unfolding heartbeat_one_def
  by (intro yields_rules) (auto intro: writes_then fence_written split: if_splits)

lemma heartbeat_loop_written: "written d (heartbeat_loop en now r lis d)"
proof (induction lis arbitrary: d)
  case (Cons li lis)
  show ?case
    unfolding heartbeat_loop.simps
    by (intro yields_rules)
      (auto dest!: yieldsD [OF Cons.IH] yieldsD [OF heartbeat_one_written])
qed (simp add: yields_Inr)

lemma heartbeat_written: "written d (heartbeat en now ru lis d)"
  unfolding heartbeat_def
  by (intro yields_rules)
    (auto intro!: written_after [OF writes_config heartbeat_loop_written] simp: same_execution_def put_runner_def)

lemma save_checkpoint_written: "written d (save_checkpoint en now ru jid aid epoch c d)"
  unfolding save_checkpoint_def
proof (intro yields_rules)
  fix x j a
  assume "get_checkpoint (cp_id c) d = None"
  then have "writes d (add_checkpoint (checkpoint_row now j a c) d)"
    by (intro writes_one row_write.checkpoint_new) (simp add: checkpoint_row_def)
  moreover have "writes e (update_attempt (at_id a) (\<lambda>r. r\<lparr>at_tree_hash := t\<rparr>) e)" for e t
    by (intro writes_attempt) (simp_all add: kept_defs)
  ultimately show "case (update_attempt (at_id a) (\<lambda>r. r\<lparr>at_tree_hash := none_empty (cp_tree_hash c)\<rparr>)
      (add_checkpoint (checkpoint_row now j a c) d), checkpoint_row now j a c) of (e, r) \<Rightarrow> writes d e"
    by (auto intro: writes_trans)
qed auto

section \<open>Claiming\<close>

lemma start_attempt_written:
  assumes "fresh d = (li_attempt_id li, e)"
  shows "written d (start_attempt en now r key j li expires aud ck de e)"
  unfolding start_attempt_def Let_def
proof (intro yields_rules)
  fix p pv u f
  let ?a = "new_attempt now r key j li expires aud ck p pv de"
  assume c: "clean_attempt en e ?a = Inr u"
    and f: "audit_server en now (jb_id j) SrvAttemptStarting (AJobState Running []) (Some (at_id ?a)) None
      (transition (jb_id j) Running [] (add_attempt ?a e)) = Inr f"
  have "valid_budget (de_budget de)"
    using c by (auto simp: clean_attempt_def new_attempt_def valid_descriptor_def descriptor_fields_ok_def
        split: if_splits)
  then have "0 \<le> bud_tool_rounds (de_budget de)"
    by (auto simp: valid_budget_def)
  with assms have "writes d (add_attempt ?a e)"
    by (intro writes_one row_write.attempt_new) (simp_all add: new_attempt_def)
  then have "writes d f"
    by (blast intro: writes_trans writes_audit_server [OF f] writes_transition)
  then show "case (f, Some de) of (e, r) \<Rightarrow> writes d e" by simp
qed

lemma claim_candidate_written: "written d (claim_candidate en now r key j d)"
  unfolding claim_candidate_def Let_def
  by (intro yields_rules start_attempt_written) (auto intro: writes_transition writes_fresh)

lemma claim_loop_written: "written d (claim_loop en now r key js d)"
proof (induction js arbitrary: d)
  case (Cons j js)
  show ?case
    unfolding claim_loop.simps
    by (intro yields_rules)
      (auto dest!: yieldsD [OF claim_candidate_written] intro: written_after [OF _ Cons.IH])
qed (simp add: yields_Inr)

lemma claim_work_written: "written d (claim_work en now ru key d)"
  unfolding claim_work_def
  by (intro yields_rules claim_loop_written) simp_all

section \<open>Inputs\<close>

lemma store_input_written:
  assumes "get_job (jb_id j) d = Some j" "input_admissible j expected att = Inr u"
  shows "written d (store_input en now actor j key h t ty src d)"
proof -
  let ?d1 = "if jb_status j \<in> set reopening_states
             then fold invalidate_approvals (map at_id (active_attempts (jb_id j) d)) d else d"
  have inv: "writes c (fold invalidate_approvals ks c)" for ks c
  proof (induction ks arbitrary: c)
    case (Cons k ks)
    then show ?case by (auto intro: writes_trans writes_invalidate)
  qed simp
  then have w: "writes d ?d1" by simp
  have "get_job (jb_id j) ?d1 = Some j" using assms(1) by simp
  then have new: "writes ?d1 (add_input_row
      (new_input j i actor' src key h (jb_input_sequence j + 1) ty t) f)"
    if "fresh (update_job (jb_id j) take_input ?d1) = (i, f)" for i f actor'
    using assms(2) that
    by (intro writes_one row_write.input_new [of "jb_id j" _ j])
      (auto simp: new_input_def input_admissible_def split: if_splits)
  show ?thesis
    unfolding store_input_def Let_def
    by (intro yields_rules)
      (auto intro: writes_trans [OF w writes_trans [OF new writes_audit_server]])
qed

lemma add_input_written: "written d (add_input en now actor jid expected key t ty src d)"
  unfolding add_input_def Let_def
  by (intro yields_rules) (auto dest!: realm_jobD intro: store_input_written)

lemma deliver_loop_written:
  assumes "ids_ok d" "\<forall>i\<in>set is. i \<in> set (db_inputs d)" "distinct (map in_id is)"
  shows "written d (deliver_loop en aid is d)"
  using assms
proof (induction "is" arbitrary: d)
  case (Cons i "is")
  let ?k = "if in_delivery_state i = InPending
      then i\<lparr>in_delivery_state := InDelivered, in_delivered_attempt := Some aid\<rparr> else i"
  let ?f = "\<lambda>r. r\<lparr>in_delivery_state := in_delivery_state ?k, in_delivered_attempt := in_delivered_attempt ?k\<rparr>"
  let ?d = "update_input (in_id i) ?f d"
  have "get_input (in_id i) d = Some i"
    using Cons.prems(1,2) ids_unique(5) by simp
  moreover have "input_moves i (?f i)"
    by (auto simp: input_moves_def input_kept_def)
  ultimately have w: "writes d ?d"
    by (rule writes_input [OF Cons.prems(1)])
  have "written ?d (deliver_loop en aid is ?d)"
    using Cons.prems by (intro Cons.IH writes_ids [OF w]) (auto simp: in_tbl_where rev_image_eqI)
  then have "written d (deliver_loop en aid is ?d)" by (rule written_after [OF w])
  then show ?case
    unfolding deliver_loop.simps Let_def by (intro yields_rules) (auto dest: yieldsD)
qed (simp add: yields_Inr)

lemma deliver_inputs_written:
  assumes "ids_ok d"
  shows "written d (deliver_inputs en now ru jid aid epoch d)"
proof -
  have "distinct (map in_id (db_inputs d))"
    using assms by (simp add: ids_ok_def id_lists_def)
  then have "distinct (map in_id (open_inputs i d))" for i
    by (auto simp: open_inputs_def job_inputs_def distinct_map inj_on_def
        intro!: distinct_take dest!: in_set_takeD)
  moreover have "\<forall>x\<in>set (open_inputs i d). x \<in> set (db_inputs d)" for i
    by (auto simp: open_inputs_def job_inputs_def dest!: in_set_takeD)
  ultimately have "written d (deliver_loop en k (open_inputs i d) d)" for i k
    using assms by (intro deliver_loop_written)
  then show ?thesis
    unfolding deliver_inputs_def by (intro yields_rules) (auto dest: yieldsD)
qed

lemma settle_input_moves:
  "in_delivery_state i \<noteq> InApplied \<Longrightarrow> input_moves i (settle_input now r i)"
  by (auto simp: settle_input_def Let_def input_moves_def input_kept_def split: input_outcome.split)

lemma job_inputD: "job_input j iid n d = Inr i \<Longrightarrow> get_input (in_id i) d = Some i \<and> in_id i = iid"
  by (auto simp: job_input_def dest: inputs.get_key split: if_splits)

lemma reconcile_input_written:
  assumes "ids_ok d"
  shows "written d (reconcile_input en now ru jid aid epoch iid n out rid d)"
proof -
  have "writes d (update_input (in_id i) (settle_input now r) d)"
    if "job_input j iid n d = Inr i" "in_delivery_state i = InUncertain" for j i r
  proof (rule writes_input [OF assms])
    show "get_input (in_id i) d = Some i" using job_inputD [OF that(1)] by blast
    show "input_moves i (settle_input now r i)" using that(2) by (simp add: settle_input_moves)
  qed
  then show ?thesis
    unfolding reconcile_input_def Let_def by (intro yields_rules) auto
qed

lemma requeue_job_written: "yields (writes d) (requeue_job now j c d)"
proof -
  have "writes d (update_job (jb_id j) (\<lambda>r. r\<lparr>jb_resume_checkpoint := c,
      jb_start_deadline := Some (now + start_window), jb_result_proposal := None\<rparr>) d)"
    by (intro writes_job) (simp add: kept_defs)
  then show ?thesis
    unfolding requeue_job_def Let_def
    by (auto intro!: yieldsI intro: writes_trans [OF writes_then(1) writes_create_outbox])
qed

lemma resume_job_written: "yields (writes d) (resume_job en now actor jid expected c d)"
  unfolding resume_job_def by (intro yields_rules requeue_job_written)

section \<open>Events\<close>

lemma end_attempt_kept: "attempt_kept r (end_attempt now ev r)" "attempt_counts r (end_attempt now ev r)"
  by (simp_all add: end_attempt_def kept_defs)

lemma writes_settle: "writes d (settle_stopped_job ru j a d)"
  by (auto simp: settle_stopped_job_def intro: writes_transition)

lemma apply_process_written: "yields (writes d) (apply_process now ru j a ev p d)"
proof -
  have "writes d (update_attempt (at_id a) f d)"
    if "f = end_attempt now ev \<or> f = (\<lambda>r. r\<lparr>at_process_state := ProcUnknown\<rparr>) \<or>
        f = (\<lambda>r. r\<lparr>at_process_state := Active, at_started_at := Some now,
              at_session_reference := none_empty (pp_adapter_session_ref p)\<rparr>)" for f
    using that end_attempt_kept [of _ now ev] by (elim disjE; simp) (intro writes_attempt; simp add: kept_defs)+
  then show ?thesis
    unfolding apply_process_def
    by (cases "ev_type ev")
      (auto intro!: yields_rules writes_then intro: writes_trans [OF _ writes_settle])
qed

lemma apply_input_written:
  assumes "ids_ok d"
  shows "yields (writes d) (apply_input now j a p d)"
proof -
  have w: "writes d (applied_input j a i d)" for i
  proof -
    let ?d1 = "update_attempt (at_id a) (\<lambda>r. r\<lparr>at_input_cursor := in_sequence i\<rparr>) d"
    let ?d2 = "update_job (jb_id j) (\<lambda>r. r\<lparr>jb_result_proposal := None\<rparr>) ?d1"
    have w1: "writes d ?d1"
      by (intro writes_attempt) (simp_all add: kept_defs)
    have w2: "writes d ?d2"
      by (rule then_job [OF w1]) (simp add: kept_defs)
    show ?thesis
      using w1 w2 writes_then(1) [OF w2] by (simp add: applied_input_def Let_def)
  qed
  have same: "db_inputs (applied_input j a i d) = db_inputs d" for i
    by (simp add: applied_input_def Let_def)
  show ?thesis
    unfolding apply_input_def
  proof (intro yields_rules)
    fix i
    assume i: "job_input j (ip_input_id p) (ip_input_sequence p) d = Inr i"
      and st: "\<not> (in_delivered_attempt i \<noteq> Some (at_id a) \<or> in_delivery_state i \<notin> {InDelivered, InUncertain})"
    let ?c = "if ip_delivery_state p = InApplied then applied_input j a i d else d"
    let ?f = "\<lambda>r. r\<lparr>in_delivery_state := ip_delivery_state p,
        in_applied_at := (if ip_delivery_state p = InApplied then Some now else in_applied_at r)\<rparr>"
    have "writes d ?c" using w by simp
    moreover have "get_input (in_id i) ?c = Some i"
      using job_inputD [OF i, THEN conjunct1] same by (simp only: get_input_def if_split) simp
    then have "writes ?c (update_input (in_id i) ?f ?c)"
      using st assms writes_ids [OF \<open>writes d ?c\<close>]
      by (intro writes_input) (auto simp: input_moves_def input_kept_def)
    ultimately show "writes d (update_input (in_id i) ?f ?c)" by (rule writes_trans)
  qed
qed

lemma apply_workspace_written: "yields (writes d) (apply_workspace now j a w d)"
  unfolding apply_workspace_def
  by (intro yields_rules writes_attempt) (simp_all add: kept_defs)

text \<open>The status a tool event may report is a final one.\<close>

lemma tool_finished_status:
  assumes "valid_runner_event ev" "ev_payload ev = PTool p" "ev_type ev = ToolFinished"
  shows "1 < operation_rank (tp_status p)"
  using assms by (auto simp: valid_runner_event_def runner_event_state_ok_def)

lemma apply_tool_written:
  assumes "ids_ok d" "ty = ToolFinished \<Longrightarrow> 1 < operation_rank (tp_status p)"
  shows "yields (writes d) (apply_tool now j a ty p d)"
proof -
  have o: "writes d (update_operation (oper_id x) (\<lambda>r. r\<lparr>oper_status := tp_status p, oper_finished_at := Some now\<rparr>) d)"
    if "x \<in> set (db_operations d)" "oper_status x = OpStarted" "ty = ToolFinished" for x
    using that assms ids_unique(3) [OF assms(1) that(1)]
    by (intro writes_operation) (auto simp: operation_settles_def operation_kept_def)
  have "writes d (finish_tool now j a x (tp_status p) d)"
    if "x \<in> set (db_operations d)" "oper_status x = OpStarted" "ty = ToolFinished" for x
  proof -
    let ?d1 = "update_operation (oper_id x) (\<lambda>r. r\<lparr>oper_status := tp_status p, oper_finished_at := Some now\<rparr>) d"
    have "writes d (update_attempt (at_id a) (\<lambda>r. r\<lparr>at_tree_hash := []\<rparr>) ?d1)"
      by (rule then_attempt [OF o [OF that]]) (simp_all add: kept_defs)
    then have "writes d (update_job (jb_id j) (\<lambda>r. r\<lparr>jb_result_proposal := None\<rparr>)
        (update_attempt (at_id a) (\<lambda>r. r\<lparr>at_tree_hash := []\<rparr>) ?d1))"
      by (rule then_job) (simp add: kept_defs)
    then show ?thesis
      using o [OF that] by (simp add: finish_tool_def Let_def)
  qed
  then show ?thesis
    unfolding apply_tool_def by (intro yields_rules) (auto simp: find_Some_iff)
qed

lemma apply_verification_written: "yields (writes d) (apply_verification now j a v d)"
  unfolding apply_verification_def
  by (intro yields_rules)
    (auto split: operation_args.split intro!: yields_rules writes_one row_write.verification_new)

lemma apply_result_written: "yields (writes d) (apply_result now j a p d)"
proof -
  have "writes d (update_attempt (at_id a) (\<lambda>r. r\<lparr>at_tree_hash := none_empty (rp_tree_hash p)\<rparr>) d)"
    by (intro writes_attempt) (simp_all add: kept_defs)
  moreover have "writes c (update_job k (\<lambda>r. r\<lparr>jb_result_proposal := Some p, jb_phase := Review\<rparr>) c)" for c k
    by (intro writes_job) (simp add: kept_defs)
  ultimately have "writes d (accept_result now j a p d)"
    unfolding accept_result_def by (intro writes_then) (blast intro: writes_trans)
  then show ?thesis
    unfolding apply_result_def by (intro yields_rules) (auto intro: writes_transition)
qed

lemma apply_event_written:
  assumes "ids_ok d" "valid_runner_event ev"
  shows "yields (writes d) (apply_event now ru j a ev d)"
proof -
  have "writes d (apply_input_request j ev d)"
    unfolding apply_input_request_def by (intro writes_then) simp
  moreover have "1 < operation_rank (tp_status p)" if "ev_payload ev = PTool p" "ev_type ev = ToolFinished" for p
    using tool_finished_status [OF assms(2)] that by blast
  ultimately show ?thesis
    unfolding apply_event_def
    by (cases "ev_payload ev")
      (auto intro: apply_workspace_written apply_process_written apply_input_written [OF assms(1)]
        apply_tool_written [OF assms(1)] apply_verification_written apply_result_written yields_Inr)
qed

text \<open>A handler that applies an event leaves the cursor of the attempt where it was.\<close>

definition cursor :: "uuid \<Rightarrow> db \<Rightarrow> int option" where
  "cursor k d = map_option at_event_cursor (get_attempt k d)"

lemma cursor_update [simp]:
  "(\<And>r. at_id (f r) = at_id r) \<Longrightarrow> (\<And>r. at_event_cursor (f r) = at_event_cursor r) \<Longrightarrow>
   cursor k (update_attempt i f d) = cursor k d"
  by (cases "get_attempt k d") (simp_all add: cursor_def get_update_attempt)

lemma cursor_frame [simp]:
  "cursor k (update_job i g d) = cursor k d" "cursor k (update_operation x h d) = cursor k d"
  "cursor k (update_input n u d) = cursor k d" "cursor k (transition i st m d) = cursor k d"
  "cursor k (abandon_work c d) = cursor k d" "cursor k (stage_publication now j c d) = cursor k d"
  "cursor k (notify_conversation y z s b d) = cursor k d"
  by (simp_all add: cursor_def)

lemma cursor_verifications [simp]: "cursor k (d\<lparr>db_verifications := vs\<rparr>) = cursor k d"
  by (simp add: cursor_def get_attempt_def)

lemma apply_process_cursor: "yields (\<lambda>e. cursor k e = cursor k d) (apply_process now ru j a ev p d)"
  unfolding apply_process_def
  by (cases "ev_type ev") (auto intro!: yields_rules simp: settle_stopped_job_def end_attempt_def)

lemma apply_input_cursor: "yields (\<lambda>e. cursor k e = cursor k d) (apply_input now j a p d)"
  unfolding apply_input_def
  by (intro yields_rules) (simp_all add: applied_input_def Let_def)

lemma apply_tool_cursor: "yields (\<lambda>e. cursor k e = cursor k d) (apply_tool now j a ty p d)"
  unfolding apply_tool_def
  by (intro yields_rules) (simp_all add: finish_tool_def Let_def)

lemma apply_verification_cursor: "yields (\<lambda>e. cursor k e = cursor k d) (apply_verification now j a v d)"
  unfolding apply_verification_def
  by (intro yields_rules) (auto intro!: yields_rules split: operation_args.split)

lemma apply_workspace_cursor: "yields (\<lambda>e. cursor k e = cursor k d) (apply_workspace now j a w d)"
  unfolding apply_workspace_def by (intro yields_rules) simp_all

lemma apply_result_cursor: "yields (\<lambda>e. cursor k e = cursor k d) (apply_result now j a p d)"
  unfolding apply_result_def by (intro yields_rules) (simp_all add: accept_result_def)

lemma apply_event_cursor: "yields (\<lambda>e. cursor k e = cursor k d) (apply_event now ru j a ev d)"
  unfolding apply_event_def
  using apply_process_cursor apply_input_cursor apply_tool_cursor apply_verification_cursor
    apply_workspace_cursor apply_result_cursor
  by (cases "ev_payload ev") (auto intro!: yields_Inr simp: apply_input_request_def)

lemma writes_after_event: "writes d e \<Longrightarrow> writes d (after_event ev i e)"
  by (auto simp: after_event_def intro: writes_then(3) split: option.split)

lemma journal_event_written:
  assumes "writes d e" "cursor (at_id a) e = Some (at_event_cursor a)" "ev_sequence ev = at_event_cursor a + 1"
  shows "written d (journal_event en now j a ev e)"
  unfolding journal_event_def
proof (intro yields_rules)
  fix f j'
  assume f: "audit en now (jb_id j) (RunnerEv (ev_type ev)) (RunnerPl (ev_payload ev)) (Some (at_id a))
    AuthRunner (Some ev) None (update_attempt (at_id a) (\<lambda>r. r\<lparr>at_event_cursor := ev_sequence ev\<rparr>) e) = Inr f"
  obtain b where "get_attempt (at_id a) e = Some b" "at_event_cursor b = at_event_cursor a"
    using assms(2) by (auto simp: cursor_def)
  then have "writes e f" by (intro writes_one row_write.event [where a = b, OF _ _ f]) (use assms(3) in simp_all)
  with assms(1) show "case (after_event ev (jb_id j) f, r) of (e, r) \<Rightarrow> writes d e" for r :: event_receipt
    by (simp add: writes_after_event [OF writes_trans])
qed

lemma record_event_written:
  assumes "ids_ok d"
  shows "written d (record_event en now ru ev0 expected b d)"
  unfolding record_event_def
proof (intro yields_rules)
  fix ev x j a u d1
  assume v: "parse_runner_event (en_dump_event en) ev0 = Inr ev" and x: "x = (j, a)"
    and l: "locked_attempt en now ru (ev_job_id ev) (ev_attempt_id ev) (ev_lease_epoch ev) None False d = Inr x"
    and adm: "event_admissible en now ru j a ev expected b d = Inr u"
    and d1: "apply_event now ru j a ev d = Inr d1"
  have "get_attempt (at_id a) d = Some a"
    using locked_attemptD [OF l [unfolded x]] by simp
  then have "cursor (at_id a) d1 = Some (at_event_cursor a)"
    using yieldsD [OF apply_event_cursor d1] by (simp add: cursor_def)
  moreover have "ev_sequence ev = at_event_cursor a + 1"
    using adm by (auto simp: event_admissible_def split: if_splits)
  moreover have "valid_runner_event ev"
    using v by (auto simp: parse_runner_event_def split: if_splits)
  with assms d1 have "writes d d1" by (blast dest: yieldsD [OF apply_event_written])
  ultimately show "written d (journal_event en now j a ev d1)" by (intro journal_event_written)
qed simp

lemma stop_evidence_written:
  assumes "ids_ok d"
  shows "written d (stop_evidence en now token ev d)"
proof -
  have "writes d (update_attempt k (\<lambda>x. x\<lparr>at_stop_receipt := Some ev\<rparr>) e)" if "writes d e" for k e
    using that by (rule then_attempt) (simp_all add: kept_defs)
  then show ?thesis
    unfolding stop_evidence_def
    by (intro yields_rules) (auto dest: yieldsD [OF record_event_written [OF assms]])
qed

end
