(* ===== verification/Agent_Settlements.thy ===== *)
theory Agent_Settlements
  imports Agent_Handlers
begin

text \<open>
  The handlers that settle what an attempt asked for: proposals and their approvals, receipts of
  operations, artifacts, the publication of a result, and the recovery pass.  As in
  \<^verbatim>\<open>Agent_Handlers.thy\<close>, each is a sequence of writes.
\<close>

section \<open>Proposals\<close>

lemma request_approval_written:
  assumes "get_operation (oper_id x) d = Some x" "oper_attempt x = at_id a"
  shows "yields (writes d) (request_approval en now j a x tree d)"
proof (rule yieldsI)
  fix e
  assume e: "request_approval en now j a x tree d = Inr e"
  let ?i = "db_next d"
  let ?d1 = "d\<lparr>db_next := ?i + 1\<rparr>"
  let ?d2 = "d\<lparr>db_next := ?i + 2\<rparr>"
  let ?p = "new_approval now j a ?i (?i + 1) (oper_id x) (oper_arguments x) (oper_argument_digest x) tree"
  have "writes d (add_approval ?p ?d1)"
    by (rule writes_one [OF row_write.approval_new [where x = x]])
      (use assms in \<open>simp_all add: fresh_def new_approval_def asks_for_def\<close>)
  moreover have "writes (add_approval ?p ?d1) (add_approval ?p ?d2)"
    by (intro writes_config) (simp add: same_execution_def add_approval_def)
  ultimately have "writes d (add_approval ?p ?d2)" by (rule writes_trans)
  then have "writes d (notify_conversation (jb_id j) (ApprovalNotice ?i) ''This task needs your approval.'' True
      (transition (jb_id j) WaitingForApproval [] (add_approval ?p ?d2)))"
    by (intro writes_then)
  moreover have "audit_server en now (jb_id j) ApprovalRequested
      (AApproval ?i (oper_argument_digest x) 1 ApPending) (Some (at_id a)) None
      (notify_conversation (jb_id j) (ApprovalNotice ?i) ''This task needs your approval.'' True
        (transition (jb_id j) WaitingForApproval [] (add_approval ?p ?d2))) = Inr e"
    using e by (simp add: request_approval_def fresh_def)
  ultimately show "writes d e" by (blast intro: writes_trans writes_audit_server)
qed

lemma remote_needs_approval: "op_action args \<in> set remote_tools \<Longrightarrow> requires_approval en j p a args"
  by (cases args) (simp_all add: requires_approval_def remote_tools_def)

lemma store_operation_written:
  assumes "ids_ok d" "\<not> pending \<Longrightarrow> op_action args \<notin> set remote_tools"
  shows "written d (store_operation en now j a oid args s h pending d)"
  unfolding store_operation_def Let_def
proof (intro yields_rules)
  fix i d1 d3
  assume f: "fresh d = (i, d1)"
  let ?x = "new_operation j a i oid args s h pending"
  have w: "writes d (add_operation ?x d1)"
    using assms(2) f by (intro writes_one row_write.operation_new) (auto simp: new_operation_def fresh_operation_def)
  then show "case (add_operation ?x d1, ?x) of (e, r) \<Rightarrow> writes d e" by simp
  have "tbl_get oper_id (db_next d) (db_operations d) = None"
    using assms(1) by (auto simp: ids_ok_def id_lists_def tbl_get_None)
  then have g: "get_operation (oper_id ?x) (add_operation ?x d1) = Some ?x"
    using f by (auto simp: fresh_def get_operation_def new_operation_def add_operation_def tbl_get_append split: option.split)
  assume d3: "request_approval en now j a ?x (sbd_tree_hash s) (add_operation ?x d1) = Inr d3"
  have "writes (add_operation ?x d1) d3"
    by (rule yieldsD [OF request_approval_written d3]) (use g in \<open>simp_all add: new_operation_def\<close>)
  with w show "case (d3, ?x) of (e, r) \<Rightarrow> writes d e" by simp
qed

lemma propose_operation_written:
  "ids_ok d \<Longrightarrow> written d (propose_operation en now ru jid aid epoch oid args tree diff d)"
  unfolding propose_operation_def admit_operation_def Let_def
  by (intro yields_rules store_operation_written) (auto dest: remote_needs_approval)

section \<open>Decisions\<close>

lemma settle_approval_written:
  assumes "ids_ok d" "get_approval (ap_id ap) d = Some ap" "ap_decision ap = ApPending"
  shows "yields (writes d) (settle_approval en now actor j a x ap approve d)"
  unfolding settle_approval_def Let_def
proof (intro yields_rules)
  fix d2
  let ?d1 = "update_approval (ap_id ap) (\<lambda>r. r\<lparr>ap_approver := Some (us_id actor),
      ap_decision := if approve then ApApproved else ApRejected, ap_decided_at := Some now,
      ap_version := ap_version r + 1\<rparr>) d"
  have w: "writes d ?d1"
    by (rule writes_approval [OF assms(1,2)])
      (use assms(3) in \<open>auto simp: approval_moves_def approval_kept_def\<close>)
  assume "(if approve then Inr (transition (jb_id j) Running [] ?d1)
     else request_stop en now j (Some (at_id a)) Blocked ''approval_rejected'' ?d1) = Inr d2"
  then have "writes ?d1 d2"
    by (auto intro: writes_transition dest: yieldsD [OF request_stop_written] split: if_splits)
  with w have d2: "writes d d2" by (rule writes_trans)
  show "yields (writes d) (audit_server en now (jb_id j) ApprovalResolved pl k who d2)" for pl k who
    using d2 by (auto intro!: yieldsI dest: writes_audit_server)
qed

lemma decide_approval_written:
  assumes "ids_ok d"
  shows "yields (writes d) (decide_approval en now actor apid expected h nonce approve d)"
  unfolding decide_approval_def
proof (intro yields_rules)
  fix ap :: approval and j a p x
  assume ap: "fetch ''approval'' (get_approval apid d) = Inr ap"
    and c: "\<not> \<not> approval_current now a p ap expected h nonce"
  have g: "get_approval (ap_id ap) d = Some ap"
    using ap approvals.get_key [of apid d ap] by simp
  show "yields (writes d) (settle_approval en now actor j a x ap approve d)"
    by (rule settle_approval_written [OF assms g]) (use c in \<open>simp add: approval_current_def\<close>)
qed

section \<open>Consumption and receipts\<close>

lemma approved_approvalD: "approved_approval i d = Some p \<Longrightarrow>
   p \<in> set (db_approvals d) \<and> ap_operation p = i \<and> ap_decision p = ApApproved"
  by (auto simp: approved_approval_def find_Some_iff)

lemma spend_approval_written:
  assumes "ids_ok d"
  shows "yields (\<lambda>e. writes d e \<and> consumed_approval (oper_id x) e \<and>
      db_operations e = db_operations d \<and> db_attempts e = db_attempts d) (spend_approval en now j a x h nonce d)"
  unfolding spend_approval_def
proof (intro yields_rules conjI)
  fix ap
  assume ap: "approved_approval (oper_id x) d = Some ap"
  note p = approved_approvalD [OF ap]
  let ?f = "\<lambda>r. r\<lparr>ap_decision := ApConsumed, ap_consumed_at := Some now, ap_version := ap_version r + 1\<rparr>"
  have g: "get_approval (ap_id ap) d = Some ap"
    using p ids_unique(4) [OF assms] by blast
  show "writes d (update_approval (ap_id ap) ?f d)"
    by (rule writes_approval [OF assms g]) (use p in \<open>simp add: approval_moves_def approval_kept_def\<close>)
  have "?f ap \<in> set (db_approvals (update_approval (ap_id ap) ?f d))"
    using p by (auto simp: in_tbl_where)
  then show "consumed_approval (oper_id x) (update_approval (ap_id ap) ?f d)"
    unfolding consumed_approval_def list_ex_iff using p by (intro bexI) simp_all
qed simp_all

lemma attempt_operationD:
  "attempt_operation a j oid d = Inr x \<Longrightarrow> x \<in> set (db_operations d) \<and> oper_attempt x = at_id a \<and>
   oper_realm x = jb_realm j \<and> oper_operation_id x = oid"
  by (auto simp: attempt_operation_def find_Some_iff)

lemma consume_operation_written:
  assumes ok: "ids_ok d"
  shows "written d (consume_operation en now ru jid aid epoch oid expected h nonce d)"
  unfolding consume_operation_def Let_def
proof (intro yields_rules)
  fix y j a x p u d1
  assume y: "y = (j, a)" and l: "locked_attempt en now ru jid aid epoch None True d = Inr y"
    and x: "attempt_operation a j oid d = Inr x" and c: "consumable j p a x expected h = Inr u"
    and d1: "(if oper_status x = Proposed then spend_approval en now j a x h nonce d
       else rbind (check_attempt_access en now d (jb_requester j) j a (oper_tool_class x)) (\<lambda>_. Inr d)) = Inr d1"
  let ?d2 = "update_job (jb_id j) (\<lambda>r. r\<lparr>jb_phase := phase_of_tool (oper_tool_class x)\<rparr>) d1"
  let ?d3 = "update_operation (oper_id x) (start_operation now) ?d2"
  let ?d4 = "update_attempt (at_id a) (\<lambda>r. r\<lparr>at_tool_rounds := at_tool_rounds r + 1\<rparr>) ?d3"
  have one: "writes d d1 \<and> db_operations d1 = db_operations d \<and> db_attempts d1 = db_attempts d \<and>
      (oper_status x = Proposed \<longrightarrow> consumed_approval (oper_id x) d1)"
    using d1 yieldsD [OF spend_approval_written [OF ok]] by (fastforce split: if_splits)
  have st: "oper_status x \<in> {Proposed, Authorized}"
    and rounds: "at_tool_rounds a < bud_tool_rounds (de_budget (at_descriptor a))"
    using c by (auto simp: consumable_def split: if_splits)
  have two: "writes d1 ?d2" by (intro writes_job) (simp add: kept_defs)
  have "get_operation (oper_id x) d = Some x"
    using attempt_operationD [OF x] ids_unique(3) [OF ok] by blast
  then have "get_operation (oper_id x) ?d2 = Some x"
    using one by (simp add: get_operation_def)
  moreover have "startable ?d2 x"
    using st one by (auto simp: startable_def consumed_approval_def)
  ultimately have three: "writes ?d2 ?d3" by (intro writes_one row_write.operation_start)
  have "get_attempt (at_id a) ?d3 = Some a"
    using locked_attemptD(2,4) [OF l [unfolded y]] one by (simp add: get_attempt_def)
  then have "writes ?d3 ?d4" using rounds by (intro writes_one row_write.tool_round)
  with one two three have "writes d ?d4" by (blast intro: writes_trans)
  then show "case (?d4, r) of (e, r) \<Rightarrow> writes d e" for r :: proposal by simp
qed

lemma writes_operation_in:
  "ids_ok d \<Longrightarrow> x \<in> set (db_operations d) \<Longrightarrow> operation_settles x (f x) \<Longrightarrow>
   writes d (update_operation (oper_id x) f d)"
  by (rule writes_operation [OF _ ids_unique(3)])

lemma reconcile_operation_written:
  assumes "ids_ok d"
  shows "written d (reconcile_operation en now ru jid aid epoch oid r d)"
proof -
  have "writes d (update_operation (oper_id x) (accept_remote now r) d)"
    if "attempt_operation a j oid d = Inr x" "oper_status x \<in> {OpStarted, OutcomeUnk}" for a j x
    using that attempt_operationD [OF that(1)]
    by (intro writes_operation_in [OF assms]) (auto simp: operation_settles_def accept_remote_def operation_kept_def)
  then show ?thesis
    unfolding reconcile_operation_def by (intro yields_rules) auto
qed

lemma reconcile_local_written:
  assumes "ids_ok d"
  shows "written d (reconcile_local_operation en now ru jid aid epoch r d)"
proof -
  have "writes d (update_attempt k (\<lambda>y. y\<lparr>at_tree_hash := t\<rparr>) (update_operation (oper_id x) (accept_local now r) d))"
    if "x \<in> set (db_operations d)" "oper_status x = OutcomeUnk" for x k t
  proof (rule then_attempt)
    show "writes d (update_operation (oper_id x) (accept_local now r) d)"
      using that by (intro writes_operation_in [OF assms])
        (auto simp: operation_settles_def accept_local_def operation_kept_def local_status_def
          split: local_outcome.split)
  qed (simp_all add: kept_defs)
  then show ?thesis
    unfolding reconcile_local_operation_def by (intro yields_rules) (auto simp: find_Some_iff)
qed

lemma begin_team_written:
  assumes "ids_ok d"
  shows "written d (begin_team_operation en now ru jid aid epoch version oid expected h nonce d)"
  unfolding begin_team_operation_def
  by (intro yields_rules)
    (auto intro!: yields_rules split: operation_args.split dest: yieldsD [OF consume_operation_written [OF assms]])

text \<open>The receipt of a team operation arrives after the operation was consumed.\<close>

definition team_called :: "attempt \<Rightarrow> job \<Rightarrow> uuid \<Rightarrow> db \<Rightarrow> bool" where
  "team_called a j oid d = (\<forall>x. attempt_operation a j oid d = Inr x \<longrightarrow>
     oper_tool_class x = TeamManage \<and> 1 \<le> operation_rank (oper_status x))"

lemma store_team_written:
  assumes "ids_ok d" "\<And>j a. get_job jid d = Some j \<Longrightarrow> get_attempt aid d = Some a \<Longrightarrow> team_called a j oid d"
  shows "written d (store_team_receipt en now ru jid aid epoch oid r d)"
  unfolding store_team_receipt_def
proof (intro yields_rules)
  fix y j a x u e
  assume y: "y = (j, a)" and l: "locked_attempt en now ru jid aid epoch None False d = Inr y"
    and x: "attempt_operation a j oid d = Inr x" and n: "\<not> oper_server_receipt x \<noteq> None"
    and e: "audit_server en now (jb_id j) TeamExecuted (ATeamExecuted (oper_operation_id x) r) (Some (at_id a))
      None (update_operation (oper_id x) (accept_team now r) d) = Inr e"
  have "team_called a j oid d"
    using assms(2) locked_attemptD(1,2) [OF l [unfolded y]] by blast
  with x have "oper_tool_class x = TeamManage" "1 \<le> operation_rank (oper_status x)"
    by (auto simp: team_called_def)
  then have "writes d (update_operation (oper_id x) (accept_team now r) d)"
    using attempt_operationD [OF x] n
    by (intro writes_operation_in [OF assms(1)])
      (auto simp: operation_settles_def team_settles_def accept_team_def operation_kept_def)
  with e have "writes d e" by (blast intro: writes_trans writes_audit_server)
  then show "case (e, q) of (e, r) \<Rightarrow> writes d e" for q :: proposal by simp
qed simp

section \<open>Artifacts and drafts\<close>

lemma store_artifact_written:
  "written d (store_artifact en now ru jid aid epoch meta chunks token d)"
  unfolding store_artifact_def register_artifact_def Let_def
proof (intro yields_rules)
  fix i d1 f data j a
  assume "fresh d = (i, d1)"
  then have "writes d (add_artifact (artifact_row now i j a meta data)
      (d1\<lparr>db_blobs := db_blobs d1 @ [(af_id (artifact_row now i j a meta data), data)]\<rparr>))"
    by (intro writes_one row_write.artifact_new) (simp_all add: artifact_row_def)
  then show "case (add_artifact (artifact_row now i j a meta data) (d1\<lparr>db_blobs := db_blobs d1 @ [(i, data)]\<rparr>),
      artifact_row now i j a meta data) of (e, r) \<Rightarrow> writes d e"
    by (simp add: artifact_row_def)
qed

lemma send_message_written: "written d (send_message j dest c sent d)"
  unfolding send_message_def by (intro yields_rules) (simp add: writes_one row_write.send)

lemma post_result_written: "written d (post_result j dest c sent d)"
  unfolding post_result_def
  by (intro yields_rules send_message_written) (simp add: writes_on_commit)

lemma publish_draft_written: "yields (writes d) (publish_draft en now mark ru li t sent d)"
  unfolding publish_draft_def Let_def
  by (intro yields_rules)
    (auto intro: writes_on_commit dest!: yieldsD [OF send_message_written] intro!: then_job simp: kept_defs)

lemma send_message_outbox:
  "send_message j dest c sent d = Inr (e, n) \<Longrightarrow> writes d e \<and> get_outbox k e = get_outbox k d"
  by (auto simp: send_message_def get_outbox_def split: option.splits intro: writes_one row_write.send)

lemma post_job_notice_written: "written d (post_job_notice en now jid marker s m sent d)"
  unfolding post_job_notice_def
proof (intro yields_rules)
  fix j u dest y d1 n and x :: outbox
  assume "send_message j dest u sent d = Inr y" "y = (d1, n)" "\<not> get_outbox marker d \<noteq> None"
  then have "writes d d1" "get_outbox marker d1 = None"
    using send_message_outbox [of j dest u sent d d1 n marker] by auto
  then show "case (add_outbox \<lparr>ob_key = marker, ob_realm = jb_realm j, ob_job = Some jid,
      ob_event_type = StatusNotice, ob_payload_ref = None, ob_attempt_count = 0, ob_next_attempt_at = now,
      ob_status = ObDelivered, ob_delivered_at = Some now\<rparr> d1, True) of (e, r) \<Rightarrow> writes d e"
    by (simp add: writes_trans [OF _ writes_add_outbox])
qed simp

section \<open>Publication\<close>

lemma complete_job_written: "written d (complete_job en now j a m private d)"
  unfolding complete_job_def Let_def
proof (intro yields_rules)
  fix d3
  let ?r = "\<lparr>rcp_message_id = m, rcp_attempt_id = at_id a, rcp_published_at = now, rcp_private = private\<rparr>"
  let ?d1 = "update_job (jb_id j) (\<lambda>r. r\<lparr>jb_result_message := Some m, jb_result_receipt := Some ?r,
      jb_completed_at := Some now, jb_phase := Deliver\<rparr>) d"
  assume d3: "audit en now (jb_id j) (ServerEv ResultPublished)
      (ServerPl (APublication (Some m) (if private then ''delivered_privately'' else [])))
      (Some (at_id a)) AuthPublisher None None (mark_delivered now j (transition (jb_id j) Completed [] ?d1)) = Inr d3"
  have "writes d ?d1" by (intro writes_job) (simp add: kept_defs)
  then have "writes d (mark_delivered now j (transition (jb_id j) Completed [] ?d1))"
    by (intro writes_then(6) writes_then(1))
  with d3 have "writes d d3" by (blast intro: writes_trans writes_audit)
  then show "case (d3, ?r) of (e, r) \<Rightarrow> writes d e" by simp
qed

lemma commit_publication_written: "written d (commit_publication en now jid r arts sent d)"
  unfolding commit_publication_def
  by (intro yields_rules)
    (auto dest!: yieldsD [OF post_result_written] intro: written_after [OF _ complete_job_written])

lemma try_publication_written: "written d (try_publication en now jid sent d)"
  unfolding try_publication_def by (intro yields_rules commit_publication_written) simp_all

lemma outbox_kept_where:
  assumes "\<And>x. ob_key (f x) = ob_key x"
  shows "outbox_kept t (tbl_where P f t)"
proof -
  have "map ob_key (tbl_where P f t) = map ob_key t" by (rule map_where) (simp add: assms)
  then show ?thesis by (simp add: outbox_kept_def flip: set_map)
qed

lemma writes_park: "writes d (park_publication jid d)"
  unfolding park_publication_def by (intro writes_outbox outbox_kept_where) simp

lemma block_publication_written: "yields (writes d) (block_publication en now jid target reason park d)"
  unfolding block_publication_def
  by (intro yields_rules)
    (auto intro: writes_trans [OF writes_trans [OF writes_transition writes_audit] writes_park]
      writes_trans [OF writes_transition writes_audit])

lemma publish_result_written: "writes d (fst (publish_result en now jid sent d))"
  by (auto simp: publish_result_def dest: yieldsD [OF try_publication_written]
      yieldsD [OF block_publication_written] split: option.split sum.split)

lemma deliver_privately_written:
  "yields (writes d) (deliver_result_privately en now actor jid expected sent d)"
  unfolding deliver_result_privately_def Let_def
  by (intro yields_rules)
    (auto dest!: yieldsD [OF send_message_written] yieldsD [OF complete_job_written] intro: writes_trans)

section \<open>Recovery\<close>

lemma over_written:
  assumes "\<And>x e. x \<in> set xs \<Longrightarrow> writes d e \<Longrightarrow> yields (writes e) (f x e)"
  shows "yields (writes d) (over f xs d)"
proof (rule yieldsI)
  fix e
  assume "over f xs d = Inr e"
  then show "writes d e"
    by (rule over_invariant) (auto dest: yieldsD [OF assms] intro: writes_trans)
qed

lemma interrupt_written: "yields (writes d) (interrupt_attempt en now a d)"
  unfolding interrupt_attempt_def
proof (intro yields_rules yieldsI)
  fix j e
  let ?d1 = "update_attempt (at_id a) (\<lambda>r. r\<lparr>at_process_state := ProcUnknown\<rparr>) d"
  assume e: "audit_server en now (jb_id j) SrvAttemptInterrupted (AJobState Interrupted ''lease_lost'')
    (Some (at_id a)) None (transition (jb_id j) Interrupted ''lease_lost'' (abandon_work (at_id a) ?d1)) = Inr e"
  have "writes d ?d1" by (intro writes_attempt) (simp_all add: kept_defs)
  then have "writes d (transition (jb_id j) Interrupted ''lease_lost'' (abandon_work (at_id a) ?d1))"
    by (intro writes_then(1) writes_then(8))
  with e show "writes d e" by (blast intro: writes_trans writes_audit_server)
qed

text \<open>An approval the recovery pass has read as open is neither rejected nor consumed meanwhile.\<close>

definition unspent :: "uuid \<Rightarrow> db \<Rightarrow> bool" where
  "unspent i d = (\<exists>p. get_approval i d = Some p \<and> ap_decision p \<notin> {ApRejected, ApConsumed})"

lemma unspent_where:
  assumes "unspent i d" "db_approvals e = tbl_where P f (db_approvals d)"
    and "\<And>p. ap_id (f p) = ap_id p" "\<And>p. ap_decision (f p) \<in> {ap_decision p, ApCancelled, ApExpired}"
  shows "unspent i e"
proof -
  obtain p where p: "get_approval i d = Some p" "ap_decision p \<notin> {ApRejected, ApConsumed}"
    using assms(1) by (auto simp: unspent_def)
  then have "get_approval i e = Some (if P p then f p else p)"
    by (simp add: get_approval_def assms(2) tbl_get_where assms(3))
  moreover have "ap_decision (f p) \<notin> {ApRejected, ApConsumed}"
    using assms(4) [of p] p(2) by auto
  ultimately show ?thesis using p(2) by (auto simp: unspent_def)
qed

lemma unspent_same: "unspent i d \<Longrightarrow> db_approvals e = db_approvals d \<Longrightarrow> unspent i e"
  by (simp add: unspent_def get_approval_def)

lemma ensure_stop_approvals [simp]: "db_approvals (ensure_stop_outbox now j k d) = db_approvals d"
  by (auto simp: ensure_stop_outbox_def create_outbox_def add_outbox_def split: sum.split)

lemma request_stop_unspent:
  "yields (\<lambda>e. unspent i d \<longrightarrow> unspent i e) (request_stop en now j att t reason d)"
proof (rule yieldsI, rule impI)
  fix e
  assume e: "request_stop en now j att t reason d = Inr e" and u: "unspent i d"
  show "unspent i e"
  proof (cases att)
    case None
    with e show ?thesis by (intro unspent_same [OF u]) (auto simp: request_stop_def)
  next
    case (Some k)
    let ?f = "\<lambda>p. p\<lparr>ap_decision := ApCancelled\<rparr>"
    have "db_approvals e = tbl_where (\<lambda>p. ap_attempt p = k \<and> ap_decision p \<in> {ApPending, ApApproved}) ?f (db_approvals d)"
      using e Some by (auto simp: request_stop_def audit_server_def audit_tables invalidate_approvals_def)
    then show ?thesis by (rule unspent_where [OF u]) simp_all
  qed
qed

lemma expire_approval_written:
  assumes "ids_ok d" "unspent (ap_id p) d"
  shows "yields (writes d) (expire_approval en now p d)"
    and "unspent i d \<Longrightarrow> yields (unspent i) (expire_approval en now p d)"
proof -
  let ?d1 = "update_approval (ap_id p) (\<lambda>r. r\<lparr>ap_decision := ApExpired\<rparr>) d"
  obtain q where q: "get_approval (ap_id p) d = Some q" "ap_decision q \<notin> {ApRejected, ApConsumed}"
    using assms(2) by (auto simp: unspent_def)
  have w: "writes d ?d1"
  proof (rule writes_approval [OF assms(1) q(1)])
    show "approval_moves q (q\<lparr>ap_decision := ApExpired\<rparr>)"
      using q(2) by (cases "ap_decision q") (simp_all add: approval_moves_def approval_kept_def)
  qed
  then show "yields (writes d) (expire_approval en now p d)"
    unfolding expire_approval_def Let_def
    by (intro yields_rules yields_after [OF w request_stop_written])
  assume "unspent i d"
  then have u: "unspent i ?d1"
    by (rule unspent_where [where f = "\<lambda>r. r\<lparr>ap_decision := ApExpired\<rparr>" and P = "\<lambda>r. ap_id r = ap_id p"]) simp_all
  then show "yields (unspent i) (expire_approval en now p d)"
    unfolding expire_approval_def Let_def
    by (intro yields_rules) (auto intro: yields_imp [OF request_stop_unspent])
qed

lemma expire_approvals_written:
  "ids_ok d \<Longrightarrow> \<forall>p\<in>set ps. unspent (ap_id p) d \<Longrightarrow> yields (writes d) (over (expire_approval en now) ps d)"
proof (induction ps arbitrary: d)
  case (Cons p ps)
  note one = expire_approval_written [OF Cons.prems(1), where p = p and en = en and now = now]
  show ?case
    unfolding over.simps
  proof (intro yields_rules)
    fix e
    assume e: "expire_approval en now p d = Inr e"
    have w: "writes d e" using yieldsD [OF one(1) e] Cons.prems(2) by simp
    have "\<forall>q\<in>set ps. unspent (ap_id q) e"
      using yieldsD [OF one(2) e] Cons.prems(2) by simp
    then show "yields (writes d) (over (expire_approval en now) ps e)"
      by (intro yields_after [OF w] Cons.IH writes_ids [OF w Cons.prems(1)])
  qed
qed (simp add: yields_Inr)

lemma reconcile_records_written:
  assumes "ids_ok d"
  shows "yields (writes d) (reconcile_records en now n d)"
  unfolding reconcile_records_def Let_def
proof (intro yields_rules)
  fix d2
  let ?d1 = "fold expire_queue (expired_queues now n d) d"
  assume d2: "over (interrupt_attempt en now) (lost_leases now n ?d1) ?d1 = Inr d2"
  have "writes d ?d1"
    by (rule fold_invariant_db) (auto simp: expire_queue_def intro: writes_then(1))
  moreover have "writes ?d1 d2"
    by (rule yieldsD [OF over_written d2]) (rule interrupt_written)
  ultimately have w: "writes d d2" by (rule writes_trans)
  have ok: "ids_ok d2" by (rule writes_ids [OF w assms])
  have "\<forall>p\<in>set (expired_approvals now n d2). unspent (ap_id p) d2"
    using ids_unique(4) [OF ok] by (auto simp: expired_approvals_def unspent_def dest!: in_set_takeD)
  then show "yields (writes d) (over (expire_approval en now) (expired_approvals now n d2) d2)"
    by (intro yields_after [OF w] expire_approvals_written ok)
qed

lemma reconcile_one_written: "yields (writes d) (reconcile_one en now sent notify k d)"
  unfolding reconcile_one_def
proof (intro yields_rules)
  fix x d1 o1 y d2 b
  assume x: "take_delivery now k d = Inr x" "x = (d1, o1)"
  then have w: "writes d d1"
    by (auto simp: take_delivery_def Let_def intro: writes_put_outbox split: if_splits)
  then show "writes d d1" .
  assume "deliver en now sent notify y d1 = (d2, b)"
  then have "writes d1 d2"
    using publish_result_written [of d1 en now "the (ob_job y)" "sent (the (ob_job y))"]
    by (auto simp: deliver_def Let_def split: if_splits option.splits prod.splits)
  with w have "writes d d2" by (rule writes_trans)
  moreover have "yields (writes d2) (settle_delivery now k b d2)"
    unfolding settle_delivery_def by (intro yields_rules) (auto intro: writes_put_outbox)
  ultimately show "yields (writes d) (settle_delivery now k b d2)" by (rule yields_after)
qed

lemma reconcile_outbox_written: "yields (writes d) (reconcile_outbox en now sent notify n d)"
  unfolding reconcile_outbox_def by (rule over_written) (rule reconcile_one_written)

section \<open>Runners\<close>

lemma revoke_runner_written: "yields (writes d) (revoke_runner now rid d)"
  unfolding revoke_runner_def Let_def
proof (intro yields_rules)
  fix r :: runner
  let ?r = "r\<lparr>ru_revoked_at := Some now, ru_status := RRevoked\<rparr>"
  let ?d1 = "put_runner ?r d"
  let ?d2 = "?d1\<lparr>db_credentials := tbl_where (\<lambda>c. cd_runner c = rid \<and> cd_revoked_at c = None)
      (\<lambda>c. c\<lparr>cd_revoked_at := Some now\<rparr>) (db_credentials ?d1)\<rparr>"
  let ?d3 = "?d2\<lparr>db_attempts := tbl_where (\<lambda>a. at_runner a = rid \<and> at_active a)
      (\<lambda>a. a\<lparr>at_process_state := Stopping\<rparr>) (db_attempts ?d2)\<rparr>"
  have "writes d ?d2"
    by (intro writes_config) (simp add: same_execution_def put_runner_def)
  moreover have "writes ?d2 ?d3"
    by (intro writes_one row_write.attempts) (simp_all add: kept_defs)
  moreover have "writes ?d3 (?d3\<lparr>db_jobs := tbl_where P (\<lambda>j. j\<lparr>jb_status := CancelRequested,
      jb_version := jb_version j + 1\<rparr>) (db_jobs ?d3)\<rparr>)" for P
    by (intro writes_one row_write.jobs) (simp add: kept_defs)
  ultimately have "writes d (?d3\<lparr>db_jobs := tbl_where P (\<lambda>j. j\<lparr>jb_status := CancelRequested,
      jb_version := jb_version j + 1\<rparr>) (db_jobs ?d3)\<rparr>)" for P
    by (blast intro: writes_trans)
  then show "writes d (?d1\<lparr>db_credentials := tbl_where (\<lambda>c. cd_runner c = rid \<and> cd_revoked_at c = None)
      (\<lambda>c. c\<lparr>cd_revoked_at := Some now\<rparr>) (db_credentials ?d1),
      db_attempts := tbl_where (\<lambda>a. at_runner a = rid \<and> at_active a)
        (\<lambda>a. a\<lparr>at_process_state := Stopping\<rparr>) (db_attempts ?d1),
      db_jobs := tbl_where (\<lambda>j. jb_id j \<in> set (map at_job (filter (\<lambda>a. at_runner a = rid \<and> at_active a) (db_attempts d))))
        (\<lambda>j. j\<lparr>jb_status := CancelRequested, jb_version := jb_version j + 1\<rparr>) (db_jobs ?d1)\<rparr>)"
    by simp
qed simp

end
