(* ===== verification/Agent_Jobs.thy ===== *)
theory Agent_Jobs
  imports Agent_Inputs
begin

text \<open>
  Admission of a task, \<open>create_job\<close>, \<open>send_test_task\<close> and \<open>complete_draft\<close> of
  \<^verbatim>\<open>zerver/actions/agent_jobs.py\<close>.  A request is admitted once: a repeated one returns the task
  it has created, a changed one under the same key is refused.  A draft is completed in place: the
  row keeps its identity and is written again from the completing request.  The id of the message
  \<open>send_test_task\<close> sends, or the refusal of the chat core, is an argument.
\<close>

section \<open>Requests\<close>

text \<open>The arguments of \<open>create_job\<close>; a repository and a followed task are the rows the caller read.\<close>

record job_request =
  rq_profile :: uuid
  rq_source :: nat
  rq_text :: string
  rq_key :: uuid
  rq_kind :: job_kind
  rq_delivery :: delivery_target
  rq_repository :: "repository option"
  rq_base_ref :: string
  rq_messages :: "nat list"
  rq_attachments :: "nat list"
  rq_trigger :: trigger_kind
  rq_draft :: bool
  rq_allow_blocked :: bool
  rq_follows :: "job option"

fun job_kind_name :: "job_kind \<Rightarrow> string" where
  "job_kind_name KAnswer = ''answer''"
| "job_kind_name KCode = ''code''"
| "job_kind_name KManage = ''manage''"

fun delivery_name :: "delivery_target \<Rightarrow> string" where
  "delivery_name TAnswer = ''answer''"
| "delivery_name TPatch = ''patch''"
| "delivery_name TDraftPr = ''draft_pr''"

fun trigger_name :: "trigger_kind \<Rightarrow> string" where
  "trigger_name Mention = ''mention''"
| "trigger_name DirectMessage = ''direct_message''"
| "trigger_name Manual = ''manual''"

text \<open>\<open>sorted(set(...))\<close>.\<close>

definition context_ids :: "job_request \<Rightarrow> nat list" where
  "context_ids rq = sort (remdups (rq_source rq # rq_messages rq))"

definition attachment_ids :: "job_request \<Rightarrow> nat list" where
  "attachment_ids rq = sort (remdups (rq_attachments rq))"

text \<open>The checks that need no row but the followed task's.\<close>

definition request_shape_ok :: "job_request \<Rightarrow> exn + unit" where
  "request_shape_ok rq =
     (if rq_text rq = [] \<or> length (rq_text rq) > 20000 then Inl (ValueErr ''Invalid request.'')
      else if (rq_kind rq \<in> {KAnswer, KManage}) \<noteq> (rq_delivery rq = TAnswer)
      then Inl (ValueErr ''Invalid delivery target.'')
      else if rq_kind rq = KManage \<and> rq_repository rq \<noteq> None
      then Inl (ValueErr ''Manage tasks cannot use a repository.'') else Inr ())"

definition follows_ok :: "env \<Rightarrow> time \<Rightarrow> db \<Rightarrow> user \<Rightarrow> job option \<Rightarrow> exn + unit" where
  "follows_ok en now d actor f = (case f of
     None \<Rightarrow> Inr ()
   | Some j \<Rightarrow>
       if jb_realm j \<noteq> us_realm actor then Inl (ValueErr ''Followed task is unavailable.'')
       else rbind (require_job_access en now d actor j) (\<lambda>_.
         if jb_status j \<notin> set terminal_states
         then Inl (ValueErr ''Followed task has not ended.'') else Inr ()))"

definition selection_ok :: "job_request \<Rightarrow> exn + unit" where
  "selection_ok rq =
     (if length (attachment_ids rq) > 20 then Inl (ValueErr ''Too many selected files.'')
      else if length (context_ids rq) > 100 then Inl (ValueErr ''Too many context references.'')
      else Inr ())"

definition request_digest :: "env \<Rightarrow> job_request \<Rightarrow> string" where
  "request_digest en rq = digest (en_sha en) (JObj
     ([(''profile'', JStr (uuid_str (rq_profile rq))), (''source'', JInt (int (rq_source rq))),
       (''request'', JStr (rq_text rq)), (''kind'', JStr (job_kind_name (rq_kind rq))),
       (''delivery'', JStr (delivery_name (rq_delivery rq))),
       (''repository'', opt_json (\<lambda>w. JStr (uuid_str (repo_id w))) (rq_repository rq)),
       (''base_ref'', JStr (rq_base_ref rq)),
       (''context'', JList (map (\<lambda>n. JInt (int n)) (context_ids rq))),
       (''attachments'', JList (map (\<lambda>n. JInt (int n)) (attachment_ids rq))),
       (''trigger'', JStr (trigger_name (rq_trigger rq)))] @
      (case rq_follows rq of None \<Rightarrow> [] | Some j \<Rightarrow> [(''follows'', JStr (uuid_str (jb_id j)))])))"

section \<open>Earlier requests\<close>

definition job_of_key :: "user \<Rightarrow> uuid \<Rightarrow> db \<Rightarrow> job option" where
  "job_of_key actor key d = find (\<lambda>j. jb_realm j = us_realm actor \<and> jb_requester j = us_id actor \<and>
     jb_idempotency_key j = key) (db_jobs d)"

definition job_of_trigger :: "user \<Rightarrow> job_request \<Rightarrow> db \<Rightarrow> job option" where
  "job_of_trigger actor rq d = find (\<lambda>j. jb_realm j = us_realm actor \<and>
     jb_source_message j = Some (rq_source rq) \<and> jb_profile j = rq_profile rq \<and>
     jb_trigger_kind j = rq_trigger rq) (db_jobs d)"

definition earlier_job :: "env \<Rightarrow> time \<Rightarrow> user \<Rightarrow> job_request \<Rightarrow> db \<Rightarrow> exn + job option" where
  "earlier_job en now actor rq d = (case job_of_key actor (rq_key rq) d of
     Some j \<Rightarrow>
       rbind (require_job_access en now d actor j) (\<lambda>_.
         if jb_payload_digest j \<noteq> request_digest en rq
         then Inl (ValueErr ''Idempotency conflict.'') else Inr (Some j))
   | None \<Rightarrow> (case job_of_trigger actor rq d of
       Some j \<Rightarrow>
         rbind (require_job_access en now d actor j) (\<lambda>_.
           if jb_requester j \<noteq> us_id actor \<or> jb_payload_digest j \<noteq> request_digest en rq
           then Inl (ValueErr ''Message trigger already has a different task.'') else Inr (Some j))
     | None \<Rightarrow> Inr None))"

section \<open>Admission\<close>

definition enabled_settings :: "nat \<Rightarrow> db \<Rightarrow> exn + realm_settings" where
  "enabled_settings realm d = rbind (fetch ''settings'' (realm_row realm d)) (\<lambda>st.
     if rs_enabled st then Inr st else Inl (DoesNotExist ''settings''))"

definition realm_profile :: "nat \<Rightarrow> uuid \<Rightarrow> db \<Rightarrow> exn + profile" where
  "realm_profile realm i d = rbind (fetch ''profile'' (get_profile i d)) (\<lambda>p.
     if pr_realm p = realm then Inr p else Inl (DoesNotExist ''profile''))"

definition realm_message :: "env \<Rightarrow> nat \<Rightarrow> nat \<Rightarrow> exn + message" where
  "realm_message en realm m = rbind (fetch ''message'' (en_messages en m)) (\<lambda>x.
     if ms_realm x = realm then Inr x else Inl (DoesNotExist ''message''))"

text \<open>Readiness; a task for an enabled profile that needs action may be admitted blocked.\<close>

definition admission_block :: "env \<Rightarrow> time \<Rightarrow> db \<Rightarrow> profile \<Rightarrow> bool \<Rightarrow> exn + string" where
  "admission_block en now d p allow = (case require_ready en now d p of
     Inr _ \<Rightarrow> Inr []
   | Inl e \<Rightarrow>
       if is_value_error e \<and> allow \<and> pr_desired_state p = PEnabled
       then Inr ''profile_needs_action'' else Inl e)"

definition repository_admissible :: "profile \<Rightarrow> job_request \<Rightarrow> string \<Rightarrow> exn + unit" where
  "repository_admissible p rq blocked = (let repo = rq_repository rq in
     if repo \<noteq> None \<and> map_option repo_id repo \<noteq> pr_default_repository p
     then Inl (ValueErr ''Repository requires a new configuration.'')
     else if rq_kind rq = KCode \<and> repo = None \<and> \<not> rq_draft rq
     then Inl (ValueErr ''Coding requires a repository.'')
     else if \<not> rq_draft rq \<and> \<not> opt_all (\<lambda>w. rq_base_ref rq \<in> set (repo_allowed_refs w)) repo
     then Inl (ValueErr ''Base ref is not approved.'')
     else if rq_kind rq = KCode \<and> \<not> rq_draft rq \<and> blocked = [] \<and> coding_unready p repo
     then Inl (ValueErr ''Coding readiness and required checks are required.'') else Inr ())"

definition queued_jobs :: "(job \<Rightarrow> bool) \<Rightarrow> db \<Rightarrow> nat" where
  "queued_jobs P d = row_count (\<lambda>j. P j \<and> jb_status j = Queued) (db_jobs d)"

definition queue_full :: "realm_settings \<Rightarrow> profile \<Rightarrow> db \<Rightarrow> bool" where
  "queue_full st p d =
     (queued_jobs (\<lambda>j. jb_realm j = rs_realm st) d \<ge> rs_queued_job_limit st \<or>
      queued_jobs (\<lambda>j. jb_profile j = pr_id p) d \<ge> rs_profile_queue_limit st)"

text \<open>Everything between the lookups and the rows: the profile, why the task is blocked, the source.\<close>

definition admissible ::
    "env \<Rightarrow> time \<Rightarrow> user \<Rightarrow> job_request \<Rightarrow> db \<Rightarrow> exn + profile \<times> string \<times> message" where
  "admissible en now actor rq d =
     rbind (enabled_settings (us_realm actor) d) (\<lambda>st.
     rbind (realm_profile (us_realm actor) (rq_profile rq) d) (\<lambda>p.
     rbind (admission_block en now d p (rq_allow_blocked rq)) (\<lambda>blocked.
     rbind (realm_message en (us_realm actor) (rq_source rq)) (\<lambda>m.
     rbind (repository_admissible p rq blocked) (\<lambda>_.
     rbind (check_agent_access en now d actor (pr_id p) (map_option repo_id (rq_repository rq)) (Some m)
              ProfileUse None) (\<lambda>_.
     rbind (if rq_kind rq = KManage
            then check_agent_access en now d actor (pr_id p) (map_option repo_id (rq_repository rq))
                   (Some m) TeamManage None
            else Inr ()) (\<lambda>_.
       if \<not> rq_draft rq \<and> blocked = [] \<and> queue_full st p d
       then Inl (ValueErr ''Agent queue is full.'') else Inr (p, blocked, m))))))))"

section \<open>The conversation\<close>

definition open_conversation ::
    "env \<Rightarrow> user \<Rightarrow> profile \<Rightarrow> repository option \<Rightarrow> nat \<Rightarrow> scope \<Rightarrow> db \<Rightarrow> exn + db \<times> conversation" where
  "open_conversation en actor p repo src s d =
     (let (i, d1) = fresh d;
          cv = \<lparr>cv_id = i, cv_realm = us_realm actor, cv_profile = pr_id p,
                cv_repository = map_option repo_id repo, cv_anchor = Some src, cv_scope = s,
                cv_epoch = 1, cv_binding = None\<rparr>
      in rbind (current_audience en cv (us_id actor) (pr_bot_user p)) (\<lambda>aud.
           let cv' = cv\<lparr>cv_binding := Some aud\<rparr> in Inr (add_conversation cv' d1, cv')))"

definition job_conversation_for ::
    "env \<Rightarrow> user \<Rightarrow> profile \<Rightarrow> job_request \<Rightarrow> scope \<Rightarrow> job option \<Rightarrow> db \<Rightarrow> exn + db \<times> conversation" where
  "job_conversation_for en actor p rq s completing d = (case completing of
     None \<Rightarrow> open_conversation en actor p (rq_repository rq) (rq_source rq) s d
   | Some c \<Rightarrow>
       rbind (require_audience en d c) (\<lambda>_.
       rbind (job_conversation c d) (\<lambda>cv.
         let cv' = cv\<lparr>cv_repository := map_option repo_id (rq_repository rq)\<rparr>
         in Inr (put_conversation cv' d, cv'))))"

section \<open>The row\<close>

definition job_ceiling :: "job_request \<Rightarrow> action list \<Rightarrow> action list" where
  "job_ceiling rq acts = (case rq_kind rq of
     KAnswer \<Rightarrow> filter (\<lambda>a. a = ContextRead \<or> (rq_repository rq \<noteq> None \<and> a = RepositoryRead)) acts
   | KManage \<Rightarrow> filter (\<lambda>a. a = ContextRead) acts
   | KCode \<Rightarrow> acts)"

definition new_job ::
    "time \<Rightarrow> user \<Rightarrow> job_request \<Rightarrow> string \<Rightarrow> profile \<Rightarrow> string \<Rightarrow> scope \<Rightarrow> uuid \<Rightarrow> uuid \<Rightarrow> job" where
  "new_job now actor rq h p blocked s cv i = \<lparr>
     jb_id = i, jb_realm = us_realm actor, jb_created_at = now, jb_requester = us_id actor,
     jb_conversation = cv, jb_profile = pr_id p, jb_runner = pr_runner p,
     jb_repository = map_option repo_id (rq_repository rq), jb_source_message = Some (rq_source rq),
     jb_follows = map_option jb_id (rq_follows rq), jb_trigger_kind = rq_trigger rq,
     jb_job_kind = rq_kind rq, jb_delivery_target = rq_delivery rq, jb_request = rq_text rq,
     jb_base_ref = rq_base_ref rq, jb_idempotency_key = rq_key rq, jb_payload_digest = h,
     jb_admission_revision = pr_revision p,
     jb_status = (if rq_draft rq then Draft else if blocked \<noteq> [] then Blocked else Queued),
     jb_phase = Inspect, jb_version = 1, jb_blocked_reason = blocked,
     jb_start_deadline = (if rq_draft rq \<or> blocked \<noteq> [] then None else Some (now + start_window)),
     jb_next_attempt_at = now, jb_resume_checkpoint = None, jb_draft_completion = None,
     jb_event_sequence = 0, jb_input_sequence = 0, jb_result_proposal = None,
     jb_result_receipt = None, jb_result_message = None, jb_stop_target = Cancelled,
     jb_completed_at = None, jb_policy = (pr_policy p)\<lparr>pol_scope := s\<rparr>, jb_budget = pr_budget p\<rparr>"

definition coding_actions :: "action list" where
  "coding_actions = [RepositoryRead, RepositoryEdit, ChecksRun]"

text \<open>The actions of the task: what its kind allows of the policy, and the requester may use now.\<close>

definition narrowed_job :: "env \<Rightarrow> time \<Rightarrow> db \<Rightarrow> job_request \<Rightarrow> job \<Rightarrow> exn + job" where
  "narrowed_job en now d rq j =
     rbind (current_actions en now d j (job_ceiling rq (pol_actions (jb_policy j)))) (\<lambda>acts.
       if ContextRead \<notin> set acts \<or>
          (rq_kind rq = KCode \<and> \<not> rq_draft rq \<and> \<not> set coding_actions \<subseteq> set acts)
       then Inl (ValueErr ''Required job authority is unavailable.'')
       else Inr (j\<lparr>jb_policy := (jb_policy j)\<lparr>pol_actions := acts\<rparr>\<rparr>))"

definition draft_receipt :: "job \<Rightarrow> job_request \<Rightarrow> draft_completion" where
  "draft_receipt c rq = \<lparr>dc_expected_version = jb_version c,
     dc_repository_id = map_option repo_id (rq_repository rq), dc_base_ref = rq_base_ref rq\<rparr>"

text \<open>A completed draft keeps its id, its age, its version count and its journal.\<close>

definition completed_draft :: "job \<Rightarrow> job_request \<Rightarrow> job \<Rightarrow> job" where
  "completed_draft c rq j = j\<lparr>jb_id := jb_id c, jb_created_at := jb_created_at c,
     jb_version := jb_version c + 1, jb_event_sequence := jb_event_sequence c,
     jb_draft_completion := Some (draft_receipt c rq)\<rparr>"

definition save_job :: "env \<Rightarrow> job_request \<Rightarrow> job option \<Rightarrow> job \<Rightarrow> db \<Rightarrow> exn + db \<times> job" where
  "save_job en rq completing j d = (case completing of
     None \<Rightarrow> rbind (clean_job en d j) (\<lambda>_. Inr (add_job j d, j))
   | Some c \<Rightarrow>
       (let k = completed_draft c rq j;
            d1 = d\<lparr>db_context_refs := filter (\<lambda>r. cr_job r \<noteq> jb_id c) (db_context_refs d)\<rparr>
        in rbind (clean_job en d1 k) (\<lambda>_. Inr (put_job k d1, k))))"

section \<open>References\<close>

definition message_ref :: "time \<Rightarrow> job \<Rightarrow> scope \<Rightarrow> uuid \<Rightarrow> nat \<Rightarrow> context_ref" where
  "message_ref now j s i m = \<lparr>cr_id = i, cr_realm = jb_realm j, cr_job = jb_id j, cr_kind = RefMessage,
     cr_message = Some m, cr_attachment = None, cr_repository = None, cr_scope = s, cr_validated_at = now\<rparr>"

definition attachment_ref :: "time \<Rightarrow> job \<Rightarrow> scope \<Rightarrow> uuid \<Rightarrow> nat \<Rightarrow> nat \<Rightarrow> context_ref" where
  "attachment_ref now j s i f m = \<lparr>cr_id = i, cr_realm = jb_realm j, cr_job = jb_id j,
     cr_kind = RefAttachment, cr_message = Some m, cr_attachment = Some f, cr_repository = None,
     cr_scope = s, cr_validated_at = now\<rparr>"

fun store_message_refs ::
    "env \<Rightarrow> time \<Rightarrow> job \<Rightarrow> profile \<Rightarrow> scope \<Rightarrow> nat list \<Rightarrow> db \<Rightarrow> exn + db" where
  "store_message_refs en now j p s [] d = Inr d"
| "store_message_refs en now j p s (m # ms) d =
     rbind (require_reference_audience en d j m) (\<lambda>_.
       if en_access_message en (jb_requester j) m = None \<or> en_access_message en (pr_bot_user p) m = None
       then Inl JsonableErr
       else (let (i, d1) = fresh d
             in store_message_refs en now j p s ms (add_context_ref (message_ref now j s i m) d1)))"

fun store_attachment_refs ::
    "env \<Rightarrow> time \<Rightarrow> job \<Rightarrow> scope \<Rightarrow> nat list \<Rightarrow> nat list \<Rightarrow> db \<Rightarrow> exn + db" where
  "store_attachment_refs en now j s ms [] d = Inr d"
| "store_attachment_refs en now j s ms (f # fs) d =
     rbind (fetch ''attachment'' (en_attachments en f)) (\<lambda>x.
       if atm_realm x \<noteq> jb_realm j then Inl (DoesNotExist ''attachment'')
       else (case find (\<lambda>m. m \<in> set ms) (sort (atm_messages x)) of
           None \<Rightarrow> Inl (ValueErr ''Selected file requires a selected source message.'')
         | Some m \<Rightarrow>
             (let (i, d1) = fresh d; d2 = add_context_ref (attachment_ref now j s i (atm_id x) m) d1
              in rbind (selected_context en now d2 j [i]) (\<lambda>_.
                   store_attachment_refs en now j s ms fs d2))))"

definition announce_job :: "env \<Rightarrow> time \<Rightarrow> user \<Rightarrow> job \<Rightarrow> db \<Rightarrow> exn + db" where
  "announce_job en now control_actor j d =
     rbind (create_outbox now (WakeKey (jb_id j) 1) (jb_realm j) (Some (jb_id j)) JobWake None d) (\<lambda>d1.
     rbind (audit_server en now (jb_id j) JobQueued (AJobState Queued []) None (Some (us_id control_actor)) d1)
       (\<lambda>d2.
     rbind (fetch ''runner'' (get_runner (jb_runner j) d2)) (\<lambda>r.
       Inr (notify_conversation (jb_id j) (AcceptedNotice (jb_id j))
              (if observed_runner_status now r \<in> {ROffline, RUnknown}
               then ''This task is saved. It starts when the agent''@[CHR 0x27]@''s device connects.''
               else ''This task is queued.'') False d2))))"

section \<open>Creating a task\<close>

text \<open>The rows of an admitted request.\<close>

definition admit_job ::
    "env \<Rightarrow> time \<Rightarrow> user \<Rightarrow> user \<Rightarrow> job_request \<Rightarrow> job option \<Rightarrow> profile \<Rightarrow> string \<Rightarrow> message \<Rightarrow> db \<Rightarrow>
     exn + db \<times> job" where
  "admit_job en now control_actor actor rq completing p blocked m d =
     rbind (scope_for_message en m) (\<lambda>s.
     rbind (job_conversation_for en actor p rq s completing d) (\<lambda>(d1, cv).
       (let (i, d2) = fresh d1 in
        rbind (narrowed_job en now d2 rq
                 (new_job now actor rq (request_digest en rq) p blocked s (cv_id cv) i)) (\<lambda>j0.
        rbind (save_job en rq completing j0 d2) (\<lambda>(d3, j).
        rbind (store_message_refs en now j p s (context_ids rq) d3) (\<lambda>d4.
        rbind (store_attachment_refs en now j s (context_ids rq) (attachment_ids rq) d4) (\<lambda>d5.
          if \<not> rq_draft rq \<and> blocked = []
          then rbind (announce_job en now control_actor j d5) (\<lambda>d6. Inr (d6, j))
          else Inr (d5, j))))))))"

definition create_job ::
    "env \<Rightarrow> time \<Rightarrow> user \<Rightarrow> job_request \<Rightarrow> job option \<Rightarrow> db \<Rightarrow> exn + db \<times> job" where
  "create_job en now caller rq completing d =
     rbind (request_shape_ok rq) (\<lambda>_.
     rbind (follows_ok en now d caller (rq_follows rq)) (\<lambda>_.
     rbind (selection_ok rq) (\<lambda>_.
     rbind (active_realm_user en (us_realm caller)
              (case completing of Some c \<Rightarrow> jb_requester c | None \<Rightarrow> us_id caller)) (\<lambda>actor.
     rbind (if completing = None then earlier_job en now actor rq d else Inr None) (\<lambda>prior.
       case prior of
         Some j \<Rightarrow> Inr (d, j)
       | None \<Rightarrow>
           rbind (admissible en now actor rq d) (\<lambda>(p, blocked, m).
             admit_job en now caller actor rq completing p blocked m d))))))"

section \<open>Test tasks\<close>

definition test_task_text :: string where
  "test_task_text =
     ''Test task: reply with one short sentence that confirms you can read this message.''"

definition test_request :: "uuid \<Rightarrow> nat \<Rightarrow> uuid \<Rightarrow> job_request" where
  "test_request pid src key = \<lparr>rq_profile = pid, rq_source = src, rq_text = test_task_text, rq_key = key,
     rq_kind = KAnswer, rq_delivery = TAnswer, rq_repository = None, rq_base_ref = [],
     rq_messages = [], rq_attachments = [], rq_trigger = Manual, rq_draft = False,
     rq_allow_blocked = False, rq_follows = None\<rparr>"

text \<open>\<open>sent\<close> is the message \<open>do_send_messages\<close> stores, or \<open>None\<close> when \<open>check_message\<close> refuses.\<close>

definition send_test_task ::
    "env \<Rightarrow> time \<Rightarrow> user \<Rightarrow> uuid \<Rightarrow> uuid \<Rightarrow> nat option \<Rightarrow> db \<Rightarrow> exn + db \<times> job" where
  "send_test_task en now actor pid key sent d =
     rbind (realm_profile (us_realm actor) pid d) (\<lambda>p.
     rbind (check_agent_access en now d actor pid None None ProfileManage None) (\<lambda>_.
     rbind (require_ready en now d p) (\<lambda>_.
       case job_of_key actor key d of
         Some j \<Rightarrow> Inr (d, j)
       | None \<Rightarrow> (case sent of
           None \<Rightarrow> Inl JsonableErr
         | Some m \<Rightarrow> create_job en now actor (test_request pid m key) None d))))"

section \<open>Drafts\<close>

definition draft_request :: "job \<Rightarrow> nat \<Rightarrow> repository \<Rightarrow> string \<Rightarrow> db \<Rightarrow> job_request" where
  "draft_request j src w base d = \<lparr>rq_profile = jb_profile j, rq_source = src, rq_text = jb_request j,
     rq_key = jb_idempotency_key j, rq_kind = jb_job_kind j, rq_delivery = jb_delivery_target j,
     rq_repository = Some w, rq_base_ref = base,
     rq_messages = concat (map (\<lambda>r. if cr_job r = jb_id j \<and> cr_kind r = RefMessage
       then (case cr_message r of None \<Rightarrow> [] | Some m \<Rightarrow> [m]) else []) (db_context_refs d)),
     rq_attachments = concat (map (\<lambda>r. if cr_job r = jb_id j \<and> cr_kind r = RefAttachment
       then (case cr_attachment r of None \<Rightarrow> [] | Some f \<Rightarrow> [f]) else []) (db_context_refs d)),
     rq_trigger = jb_trigger_kind j, rq_draft = False, rq_allow_blocked = False, rq_follows = None\<rparr>"

definition accept_receipts :: "uuid \<Rightarrow> db \<Rightarrow> db" where
  "accept_receipts jid d = d\<lparr>db_receipts := tbl_where (\<lambda>r. dr_job r = Some jid)
     (\<lambda>r. r\<lparr>dr_decision := DispatchAccepted, dr_reason := []\<rparr>) (db_receipts d)\<rparr>"

definition complete_draft ::
    "env \<Rightarrow> time \<Rightarrow> user \<Rightarrow> uuid \<Rightarrow> int \<Rightarrow> uuid \<Rightarrow> string \<Rightarrow> db \<Rightarrow> exn + db \<times> job" where
  "complete_draft en now actor jid expected rid base d =
     rbind (realm_job actor jid d) (\<lambda>j.
     rbind (require_control en now d actor j) (\<lambda>_.
       let receipt = \<lparr>dc_expected_version = expected, dc_repository_id = Some rid, dc_base_ref = base\<rparr> in
       case jb_draft_completion j of
         Some c \<Rightarrow>
           if c \<noteq> receipt
           then Inl (ValueErr ''Draft completion conflicts with the previous request.'') else Inr (d, j)
       | None \<Rightarrow> (case jb_source_message j of
           None \<Rightarrow> Inl (ValueErr ''Draft is no longer configurable.'')
         | Some src \<Rightarrow>
             if jb_status j \<noteq> Draft \<or> jb_version j \<noteq> expected
             then Inl (ValueErr ''Draft is no longer configurable.'')
             else rbind (fetch ''repository'' (get_repository rid d)) (\<lambda>w.
               if repo_realm w \<noteq> us_realm actor then Inl (DoesNotExist ''repository'')
               else rbind (create_job en now actor (draft_request j src w base d) (Some j) d) (\<lambda>(d1, k).
                 Inr (accept_receipts (jb_id k) d1, k))))))"

end
