(* ===== verification/Agent_Admission.thy ===== *)
theory Agent_Admission
  imports Agent_Settlements Agent_Jobs
begin

text \<open>
  Admission is the one handler that adds a task, or writes a draft again as a task.  \<open>admission\<close>
  is these two changes with their conditions, \<open>change\<close> any change of the database; the invariants
  of the records and \<open>later\<close> hold along changes as well.
\<close>

section \<open>Admissions\<close>

inductive admission :: "db \<Rightarrow> db \<Rightarrow> bool" where
  job_new: "get_job (jb_id j) d = None \<Longrightarrow> jb_id j < db_next d \<Longrightarrow> jb_event_sequence j = 0 \<Longrightarrow>
    jb_input_sequence j = 0 \<Longrightarrow> admission d (add_job j d)"
| draft_done: "get_job (jb_id k) d = Some j \<Longrightarrow> job_identity j k \<Longrightarrow> jb_version j < jb_version k \<Longrightarrow>
    jb_event_sequence k = jb_event_sequence j \<Longrightarrow> jb_input_sequence j = 0 \<Longrightarrow>
    jb_input_sequence k = 0 \<Longrightarrow> admission d (put_job k d)"

inductive_cases admissionE: "admission d e"

definition change :: "db \<Rightarrow> db \<Rightarrow> bool" where
  "change d e = (row_write d e \<or> admission d e)"

abbreviation changes :: "db \<Rightarrow> db \<Rightarrow> bool" where
  "changes \<equiv> change\<^sup>*\<^sup>*"

lemma writes_changes: "writes d e \<Longrightarrow> changes d e"
  by (rule mono_rtranclp [rule_format]) (simp_all add: change_def)

lemma admission_changes: "admission d e \<Longrightarrow> changes d e"
  by (simp add: change_def r_into_rtranclp)

lemma changes_trans: "changes d e \<Longrightarrow> changes e f \<Longrightarrow> changes d f"
  by simp

section \<open>What an admission keeps\<close>

lemma admission_tables:
  assumes "admission d e"
  shows "db_attempts e = db_attempts d" "db_operations e = db_operations d"
    "db_approvals e = db_approvals d" "db_inputs e = db_inputs d" "db_audit e = db_audit d"
    "db_artifacts e = db_artifacts d" "db_blobs e = db_blobs d" "db_checkpoints e = db_checkpoints d"
    "db_verifications e = db_verifications d" "db_outbox e = db_outbox d" "db_sent e = db_sent d"
    "db_next e = db_next d"
  using assms by (auto elim!: admissionE simp: add_job_def put_job_def)

lemma admission_ids:
  assumes "admission d e" "ids_ok d"
  shows "ids_ok e"
  using assms(1)
proof cases
  case (job_new j)
  then have "jb_id j \<notin> jb_id ` set (db_jobs d)"
    by (simp add: jobs.get_rows tbl_get_None)
  with job_new assms(2) show ?thesis
    by (auto simp: ids_ok_def id_lists_def add_job_def)
next
  case (draft_done k j)
  have "map jb_id (db_jobs e) = map jb_id (db_jobs d)"
    unfolding draft_done(1) by (rule jobs.keys_put)
  with assms(2) show ?thesis
    by (simp add: ids_ok_def id_lists_def admission_tables [OF assms(1)])
qed

lemma grown_save:
  assumes "\<And>x. R x x" "\<And>x. x \<in> set xs \<Longrightarrow> key x = key r \<Longrightarrow> R x r"
  shows "grown R xs (tbl_save key r xs)"
  unfolding grown_def
  by (intro exI [of _ "tbl_save key r xs"] exI [of _ "[]"])
    (use assms in \<open>auto simp: tbl_save_def list_all2_map2 intro: list_all2_refl list.rel_refl_strong\<close>)

lemma admission_later:
  assumes "admission d e" "ids_ok d"
  shows "later d e"
proof -
  have "grown job_later (db_jobs d) (db_jobs e)"
    using assms(1)
  proof cases
    case (job_new j)
    then show ?thesis by (simp add: add_job_def grown_append)
  next
    case (draft_done k j)
    have "job_later x k" if "x \<in> set (db_jobs d)" "jb_id x = jb_id k" for x
    proof -
      have "x = j" using ids_unique(1) [OF assms(2) that(1)] that(2) draft_done(2) by simp
      with draft_done show ?thesis by (simp add: job_later_def)
    qed
    then show ?thesis
      unfolding draft_done(1) jobs.rows_put by (intro grown_save) simp_all
  qed
  then show ?thesis
    by (intro laterI) (simp_all add: admission_tables [OF assms(1)] later_same_simps)
qed

lemma get_job_put: "get_job (jb_id k) d = Some j \<Longrightarrow>
  get_job i (put_job k d) = (if i = jb_id k then Some k else get_job i d)"
  using jobs.get_put_same [of "jb_id k" d j k] jobs.get_put_other [of k i d] by simp

lemma get_job_add: "get_job (jb_id j) d = None \<Longrightarrow>
  get_job i (add_job j d) = (if i = jb_id j then Some j else get_job i d)"
  by (simp add: jobs.get_add split: option.split)

text \<open>The counters of the one row that changed still count its journal and its inputs.\<close>

lemma counters_cong:
  assumes "journal_ok d" "inputs_ok d" "db_audit e = db_audit d" "db_inputs e = db_inputs d"
    and get: "\<And>i. get_job i e = (if i = n then Some k else get_job i d)"
    and "0 \<le> jb_event_sequence k" "map au_sequence (job_entries n d) = [1..jb_event_sequence k]"
    and "jb_input_sequence k = 0" "job_input_rows n d = []"
  shows "journal_ok e" "inputs_ok e"
proof -
  have ent: "job_entries i e = job_entries i d" "job_input_rows i e = job_input_rows i d" for i
    by (simp_all add: job_entries_def job_input_rows_def assms(3,4))
  show "journal_ok e" "inputs_ok e"
    using assms(1,2,6-9) by (auto simp: journal_ok_def inputs_ok_def ent get max_inputs_def split: if_splits)
qed

lemma admission_records:
  assumes "admission d e" "records_ok d"
  shows "records_ok e"
proof -
  note t = admission_tables [OF assms(1)]
  have ok: "ids_ok d" "journal_ok d" "inputs_ok d" "events_ok d" "rounds_ok d" "approvals_ok d" "remote_ok d"
    using assms(2) by (simp_all add: records_ok_def)
  note cong = counters_cong [OF ok(2,3) t(5,4)]
  have "journal_ok e \<and> inputs_ok e"
    using assms(1)
  proof cases
    case (job_new j)
    then have "get_job i e = (if i = jb_id j then Some j else get_job i d)" for i
      by (simp add: get_job_add)
    moreover have "job_entries (jb_id j) d = []" "job_input_rows (jb_id j) d = []"
      using job_new(2) ok(2,3) by (simp_all add: journal_ok_def inputs_ok_def)
    ultimately show ?thesis
      using job_new by (intro conjI cong) simp_all
  next
    case (draft_done k j)
    then have "get_job i e = (if i = jb_id k then Some k else get_job i d)" for i
      by (simp add: get_job_put)
    moreover have "0 \<le> jb_event_sequence j \<and> map au_sequence (job_entries (jb_id k) d) = [1..jb_event_sequence j]"
      and "map in_sequence (job_input_rows (jb_id k) d) = [1..jb_input_sequence j]"
      using draft_done(2) ok(2,3) unfolding journal_ok_def inputs_ok_def by blast+
    ultimately show ?thesis
      using draft_done by (intro conjI cong [where n = "jb_id k" and k = k]) simp_all
  qed
  moreover have "get_attempt k e = get_attempt k d" for k
    by (simp add: get_attempt_def t)
  ultimately show ?thesis
    using ok admission_ids [OF assms(1) ok(1)]
    by (simp add: records_ok_def events_ok_def rounds_ok_def approvals_ok_def remote_ok_def
        approval_ok_def attempt_events_def consumed_approval_def t)
qed

interpretation changed: evolution change records_ok later
proof unfold_locales
  fix d e
  assume c: "change d e" "records_ok d"
  then have "ids_ok d" by (simp add: records_ok_def)
  with c show "records_ok e" "later d e"
    by (auto simp: change_def intro: write_records admission_records write_later admission_later)
qed (auto intro: later_refl later_trans)

lemma change_ids: "changes d e \<Longrightarrow> ids_ok d \<Longrightarrow> ids_ok e"
  by (induction rule: rtranclp_induct) (auto simp: change_def intro: write_ids admission_ids)

section \<open>Creating a task\<close>

text \<open>What admission does to the database: a run of the machine, changes, and no input.\<close>

definition admits :: "db \<Rightarrow> db \<Rightarrow> bool" where
  "admits d e = (sim d e \<and> changes d e \<and> db_inputs e = db_inputs d)"

lemma admits_refl [simp]: "admits d d"
  by (simp add: admits_def)

lemma admits_trans: "admits d e \<Longrightarrow> admits e f \<Longrightarrow> admits d f"
  by (auto simp: admits_def intro: sim_trans)

lemma admits_config: "same_execution d e \<Longrightarrow> admits d e"
  by (simp add: admits_def same_execution_def same_life_sim same_life_tables writes_changes writes_config)

lemma admits_fresh: "fresh d = (i, e) \<Longrightarrow> admits d e"
  by (auto intro!: admits_config simp: fresh_def same_execution_def)

lemma conversation_for_config:
  "yields (\<lambda>(e, cv). same_execution d e \<and> (\<forall>c. completing = Some c \<longrightarrow> cv_id cv = jb_conversation c))
     (job_conversation_for en actor p rq s completing d)"
  unfolding job_conversation_for_def open_conversation_def Let_def
  by (intro yields_rules)
    (auto simp: same_execution_def fresh_def add_conversation_def put_conversation_def job_conversation_def
      dest: conversations.get_key)

lemma narrowed_job_row:
  "narrowed_job en now d rq j = Inr k \<Longrightarrow> \<exists>q. k = j\<lparr>jb_policy := q\<rparr>"
  by (auto simp: narrowed_job_def split: if_splits)

lemma message_refs_config: "yields (same_execution d) (store_message_refs en now j p s ms d)"
proof (induction ms arbitrary: d)
  case (Cons m ms)
  have "same_execution d f" if "fresh d = (i, e)" "same_execution (add_context_ref r e) f" for i e r f
    using that by (auto simp: same_execution_def fresh_def add_context_ref_def)
  then show ?case
    unfolding store_message_refs.simps Let_def
    by (intro yields_rules) (auto intro: yields_imp [OF Cons.IH])
qed (simp add: yields_Inr same_execution_def)

lemma attachment_refs_config: "yields (same_execution d) (store_attachment_refs en now j s ms fs d)"
proof (induction fs arbitrary: d)
  case (Cons m ms)
  have "same_execution d f" if "fresh d = (i, e)" "same_execution (add_context_ref r e) f" for i e r f
    using that by (auto simp: same_execution_def fresh_def add_context_ref_def)
  then show ?case
    unfolding store_attachment_refs.simps Let_def
    by (intro yields_rules) (auto intro: yields_imp [OF Cons.IH])
qed (simp add: yields_Inr same_execution_def)

lemma announce_admits: "yields (admits d) (announce_job en now control_actor j d)"
  unfolding announce_job_def
proof (intro yields_rules)
  fix d1 d2 r
  assume d1: "create_outbox now (WakeKey (jb_id j) 1) (jb_realm j) (Some (jb_id j)) JobWake None d = Inr d1"
    and d2: "audit_server en now (jb_id j) JobQueued (AJobState Queued []) None (Some (us_id control_actor)) d1 = Inr d2"
  have "writes d d2" using writes_create_outbox [OF d1] writes_audit_server [OF d2] by (rule writes_trans)
  then have w: "writes d (notify_conversation i k t b d2)" for i k t b
    by (rule writes_then)
  have "sim d d2"
    using yieldsD [OF create_outbox_quiet d1] by (intro sim_audit_server [OF d2] same_life_sim)
  then have "sim d (notify_conversation i k t b d2)" for i k t b by (rule sim_write)
  moreover have "db_inputs (notify_conversation i k t b d2) = db_inputs d" for i k t b
    using d1 d2 by (auto simp: create_outbox_def add_outbox_def audit_server_def audit_tables split: if_splits)
  ultimately show "admits d (notify_conversation i k t b d2)" for i k t b
    using w by (simp add: admits_def writes_changes)
qed

section \<open>The row of a task\<close>

lemma add_job_admits:
  assumes "ids_ok d" "jb_id j < db_next d" "get_job (jb_id j) d = None" "jb_event_sequence j = 0"
    and "jb_input_sequence j = 0" "jb_status j \<in> {Draft, Queued, Blocked}" "jb_result_receipt j = None"
    and "jb_stop_target j = Cancelled"
  shows "admits d (add_job j d)"
proof -
  have get: "get_job i (add_job j d) = (if i = jb_id j then Some j else get_job i d)" for i
    by (rule get_job_add [OF assms(3)])
  have att: "get_attempt k (add_job j d) = get_attempt k d" for k
    by (simp add: get_attempt_def add_job_def)
  have l: "life (add_job j d) = set_job (jb_id j) (jcore_of j) (life d)"
    by (auto simp: life_def set_job_def get att fun_eq_iff)
  have step: "lstep (life d) (life (add_job j d))"
    unfolding l using assms(3,6-8) by (intro lstep.admit) (simp_all add: stop_targets_def)
  have "keys_ok (add_job j d)" if "keys_ok d"
    using that lstep_linked [OF step] assms(3)
    by (auto simp: keys_ok_def keyed_def approval_links_def add_job_def jobs.get_rows tbl_get_None)
  with step have "sim d (add_job j d)" by (auto simp: sim_def)
  moreover have "admission d (add_job j d)"
    using assms by (intro admission.job_new)
  ultimately show ?thesis
    by (simp add: admits_def admission_changes) (simp add: add_job_def)
qed

lemma put_job_admits:
  assumes "get_job (jb_id k) d = Some j" "jb_status j = Draft" "job_identity j k"
    and "jb_version k = jb_version j + 1" "jb_event_sequence k = jb_event_sequence j"
    and "jb_input_sequence j = 0" "jb_input_sequence k = 0" "jb_status k = Queued"
    and "jb_result_receipt k = None" "jb_stop_target k = Cancelled"
  shows "admits d (put_job k d)"
proof -
  have get: "get_job i (put_job k d) = (if i = jb_id k then Some k else get_job i d)" for i
    by (rule get_job_put [OF assms(1)])
  have att: "get_attempt i (put_job k d) = get_attempt i d" for i
    by (simp add: get_attempt_def put_job_def)
  have "jcore_of k = goto Queued ((jcore_of j)\<lparr>jc_target := Cancelled, jc_receipt := None\<rparr>)"
    using assms by (simp add: jcore_of_def goto_def)
  then have l: "life (put_job k d) =
      set_job (jb_id k) (goto Queued ((jcore_of j)\<lparr>jc_target := Cancelled, jc_receipt := None\<rparr>)) (life d)"
    by (auto simp: life_def set_job_def get att fun_eq_iff)
  have "lstep (life d) (life (put_job k d))"
    unfolding l using assms(1,2) by (intro lstep.complete_draft) simp_all
  moreover have "map jb_id (db_jobs (put_job k d)) = map jb_id (db_jobs d)" by (rule jobs.keys_put)
  ultimately have "sim d (put_job k d)"
    by (intro sim_stepI) (simp_all add: put_job_def approval_links_def)
  moreover have "admission d (put_job k d)"
    using assms by (intro admission.draft_done [of k d j]) simp_all
  ultimately show ?thesis
    by (simp add: admits_def admission_changes) (simp add: put_job_def)
qed

text \<open>A draft and the request that completes it.\<close>

definition completes :: "user \<Rightarrow> job_request \<Rightarrow> job \<Rightarrow> db \<Rightarrow> bool" where
  "completes actor rq c d =
     (get_job (jb_id c) d = Some c \<and> jb_status c = Draft \<and> jb_input_sequence c = 0 \<and>
      jb_realm c = us_realm actor \<and> \<not> rq_draft rq \<and> \<not> rq_allow_blocked rq \<and>
      rq_profile rq = jb_profile c \<and> Some (rq_source rq) = jb_source_message c \<and>
      rq_text rq = jb_request c \<and> rq_key rq = jb_idempotency_key c \<and> rq_kind rq = jb_job_kind c \<and>
      rq_delivery rq = jb_delivery_target c \<and> rq_trigger rq = jb_trigger_kind c)"

lemma save_job_admits:
  assumes "ids_ok d" "i < db_next d" "get_job i d = None"
    and j: "narrowed_job en now d rq (new_job now actor rq h p blocked s cv i) = Inr j"
    and c: "\<And>c. completing = Some c \<Longrightarrow> completes actor rq c d \<and> us_id actor = jb_requester c \<and>
      cv = jb_conversation c \<and> pr_id p = rq_profile rq \<and> blocked = []"
  shows "yields (\<lambda>(e, k). admits d e) (save_job en rq completing j d)"
proof -
  obtain q where q: "j = (new_job now actor rq h p blocked s cv i)\<lparr>jb_policy := q\<rparr>"
    using narrowed_job_row [OF j] by blast
  have "admits d (add_job j d)"
    using assms(1-3) by (intro add_job_admits) (simp_all add: q new_job_def)
  moreover have "admits d (put_job (completed_draft x rq j) e)"
    if x: "completing = Some x" and e: "e = d\<lparr>db_context_refs := rs\<rparr>" for x e rs
  proof (rule admits_trans)
    show "admits d e" by (intro admits_config) (simp add: e same_execution_def)
    have g: "get_job (jb_id x) e = Some x"
      using c [OF x] by (simp add: e completes_def get_job_def)
    show "admits e (put_job (completed_draft x rq j) e)"
      using c [OF x] g
      by (intro put_job_admits [where j = x])
        (simp_all add: completed_draft_def q new_job_def completes_def job_identity_def)
  qed
  ultimately show ?thesis
    unfolding save_job_def Let_def by (intro yields_rules) simp_all
qed

lemma admit_job_admits:
  assumes "ids_ok d"
    and c: "\<And>c. completing = Some c \<Longrightarrow> completes actor rq c d \<and> us_id actor = jb_requester c \<and>
      pr_id p = rq_profile rq \<and> blocked = []"
  shows "yields (\<lambda>(e, k). admits d e) (admit_job en now control_actor actor rq completing p blocked m d)"
  unfolding admit_job_def Let_def
proof (intro yields_rules)
  fix s x d1 cv i d2 j0 y d3 j d4 d5
  assume x: "job_conversation_for en actor p rq s completing d = Inr x" "x = (d1, cv)"
    and f: "fresh d1 = (i, d2)"
    and j0: "narrowed_job en now d2 rq (new_job now actor rq (request_digest en rq) p blocked s (cv_id cv) i) = Inr j0"
    and y: "save_job en rq completing j0 d2 = Inr y" "y = (d3, j)"
    and d4: "store_message_refs en now j p s (context_ids rq) d3 = Inr d4"
    and d5: "store_attachment_refs en now j s (context_ids rq) (attachment_ids rq) d4 = Inr d5"
  have s1: "same_execution d d1" and cv: "\<And>c. completing = Some c \<Longrightarrow> cv_id cv = jb_conversation c"
    using yieldsD [OF conversation_for_config x(1)] x(2) by simp_all
  have s2: "same_execution d d2" and i: "i < db_next d2" "db_next d \<le> i"
    using s1 f by (auto simp: fresh_def same_execution_def)
  have ok: "ids_ok d2"
    using writes_ids [OF writes_config [OF s2] assms(1)] .
  have jobs: "db_jobs d2 = db_jobs d" using s2 by (simp add: same_execution_def)
  have "\<forall>r\<in>set (db_jobs d). jb_id r < db_next d"
    using assms(1) by (auto simp: ids_ok_def id_lists_def)
  with i(2) have new: "get_job i d2 = None"
    by (fastforce simp: get_job_def jobs tbl_get_None)
  have c2: "completes actor rq c d2 \<and> us_id actor = jb_requester c \<and> cv_id cv = jb_conversation c \<and>
      pr_id p = rq_profile rq \<and> blocked = []" if "completing = Some c" for c
    using c [OF that] cv [OF that] by (simp add: completes_def get_job_def jobs)
  have "admits d2 d3"
    using yieldsD [OF save_job_admits [OF ok i(1) new j0 c2] y(1)] y(2) by simp
  moreover have "admits d d2" by (rule admits_config [OF s2])
  moreover have "admits d3 d5"
    using yieldsD [OF message_refs_config d4] yieldsD [OF attachment_refs_config d5]
    by (blast intro: admits_config admits_trans)
  ultimately have five: "admits d d5" by (blast intro: admits_trans)
  then show "case (d5, j) of (e, k) \<Rightarrow> admits d e" by simp
  fix d6
  assume "announce_job en now control_actor j d5 = Inr d6"
  then have "admits d5 d6" by (rule yieldsD [OF announce_admits])
  with five show "case (d6, j) of (e, k) \<Rightarrow> admits d e" by (auto intro: admits_trans)
qed

lemma admissible_profile:
  assumes "admissible en now actor rq d = Inr (p, blocked, m)"
  shows "pr_id p = rq_profile rq" "\<not> rq_allow_blocked rq \<Longrightarrow> blocked = []"
  using assms
  by (auto simp: admissible_def realm_profile_def admission_block_def dest: profiles.get_key
      split: if_splits sum.splits)

lemma create_job_admits:
  assumes "ids_ok d" "\<And>c. completing = Some c \<Longrightarrow> completes caller rq c d"
  shows "yields (\<lambda>(e, k). admits d e) (create_job en now caller rq completing d)"
  unfolding create_job_def
proof (intro yields_rules)
  fix actor prior x p y blocked m
  assume u: "active_realm_user en (us_realm caller)
      (case completing of None \<Rightarrow> us_id caller | Some c \<Rightarrow> jb_requester c) = Inr actor"
    and x: "admissible en now actor rq d = Inr x" "x = (p, y)" "y = (blocked, m)"
  have "us_realm actor = us_realm caller"
    and "us_id actor = (case completing of None \<Rightarrow> us_id caller | Some c \<Rightarrow> jb_requester c)"
    using u get_user_id by (auto simp: active_realm_user_def split: option.splits if_splits)
  then show "yields (\<lambda>(e, k). admits d e) (admit_job en now caller actor rq completing p blocked m d)"
    using assms admissible_profile [of en now actor rq d p blocked m] x
    by (intro admit_job_admits) (auto simp: completes_def)
qed simp

lemma send_test_task_admits:
  "ids_ok d \<Longrightarrow> yields (\<lambda>(e, k). admits d e) (send_test_task en now actor pid key sent d)"
  unfolding send_test_task_def by (intro yields_rules create_job_admits) simp_all

lemma complete_draft_admits:
  assumes "ids_ok d" "\<forall>j\<in>set (db_jobs d). jb_status j = Draft \<longrightarrow> jb_input_sequence j = 0"
  shows "yields (\<lambda>(e, k). admits d e) (complete_draft en now actor jid expected rid base d)"
  unfolding complete_draft_def Let_def
proof (intro yields_rules)
  fix j src w x e k
  assume j: "realm_job actor jid d = Inr j" and src: "jb_source_message j = Some src"
    and st: "\<not> (jb_status j \<noteq> Draft \<or> jb_version j \<noteq> expected)"
    and x: "create_job en now actor (draft_request j src w base d) (Some j) d = Inr x" "x = (e, k)"
  have "get_job jid d = Some j" "jb_id j = jid" "jb_realm j = us_realm actor"
    using j by (auto simp: realm_job_def dest: jobs.get_key split: if_splits)
  then have "completes actor (draft_request j src w base d) j d"
    using st src assms(2) by (auto simp: completes_def draft_request_def dest: jobs.get_in)
  then have "admits d e"
    using yieldsD [OF create_job_admits [OF assms(1)] x(1)] x(2) by simp
  moreover have "admits e (accept_receipts i e)" for i
    by (intro admits_config) (simp add: same_execution_def accept_receipts_def)
  ultimately show "case (accept_receipts (jb_id k) e, k) of (e, k) \<Rightarrow> admits d e"
    by (auto intro: admits_trans)
qed simp

end
