(* ===== verification/Agent_Moves.thy ===== *)
theory Agent_Moves
  imports Agent_Simulation
begin

text \<open>
  The remaining handlers that move a task: the events a runner reports, proposals and decisions,
  the publication of a result, claims, and the recovery pass.  As in \<^verbatim>\<open>Agent_Simulation.thy\<close>,
  every lemma says that a successful handler is a run of the abstract machine.
\<close>

section \<open>Events of a runner\<close>

lemma settle_stopped_sim:
  assumes "get_job (jb_id j) d = Some j" "get_attempt (at_id a) d = Some a" "at_job a = jb_id j"
    and "at_active a"
  shows "sim d (settle_stopped_job ru j a
     (abandon_work (at_id a) (update_attempt (at_id a) (end_attempt now ev) d)))"
proof -
  let ?u = "abandon_work (at_id a) (update_attempt (at_id a) (end_attempt now ev) d)"
  let ?b = "(acore_of a)\<lparr>ac_active := False, ac_process := Stopped\<rparr>"
  have u: "life ?u = set_attempt (at_id a) ?b (life d)" "get_job (jb_id j) ?u = Some j"
    using assms by (simp_all add: life_update_attempt end_attempt_def acore_of_def)
  have r: "runs (life d) (jb_id j) (at_id a) (acore_of a)"
    using assms by (simp add: runs_def)
  let ?g = "\<lambda>c. set_attempt (at_id a) ?b (set_job (jb_id j) c (life d))"
  have step: "lstep (life d) (?g c)"
    if "c = goto (jb_stop_target j) (jcore_of j) \<or>
        (jb_status j \<notin> insert Verifying ended_states \<and> c = goto Interrupted (jcore_of j)) \<or>
        (jb_status j \<in> insert Verifying ended_states \<and> c = jcore_of j)" for c
    using that assms(1) by (intro lstep.stopped [OF r, of "jcore_of j"]) auto
  have g: "life (transition (jb_id j) st m ?u) = ?g (goto st (jcore_of j))" for st m
    unfolding life_transition [OF u(2)] u(1) by simp
  have same: "life ?u = ?g (jcore_of j)"
    unfolding u(1) using assms(1) by (simp add: set_job_same)
  have keys: "same_keys d (transition i st m ?u)" "same_keys d ?u" for i st m
    by (simp_all add: end_attempt_def)
  have st: "jb_status j \<in> set terminal_states \<longleftrightarrow> jb_status j \<in> ended_states"
    by (simp add: terminal_set)
  have go: "sim d (transition (jb_id j) t m ?u)"
    if "t = jb_stop_target j \<or> (jb_status j \<notin> insert Verifying ended_states \<and> t = Interrupted)" for t m
    by (rule sim_step [OF keys(1)], unfold g, rule step) (use that in auto)
  have stay: "sim d ?u" if "jb_status j \<in> insert Verifying ended_states"
    by (rule sim_step [OF keys(2)], unfold same, rule step) (use that in auto)
  show ?thesis
    unfolding settle_stopped_job_def
    by (split if_split, intro conjI impI go, simp, split if_split, intro conjI impI go stay)
      (auto simp: st)
qed

lemma apply_process_sim:
  assumes "get_job (jb_id j) d = Some j" "get_attempt (at_id a) d = Some a" "at_job a = jb_id j"
    and "at_active a"
  shows "yields (sim d) (apply_process now ru j a ev p d)"
proof -
  have r: "runs (life d) (jb_id j) (at_id a) (acore_of a)"
    using assms by (simp add: runs_def)
  have start: "sim d (update_attempt (at_id a) f d)"
    if "at_process_state a = Starting" "\<And>x. at_id (f x) = at_id x"
      "acore_of (f a) = (acore_of a)\<lparr>ac_process := Active\<rparr>" for f
    using that assms lstep.start [OF r]
    by (intro sim_step) (simp_all add: life_update_attempt)
  have lose: "sim d (transition (jb_id j) Interrupted m
      (abandon_work (at_id a) (update_attempt (at_id a) (\<lambda>r. r\<lparr>at_process_state := ProcUnknown\<rparr>) d)))" for m
  proof (intro sim_step)
    let ?u = "abandon_work (at_id a) (update_attempt (at_id a) (\<lambda>r. r\<lparr>at_process_state := ProcUnknown\<rparr>) d)"
    have "life ?u = set_attempt (at_id a) ((acore_of a)\<lparr>ac_process := ProcUnknown\<rparr>) (life d)"
      using assms by (simp add: life_update_attempt) (simp add: acore_of_def)
    then show "lstep (life d) (life (transition (jb_id j) Interrupted m ?u))"
      using assms lstep.lose [OF r, of "jcore_of j"] by (simp add: life_transition [where j = j])
  qed simp
  show ?thesis
    unfolding apply_process_def
    using settle_stopped_sim [OF assms] lose
    by (cases "ev_type ev") (auto intro!: yields_rules start simp: acore_of_def)
qed

lemma apply_input_sim:
  assumes "get_job (jb_id j) d = Some j" "get_attempt (at_id a) d = Some a" "at_job a = jb_id j"
    and "at_active a" "at_process_state a \<in> {Starting, Active}" "jb_status j \<in> working_states"
  shows "yields (sim d) (apply_input now j a p d)"
proof -
  have "sim d (applied_input j a i d)" for i
  proof -
    let ?d1 = "update_attempt (at_id a) (\<lambda>r. r\<lparr>at_input_cursor := in_sequence i\<rparr>) d"
    let ?d2 = "update_job (jb_id j) (\<lambda>r. r\<lparr>jb_result_proposal := None\<rparr>) ?d1"
    have q: "sim d ?d1" "sim d ?d2" by (intro same_life_sim; simp add: core_defs)+
    let ?a = "a\<lparr>at_input_cursor := in_sequence i\<rparr>"
    let ?j = "j\<lparr>jb_result_proposal := None\<rparr>"
    have "sim ?d2 (transition (at_job ?a) Running [] ?d2)"
      using assms by (intro advance_sim [where j = ?j and k = "at_id a"]) (simp_all add: working_states_def)
    with q assms(3) show ?thesis
      unfolding applied_input_def Let_def by (auto intro: sim_trans)
  qed
  then show ?thesis
    unfolding apply_input_def by (intro yields_rules) (auto intro: sim_write)
qed

lemma finish_tool_quiet: "same_life d (finish_tool now j a x st d)"
  by (simp add: finish_tool_def Let_def core_defs)

lemma apply_tool_quiet: "yields (same_life d) (apply_tool now j a ty p d)"
  unfolding apply_tool_def by (intro yields_rules) (simp_all add: finish_tool_quiet)

lemma apply_verification_quiet: "yields (same_life d) (apply_verification now j a v d)"
  unfolding apply_verification_def
  by (intro yields_rules) (auto split: operation_args.split intro!: yields_rules)

lemma apply_workspace_quiet: "yields (same_life d) (apply_workspace now j a w d)"
  unfolding apply_workspace_def by (intro yields_rules) (simp_all add: core_defs)

lemma apply_result_sim:
  assumes "get_job (jb_id j) d = Some j" "get_attempt (at_id a) d = Some a" "at_job a = jb_id j"
    and "at_active a" "at_process_state a \<in> {Starting, Active}" "jb_status j \<in> working_states"
  shows "yields (sim d) (apply_result now j a p d)"
proof -
  have halt: "sim d (transition (jb_id j) Interrupted m d)" for m
    using advance_sim [of a d j "at_id a" Interrupted m] assms by simp
  let ?d1 = "update_job (jb_id j) (\<lambda>r. r\<lparr>jb_result_proposal := Some p, jb_phase := Review\<rparr>)
      (update_attempt (at_id a) (\<lambda>r. r\<lparr>at_tree_hash := none_empty (rp_tree_hash p)\<rparr>) d)"
  have "sim ?d1 (transition (at_job (a\<lparr>at_tree_hash := none_empty (rp_tree_hash p)\<rparr>)) Verifying [] ?d1)"
    using assms by (intro advance_sim [where j = "j\<lparr>jb_result_proposal := Some p, jb_phase := Review\<rparr>"
          and k = "at_id a"]) (simp_all add: working_states_def)
  moreover have "sim d ?d1" by (intro same_life_sim) (simp add: core_defs)
  ultimately have "sim d (accept_result now j a p d)"
    using assms(3) unfolding accept_result_def by (auto intro: sim_write sim_trans)
  then show ?thesis
    unfolding apply_result_def by (intro yields_rules) (auto intro: halt)
qed

lemma apply_event_sim:
  assumes "get_job (jb_id j) d = Some j" "get_attempt (at_id a) d = Some a" "at_job a = jb_id j"
    and "at_active a" "valid_runner_event ev"
    and live: "\<not> is_cleanup ev \<Longrightarrow>
      at_process_state a \<in> {Starting, Active} \<and> jb_status j \<in> working_states"
  shows "yields (sim d) (apply_event now ru j a ev d)"
proof (cases "is_cleanup ev")
  case True
  then obtain p where "ev_payload ev = PProcess p"
    using assms(5) by (cases "ev_payload ev") (auto simp: valid_runner_event_def is_cleanup_def)
  with apply_process_sim [OF assms(1-4)] show ?thesis by (simp add: apply_event_def)
next
  case False
  note l = live [OF False, THEN conjunct1] live [OF False, THEN conjunct2]
  have "sim d (apply_input_request j ev d)"
    using advance_sim [of a d j "at_id a" WaitingForInput "[]"] assms l
    unfolding apply_input_request_def by (auto intro!: sim_write simp: working_states_def)
  then show ?thesis
    using apply_process_sim [OF assms(1-4)] apply_input_sim [OF assms(1-4) l]
      apply_result_sim [OF assms(1-4) l]
    unfolding apply_event_def
    by (cases "ev_payload ev")
      (auto intro: yields_imp [OF apply_workspace_quiet] yields_imp [OF apply_tool_quiet]
        yields_imp [OF apply_verification_quiet] same_life_sim yields_Inr)
qed

lemma after_event_quiet: "same_life d (after_event ev i d)"
  by (simp add: after_event_def split: option.split)

lemma journal_event_sim: "sim d e \<Longrightarrow> moves d (journal_event en now j a ev e)"
  unfolding journal_event_def
proof (intro yields_rules)
  fix f j'
  assume e: "sim d e" and f: "audit en now (jb_id j) (RunnerEv (ev_type ev)) (RunnerPl (ev_payload ev))
    (Some (at_id a)) AuthRunner (Some ev) None
    (update_attempt (at_id a) (\<lambda>r. r\<lparr>at_event_cursor := ev_sequence ev\<rparr>) e) = Inr f"
  have "sim d f"
    by (rule sim_audit [OF f], rule sim_quiet [OF e]) (simp add: core_defs)
  then show "case (after_event ev (jb_id j) f, r) of (e, r) \<Rightarrow> sim d e" for r :: event_receipt
    by (simp add: sim_quiet [OF _ after_event_quiet])
qed

lemma event_admissibleD:
  assumes "event_admissible en now ru j a ev expected b d = Inr u"
    and "jb_id j = jid" "get_job jid d = Some j" "get_attempt (at_id a) d = Some a"
  shows "at_active a"
    and "\<not> is_cleanup ev \<Longrightarrow> at_process_state a \<in> {Starting, Active} \<and> jb_status j \<in> working_states"
proof -
  have "at_active a \<and> (\<not> is_cleanup ev \<longrightarrow>
      at_process_state a \<in> {Starting, Active} \<and> jb_status j \<in> working_states)"
  proof (cases "is_cleanup ev")
    case False
    then obtain x where x: "locked_attempt en now ru jid (at_id a) (at_lease_epoch a) expected True d = Inr x"
      using assms by (auto simp: event_admissible_def)
    obtain j' a' where "x = (j', a')" by fastforce
    with locked_attemptD [OF x [unfolded this]] executionD [OF x [unfolded this]] assms(3,4)
    show ?thesis by simp
  qed (use assms in \<open>auto simp: event_admissible_def split: if_splits\<close>)
  then show "at_active a"
    "\<not> is_cleanup ev \<Longrightarrow> at_process_state a \<in> {Starting, Active} \<and> jb_status j \<in> working_states"
    by auto
qed

lemma record_event_sim: "moves d (record_event en now ru ev0 expected b d)"
  unfolding record_event_def
proof (intro yields_rules)
  fix ev x j a u d1
  assume "parse_runner_event (en_dump_event en) ev0 = Inr ev" and x: "x = (j, a)"
    and l: "locked_attempt en now ru (ev_job_id ev) (ev_attempt_id ev) (ev_lease_epoch ev) None False d = Inr x"
    and adm: "event_admissible en now ru j a ev expected b d = Inr u"
    and d1: "apply_event now ru j a ev d = Inr d1"
  then have v: "valid_runner_event ev" by (auto simp: parse_runner_event_def split: if_splits)
  note k = locked_attemptD [OF l [unfolded x]]
  have g: "get_job (jb_id j) d = Some j" "get_attempt (at_id a) d = Some a" "at_job a = jb_id j"
    using k by auto
  have "sim d d1"
    by (rule yieldsD [OF apply_event_sim d1])
      (use g v event_admissibleD [OF adm k(3) k(1) g(2)] in auto)
  then show "moves d (journal_event en now j a ev d1)"
    by (rule journal_event_sim)
qed simp_all

lemma stop_evidence_sim: "moves d (stop_evidence en now token ev d)"
  unfolding stop_evidence_def
proof (intro yields_rules)
  fix r x j a y d' receipt
  assume "record_event en now r (ev\<lparr>ev_sequence := at_event_cursor a + 1\<rparr>) None True d = Inr y"
    and "y = (d', receipt)"
  then have "sim d d'" by (auto dest: yieldsD [OF record_event_sim])
  then have "sim d (update_attempt (at_id a) (\<lambda>x. x\<lparr>at_stop_receipt := Some ev\<rparr>) d')"
    by (rule sim_quiet) (simp add: core_defs)
  then show "case (update_attempt (at_id a) (\<lambda>x. x\<lparr>at_stop_receipt := Some ev\<rparr>) d', receipt) of
      (e, r) \<Rightarrow> sim d e" by simp
qed simp_all

section \<open>Proposals and decisions\<close>

text \<open>A new approval names the job of its attempt.\<close>

lemma add_approval_sim:
  assumes "get_attempt (ap_attempt p) d = Some a" "at_job a = ap_job p"
  shows "sim d (add_approval p d)"
proof -
  have "life (add_approval p d) = life d"
    by (rule life_frame)
  moreover have "linked (life d) (ap_job p, ap_attempt p)"
    using assms by (simp add: linked_def)
  ultimately show ?thesis
    by (auto simp: sim_def keys_ok_def approval_links_def add_approval_def)
qed

lemma request_approval_sim:
  assumes "get_job (jb_id j) d = Some j" "get_attempt (at_id a) d = Some a" "at_job a = jb_id j"
    and "at_active a" "at_process_state a \<in> {Starting, Active}" "jb_status j \<in> working_states"
  shows "yields (sim d) (request_approval en now j a x tree d)"
  unfolding request_approval_def Let_def
proof (intro yields_rules, rule yieldsI)
  fix i d1 nonce d2 e
  assume f: "fresh d = (i, d1)" "fresh d1 = (nonce, d2)"
    and e: "audit_server en now (jb_id j) ApprovalRequested (AApproval i (oper_argument_digest x) 1 ApPending)
      (Some (at_id a)) None (notify_conversation (jb_id j) (ApprovalNotice i) ''This task needs your approval.''
        True (transition (jb_id j) WaitingForApproval []
          (add_approval (new_approval now j a i nonce (oper_id x) (oper_arguments x)
             (oper_argument_digest x) tree) d2))) = Inr e"
  let ?p = "new_approval now j a i nonce (oper_id x) (oper_arguments x) (oper_argument_digest x) tree"
  let ?q = "add_approval ?p d2"
  have same: "get_job k d2 = get_job k d" "get_attempt l d2 = get_attempt l d" for k l
    using f by (auto simp: fresh_def get_job_def get_attempt_def)
  have "sim d d2"
    using f by (blast intro: sim_fresh sim_refl)
  moreover have "sim d2 ?q"
    using assms same by (intro add_approval_sim) (simp_all add: new_approval_def)
  moreover have "sim ?q (transition (at_job a) WaitingForApproval [] ?q)"
    using assms same by (intro advance_sim [where j = j and k = "at_id a"])
      (simp_all add: working_states_def add_approval_def get_job_def get_attempt_def)
  ultimately have "sim d (transition (jb_id j) WaitingForApproval [] ?q)"
    unfolding assms(3) by (blast intro: sim_trans)
  then show "sim d e"
    by (intro sim_audit_server [OF e] sim_write)
qed

lemma store_operation_sim:
  assumes "get_job (jb_id j) d = Some j" "get_attempt (at_id a) d = Some a" "at_job a = jb_id j"
    and "at_active a" "at_process_state a \<in> {Starting, Active}" "jb_status j \<in> working_states"
  shows "moves d (store_operation en now j a oid args s h pending d)"
  unfolding store_operation_def Let_def
proof (intro yields_rules)
  fix i d1 d3
  assume f: "fresh d = (i, d1)"
  let ?x = "new_operation j a i oid args s h pending"
  have q: "sim d (add_operation ?x d1)"
    by (rule sim_write, rule sim_fresh [OF f]) simp
  then show "case (add_operation ?x d1, ?x) of (e, r) \<Rightarrow> sim d e" by simp
  assume d3: "request_approval en now j a ?x (sbd_tree_hash s) (add_operation ?x d1) = Inr d3"
  have "sim (add_operation ?x d1) d3"
    by (rule yieldsD [OF request_approval_sim d3])
      (use assms f in \<open>auto simp: add_operation_def fresh_def get_job_def get_attempt_def\<close>)
  with q show "case (d3, ?x) of (e, r) \<Rightarrow> sim d e" by (auto intro: sim_trans)
qed

lemma propose_operation_sim: "moves d (propose_operation en now ru jid aid epoch oid args tree diff d)"
  unfolding propose_operation_def admit_operation_def Let_def
proof (intro yields_rules)
  fix x j a s h b
  assume l: "locked_attempt en now ru jid aid epoch None True d = Inr x" and x: "x = (j, a)"
  note k = locked_attemptD [OF l [unfolded x]] executionD [OF l [unfolded x]]
  show "moves d (store_operation en now j a oid args s h b d)" for s h b
    using k by (intro store_operation_sim) auto
qed simp_all

lemma settle_approval_sim:
  assumes "get_job (jb_id j) d = Some j" "get_attempt (at_id a) d = Some a" "at_job a = jb_id j"
    and "at_active a" "at_process_state a \<in> {Starting, Active}" "jb_status j \<in> working_states"
  shows "yields (sim d) (settle_approval en now actor j a x ap approve d)"
  unfolding settle_approval_def Let_def
proof (intro yields_rules, rule yieldsI)
  fix d2 e
  let ?d = "update_approval (ap_id ap) (\<lambda>r. r\<lparr>ap_approver := Some (us_id actor),
       ap_decision := (if approve then ApApproved else ApRejected), ap_decided_at := Some now,
       ap_version := ap_version r + 1\<rparr>) d"
  assume d2: "(if approve then Inr (transition (jb_id j) Running [] ?d)
      else request_stop en now j (Some (at_id a)) Blocked ''approval_rejected'' ?d) = Inr d2"
    and e: "audit_server en now (jb_id j) ApprovalResolved
      (AApproval (ap_id ap) (oper_argument_digest x) (ap_version ap + 1)
        (if approve then ApApproved else ApRejected)) (Some (at_id a)) (Some (us_id actor)) d2 = Inr e"
  have q: "sim d ?d" by (intro same_life_sim) simp
  have run: "sim ?d (transition (at_job a) Running [] ?d)"
    using assms by (intro advance_sim [where j = j and k = "at_id a"]) (simp_all add: working_states_def)
  have stop: "yields (sim ?d) (request_stop en now j (Some (at_id a)) Blocked ''approval_rejected'' ?d)"
    using assms by (intro request_stop_running) (simp_all add: stop_targets_def)
  have "sim ?d d2"
    using d2 run yieldsD [OF stop] unfolding assms(3) by (cases approve) auto
  with q show "sim d e"
    by (blast intro: sim_audit_server [OF e] sim_trans)
qed

lemma decide_approval_sim: "yields (sim d) (decide_approval en now actor apid expected h nonce approve d)"
  unfolding decide_approval_def
proof (intro yields_rules)
  fix ap :: approval and a0 r x j a y
  assume l: "locked_attempt en now r (ap_job ap) (ap_attempt ap) (at_lease_epoch a0) None True d = Inr x"
    and x: "x = (j, a)"
  note k = locked_attemptD [OF l [unfolded x]] executionD [OF l [unfolded x]]
  show "yields (sim d) (settle_approval en now actor j a y ap approve d)" for y
    using k by (intro settle_approval_sim) auto
qed

section \<open>Which exceptions a publication raises\<close>

text \<open>
  \<open>spares e m\<close>: the computation \<open>m\<close> does not raise \<open>e\<close>.  A publication that raises
  \<open>RequiredChecksFailed\<close> has passed the containment check, because only \<open>verify_code\<close> raises it.
\<close>

named_theorems spares_rules

definition spares :: "'e \<Rightarrow> 'e + 'a \<Rightarrow> bool" where
  "spares e m = (m \<noteq> Inl e)"

lemma sparesD: "spares e m \<Longrightarrow> m \<noteq> Inl e"
  by (simp add: spares_def)

lemma spares_Inl [spares_rules]: "f \<noteq> e \<Longrightarrow> spares e (Inl f)"
  by (simp add: spares_def)

lemma spares_Inr [spares_rules]: "spares e (Inr x)"
  by (simp add: spares_def)

lemma spares_rbind [spares_rules]:
  "spares e m \<Longrightarrow> (\<And>x. m = Inr x \<Longrightarrow> spares e (k x)) \<Longrightarrow> spares e (rbind m k)"
  by (auto simp: spares_def)

lemma spares_if [spares_rules]:
  "(b \<Longrightarrow> spares e m) \<Longrightarrow> (\<not> b \<Longrightarrow> spares e n) \<Longrightarrow> spares e (if b then m else n)"
  by simp

lemma spares_option [spares_rules]:
  "(x = None \<Longrightarrow> spares e m) \<Longrightarrow> (\<And>v. x = Some v \<Longrightarrow> spares e (n v)) \<Longrightarrow>
   spares e (case x of None \<Rightarrow> m | Some v \<Rightarrow> n v)"
  by (cases x) simp_all

lemma spares_prod [spares_rules]:
  "(\<And>u v. p = (u, v) \<Longrightarrow> spares e (m u v)) \<Longrightarrow> spares e (case p of (u, v) \<Rightarrow> m u v)"
  by (cases p) simp

lemma spares_Let [spares_rules]: "spares e (f x) \<Longrightarrow> spares e (Let x f)"
  by simp

lemma spares_fetch [spares_rules]: "DoesNotExist w \<noteq> e \<Longrightarrow> spares e (fetch w x)"
  by (simp add: spares_def)

lemma spares_fetch_opt [spares_rules]: "DoesNotExist w \<noteq> e \<Longrightarrow> spares e (fetch_opt w get k d)"
  by (auto simp: spares_def fetch_opt_def split: option.splits)

lemma spares_each [spares_rules]: "(\<And>x. x \<in> set xs \<Longrightarrow> spares e (f x)) \<Longrightarrow> spares e (each f xs)"
  using each_eq_Inl [of f xs e] by (auto simp: spares_def)

abbreviation no_verdict :: "exn + 'a \<Rightarrow> bool" where
  "no_verdict m \<equiv> spares RequiredChecksFailed m"

lemmas access_defs = require_audience_def accepted_audience_def checked_audience_def
  current_audience_def active_realm_user_def stream_members_def job_conversation_def job_profile_def

lemma require_audience_spares [spares_rules]: "no_verdict (require_audience en d j)"
  unfolding access_defs by (intro spares_rules) simp_all

lemma provider_config_spares [spares_rules]: "no_verdict (provider_config_of d pv)"
  unfolding provider_config_of_def by (intro spares_rules) simp_all

lemma manage_command_spares [spares_rules]: "no_verdict (require_manage_command en actor p act)"
  unfolding require_manage_command_def by (intro spares_rules) simp_all

lemma snapshot_spares [spares_rules]: "no_verdict (require_snapshot_resources en now d actor j a)"
  unfolding require_snapshot_resources_def by (intro spares_rules) simp_all

lemma repository_ok_spares [spares_rules]: "no_verdict (job_repository_ok en now d actor j act)"
  unfolding job_repository_ok_def by (intro spares_rules) simp_all

lemma attempt_access_spares [spares_rules]: "no_verdict (check_attempt_access en now d who j a act)"
  unfolding check_attempt_access_def active_realm_user_def job_profile_def
  by (intro spares_rules) simp_all

lemma reject_secrets_spares [spares_rules]: "no_verdict (reject_secrets d j bs)"
  unfolding reject_secrets_def job_profile_def by (intro spares_rules) simp_all

lemma destination_spares [spares_rules]: "no_verdict (audience_destination en aud)"
  unfolding audience_destination_def by (intro spares_rules) simp_all

lemma post_result_spares [spares_rules]: "no_verdict (post_result j dest c sent d)"
  unfolding post_result_def send_message_def by (intro spares_rules) simp_all

lemma audit_spares [spares_rules]: "no_verdict (audit en now jid t pl att auth ev actor d)"
  unfolding audit_def clean_audit_def by (intro spares_rules) simp_all

lemma complete_job_spares [spares_rules]: "no_verdict (complete_job en now j a m b d)"
  unfolding complete_job_def by (intro spares_rules)

lemma read_artifact_spares [spares_rules]: "no_verdict (read_artifact en f d)"
  unfolding read_artifact_def by (intro spares_rules) simp_all

lemma prepare_spares: "no_verdict (prepare_publication en j d)"
  unfolding prepare_publication_def by (intro spares_rules) simp_all

text \<open>What \<open>verify_result\<close> has checked, whatever it answers, when it is not the containment refusal.\<close>

lemma verify_result_contained:
  assumes "verify_result j a arts b d \<noteq> Inl (ValueErr ''Empty containment is required before completion.'')"
  shows "jb_status j = Verifying" "\<not> at_active a" "at_process_state a = Stopped" "at_stopped_at a \<noteq> None"
  using assms by (auto simp: verify_result_def split: if_splits)

lemma failed_checks_contained:
  assumes "try_publication en now jid sent d = Inl RequiredChecksFailed"
  shows "\<exists>a. latest_attempt jid d = Some a \<and> \<not> at_active a"
proof (rule ccontr)
  assume none: "\<not> ?thesis"
  have v: "no_verdict (verify_result j a arts True d)" if "latest_attempt jid d = Some a" for j a arts
    using that none verify_result_contained(2) [of j a arts True d] by (auto simp: spares_def)
  have "no_verdict (try_publication en now jid sent d)"
    unfolding try_publication_def commit_publication_def
    by (intro spares_rules prepare_spares) (simp_all add: v)
  with assms show False by (simp add: spares_def)
qed

section \<open>Publishing a result\<close>

lemma post_result_frame:
  "yields (\<lambda>(e, m). db_jobs e = db_jobs d \<and> db_attempts e = db_attempts d) (post_result j dest c sent d)"
  unfolding post_result_def send_message_def by (intro yields_rules) simp_all

lemma complete_job_sim:
  assumes "get_job (jb_id j) d = Some j" "jb_status j = Verifying"
    and "newest (life d) (jb_id j) k b" "\<not> ac_active b"
  shows "moves d (complete_job en now j a m private d)"
  unfolding complete_job_def Let_def
proof (intro yields_rules)
  fix d3
  let ?r = "\<lparr>rcp_message_id = m, rcp_attempt_id = at_id a, rcp_published_at = now, rcp_private = private\<rparr>"
  let ?f = "\<lambda>r. r\<lparr>jb_result_message := Some m, jb_result_receipt := Some ?r,
      jb_completed_at := Some now, jb_phase := Deliver\<rparr>"
  let ?x = "transition (jb_id j) Completed [] (update_job (jb_id j) ?f d)"
  assume d3: "audit en now (jb_id j) (ServerEv ResultPublished)
      (ServerPl (APublication (Some m) (if private then ''delivered_privately'' else [])))
      (Some (at_id a)) AuthPublisher None None (mark_delivered now j ?x) = Inr d3"
  have "life ?x = set_job (jb_id j) (goto Completed ((jcore_of j)\<lparr>jc_receipt := Some ?r\<rparr>)) (life d)"
    using assms(1) by (simp add: life_transition [where j = "?f j"] life_update_job)
      (simp add: jcore_of_def goto_def)
  moreover have "lstep (life d) (set_job (jb_id j)
      (goto Completed ((jcore_of j)\<lparr>jc_receipt := Some ?r\<rparr>)) (life d))"
    using assms by (intro lstep.publish [where k = k and a = b]) simp_all
  ultimately have "sim d ?x" by (intro sim_step) simp_all
  then show "case (d3, ?r) of (e, r) \<Rightarrow> sim d e"
    using d3 by (auto intro: sim_audit sim_write)
qed

lemma commit_publication_sim:
  assumes "keys_ok d"
  shows "moves d (commit_publication en now jid r arts sent d)"
  unfolding commit_publication_def
proof (intro yields_rules)
  fix j a aud v dest x d1 m
  assume j: "fetch ''job'' (get_job jid d) = Inr j" and a: "latest_attempt jid d = Some a"
    and v: "verify_result j a arts True d = Inr v"
    and x: "post_result j dest (en_silent_mention en (jb_requester j) @ '' '' @
        result_message_content en j (rp_summary r) @ '' '' @ job_task_link en j) sent d = Inr x"
    and x': "x = (d1, m)"
  have i: "jb_id j = jid" "get_job jid d = Some j" using j by (auto dest: jobs.get_key)
  have f: "db_jobs d1 = db_jobs d" "db_attempts d1 = db_attempts d" and q: "sim d d1"
    using yieldsD [OF post_result_frame x] yieldsD [OF post_result_quiet x] x'
    by (auto intro: same_life_sim)
  have "life d1 = life d" "get_job jid d1 = Some j"
    using f i life_cong [of d1 d] get_job_cong [of d1 d jid] by simp_all
  with i latest_newest [OF assms a] verify_result_contained [of j a arts True d] v
  have "moves d1 (complete_job en now j a m False d1)"
    by (intro complete_job_sim [where k = "at_id a" and b = "acore_of a"]) simp_all
  with q show "moves d (complete_job en now j a m False d1)"
    by (rule moves_after)
qed simp_all

lemma try_publication_sim: "keys_ok d \<Longrightarrow> moves d (try_publication en now jid sent d)"
  unfolding try_publication_def by (intro yields_rules commit_publication_sim) simp_all

lemma park_quiet: "same_life d (park_publication jid d)"
  by (simp add: park_publication_def same_life_tables)

lemma block_publication_sim:
  assumes "keys_ok d" "target = Verifying \<or>
    (target = Failed \<and> (\<exists>a. latest_attempt jid d = Some a \<and> \<not> at_active a))"
  shows "yields (sim d) (block_publication en now jid target reason park d)"
  unfolding block_publication_def
proof (intro yields_rules)
  fix j e
  assume j: "fetch ''job'' (get_job jid d) = Inr j"
    and st: "jb_status j = Verifying \<and> jb_blocked_reason j \<noteq> reason"
    and e: "audit en now jid (ServerEv PublicationBlocked) (ServerPl (APublication None reason)) None
      AuthPublisher None None (transition jid target reason d) = Inr e"
  have "lstep (life d) (set_job jid (goto target (jcore_of j)) (life d))"
  proof (cases "target = Verifying")
    case True
    with j st show ?thesis by (intro lstep.hold) simp_all
  next
    case False
    with assms(2) obtain a where "latest_attempt jid d = Some a" "\<not> at_active a" "target = Failed"
      by blast
    with j st latest_newest [OF assms(1)] show ?thesis
      by (intro lstep.hold [where k = "at_id a" and a = "acore_of a"]) simp_all
  qed
  then have "sim d (transition jid target reason d)"
    using j by (intro transition_step) simp_all
  then have "sim d e" by (rule sim_audit [OF e])
  then show "sim d (if park then park_publication jid e else e)"
    by (simp add: sim_quiet [OF _ park_quiet])
qed simp

lemma publish_result_sim:
  assumes "keys_ok d"
  shows "sim d (fst (publish_result en now jid sent d))"
proof (cases "try_publication en now jid sent d")
  case (Inr p)
  then show ?thesis
    using yieldsD [OF try_publication_sim [OF assms] Inr] by (cases p) (simp add: publish_result_def)
next
  case (Inl e)
  have "yields (sim d) (block_publication en now jid t r b d)"
    if "publication_failure e = Some (t, r, b)" for t r b
    using that failed_checks_contained [of en now jid sent d] Inl
    by (intro block_publication_sim [OF assms]) (auto simp: publication_failure_def split: if_splits)
  then show ?thesis
    by (auto simp: publish_result_def Inl dest: yieldsD split: option.split sum.split)
qed

lemma deliver_privately_sim:
  assumes "keys_ok d"
  shows "yields (sim d) (deliver_result_privately en now actor jid expected sent d)"
  unfolding deliver_result_privately_def Let_def
proof (intro yields_rules)
  fix j a r v x d1 m y d2 c
  assume j: "realm_job actor jid d = Inr j" and a: "latest_attempt jid d = Some a"
    and v: "verify_result j a (proposal_artifacts j r d) False d = Inr v"
    and x: "send_message j (ToUsers [jb_requester j])
         (private_first_line @ CHR 0x0A # en_silent_mention en (jb_requester j) @ '' '' @
          result_message_content en j (rp_summary r) @ '' '' @ job_task_link en j) sent d = Inr x"
    and x': "x = (d1, m)" and y: "complete_job en now j a m True d1 = Inr y" "y = (d2, c)"
  have i: "jb_id j = jid" "get_job jid d = Some j" using j by (auto dest: realm_jobD)
  have f: "db_jobs d1 = db_jobs d" "db_attempts d1 = db_attempts d" and q: "sim d d1"
    using x yieldsD [OF send_message_quiet x] x'
    by (auto simp: send_message_def intro: same_life_sim)
  have "life d1 = life d" "get_job jid d1 = Some j"
    using f i life_cong [of d1 d] get_job_cong [of d1 d jid] by simp_all
  with i latest_newest [OF assms a] verify_result_contained [of j a "proposal_artifacts j r d" False d] v
  have "moves d1 (complete_job en now j a m True d1)"
    by (intro complete_job_sim [where k = "at_id a" and b = "acore_of a"]) simp_all
  from yieldsD [OF moves_after [OF q this] y(1)] show "sim d d2" by (simp add: y(2))
qed simp_all

section \<open>Claiming\<close>

lemma get_job_transition_other:
  assumes "i \<noteq> k"
  shows "get_job i (transition k st m d) = get_job i d"
proof -
  have "get_job i (transition k st m d) = map_option (\<lambda>r. if jb_id r = k
      then r\<lparr>jb_status := st, jb_blocked_reason := m, jb_version := jb_version r + 1\<rparr> else r) (get_job i d)"
    unfolding jobs.get_rows transition_jobs by (rule tbl_get_where) simp
  with assms jobs.get_key [of i d] show ?thesis by (cases "get_job i d") auto
qed

lemma expire_sim:
  assumes "get_job (jb_id j) d = Some j" "jb_status j = Queued"
  shows "sim d (transition (jb_id j) Blocked m d)"
  using assms by (intro transition_step [OF assms(1)] lstep.expire) simp_all

lemma next_number_newest:
  assumes "keys_ok d"
  shows "next_number i d = 1 \<or>
    (\<exists>k a. lf_attempt (life d) k = Some a \<and> ac_job a = i \<and> next_number i d = ac_number a + 1)"
    and "lf_attempt (life d) k = Some b \<Longrightarrow> ac_job b = i \<Longrightarrow> ac_number b < next_number i d"
proof -
  show "next_number i d = 1 \<or>
    (\<exists>k a. lf_attempt (life d) k = Some a \<and> ac_job a = i \<and> next_number i d = ac_number a + 1)"
  proof (cases "latest_attempt i d")
    case (Some a)
    with latest_newest [OF assms Some]
    have "lf_attempt (life d) (at_id a) = Some (acore_of a)" "ac_job (acore_of a) = i"
      "next_number i d = ac_number (acore_of a) + 1"
      by (simp_all add: newest_def next_number_def)
    then show ?thesis by blast
  qed (simp add: next_number_def)
  assume b: "lf_attempt (life d) k = Some b" "ac_job b = i"
  show "ac_number b < next_number i d"
  proof (cases "latest_attempt i d")
    case None
    then have "\<forall>a\<in>set (db_attempts d). at_job a \<noteq> i"
      by (auto simp: latest_attempt_def job_attempts_def filter_empty_conv)
    with b show ?thesis by (auto dest: attempts.get_in)
  next
    case (Some a)
    with latest_newest [OF assms Some] b show ?thesis
      by (force simp: next_number_def newest_def)
  qed
qed

lemma claim_sim:
  assumes "get_job (jb_id j) d = Some j" "jb_status j = Queued" "active_attempts (jb_id j) d = []"
    and f: "fresh d = (at_id a, e)" and a: "at_job a = jb_id j" "at_number a = next_number (jb_id j) d"
      "at_active a" "at_process_state a = Starting"
  shows "sim d (transition (jb_id j) Running [] (add_attempt a e))"
  unfolding sim_def
proof
  assume ok: "keys_ok d"
  let ?x = "transition (jb_id j) Running [] (add_attempt a e)"
  have e: "at_id a = db_next d" "db_jobs e = db_jobs d" "db_attempts e = db_attempts d"
    "db_next e = db_next d + 1" "db_approvals e = db_approvals d"
    using f by (auto simp: fresh_def)
  have new: "get_attempt (at_id a) d = None"
    using ok e(1) by (auto simp: keys_ok_def keyed_def attempts.get_rows tbl_get_None)
  have get: "get_attempt k (add_attempt a e) = (if k = at_id a then Some a else get_attempt k d)" for k
    using new attempts.get_add [of k a e] get_attempt_cong [OF e(3)] by (auto split: option.splits)
  have j: "get_job i e = get_job i d" for i
    using get_job_cong [OF e(2)] by simp
  have "life (add_attempt a e) = set_attempt (at_id a) (acore_of a) (life d)"
    by (auto simp: life_def set_attempt_def get j fun_eq_iff)
  then have x: "life ?x = set_attempt (at_id a)
      \<lparr>ac_job = jb_id j, ac_number = next_number (jb_id j) d, ac_active = True, ac_process = Starting\<rparr>
      (set_job (jb_id j) (goto Running (jcore_of j)) (life d))"
    using assms(1) a by (subst life_transition [where j = j]) (simp_all add: j acore_of_def)
  have step: "lstep (life d) (life ?x)"
    unfolding x using assms(1-3) new next_number_newest [OF ok]
    by (intro lstep.claim no_active_idle) simp_all
  moreover have "keys_ok ?x"
    using ok e lstep_linked [OF step] by (auto simp: keys_ok_def keyed_def approval_links_def add_attempt_def)
  ultimately show "keys_ok ?x \<and> lstep\<^sup>*\<^sup>* (life d) (life ?x)" by blast
qed

lemma start_attempt_sim:
  assumes "get_job (jb_id j) d = Some j" "jb_status j = Queued" "active_attempts (jb_id j) d = []"
    and "fresh d = (li_attempt_id li, e)" "li_lease_epoch li = next_number (jb_id j) d"
  shows "moves d (start_attempt en now r key j li expires aud ck de e)"
  unfolding start_attempt_def Let_def
proof (intro yields_rules)
  fix p pv f
  let ?a = "new_attempt now r key j li expires aud ck p pv de"
  assume "audit_server en now (jb_id j) SrvAttemptStarting (AJobState Running []) (Some (at_id ?a)) None
      (transition (jb_id j) Running [] (add_attempt ?a e)) = Inr f"
  then have "sim d f"
    by (rule sim_audit_server) (rule claim_sim, use assms in \<open>simp_all add: new_attempt_def\<close>)
  then show "case (f, Some de) of (e, r) \<Rightarrow> sim d e" by simp
qed

lemma claim_candidate_sim:
  assumes "get_job (jb_id j) d = Some j" "jb_status j = Queued"
  shows "moves d (claim_candidate en now r key j d)"
  unfolding claim_candidate_def Let_def
proof (intro yields_rules)
  show "case (transition (jb_id j) Blocked ''start_deadline_expired'' d, None) of (e, r) \<Rightarrow> sim d e"
    using assms by (simp add: expire_sim)
next
  fix i d1
  assume f: "fresh d = (i, d1)"
  show "case (d1, None) of (e, r) \<Rightarrow> sim d e" using sim_fresh [OF f] by simp
  assume "\<not> active_attempts (jb_id j) d \<noteq> []"
  with assms f show "moves d (start_attempt en now r key j
     \<lparr>li_job_id = jb_id j, li_attempt_id = i, li_lease_epoch = next_number (jb_id j) d\<rparr>
     (now + lease_seconds) aud (resume_point j d) de d1)" for aud de
    by (intro start_attempt_sim) simp_all
qed simp_all

text \<open>A candidate that is passed over leaves the other candidates as they were.\<close>

lemma claim_candidate_None:
  assumes "claim_candidate en now r key j d = Inr (e, None)" "i \<noteq> jb_id j"
  shows "get_job i e = get_job i d"
proof -
  have n: "get_job i (d\<lparr>db_next := n\<rparr>) = get_job i d" for n
    by (rule get_job_cong) simp
  have "yields (\<lambda>(e, x). x = None \<longrightarrow> get_job i e = get_job i d) (claim_candidate en now r key j d)"
    unfolding claim_candidate_def start_attempt_def Let_def
    by (intro yields_rules) (auto simp: fresh_def n get_job_transition_other [OF assms(2)])
  with assms(1) show ?thesis by (auto dest: yieldsD)
qed

lemma claim_loop_sim:
  "distinct (map jb_id js) \<Longrightarrow> \<forall>j\<in>set js. get_job (jb_id j) d = Some j \<and> jb_status j = Queued \<Longrightarrow>
   moves d (claim_loop en now r key js d)"
proof (induction js arbitrary: d)
  case (Cons j js)
  have one: "moves d (claim_candidate en now r key j d)"
    using Cons.prems by (intro claim_candidate_sim) simp_all
  show ?case
    unfolding claim_loop.simps
  proof (intro yields_rules)
    fix x e de
    assume x: "claim_candidate en now r key j d = Inr x" "x = (e, de)"
    from yieldsD [OF one x(1)] x(2) have s: "sim d e" by simp
    then show "case (e, Some y) of (e, r) \<Rightarrow> sim d e" for y :: attempt_descriptor by simp
    assume n: "de = None"
    have "get_job (jb_id k) e = get_job (jb_id k) d" if "k \<in> set js" for k
      using Cons.prems(1) that x n
      by (intro claim_candidate_None [of en now r key j d e]) (auto simp: rev_image_eqI)
    with Cons.prems(2) have "\<forall>k\<in>set js. get_job (jb_id k) e = Some k \<and> jb_status k = Queued"
      by simp
    with Cons s show "moves d (claim_loop en now r key js e)"
      by (auto intro: moves_after)
  qed
qed (simp add: yields_Inr)

lemma candidates_ok:
  assumes "keys_ok d"
  shows "distinct (map jb_id (claim_candidates now r d))"
    and "\<forall>j\<in>set (claim_candidates now r d). get_job (jb_id j) d = Some j \<and> jb_status j = Queued"
proof -
  have "distinct (map jb_id (db_jobs d))"
    using assms by (simp add: keys_ok_def keyed_def)
  then show "distinct (map jb_id (claim_candidates now r d))"
    by (auto simp: claim_candidates_def distinct_map inj_on_def intro: distinct_take dest!: in_set_takeD)
  show "\<forall>j\<in>set (claim_candidates now r d). get_job (jb_id j) d = Some j \<and> jb_status j = Queued"
    using keys_unique_job [OF assms] by (auto simp: claim_candidates_def dest!: in_set_takeD)
qed

lemma claim_work_sim: "keys_ok d \<Longrightarrow> moves d (claim_work en now ru key d)"
  unfolding claim_work_def
  by (intro yields_rules claim_loop_sim) (simp_all add: candidates_ok)

section \<open>The recovery pass\<close>

lemma over_sim:
  assumes "\<forall>x\<in>set xs. P x d" "keys_ok d" "over f xs d = Inr e"
    and one: "\<And>x d. P x d \<Longrightarrow> keys_ok d \<Longrightarrow> yields (sim d) (f x d)"
    and stable: "\<And>x y d e. x \<in> set xs \<Longrightarrow> P x d \<Longrightarrow> P y d \<Longrightarrow> f x d = Inr e \<Longrightarrow> keys_ok d \<Longrightarrow> P y e"
  shows "sim d e"
  using assms(1-3) stable
proof (induction xs arbitrary: d)
  case (Cons x xs)
  from Cons.prems(3) obtain d1 where d1: "f x d = Inr d1" "over f xs d1 = Inr e" by auto
  have s: "sim d d1"
    using yieldsD [OF one d1(1)] Cons.prems(1,2) by simp
  then have "keys_ok d1" using Cons.prems(2) by (simp add: sim_def)
  moreover have "\<forall>y\<in>set xs. P y d1"
    using Cons.prems(1,2,4) d1(1) by (metis list.set_intros(1,2))
  ultimately have "sim d1 e"
    using Cons.IH d1(2) Cons.prems(4) by (meson list.set_intros(2))
  with s show ?case by (rule sim_trans)
qed simp

lemma expire_queues_sim:
  "distinct (map jb_id js) \<Longrightarrow> \<forall>j\<in>set js. get_job (jb_id j) d = Some j \<and> jb_status j = Queued \<Longrightarrow>
   sim d (fold expire_queue js d)"
proof (induction js arbitrary: d)
  case (Cons j js)
  have "sim d (expire_queue j d)"
    using Cons.prems unfolding expire_queue_def by (simp add: expire_sim)
  moreover have "sim (expire_queue j d) (fold expire_queue js (expire_queue j d))"
    using Cons.prems by (intro Cons.IH) (auto simp: expire_queue_def get_job_transition_other image_iff)
  ultimately show ?case by (auto intro: sim_trans)
qed simp

lemma expired_queues_ok:
  assumes "keys_ok d"
  shows "distinct (map jb_id (expired_queues now n d))"
    and "\<forall>j\<in>set (expired_queues now n d). get_job (jb_id j) d = Some j \<and> jb_status j = Queued"
proof -
  have "distinct (map jb_id (db_jobs d))"
    using assms by (simp add: keys_ok_def keyed_def)
  then show "distinct (map jb_id (expired_queues now n d))"
    by (auto simp: expired_queues_def distinct_map inj_on_def intro: distinct_take dest!: in_set_takeD)
  show "\<forall>j\<in>set (expired_queues now n d). get_job (jb_id j) d = Some j \<and> jb_status j = Queued"
    using keys_unique_job [OF assms] by (auto simp: expired_queues_def dest!: in_set_takeD)
qed

lemma interrupt_step:
  assumes "interrupt_attempt en now a d = Inr e" "runs (life d) (at_job a) (at_id a) b"
  shows "sim d e"
    and "runs (life d) i k c \<Longrightarrow> \<exists>c'. runs (life e) i k c'"
proof -
  let ?u = "abandon_work (at_id a) (update_attempt (at_id a) (\<lambda>r. r\<lparr>at_process_state := ProcUnknown\<rparr>) d)"
  from assms(1) obtain j where j0: "get_job (at_job a) d = Some j"
    and e: "audit_server en now (jb_id j) SrvAttemptInterrupted (AJobState Interrupted ''lease_lost'')
      (Some (at_id a)) None (transition (jb_id j) Interrupted ''lease_lost'' ?u) = Inr e"
    by (auto simp: interrupt_attempt_def)
  note j = j0 jobs.get_key [OF j0]
  from assms(2) obtain x where x: "get_attempt (at_id a) d = Some x" "at_job x = at_job a" "at_active x"
    "b = acore_of x" by (auto simp: runs_def)
  let ?t = "set_attempt (at_id a) (b\<lparr>ac_process := ProcUnknown\<rparr>)
      (set_job (at_job a) (goto Interrupted (jcore_of j)) (life d))"
  have t: "life (transition (jb_id j) Interrupted ''lease_lost'' ?u) = ?t"
    using j x by (simp add: life_transition [where j = j] life_update_attempt) (simp add: acore_of_def)
  have "lstep (life d) ?t"
    using assms(2) j by (intro lstep.lose [where i = "at_job a"]) simp_all
  then have "sim d (transition (jb_id j) Interrupted ''lease_lost'' ?u)"
    using t by (intro sim_step) simp_all
  then show "sim d e" by (rule sim_audit_server [OF e])
  have "life e = ?t"
    using audit_server_life [OF e] t by (simp add: same_life_def)
  then show "\<exists>c'. runs (life e) i k c'" if "runs (life d) i k c"
    using that assms(2) by (auto simp: runs_def)
qed

lemma interrupt_all_sim:
  assumes "keys_ok d" "over (interrupt_attempt en now) (lost_leases now n d) d = Inr e"
  shows "sim d e"
proof (rule over_sim [OF _ assms, where P = "\<lambda>a d. \<exists>b. runs (life d) (at_job a) (at_id a) b"])
  show "\<forall>a\<in>set (lost_leases now n d). \<exists>b. runs (life d) (at_job a) (at_id a) b"
    using keys_unique_attempt [OF assms(1)]
    by (auto simp: lost_leases_def runs_def dest!: in_set_takeD)
qed (auto intro: yieldsI interrupt_step(1) dest: interrupt_step(2))

lemma lstep_run_linked: "lstep\<^sup>*\<^sup>* s t \<Longrightarrow> linked s l \<Longrightarrow> linked t l"
  by (induction rule: rtranclp_induct) (auto intro: lstep_linked)

lemma expire_approval_sim:
  assumes "linked (life d) (ap_job p, ap_attempt p)"
  shows "yields (sim d) (expire_approval en now p d)"
  unfolding expire_approval_def Let_def
proof (intro yields_rules)
  let ?d = "update_approval (ap_id p) (\<lambda>r. r\<lparr>ap_decision := ApExpired\<rparr>) d"
  fix j a
  assume j: "fetch ''job'' (get_job (ap_job p) ?d) = Inr j"
    and a: "fetch ''attempt'' (get_attempt (ap_attempt p) ?d) = Inr a"
  have q: "sim d ?d" by (intro same_life_sim) simp
  then show "sim d ?d" .
  assume "at_active a"
  from j a have k: "get_job (ap_job p) d = Some j" "get_attempt (ap_attempt p) d = Some a" by simp_all
  note i = jobs.get_key [OF k(1)] attempts.get_key [OF k(2)]
  have "at_job a = jb_id j"
    using assms k(2) i by (simp add: linked_def)
  moreover have "get_job (jb_id j) ?d = Some j" "get_attempt (at_id a) ?d = Some a"
    using k i by simp_all
  ultimately have "yields (sim ?d) (request_stop en now j (Some (at_id a)) Blocked ''approval_expired'' ?d)"
    using \<open>at_active a\<close> by (intro request_stop_running) (simp_all add: stop_targets_def)
  with q show "yields (sim d) (request_stop en now j (Some (at_id a)) Blocked ''approval_expired'' ?d)"
    by (auto simp: yields_def intro: sim_trans)
qed

lemma expire_approvals_sim:
  assumes "keys_ok d" "over (expire_approval en now) (expired_approvals now n d) d = Inr e"
  shows "sim d e"
proof (rule over_sim [OF _ assms, where P = "\<lambda>p d. linked (life d) (ap_job p, ap_attempt p)"])
  show "\<forall>p\<in>set (expired_approvals now n d). linked (life d) (ap_job p, ap_attempt p)"
    using assms(1) by (auto simp: keys_ok_def approval_links_def expired_approvals_def dest!: in_set_takeD)
  show "linked (life f) (ap_job q, ap_attempt q)"
    if "linked (life c) (ap_job p, ap_attempt p)" "linked (life c) (ap_job q, ap_attempt q)"
      "expire_approval en now p c = Inr f" "keys_ok c" for p q c f
    using that yieldsD [OF expire_approval_sim that(3)] by (auto simp: sim_def intro: lstep_run_linked)
qed (rule expire_approval_sim)

lemma reconcile_records_sim: "keys_ok d \<Longrightarrow> yields (sim d) (reconcile_records en now n d)"
  unfolding reconcile_records_def Let_def
proof (intro yields_rules, rule yieldsI)
  fix d2 e
  let ?d1 = "fold expire_queue (expired_queues now n d) d"
  assume ok: "keys_ok d" and d2: "over (interrupt_attempt en now) (lost_leases now n ?d1) ?d1 = Inr d2"
    and e: "over (expire_approval en now) (expired_approvals now n d2) d2 = Inr e"
  have s: "sim d ?d1" by (intro expire_queues_sim expired_queues_ok ok)
  with ok have ok1: "keys_ok ?d1" by (simp add: sim_def)
  have s2: "sim ?d1 d2" by (rule interrupt_all_sim [OF ok1 d2])
  with ok1 have ok2: "keys_ok d2" by (simp add: sim_def)
  from s s2 expire_approvals_sim [OF ok2 e] show "sim d e" by (blast intro: sim_trans)
qed

lemma reconcile_one_sim:
  assumes "keys_ok d"
  shows "yields (sim d) (reconcile_one en now sent notify k d)"
  unfolding reconcile_one_def
proof (intro yields_rules)
  fix x d1 o1 y d2 b
  assume x: "take_delivery now k d = Inr x" "x = (d1, o1)"
  have q: "sim d d1"
    using yieldsD [OF take_delivery_quiet x(1)] x(2) by (auto intro: same_life_sim)
  then show "sim d d1" .
  assume d: "deliver en now sent notify y d1 = (d2, b)"
  have "keys_ok d1" using q assms by (simp add: sim_def)
  then have "sim d1 d2"
    using publish_result_sim [of d1 en now "the (ob_job y)" "sent (the (ob_job y))"] d
    by (auto simp: deliver_def Let_def split: if_splits option.splits prod.splits)
  with q have "sim d d2" by (rule sim_trans)
  then show "yields (sim d) (settle_delivery now k b d2)"
    by (auto intro: yields_imp [OF settle_delivery_quiet] sim_quiet)
qed

lemma reconcile_outbox_sim:
  assumes "keys_ok d"
  shows "yields (sim d) (reconcile_outbox en now sent notify n d)"
  unfolding reconcile_outbox_def
  by (rule yieldsI, rule over_sim [where P = "\<lambda>k d. True"])
    (auto simp: assms intro: reconcile_one_sim)

section \<open>Revoking a runner\<close>

lemma revoke_sim:
  assumes "revoke_runner now rid d = Inr e"
  shows "sim d e"
  unfolding sim_def
proof
  assume ok: "keys_ok d"
  obtain r where r: "get_runner rid d = Some r" using assms by (auto simp: revoke_runner_def)
  show "keys_ok e \<and> lstep\<^sup>*\<^sup>* (life d) (life e)"
  proof (cases "ru_revoked_at r = None")
    case True
    let ?P = "\<lambda>a. at_runner a = rid \<and> at_active a"
    let ?f = "\<lambda>a. a\<lparr>at_process_state := Stopping\<rparr>"
    let ?js = "set (map at_job (filter ?P (db_attempts d)))"
    let ?g = "\<lambda>j. j\<lparr>jb_status := CancelRequested, jb_version := jb_version j + 1\<rparr>"
    define ks where "ks = at_id ` {a \<in> set (db_attempts d). ?P a}"
    have att: "db_attempts e = tbl_where ?P ?f (db_attempts d)"
      and job: "db_jobs e = tbl_where (\<lambda>j. jb_id j \<in> ?js) ?g (db_jobs d)"
      and rest: "db_next e = db_next d" "db_approvals e = db_approvals d"
      using assms r True by (auto simp: revoke_runner_def Let_def put_runner_def)
    have in_ks: "k \<in> ks \<longleftrightarrow> (\<exists>a. get_attempt k d = Some a \<and> ?P a)" for k
      using keys_unique_attempt [OF ok] unfolding ks_def by (auto dest: attempts.get_in attempts.get_key)
    have in_js: "i \<in> ?js \<longleftrightarrow> (\<exists>k\<in>ks. \<exists>a. runs (life d) i k a)" for i
    proof
      assume "i \<in> ?js"
      then obtain a where a: "a \<in> set (db_attempts d)" "?P a" "at_job a = i" by auto
      with in_ks [of "at_id a"] life_runs [OF keys_unique_attempt [OF ok a(1)]] keys_unique_attempt [OF ok a(1)]
      show "\<exists>k\<in>ks. \<exists>a. runs (life d) i k a" by auto
    next
      assume "\<exists>k\<in>ks. \<exists>a. runs (life d) i k a"
      then show "i \<in> ?js" using in_ks by (auto simp: runs_def dest: attempts.get_in)
    qed
    have ga: "get_attempt k e = map_option (\<lambda>a. if ?P a then ?f a else a) (get_attempt k d)" for k
      unfolding attempts.get_rows att by (rule tbl_get_where) simp
    have gj: "get_job i e = map_option (\<lambda>j. if jb_id j \<in> ?js then ?g j else j) (get_job i d)" for i
      unfolding jobs.get_rows job by (rule tbl_get_where) simp
    have la: "lf_attempt (life e) k = (if k \<in> ks then map_option (\<lambda>a. a\<lparr>ac_process := Stopping\<rparr>)
        (lf_attempt (life d) k) else lf_attempt (life d) k)" for k
      using in_ks [of k] by (cases "get_attempt k d") (auto simp: ga acore_of_def)
    have lj: "lf_job (life e) i = (if \<exists>k\<in>ks. \<exists>a. runs (life d) i k a
        then map_option (goto CancelRequested) (lf_job (life d) i) else lf_job (life d) i)" for i
      using in_js [of i] jobs.get_key [of i d]
      by (cases "get_job i d") (auto simp: gj jcore_of_def goto_def)
    have "life e = \<lparr>lf_job = (\<lambda>i. if \<exists>k\<in>ks. \<exists>a. runs (life d) i k a
                        then map_option (goto CancelRequested) (lf_job (life d) i) else lf_job (life d) i),
      lf_attempt = (\<lambda>k. if k \<in> ks then map_option (\<lambda>a. a\<lparr>ac_process := Stopping\<rparr>) (lf_attempt (life d) k)
                        else lf_attempt (life d) k)\<rparr>"
      by (intro lifecycle.equality ext) (simp_all only: la lj lifecycle.simps, simp)
    moreover have "\<exists>i a. runs (life d) i k a" if "k \<in> ks" for k
      using that in_ks by (auto simp: runs_def)
    ultimately have step: "lstep (life d) (life e)"
      using lstep.revoke [of ks "life d"] by simp
    moreover have "keys_ok e"
      using ok att job rest lstep_linked [OF step] by (simp add: keys_ok_def approval_links_def)
    ultimately show ?thesis by blast
  next
    case False
    with assms r ok show ?thesis by (auto simp: revoke_runner_def)
  qed
qed

end
