(* ===== verification/Agent_Machine.thy ===== *)
theory Agent_Machine
  imports Agent_Admission Agent_Moves
begin

text \<open>
  The service as one machine.  \<open>request\<close> has one constructor for every handler, \<open>perform\<close> runs the
  handler as one transaction, \<open>serve\<close> commits its database or rolls back, and a run is any
  interleaving of requests, at any times, with any state of the chat core.  \<open>RqConfigure\<close> stands
  for everything that writes only configuration, credentials and effects (pairing, provider and
  profile set-up, grants, the hooks that have run).  The theorems of this theory hold of every run:
  a run of the service is a run of the abstract machine of \<^verbatim>\<open>Lifecycle.thy\<close>, and the
  invariants of the records and \<open>later\<close> hold along it.
\<close>

section \<open>Requests\<close>

datatype request =
    RqCreate user job_request
  | RqTestTask user uuid uuid "nat option"
  | RqCompleteDraft user uuid int uuid string
  | RqCancel user uuid int
  | RqInput user uuid int uuid string input_type "nat option"
  | RqResume user uuid int "uuid option"
  | RqDecide user uuid int string uuid bool
  | RqDeliverPrivately user uuid int "nat option"
  | RqHeartbeat runner "lease_identity list"
  | RqClaim runner uuid
  | RqCheckpoint runner uuid uuid int checkpoint_dto
  | RqInputs runner uuid uuid int
  | RqReconcileInput runner uuid uuid int uuid int input_outcome uuid
  | RqEvent runner runner_event "int option" bool
  | RqStopEvidence string runner_event
  | RqPropose runner uuid uuid int uuid operation_args "string option" "uuid option"
  | RqConsume runner uuid uuid int uuid int string "uuid option"
  | RqRemoteReceipt runner uuid uuid int uuid remote_receipt
  | RqLocalReceipt runner uuid uuid int local_receipt
  | RqBeginTeam runner uuid uuid int int uuid int string "uuid option"
  | RqTeamReceipt runner uuid uuid int uuid team_receipt
  | RqArtifact runner uuid uuid int artifact_record "nat list list" "string option"
  | RqDraft string runner lease_identity string "nat option"
  | RqPublish uuid "nat option"
  | RqNotice uuid delivery_key string bool "nat option"
  | RqReconcileRecords nat
  | RqReconcileOutbox "uuid \<Rightarrow> nat option" "(outbox \<Rightarrow> bool) option" nat
  | RqRevoke uuid
  | RqConfigure db

definition state_of :: "exn + db \<times> 'r \<Rightarrow> exn + db" where
  "state_of m = rbind m (\<lambda>(e, r). Inr e)"

text \<open>Configuration from one database, the execution tables from another.\<close>

definition with_configuration :: "db \<Rightarrow> db \<Rightarrow> db" where
  "with_configuration c d = c\<lparr>db_jobs := db_jobs d, db_attempts := db_attempts d,
     db_operations := db_operations d, db_approvals := db_approvals d, db_inputs := db_inputs d,
     db_audit := db_audit d, db_artifacts := db_artifacts d, db_blobs := db_blobs d,
     db_checkpoints := db_checkpoints d, db_verifications := db_verifications d,
     db_outbox := db_outbox d, db_sent := db_sent d, db_next := max (db_next c) (db_next d)\<rparr>"

text \<open>The receipt of a team operation is stored by the call that has consumed the operation.\<close>

definition team_started :: "uuid \<Rightarrow> uuid \<Rightarrow> db \<Rightarrow> bool" where
  "team_started aid oid d = list_all (\<lambda>x. oper_attempt x = aid \<and> oper_operation_id x = oid \<longrightarrow>
     oper_tool_class x = TeamManage \<and> 1 \<le> operation_rank (oper_status x)) (db_operations d)"

fun perform :: "env \<Rightarrow> time \<Rightarrow> request \<Rightarrow> db \<Rightarrow> exn + db" where
  "perform en now (RqCreate u rq) d = state_of (create_job en now u rq None d)"
| "perform en now (RqTestTask u p k s) d = state_of (send_test_task en now u p k s d)"
| "perform en now (RqCompleteDraft u j v w b) d = state_of (complete_draft en now u j v w b d)"
| "perform en now (RqCancel u j v) d = cancel_job en now u j v d"
| "perform en now (RqInput u j v k t ty m) d = state_of (add_input en now u j v k t ty m d)"
| "perform en now (RqResume u j v c) d = resume_job en now u j v c d"
| "perform en now (RqDecide u p v h n b) d = decide_approval en now u p v h n b d"
| "perform en now (RqDeliverPrivately u j v s) d = deliver_result_privately en now u j v s d"
| "perform en now (RqHeartbeat r lis) d = state_of (heartbeat en now r lis d)"
| "perform en now (RqClaim r k) d = state_of (claim_work en now r k d)"
| "perform en now (RqCheckpoint r j a e c) d = state_of (save_checkpoint en now r j a e c d)"
| "perform en now (RqInputs r j a e) d = state_of (deliver_inputs en now r j a e d)"
| "perform en now (RqReconcileInput r j a e i n out rid) d =
     state_of (reconcile_input en now r j a e i n out rid d)"
| "perform en now (RqEvent r ev v b) d = state_of (record_event en now r ev v b d)"
| "perform en now (RqStopEvidence tok ev) d = state_of (stop_evidence en now tok ev d)"
| "perform en now (RqPropose r j a e oid args t df) d =
     state_of (propose_operation en now r j a e oid args t df d)"
| "perform en now (RqConsume r j a e oid v h n) d = state_of (consume_operation en now r j a e oid v h n d)"
| "perform en now (RqRemoteReceipt r j a e oid x) d =
     state_of (reconcile_operation en now r j a e oid x d)"
| "perform en now (RqLocalReceipt r j a e x) d = state_of (reconcile_local_operation en now r j a e x d)"
| "perform en now (RqBeginTeam r j a e v oid w h n) d =
     state_of (begin_team_operation en now r j a e v oid w h n d)"
| "perform en now (RqTeamReceipt r j a e oid x) d =
     (if team_started a oid d then state_of (store_team_receipt en now r j a e oid x d)
      else Inl AssertionErr)"
| "perform en now (RqArtifact r j a e m cs tok) d = state_of (store_artifact en now r j a e m cs tok d)"
| "perform en now (RqDraft mk r li t s) d = publish_draft en now mk r li t s d"
| "perform en now (RqPublish j s) d = Inr (fst (publish_result en now j s d))"
| "perform en now (RqNotice j k t b s) d = state_of (post_job_notice en now j k t b s d)"
| "perform en now (RqReconcileRecords n) d = reconcile_records en now n d"
| "perform en now (RqReconcileOutbox s f n) d = reconcile_outbox en now s f n d"
| "perform en now (RqRevoke r) d = revoke_runner now r d"
| "perform en now (RqConfigure c) d = Inr (with_configuration c d)"

definition serve :: "env \<Rightarrow> time \<Rightarrow> request \<Rightarrow> db \<Rightarrow> db" where
  "serve en now rq d = (case perform en now rq d of Inl e \<Rightarrow> d | Inr e \<Rightarrow> e)"

fun serve_all :: "(env \<times> time \<times> request) list \<Rightarrow> db \<Rightarrow> db" where
  "serve_all [] d = d"
| "serve_all ((en, now, rq) # rs) d = serve_all rs (serve en now rq d)"

inductive agent_step :: "db \<Rightarrow> db \<Rightarrow> bool" where
  serve: "agent_step d (serve en now rq d)"

lemma serve_all_run: "agent_step\<^sup>*\<^sup>* d (serve_all rs d)"
proof (induction rs arbitrary: d)
  case (Cons r rs)
  obtain en now rq where "r = (en, now, rq)" by (cases r) auto
  with Cons.IH [of "serve en now rq d"] show ?case
    by (auto intro: converse_rtranclp_into_rtranclp agent_step.serve)
qed simp

section \<open>Every request is a run of the machine and a sequence of changes\<close>

lemma state_yields: "yields P m \<Longrightarrow> (\<And>e r. P (e, r) \<Longrightarrow> Q e) \<Longrightarrow> yields Q (state_of m)"
  by (cases m) (auto simp: state_of_def yields_def)

lemma state_moves: "moves d m \<Longrightarrow> yields (sim d) (state_of m)"
  by (erule state_yields) simp

lemma state_quiet: "quiet d m \<Longrightarrow> yields (sim d) (state_of m)"
  by (erule state_yields) (simp add: same_life_sim)

text \<open>A handler is a sequence of writes, or an admission.\<close>

definition handled :: "db \<Rightarrow> db \<Rightarrow> bool" where
  "handled d e = (writes d e \<or> admits d e)"

lemma handled_changes: "handled d e \<Longrightarrow> changes d e"
  by (auto simp: handled_def admits_def intro: writes_changes)

lemma handledI: "writes d e \<Longrightarrow> handled d e"
  by (simp add: handled_def)

lemma state_admits:
  "yields (\<lambda>(e, k). admits d e) m \<Longrightarrow> yields (sim d) (state_of m)"
  "yields (\<lambda>(e, k). admits d e) m \<Longrightarrow> yields (handled d) (state_of m)"
  by (erule state_yields, simp add: admits_def handled_def)+

lemma state_written: "written d m \<Longrightarrow> yields (handled d) (state_of m)"
  by (erule state_yields) (simp add: handled_def)

lemma yields_written: "yields (writes d) m \<Longrightarrow> yields (handled d) m"
  by (erule yields_imp) (simp add: handled_def)

definition drafts_ok :: "db \<Rightarrow> bool" where
  "drafts_ok d = (\<forall>j\<in>set (db_jobs d). jb_status j = Draft \<longrightarrow> jb_input_sequence j = 0)"

lemma with_configuration_same: "same_execution d (with_configuration c d)"
  by (simp add: same_execution_def with_configuration_def)

lemma team_started_called:
  "team_started aid oid d \<Longrightarrow> get_attempt aid d = Some a \<Longrightarrow> team_called a j oid d"
  by (auto simp: team_started_def team_called_def list_all_iff dest!: attempt_operationD attempts.get_key)

lemma revoke_yields: "yields (sim d) (revoke_runner now r d)"
  by (rule yieldsI) (rule revoke_sim)

lemma with_configuration_life: "same_life d (with_configuration c d)"
  by (rule same_life_tables) (simp_all add: with_configuration_def)

lemmas request_sims = create_job_admits [THEN state_admits(1)] send_test_task_admits [THEN state_admits(1)]
  complete_draft_admits [THEN state_admits(1)] cancel_job_sim add_input_sim [THEN state_moves]
  resume_job_sim decide_approval_sim deliver_privately_sim heartbeat_sim [THEN state_moves]
  claim_work_sim [THEN state_moves] save_checkpoint_quiet [THEN state_quiet]
  deliver_inputs_quiet [THEN state_quiet] reconcile_input_quiet [THEN state_quiet]
  record_event_sim [THEN state_moves] stop_evidence_sim [THEN state_moves]
  propose_operation_sim [THEN state_moves] consume_operation_quiet [THEN state_quiet]
  reconcile_operation_quiet [THEN state_quiet] reconcile_local_quiet [THEN state_quiet]
  begin_team_quiet [THEN state_quiet] store_team_receipt_quiet [THEN state_quiet]
  store_artifact_quiet [THEN state_quiet] publish_draft_quiet [THEN yields_imp [OF _ same_life_sim]]
  post_job_notice_quiet [THEN state_quiet] reconcile_records_sim reconcile_outbox_sim
  revoke_yields

lemmas request_changes = create_job_admits [THEN state_admits(2)] send_test_task_admits [THEN state_admits(2)]
  complete_draft_admits [THEN state_admits(2)] cancel_job_written [THEN yields_written]
  add_input_written [THEN state_written] resume_job_written [THEN yields_written]
  decide_approval_written [THEN yields_written] deliver_privately_written [THEN yields_written]
  heartbeat_written [THEN state_written] claim_work_written [THEN state_written]
  save_checkpoint_written [THEN state_written] deliver_inputs_written [THEN state_written]
  reconcile_input_written [THEN state_written] record_event_written [THEN state_written]
  stop_evidence_written [THEN state_written] propose_operation_written [THEN state_written]
  consume_operation_written [THEN state_written] reconcile_operation_written [THEN state_written]
  reconcile_local_written [THEN state_written] begin_team_written [THEN state_written]
  store_team_written [THEN state_written] store_artifact_written [THEN state_written]
  publish_draft_written [THEN yields_written] post_job_notice_written [THEN state_written]
  reconcile_records_written [THEN yields_written] reconcile_outbox_written [THEN yields_written]
  revoke_runner_written [THEN yields_written]

lemma perform_sim:
  assumes "keys_ok d" "ids_ok d" "drafts_ok d"
  shows "yields (sim d) (perform en now rq d)"
  using assms
  by (cases rq)
    (auto intro!: request_sims yields_Inr yields_Inl publish_result_sim
        same_life_sim [OF with_configuration_life] simp: drafts_ok_def)

lemma perform_handled:
  assumes "ids_ok d" "drafts_ok d"
  shows "yields (handled d) (perform en now rq d)"
  using assms
  by (cases rq)
    (auto intro!: request_changes yields_Inr yields_Inl handledI publish_result_written writes_config
      intro: team_started_called with_configuration_same simp: drafts_ok_def)

section \<open>The invariant of the service\<close>

text \<open>
  \<open>service_ok\<close>: the keys are unique, the abstract machine is in order, so are the records, and a
  draft has no input yet.
\<close>

definition service_ok :: "db \<Rightarrow> bool" where
  "service_ok d = (keys_ok d \<and> records_ok d \<and> drafts_ok d \<and> linv (life d))"

lemma service_okD:
  "service_ok d \<Longrightarrow> keys_ok d" "service_ok d \<Longrightarrow> records_ok d" "service_ok d \<Longrightarrow> drafts_ok d"
  "service_ok d \<Longrightarrow> linv (life d)" "service_ok d \<Longrightarrow> ids_ok d"
  by (simp_all add: service_ok_def records_ok_def)

text \<open>A draft was a draft before, in the same version, or it is new.\<close>

lemma lstep_run_draft:
  "lstep\<^sup>*\<^sup>* s t \<Longrightarrow> linv s \<Longrightarrow> lf_job t i = Some j \<Longrightarrow> jc_status j = Draft \<Longrightarrow>
   lf_job s i = None \<or> lf_job s i = Some j"
proof (induction rule: rtranclp_induct)
  case (step y z)
  have "linv y" by (rule life.along [OF step.hyps(1) step.prems(1)])
  from lstep_draft [OF step.hyps(2) this step.prems(2,3)] show ?case
  proof
    assume n: "lf_job y i = None"
    have "forward s y" by (rule progress.evolves [OF step.hyps(1) step.prems(1)])
    with n have "lf_job s i = None" unfolding forward_def by (metis not_None_eq option.distinct(1))
    then show ?thesis ..
  next
    assume "lf_job y i = Some j"
    with step.IH step.prems show ?thesis by blast
  qed
qed simp

lemma write_job_ids: "row_write d e \<Longrightarrow> jb_id ` set (db_jobs e) = jb_id ` set (db_jobs d)"
proof -
  have w: "jb_id ` set (tbl_where P f t) = jb_id ` set t" if "\<And>r. jb_id (f r) = jb_id r" for P f and t :: "job list"
    using map_where [of t P jb_id f] that by (simp flip: set_map)
  show "row_write d e \<Longrightarrow> jb_id ` set (db_jobs e) = jb_id ` set (db_jobs d)"
    by (induction rule: row_write.induct)
      (auto simp: same_execution_def fresh_def add_defs audit_tables w kept_defs simp del: set_map)
qed

lemma writes_job_ids: "writes d e \<Longrightarrow> jb_id ` set (db_jobs e) = jb_id ` set (db_jobs d)"
proof (induction rule: rtranclp_induct)
  case (step y z)
  then show ?case using write_job_ids [of y z] by simp
qed simp

lemma drafts_kept:
  assumes ok: "service_ok d" and s: "sim d e" and h: "handled d e" and r: "records_ok e" "later d e"
  shows "drafts_ok e"
  unfolding drafts_ok_def
proof (intro ballI impI)
  fix j
  assume j: "j \<in> set (db_jobs e)" "jb_status j = Draft"
  let ?i = "jb_id j"
  have ge: "get_job ?i e = Some j"
    using ids_unique(1) [OF _ j(1)] r(1) by (simp add: records_ok_def)
  have "lstep\<^sup>*\<^sup>* (life d) (life e)" using s service_okD(1) [OF ok] by (simp add: sim_def)
  from lstep_run_draft [OF this service_okD(4) [OF ok], of ?i "jcore_of j"] ge j(2)
  have "get_job ?i d = None \<or> (\<exists>k. get_job ?i d = Some k \<and> jcore_of k = jcore_of j)" by auto
  then show "jb_input_sequence j = 0"
  proof (elim disjE exE conjE)
    assume n: "get_job ?i d = None"
    have "?i \<notin> jb_id ` set (db_jobs d)" using n by (simp add: jobs.get_rows tbl_get_None)
    with j(1) h have "db_inputs e = db_inputs d"
      by (auto simp: handled_def admits_def dest!: writes_job_ids)
    moreover have "job_input_rows ?i d = []"
      using n service_okD(2) [OF ok] by (simp add: records_ok_def inputs_ok_def)
    ultimately have "job_input_rows ?i e = []" by (simp add: job_input_rows_def)
    moreover have "inputs_ok e" using r(1) by (simp add: records_ok_def)
    then have "map in_sequence (job_input_rows ?i e) = [1..jb_input_sequence j] \<and> 0 \<le> jb_input_sequence j"
      using ge unfolding inputs_ok_def by blast
    ultimately show ?thesis by simp
  next
    fix k
    assume k: "get_job ?i d = Some k" "jcore_of k = jcore_of j"
    then have kd: "jb_input_sequence k = 0"
      using j(2) service_okD(3) [OF ok] by (auto simp: drafts_ok_def jcore_of_def dest: jobs.get_in)
    have "grown job_later (db_jobs d) (db_jobs e)" using r(2) by (simp add: later_def)
    then obtain x where x: "x \<in> set (db_jobs e)" "job_later k x"
      using grownD [OF _ jobs.get_in [OF k(1)]] by blast
    then have "jb_id x = ?i"
      using jobs.get_key [OF k(1)] by (simp add: job_later_def job_identity_def)
    then have "x = j"
      using ids_unique(1) [OF _ x(1)] ge r(1) by (simp add: records_ok_def)
    with x(2) k(2) kd show ?thesis by (simp add: job_later_def jcore_of_def)
  qed
qed

theorem perform_ok:
  assumes "service_ok d" "perform en now rq d = Inr e"
  shows "service_ok e" "lstep\<^sup>*\<^sup>* (life d) (life e)" "later d e"
proof -
  note ok = service_okD [OF assms(1)]
  have s: "sim d e" and h: "handled d e"
    using yieldsD [OF perform_sim assms(2)] yieldsD [OF perform_handled assms(2)] ok by simp_all
  note c = handled_changes [OF h]
  show l: "lstep\<^sup>*\<^sup>* (life d) (life e)" using s ok(1) by (simp add: sim_def)
  have r: "records_ok e" by (rule changed.along [OF c ok(2)])
  show "later d e" by (rule changed.evolves [OF c ok(2)])
  then have "drafts_ok e" by (rule drafts_kept [OF assms(1) s h r])
  with r s ok(1) life.along [OF l ok(4)] show "service_ok e"
    by (simp add: service_ok_def sim_def)
qed

section \<open>Runs of the service\<close>

lemma agent_step_ok:
  assumes "agent_step d e" "service_ok d"
  shows "service_ok e" "lstep\<^sup>*\<^sup>* (life d) (life e)" "later d e"
  using assms perform_ok by (auto elim!: agent_step.cases simp: serve_def later_refl split: sum.splits)

interpretation service: simulated_invariant agent_step lstep life service_ok linv
  by unfold_locales (use agent_step_ok in blast)+

interpretation service_history: evolution agent_step service_ok later
  by unfold_locales (blast intro: agent_step_ok later_refl later_trans)+

end
