(* ===== verification/Sample_State.thy ===== *)
theory Sample_State
  imports Agent_Machine
begin

text \<open>
  A concrete realm for the witnesses: realm 5 with the owner 11, an administrator, and the bot 12; a
  direct message 10 between them; one online runner, one repository with a required check, and one
  enabled and ready profile.  The chat core, the dumps and the digest are concrete functions.
\<close>

named_theorems sample

section \<open>The chat core\<close>

definition owner_user :: user where
  "owner_user = \<lparr>us_id = 11, us_full_name = ''Owner'', us_realm = 5, us_active = True, us_bot = False,
     us_admin = True\<rparr>"

lemma owner_user_sel [simp]:
  "us_id owner_user = 11"
  "us_full_name owner_user = ''Owner''"
  "us_realm owner_user = 5"
  "us_active owner_user = True"
  "us_bot owner_user = False"
  "us_admin owner_user = True"
  by (simp_all add: owner_user_def)

definition bot_user :: user where
  "bot_user = \<lparr>us_id = 12, us_full_name = ''Helper'', us_realm = 5, us_active = True, us_bot = True,
     us_admin = False\<rparr>"

lemma bot_user_sel [simp]:
  "us_id bot_user = 12"
  "us_full_name bot_user = ''Helper''"
  "us_realm bot_user = 5"
  "us_active bot_user = True"
  "us_bot bot_user = True"
  "us_admin bot_user = False"
  by (simp_all add: bot_user_def)

definition stranger :: user where
  "stranger = \<lparr>us_id = 13, us_full_name = ''Stranger'', us_realm = 5, us_active = True, us_bot = False,
     us_admin = False\<rparr>"

lemma stranger_sel [simp]:
  "us_id stranger = 13"
  "us_full_name stranger = ''Stranger''"
  "us_realm stranger = 5"
  "us_active stranger = True"
  "us_bot stranger = False"
  "us_admin stranger = False"
  by (simp_all add: stranger_def)

definition sample_message :: message where
  "sample_message = \<lparr>ms_id = 10, ms_realm = 5, ms_sender = 11, ms_recipient_id = 7, ms_stream = None,
     ms_topic = [], ms_content = ''please look''\<rparr>"

lemma sample_message_sel [simp]:
  "ms_id sample_message = 10"
  "ms_realm sample_message = 5"
  "ms_sender sample_message = 11"
  "ms_recipient_id sample_message = 7"
  "ms_stream sample_message = None"
  "ms_topic sample_message = []"
  "ms_content sample_message = ''please look''"
  by (simp_all add: sample_message_def)

definition read_message :: "uid \<Rightarrow> nat \<Rightarrow> message option" where
  "read_message u m = (if u \<in> {11, 12} \<and> m = 10 then Some sample_message else None)"

definition sample_sha :: "nat list \<Rightarrow> string" where
  "sample_sha bs = zero_digest"

definition sample_env :: env where
  "sample_env = \<lparr>en_users = [owner_user, bot_user, stranger], en_can_command = (\<lambda>u. u = 11),
     en_messages = (\<lambda>m. if m = 10 then Some sample_message else None),
     en_access_message = read_message, en_dm_members = (\<lambda>r. [11, 12]),
     en_group_members = (\<lambda>g. []), en_group_deactivated = (\<lambda>g. False),
     en_streams = (\<lambda>s. None), en_display_recipients = (\<lambda>r. [11, 12]),
     en_subscribed = (\<lambda>u s. False), en_attachments = (\<lambda>f. None),
     en_attachment_readable = (\<lambda>u f. False), en_access_stream = (\<lambda>u s. False),
     en_content_access = (\<lambda>u s b. False), en_sha = sample_sha, en_iso = (\<lambda>t. ''t''),
     en_silent_mention = (\<lambda>u. ''@_**Owner**''), en_realm_url = (\<lambda>r. ''https://grow.test''),
     en_team_lines = (\<lambda>j. []), en_dump_event = (\<lambda>e. JNull), en_dump_runner_payload = (\<lambda>p. JNull),
     en_dump_authority_payload = (\<lambda>p. JNull), en_dump_descriptor = (\<lambda>x. []),
     en_dump_checkpoint = (\<lambda>c. JNull), en_dump_arguments = (\<lambda>a. JNull),
     en_dump_audience = (\<lambda>a. JNull)\<rparr>"

lemma sample_env_sel [simp]:
  "en_users sample_env = [owner_user, bot_user, stranger]"
  "en_can_command sample_env = (\<lambda>u. u = 11)"
  "en_messages sample_env = (\<lambda>m. if m = 10 then Some sample_message else None)"
  "en_access_message sample_env = read_message"
  "en_dm_members sample_env = (\<lambda>r. [11, 12])"
  "en_group_members sample_env = (\<lambda>g. [])"
  "en_group_deactivated sample_env = (\<lambda>g. False)"
  "en_streams sample_env = (\<lambda>s. None)"
  "en_display_recipients sample_env = (\<lambda>r. [11, 12])"
  "en_subscribed sample_env = (\<lambda>u s. False)"
  "en_attachments sample_env = (\<lambda>f. None)"
  "en_attachment_readable sample_env = (\<lambda>u f. False)"
  "en_access_stream sample_env = (\<lambda>u s. False)"
  "en_content_access sample_env = (\<lambda>u s b. False)"
  "en_sha sample_env = sample_sha"
  "en_iso sample_env = (\<lambda>t. ''t'')"
  "en_silent_mention sample_env = (\<lambda>u. ''@_**Owner**'')"
  "en_realm_url sample_env = (\<lambda>r. ''https://grow.test'')"
  "en_team_lines sample_env = (\<lambda>j. [])"
  "en_dump_event sample_env = (\<lambda>e. JNull)"
  "en_dump_runner_payload sample_env = (\<lambda>p. JNull)"
  "en_dump_authority_payload sample_env = (\<lambda>p. JNull)"
  "en_dump_descriptor sample_env = (\<lambda>x. [])"
  "en_dump_checkpoint sample_env = (\<lambda>c. JNull)"
  "en_dump_arguments sample_env = (\<lambda>a. JNull)"
  "en_dump_audience sample_env = (\<lambda>a. JNull)"
  by (simp_all add: sample_env_def)

section \<open>The configuration\<close>

definition sample_sandbox :: sandbox_config where
  "sample_sandbox = \<lparr>sb_alias = ''base'', sb_image_digest = ''sha256:'' @ zero_digest,
     sb_toolchain_digest = zero_digest, sb_catalog_revision = 1, sb_cpu_millicores = 1000,
     sb_memory_bytes = 67108864, sb_pids_limit = 64, sb_temporary_bytes = 1048576\<rparr>"

lemma sample_sandbox_sel [simp]:
  "sb_alias sample_sandbox = ''base''"
  "sb_image_digest sample_sandbox = ''sha256:'' @ zero_digest"
  "sb_toolchain_digest sample_sandbox = zero_digest"
  "sb_catalog_revision sample_sandbox = 1"
  "sb_cpu_millicores sample_sandbox = 1000"
  "sb_memory_bytes sample_sandbox = 67108864"
  "sb_pids_limit sample_sandbox = 64"
  "sb_temporary_bytes sample_sandbox = 1048576"
  by (simp_all add: sample_sandbox_def)

definition sample_capability :: capability_report where
  "sample_capability = (default_capability 1)\<lparr>cap_chat_ready := True, cap_code_ready := True,
     cap_tool_calling := CapPassed, cap_sandbox := CapPassed, cap_steering := CapPassed\<rparr>"

definition sample_policy :: policy where
  "sample_policy = \<lparr>pol_version = 1,
     pol_actions = [ContextRead, RepositoryRead, RepositoryEdit, ChecksRun, GitPush],
     pol_grant_ids = [], pol_scope = \<lparr>sc_kind = ScSelected, sc_stream_id = None, sc_topic = None,
       sc_participants = [], sc_anchor = Some 10\<rparr>,
     pol_sandbox = sample_sandbox, pol_network = default_network, pol_hard_cost_cap = False\<rparr>"

lemma sample_policy_sel [simp]:
  "pol_version sample_policy = 1"
  "pol_actions sample_policy = [ContextRead, RepositoryRead, RepositoryEdit, ChecksRun, GitPush]"
  "pol_grant_ids sample_policy = []"
  "pol_scope sample_policy = \<lparr>sc_kind = ScSelected, sc_stream_id = None, sc_topic = None, sc_participants = [], sc_anchor = Some 10\<rparr>"
  "pol_sandbox sample_policy = sample_sandbox"
  "pol_network sample_policy = default_network"
  "pol_hard_cost_cap sample_policy = False"
  by (simp_all add: sample_policy_def)

definition sample_budget :: budget where
  "sample_budget = (default_budget_fields 1000 1000)\<lparr>bud_active_seconds := 600, bud_tool_rounds := 3\<rparr>"

definition sample_check :: required_check where
  "sample_check = \<lparr>chk_id = ''unit'', chk_argv = [''make''],
       chk_cwd = [], chk_timeout_seconds = 60\<rparr>"

definition sample_catalog :: runner_catalog where
  "sample_catalog = \<lparr>cat_revision = 1, cat_reported_at = None,
       cat_adapters = [\<lparr>ae_id = ''acp'', ae_version = ''1'', ae_auth_state = AuthReady,
         ae_capabilities = sample_capability\<rparr>], cat_sandboxes = [sample_sandbox]\<rparr>"

lemma sample_catalog_sel [simp]:
  "cat_revision sample_catalog = 1" "cat_sandboxes sample_catalog = [sample_sandbox]"
  "map ae_id (cat_adapters sample_catalog) = [''acp'']"
  "list_ex (\<lambda>e. ae_id e = ''acp'' \<and> ae_version e = ''1'') (cat_adapters sample_catalog)"
  by (simp_all add: sample_catalog_def)

definition sample_runner :: runner where
  "sample_runner = \<lparr>ru_id = 20, ru_realm = 5, ru_owner = 11, ru_name = ''laptop'',
     ru_host_kind = Workstation, ru_metadata_revision = 1, ru_fingerprint = ''f'', ru_status = ROnline,
     ru_last_heartbeat_at = Some 1000, ru_revoked_at = None, ru_capacity = 2, ru_catalog_revision = 1,
     ru_catalog_report = sample_catalog\<rparr>"

lemma sample_runner_sel [simp]:
  "ru_id sample_runner = 20"
  "ru_realm sample_runner = 5"
  "ru_owner sample_runner = 11"
  "ru_name sample_runner = ''laptop''"
  "ru_host_kind sample_runner = Workstation"
  "ru_metadata_revision sample_runner = 1"
  "ru_fingerprint sample_runner = ''f''"
  "ru_status sample_runner = ROnline"
  "ru_last_heartbeat_at sample_runner = Some 1000"
  "ru_revoked_at sample_runner = None"
  "ru_capacity sample_runner = 2"
  "ru_catalog_revision sample_runner = 1"
  "ru_catalog_report sample_runner = sample_catalog"
  by (simp_all add: sample_runner_def)

definition sample_repository :: repository where
  "sample_repository = \<lparr>repo_id = 40, repo_realm = 5, repo_owner = 11, repo_runner = 20,
     repo_workspace_alias = ''work'', repo_canonical_origin = ''https://git.test/r'',
     repo_allowed_refs = [''main''], repo_required_checks = [sample_check],
     repo_policy_version = 1, repo_disabled_at = None\<rparr>"

lemma sample_repository_sel [simp]:
  "repo_id sample_repository = 40"
  "repo_realm sample_repository = 5"
  "repo_owner sample_repository = 11"
  "repo_runner sample_repository = 20"
  "repo_workspace_alias sample_repository = ''work''"
  "repo_canonical_origin sample_repository = ''https://git.test/r''"
  "repo_allowed_refs sample_repository = [''main'']"
  "repo_required_checks sample_repository = [sample_check]"
  "repo_policy_version sample_repository = 1"
  "repo_disabled_at sample_repository = None"
  by (simp_all add: sample_repository_def)

definition untested_profile :: profile where
  "untested_profile = \<lparr>pr_id = 30, pr_realm = 5, pr_owner = 11, pr_bot_user = 12, pr_runner = 20,
     pr_name = ''Helper'', pr_description = [], pr_instructions = [], pr_mode = Acp,
     pr_adapter_id = ''acp'', pr_adapter_version = ''1'', pr_provider = None, pr_revision = 1,
     pr_metadata_revision = 1, pr_policy_version = 1, pr_desired_state = PEnabled,
     pr_default_mode = KAnswer, pr_default_repository = Some 40, pr_readiness_state = Ready,
     pr_enabled_revision = Some 1, pr_readiness_revision = Some 1, pr_readiness_digest = zero_digest,
     pr_readiness_configuration_digest = zero_digest, pr_readiness_configuration = None,
     pr_capability_report = sample_capability, pr_archived_at = None, pr_policy = sample_policy,
     pr_budget = sample_budget\<rparr>"

lemma untested_profile_sel [simp]:
  "pr_id untested_profile = 30"
  "pr_realm untested_profile = 5"
  "pr_owner untested_profile = 11"
  "pr_bot_user untested_profile = 12"
  "pr_runner untested_profile = 20"
  "pr_name untested_profile = ''Helper''"
  "pr_description untested_profile = []"
  "pr_instructions untested_profile = []"
  "pr_mode untested_profile = Acp"
  "pr_adapter_id untested_profile = ''acp''"
  "pr_adapter_version untested_profile = ''1''"
  "pr_provider untested_profile = None"
  "pr_revision untested_profile = 1"
  "pr_metadata_revision untested_profile = 1"
  "pr_policy_version untested_profile = 1"
  "pr_desired_state untested_profile = PEnabled"
  "pr_default_mode untested_profile = KAnswer"
  "pr_default_repository untested_profile = Some 40"
  "pr_readiness_state untested_profile = Ready"
  "pr_enabled_revision untested_profile = Some 1"
  "pr_readiness_revision untested_profile = Some 1"
  "pr_readiness_digest untested_profile = zero_digest"
  "pr_readiness_configuration_digest untested_profile = zero_digest"
  "pr_readiness_configuration untested_profile = None"
  "pr_capability_report untested_profile = sample_capability"
  "pr_archived_at untested_profile = None"
  "pr_policy untested_profile = sample_policy"
  "pr_budget untested_profile = sample_budget"
  by (simp_all add: untested_profile_def)

text \<open>The configuration the probe has tested is the one the rows describe.\<close>

definition sample_configuration :: execution_configuration where
  "sample_configuration = live_configuration sample_env untested_profile None (Some sample_repository)"

definition sample_profile :: profile where
  "sample_profile = untested_profile\<lparr>pr_readiness_configuration := Some sample_configuration\<rparr>"

lemma sample_profile_sel [simp]:
  "pr_id sample_profile = 30"
  "pr_realm sample_profile = 5"
  "pr_owner sample_profile = 11"
  "pr_bot_user sample_profile = 12"
  "pr_runner sample_profile = 20"
  "pr_name sample_profile = ''Helper''"
  "pr_description sample_profile = []"
  "pr_instructions sample_profile = []"
  "pr_mode sample_profile = Acp"
  "pr_adapter_id sample_profile = ''acp''"
  "pr_adapter_version sample_profile = ''1''"
  "pr_provider sample_profile = None"
  "pr_revision sample_profile = 1"
  "pr_metadata_revision sample_profile = 1"
  "pr_policy_version sample_profile = 1"
  "pr_desired_state sample_profile = PEnabled"
  "pr_default_mode sample_profile = KAnswer"
  "pr_default_repository sample_profile = Some 40"
  "pr_readiness_state sample_profile = Ready"
  "pr_enabled_revision sample_profile = Some 1"
  "pr_readiness_revision sample_profile = Some 1"
  "pr_readiness_digest sample_profile = zero_digest"
  "pr_readiness_configuration_digest sample_profile = zero_digest"
  "pr_readiness_configuration sample_profile = Some sample_configuration"
  "pr_capability_report sample_profile = sample_capability"
  "pr_archived_at sample_profile = None"
  "pr_policy sample_profile = sample_policy"
  "pr_budget sample_profile = sample_budget"
  by (simp_all add: sample_profile_def)

definition sample_settings :: realm_settings where
  "sample_settings = \<lparr>rs_realm = 5, rs_enabled = True, rs_active_job_limit = 5,
     rs_queued_job_limit = 2, rs_profile_queue_limit = 2, rs_team_instructions = [],
     rs_team_instructions_revision = 1, rs_default_profile = None, rs_default_selection_revision = 1,
     rs_default_selected_by = None\<rparr>"

lemma sample_settings_sel [simp]:
  "rs_realm sample_settings = 5" "rs_enabled sample_settings"
  "rs_active_job_limit sample_settings = 5" "rs_queued_job_limit sample_settings = 2"
  "rs_profile_queue_limit sample_settings = 2" "rs_team_instructions sample_settings = []"
  by (simp_all add: sample_settings_def)

definition sample_db :: db where
  "sample_db = \<lparr>db_settings = [sample_settings],
     db_runners = [sample_runner], db_pairings = [], db_credentials = [], db_secrets = [],
     db_providers = [], db_repositories = [sample_repository], db_profiles = [sample_profile],
     db_grants = [], db_conversations = [], db_jobs = [], db_attempts = [], db_context_refs = [],
     db_operations = [], db_approvals = [], db_artifacts = [], db_verifications = [],
     db_checkpoints = [], db_inputs = [], db_audit = [], db_outbox = [], db_receipts = [],
     db_blobs = [], db_sent = [], db_on_commit = [], db_next = 100\<rparr>"

lemma sample_db_sel [simp]:
  "db_settings sample_db = [sample_settings]"
  "db_runners sample_db = [sample_runner]"
  "db_pairings sample_db = []"
  "db_credentials sample_db = []"
  "db_secrets sample_db = []"
  "db_providers sample_db = []"
  "db_repositories sample_db = [sample_repository]"
  "db_profiles sample_db = [sample_profile]"
  "db_grants sample_db = []"
  "db_conversations sample_db = []"
  "db_jobs sample_db = []"
  "db_attempts sample_db = []"
  "db_context_refs sample_db = []"
  "db_operations sample_db = []"
  "db_approvals sample_db = []"
  "db_artifacts sample_db = []"
  "db_verifications sample_db = []"
  "db_checkpoints sample_db = []"
  "db_inputs sample_db = []"
  "db_audit sample_db = []"
  "db_outbox sample_db = []"
  "db_receipts sample_db = []"
  "db_blobs sample_db = []"
  "db_sent sample_db = []"
  "db_on_commit sample_db = []"
  "db_next sample_db = 100"
  by (simp_all add: sample_db_def)

section \<open>Requests\<close>

definition answer_request :: job_request where
  "answer_request = \<lparr>rq_profile = 30, rq_source = 10, rq_text = ''Summarise this.'', rq_key = 500,
     rq_kind = KAnswer, rq_delivery = TAnswer, rq_repository = None, rq_base_ref = [],
     rq_messages = [], rq_attachments = [], rq_trigger = Manual, rq_draft = False,
     rq_allow_blocked = False, rq_follows = None\<rparr>"

lemma answer_request_sel [simp]:
  "rq_profile answer_request = 30"
  "rq_source answer_request = 10"
  "rq_text answer_request = ''Summarise this.''"
  "rq_key answer_request = 500"
  "rq_kind answer_request = KAnswer"
  "rq_delivery answer_request = TAnswer"
  "rq_repository answer_request = None"
  "rq_base_ref answer_request = []"
  "rq_messages answer_request = []"
  "rq_attachments answer_request = []"
  "rq_trigger answer_request = Manual"
  "rq_draft answer_request = False"
  "rq_allow_blocked answer_request = False"
  "rq_follows answer_request = None"
  by (simp_all add: answer_request_def)

definition code_request :: job_request where
  "code_request = answer_request\<lparr>rq_kind := KCode, rq_delivery := TPatch,
     rq_repository := Some sample_repository, rq_base_ref := ''main''\<rparr>"

section \<open>Facts about the configuration\<close>

text \<open>The digest is constant, so no text has to be evaluated.\<close>

lemma digest_cong: "digest f x = digest f x" ..

lemma sample_digest [simp]: "digest sample_sha x = zero_digest"
  by (simp add: digest_def sample_sha_def)

lemma sample_configuration_digest [simp]: "configuration_digest sample_sha c = zero_digest"
  unfolding configuration_digest_def by (rule sample_digest)

lemma sample_checks_digest [simp]: "checks_digest sample_sha c = zero_digest"
  unfolding checks_digest_def by (rule sample_digest)

lemma sample_valid [simp]:
  "valid_policy sample_policy" "valid_budget sample_budget" "valid_capability sample_capability"
  "valid_sandbox sample_sandbox" "digest_ok zero_digest" "valid_network_policy default_network"
  "valid_catalog sample_catalog" "valid_required_check sample_check"
  by code_simp+

lemma sample_live [simp]:
  "live_configuration sample_env sample_profile None (Some sample_repository) = sample_configuration"
  by (simp add: sample_configuration_def live_configuration_def profile_adapter_def)

lemma sample_configuration_valid [simp]: "valid_configuration sample_configuration"
proof -
  have "valid_adapter (profile_adapter untested_profile)" by code_simp
  moreover have "sorted_actions (pol_actions sample_policy) =
     [ChecksRun, ContextRead, GitPush, RepositoryEdit, RepositoryRead]" by code_simp
  moreover have "valid_binding (repository_binding sample_env sample_repository)"
    by (simp add: valid_binding_def repository_binding_def empty_none_def) code_simp
  ultimately show ?thesis
    by (simp add: valid_configuration_def sample_configuration_def live_configuration_def execution_actions_def
        instructions_digest_def)
qed

text \<open>A bound of the length of a canonical text, so that no text has to be written out.\<close>

fun text_bound :: "json \<Rightarrow> nat" where
  "text_bound JNull = 4"
| "text_bound (JBool b) = 5"
| "text_bound (JInt i) = length (int_str i)"
| "text_bound (JStr s) = 6 * length s + 2"
| "text_bound (JList xs) = 2 + sum_list (map (\<lambda>x. text_bound x + 1) xs)"
| "text_bound (JObj kvs) = 2 + sum_list (map (\<lambda>(k, v). 6 * length k + text_bound v + 4) kvs)"

lemma utf8_length: "length (utf8 s) \<le> 2 * length s"
  by (induction s) (auto simp: utf8_def Let_def)

lemma quote_length: "length (quote s) \<le> 6 * length s + 2"
proof -
  have "length (concat (map escape_char s)) \<le> 6 * length s"
    by (induction s) (auto simp: escape_char_def)
  then show ?thesis by (simp add: quote_def)
qed

lemma join_length: "length (join_comma xs) \<le> sum_list (map (\<lambda>x. length x + 1) xs)"
  by (induction xs rule: join_comma.induct) auto

lemma render_length: "length (render v) \<le> text_bound v"
proof (induction v rule: render.induct)
  case (5 xs)
  have "sum_list (map (\<lambda>x. length x + 1) (map render xs)) \<le> sum_list (map (\<lambda>x. text_bound x + 1) xs)"
    unfolding map_map comp_def by (rule sum_list_mono) (simp add: 5)
  with join_length [of "map render xs"] show ?case by simp
next
  case (6 kvs)
  let ?f = "\<lambda>(k, v). quote k @ CHR '':'' # render v"
  have "length (?f p) + 1 \<le> (\<lambda>(k, v). 6 * length k + text_bound v + 4) p" if "p \<in> set kvs" for p
    using 6 [OF that, of "fst p" "snd p"] quote_length [of "fst p"] by (simp add: case_prod_unfold)
  then have "sum_list (map (\<lambda>x. length x + 1) (map ?f kvs)) \<le>
      sum_list (map (\<lambda>(k, v). 6 * length k + text_bound v + 4) kvs)"
    unfolding map_map comp_def by (intro sum_list_mono) (simp split: prod.splits)
  with join_length [of "map ?f kvs"] show ?case by simp
qed (use quote_length in auto)

lemma text_bound_norm: "text_bound (norm v) = text_bound v"
proof (induction v rule: norm.induct)
  case (1 xs)
  then show ?case by (simp add: comp_def cong: map_cong)
next
  case (2 kvs)
  let ?g = "\<lambda>(k, v). 6 * length k + text_bound v + 4"
  let ?n = "map (\<lambda>(k, v). (k, norm v)) kvs"
  have "sum_mset (mset (map ?g (sort_key fst ?n))) = sum_mset (mset (map ?g ?n))"
    by (simp only: mset_map mset_sort)
  then have "sum_list (map ?g (sort_key fst ?n)) = sum_list (map ?g ?n)"
    unfolding sum_mset_sum_list .
  moreover have "map ?g ?n = map ?g kvs" using 2 by auto
  ultimately show ?case by (simp only: norm.simps text_bound.simps)
qed simp_all

lemma canonical_length: "length (canonical_json v) \<le> 2 * text_bound v"
  using utf8_length [of "render (norm v)"] render_length [of "norm v"]
  by (simp add: canonical_json_def text_bound_norm)

lemma hex_digits_length [simp]: "length (hex_digits k n) = k"
  by (induction k arbitrary: n) auto

lemma uuid_str_length [simp]: "length (uuid_str u) = 36"
  by (simp add: uuid_str_def Let_def)

text \<open>Databases with the configuration of the sample.\<close>

definition sampled :: "db \<Rightarrow> bool" where
  "sampled d = (db_settings d = [sample_settings] \<and> db_runners d = [sample_runner] \<and>
     db_repositories d = [sample_repository] \<and> db_profiles d = [sample_profile] \<and>
     db_providers d = [] \<and> db_secrets d = [] \<and> db_grants d = [])"

lemma sampled_get [simp]:
  assumes "sampled d"
  shows "get_runner 20 d = Some sample_runner" "get_repository 40 d = Some sample_repository"
    "get_profile 30 d = Some sample_profile" "realm_row 5 d = Some sample_settings"
  using assms by (simp_all add: sampled_def get_defs realm_row_def)

lemma sampled_sample: "sampled sample_db"
  by (simp add: sampled_def)

lemma sample_users [simp]:
  "get_user sample_env 11 = Some owner_user" "get_user sample_env 12 = Some bot_user"
  "get_user sample_env 13 = Some stranger"
  "active_user sample_env 11" "active_user sample_env 12" "active_user sample_env 13"
  by (simp_all add: get_user_def active_user_def)

lemma owner_access [simp]:
  "res_owner r = 11 \<Longrightarrow> owner_or_grant sample_env now d owner_user r act repo msg dest b"
  by (simp add: owner_or_grant_def)

lemma owner_resource [simp]:
  "res_owner r = 11 \<Longrightarrow> res_realm r = 5 \<Longrightarrow> \<not> res_unavailable r \<Longrightarrow>
   require_agent_resource_access sample_env now d owner_user r act = Inr ()"
  by (simp add: require_agent_resource_access_def)

lemma sample_current:
  "sampled d \<Longrightarrow> current_execution_configuration sample_env d sample_profile = Inr sample_configuration"
  by (simp add: current_execution_configuration_def fetch_opt_def opt_config_def Let_def)

lemma sample_ready: "sampled d \<Longrightarrow> require_ready sample_env now d sample_profile = Inr sample_configuration"
  by (simp add: require_ready_def readiness_current_def validate_runtime_def fetch_opt_def catalog_serves_def
      runtime_provider_ok_def runtime_repository_ok_def sample_current)

lemma sample_access:
  assumes "sampled d" "act = ProfileUse \<or> act \<in> set (pol_actions sample_policy)" "repo = None \<or> repo = Some 40"
    "msg = None \<or> msg = Some sample_message"
  shows "check_agent_access sample_env now d owner_user 30 repo msg act None = Inr ()"
  using assms by (auto simp: check_agent_access_def fetch_opt_def require_manage_command_def
      profile_unavailable_def realms_match_def message_readable_def holds_resources_def read_message_def)

lemma sample_current_audience:
  "current_audience sample_env cv 11 12 =
     (let a = audience_of cv 11 12 sample_message None [11, 12]
      in if valid_audience a then Inr a else Inl ProtocolInvalid)"
  if "cv_anchor cv = Some 10" "cv_realm cv = 5"
  using that by (simp add: current_audience_def active_realm_user_def read_message_def checked_audience_def Let_def)

end
