(* ===== verification/Sample_Runs.thy ===== *)
theory Sample_Runs
  imports Sample_State
begin

text \<open>The run of a coding task on the sample: it is created, then claimed.\<close>

section \<open>The task is created\<close>

definition sample_scope :: scope where
  "sample_scope = \<lparr>sc_kind = ScDirect, sc_stream_id = None, sc_topic = None,
     sc_participants = [11, 12], sc_anchor = Some 10\<rparr>"

definition sample_audience :: audience where
  "sample_audience = \<lparr>aud_conversation_id = 100, aud_epoch = 1, aud_realm_id = 5, aud_profile_id = 30,
     aud_requester = 11, aud_bot = 12, aud_anchor = 10, aud_recipient_id = 7, aud_kind = RDirect,
     aud_stream_id = None, aud_invite_only = None, aud_web_public = None, aud_history_public = None,
     aud_user_ids = [11, 12]\<rparr>"

definition sample_conversation :: conversation where
  "sample_conversation = \<lparr>cv_id = 100, cv_realm = 5, cv_profile = 30, cv_repository = Some 40,
     cv_anchor = Some 10, cv_scope = sample_scope, cv_epoch = 1, cv_binding = Some sample_audience\<rparr>"

definition job_policy :: policy where
  "job_policy = sample_policy\<lparr>pol_scope := sample_scope,
     pol_actions := [ChecksRun, ContextRead, GitPush, RepositoryEdit, RepositoryRead]\<rparr>"

definition sample_job :: job where
  "sample_job = (new_job 1000 owner_user code_request zero_digest sample_profile [] sample_scope 100 101)
     \<lparr>jb_policy := job_policy\<rparr>"

definition queued_db :: db where
  "queued_db = sample_db\<lparr>db_conversations := [sample_conversation],
     db_jobs := [bump_sequence sample_job],
     db_context_refs := [message_ref 1000 sample_job sample_scope 102 10],
     db_audit := [audit_row 1000 (bump_sequence sample_job) (ServerEv JobQueued)
       (ServerPl (AJobState Queued [])) None AuthServer None (Some 11) 103],
     db_outbox := [\<lparr>ob_key = WakeKey 101 1, ob_realm = 5, ob_job = Some 101, ob_event_type = JobWake,
       ob_payload_ref = None, ob_attempt_count = 0, ob_next_attempt_at = 1000, ob_status = ObPending,
       ob_delivered_at = None\<rparr>],
     db_on_commit := [NoticeHook 101 (AcceptedNotice 101) ''This task is queued.'' False],
     db_next := 104\<rparr>"

lemma code_request_sel [simp]:
  "rq_profile code_request = 30" "rq_source code_request = 10" "rq_text code_request = ''Summarise this.''"
  "rq_key code_request = 500" "rq_kind code_request = KCode" "rq_delivery code_request = TPatch"
  "rq_repository code_request = Some sample_repository" "rq_base_ref code_request = ''main''"
  "rq_messages code_request = []" "rq_attachments code_request = []" "rq_trigger code_request = Manual"
  "\<not> rq_draft code_request" "\<not> rq_allow_blocked code_request" "rq_follows code_request = None"
  by (simp_all add: code_request_def)

lemma sample_job_sel [simp]:
  "jb_id sample_job = 101" "jb_realm sample_job = 5" "jb_requester sample_job = 11"
  "jb_conversation sample_job = 100" "jb_profile sample_job = 30" "jb_runner sample_job = 20"
  "jb_repository sample_job = Some 40" "jb_source_message sample_job = Some 10"
  "jb_follows sample_job = None" "jb_job_kind sample_job = KCode" "jb_delivery_target sample_job = TPatch"
  "jb_base_ref sample_job = ''main''" "jb_status sample_job = Queued" "jb_version sample_job = 1"
  "jb_start_deadline sample_job = Some 87400" "jb_next_attempt_at sample_job = 1000"
  "jb_resume_checkpoint sample_job = None" "jb_event_sequence sample_job = 0"
  "jb_input_sequence sample_job = 0" "jb_result_proposal sample_job = None"
  "jb_result_receipt sample_job = None" "jb_result_message sample_job = None"
  "jb_policy sample_job = job_policy" "jb_budget sample_job = sample_budget"
  "jb_stop_target sample_job = Cancelled"
  "jb_request sample_job = ''Summarise this.''" "jb_phase sample_job = Inspect" "jb_created_at sample_job = 1000"
  by (simp_all add: sample_job_def new_job_def start_window_def)

lemma cap_code_ready [simp]: "cap_code_ready sample_capability"
  by (simp add: sample_capability_def)

lemma job_policy_valid [simp]: "valid_policy job_policy" "valid_scope sample_scope" "valid_audience sample_audience"
  by code_simp+

lemma sample_message_scope: "scope_for_message sample_env sample_message = Inr sample_scope"
  using job_policy_valid(2) by (simp add: scope_for_message_def sample_scope_def)

lemma sample_aud:
  "audience_of cv 11 12 sample_message None [11, 12] = sample_audience"
  if "cv_id cv = 100" "cv_epoch cv = 1" "cv_realm cv = 5" "cv_profile cv = 30"
  using that by (simp add: audience_of_def sample_audience_def)

lemma code_request_admissible:
  "admissible sample_env 1000 owner_user code_request sample_db = Inr (sample_profile, [], sample_message)"
  by (simp add: admissible_def enabled_settings_def realm_profile_def sampled_sample sample_ready
    admission_block_def realm_message_def repository_admissible_def coding_unready_def sample_access
    queue_full_def queued_jobs_def row_count_def Let_def)

lemma code_request_conversation:
  "open_conversation sample_env owner_user sample_profile (Some sample_repository) 10 sample_scope sample_db =
     Inr (sample_db\<lparr>db_conversations := [sample_conversation], db_next := 101\<rparr>, sample_conversation)"
  by (simp add: open_conversation_def fresh_def sample_current_audience sample_aud Let_def add_conversation_def
      sample_conversation_def)

lemma sample_current_actions:
  assumes "sampled d" "jb_requester j = 11" "jb_profile j = 30" "jb_repository j = Some 40"
    "jb_source_message j = Some 10" "set acts \<subseteq> set (pol_actions sample_policy)"
  shows "current_actions sample_env now d j acts = Inr (sorted_actions acts)"
proof -
  have "granted_actions sample_env now d owner_user j acts = Inr acts"
    using assms(6) by (induction acts)
      (use assms in \<open>auto simp: sample_access job_source_def\<close>)
  then show ?thesis using assms by (simp add: current_actions_def)
qed

lemma sample_sorted [simp]:
  "sorted_actions [ContextRead, RepositoryRead, RepositoryEdit, ChecksRun, GitPush] =
     [ChecksRun, ContextRead, GitPush, RepositoryEdit, RepositoryRead]"
  "sorted_actions [ChecksRun, ContextRead, GitPush, RepositoryEdit, RepositoryRead] =
     [ChecksRun, ContextRead, GitPush, RepositoryEdit, RepositoryRead]"
  by code_simp+

lemma code_request_narrowed:
  assumes "sampled d"
  shows "narrowed_job sample_env 1000 d code_request
     (new_job 1000 owner_user code_request zero_digest sample_profile [] sample_scope 100 101) = Inr sample_job"
proof -
  have "job_ceiling code_request acts = acts" for acts by (simp add: job_ceiling_def)
  with assms show ?thesis
    by (simp add: narrowed_job_def sample_current_actions new_job_def sample_job_def job_policy_def
        coding_actions_def)
qed

lemma sample_digest_request [simp]: "request_digest sample_env rq = zero_digest"
  unfolding request_digest_def by simp

lemma sample_message_in [simp]:
  "en_access_message sample_env 11 10 = Some sample_message" "en_access_message sample_env 12 10 = Some sample_message"
  by (simp_all add: read_message_def)

lemma sample_require_audience:
  assumes "sampled d" "get_conversation 100 d = Some sample_conversation"
    "jb_conversation j = 100" "jb_profile j = 30" "jb_requester j = 11"
  shows "require_audience sample_env d j = Inr sample_audience"
  using assms by (simp add: require_audience_def job_conversation_def accepted_audience_def
      job_profile_def checked_audience_def sample_current_audience sample_aud sample_conversation_def)

lemma sample_reference:
  assumes "sampled d" "get_conversation 100 d = Some sample_conversation"
    "jb_conversation j = 100" "jb_profile j = 30" "jb_requester j = 11" "jb_realm j = 5"
  shows "require_reference_audience sample_env d j 10 = Inr ()"
proof -
  have "aud_user_ids sample_audience = [11, 12]" "aud_web_public sample_audience = None"
    "aud_epoch sample_audience = 1"
    by (simp_all add: sample_audience_def)
  with assms show ?thesis
    by (simp add: require_reference_audience_def sample_require_audience job_conversation_def
        job_profile_def reference_conversation_def sample_current_audience sample_aud)
qed

lemma sample_secrets [simp]:
  assumes "sampled d" "jb_profile j = 30"
  shows "reject_secrets d j (canonical_json JNull) = Inr ()"
proof -
  have "\<not> credential_bytes (canonical_json JNull)" by code_simp
  with assms show ?thesis
    by (simp add: reject_secrets_def job_profile_def fetch_opt_def job_secrets_def sampled_def)
qed

lemma small_int [simp]: "0 \<le> i \<Longrightarrow> i < 10 \<Longrightarrow> length (int_str i) = 1"
  by (simp add: int_str_def nat_str.simps)

text \<open>The server's entries of the sample run are short.\<close>

lemma sample_envelope:
  assumes "0 \<le> au_sequence r" "au_sequence r < 10" "epoch \<in> {None, Some 1}"
  shows "length (canonical_json (server_envelope sample_env r epoch t pl)) \<le> max_event_bytes"
proof -
  have "length (authority_event_name t) \<le> 40" by (cases t) simp_all
  then have "2 * text_bound (server_envelope sample_env r epoch t pl) \<le> max_event_bytes"
    using assms
    by (auto simp: server_envelope_def max_event_bytes_def opt_uuid_json_def opt_json_def split: option.splits)
  then show ?thesis by (rule order_trans [OF canonical_length])
qed

text \<open>An entry of the server's on a database of the sample.\<close>

lemma sample_audit_by:
  assumes "sampled d" "get_job 101 d = Some j" "jb_profile j = 30" "jb_realm j = 5" "jb_id j = 101"
    "0 \<le> jb_event_sequence j" "jb_event_sequence j < 8"
    "att = None \<or> (\<exists>a. att = Some (at_id a) \<and> get_attempt (at_id a) d = Some a \<and> at_job a = 101 \<and>
       at_realm a = 5 \<and> at_lease_epoch a = 1)"
    "actor = None \<or> actor = Some 11" "authority_payload_matches t pl" "valid_authority_payload t pl"
    "t \<in> set (event_authorities auth)"
    "\<not> audit_conflict d (audit_row now (bump_sequence j) (ServerEv t) (ServerPl pl) att auth None actor
       (db_next d))"
  shows "audit sample_env now 101 (ServerEv t) (ServerPl pl) att auth None actor d =
     Inr ((update_job 101 bump_sequence d)\<lparr>db_next := Suc (db_next d),
       db_audit := db_audit d @ [audit_row now (bump_sequence j) (ServerEv t) (ServerPl pl) att auth None
         actor (db_next d)]\<rparr>)"
proof -
  let ?d = "update_job 101 bump_sequence d"
  let ?r = "audit_row now (bump_sequence j) (ServerEv t) (ServerPl pl) att auth None actor (db_next d)"
  let ?e = "?d\<lparr>db_next := Suc (db_next d)\<rparr>"
  have e: "get_job k ?e = get_job k ?d" "get_attempt k ?e = get_attempt k d" for k
    by (simp_all add: get_defs)
  have s: "sampled ?d" using assms(1) by (simp add: sampled_def)
  have j: "get_job 101 ?d = Some (bump_sequence j)"
    using assms(2,5) by (simp add: get_update_job)
  have bump_realm: "jb_realm (bump_sequence j) = jb_realm j" by (simp add: bump_sequence_def)
  have a: "get_attempt k ?d = get_attempt k d" for k by (simp add: get_attempt_def)
  have r: "au_realm ?r = 5" "au_occurred_at ?r = now" using assms(4) by (simp_all add: audit_row_def bump_sequence_def)
  have "reject_secrets ?d (bump_sequence j) (canonical_json JNull) = Inr ()"
    by (rule sample_secrets [OF s]) (simp add: bump_sequence_def assms)
  moreover have "audit_refs_ok sample_env ?e ?r"
    using assms(4,5,8,9) j a r bump_realm
    by (auto simp: audit_refs_ok_def ref_in_def realm_of_def user_realm_def job_of_attempt_def e)
  moreover have "audit_payload_ok sample_env ?e ?r None"
  proof -
    let ?epoch = "case att of None \<Rightarrow> None | Some x \<Rightarrow> map_option at_lease_epoch (get_attempt x ?e)"
    have p: "?epoch \<in> {None, Some 1}" using assms(8) a e by auto
    then have "length (canonical_json (server_envelope sample_env ?r ?epoch t pl)) \<le> max_event_bytes"
      using assms(6,7) by (intro sample_envelope) simp_all
    then show ?thesis
      using assms(6,10-12) p by (auto simp: audit_payload_ok_def parse_authority_event_def Let_def split: option.splits)
  qed
  moreover have "clean_audit sample_env ?e ?r None = Inr ()"
    using calculation by (simp add: clean_audit_def)
  moreover have "\<not> audit_conflict (?d\<lparr>db_next := Suc (db_next d)\<rparr>) ?r"
    using assms(13) by (simp add: audit_conflict_def)
  ultimately show ?thesis
    using assms(2) by (simp add: audit_def audit_event_id_def fresh_def Let_def dump_audit_payload_def)
qed

lemmas sample_audit = sample_audit_by [where auth = AuthServer, folded audit_server_def]

lemma code_request_saved:
  assumes "sampled d" "get_conversation 100 d = Some sample_conversation"
  shows "save_job sample_env code_request None sample_job d = Inr (add_job sample_job d, sample_job)"
  using assms by (simp add: save_job_def clean_job_def ref_in_def realm_of_def user_realm_def message_realm_def
      checkpoint_job_def sample_conversation_def)

lemma code_request_refs:
  assumes "sampled d" "get_conversation 100 d = Some sample_conversation"
  shows "store_message_refs sample_env 1000 sample_job sample_profile sample_scope [10] d =
     Inr (add_context_ref (message_ref 1000 sample_job sample_scope (db_next d) 10)
           (d\<lparr>db_next := Suc (db_next d)\<rparr>))"
  using assms by (simp add: sample_reference fresh_def Let_def read_message_def)

lemma sample_online: "now < 1090 \<Longrightarrow> observed_runner_status now sample_runner = ROnline"
  by (simp add: observed_runner_status_def heartbeat_stale_after_def)

lemma sample_create:
  "create_job sample_env 1000 owner_user code_request None sample_db = Inr (queued_db, sample_job)"
proof -
  let ?d0 = "sample_db\<lparr>db_conversations := [sample_conversation], db_next := 102\<rparr>"
  let ?d1 = "add_context_ref (message_ref 1000 sample_job sample_scope 102 10)
     ((add_job sample_job ?d0)\<lparr>db_next := 103\<rparr>)"
  let ?d2 = "add_outbox \<lparr>ob_key = WakeKey 101 1, ob_realm = 5, ob_job = Some 101, ob_event_type = JobWake,
     ob_payload_ref = None, ob_attempt_count = 0, ob_next_attempt_at = 1000, ob_status = ObPending,
     ob_delivered_at = None\<rparr> ?d1"
  have s: "sampled ?d0" "sampled (add_job sample_job ?d0)" "sampled ?d2"
    by (simp_all add: sampled_def add_defs)
  have c: "get_conversation 100 ?d0 = Some sample_conversation"
    "get_conversation 100 (add_job sample_job ?d0) = Some sample_conversation"
    by (simp_all add: get_defs add_defs sample_conversation_def)
  have "audit_server sample_env 1000 101 JobQueued (AJobState Queued []) None (Some 11) ?d2 =
     Inr ((update_job 101 bump_sequence ?d2)\<lparr>db_next := 104, db_audit := db_audit queued_db\<rparr>)"
    by (subst sample_audit [where j = sample_job, OF s(3)])
      (simp_all add: get_defs add_defs audit_conflict_def len_in_def event_authorities_def queued_db_def)
  then have "announce_job sample_env 1000 owner_user sample_job ?d1 =
     Inr (notify_conversation 101 (AcceptedNotice 101) ''This task is queued.'' False
       ((update_job 101 bump_sequence ?d2)\<lparr>db_next := 104, db_audit := db_audit queued_db\<rparr>))"
    using s(3) by (simp add: announce_job_def create_outbox_def get_outbox_def add_defs get_runner_def
        sample_online)
  moreover have "notify_conversation 101 (AcceptedNotice 101) ''This task is queued.'' False
       ((update_job 101 bump_sequence ?d2)\<lparr>db_next := 104, db_audit := db_audit queued_db\<rparr>) = queued_db"
    by (simp add: queued_db_def notify_conversation_def update_job_def add_defs tbl_where_def)
  ultimately have "announce_job sample_env 1000 owner_user sample_job ?d1 = Inr queued_db" by simp
  moreover have "context_ids code_request = [10]" "attachment_ids code_request = []"
    by (simp_all add: context_ids_def attachment_ids_def)
  ultimately have "admit_job sample_env 1000 owner_user owner_user code_request None sample_profile []
      sample_message sample_db = Inr (queued_db, sample_job)"
    using code_request_narrowed [OF s(1)] code_request_saved [OF s(1) c(1)] code_request_refs [OF s(2) c(2)]
    by (simp add: admit_job_def sample_message_scope job_conversation_for_def code_request_conversation fresh_def
        Let_def add_defs sample_conversation_def)
  then show ?thesis
    by (simp add: create_job_def request_shape_ok_def follows_ok_def selection_ok_def context_ids_def
        attachment_ids_def active_realm_user_def earlier_job_def job_of_key_def job_of_trigger_def
        code_request_admissible)
qed

theorem sample_created: "serve sample_env 1000 (RqCreate owner_user code_request) sample_db = queued_db"
  by (simp add: serve_def state_of_def sample_create)

section \<open>The task is claimed\<close>

definition sample_lease :: lease_identity where
  "sample_lease = \<lparr>li_job_id = 101, li_attempt_id = 104, li_lease_epoch = 1\<rparr>"

definition sample_descriptor :: attempt_descriptor where
  "sample_descriptor = draft_descriptor sample_job sample_lease 1100 sample_profile sample_audience
     sample_configuration None (Some sample_repository)
     [ChecksRun, ContextRead, GitPush, RepositoryEdit, RepositoryRead] None None queued_db"

definition sample_attempt :: attempt where
  "sample_attempt = new_attempt 1010 sample_runner 600 sample_job sample_lease 1100 (Some sample_audience) None
     sample_profile None sample_descriptor"

definition running_db :: db where
  "running_db = queued_db\<lparr>db_jobs := [sample_job\<lparr>jb_status := Running, jb_version := 2,
       jb_event_sequence := 2\<rparr>], db_attempts := [sample_attempt],
     db_audit := db_audit queued_db @ [audit_row 1010 (sample_job\<lparr>jb_event_sequence := 2\<rparr>)
       (ServerEv SrvAttemptStarting) (ServerPl (AJobState Running [])) (Some 104) AuthServer None None 105],
     db_next := 106\<rparr>"

lemma sample_lease_sel [simp]:
  "li_job_id sample_lease = 101" "li_attempt_id sample_lease = 104" "li_lease_epoch sample_lease = 1"
  by (simp_all add: sample_lease_def)

lemma queued_db_sel [simp]:
  "db_conversations queued_db = [sample_conversation]" "db_jobs queued_db = [bump_sequence sample_job]"
  "db_attempts queued_db = []" "db_operations queued_db = []" "db_approvals queued_db = []"
  "db_inputs queued_db = []" "db_checkpoints queued_db = []" "db_artifacts queued_db = []"
  "db_verifications queued_db = []" "db_next queued_db = 104"
  "db_context_refs queued_db = [message_ref 1000 sample_job sample_scope 102 10]"
  by (simp_all add: queued_db_def)

lemma queued_sampled: "sampled queued_db"
  by (simp add: sampled_def queued_db_def)

lemma sample_descriptor_sel [simp]:
  "de_job_id sample_descriptor = 101" "de_attempt_id sample_descriptor = 104"
  "de_lease_epoch sample_descriptor = 1" "de_audience sample_descriptor = sample_audience"
  "de_tested sample_descriptor = sample_configuration" "de_profile_id sample_descriptor = 30"
  "de_profile_revision sample_descriptor = 1" "de_descriptor_digest sample_descriptor = zero_digest"
  "de_configuration_digest sample_descriptor = zero_digest" "de_lease_expires_at sample_descriptor = 1100"
  "de_job_kind sample_descriptor = KCode" "de_delivery_target sample_descriptor = TPatch"
  "de_request sample_descriptor = ''Summarise this.''" "de_runner_id sample_descriptor = 20"
  "de_adapter sample_descriptor = profile_adapter sample_profile" "de_provider sample_descriptor = None"
  "de_repository sample_descriptor = Some (repository_dto sample_job sample_repository)"
  "de_policy sample_descriptor = job_policy" "de_budget sample_descriptor = sample_budget"
  "de_context_refs sample_descriptor = [context_data (message_ref 1000 sample_job sample_scope 102 10)]"
  "de_inputs sample_descriptor = []" "de_checkpoint sample_descriptor = None"
  "de_instructions sample_descriptor = None"
  by (simp_all add: sample_descriptor_def draft_descriptor_def job_policy_def message_ref_def job_inputs_def)

lemma sample_derived:
  "derive_attempt_configuration sample_sha sample_descriptor = sample_configuration"
  by (simp add: derive_attempt_configuration_def sample_configuration_def live_configuration_def job_policy_def
      binding_of_repository_def repository_dto_def repository_binding_def profile_adapter_def
      profile_instructions_def instructions_digest_def)

lemma within_ceiling_same: "within_ceiling b b"
  by (simp add: within_ceiling_def split: option.splits)

lemma sample_narrows: "validate_attempt_configuration sample_sha sample_descriptor = Inr ()"
proof -
  have "list_all2 within_ceiling bs bs" for bs by (simp add: list_all2_refl within_ceiling_same)
  then show ?thesis by (simp add: validate_attempt_configuration_def sample_derived Let_def)
qed

lemma sample_repository_valid [simp]: "valid_repository_config (repository_dto sample_job sample_repository)"
  by (simp add: repository_dto_def empty_none_def valid_repository_config_def) code_simp

lemma sample_descriptor_valid [simp]: "valid_descriptor sample_sha sample_descriptor"
proof -
  have a: "valid_adapter (profile_adapter sample_profile)"
    by (simp add: profile_adapter_def) code_simp
  have s: "aud_profile_id sample_audience = 30" "sc_anchor (pol_scope job_policy) = Some 10"
    "aud_anchor sample_audience = 10" "sc_kind (pol_scope job_policy) = ScDirect"
    "sc_participants (pol_scope job_policy) = [11, 12]" "aud_user_ids sample_audience = [11, 12]"
    "\<not> pol_hard_cost_cap job_policy"
    by (simp_all add: sample_audience_def job_policy_def sample_scope_def)
  have c: "valid_context_reference (context_data (message_ref 1000 sample_job sample_scope 102 10))"
    by (simp add: valid_context_reference_def context_data_def message_ref_def Let_def)
  show ?thesis
    using a c s
    by (simp add: valid_descriptor_def descriptor_fields_ok_def constrain_execution_def sample_narrows
        profile_instructions_def len_in_def profile_adapter_def) (simp add: repository_dto_def)
qed

lemma sample_descriptor_digest [simp]: "descriptor_digest sample_sha x = zero_digest"
  by (simp add: descriptor_digest_def sample_sha_def)

lemma bump_sel [simp]:
  "jb_realm (bump_sequence j) = jb_realm j" "jb_requester (bump_sequence j) = jb_requester j"
  "jb_conversation (bump_sequence j) = jb_conversation j" "jb_profile (bump_sequence j) = jb_profile j"
  "jb_runner (bump_sequence j) = jb_runner j" "jb_repository (bump_sequence j) = jb_repository j"
  "jb_source_message (bump_sequence j) = jb_source_message j" "jb_job_kind (bump_sequence j) = jb_job_kind j"
  "jb_start_deadline (bump_sequence j) = jb_start_deadline j" "jb_policy (bump_sequence j) = jb_policy j"
  "jb_budget (bump_sequence j) = jb_budget j" "jb_request (bump_sequence j) = jb_request j"
  "jb_delivery_target (bump_sequence j) = jb_delivery_target j" "jb_base_ref (bump_sequence j) = jb_base_ref j"
  "jb_resume_checkpoint (bump_sequence j) = jb_resume_checkpoint j"
  "jb_next_attempt_at (bump_sequence j) = jb_next_attempt_at j"
  by (simp_all add: bump_sequence_def)

lemma running_db_sel [simp]:
  "db_jobs running_db = [sample_job\<lparr>jb_status := Running, jb_version := 2, jb_event_sequence := 2\<rparr>]"
  "db_attempts running_db = [sample_attempt]" "db_operations running_db = []" "db_approvals running_db = []"
  "db_inputs running_db = []" "db_next running_db = 106" "db_sent running_db = []"
  "db_artifacts running_db = []" "db_blobs running_db = []"
  by (simp_all add: running_db_def queued_db_def)

lemma sample_descriptor_eq:
  "draft_descriptor (bump_sequence sample_job) sample_lease 1100 sample_profile sample_audience
     sample_configuration None (Some sample_repository)
     [ChecksRun, ContextRead, GitPush, RepositoryEdit, RepositoryRead] None None (queued_db\<lparr>db_next := n\<rparr>) =
   sample_descriptor"
  by (simp add: draft_descriptor_def sample_descriptor_def job_inputs_def repository_dto_def)

lemma sample_descriptor_stored [simp]:
  "sample_descriptor\<lparr>de_descriptor_digest := zero_digest\<rparr> = sample_descriptor"
  by (simp add: sample_descriptor_def draft_descriptor_def)

lemma sample_built:
  "build_descriptor sample_env 1010 (queued_db\<lparr>db_next := 105\<rparr>) (bump_sequence sample_job) sample_lease 1100 None =
     Inr sample_descriptor"
proof -
  let ?d = "queued_db\<lparr>db_next := 105\<rparr>"
  have s: "sampled ?d" using queued_sampled by (simp add: sampled_def)
  have c: "get_conversation 100 ?d = Some sample_conversation" "cv_binding sample_conversation = Some sample_audience"
    by (simp_all add: get_defs sample_conversation_def)
  have a: "current_actions sample_env 1010 ?d (bump_sequence sample_job) (pol_actions job_policy) =
      Inr [ChecksRun, ContextRead, GitPush, RepositoryEdit, RepositoryRead]"
    using sample_current_actions [OF s, of "bump_sequence sample_job" "pol_actions job_policy" 1010]
    by (simp add: job_policy_def)
  have i: "descriptor_instructions ?d sample_profile = Inr None"
    using s by (simp add: descriptor_instructions_def)
  show ?thesis
    using s c a i
    by (simp add: build_descriptor_def job_profile_def sample_ready fetch_opt_def coding_unready_def
        job_conversation_def opt_config_def sample_descriptor_eq attempt_execution_configuration_def
        sample_narrows Let_def)
qed

lemma sample_attempt_sel [simp]:
  "at_id sample_attempt = 104" "at_realm sample_attempt = 5" "at_created_at sample_attempt = 1010"
  "at_job sample_attempt = 101" "at_runner sample_attempt = 20" "at_number sample_attempt = 1"
  "at_active sample_attempt" "at_lease_epoch sample_attempt = 1" "at_lease_expires_at sample_attempt = 1100"
  "at_claim_key sample_attempt = 600" "at_configuration_digest sample_attempt = zero_digest"
  "at_descriptor_digest sample_attempt = zero_digest" "at_descriptor sample_attempt = sample_descriptor"
  "at_audience_binding sample_attempt = Some sample_audience" "at_input_cursor sample_attempt = 0"
  "at_event_cursor sample_attempt = 0" "at_tool_rounds sample_attempt = 0"
  "at_process_state sample_attempt = Starting" "at_source_checkpoint sample_attempt = None"
  "at_base_commit sample_attempt = []" "at_tree_hash sample_attempt = []" "at_stop_receipt sample_attempt = None"
  "at_workspace_reference sample_attempt = []" "at_workspace_prepared_at sample_attempt = None"
  by (simp_all add: sample_attempt_def new_attempt_def)

lemma sample_started:
  "start_attempt sample_env 1010 sample_runner 600 (bump_sequence sample_job) sample_lease 1100
     (Some sample_audience) None sample_descriptor (queued_db\<lparr>db_next := 105\<rparr>) =
   Inr (running_db, Some sample_descriptor)"
proof -
  let ?d = "transition 101 Running [] (add_attempt sample_attempt (queued_db\<lparr>db_next := 105\<rparr>))"
  let ?j = "(bump_sequence sample_job)\<lparr>jb_status := Running, jb_blocked_reason := [], jb_version := 2\<rparr>"
  have n: "new_attempt 1010 sample_runner 600 (bump_sequence sample_job) sample_lease 1100 (Some sample_audience)
      None sample_profile None sample_descriptor = sample_attempt"
    by (simp add: new_attempt_def sample_attempt_def)
  have s: "sampled (queued_db\<lparr>db_next := 105\<rparr>)" "sampled ?d"
    using queued_sampled by (simp_all add: sampled_def add_defs)
  have cl: "clean_attempt sample_env (queued_db\<lparr>db_next := 105\<rparr>) sample_attempt = Inr ()"
    using s by (simp add: clean_attempt_def ref_in_def realm_of_def get_job_def checkpoint_job_def)
  have e: "db_audit queued_db = [audit_row 1000 (bump_sequence sample_job) (ServerEv JobQueued)
       (ServerPl (AJobState Queued [])) None AuthServer None (Some 11) 103]"
    by (simp add: queued_db_def)
  have "audit_server sample_env 1010 101 SrvAttemptStarting (AJobState Running []) (Some 104) None ?d = Inr running_db"
  proof (subst sample_audit [where j = ?j, OF s(2)])
    show "Inr ((update_job 101 bump_sequence ?d)\<lparr>db_next := Suc (db_next ?d),
        db_audit := db_audit ?d @ [audit_row 1010 (bump_sequence ?j) (ServerEv SrvAttemptStarting)
          (ServerPl (AJobState Running [])) (Some 104) AuthServer None None (db_next ?d)]\<rparr>) = Inr running_db"
      by (simp add: running_db_def transition_def update_job_def add_defs tbl_where_def audit_row_def
          bump_sequence_def Let_def) (simp add: sample_job_def new_job_def queued_db_def bump_sequence_def)
  qed (use e in \<open>auto simp: get_defs add_defs audit_conflict_def len_in_def event_authorities_def bump_sequence_def
      tbl_where_def\<close>)
  then show ?thesis
    using s cl by (simp add: start_attempt_def job_profile_def fetch_opt_def n Let_def)
qed

lemma sample_claim: "claim_work sample_env 1010 sample_runner 600 queued_db = Inr (running_db, Some sample_descriptor)"
proof -
  let ?j = "bump_sequence sample_job"
  let ?d = "queued_db\<lparr>db_next := 105\<rparr>"
  have s: "sampled ?d" "sampled (transition 101 Running [] (add_attempt sample_attempt ?d))"
    using queued_sampled by (simp_all add: sampled_def add_defs)
  have c: "get_conversation 100 queued_db = Some sample_conversation" "cv_binding sample_conversation = Some sample_audience"
    by (simp_all add: get_defs sample_conversation_def)
  have "claimable sample_env 1010 queued_db ?j = Inr ()"
    using queued_sampled c sample_require_audience [OF queued_sampled c(1), of ?j]
    by (simp add: claimable_def sample_access sample_ready job_profile_def job_source_def)
  moreover have "start_attempt sample_env 1010 sample_runner 600 ?j sample_lease 1100 (Some sample_audience) None
      sample_descriptor ?d = Inr (running_db, Some sample_descriptor)"
    by (rule sample_started)
  ultimately have "claim_candidate sample_env 1010 sample_runner 600 ?j queued_db = Inr (running_db, Some sample_descriptor)"
    using c sample_built
    by (simp add: claim_candidate_def active_attempts_def job_conversation_def fresh_def Let_def next_number_def
        latest_attempt_def job_attempts_def resume_point_def lease_seconds_def sample_lease_def)
  then show ?thesis
    using queued_sampled
    by (simp add: claim_work_def claim_candidates_def at_capacity_def row_count_def)
qed

theorem sample_claimed: "serve sample_env 1010 (RqClaim sample_runner 600) queued_db = running_db"
  by (simp add: serve_def state_of_def sample_claim)

end
