(* ===== verification/Sample_Push.thy ===== *)
theory Sample_Push
  imports Sample_Runs
begin

text \<open>
  A later moment of the coding task: the runtime works, has proposed a push and waits for a
  decision.  The owner approves it, and the runner consumes the approval.
\<close>

section \<open>Waiting for a decision\<close>

definition sample_tree :: string where
  "sample_tree = replicate 40 (CHR ''a'')"

definition push_arguments :: operation_args where
  "push_arguments = OPush \<lparr>pu_repository_id = 40, pu_remote = ''https://git.test/r'',
     pu_branch = ''grow-agent/task'', pu_commit = sample_tree, pu_expected_remote_head = None\<rparr>"

definition working_attempt :: attempt where
  "working_attempt = sample_attempt\<lparr>at_process_state := Active, at_started_at := Some 1015,
     at_base_commit := sample_tree, at_tree_hash := sample_tree, at_workspace_reference := ''w'',
     at_workspace_prepared_at := Some 1012\<rparr>"

definition push_binding :: scope_binding where
  "push_binding = proposal_binding working_attempt 1 (Some sample_tree) None None"

definition push_operation :: operation where
  "push_operation = new_operation sample_job working_attempt 106 700 push_arguments push_binding zero_digest True"

definition push_approval :: approval where
  "push_approval = new_approval 1020 sample_job working_attempt 107 108 106 push_arguments zero_digest (Some sample_tree)"

definition asking_job :: job where
  "asking_job = sample_job\<lparr>jb_status := WaitingForApproval, jb_version := 3, jb_event_sequence := 2\<rparr>"

definition asking_db :: db where
  "asking_db = running_db\<lparr>db_jobs := [asking_job], db_attempts := [working_attempt],
     db_operations := [push_operation], db_approvals := [push_approval], db_next := 109\<rparr>"

definition approved_db :: db where
  "approved_db = asking_db\<lparr>db_jobs := [asking_job\<lparr>jb_status := Running, jb_version := 4,
       jb_event_sequence := 3\<rparr>],
     db_approvals := [push_approval\<lparr>ap_approver := Some 11, ap_decision := ApApproved,
       ap_decided_at := Some 1030, ap_version := 2\<rparr>],
     db_audit := db_audit asking_db @ [audit_row 1030 (asking_job\<lparr>jb_event_sequence := 3\<rparr>)
       (ServerEv ApprovalResolved) (ServerPl (AApproval 107 zero_digest 2 ApApproved)) (Some 104) AuthServer
       None (Some 11) 109],
     db_next := 110\<rparr>"

definition pushing_db :: db where
  "pushing_db = approved_db\<lparr>db_jobs := [asking_job\<lparr>jb_status := Running, jb_version := 4,
       jb_event_sequence := 3, jb_phase := Deliver\<rparr>],
     db_attempts := [working_attempt\<lparr>at_tool_rounds := 1\<rparr>],
     db_operations := [start_operation 1040 push_operation],
     db_approvals := [push_approval\<lparr>ap_approver := Some 11, ap_decision := ApConsumed,
       ap_decided_at := Some 1030, ap_version := 3, ap_consumed_at := Some 1040\<rparr>]\<rparr>"

lemma working_attempt_sel [simp]:
  "at_id working_attempt = 104" "at_realm working_attempt = 5" "at_created_at working_attempt = 1010"
  "at_job working_attempt = 101" "at_runner working_attempt = 20" "at_number working_attempt = 1"
  "at_active working_attempt" "at_lease_epoch working_attempt = 1" "at_lease_expires_at working_attempt = 1100"
  "at_descriptor working_attempt = sample_descriptor" "at_audience_binding working_attempt = Some sample_audience"
  "at_event_cursor working_attempt = 0" "at_tool_rounds working_attempt = 0"
  "at_process_state working_attempt = Active" "at_tree_hash working_attempt = sample_tree"
  "at_workspace_prepared_at working_attempt = Some 1012"
  by (simp_all add: working_attempt_def)

lemma push_operation_sel [simp]:
  "oper_id push_operation = 106" "oper_realm push_operation = 5" "oper_attempt push_operation = 104"
  "oper_operation_id push_operation = 700" "oper_tool_class push_operation = GitPush"
  "oper_argument_digest push_operation = zero_digest" "oper_arguments push_operation = push_arguments"
  "oper_scope_binding push_operation = push_binding" "oper_status push_operation = Proposed"
  "oper_version push_operation = 1" "oper_server_receipt push_operation = None"
  by (simp_all add: push_operation_def new_operation_def push_arguments_def)

lemma push_approval_sel [simp]:
  "ap_id push_approval = 107" "ap_realm push_approval = 5" "ap_job push_approval = 101"
  "ap_attempt push_approval = 104" "ap_operation push_approval = 106" "ap_approver push_approval = None"
  "ap_operation_hash push_approval = zero_digest" "ap_policy_version push_approval = 1"
  "ap_version push_approval = 1" "ap_tree_hash push_approval = sample_tree"
  "ap_arguments push_approval = push_arguments" "ap_decision push_approval = ApPending"
  "ap_expires_at push_approval = 1920" "ap_nonce push_approval = 108"
  by (simp_all add: push_approval_def new_approval_def job_policy_def approval_window_def none_empty_def)

lemma asking_job_sel [simp]:
  "jb_id asking_job = 101" "jb_realm asking_job = 5" "jb_requester asking_job = 11"
  "jb_conversation asking_job = 100" "jb_profile asking_job = 30" "jb_runner asking_job = 20"
  "jb_repository asking_job = Some 40" "jb_source_message asking_job = Some 10" "jb_job_kind asking_job = KCode"
  "jb_status asking_job = WaitingForApproval" "jb_version asking_job = 3" "jb_event_sequence asking_job = 2"
  "jb_input_sequence asking_job = 0" "jb_result_receipt asking_job = None" "jb_stop_target asking_job = Cancelled"
  by (simp_all add: asking_job_def)

section \<open>The lease\<close>

lemma sample_attempt_access:
  assumes "sampled d" "get_conversation 100 d = Some sample_conversation"
    "jb_realm j = 5" "jb_profile j = 30" "jb_repository j = Some 40" "jb_source_message j = Some 10"
    "at_descriptor a = sample_descriptor" "at_runner a = 20"
    "act = ProfileUse \<or> act \<in> set (pol_actions sample_policy)"
  shows "check_attempt_access sample_env now d 11 j a act = Inr ()"
proof -
  have t: "set (ec_actions sample_configuration) = set (pol_actions sample_policy)"
    by (auto simp: sample_configuration_def live_configuration_def)
  have s: "require_snapshot_resources sample_env now d owner_user j a = Inr ()"
    using assms by (simp add: require_snapshot_resources_def)
  show ?thesis
    using assms t s
    by (auto simp: check_attempt_access_def active_realm_user_def job_profile_def require_manage_command_def
        job_policy_def job_repository_ok_def read_message_def)
qed

lemma sample_locked:
  assumes "sampled d" "get_conversation 100 d = Some sample_conversation"
    "get_job 101 d = Some j" "get_attempt 104 d = Some a"
    "jb_id j = 101" "jb_realm j = 5" "jb_profile j = 30" "jb_repository j = Some 40" "jb_source_message j = Some 10"
    "jb_runner j = 20" "jb_requester j = 11" "jb_conversation j = 100" "jb_status j \<in> set executing_states"
    "at_job a = 101" "at_runner a = 20" "at_realm a = 5" "at_lease_epoch a = 1" "at_descriptor a = sample_descriptor"
    "at_active a" "now < at_lease_expires_at a" "at_process_state a \<in> {Starting, Active}"
    "now - at_created_at a \<le> 600" "at_audience_binding a = Some sample_audience"
    "ex = None \<or> ex = Some (jb_version j)"
  shows "locked_attempt sample_env now sample_runner 101 104 1 ex b d = Inr (j, a)"
proof -
  have "require_audience sample_env d j = Inr sample_audience"
    using assms by (intro sample_require_audience) simp_all
  moreover have "active_seconds a = 600"
    using assms by (simp add: active_seconds_def sample_budget_def)
  moreover have "check_attempt_access sample_env now d 11 j a ProfileUse = Inr ()"
    using assms by (intro sample_attempt_access) simp_all
  moreover have "cv_binding sample_conversation = Some sample_audience" by (simp add: sample_conversation_def)
  ultimately have "require_execution sample_env now d sample_runner j a = Inr ()"
    using assms by (auto simp: require_execution_def lease_live_def job_conversation_def)
  moreover have "find_attempt sample_runner 101 104 1 d = Inr (sample_runner, j, a)"
    using assms by (simp add: find_attempt_def)
  ultimately show ?thesis using assms(24) by (auto simp: locked_attempt_def)
qed

section \<open>The decision and the push\<close>

lemma push_db_sel [simp]:
  "db_jobs asking_db = [asking_job]" "db_attempts asking_db = [working_attempt]"
  "db_operations asking_db = [push_operation]" "db_approvals asking_db = [push_approval]"
  "db_conversations asking_db = [sample_conversation]" "db_next asking_db = 109" "db_inputs asking_db = []"
  "db_conversations approved_db = [sample_conversation]" "db_attempts approved_db = [working_attempt]"
  "db_operations approved_db = [push_operation]" "db_next approved_db = 110" "db_inputs approved_db = []"
  "db_jobs approved_db = [asking_job\<lparr>jb_status := Running, jb_version := 4, jb_event_sequence := 3\<rparr>]"
  "db_approvals approved_db = [push_approval\<lparr>ap_approver := Some 11, ap_decision := ApApproved,
       ap_decided_at := Some 1030, ap_version := 2\<rparr>]"
  by (simp_all add: asking_db_def approved_db_def running_db_def)

lemma push_sampled: "sampled asking_db" "sampled approved_db"
  using queued_sampled by (simp_all add: sampled_def asking_db_def approved_db_def running_db_def)

lemma sample_job_access:
  assumes "sampled d" "get_conversation 100 d = Some sample_conversation" "latest_attempt 101 d = Some working_attempt"
    "jb_id j = 101" "jb_realm j = 5" "jb_profile j = 30" "jb_runner j = 20" "jb_repository j = Some 40"
    "jb_source_message j = Some 10" "jb_conversation j = 100"
  shows "require_job_access sample_env now d owner_user j = Inr ()"
proof -
  have "accepted_audience sample_conversation = Inr sample_audience" "aud_user_ids sample_audience = [11, 12]"
    by (simp_all add: accepted_audience_def sample_conversation_def)
      (simp add: sample_audience_def)
  with assms show ?thesis
    by (simp add: require_job_access_def job_profile_def fetch_opt_def history_provider_def
        history_resources_def job_conversation_def read_message_def)
qed

lemma push_decided:
  "decide_approval sample_env 1030 owner_user 107 1 zero_digest 108 True asking_db = Inr approved_db"
proof -
  let ?j = "asking_job\<lparr>jb_status := Running, jb_blocked_reason := [], jb_version := 4\<rparr>"
  let ?d = "transition 101 Running [] (update_approval 107 (\<lambda>r. r\<lparr>ap_approver := Some 11,
     ap_decision := ApApproved, ap_decided_at := Some 1030, ap_version := ap_version r + 1\<rparr>) asking_db)"
  have c: "get_conversation 100 asking_db = Some sample_conversation"
    by (simp add: get_defs sample_conversation_def)
  have g: "get_job 101 asking_db = Some asking_job" "get_attempt 104 asking_db = Some working_attempt"
    "get_operation 106 asking_db = Some push_operation" "get_approval 107 asking_db = Some push_approval"
    "latest_attempt 101 asking_db = Some working_attempt"
    by (simp_all add: get_defs latest_attempt_def job_attempts_def )
  have l: "locked_attempt sample_env 1030 sample_runner 101 104 1 None True asking_db = Inr (asking_job, working_attempt)"
    using push_sampled c g by (intro sample_locked) (simp_all add: executing_states_def)
  have s: "sampled ?d" using push_sampled by (simp add: sampled_def)
  have e: "db_audit asking_db = [audit_row 1000 (bump_sequence sample_job) (ServerEv JobQueued)
       (ServerPl (AJobState Queued [])) None AuthServer None (Some 11) 103,
     audit_row 1010 (sample_job\<lparr>jb_event_sequence := 2\<rparr>)
       (ServerEv SrvAttemptStarting) (ServerPl (AJobState Running [])) (Some 104) AuthServer None None 105]"
    by (simp add: asking_db_def running_db_def queued_db_def)
  have "audit_server sample_env 1030 101 ApprovalResolved (AApproval 107 zero_digest 2 ApApproved) (Some 104) (Some 11) ?d =
      Inr approved_db"
  proof (subst sample_audit [where j = ?j, OF s])
    show "Inr ((update_job 101 bump_sequence ?d)\<lparr>db_next := Suc (db_next ?d),
        db_audit := db_audit ?d @ [audit_row 1030 (bump_sequence ?j) (ServerEv ApprovalResolved)
          (ServerPl (AApproval 107 zero_digest 2 ApApproved)) (Some 104) AuthServer None (Some 11) (db_next ?d)]\<rparr>) =
      Inr approved_db"
      by (simp add: approved_db_def transition_def update_job_def update_approval_def tbl_where_def audit_row_def
          bump_sequence_def Let_def)
        (simp add: asking_job_def sample_job_def new_job_def asking_db_def)
  qed (use e in \<open>auto simp: get_defs audit_conflict_def event_authorities_def bump_sequence_def tbl_where_def
      sample_job_def new_job_def asking_job_def\<close>)
  then have "settle_approval sample_env 1030 owner_user asking_job working_attempt push_operation push_approval True
      asking_db = Inr approved_db"
    by (simp add: settle_approval_def)
  moreover have "check_attempt_access sample_env 1030 asking_db 11 asking_job working_attempt GitPush = Inr ()"
    using push_sampled c by (intro sample_attempt_access) simp_all
  moreover have "require_job_access sample_env 1030 asking_db owner_user asking_job = Inr ()"
    using push_sampled c g by (intro sample_job_access) simp_all
  ultimately show ?thesis
    using push_sampled g l by (simp add: decide_approval_def job_profile_def approval_current_def)
qed

theorem push_approved:
  "serve sample_env 1030 (RqDecide owner_user 107 1 zero_digest 108 True) asking_db = approved_db"
  by (simp add: serve_def push_decided)

lemma push_consume:
  "\<exists>r. consume_operation sample_env 1040 sample_runner 101 104 1 700 1 zero_digest (Some 108) approved_db =
     Inr (pushing_db, r)"
proof -
  let ?j = "asking_job\<lparr>jb_status := Running, jb_version := 4, jb_event_sequence := 3\<rparr>"
  have c: "get_conversation 100 approved_db = Some sample_conversation"
    by (simp add: get_defs sample_conversation_def)
  have g: "get_job 101 approved_db = Some ?j" "get_attempt 104 approved_db = Some working_attempt"
    by (simp_all add: get_defs)
  have l: "locked_attempt sample_env 1040 sample_runner 101 104 1 None True approved_db = Inr (?j, working_attempt)"
    using push_sampled c g by (intro sample_locked) (simp_all add: executing_states_def)
  have a: "check_attempt_access sample_env 1040 approved_db 11 ?j working_attempt GitPush = Inr ()"
    using push_sampled c by (intro sample_attempt_access) simp_all
  have b: "consumable ?j sample_profile working_attempt push_operation 1 zero_digest = Inr ()"
    by (simp add: consumable_def push_binding_def proposal_binding_def empty_none_def sample_tree_def
        job_policy_def sample_budget_def)
  show ?thesis
    using push_sampled l a b
    by (simp add: consume_operation_def attempt_operation_def job_profile_def
        spend_approval_def approved_approval_def Let_def)
      (simp add: pushing_db_def update_job_def update_operation_def update_attempt_def update_approval_def tbl_where_def)
qed

theorem push_consumed:
  "serve sample_env 1040 (RqConsume sample_runner 101 104 1 700 1 zero_digest (Some 108)) approved_db = pushing_db"
  using push_consume by (auto simp: serve_def state_of_def)

end
