(* ===== verification/Sample_Events.thy ===== *)
theory Sample_Events
  imports Sample_Push
begin

text \<open>Two more requests of the sample: an input for the queued task, and the stop of the attempt.\<close>

section \<open>An input\<close>

definition steering_input :: input where
  "steering_input = new_input sample_job 104 11 None 800 zero_digest 1 Steering ''more''"

definition steered_db :: db where
  "steered_db = queued_db\<lparr>db_jobs := [sample_job\<lparr>jb_event_sequence := 2, jb_input_sequence := 1,
       jb_version := 2\<rparr>], db_inputs := [steering_input],
     db_audit := db_audit queued_db @ [audit_row 1005 (sample_job\<lparr>jb_event_sequence := 2\<rparr>)
       (ServerEv InputReceived) (ServerPl (AInput 104 1 InPending)) None AuthServer None (Some 11) 105],
     db_next := 106\<rparr>"

lemma sample_digest_input [simp]: "input_digest sample_env t ty src u = zero_digest"
  unfolding input_digest_def by simp

lemma sample_steer:
  "add_input sample_env 1005 owner_user 101 1 800 ''more'' Steering None queued_db = Inr (steered_db, steering_input)"
proof -
  let ?j = "bump_sequence sample_job"
  let ?k = "sample_job\<lparr>jb_event_sequence := 1, jb_input_sequence := 1, jb_version := 2\<rparr>"
  let ?d = "add_input_row steering_input ((update_job 101 take_input queued_db)\<lparr>db_next := 105\<rparr>)"
  have c: "get_conversation 100 queued_db = Some sample_conversation"
    by (simp add: get_defs sample_conversation_def)
  have g: "get_job 101 queued_db = Some ?j" "latest_attempt 101 queued_db = None"
    by (simp_all add: get_defs latest_attempt_def job_attempts_def)
  have s: "sampled ?d" using queued_sampled by (simp add: sampled_def add_defs)
  have b: "accepted_audience sample_conversation = Inr sample_audience" "aud_user_ids sample_audience = [11, 12]"
    by (simp_all add: accepted_audience_def sample_conversation_def) (simp add: sample_audience_def)
  have r: "require_job_access sample_env 1005 queued_db owner_user ?j = Inr ()"
    using queued_sampled c g b
    by (simp add: require_job_access_def job_profile_def fetch_opt_def history_provider_def
        history_resources_def job_conversation_def read_message_def)
  have t: "take_input ?j = ?k"
    by (simp add: take_input_def bump_sequence_def reopening_states_def sample_job_def new_job_def)
  have e: "db_audit queued_db = [audit_row 1000 (bump_sequence sample_job) (ServerEv JobQueued)
       (ServerPl (AJobState Queued [])) None AuthServer None (Some 11) 103]"
    by (simp add: queued_db_def)
  have "audit_server sample_env 1005 101 InputReceived (AInput 104 1 InPending) None (Some 11) ?d = Inr steered_db"
  proof (subst sample_audit [where j = ?k, OF s])
    show "Inr ((update_job 101 bump_sequence ?d)\<lparr>db_next := Suc (db_next ?d),
        db_audit := db_audit ?d @ [audit_row 1005 (bump_sequence ?k) (ServerEv InputReceived)
          (ServerPl (AInput 104 1 InPending)) None AuthServer None (Some 11) (db_next ?d)]\<rparr>) = Inr steered_db"
      by (simp add: steered_db_def update_job_def add_defs tbl_where_def audit_row_def t)
        (simp add: bump_sequence_def)
  qed (use e t in \<open>auto simp: get_defs add_defs audit_conflict_def event_authorities_def bump_sequence_def tbl_where_def\<close>)
  moreover have "jb_input_sequence ?j = 0" by (simp add: bump_sequence_def)
  moreover have "in_sequence steering_input = 1" by (simp add: steering_input_def new_input_def)
  moreover have "new_input ?j 104 11 None 800 zero_digest 1 Steering ''more'' = steering_input"
    by (simp add: steering_input_def new_input_def)
  ultimately have "store_input sample_env 1005 owner_user ?j 800 zero_digest ''more'' Steering None queued_db =
      Inr (steered_db, steering_input)"
    by (simp add: store_input_def reopening_states_def fresh_def Let_def) 
  moreover have "require_control sample_env 1005 queued_db owner_user ?j = Inr ()"
    using r queued_sampled by (simp add: require_control_def job_profile_def)
  moreover have "input_admissible ?j 1 (first_active 101 queued_db) = Inr ()"
    by (simp add: input_admissible_def terminal_states_def max_inputs_def first_active_def bump_sequence_def)
  moreover have "require_audience sample_env queued_db ?j = Inr sample_audience"
    using queued_sampled c by (intro sample_require_audience) simp_all
  ultimately show ?thesis
    using queued_sampled g
    by (simp add: add_input_def realm_job_def earlier_input_def sample_access job_source_def input_source_ok_def)
qed

theorem sample_steered:
  "serve sample_env 1005 (RqInput owner_user 101 1 800 ''more'' Steering None) queued_db = steered_db"
  by (simp add: serve_def state_of_def sample_steer)

section \<open>The attempt stops\<close>

definition stop_event :: runner_event where
  "stop_event = \<lparr>ev_job_id = 101, ev_attempt_id = 104, ev_lease_epoch = 1, ev_event_id = 900,
     ev_sequence = 1, ev_type = AttemptStopped, ev_occurred_at = 1050,
     ev_payload = PProcess \<lparr>pp_process_state = Stopped, pp_adapter_session_ref = None,
       pp_stop_confirmed = True, pp_summary = []\<rparr>\<rparr>"

definition stopped_db :: db where
  "stopped_db = running_db\<lparr>db_jobs := [sample_job\<lparr>jb_status := Interrupted, jb_blocked_reason := ''start_failed'',
       jb_version := 3, jb_event_sequence := 3\<rparr>],
     db_attempts := [sample_attempt\<lparr>at_process_state := Stopped, at_stopped_at := Some 1050,
       at_ended_at := Some 1050, at_active := False, at_stop_receipt := Some stop_event, at_event_cursor := 1\<rparr>],
     db_audit := db_audit running_db @ [audit_row 1050 (sample_job\<lparr>jb_event_sequence := 3\<rparr>)
       (RunnerEv AttemptStopped) (RunnerPl (ev_payload stop_event)) (Some 104) AuthRunner (Some stop_event) None 900],
     db_on_commit := db_on_commit running_db @
       [NoticeHook 101 (EndNotice 101 3) ''The runner could not start this task.'' False]\<rparr>"

lemma stop_event_sel [simp]:
  "ev_job_id stop_event = 101" "ev_attempt_id stop_event = 104" "ev_lease_epoch stop_event = 1"
  "ev_event_id stop_event = 900" "ev_sequence stop_event = 1" "ev_type stop_event = AttemptStopped"
  "ev_occurred_at stop_event = 1050"
  by (simp_all add: stop_event_def)

lemma sample_event_parsed [simp]: "parse_runner_event (\<lambda>e. JNull) stop_event = Inr stop_event"
proof -
  have "length (canonical_json JNull) \<le> max_event_bytes"
    by (rule order_trans [OF canonical_length]) (simp add: max_event_bytes_def)
  moreover have "valid_runner_event stop_event"
    by (simp add: stop_event_def valid_runner_event_def runner_event_state_ok_def len_in_def)
  ultimately show ?thesis by (simp add: parse_runner_event_def)
qed

lemma sample_stop:
  "record_event sample_env 1050 sample_runner stop_event None False running_db =
     Inr (stopped_db, \<lparr>er_event_sequence = 3, er_job_version = 3, er_status = Interrupted\<rparr>)"
proof -
  let ?j = "sample_job\<lparr>jb_status := Running, jb_version := 2, jb_event_sequence := 2\<rparr>"
  let ?k = "sample_job\<lparr>jb_status := Interrupted, jb_blocked_reason := ''start_failed'', jb_version := 3,
     jb_event_sequence := 2\<rparr>"
  let ?e = "transition 101 Interrupted ''start_failed''
     (abandon_work 104 (update_attempt 104 (end_attempt 1050 stop_event) running_db))"
  have g: "get_job 101 running_db = Some ?j" "get_attempt 104 running_db = Some sample_attempt"
    "get_runner 20 running_db = Some sample_runner"
    using queued_sampled by (simp_all add: running_db_def get_defs sampled_def)
  have l: "locked_attempt sample_env 1050 sample_runner 101 104 1 None False running_db = Inr (?j, sample_attempt)"
    using g by (simp add: locked_attempt_def find_attempt_def)
  have a: "apply_event 1050 sample_runner ?j sample_attempt stop_event running_db = Inr ?e"
    by (simp add: apply_event_def stop_event_def apply_process_def settle_stopped_job_def terminal_states_def
        get_outbox_def abandon_work_def abandon_inputs_def abandon_operations_def invalidate_approvals_def
        running_db_def queued_db_def sample_attempt_def new_attempt_def)
  have "journal_event sample_env 1050 ?j sample_attempt stop_event ?e =
      Inr (stopped_db, \<lparr>er_event_sequence = 3, er_job_version = 3, er_status = Interrupted\<rparr>)"
  proof -
    let ?f = "update_attempt 104 (\<lambda>r. r\<lparr>at_event_cursor := 1\<rparr>) ?e"
    have s: "sampled (update_job 101 bump_sequence ?f)"
      using queued_sampled by (simp add: sampled_def running_db_def abandon_work_def abandon_inputs_def
          abandon_operations_def invalidate_approvals_def)
    have j: "get_job 101 ?f = Some ?k" "get_job 101 (update_job 101 bump_sequence ?f) = Some (bump_sequence ?k)"
      by (simp_all add: get_defs abandon_work_def abandon_inputs_def abandon_operations_def invalidate_approvals_def
        tbl_where_def) (simp add: sample_job_def new_job_def)
    have "audit sample_env 1050 101 (RunnerEv AttemptStopped) (RunnerPl (ev_payload stop_event)) (Some 104) AuthRunner
        (Some stop_event) None ?f = Inr stopped_db"
    proof -
      let ?r = "audit_row 1050 (bump_sequence ?k) (RunnerEv AttemptStopped) (RunnerPl (ev_payload stop_event))
        (Some 104) AuthRunner (Some stop_event) None 900"
      have "clean_audit sample_env (update_job 101 bump_sequence ?f) ?r (Some stop_event) = Inr ()"
        using j by (simp add: clean_audit_def audit_refs_ok_def audit_payload_ok_def ref_in_def realm_of_def
            user_realm_def job_of_attempt_def)
          (simp add: audit_row_def get_defs abandon_work_def abandon_inputs_def abandon_operations_def
            invalidate_approvals_def end_attempt_def tbl_where_def bump_sequence_def)
      moreover have "\<not> audit_conflict (update_job 101 bump_sequence ?f) ?r"
        by (simp add: audit_conflict_def audit_row_def abandon_work_def abandon_inputs_def
            abandon_operations_def invalidate_approvals_def running_db_def queued_db_def)
      ultimately show ?thesis
        using j by (simp add: audit_def unscreened_types_def audit_event_id_def Let_def)
          (simp add: stopped_db_def update_job_def update_attempt_def abandon_work_def abandon_inputs_def
            abandon_operations_def invalidate_approvals_def transition_def notify_job_ended_def get_defs
            notify_conversation_def tbl_where_def audit_row_def bump_sequence_def end_attempt_def end_reason_sentence_def)
    qed
    then show ?thesis
      by (simp add: journal_event_def) (simp add: stopped_db_def after_event_def get_defs)
  qed
  moreover have "event_admissible sample_env 1050 sample_runner ?j sample_attempt stop_event None False running_db = Inr ()"
    by (simp add: event_admissible_def is_cleanup_def carries_text_def event_skew_def) (simp add: stop_event_def)
  moreover have "prior_event 104 900 running_db = None" "\<not> superseded 101 sample_attempt running_db"
    by (simp_all add: prior_event_def superseded_def running_db_def queued_db_def audit_row_def)
  ultimately show ?thesis
    using l a by (simp add: record_event_def)
qed

theorem sample_stopped: "serve sample_env 1050 (RqEvent sample_runner stop_event None False) running_db = stopped_db"
  by (simp add: serve_def state_of_def sample_stop)

end
