(* ===== verification/Service_Properties.thy ===== *)
theory Service_Properties
  imports Sample_Events
begin

text \<open>
  What holds along every run of the service: \<open>serve_all rs d\<close> is the database after any list of
  requests, each at its own time and with its own state of the chat core.  The witnesses apply the
  theorems to the run of the sample that creates a coding task and claims it.
\<close>

section \<open>The sample run\<close>

definition sample_requests :: "(env \<times> time \<times> request) list" where
  "sample_requests = [(sample_env, 1000, RqCreate owner_user code_request),
     (sample_env, 1010, RqClaim sample_runner 600)]"

lemma sample_run: "serve_all sample_requests sample_db = running_db"
  by (simp add: sample_requests_def sample_created sample_claimed)

lemma sample_ok: "service_ok sample_db"
  by (simp add: service_ok_def keys_ok_def keyed_def approval_links_def records_ok_def ids_ok_def id_lists_def
      journal_ok_def inputs_ok_def events_ok_def rounds_ok_def approvals_ok_def remote_ok_def drafts_ok_def
      linv_def attempts_ok_def numbers_ok_def jobs_ok_def life_def get_defs job_entries_def
      job_input_rows_def attempt_events_def)

lemma serve_ok: "service_ok d \<Longrightarrow> service_ok (serve en now rq d)"
  using agent_step_ok(1) [OF agent_step.serve] by blast

lemma run_ok: "service_ok d \<Longrightarrow> service_ok (serve_all rs d)"
  by (rule service.good_run [OF serve_all_run])

lemma run_later: "service_ok d \<Longrightarrow> later d (serve_all rs d)"
  by (rule service_history.evolves [OF serve_all_run])

lemma run_forward: "service_ok d \<Longrightarrow> forward (life d) (life (serve_all rs d))"
  by (rule progress.evolves [OF service.run [OF serve_all_run]]) (auto dest: service_okD)

lemma queued_ok: "service_ok queued_db"
  using serve_ok [OF sample_ok, of sample_env 1000 "RqCreate owner_user code_request"]
  by (simp add: sample_created)

lemma running_ok: "service_ok running_db"
  using run_ok [OF sample_ok, of sample_requests] by (simp add: sample_run)

lemma asking_ok: "service_ok asking_db"
proof -
  have a: "db_audit asking_db = [audit_row 1000 (bump_sequence sample_job) (ServerEv JobQueued)
       (ServerPl (AJobState Queued [])) None AuthServer None (Some 11) 103,
     audit_row 1010 (sample_job\<lparr>jb_event_sequence := 2\<rparr>)
       (ServerEv SrvAttemptStarting) (ServerPl (AJobState Running [])) (Some 104) AuthServer None None 105]"
    "db_artifacts asking_db = []"
    by (simp_all add: asking_db_def running_db_def queued_db_def)
  have b: "[1..2] = [1, 2 :: int]" by (simp add: upto_rec1)
  have r: "bud_tool_rounds sample_budget = 3" by (simp add: sample_budget_def)
  have k: "keys_ok asking_db"
    by (auto simp: keys_ok_def keyed_def approval_links_def linked_def get_defs)
  have l: "linv (life asking_db)"
    by (auto simp: linv_def attempts_ok_def numbers_ok_def jobs_ok_def life_def get_defs job_ok_def
        jcore_of_def acore_of_def idle_def runs_def stop_targets_def)
  have "ids_ok asking_db" using a by (simp add: ids_ok_def id_lists_def)
  moreover have "journal_ok asking_db"
    using a b by (auto simp: journal_ok_def job_entries_def get_defs)
  moreover have "inputs_ok asking_db" "events_ok asking_db"
    using a by (auto simp: inputs_ok_def job_input_rows_def get_defs max_inputs_def events_ok_def attempt_events_def)
  moreover have "rounds_ok asking_db" using r by (simp add: rounds_ok_def)
  moreover have "approvals_ok asking_db" "remote_ok asking_db"
    by (simp_all add: approvals_ok_def approval_ok_def remote_ok_def)
  ultimately show ?thesis
    using k l by (simp add: service_ok_def records_ok_def drafts_ok_def)
qed

definition push_requests :: "(env \<times> time \<times> request) list" where
  "push_requests = [(sample_env, 1030, RqDecide owner_user 107 1 zero_digest 108 True),
     (sample_env, 1040, RqConsume sample_runner 101 104 1 700 1 zero_digest (Some 108))]"

lemma push_run: "serve_all push_requests asking_db = pushing_db"
  by (simp add: push_requests_def push_approved push_consumed)

section \<open>Rows of a reachable database\<close>

lemma active_attempts_le_one:
  assumes "service_ok d"
  shows "length (active_attempts i d) \<le> 1"
proof -
  have "a = b" if "a \<in> set (active_attempts i d)" "b \<in> set (active_attempts i d)" for a b
  proof -
    have r: "runs (life d) i (at_id a) (acore_of a)" "runs (life d) i (at_id b) (acore_of b)"
      using that keys_unique_attempt [OF service_okD(1) [OF assms]]
      by (auto simp: active_attempts_def runs_def)
    then have "at_id a = at_id b"
      using runs_unique [OF linvD(2) [OF service_okD(4) [OF assms]]] by blast
    with that keys_unique_attempt [OF service_okD(1) [OF assms]] show ?thesis
      by (auto simp: active_attempts_def) (metis option.inject)
  qed
  moreover have "distinct (active_attempts i d)"
    using service_okD(5) [OF assms] by (auto simp: active_attempts_def ids_ok_def id_lists_def distinct_map)
  ultimately show ?thesis
    by (metis One_nat_def card_le_Suc0_iff_eq distinct_card finite_set)
qed

lemma active_iff_not_idle:
  assumes "service_ok d"
  shows "active_attempts i d = [] \<longleftrightarrow> idle (life d) i"
proof
  assume idle: "idle (life d) i"
  show "active_attempts i d = []"
    unfolding active_attempts_def filter_empty_conv
  proof (intro ballI notI)
    fix a
    assume a: "a \<in> set (db_attempts d)" "at_job a = i \<and> at_active a"
    then have "get_attempt (at_id a) d = Some a" by (intro keys_unique_attempt service_okD(1) [OF assms])
    with a life_runs [of "at_id a" d a] idle show False by (auto simp: idle_def)
  qed
qed (rule no_active_idle)

section \<open>Properties\<close>

text \<open>
  C1: Every run of the service refines the abstract life cycle: the jobs and attempts of the
  database after any list of requests are reached from the first ones by steps of the state
  machine, and its invariant holds.
\<close>

theorem run_refines_lifecycle:
  assumes "service_ok d"
  shows "lstep\<^sup>*\<^sup>* (life d) (life (serve_all rs d)) \<and> linv (life (serve_all rs d))"
  using service.run [OF serve_all_run assms] service_okD(4) [OF run_ok [OF assms]] by simp

theorem run_refines_lifecycle_witness:
  "lstep\<^sup>*\<^sup>* (life sample_db) (life running_db) \<and> linv (life running_db)"
  using run_refines_lifecycle [OF sample_ok, of sample_requests] by (simp add: sample_run)

text \<open>
  C3: After any run, a job has at most one active attempt; it has exactly one while its status says
  that it is being worked on or stopped, none while it is a draft, queued or ended, and a result
  receipt exactly when it is completed.
\<close>

theorem job_status_agrees_with_attempts:
  assumes "service_ok d" "get_job i (serve_all rs d) = Some j"
  shows "length (active_attempts i (serve_all rs d)) =
      (if jb_status j \<in> {Running, WaitingForInput, WaitingForApproval, CancelRequested} then 1
       else if jb_status j \<in> {Verifying, Interrupted}
       then length (active_attempts i (serve_all rs d)) else 0) \<and>
    length (active_attempts i (serve_all rs d)) \<le> 1 \<and>
    (jb_result_receipt j \<noteq> None) = (jb_status j = Completed)"
proof -
  let ?e = "serve_all rs d"
  have ok: "service_ok ?e" by (rule run_ok [OF assms(1)])
  have j: "job_ok (\<not> idle (life ?e) i) (jcore_of j)"
    using linv_job [OF service_okD(4) [OF ok], of i "jcore_of j"] assms(2) by simp
  have l: "length (active_attempts i ?e) \<le> 1" by (rule active_attempts_le_one [OF ok])
  have "length (active_attempts i ?e) = (if idle (life ?e) i then 0 else 1)"
    using l active_iff_not_idle [OF ok, of i] by (auto simp: le_Suc_eq)
  with j l show ?thesis by (cases "jb_status j") (simp_all add: job_ok_def)
qed

theorem job_status_agrees_with_attempts_witness:
  "get_job 101 running_db = Some (hd (db_jobs running_db)) \<and> length (active_attempts 101 running_db) = 1"
proof -
  have j: "get_job 101 (serve_all sample_requests sample_db) = Some (hd (db_jobs running_db))"
    by (simp add: sample_run get_job_def)
  show ?thesis
    using job_status_agrees_with_attempts [OF sample_ok j] j by (simp add: sample_run)
qed

text \<open>
  C4: A completed job never changes again: whatever is requested afterwards, it keeps its status,
  its version and the receipt of its one published result.
\<close>

theorem completed_is_final:
  assumes "service_ok d" "get_job i d = Some j" "jb_status j = Completed"
  shows "\<exists>k. get_job i (serve_all rs d) = Some k \<and> jb_status k = Completed \<and>
    jb_version k = jb_version j \<and> jb_result_receipt k = jb_result_receipt j \<and> jb_result_receipt k \<noteq> None"
proof -
  have l: "lf_job (life d) i = Some (jcore_of j)" using assms(2) by simp
  then have f: "lf_job (life (serve_all rs d)) i = Some (jcore_of j)"
    using run_forward [OF assms(1), of rs] assms(3) unfolding forward_def by fastforce
  have "jb_result_receipt j \<noteq> None"
    using linv_job [OF service_okD(4) [OF assms(1)] l] assms(3) by (simp add: job_ok_def)
  with f assms(3) show ?thesis by (auto simp: jcore_of_def)
qed

definition completed_job :: job where
  "completed_job = sample_job\<lparr>jb_status := Completed, jb_result_receipt :=
     Some \<lparr>rcp_message_id = 11, rcp_attempt_id = 104, rcp_published_at = 1500, rcp_private = False\<rparr>\<rparr>"

definition completed_db :: db where
  "completed_db = sample_db\<lparr>db_jobs := [completed_job], db_next := 105\<rparr>"

lemma completed_ok: "service_ok completed_db"
  by (simp add: completed_db_def completed_job_def service_ok_def keys_ok_def keyed_def approval_links_def records_ok_def ids_ok_def id_lists_def
      journal_ok_def inputs_ok_def events_ok_def rounds_ok_def approvals_ok_def remote_ok_def drafts_ok_def
      linv_def attempts_ok_def numbers_ok_def jobs_ok_def life_def get_defs job_entries_def max_inputs_def
      job_input_rows_def attempt_events_def job_ok_def jcore_of_def idle_def runs_def stop_targets_def)

theorem completed_is_final_witness:
  "\<exists>k. get_job 101 (serve_all [(sample_env, 2000, RqResume owner_user 101 1 None),
        (sample_env, 2001, RqCancel owner_user 101 1)] completed_db) = Some k \<and>
     jb_status k = Completed \<and> jb_version k = 1 \<and> jb_result_receipt k = jb_result_receipt completed_job \<and>
     jb_result_receipt k \<noteq> None"
proof -
  have j: "get_job 101 completed_db = Some completed_job" "jb_status completed_job = Completed"
    "jb_version completed_job = 1"
    by (simp_all add: completed_db_def completed_job_def get_job_def)
  show ?thesis
    using completed_is_final [OF completed_ok j(1,2), of "[(sample_env, 2000, RqResume owner_user 101 1 None),
        (sample_env, 2001, RqCancel owner_user 101 1)]"] j(3) by simp
qed

lemma run_job:
  assumes "service_ok d" "get_job i d = Some j"
  shows "\<exists>k. get_job i (serve_all rs d) = Some k \<and> job_later j k"
proof -
  have "grown job_later (db_jobs d) (db_jobs (serve_all rs d))"
    using run_later [OF assms(1)] by (simp add: later_def)
  then obtain k where k: "k \<in> set (db_jobs (serve_all rs d))" "job_later j k"
    using grownD [OF _ jobs.get_in [OF assms(2)]] by blast
  then have "jb_id k = i" using jobs.get_key [OF assms(2)] by (simp add: job_later_def job_identity_def)
  then show ?thesis using k ids_unique(1) [OF service_okD(5) [OF run_ok [OF assms(1)]] k(1)] by blast
qed

text \<open>
  No request ever deletes a job or changes what was asked: it keeps its requester, conversation,
  profile, kind, delivery target, request text and idempotency key, its version never decreases,
  and a job that is no longer a draft never becomes one again.
\<close>

theorem job_identity_is_kept:
  assumes "service_ok d" "get_job i d = Some j"
  shows "\<exists>k. get_job i (serve_all rs d) = Some k \<and> jb_requester k = jb_requester j \<and>
    jb_conversation k = jb_conversation j \<and> jb_profile k = jb_profile j \<and> jb_job_kind k = jb_job_kind j \<and>
    jb_delivery_target k = jb_delivery_target j \<and> jb_request k = jb_request j \<and>
    jb_idempotency_key k = jb_idempotency_key j \<and> jb_version j \<le> jb_version k \<and>
    (jb_status k = Draft \<longrightarrow> jb_status j = Draft)"
proof -
  obtain k where k: "get_job i (serve_all rs d) = Some k" "job_later j k"
    using run_job [OF assms] by blast
  have "jb_status j = Draft" if "jb_status k = Draft"
    using lstep_run_draft [OF service.run [OF serve_all_run assms(1)] service_okD(4) [OF assms(1)],
        of rs i "jcore_of k"] k(1) assms(2) that by (auto simp: jcore_of_def)
  with k show ?thesis by (auto simp: job_later_def job_identity_def)
qed

theorem job_identity_is_kept_witness:
  "get_job 101 queued_db \<noteq> None \<and> (\<exists>k. get_job 101 (serve_all [(sample_env, 1010, RqClaim sample_runner 600)] queued_db) = Some k \<and>
     jb_request k = ''Summarise this.'' \<and> 1 \<le> jb_version k \<and> jb_status k \<noteq> Draft)"
proof -
  have j: "get_job 101 queued_db = Some (bump_sequence sample_job)" by (simp add: get_job_def)
  show ?thesis
    using job_identity_is_kept [OF queued_ok j, of "[(sample_env, 1010, RqClaim sample_runner 600)]"] j
    by (auto simp: sample_claimed)
qed

text \<open>
  C5: The journal of a job is append-only and has no gap: after any run its entries are numbered
  1, 2, ... up to the counter of the job, and the entries it had before are still its first ones.
\<close>

theorem journal_is_gap_free:
  assumes "service_ok d" "get_job i (serve_all rs d) = Some j"
  shows "map au_sequence (job_entries i (serve_all rs d)) = [1..jb_event_sequence j] \<and>
    (\<exists>new. job_entries i (serve_all rs d) = job_entries i d @ new)"
proof -
  have "journal_ok (serve_all rs d)"
    using service_okD(2) [OF run_ok [OF assms(1)]] by (simp add: records_ok_def)
  moreover have "grown (=) (db_audit d) (db_audit (serve_all rs d))"
    using run_later [OF assms(1)] by (simp add: later_def)
  ultimately show ?thesis
    using assms(2) by (auto simp: journal_ok_def grown_prefix job_entries_def)
qed

theorem journal_is_gap_free_witness:
  "map au_sequence (job_entries 101 running_db) = [1, 2]"
proof -
  have j: "get_job 101 (serve_all sample_requests sample_db) = Some (hd (db_jobs running_db))"
    by (simp add: sample_run get_job_def)
  have "[1..2] = [1, 2 :: int]" by (simp add: upto_rec1)
  then show ?thesis
    using journal_is_gap_free [OF sample_ok j] by (simp add: sample_run)
qed

text \<open>
  C8: The inputs of a job are numbered 1, 2, ... without gap up to its counter, and there are never
  more than a hundred of them.
\<close>

theorem inputs_are_numbered:
  assumes "service_ok d" "get_job i (serve_all rs d) = Some j"
  shows "map in_sequence (job_input_rows i (serve_all rs d)) = [1..jb_input_sequence j] \<and>
    length (job_input_rows i (serve_all rs d)) \<le> 100"
proof -
  have "inputs_ok (serve_all rs d)"
    using service_okD(2) [OF run_ok [OF assms(1)]] by (simp add: records_ok_def)
  then have n: "map in_sequence (job_input_rows i (serve_all rs d)) = [1..jb_input_sequence j]"
    "jb_input_sequence j \<le> 100"
    using assms(2) by (auto simp: inputs_ok_def max_inputs_def)
  then have "length (job_input_rows i (serve_all rs d)) = length [1..jb_input_sequence j]"
    by (metis length_map)
  with n show ?thesis by simp
qed

theorem inputs_are_numbered_witness:
  "map in_sequence (job_input_rows 101 steered_db) = [1] \<and> length (job_input_rows 101 steered_db) \<le> 100"
proof -
  have r: "serve_all [(sample_env, 1005, RqInput owner_user 101 1 800 ''more'' Steering None)] queued_db = steered_db"
    by (simp add: sample_steered)
  have j: "get_job 101 steered_db = Some (hd (db_jobs steered_db))" "jb_input_sequence (hd (db_jobs steered_db)) = 1"
    by (simp_all add: steered_db_def get_job_def)
  then show ?thesis
    using inputs_are_numbered [OF queued_ok, of 101 "[(sample_env, 1005, RqInput owner_user 101 1 800 ''more'' Steering None)]"]
    unfolding r by simp
qed

text \<open>
  C7: The events a runner has reported for an attempt are in the journal with the numbers 1, 2, ...
  up to the cursor of the attempt, so none is lost, repeated or out of order.
\<close>

theorem attempt_events_have_no_gap:
  assumes "service_ok d" "get_attempt k (serve_all rs d) = Some a"
  shows "map au_attempt_sequence (attempt_events k (serve_all rs d)) = map Some [1..at_event_cursor a]"
proof -
  have "events_ok (serve_all rs d)"
    using service_okD(2) [OF run_ok [OF assms(1)]] by (simp add: records_ok_def)
  with assms(2) show ?thesis by (simp add: events_ok_def)
qed

theorem attempt_events_have_no_gap_witness:
  "map au_attempt_sequence (attempt_events 104 stopped_db) = [Some 1]"
proof -
  have r: "serve_all [(sample_env, 1050, RqEvent sample_runner stop_event None False)] running_db = stopped_db"
    by (simp add: sample_stopped)
  have a: "get_attempt 104 stopped_db = Some (hd (db_attempts stopped_db))"
    "at_event_cursor (hd (db_attempts stopped_db)) = 1"
    by (simp_all add: stopped_db_def get_attempt_def)
  then show ?thesis
    using attempt_events_have_no_gap [OF running_ok, of 104 "[(sample_env, 1050, RqEvent sample_runner stop_event None False)]"]
    unfolding r by simp
qed

end
