(* ===== verification/Record_Properties.thy ===== *)
theory Record_Properties
  imports Service_Properties
begin

text \<open>
  What holds of the records of a task along every run of the service: the budget of tool rounds,
  approvals and the operations they authorize, outcomes that are final and evidence that is only
  added.  The witnesses apply the theorems to the push of the sample, from the question to the
  start of the approved operation.
\<close>

section \<open>Rows after a run\<close>

lemma run_records:
  assumes "service_ok d"
  shows "rounds_ok (serve_all rs d)" "approvals_ok (serve_all rs d)" "remote_ok (serve_all rs d)"
  using service_okD(2) [OF run_ok [OF assms]] by (simp_all add: records_ok_def)

lemma run_attempt:
  assumes "service_ok d" "get_attempt k d = Some a"
  shows "\<exists>b. get_attempt k (serve_all rs d) = Some b \<and> attempt_later a b"
proof -
  have "grown attempt_later (db_attempts d) (db_attempts (serve_all rs d))"
    using run_later [OF assms(1)] by (simp add: later_def)
  then obtain b where b: "b \<in> set (db_attempts (serve_all rs d))" "attempt_later a b"
    using grownD [OF _ attempts.get_in [OF assms(2)]] by blast
  then have "at_id b = k" using attempts.get_key [OF assms(2)] by (simp add: attempt_later_def attempt_kept_def)
  then show ?thesis using b ids_unique(2) [OF service_okD(5) [OF run_ok [OF assms(1)]] b(1)] by blast
qed

lemma run_operation:
  assumes "service_ok d" "get_operation k d = Some x"
  shows "\<exists>y. get_operation k (serve_all rs d) = Some y \<and> operation_later x y"
proof -
  have "grown operation_later (db_operations d) (db_operations (serve_all rs d))"
    using run_later [OF assms(1)] by (simp add: later_def)
  then obtain y where y: "y \<in> set (db_operations (serve_all rs d))" "operation_later x y"
    using grownD [OF _ operations.get_in [OF assms(2)]] by blast
  then have "oper_id y = k" using operations.get_key [OF assms(2)] by (simp add: operation_later_def operation_kept_def)
  then show ?thesis using y ids_unique(3) [OF service_okD(5) [OF run_ok [OF assms(1)]] y(1)] by blast
qed

lemma run_approval:
  assumes "service_ok d" "get_approval k d = Some p"
  shows "\<exists>q. get_approval k (serve_all rs d) = Some q \<and> approval_later p q"
proof -
  have "grown approval_later (db_approvals d) (db_approvals (serve_all rs d))"
    using run_later [OF assms(1)] by (simp add: later_def)
  then obtain q where q: "q \<in> set (db_approvals (serve_all rs d))" "approval_later p q"
    using grownD [OF _ approvals.get_in [OF assms(2)]] by blast
  then have "ap_id q = k" using approvals.get_key [OF assms(2)] by (simp add: approval_later_def approval_kept_def)
  then show ?thesis using q ids_unique(4) [OF service_okD(5) [OF run_ok [OF assms(1)]] q(1)] by blast
qed

section \<open>Budget and descriptor\<close>

text \<open>
  C9: An attempt never runs more tool rounds than the budget in its descriptor allows, and the
  descriptor, its digest and the lease epoch it was claimed with never change.
\<close>

theorem attempt_stays_in_budget:
  assumes "service_ok d" "get_attempt k d = Some a"
  shows "\<exists>b. get_attempt k (serve_all rs d) = Some b \<and> at_descriptor b = at_descriptor a \<and>
    at_descriptor_digest b = at_descriptor_digest a \<and> at_lease_epoch b = at_lease_epoch a \<and>
    at_tool_rounds a \<le> at_tool_rounds b \<and> at_tool_rounds b \<le> bud_tool_rounds (de_budget (at_descriptor a))"
proof -
  obtain b where b: "get_attempt k (serve_all rs d) = Some b" "attempt_later a b"
    using run_attempt [OF assms] by blast
  then have "at_tool_rounds b \<le> bud_tool_rounds (de_budget (at_descriptor b))"
    using run_records(1) [OF assms(1)] attempts.get_in [OF b(1)] unfolding rounds_ok_def by blast
  with b show ?thesis by (auto simp: attempt_later_def attempt_kept_def)
qed

theorem attempt_stays_in_budget_witness:
  "\<exists>b. get_attempt 104 pushing_db = Some b \<and> at_descriptor b = sample_descriptor \<and> at_tool_rounds b \<le> 3"
proof -
  have a: "get_attempt 104 asking_db = Some working_attempt" by (simp add: get_defs)
  have r: "bud_tool_rounds (de_budget sample_descriptor) = 3" by (simp add: sample_budget_def)
  show ?thesis
    using attempt_stays_in_budget [OF asking_ok a, of push_requests] r by (auto simp: push_run)
qed

section \<open>Remote effects\<close>

text \<open>
  C2: Nothing leaves the device without a human decision: in every reachable database an operation
  that pushes or opens a pull request and is past its proposal has a consumed approval of the same
  arguments, made by a named user.
\<close>

theorem remote_effect_needs_approval:
  assumes "service_ok d" "x \<in> set (db_operations (serve_all rs d))"
    "oper_tool_class x \<in> {GitPush, GitDraftPr}" "oper_status x \<noteq> Proposed"
  shows "\<exists>p\<in>set (db_approvals (serve_all rs d)). ap_operation p = oper_id x \<and> ap_decision p = ApConsumed \<and>
    ap_operation_hash p = oper_argument_digest x \<and> ap_arguments p = oper_arguments x \<and> ap_approver p \<noteq> None"
proof -
  let ?e = "serve_all rs d"
  have "consumed_approval (oper_id x) ?e"
    using run_records(3) [OF assms(1)] assms(2-4) by (auto simp: remote_ok_def remote_tools_def)
  then obtain p where p: "p \<in> set (db_approvals ?e)" "ap_operation p = oper_id x" "ap_decision p = ApConsumed"
    by (auto simp: consumed_approval_def list_ex_iff)
  then obtain y where y: "y \<in> set (db_operations ?e)" "ap_operation p = oper_id y"
    "ap_operation_hash p = oper_argument_digest y" "ap_arguments p = oper_arguments y" "ap_approver p \<noteq> None"
    using run_records(2) [OF assms(1)] unfolding approvals_ok_def approval_ok_def by fastforce
  have "y = x"
    using ids_unique(3) [OF service_okD(5) [OF run_ok [OF assms(1)]]] y(1,2) p(2) assms(2)
    by (metis option.inject)
  with p y show ?thesis by blast
qed

theorem remote_effect_needs_approval_witness:
  "\<exists>p\<in>set (db_approvals pushing_db). ap_operation p = 106 \<and> ap_decision p = ApConsumed \<and> ap_approver p \<noteq> None"
proof -
  have x: "start_operation 1040 push_operation \<in> set (db_operations (serve_all push_requests asking_db))"
    "oper_tool_class (start_operation 1040 push_operation) \<in> {GitPush, GitDraftPr}"
    "oper_status (start_operation 1040 push_operation) \<noteq> Proposed"
    "oper_id (start_operation 1040 push_operation) = 106"
    by (simp_all add: push_run pushing_db_def start_operation_def)
  show ?thesis
    using remote_effect_needs_approval [OF asking_ok x(1,2,3)] x(4) by (auto simp: push_run)
qed

section \<open>Outcomes\<close>

text \<open>
  C10: The outcome of an operation is final: once it has succeeded, failed or been cancelled, no
  request changes its status, its arguments or their digest.  (An operation of the team tool is
  excepted until its receipt is stored: the receipt is stored after the fact.)
\<close>

theorem outcome_is_final:
  assumes "service_ok d" "get_operation k d = Some x" "oper_status x \<in> {OpSucceeded, OpFailed, OpCancelled}"
    "oper_tool_class x \<noteq> TeamManage \<or> oper_server_receipt x \<noteq> None"
  shows "\<exists>y. get_operation k (serve_all rs d) = Some y \<and> oper_status y = oper_status x \<and>
    oper_arguments y = oper_arguments x \<and> oper_argument_digest y = oper_argument_digest x \<and>
    oper_server_receipt y = oper_server_receipt x"
proof -
  obtain y where y: "get_operation k (serve_all rs d) = Some y" "operation_later x y"
    using run_operation [OF assms(1,2)] by blast
  moreover have "operation_rank (oper_status x) = 3" using assms(3) by auto
  moreover have "operation_rank (oper_status y) \<le> 3" by (cases "oper_status y") simp_all
  ultimately show ?thesis using assms(4) by (auto simp: operation_later_def operation_kept_def)
qed

text \<open>A push whose approval was consumed and that failed.\<close>

definition failed_push_db :: db where
  "failed_push_db = asking_db\<lparr>db_operations := [push_operation\<lparr>oper_status := OpFailed, oper_started_at := Some 1040,
       oper_finished_at := Some 1045\<rparr>],
     db_approvals := [push_approval\<lparr>ap_approver := Some 11, ap_decision := ApConsumed,
       ap_decided_at := Some 1030, ap_version := 3, ap_consumed_at := Some 1040\<rparr>]\<rparr>"

lemma failed_push_ok: "service_ok failed_push_db"
proof -
  have l: "life failed_push_db = life asking_db"
    by (simp add: failed_push_db_def life_def get_defs)
  have k: "keys_ok failed_push_db"
    by (auto simp: failed_push_db_def keys_ok_def keyed_def approval_links_def linked_def get_defs)
  have r: "ids_ok asking_db" "journal_ok asking_db" "inputs_ok asking_db" "events_ok asking_db" "rounds_ok asking_db"
    "drafts_ok asking_db" "linv (life asking_db)"
    using asking_ok by (simp_all add: service_ok_def records_ok_def)
  have "ids_ok failed_push_db" "journal_ok failed_push_db" "inputs_ok failed_push_db" "events_ok failed_push_db"
    "rounds_ok failed_push_db" "drafts_ok failed_push_db"
    using r(1-6) by (simp_all add: failed_push_db_def ids_ok_def id_lists_def journal_ok_def job_entries_def
        get_defs inputs_ok_def job_input_rows_def events_ok_def attempt_events_def rounds_ok_def drafts_ok_def)
  moreover have "approvals_ok failed_push_db" "remote_ok failed_push_db"
    by (simp_all add: failed_push_db_def approvals_ok_def approval_ok_def remote_ok_def consumed_approval_def)
  ultimately show ?thesis using k l r(7) by (simp add: service_ok_def records_ok_def)
qed

theorem outcome_is_final_witness:
  "\<exists>y. get_operation 106 (serve_all [(sample_env, 1050, RqConsume sample_runner 101 104 1 700 1 zero_digest (Some 108))]
      failed_push_db) = Some y \<and> oper_status y = OpFailed"
proof -
  let ?x = "push_operation\<lparr>oper_status := OpFailed, oper_started_at := Some 1040, oper_finished_at := Some 1045\<rparr>"
  have x: "get_operation 106 failed_push_db = Some ?x" by (simp add: failed_push_db_def get_defs)
  have s: "oper_status ?x \<in> {OpSucceeded, OpFailed, OpCancelled}"
    "oper_tool_class ?x \<noteq> TeamManage \<or> oper_server_receipt ?x \<noteq> None" by simp_all
  show ?thesis
    using outcome_is_final [OF failed_push_ok x s,
        of "[(sample_env, 1050, RqConsume sample_runner 101 104 1 700 1 zero_digest (Some 108))]"] by auto
qed

text \<open>
  C11: A decision about an approval is final: whatever was decided, it is never pending again, a
  rejected, expired or consumed approval never changes, an approved one is only ever consumed,
  cancelled or expired, and the approver stays.
\<close>

theorem decision_is_final:
  assumes "service_ok d" "get_approval k d = Some p" "ap_decision p \<noteq> ApPending"
  shows "\<exists>q. get_approval k (serve_all rs d) = Some q \<and> ap_approver q = ap_approver p \<and>
    ap_operation_hash q = ap_operation_hash p \<and>
    (ap_decision q = ap_decision p \<or>
     (ap_decision p = ApApproved \<and> ap_decision q \<in> {ApConsumed, ApCancelled, ApExpired}) \<or>
     (ap_decision p = ApCancelled \<and> ap_decision q = ApExpired))"
proof -
  obtain q where q: "get_approval k (serve_all rs d) = Some q" "approval_later p q"
    using run_approval [OF assms(1,2)] by blast
  moreover have "decision_after (ap_decision p) t \<Longrightarrow>
      (ap_decision p = ApApproved \<and> t \<in> {ApConsumed, ApCancelled, ApExpired}) \<or>
      (ap_decision p = ApCancelled \<and> t = ApExpired)" for t
    using assms(3) by (cases "ap_decision p") auto
  ultimately show ?thesis using assms(3) unfolding approval_later_def approval_kept_def by metis
qed

theorem decision_is_final_witness:
  "\<exists>q. get_approval 107 (serve_all [(sample_env, 1050, RqDecide owner_user 107 3 zero_digest 108 False)] pushing_db) = Some q \<and>
     ap_decision q = ApConsumed \<and> ap_approver q = Some 11"
proof -
  let ?p = "push_approval\<lparr>ap_approver := Some 11, ap_decision := ApConsumed,
       ap_decided_at := Some 1030, ap_version := 3, ap_consumed_at := Some 1040\<rparr>"
  have ok: "service_ok pushing_db" using run_ok [OF asking_ok, of push_requests] by (simp add: push_run)
  have p: "get_approval 107 pushing_db = Some ?p" by (simp add: pushing_db_def get_defs)
  show ?thesis
    using decision_is_final [OF ok p, of "[(sample_env, 1050, RqDecide owner_user 107 3 zero_digest 108 False)]"] by auto
qed

section \<open>Evidence\<close>

text \<open>
  Evidence is append-only: the journal, artifacts and their bytes, checkpoints, verification
  records and sent messages of a database are a prefix of those after any run, and the notices in
  the outbox keep their keys.
\<close>

theorem evidence_is_append_only:
  assumes "service_ok d"
  shows "\<exists>js fs bs cs vs ms. db_audit (serve_all rs d) = db_audit d @ js \<and>
    db_artifacts (serve_all rs d) = db_artifacts d @ fs \<and> db_blobs (serve_all rs d) = db_blobs d @ bs \<and>
    db_checkpoints (serve_all rs d) = db_checkpoints d @ cs \<and>
    db_verifications (serve_all rs d) = db_verifications d @ vs \<and>
    db_sent (serve_all rs d) = db_sent d @ ms \<and>
    ob_key ` set (db_outbox d) \<subseteq> ob_key ` set (db_outbox (serve_all rs d))"
  using run_later [OF assms, of rs] by (simp add: later_def grown_prefix)

theorem evidence_is_append_only_witness:
  "\<exists>js. db_audit pushing_db = db_audit asking_db @ js"
proof -
  have "\<exists>js fs bs cs vs ms. db_audit pushing_db = db_audit asking_db @ js \<and>
      db_artifacts pushing_db = db_artifacts asking_db @ fs \<and> db_blobs pushing_db = db_blobs asking_db @ bs \<and>
      db_checkpoints pushing_db = db_checkpoints asking_db @ cs \<and>
      db_verifications pushing_db = db_verifications asking_db @ vs \<and>
      db_sent pushing_db = db_sent asking_db @ ms \<and>
      ob_key ` set (db_outbox asking_db) \<subseteq> ob_key ` set (db_outbox pushing_db)"
    using evidence_is_append_only [OF asking_ok, of push_requests] unfolding push_run .
  then show ?thesis by blast
qed

end
