(* ===== verification/Task_Properties.thy ===== *)
theory Task_Properties
  imports Record_Properties
begin

text \<open>
  The creation of a task: what an admitted task may do, how full its queue may be, and that
  repeating a request never makes a second task.
\<close>

section \<open>The row of an admitted task\<close>

text \<open>A row but for its event counter, which the journal moves.\<close>

definition uncounted :: "job \<Rightarrow> job" where
  "uncounted j = j\<lparr>jb_event_sequence := 0\<rparr>"

lemma uncounted_bump [simp]: "uncounted (bump_sequence j) = uncounted j"
  by (simp add: uncounted_def bump_sequence_def)

lemma uncounted_sel [simp]:
  "jb_id (uncounted j) = jb_id j" "jb_realm (uncounted j) = jb_realm j" "jb_profile (uncounted j) = jb_profile j"
  "jb_status (uncounted j) = jb_status j" "jb_requester (uncounted j) = jb_requester j"
  "jb_idempotency_key (uncounted j) = jb_idempotency_key j" "jb_event_sequence (uncounted j) = 0"
  by (simp_all add: uncounted_def)

lemma uncounted_where: "map uncounted (tbl_where P bump_sequence rs) = map uncounted rs"
  by (induction rs) (simp_all add: tbl_where_def)

lemma audit_jobs:
  "audit_server en now i t pl att actor d = Inr e \<Longrightarrow> map uncounted (db_jobs e) = map uncounted (db_jobs d)"
  by (simp add: audit_server_def audit_tables uncounted_where)

lemma outbox_jobs: "create_outbox now k r i t pl d = Inr e \<Longrightarrow> db_jobs e = db_jobs d"
  by (auto simp: create_outbox_def add_outbox_def Let_def split: if_splits)

lemma announce_jobs:
  "announce_job en now u j d = Inr e \<Longrightarrow> map uncounted (db_jobs e) = map uncounted (db_jobs d)"
  by (auto simp: announce_job_def notify_conversation_def dest!: outbox_jobs audit_jobs)

lemma open_conversation_jobs:
  "open_conversation en actor p w src s d = Inr (e, cv) \<Longrightarrow> db_jobs e = db_jobs d"
  by (auto simp: open_conversation_def Let_def fresh_def add_conversation_def)

lemma message_refs_jobs: "yields (\<lambda>e. db_jobs e = db_jobs d) (store_message_refs en now j p s ms d)"
  by (rule yields_imp [OF message_refs_config]) (simp add: same_execution_def)

lemma attachment_refs_jobs: "yields (\<lambda>e. db_jobs e = db_jobs d) (store_attachment_refs en now j s ms fs d)"
  by (rule yields_imp [OF attachment_refs_config]) (simp add: same_execution_def)

text \<open>The steps of an admission.\<close>

lemma admit_job_steps:
  assumes "admit_job en now caller actor rq None p blocked m d = Inr (e, j)"
  obtains s d1 cv i d2 d4 d5 where "scope_for_message en m = Inr s"
    "open_conversation en actor p (rq_repository rq) (rq_source rq) s d = Inr (d1, cv)" "fresh d1 = (i, d2)"
    "narrowed_job en now d2 rq (new_job now actor rq (request_digest en rq) p blocked s (cv_id cv) i) = Inr j"
    "store_message_refs en now j p s (context_ids rq) (add_job j d2) = Inr d4"
    "store_attachment_refs en now j s (context_ids rq) (attachment_ids rq) d4 = Inr d5"
    "e = d5 \<or> announce_job en now caller j d5 = Inr e"
proof -
  obtain s d1 cv where s: "scope_for_message en m = Inr s"
    "open_conversation en actor p (rq_repository rq) (rq_source rq) s d = Inr (d1, cv)"
    using assms by (auto simp: admit_job_def job_conversation_for_def)
  obtain i d2 where f: "fresh d1 = (i, d2)" by (cases "fresh d1")
  obtain d4 d5 where
    "narrowed_job en now d2 rq (new_job now actor rq (request_digest en rq) p blocked s (cv_id cv) i) = Inr j"
    "store_message_refs en now j p s (context_ids rq) (add_job j d2) = Inr d4"
    "store_attachment_refs en now j s (context_ids rq) (attachment_ids rq) d4 = Inr d5"
    and e: "(if \<not> rq_draft rq \<and> blocked = [] then rbind (announce_job en now caller j d5) (\<lambda>d6. Inr (d6, j))
         else Inr (d5, j)) = Inr (e, j)"
    using assms s f
    by (auto simp: admit_job_def job_conversation_for_def save_job_def split: if_splits)
  moreover have "e = d5 \<or> announce_job en now caller j d5 = Inr e" using e by (auto split: if_splits)
  ultimately show thesis using that s f by blast
qed

text \<open>Admission adds one row, the returned one, and writes no other.\<close>

lemma admit_job_row:
  assumes "admit_job en now caller actor rq None p blocked m d = Inr (e, j)"
  shows "\<exists>d2 s cv i. scope_for_message en m = Inr s \<and> db_jobs d2 = db_jobs d \<and>
    narrowed_job en now d2 rq (new_job now actor rq (request_digest en rq) p blocked s cv i) = Inr j \<and>
    map uncounted (db_jobs e) = map uncounted (db_jobs d @ [j])"
  using assms
proof (rule admit_job_steps)
  fix s d1 cv i d2 d4 d5
  assume s: "scope_for_message en m = Inr s"
    and cv: "open_conversation en actor p (rq_repository rq) (rq_source rq) s d = Inr (d1, cv)"
    and f: "fresh d1 = (i, d2)"
    and n: "narrowed_job en now d2 rq (new_job now actor rq (request_digest en rq) p blocked s (cv_id cv) i) = Inr j"
    and d4: "store_message_refs en now j p s (context_ids rq) (add_job j d2) = Inr d4"
    and d5: "store_attachment_refs en now j s (context_ids rq) (attachment_ids rq) d4 = Inr d5"
    and e: "e = d5 \<or> announce_job en now caller j d5 = Inr e"
  have "db_jobs d2 = db_jobs d"
    using open_conversation_jobs [OF cv] f by (auto simp: fresh_def)
  moreover have "db_jobs d5 = db_jobs (add_job j d2)"
    using yieldsD [OF message_refs_jobs d4] yieldsD [OF attachment_refs_jobs d5] by simp
  moreover have "map uncounted (db_jobs e) = map uncounted (db_jobs d5)"
    using e announce_jobs by auto
  ultimately show ?thesis using s n by (auto simp: add_job_def)
qed

section \<open>Authority of an admitted task\<close>

lemma granted_actions_subset: "granted_actions en now d u j acts = Inr xs \<Longrightarrow> set xs \<subseteq> set acts"
  by (induction acts arbitrary: xs) (auto split: sum.splits if_splits)

lemma current_actions_subset: "current_actions en now d j acts = Inr xs \<Longrightarrow> set xs \<subseteq> set acts"
  by (auto simp: current_actions_def dest!: granted_actions_subset)

lemma created_row:
  assumes "create_job en now u rq None d = Inr (e, j)" "get_job (jb_id j) d = None"
  shows "\<exists>p blocked m d2 s cv i actor. admissible en now actor rq d = Inr (p, blocked, m) \<and>
    us_id actor = us_id u \<and> us_realm actor = us_realm u \<and> scope_for_message en m = Inr s \<and>
    job_of_key u (rq_key rq) d = None \<and>
    narrowed_job en now d2 rq (new_job now actor rq (request_digest en rq) p blocked s cv i) = Inr j \<and>
    map uncounted (db_jobs e) = map uncounted (db_jobs d @ [j])"
proof -
  obtain actor prior where a: "active_realm_user en (us_realm u) (us_id u) = Inr actor"
    and p: "earlier_job en now actor rq d = Inr prior"
    and r: "(case prior of Some k \<Rightarrow> Inr (d, k) | None \<Rightarrow> rbind (admissible en now actor rq d) (\<lambda>(p, blocked, m).
             admit_job en now u actor rq None p blocked m d)) = Inr (e, j)"
    using assms(1) by (auto simp: create_job_def)
  have "get_job (jb_id k) d \<noteq> None" if "prior = Some k" for k
  proof -
    have "k \<in> set (db_jobs d)"
      using p that by (auto simp: earlier_job_def job_of_key_def job_of_trigger_def find_Some_iff split: option.splits if_splits)
    then show ?thesis by (auto simp: jobs.get_rows tbl_get_def find_None_iff)
  qed
  then have "prior = None" using r assms(2) by (cases prior) auto
  then obtain pr blocked m where m: "admissible en now actor rq d = Inr (pr, blocked, m)"
    "admit_job en now u actor rq None pr blocked m d = Inr (e, j)"
    using r by auto
  have u: "us_id actor = us_id u" "us_realm actor = us_realm u"
    using a by (auto simp: active_realm_user_def get_user_def dest: tbl_get_key split: if_splits)
  have "job_of_key actor (rq_key rq) d = None"
    using p \<open>prior = None\<close> by (auto simp: earlier_job_def split: option.splits)
  then have "job_of_key u (rq_key rq) d = None" using u by (simp add: job_of_key_def)
  then show ?thesis using u m(1) admit_job_row [OF m(2)] by blast
qed


lemma sample_job_new: "get_job 101 sample_db = None"
  by (simp add: get_defs)


section \<open>The queue\<close>

lemma row_count_map: "(\<And>x. P (f x) = P x) \<Longrightarrow> row_count P (map f xs) = row_count P xs"
  by (induction xs) (simp_all add: row_count_def)

lemma row_count_uncounted:
  assumes "map uncounted xs = map uncounted ys" "\<And>j. P (uncounted j) = P j"
  shows "row_count P xs = row_count P ys"
  using row_count_map [of P uncounted xs] row_count_map [of P uncounted ys] assms by simp

text \<open>
  C24: The queue is bounded: when a request adds a queued task, the queues of its realm and of its
  profile have not grown past their limits, and a request that would exceed one is refused.
\<close>

theorem queue_stays_bounded:
  assumes "create_job en now u rq None d = Inr (e, j)" "get_job (jb_id j) d = None" "jb_status j = Queued"
  shows "\<exists>st. realm_row (us_realm u) d = Some st \<and>
    queued_jobs (\<lambda>k. jb_realm k = rs_realm st) e \<le> rs_queued_job_limit st \<and>
    queued_jobs (\<lambda>k. jb_profile k = rq_profile rq) e \<le> rs_profile_queue_limit st"
proof -
  obtain p blocked m d2 s cv i actor where c: "admissible en now actor rq d = Inr (p, blocked, m)"
    "us_realm actor = us_realm u" and
    n: "narrowed_job en now d2 rq (new_job now actor rq (request_digest en rq) p blocked s cv i) = Inr j" and
    rows: "map uncounted (db_jobs e) = map uncounted (db_jobs d @ [j])"
    using created_row [OF assms(1,2)] by blast
  have opened: "\<not> rq_draft rq" "blocked = []"
    using n assms(3) by (auto simp: narrowed_job_def new_job_def split: if_splits)
  then obtain st where st: "realm_row (us_realm u) d = Some st" "\<not> queue_full st p d" "pr_id p = rq_profile rq"
    using c by (auto simp: admissible_def enabled_settings_def realm_profile_def dest: profiles.get_key)
  have "queued_jobs P e \<le> Suc (queued_jobs P d)" if "\<And>k. P (uncounted k) = P k" for P
  proof -
    have "queued_jobs P e = row_count (\<lambda>k. P k \<and> jb_status k = Queued) (db_jobs d @ [j])"
      unfolding queued_jobs_def by (rule row_count_uncounted [OF rows]) (simp add: that)
    then show ?thesis by (simp add: queued_jobs_def row_count_def)
  qed
  from this [of "\<lambda>k. jb_realm k = rs_realm st"] this [of "\<lambda>k. jb_profile k = rq_profile rq"] st
  show ?thesis by (auto simp: queue_full_def)
qed

theorem queue_stays_bounded_witness:
  "\<exists>st. realm_row 5 sample_db = Some st \<and> queued_jobs (\<lambda>k. jb_profile k = 30) queued_db \<le> rs_profile_queue_limit st"
proof -
  have i: "get_job (jb_id sample_job) sample_db = None" "jb_status sample_job = Queued"
    using sample_job_new by simp_all
  show ?thesis using queue_stays_bounded [OF sample_create i] by auto
qed

section \<open>Repeating a request\<close>

lemma find_append: "find P (xs @ ys) = (case find P xs of None \<Rightarrow> find P ys | Some x \<Rightarrow> Some x)"
  by (induction xs) simp_all

lemma find_map: "(\<And>x. P (f x) = P x) \<Longrightarrow> find P (map f xs) = map_option f (find P xs)"
  by (induction xs) simp_all

lemma find_grown:
  assumes "grown R xs ys" "find P xs = Some x" "\<And>x y. R x y \<Longrightarrow> P x = P y"
  shows "\<exists>y. find P ys = Some y \<and> R x y"
proof -
  obtain zs ws where ys: "ys = zs @ ws" "list_all2 R xs zs" using assms(1) by (auto simp: grown_def)
  have "\<exists>y. find P zs = Some y \<and> R x y"
    using ys(2) assms(2) by (induction rule: list_all2_induct) (auto simp: assms(3) split: if_splits)
  then show ?thesis by (auto simp: ys(1) find_append)
qed

text \<open>The task of a key stays the task of that key.\<close>

lemma created_key:
  assumes "create_job en now u rq None d = Inr (e, j)" "get_job (jb_id j) d = None"
  shows "\<exists>k. job_of_key u (rq_key rq) e = Some k \<and> uncounted k = uncounted j"
proof -
  let ?P = "\<lambda>k. jb_realm k = us_realm u \<and> jb_requester k = us_id u \<and> jb_idempotency_key k = rq_key rq"
  obtain p blocked d2 s cv i actor where c: "us_id actor = us_id u" "us_realm actor = us_realm u"
    "job_of_key u (rq_key rq) d = None" and
    n: "narrowed_job en now d2 rq (new_job now actor rq (request_digest en rq) p blocked s cv i) = Inr j" and
    rows: "map uncounted (db_jobs e) = map uncounted (db_jobs d @ [j])"
    using created_row [OF assms] by blast
  have "?P j" using narrowed_job_row [OF n] c(1,2) by (auto simp: new_job_def)
  moreover have m: "find ?P (map uncounted js) = map_option uncounted (find ?P js)" for js
    by (rule find_map) (simp add: uncounted_def)
  ultimately have "map_option uncounted (find ?P (db_jobs e)) = Some (uncounted j)"
    using c(3) by (simp add: m [symmetric] rows find_append job_of_key_def) (simp add: m)
  then show ?thesis by (auto simp: job_of_key_def)
qed

lemma key_stays:
  assumes "service_ok e" "job_of_key u key e = Some k"
  shows "\<exists>l. job_of_key u key (serve_all rs e) = Some l \<and> jb_id l = jb_id k"
proof -
  have "grown job_later (db_jobs e) (db_jobs (serve_all rs e))"
    using run_later [OF assms(1)] by (simp add: later_def)
  from find_grown [OF this assms(2) [unfolded job_of_key_def]]
  obtain l where l: "find (\<lambda>j. jb_realm j = us_realm u \<and> jb_requester j = us_id u \<and> jb_idempotency_key j = key)
      (db_jobs (serve_all rs e)) = Some l" "job_later k l"
    by (auto simp: job_later_def job_identity_def)
  then show ?thesis by (auto simp: job_of_key_def job_later_def job_identity_def)
qed

text \<open>
  C25: A request is admitted at most once: whatever happens after a task was created, a later create
  request of the same user with the same idempotency key either fails or returns that very task
  and changes nothing.
\<close>

theorem repeated_request_makes_no_second_task:
  assumes "service_ok d" "create_job en now u rq None d = Inr (e, j)" "get_job (jb_id j) d = None"
    and "rq_key rq' = rq_key rq" "create_job en' now' u rq' None (serve_all rs e) = Inr (f, k)"
  shows "f = serve_all rs e \<and> jb_id k = jb_id j"
proof -
  have "serve en now (RqCreate u rq) d = e" using assms(2) by (simp add: serve_def state_of_def)
  then have e: "service_ok e" using serve_ok [OF assms(1)] by metis
  obtain k0 where k0: "job_of_key u (rq_key rq) e = Some k0" "jb_id k0 = jb_id j"
    using created_key [OF assms(2,3)] by (metis uncounted_sel(1))
  obtain l where l: "job_of_key u (rq_key rq) (serve_all rs e) = Some l" "jb_id l = jb_id j"
    using key_stays [OF e k0(1)] k0(2) by metis
  obtain actor prior where a: "active_realm_user en' (us_realm u) (us_id u) = Inr actor"
    and p: "earlier_job en' now' actor rq' (serve_all rs e) = Inr prior"
    and r: "(case prior of Some k \<Rightarrow> Inr (serve_all rs e, k)
        | None \<Rightarrow> rbind (admissible en' now' actor rq' (serve_all rs e)) (\<lambda>(p, blocked, m).
             admit_job en' now' u actor rq' None p blocked m (serve_all rs e))) = Inr (f, k)"
    using assms(5) by (auto simp: create_job_def)
  have "us_id actor = us_id u" "us_realm actor = us_realm u"
    using a by (auto simp: active_realm_user_def get_user_def dest: tbl_get_key split: if_splits)
  then have "job_of_key actor (rq_key rq') (serve_all rs e) = Some l"
    using l(1) assms(4) by (simp add: job_of_key_def)
  then have "prior = Some l" using p by (auto simp: earlier_job_def)
  then show ?thesis using r l(2) by simp
qed

lemma sample_create_again:
  "create_job sample_env 1001 owner_user code_request None queued_db = Inr (queued_db, bump_sequence sample_job)"
proof -
  have c: "get_conversation 100 queued_db = Some sample_conversation" "get_job 101 queued_db = Some (bump_sequence sample_job)"
    "latest_attempt 101 queued_db = None"
    by (simp_all add: get_defs sample_conversation_def latest_attempt_def job_attempts_def)
  have b: "accepted_audience sample_conversation = Inr sample_audience" "aud_user_ids sample_audience = [11, 12]"
    by (simp_all add: accepted_audience_def sample_conversation_def) (simp add: sample_audience_def)
  have r: "require_job_access sample_env 1001 queued_db owner_user (bump_sequence sample_job) = Inr ()"
    using queued_sampled c b
    by (simp add: require_job_access_def job_profile_def fetch_opt_def history_provider_def
        history_resources_def job_conversation_def read_message_def)
  have "jb_payload_digest (bump_sequence sample_job) = request_digest sample_env code_request"
    "jb_idempotency_key (bump_sequence sample_job) = rq_key code_request"
    by (simp_all add: bump_sequence_def sample_job_def new_job_def)
  then show ?thesis
    using r
    by (simp add: create_job_def request_shape_ok_def follows_ok_def selection_ok_def context_ids_def
        attachment_ids_def active_realm_user_def earlier_job_def job_of_key_def)
qed

theorem repeated_request_makes_no_second_task_witness:
  "jb_id (bump_sequence sample_job) = jb_id sample_job \<and>
   create_job sample_env 1001 owner_user code_request None queued_db = Inr (queued_db, bump_sequence sample_job)"
proof -
  have i: "get_job (jb_id sample_job) sample_db = None" using sample_job_new by simp
  have "create_job sample_env 1001 owner_user code_request None (serve_all [] queued_db) =
      Inr (queued_db, bump_sequence sample_job)"
    using sample_create_again by simp
  from repeated_request_makes_no_second_task [OF sample_ok sample_create i refl this] sample_create_again
  show ?thesis by simp
qed

end
