(* ===== verification/Attempt_Properties.thy ===== *)
theory Attempt_Properties
  imports Task_Properties
begin

text \<open>
  Claims and leases: what a claim hands to the runner, that repeating a claim returns the same
  attempt, the capacity of a runner, and that a lease that has run out is never revived and
  authorizes nothing.
\<close>

section \<open>A claim adds one attempt\<close>

lemma audit_attempts:
  "audit_server en now i t pl att actor d = Inr e \<Longrightarrow> db_attempts e = db_attempts d"
  by (simp add: audit_server_def audit_tables)

lemma transition_attempts [simp]: "db_attempts (transition i t r d) = db_attempts d"
  by (simp add: transition_def Let_def notify_job_ended_def notify_conversation_def update_job_def
      split: option.split)

text \<open>The attempt of a candidate, as the code builds it.\<close>

definition attempt_for :: "env \<Rightarrow> time \<Rightarrow> runner \<Rightarrow> uuid \<Rightarrow> job \<Rightarrow> db \<Rightarrow> attempt \<Rightarrow> attempt_descriptor \<Rightarrow> bool" where
  "attempt_for en now r key j d a de =
     (active_attempts (jb_id j) d = [] \<and> at_job a = jb_id j \<and> at_runner a = ru_id r \<and> at_claim_key a = key \<and>
      at_active a \<and> at_realm a = jb_realm j \<and> at_number a = next_number (jb_id j) d \<and> at_lease_epoch a = at_number a \<and>
      at_lease_expires_at a = now + 90 \<and> at_descriptor a = de \<and> at_process_state a = Starting \<and>
      (\<exists>d1 li ck. db_attempts d1 = db_attempts d \<and> build_descriptor en now d1 j li (now + 90) ck = Inr de))"

lemma claim_candidate_result:
  "yields (\<lambda>(e, x). case x of None \<Rightarrow> db_attempts e = db_attempts d
     | Some de \<Rightarrow> \<exists>a. db_attempts e = db_attempts d @ [a] \<and> attempt_for en now r key j d a de)
   (claim_candidate en now r key j d)"
proof -
  have a: "attempt_for en now r key j d (new_attempt now r key j \<lparr>li_job_id = jb_id j, li_attempt_id = i,
      li_lease_epoch = next_number (jb_id j) d\<rparr> (now + lease_seconds) aud ck p pv de) de"
    if "active_attempts (jb_id j) d = []"
      "build_descriptor en now (d\<lparr>db_next := n\<rparr>) j li (now + lease_seconds) ck = Inr de" for i aud ck p pv de n li
    using that unfolding attempt_for_def lease_seconds_def
    by (auto simp: new_attempt_def intro!: exI [of _ "d\<lparr>db_next := n\<rparr>"])
  show ?thesis
    unfolding claim_candidate_def start_attempt_def Let_def
    by (intro yields_rules) (auto simp: fresh_def add_attempt_def dest!: audit_attempts intro: a)
qed

lemma claim_candidate_Some:
  "claim_candidate en now r key j d = Inr (e, Some de) \<Longrightarrow>
   \<exists>a. db_attempts e = db_attempts d @ [a] \<and> attempt_for en now r key j d a de"
  using yieldsD [OF claim_candidate_result] by fastforce

lemma claim_candidate_skips:
  "claim_candidate en now r key j d = Inr (e, None) \<Longrightarrow> db_attempts e = db_attempts d"
  using yieldsD [OF claim_candidate_result] by fastforce

lemma claim_loop_Some:
  "claim_loop en now r key js d = Inr (e, Some de) \<Longrightarrow>
   \<exists>a d1. \<exists>j\<in>set js. db_attempts d1 = db_attempts d \<and> db_attempts e = db_attempts d @ [a] \<and>
     attempt_for en now r key j d1 a de"
proof (induction js arbitrary: d)
  case (Cons j js)
  then obtain d' x where c: "claim_candidate en now r key j d = Inr (d', x)"
    and l: "(case x of Some de \<Rightarrow> Inr (d', Some de) | None \<Rightarrow> claim_loop en now r key js d') = Inr (e, Some de)"
    by auto
  show ?case
  proof (cases x)
    case None
    with claim_candidate_skips c l Cons.IH [of d'] show ?thesis by fastforce
  next
    case (Some y)
    with claim_candidate_Some [of en now r key j d d' y] c l show ?thesis by fastforce
  qed
qed simp

lemma claim_loop_None: "claim_loop en now r key js d = Inr (e, None) \<Longrightarrow> db_attempts e = db_attempts d"
proof (induction js arbitrary: d)
  case (Cons j js)
  then show ?case by (auto dest: claim_candidate_skips split: option.splits)
qed simp

lemma claim_work_new:
  assumes "claim_work en now ru key d = Inr (e, Some de)"
    and "\<forall>a\<in>set (db_attempts d). \<not> (at_runner a = ru_id ru \<and> at_claim_key a = key)"
  shows "\<exists>st r a d1. \<exists>j\<in>set (claim_candidates now (ru_id ru) d). realm_row (ru_realm ru) d = Some st \<and>
    get_runner (ru_id ru) d = Some r \<and> \<not> at_capacity st r d \<and> db_attempts d1 = db_attempts d \<and>
    db_attempts e = db_attempts d @ [a] \<and> attempt_for en now r key j d1 a de"
proof -
  obtain st r where r: "realm_row (ru_realm ru) d = Some st" "get_runner (ru_id ru) d = Some r"
    and c: "(case find (\<lambda>a. at_runner a = ru_id r \<and> at_claim_key a = key) (db_attempts d) of
           Some a \<Rightarrow> Inr (d, Some (at_descriptor a))
         | None \<Rightarrow>
             if \<not> rs_enabled st then Inl (ValueErr ''Agent feature is disabled.'')
             else if at_capacity st r d then Inr (d, None)
             else claim_loop en now r key (claim_candidates now (ru_id r) d) d) = Inr (e, Some de)"
    using assms(1) by (auto simp: claim_work_def)
  have i: "ru_id r = ru_id ru" by (rule runners.get_key [OF r(2)])
  have "find (\<lambda>a. at_runner a = ru_id r \<and> at_claim_key a = key) (db_attempts d) = None"
    using assms(2) i by (auto simp: find_None_iff)
  then have "\<not> at_capacity st r d" "claim_loop en now r key (claim_candidates now (ru_id ru) d) d = Inr (e, Some de)"
    using c i by (auto split: if_splits)
  with r claim_loop_Some show ?thesis by metis
qed

section \<open>The descriptor\<close>

lemma with_digest [simp]:
  "profile_instructions (de\<lparr>de_descriptor_digest := h\<rparr>) = profile_instructions de"
  "derive_attempt_configuration sha (de\<lparr>de_descriptor_digest := h\<rparr>) = derive_attempt_configuration sha de"
  "validate_attempt_configuration sha (de\<lparr>de_descriptor_digest := h\<rparr>) = validate_attempt_configuration sha de"
proof -
  show i: "profile_instructions (de\<lparr>de_descriptor_digest := h\<rparr>) = profile_instructions de"
    by (simp add: profile_instructions_def)
  show d: "derive_attempt_configuration sha (de\<lparr>de_descriptor_digest := h\<rparr>) = derive_attempt_configuration sha de"
    unfolding derive_attempt_configuration_def i by simp
  show "validate_attempt_configuration sha (de\<lparr>de_descriptor_digest := h\<rparr>) = validate_attempt_configuration sha de"
    unfolding validate_attempt_configuration_def d by (simp cong del: if_weak_cong)
qed

lemma valid_descriptor_digest:
  assumes "valid_descriptor sha de" "digest_ok h"
  shows "valid_descriptor sha (de\<lparr>de_descriptor_digest := h\<rparr>)"
proof -
  have "constrain_execution sha (de\<lparr>de_descriptor_digest := h\<rparr>) = constrain_execution sha de"
    unfolding constrain_execution_def with_digest
    by (cases de) (simp only: attempt_descriptor.select_convs attempt_descriptor.update_convs cong del: if_weak_cong)
  moreover have "descriptor_fields_ok (de\<lparr>de_descriptor_digest := h\<rparr>)"
    using assms unfolding valid_descriptor_def descriptor_fields_ok_def by simp
  ultimately show ?thesis using assms(1) unfolding valid_descriptor_def by simp
qed

lemma build_descriptorD:
  assumes "build_descriptor en now d j li expires ck = Inr de" "\<And>t. digest_ok (en_sha en t)"
  shows "valid_descriptor (en_sha en) de \<and> set (pol_actions (de_policy de)) \<subseteq> set (pol_actions (jb_policy j)) \<and>
    de_budget de = jb_budget j \<and> de_request de = jb_request j \<and> de_job_id de = jb_id j \<and>
    de_job_kind de = jb_job_kind j \<and> de_lease_expires_at de = expires \<and> de_attempt_id de = li_attempt_id li"
proof -
  obtain p aud tested pc repo acts instr where
    acts: "current_actions en now d j (pol_actions (jb_policy j)) = Inr acts" and
    v: "valid_descriptor (en_sha en) (draft_descriptor j li expires p aud tested pc repo acts instr ck d)" and
    de: "de = (draft_descriptor j li expires p aud tested pc repo acts instr ck d)\<lparr>de_descriptor_digest :=
      descriptor_digest (en_sha en) (en_dump_descriptor en (draft_descriptor j li expires p aud tested pc repo acts instr ck d))\<rparr>"
    using assms(1) by (auto simp: build_descriptor_def Let_def)
  have "digest_ok (descriptor_digest (en_sha en) kvs)" for kvs
    using assms(2) by (simp add: descriptor_digest_def)
  with v have "valid_descriptor (en_sha en) de" unfolding de by (rule valid_descriptor_digest)
  moreover have "set acts \<subseteq> set (pol_actions (jb_policy j))" by (rule current_actions_subset [OF acts])
  ultimately show ?thesis unfolding de by (simp add: draft_descriptor_def)
qed

lemma valid_descriptor_actions:
  "valid_descriptor sha de \<Longrightarrow> set (pol_actions (de_policy de)) \<subseteq> set (ec_actions (de_tested de))"
  by (auto simp: valid_descriptor_def succeeds_iff constrain_execution_def validate_attempt_configuration_def
      derive_attempt_configuration_def Let_def)

text \<open>
  C17: A claim hands out one new attempt for a queued task that had none, with a lease of 90 seconds
  and a valid descriptor: its actions are among those of the task and those that were tested, and
  budget and request are the task's.  (The digest function is assumed to return 64 hex digits, as
  SHA-256 does.)
\<close>

theorem claim_grants_valid_descriptor:
  assumes "claim_work en now ru key d = Inr (e, Some de)" "\<And>t. digest_ok (en_sha en t)"
    and "\<forall>a\<in>set (db_attempts d). \<not> (at_runner a = ru_id ru \<and> at_claim_key a = key)"
  shows "\<exists>a j. db_attempts e = db_attempts d @ [a] \<and> j \<in> set (db_jobs d) \<and> jb_status j = Queued \<and>
    jb_runner j = ru_id ru \<and> at_job a = jb_id j \<and> active_attempts (jb_id j) d = [] \<and>
    at_active a \<and> at_lease_expires_at a = now + 90 \<and> at_descriptor a = de \<and>
    valid_descriptor (en_sha en) de \<and>
    set (pol_actions (de_policy de)) \<subseteq> set (pol_actions (jb_policy j)) \<inter> set (ec_actions (de_tested de)) \<and>
    de_budget de = jb_budget j \<and> de_request de = jb_request j"
proof -
  obtain r a d1 j where j: "j \<in> set (claim_candidates now (ru_id ru) d)" and
    d1: "db_attempts d1 = db_attempts d" and e: "db_attempts e = db_attempts d @ [a]" and
    a: "attempt_for en now r key j d1 a de"
    using claim_work_new [OF assms(1,3)] by blast
  have q: "j \<in> set (db_jobs d)" "jb_status j = Queued" "jb_runner j = ru_id ru"
    using j by (auto simp: claim_candidates_def dest: in_set_takeD)
  obtain d2 li ck where b: "build_descriptor en now d2 j li (now + 90) ck = Inr de"
    using a by (auto simp: attempt_for_def)
  note de = build_descriptorD [OF b assms(2)]
  have "active_attempts (jb_id j) d = []" using a d1 by (simp add: attempt_for_def active_attempts_def)
  moreover have "set (pol_actions (de_policy de)) \<subseteq> set (ec_actions (de_tested de))"
    using de valid_descriptor_actions by blast
  ultimately show ?thesis
    using q e a de unfolding attempt_for_def by (intro exI [of _ a] exI [of _ j]) simp
qed

lemma sample_digest_ok: "digest_ok (en_sha sample_env t)"
  by (simp add: sample_sha_def digest_ok_def zero_digest_def is_hex_def is_decimal_def list_all_iff)

theorem claim_grants_valid_descriptor_witness:
  "valid_descriptor sample_sha sample_descriptor \<and> db_attempts running_db = db_attempts queued_db @ [sample_attempt] \<and>
   set (pol_actions (de_policy sample_descriptor)) \<subseteq> set (ec_actions (de_tested sample_descriptor))"
proof -
  have n: "\<forall>a\<in>set (db_attempts queued_db). \<not> (at_runner a = ru_id sample_runner \<and> at_claim_key a = 600)" by simp
  show ?thesis using claim_grants_valid_descriptor [OF sample_claim sample_digest_ok n] by auto
qed

section \<open>Capacity\<close>

text \<open>
  C18: A claim never exceeds the capacity of its runner or the limit of active tasks of the realm.
\<close>

theorem claim_respects_capacity:
  assumes "claim_work en now ru key d = Inr (e, Some de)"
    and "\<forall>a\<in>set (db_attempts d). \<not> (at_runner a = ru_id ru \<and> at_claim_key a = key)"
  shows "\<exists>st r. realm_row (ru_realm ru) d = Some st \<and> get_runner (ru_id ru) d = Some r \<and>
    int (row_count (\<lambda>a. at_runner a = ru_id r \<and> at_active a) (db_attempts e)) \<le> int (ru_capacity r) \<and>
    int (row_count (\<lambda>a. at_realm a = ru_realm r \<and> at_active a) (db_attempts e)) \<le> int (rs_active_job_limit st)"
proof -
  obtain st r a where s: "realm_row (ru_realm ru) d = Some st" "get_runner (ru_id ru) d = Some r"
    "\<not> at_capacity st r d" "db_attempts e = db_attempts d @ [a]"
    using claim_work_new [OF assms] by blast
  have "row_count P (db_attempts e) \<le> Suc (row_count P (db_attempts d))" for P
    using s(4) by (simp add: row_count_def)
  from this [of "\<lambda>a. at_runner a = ru_id r \<and> at_active a"] this [of "\<lambda>a. at_realm a = ru_realm r \<and> at_active a"]
  show ?thesis using s by (auto simp: at_capacity_def)
qed

theorem claim_respects_capacity_witness:
  "\<exists>r. get_runner 20 queued_db = Some r \<and>
     row_count (\<lambda>a. at_runner a = ru_id r \<and> at_active a) (db_attempts running_db) \<le> ru_capacity r"
proof -
  have n: "\<forall>a\<in>set (db_attempts queued_db). \<not> (at_runner a = ru_id sample_runner \<and> at_claim_key a = 600)" by simp
  show ?thesis using claim_respects_capacity [OF sample_claim n] by auto
qed

section \<open>Repeating a claim\<close>

text \<open>
  A claim is idempotent: once a claim key has returned a descriptor, the same key returns that
  descriptor again, at any later time and whatever happened in between, without a second attempt.
\<close>

theorem repeated_claim_returns_the_attempt:
  assumes "service_ok d" "claim_work en now ru key d = Inr (e, Some de)"
    and "realm_row (ru_realm ru) (serve_all rs e) = Some st"
    and "get_runner (ru_id ru) (serve_all rs e) = Some r" "ru_revoked_at r = None"
  shows "claim_work en' now' ru key (serve_all rs e) = Inr (serve_all rs e, Some de)"
proof -
  let ?P = "\<lambda>a. at_runner a = ru_id ru \<and> at_claim_key a = key"
  have "\<exists>a. find ?P (db_attempts e) = Some a \<and> at_descriptor a = de"
  proof (cases "find ?P (db_attempts d)")
    case None
    then have n: "\<forall>a\<in>set (db_attempts d). \<not> ?P a" by (simp add: find_None_iff)
    from claim_work_new [OF assms(2) n] runners.get_key
    obtain r a d1 j where "db_attempts e = db_attempts d @ [a]" "attempt_for en now r key j d1 a de" "ru_id r = ru_id ru"
      by metis
    then show ?thesis using None by (simp add: find_append attempt_for_def)
  next
    case (Some a)
    then show ?thesis using assms(2) by (auto simp: claim_work_def dest!: runners.get_key)
  qed
  then obtain a where a: "find ?P (db_attempts e) = Some a" "at_descriptor a = de" by blast
  have "serve en now (RqClaim ru key) d = e" using assms(2) by (simp add: serve_def state_of_def)
  then have "service_ok e" using serve_ok [OF assms(1)] by metis
  then have "grown attempt_later (db_attempts e) (db_attempts (serve_all rs e))"
    using run_later by (simp add: later_def)
  then obtain b where b: "find ?P (db_attempts (serve_all rs e)) = Some b" "attempt_later a b"
    using find_grown [of attempt_later, OF _ a(1)] by (auto simp: attempt_later_def attempt_kept_def)
  then show ?thesis
    using assms(3-5) a(2) runners.get_key [OF assms(4)]
    by (simp add: claim_work_def attempt_later_def attempt_kept_def)
qed

theorem repeated_claim_returns_the_attempt_witness:
  "claim_work sample_env 1200 sample_runner 600 stopped_db = Inr (stopped_db, Some sample_descriptor)"
proof -
  have r: "serve_all [(sample_env, 1050, RqEvent sample_runner stop_event None False)] running_db = stopped_db"
    by (simp add: sample_stopped)
  have g: "realm_row (ru_realm sample_runner) stopped_db = Some sample_settings"
    "get_runner (ru_id sample_runner) stopped_db = Some sample_runner" "ru_revoked_at sample_runner = None"
    using queued_sampled by (simp_all add: stopped_db_def running_db_def sampled_def realm_row_def get_runner_def)
  from repeated_claim_returns_the_attempt [OF queued_ok sample_claim,
      of "[(sample_env, 1050, RqEvent sample_runner stop_event None False)]", unfolded r, OF g]
  show ?thesis .
qed

end
