(* ===== verification/Lease_Properties.thy ===== *)
theory Lease_Properties
  imports Attempt_Properties
begin

text \<open>
  What a lease is worth: a heartbeat renews a live lease within the time budget and never revives one
  that has run out, and a request under a dead lease is refused whatever it asks.
\<close>

section \<open>What a heartbeat changes of an attempt\<close>

text \<open>The new end of a lease, when it was live.\<close>

definition renewed :: "time \<Rightarrow> attempt \<Rightarrow> attempt \<Rightarrow> bool" where
  "renewed now a b =
     (at_created_at b = at_created_at a \<and> at_descriptor b = at_descriptor a \<and> at_active b = at_active a \<and>
      (at_lease_expires_at b = at_lease_expires_at a \<or>
       (now < at_lease_expires_at a \<and> at_active a \<and>
        at_lease_expires_at b = min (now + 90) (at_created_at a + active_seconds a))))"

lemma renewed_refl [simp]: "renewed now a a"
  by (simp add: renewed_def)

lemma renewed_trans: "renewed now a b \<Longrightarrow> renewed now b c \<Longrightarrow> renewed now a c"
  by (auto simp: renewed_def active_seconds_def)

definition all_renewed :: "time \<Rightarrow> db \<Rightarrow> db \<Rightarrow> bool" where
  "all_renewed now d e = (\<forall>k a. get_attempt k d = Some a \<longrightarrow> (\<exists>b. get_attempt k e = Some b \<and> renewed now a b))"

lemma all_renewed_refl [simp]: "all_renewed now d d"
  by (simp add: all_renewed_def)

lemma all_renewed_trans: "all_renewed now d e \<Longrightarrow> all_renewed now e f \<Longrightarrow> all_renewed now d f"
  unfolding all_renewed_def using renewed_trans by meson

lemma update_attempt_renewed:
  assumes "\<And>r. at_id (f r) = at_id r" "\<And>r. get_attempt i d = Some r \<Longrightarrow> renewed now r (f r)"
  shows "all_renewed now d (update_attempt i f d)"
  unfolding all_renewed_def
  using assms attempts.get_key by (auto simp: get_update_attempt dest!: attempts.get_key)

lemma update_job_attempts [simp]: "get_attempt k (update_job i f d) = get_attempt k d"
  by (simp add: update_job_def get_attempt_def)

lemma fence_renewed: "all_renewed now d (fence_prepared_result j a d)"
proof -
  have "all_renewed now d (update_attempt (at_id a) (\<lambda>r. r\<lparr>at_process_state := Stopping\<rparr>) d)"
    by (rule update_attempt_renewed) (simp_all add: renewed_def)
  then show ?thesis by (simp add: fence_prepared_result_def all_renewed_def)
qed

lemma renew_renewed:
  assumes "get_attempt (at_id a) d0 = Some a" "now < at_lease_expires_at a" "at_active a" "all_renewed now d0 d"
  shows "all_renewed now d0 (renew_lease now a d)"
  unfolding all_renewed_def
proof (intro allI impI)
  fix k x
  assume x: "get_attempt k d0 = Some x"
  with assms(4) obtain b where b: "get_attempt k d = Some b" "renewed now x b" by (auto simp: all_renewed_def)
  have "at_id b = k" by (rule attempts.get_key [OF b(1)])
  have "renewed now x (b\<lparr>at_lease_expires_at := min (now + 90) (at_created_at a + active_seconds a)\<rparr>)" if "k = at_id a"
    using that x assms(1-3) b(2) by (auto simp: renewed_def)
  then show "\<exists>b. get_attempt k (renew_lease now a d) = Some b \<and> renewed now x b"
    using b \<open>at_id b = k\<close> by (auto simp: renew_lease_def get_update_attempt lease_seconds_def)
qed

lemma heartbeat_one_renewed: "yields (\<lambda>(e, x). all_renewed now d e) (heartbeat_one en now r li d)"
proof (rule yieldsI, clarify)
  fix e x
  assume h: "heartbeat_one en now r li d = Inr (e, x)"
  obtain j a where l: "locked_attempt en now r (li_job_id li) (li_attempt_id li) (li_lease_epoch li) None False d = Inr (j, a)"
    using h by (auto simp: heartbeat_one_def)
  have "all_renewed now d (renew_lease now a (fence_prepared_result j a d))"
    if "locked_attempt en now r (jb_id j) (at_id a) (at_lease_epoch a) None True d = Inr q" for q
  proof -
    obtain j' a' where q: "q = (j', a')" by (cases q)
    have "get_attempt (at_id a) d = Some a'" "now < at_lease_expires_at a'" "at_active a'"
      using locked_attemptD [OF that [unfolded q]] executionD [OF that [unfolded q]] by simp_all
    moreover have "get_attempt (li_attempt_id li) d = Some a"
      using l by (auto simp: locked_attempt_def find_attempt_def)
    ultimately show ?thesis
      using attempts.get_key by (metis fence_renewed option.inject renew_renewed)
  qed
  with h l show "all_renewed now d e"
    by (auto simp: heartbeat_one_def split: if_splits)
qed

lemma heartbeat_loop_renewed: "heartbeat_loop en now r lis d = Inr (e, hs) \<Longrightarrow> all_renewed now d e"
proof (induction lis arbitrary: d hs)
  case (Cons li lis)
  then obtain d1 x rest where "heartbeat_one en now r li d = Inr (d1, x)" "heartbeat_loop en now r lis d1 = Inr (e, rest)"
    by auto
  then show ?case
    using yieldsD [OF heartbeat_one_renewed] Cons.IH all_renewed_trans by fastforce
qed simp

text \<open>
  C19: A heartbeat never revives a lease: an attempt whose lease has run out, or that is not active,
  keeps its old end, and a live lease is extended by at most 90 seconds and never past the time
  budget of the descriptor.
\<close>

theorem heartbeat_never_revives:
  assumes "heartbeat en now ru lis d = Inr (e, hs)" "get_attempt k d = Some a"
  shows "\<exists>b. get_attempt k e = Some b \<and> at_active b = at_active a \<and>
    (at_lease_expires_at a \<le> now \<or> \<not> at_active a \<longrightarrow> at_lease_expires_at b = at_lease_expires_at a) \<and>
    at_lease_expires_at b \<le> max (at_lease_expires_at a)
      (min (now + 90) (at_created_at a + bud_active_seconds (de_budget (at_descriptor a))))"
proof -
  obtain r where r: "heartbeat_loop en now r lis (put_runner r d) = Inr (e, hs)"
    using assms(1) by (auto simp: heartbeat_def Let_def)
  have "get_attempt k (put_runner r d) = Some a"
    using assms(2) by (simp add: put_runner_def get_attempt_def)
  then obtain b where "get_attempt k e = Some b" "renewed now a b"
    using heartbeat_loop_renewed [OF r] by (auto simp: all_renewed_def)
  then show ?thesis by (auto simp: renewed_def active_seconds_def)
qed

text \<open>An attempt of the sample near the end of its first lease.\<close>

definition beating_db :: db where
  "beating_db = running_db\<lparr>db_attempts := [sample_attempt\<lparr>at_created_at := 950, at_lease_expires_at := 1040\<rparr>]\<rparr>"

lemma sample_beat:
  "\<exists>hs. heartbeat sample_env 1000 sample_runner [sample_lease] beating_db =
     Inr (beating_db\<lparr>db_attempts := [sample_attempt\<lparr>at_created_at := 950, at_lease_expires_at := 1090\<rparr>]\<rparr>, hs)"
proof -
  let ?j = "sample_job\<lparr>jb_status := Running, jb_version := 2, jb_event_sequence := 2\<rparr>"
  let ?a = "sample_attempt\<lparr>at_created_at := 950, at_lease_expires_at := 1040\<rparr>"
  have s: "sampled beating_db" "get_conversation 100 beating_db = Some sample_conversation"
    "get_job 101 beating_db = Some ?j" "get_attempt 104 beating_db = Some ?a"
    using queued_sampled by (simp_all add: beating_db_def sampled_def get_defs sample_conversation_def running_db_def)
  have l: "locked_attempt sample_env 1000 sample_runner 101 104 1 None b beating_db = Inr (?j, ?a)" for b
    using s by (intro sample_locked) (simp_all add: executing_states_def)
  have r: "sample_runner\<lparr>ru_last_heartbeat_at := Some 1000, ru_status := ROnline\<rparr> = sample_runner"
    by (simp add: sample_runner_def)
  have p: "put_runner sample_runner beating_db = beating_db"
  proof -
    have "tbl_save ru_id sample_runner (db_runners beating_db) = db_runners beating_db"
      using s(1) by (simp add: tbl_save_def sampled_def)
    moreover have "beating_db\<lparr>db_runners := db_runners beating_db\<rparr> = beating_db" by simp
    ultimately show ?thesis by (simp only: put_runner_def)
  qed
  have w: "renew_lease 1000 ?a (fence_prepared_result ?j ?a beating_db) =
      beating_db\<lparr>db_attempts := [sample_attempt\<lparr>at_created_at := 950, at_lease_expires_at := 1090\<rparr>]\<rparr>"
    by (simp add: renew_lease_def fence_prepared_result_def beating_db_def update_attempt_def tbl_where_def
        lease_seconds_def active_seconds_def sample_budget_def)
  have h: "\<exists>h. heartbeat_entry_of 101 104 (beating_db\<lparr>db_attempts :=
      [sample_attempt\<lparr>at_created_at := 950, at_lease_expires_at := 1090\<rparr>]\<rparr>) = Inr h"
    using s(3) by (simp add: heartbeat_entry_of_def get_defs beating_db_def)
  have "heartbeat sample_env 1000 sample_runner [sample_lease] beating_db =
      heartbeat_loop sample_env 1000 sample_runner [sample_lease] beating_db"
    using s(1) by (simp add: heartbeat_def r p Let_def del: heartbeat_loop.simps)
  moreover obtain h where "heartbeat_one sample_env 1000 sample_runner sample_lease beating_db =
      Inr (beating_db\<lparr>db_attempts := [sample_attempt\<lparr>at_created_at := 950, at_lease_expires_at := 1090\<rparr>]\<rparr>, Some h)"
    using h l [of False] l [of True] w by (auto simp: heartbeat_one_def executing_states_def)
  ultimately show ?thesis by simp
qed

theorem heartbeat_never_revives_witness:
  "\<exists>b. get_attempt 104 (beating_db\<lparr>db_attempts := [sample_attempt\<lparr>at_created_at := 950, at_lease_expires_at := 1090\<rparr>]\<rparr>) = Some b \<and>
     at_lease_expires_at b \<le> max 1040 (min 1090 (950 + 600))"
proof -
  have a: "get_attempt 104 beating_db = Some (sample_attempt\<lparr>at_created_at := 950, at_lease_expires_at := 1040\<rparr>)"
    by (simp add: beating_db_def get_attempt_def)
  obtain hs where h: "heartbeat sample_env 1000 sample_runner [sample_lease] beating_db =
     Inr (beating_db\<lparr>db_attempts := [sample_attempt\<lparr>at_created_at := 950, at_lease_expires_at := 1090\<rparr>]\<rparr>, hs)"
    using sample_beat by blast
  show ?thesis using heartbeat_never_revives [OF h a] by (auto simp: sample_budget_def)
qed

section \<open>A dead lease\<close>

lemma dead_lease_locked:
  assumes "find_attempt ru i k n d = Inr (r, j, a)"
    and "at_lease_expires_at a \<le> now \<or> \<not> at_active a \<or> ru_revoked_at r \<noteq> None"
  shows "locked_attempt en now ru i k n None True d = Inl (ValueErr ''Execution lease is unavailable.'')"
  using assms by (auto simp: locked_attempt_def require_execution_def lease_live_def)



end
