(* ===== verification/Event_Properties.thy ===== *)
theory Event_Properties
  imports Lease_Properties
begin

text \<open>
  The events of a runner: a repeated event is acknowledged with its first receipt, and an attempt
  ends only when the runner confirms that its process is contained, after which nothing of it is
  left open.
\<close>

section \<open>Repeated events\<close>

lemma prior_event_append:
  "prior_event k i (d\<lparr>db_audit := db_audit d @ rs\<rparr>) =
     (case prior_event k i d of None \<Rightarrow> find (\<lambda>r. au_attempt r = Some k \<and> au_event_id r = i) rs | Some r \<Rightarrow> Some r)"
  by (simp add: prior_event_def find_append)

lemma journal_row:
  assumes "journal_event en now j a ev d = Inr (e, rc)" "prior_event (at_id a) (ev_event_id ev) d = None"
    and "get_job (jb_id j) d = Some k"
  shows "\<exists>r. prior_event (at_id a) (ev_event_id ev) e = Some r \<and> repeats_event r ev \<and>
    au_sequence r = er_event_sequence rc"
proof -
  let ?d = "update_attempt (at_id a) (\<lambda>r. r\<lparr>at_event_cursor := ev_sequence ev\<rparr>) d"
  let ?r = "audit_row now (bump_sequence k) (RunnerEv (ev_type ev)) (RunnerPl (ev_payload ev)) (Some (at_id a))
      AuthRunner (Some ev) None (ev_event_id ev)"
  obtain f l where f: "audit en now (jb_id j) (RunnerEv (ev_type ev)) (RunnerPl (ev_payload ev)) (Some (at_id a))
      AuthRunner (Some ev) None ?d = Inr f" and l: "get_job (jb_id j) f = Some l"
    and e: "e = after_event ev (jb_id j) f" "er_event_sequence rc = jb_event_sequence l"
    using assms(1) by (auto simp: journal_event_def)
  have g: "get_job (jb_id j) ?d = Some k" using assms(3) by (simp add: get_job_def update_attempt_def)
  have a: "db_audit f = db_audit d @ [?r]" "get_job (jb_id j) f = Some (bump_sequence k)"
    using f g jobs.get_key [OF assms(3)]
    by (auto simp: audit_def audit_event_id_def Let_def get_job_def update_job_def update_attempt_def tbl_get_where)
  have "db_audit e = db_audit f" unfolding e by (simp add: after_event_def split: option.split)
  then have "prior_event (at_id a) (ev_event_id ev) e = Some ?r"
    using a(1) assms(2) by (simp add: prior_event_def find_append audit_row_def)
  moreover have "repeats_event ?r ev" by (simp add: repeats_event_def audit_row_def)
  moreover have "au_sequence ?r = er_event_sequence rc" using a(2) l e(2) by (simp add: audit_row_def)
  ultimately show ?thesis by blast
qed

text \<open>The branches of an event write no journal entry; \<open>journal_event\<close> does, at the end.\<close>

lemma transition_audit [simp]: "db_audit (transition i t r d) = db_audit d"
  by (simp add: transition_def Let_def notify_job_ended_def notify_conversation_def update_job_def
      split: option.split)

lemma event_writes_audit [simp]:
  "db_audit (update_job i f d) = db_audit d" "db_audit (update_attempt k g d) = db_audit d"
  "db_audit (update_input n h d) = db_audit d" "db_audit (update_operation x q d) = db_audit d"
  "db_audit (abandon_work k d) = db_audit d" "db_audit (stage_publication now j k d) = db_audit d"
  "db_audit (notify_conversation i z s w d) = db_audit d" "db_audit (settle_stopped_job ru j a d) = db_audit d"
  by (simp_all add: update_job_def update_attempt_def update_input_def update_operation_def abandon_work_def
      abandon_inputs_def abandon_operations_def invalidate_approvals_def stage_publication_def add_defs put_defs
      notify_conversation_def settle_stopped_job_def split: option.split)

lemma branch_result_audit [simp]:
  "db_audit (applied_input j a i d) = db_audit d" "db_audit (finish_tool now j a x st d) = db_audit d"
  "db_audit (accept_result now j a p d) = db_audit d"
  "db_audit (if b then applied_input j a i d else d) = db_audit d"
  by (simp_all add: applied_input_def finish_tool_def accept_result_def Let_def)

lemma apply_branch_audit:
  "yields (\<lambda>e. db_audit e = db_audit d) (apply_workspace now j a w d)"
  "yields (\<lambda>e. db_audit e = db_audit d) (apply_process now ru j a ev p d)"
  "yields (\<lambda>e. db_audit e = db_audit d) (apply_input now j a i d)"
  "yields (\<lambda>e. db_audit e = db_audit d) (apply_tool now j a ty t d)"
  "yields (\<lambda>e. db_audit e = db_audit d) (apply_verification now j a v d)"
  "yields (\<lambda>e. db_audit e = db_audit d) (apply_result now j a q d)"
  "db_audit (apply_input_request j ev d) = db_audit d"
  unfolding apply_workspace_def apply_process_def apply_input_def apply_tool_def apply_verification_def
    apply_result_def apply_input_request_def
  by (auto intro!: yields_rules split: runner_event_type.split operation_args.split)

lemma apply_event_audit: "yields (\<lambda>e. db_audit e = db_audit d) (apply_event now ru j a ev d)"
  unfolding apply_event_def
  by (cases "ev_payload ev") (simp_all add: apply_branch_audit yields_Inr)

lemma recorded_event:
  assumes "record_event en now ru ev v s d = Inr (e, rc)"
  shows "parse_runner_event (en_dump_event en) ev = Inr ev"
    "\<exists>r. prior_event (ev_attempt_id ev) (ev_event_id ev) e = Some r \<and> repeats_event r ev \<and>
      au_sequence r = er_event_sequence rc"
proof -
  obtain ev' j a where p: "parse_runner_event (en_dump_event en) ev = Inr ev'"
    and l: "locked_attempt en now ru (ev_job_id ev') (ev_attempt_id ev') (ev_lease_epoch ev') None False d = Inr (j, a)"
    and r: "(case prior_event (at_id a) (ev_event_id ev') d of
             Some r \<Rightarrow>
               if \<not> repeats_event r ev' then Inl (ValueErr ''Event idempotency conflict.'')
               else Inr (d, \<lparr>er_event_sequence = au_sequence r, er_job_version = jb_version j, er_status = jb_status j\<rparr>)
           | None \<Rightarrow>
               rbind (event_admissible en now ru j a ev' v s d) (\<lambda>_.
               rbind (apply_event now ru j a ev' d) (\<lambda>d1. journal_event en now j a ev' d1))) = Inr (e, rc)"
    using assms by (auto simp: record_event_def)
  have ev: "ev' = ev" using p by (simp add: parse_runner_event_def split: if_splits)
  then show "parse_runner_event (en_dump_event en) ev = Inr ev" using p by simp
  have k: "at_id a = ev_attempt_id ev" using locked_attemptD(4) [OF l] ev by simp
  show "\<exists>r. prior_event (ev_attempt_id ev) (ev_event_id ev) e = Some r \<and> repeats_event r ev \<and>
      au_sequence r = er_event_sequence rc"
  proof (cases "prior_event (at_id a) (ev_event_id ev) d")
    case (Some r')
    with r ev k show ?thesis by (auto split: if_splits)
  next
    case None
    then obtain d1 where d1: "apply_event now ru j a ev d = Inr d1" "journal_event en now j a ev d1 = Inr (e, rc)"
      using r ev by auto
    have "prior_event (at_id a) (ev_event_id ev) d1 = None"
      using None yieldsD [OF apply_event_audit d1(1)] by (simp add: prior_event_def)
    moreover obtain k where "get_job (jb_id j) d1 = Some k"
      using d1(2) by (auto simp: journal_event_def update_attempt_def get_job_def elim!: auditE)
    ultimately show ?thesis using journal_row [OF d1(2)] k by auto
  qed
qed

text \<open>
  C22: An event is recorded once: when a runner repeats an event that was accepted, at any later
  time and as long as its attempt was not superseded, it gets the journal number of the first
  time and nothing changes.
\<close>

theorem repeated_event_is_acknowledged:
  assumes "service_ok d" "record_event en now ru ev v s d = Inr (e, rc)"
    and "find_attempt ru (ev_job_id ev) (ev_attempt_id ev) (ev_lease_epoch ev) (serve_all rs e) = Inr (r, j, a)"
    and "\<not> superseded (ev_job_id ev) a (serve_all rs e)"
  shows "record_event en now' ru ev v' s' (serve_all rs e) =
    Inr (serve_all rs e, \<lparr>er_event_sequence = er_event_sequence rc, er_job_version = jb_version j,
      er_status = jb_status j\<rparr>)"
proof -
  have "serve en now (RqEvent ru ev v s) d = e" using assms(2) by (simp add: serve_def state_of_def)
  then have "service_ok e" using serve_ok [OF assms(1)] by metis
  then have "grown (=) (db_audit e) (db_audit (serve_all rs e))"
    using run_later by (simp add: later_def)
  then obtain zs where "db_audit (serve_all rs e) = db_audit e @ zs" by (auto simp: grown_prefix)
  then obtain p where p: "prior_event (ev_attempt_id ev) (ev_event_id ev) (serve_all rs e) = Some p"
    "repeats_event p ev" "au_sequence p = er_event_sequence rc"
    using recorded_event(2) [OF assms(2)] by (auto simp: prior_event_def find_append)
  have l: "locked_attempt en now' ru (ev_job_id ev) (ev_attempt_id ev) (ev_lease_epoch ev) None False (serve_all rs e) =
      Inr (j, a)"
    using assms(3) by (simp add: locked_attempt_def)
  show ?thesis
    using recorded_event(1) [OF assms(2)] l locked_attemptD(3,4) [OF l] p assms(4)
    by (simp add: record_event_def)
qed

theorem repeated_event_is_acknowledged_witness:
  "record_event sample_env 1060 sample_runner stop_event None False stopped_db =
     Inr (stopped_db, \<lparr>er_event_sequence = 3, er_job_version = 3, er_status = Interrupted\<rparr>)"
proof -
  let ?j = "sample_job\<lparr>jb_status := Interrupted, jb_blocked_reason := ''start_failed'', jb_version := 3, jb_event_sequence := 3\<rparr>"
  let ?a = "sample_attempt\<lparr>at_process_state := Stopped, at_stopped_at := Some 1050,
       at_ended_at := Some 1050, at_active := False, at_stop_receipt := Some stop_event, at_event_cursor := 1\<rparr>"
  have f: "find_attempt sample_runner (ev_job_id stop_event) (ev_attempt_id stop_event) (ev_lease_epoch stop_event)
      (serve_all [] stopped_db) = Inr (sample_runner, ?j, ?a)"
    using queued_sampled by (simp add: find_attempt_def stopped_db_def get_defs running_db_def sampled_def)
  have s: "\<not> superseded (ev_job_id stop_event) ?a (serve_all [] stopped_db)"
    by (simp add: superseded_def stopped_db_def)
  show ?thesis
    using repeated_event_is_acknowledged [OF running_ok sample_stop f s] by simp
qed

section \<open>The end of an attempt\<close>

text \<open>Which attempts are active.\<close>

definition actives :: "db \<Rightarrow> uuid \<Rightarrow> bool option" where
  "actives d k = map_option at_active (get_attempt k d)"

lemma actives_life: "actives d k = map_option ac_active (lf_attempt (life d) k)"
  by (cases "get_attempt k d") (simp_all add: actives_def acore_of_def)

lemma same_life_actives: "same_life d e \<Longrightarrow> actives e = actives d"
  by (simp add: fun_eq_iff actives_life same_life_def)

lemma actives_frame [simp]:
  "actives (update_job i f d) = actives d" "actives (transition i t r d) = actives d"
  "actives (abandon_work k d) = actives d" "actives (notify_conversation i z s w d) = actives d"
  "actives (settle_stopped_job ru j a d) = actives d" "actives (update_input n h d) = actives d"
  "actives (update_operation x q d) = actives d" "actives (stage_publication now j k d) = actives d"
  "actives (after_event ev i d) = actives d"
  by (simp_all add: fun_eq_iff actives_def get_attempt_def update_job_def abandon_work_def
      abandon_inputs_def abandon_operations_def invalidate_approvals_def notify_conversation_def
      settle_stopped_job_def update_input_def update_operation_def stage_publication_def add_defs put_defs
      after_event_def split: option.split)

lemma actives_update [simp]:
  assumes "\<And>r. at_id (f r) = at_id r" "\<And>r. at_active (f r) = at_active r"
  shows "actives (update_attempt k f d) = actives d"
proof
  fix i
  show "actives (update_attempt k f d) i = actives d i"
    by (cases "get_attempt i d") (simp_all add: actives_def get_update_attempt assms)
qed

lemma branch_actives [simp]:
  "actives (applied_input j a i d) = actives d" "actives (finish_tool now j a x st d) = actives d"
  "actives (accept_result now j a p d) = actives d"
  "actives (if b then applied_input j a i d else d) = actives d"
  by (simp_all add: applied_input_def finish_tool_def accept_result_def Let_def)

lemma apply_branch_actives:
  "yields (\<lambda>e. actives e = actives d) (apply_workspace now j a w d)"
  "yields (\<lambda>e. actives e = actives d) (apply_input now j a i d)"
  "yields (\<lambda>e. actives e = actives d) (apply_tool now j a ty t d)"
  "yields (\<lambda>e. actives e = actives d) (apply_verification now j a v d)"
  "yields (\<lambda>e. actives e = actives d) (apply_result now j a q d)"
  "actives (apply_input_request j ev d) = actives d"
proof -
  show "yields (\<lambda>e. actives e = actives d) (apply_workspace now j a w d)"
    unfolding apply_workspace_def by (intro yields_rules) simp
  show "yields (\<lambda>e. actives e = actives d) (apply_input now j a i d)"
    unfolding apply_input_def by (intro yields_rules) simp
  show "yields (\<lambda>e. actives e = actives d) (apply_tool now j a ty t d)"
    unfolding apply_tool_def by (intro yields_rules) simp_all
  show "yields (\<lambda>e. actives e = actives d) (apply_verification now j a v d)"
    by (rule yields_imp [OF apply_verification_quiet]) (simp add: same_life_actives)
  show "yields (\<lambda>e. actives e = actives d) (apply_result now j a q d)"
    unfolding apply_result_def by (intro yields_rules) simp_all
  show "actives (apply_input_request j ev d) = actives d"
    by (simp add: apply_input_request_def)
qed

lemma apply_process_actives:
  "ev_type ev \<noteq> AttemptStopped \<Longrightarrow> yields (\<lambda>e. actives e = actives d) (apply_process now ru j a ev p d)"
  unfolding apply_process_def by (auto intro!: yields_rules split: runner_event_type.split)

text \<open>The one event that ends an attempt, and what it leaves.\<close>

definition confirmed_stop :: "runner_event \<Rightarrow> bool" where
  "confirmed_stop ev = (ev_type ev = AttemptStopped \<and>
     (case ev_payload ev of PProcess p \<Rightarrow> pp_stop_confirmed p | _ \<Rightarrow> False))"

definition stopped_after :: "time \<Rightarrow> runner \<Rightarrow> job \<Rightarrow> attempt \<Rightarrow> runner_event \<Rightarrow> db \<Rightarrow> db" where
  "stopped_after now ru j a ev d =
     settle_stopped_job ru j a (abandon_work (at_id a) (update_attempt (at_id a) (end_attempt now ev) d))"

lemma apply_event_actives:
  assumes "apply_event now ru j a ev d = Inr e" "valid_runner_event ev"
  shows "actives e = actives d \<or> (confirmed_stop ev \<and> e = stopped_after now ru j a ev d)"
proof (cases "ev_payload ev")
  case (PProcess p)
  have "\<exists>q. ev_payload ev = PProcess q" using PProcess by simp
  show ?thesis
  proof (cases "ev_type ev = AttemptStopped")
    case True
    with PProcess assms(1) show ?thesis
      by (auto simp: apply_event_def apply_process_def confirmed_stop_def stopped_after_def)
  next
    case False
    with PProcess assms(1) yieldsD [OF apply_process_actives [OF False]] show ?thesis
      by (auto simp: apply_event_def)
  qed
qed (use assms(1) yieldsD [OF apply_branch_actives(1)] yieldsD [OF apply_branch_actives(2)]
    yieldsD [OF apply_branch_actives(3)] yieldsD [OF apply_branch_actives(4)]
    yieldsD [OF apply_branch_actives(5)] apply_branch_actives(6) in \<open>auto simp: apply_event_def\<close>)

text \<open>The tables after the stop: nothing of the attempt is left running, waiting or in delivery.\<close>

definition nothing_open :: "uuid \<Rightarrow> db \<Rightarrow> bool" where
  "nothing_open k d =
     ((\<forall>x\<in>set (db_operations d). oper_attempt x = k \<longrightarrow> oper_status x \<noteq> OpStarted) \<and>
      (\<forall>p\<in>set (db_approvals d). ap_attempt p = k \<longrightarrow> ap_decision p \<notin> {ApPending, ApApproved}) \<and>
      (\<forall>i\<in>set (db_inputs d). in_delivered_attempt i = Some k \<longrightarrow> in_delivery_state i \<noteq> InDelivered))"

lemma nothing_open_cong:
  "db_operations e = db_operations d \<Longrightarrow> db_approvals e = db_approvals d \<Longrightarrow> db_inputs e = db_inputs d \<Longrightarrow>
   nothing_open k e = nothing_open k d"
  by (simp add: nothing_open_def)

lemma settle_tables [simp]:
  "db_operations (settle_stopped_job ru j a d) = db_operations d"
  "db_approvals (settle_stopped_job ru j a d) = db_approvals d"
  "db_inputs (settle_stopped_job ru j a d) = db_inputs d"
  by (simp_all add: settle_stopped_job_def transition_def Let_def notify_job_ended_def notify_conversation_def
      update_job_def split: option.split)

lemma abandon_tables:
  "db_operations (abandon_work k d) = tbl_where (\<lambda>x. oper_attempt x = k \<and> oper_status x = OpStarted)
     (\<lambda>x. x\<lparr>oper_status := OutcomeUnk\<rparr>) (db_operations d)"
  "db_approvals (abandon_work k d) = tbl_where (\<lambda>p. ap_attempt p = k \<and> ap_decision p \<in> {ApPending, ApApproved})
     (\<lambda>p. p\<lparr>ap_decision := ApCancelled\<rparr>) (db_approvals d)"
  "db_inputs (abandon_work k d) = tbl_where (\<lambda>i. in_delivered_attempt i = Some k \<and> in_delivery_state i = InDelivered)
     (\<lambda>i. i\<lparr>in_delivery_state := InUncertain\<rparr>) (db_inputs d)"
  by (simp_all add: abandon_work_def abandon_inputs_def abandon_operations_def invalidate_approvals_def)

lemma all_where: "(\<forall>x\<in>set (tbl_where P f t). Q x) = (\<forall>x\<in>set t. if P x then Q (f x) else Q x)"
  by (induction t) (simp_all add: tbl_where_def)

lemma abandoned_nothing_open: "nothing_open k (abandon_work k d)"
  by (simp add: nothing_open_def abandon_tables all_where)

lemma stopped_nothing_open: "nothing_open (at_id a) (stopped_after now ru j a ev d)"
  unfolding stopped_after_def
  by (simp only: nothing_open_cong [OF settle_tables] abandoned_nothing_open)

text \<open>
  C21: An attempt ends only when its runner confirms that the process is contained: the one event
  that makes an active attempt inactive is a confirmed stop of that attempt, it is kept as the stop
  receipt, and afterwards no operation of the attempt is running, no approval of it can still be
  used and no input is in delivery.
\<close>

theorem attempt_ends_by_confirmed_stop:
  assumes "record_event en now ru ev v s d = Inr (e, rc)"
    and "get_attempt k d = Some a" "at_active a" "get_attempt k e = Some b" "\<not> at_active b"
  shows "ev_attempt_id ev = k \<and> ev_type ev = AttemptStopped \<and> (\<exists>p. ev_payload ev = PProcess p \<and> pp_stop_confirmed p) \<and>
    at_process_state b = Stopped \<and> at_stop_receipt b = Some ev \<and> at_ended_at b = Some now \<and>
    (\<forall>x\<in>set (db_operations e). oper_attempt x = k \<longrightarrow> oper_status x \<noteq> OpStarted) \<and>
    (\<forall>p\<in>set (db_approvals e). ap_attempt p = k \<longrightarrow> ap_decision p \<notin> {ApPending, ApApproved}) \<and>
    (\<forall>i\<in>set (db_inputs e). in_delivered_attempt i = Some k \<longrightarrow> in_delivery_state i \<noteq> InDelivered)"
proof -
  have valid: "valid_runner_event ev"
    using recorded_event(1) [OF assms(1)] by (simp add: parse_runner_event_def split: if_splits)
  obtain j c where l: "locked_attempt en now ru (ev_job_id ev) (ev_attempt_id ev) (ev_lease_epoch ev) None False d = Inr (j, c)"
    and r: "(case prior_event (at_id c) (ev_event_id ev) d of
             Some r \<Rightarrow> if \<not> repeats_event r ev then Inl (ValueErr ''Event idempotency conflict.'')
               else Inr (d, \<lparr>er_event_sequence = au_sequence r, er_job_version = jb_version j, er_status = jb_status j\<rparr>)
           | None \<Rightarrow> rbind (event_admissible en now ru j c ev v s d) (\<lambda>_.
               rbind (apply_event now ru j c ev d) (\<lambda>d1. journal_event en now j c ev d1))) = Inr (e, rc)"
    using assms(1) recorded_event(1) [OF assms(1)] by (auto simp: record_event_def)
  have differ: "actives e \<noteq> actives d" using assms(2-5) by (auto simp: actives_def dest!: fun_cong [of _ _ k])
  then have "prior_event (at_id c) (ev_event_id ev) d = None"
    using r by (auto split: option.splits if_splits)
  then obtain d1 f where d1: "apply_event now ru j c ev d = Inr d1"
    and f: "audit en now (jb_id j) (RunnerEv (ev_type ev)) (RunnerPl (ev_payload ev)) (Some (at_id c)) AuthRunner
      (Some ev) None (update_attempt (at_id c) (\<lambda>r. r\<lparr>at_event_cursor := ev_sequence ev\<rparr>) d1) = Inr f"
    and e: "e = after_event ev (jb_id j) f"
    using r by (auto simp: journal_event_def)
  have tables: "get_attempt i e = map_option (\<lambda>r. if at_id r = at_id c then r\<lparr>at_event_cursor := ev_sequence ev\<rparr> else r)
      (get_attempt i d1)" "db_operations e = db_operations d1" "db_approvals e = db_approvals d1"
    "db_inputs e = db_inputs d1" for i
    unfolding e using audit_tables [OF f]
    by (simp_all add: after_event_def get_attempt_def update_attempt_def tbl_get_where split: option.split)
  have "actives e = actives d1"
  proof
    fix i
    show "actives e i = actives d1 i" by (cases "get_attempt i d1") (simp_all add: actives_def tables(1))
  qed
  with differ apply_event_actives [OF d1 valid]
  have stop: "confirmed_stop ev" "d1 = stopped_after now ru j c ev d" by auto
  have left: "nothing_open (at_id c) e"
    using stopped_nothing_open nothing_open_cong [OF tables(2-4)] stop(2) by simp
  have g: "get_attempt i d1 = map_option (\<lambda>r. if at_id r = at_id c then end_attempt now ev r else r) (get_attempt i d)" for i
    unfolding stop(2) stopped_after_def
    by (simp add: get_attempt_def settle_stopped_job_def abandon_work_def abandon_inputs_def abandon_operations_def
        invalidate_approvals_def update_attempt_def tbl_get_where end_attempt_def)
  have k: "at_id a = k" by (rule attempts.get_key [OF assms(2)])
  then have "at_id c = k"
    using assms(2-5) g [of k] tables(1) [of k] by (auto split: if_splits)
  with assms(2,4) g [of k] tables(1) [of k] k
  have "b = (end_attempt now ev a)\<lparr>at_event_cursor := ev_sequence ev\<rparr>"
    by (simp add: end_attempt_def)
  moreover have "ev_attempt_id ev = k" using locked_attemptD(4) [OF l] \<open>at_id c = k\<close> by simp
  ultimately show ?thesis
    using stop(1) left \<open>at_id c = k\<close> unfolding nothing_open_def confirmed_stop_def
    by (auto simp: end_attempt_def split: runner_payload.splits)
qed

theorem attempt_ends_by_confirmed_stop_witness:
  "get_attempt 104 running_db = Some sample_attempt \<and> at_active sample_attempt \<and>
   (\<exists>b. get_attempt 104 stopped_db = Some b \<and> at_stop_receipt b = Some stop_event \<and> at_ended_at b = Some 1050)"
proof -
  let ?a = "sample_attempt\<lparr>at_process_state := Stopped, at_stopped_at := Some 1050,
       at_ended_at := Some 1050, at_active := False, at_stop_receipt := Some stop_event, at_event_cursor := 1\<rparr>"
  have a: "get_attempt 104 running_db = Some sample_attempt" "at_active sample_attempt"
    "get_attempt 104 stopped_db = Some ?a" "\<not> at_active ?a"
    by (simp_all add: get_attempt_def stopped_db_def)
  show ?thesis using attempt_ends_by_confirmed_stop [OF sample_stop a] a(1-3) by auto
qed

end
