(* ===== verification/Sample_Results.thy ===== *)
theory Sample_Results
  imports Sample_Events
begin

text \<open>
  The end of the coding task of the sample: the runtime has stopped, its required check has passed on
  the final tree, and the result is published.
\<close>

section \<open>The evidence\<close>

definition stopped_attempt :: attempt where
  "stopped_attempt = working_attempt\<lparr>at_process_state := Stopped, at_stopped_at := Some 1060,
     at_ended_at := Some 1060, at_active := False\<rparr>"

definition sample_result :: result_payload where
  "sample_result = \<lparr>rp_artifact_ids = [201, 202], rp_tree_hash = Some sample_tree, rp_summary = ''more''\<rparr>"

definition sample_file :: "uuid \<Rightarrow> artifact_kind \<Rightarrow> artifact" where
  "sample_file i k = \<lparr>af_id = i, af_realm = 5, af_attempt = 104, af_kind = k, af_checksum = zero_digest,
     af_size = 0, af_media_type = OctetStream, af_filename = ''f'', af_expires_at = 9000,
     af_unavailable_at = None, af_audience_binding = Some sample_audience\<rparr>"

definition checks_operation :: operation where
  "checks_operation = (new_operation sample_job working_attempt 205 705 (OChecks \<lparr>ca_repository_id = 40,
     ca_check_ids = [''unit''], ca_tree_hash = sample_tree\<rparr>) push_binding zero_digest False)
     \<lparr>oper_status := OpSucceeded, oper_started_at := Some 1040, oper_finished_at := Some 1050\<rparr>"

definition unit_verification :: verification where
  "unit_verification = \<lparr>vf_realm = 5, vf_attempt = 104, vf_operation = Some 205, vf_check_id = ''unit'',
     vf_command = chk_argv sample_check, vf_cwd = chk_cwd sample_check, vf_exit_code = Some 0,
     vf_started_at = 1041, vf_finished_at = 1049, vf_tree_hash = sample_tree, vf_output_artifact = 203,
     vf_timed_out = False\<rparr>"

definition verifying_job :: job where
  "verifying_job = sample_job\<lparr>jb_status := Verifying, jb_version := 3, jb_event_sequence := 2,
     jb_result_proposal := Some sample_result\<rparr>"

definition finished_db :: db where
  "finished_db = running_db\<lparr>db_jobs := [verifying_job], db_attempts := [stopped_attempt],
     db_operations := [checks_operation], db_verifications := [unit_verification],
     db_artifacts := [sample_file 201 ArtSummary, sample_file 202 ArtDiff, sample_file 203 ArtVerification],
     db_blobs := [(201, []), (202, []), (203, [])], db_next := 210\<rparr>"

lemma stopped_attempt_sel [simp]:
  "at_id stopped_attempt = 104" "at_job stopped_attempt = 101" "\<not> at_active stopped_attempt"
  "at_realm stopped_attempt = 5" "at_runner stopped_attempt = 20" "at_number stopped_attempt = 1"
  "at_lease_epoch stopped_attempt = 1" "at_descriptor stopped_attempt = sample_descriptor"
  "at_process_state stopped_attempt = Stopped" "at_stopped_at stopped_attempt = Some 1060"
  "at_base_commit stopped_attempt = sample_tree" "at_tree_hash stopped_attempt = sample_tree"
  "at_audience_binding stopped_attempt = Some sample_audience"
  by (simp_all add: stopped_attempt_def) (simp_all add: working_attempt_def)

lemma sample_file_sel [simp]:
  "af_id (sample_file i k) = i" "af_realm (sample_file i k) = 5" "af_attempt (sample_file i k) = 104"
  "af_kind (sample_file i k) = k" "af_checksum (sample_file i k) = zero_digest" "af_size (sample_file i k) = 0"
  "af_unavailable_at (sample_file i k) = None" "af_audience_binding (sample_file i k) = Some sample_audience"
  by (simp_all add: sample_file_def)

lemma sample_result_sel [simp]:
  "rp_artifact_ids sample_result = [201, 202]" "rp_tree_hash sample_result = Some sample_tree"
  "rp_summary sample_result = ''more''"
  by (simp_all add: sample_result_def)

lemma verifying_job_sel [simp]:
  "jb_id verifying_job = 101" "jb_realm verifying_job = 5" "jb_requester verifying_job = 11"
  "jb_conversation verifying_job = 100" "jb_profile verifying_job = 30" "jb_runner verifying_job = 20"
  "jb_repository verifying_job = Some 40" "jb_source_message verifying_job = Some 10"
  "jb_job_kind verifying_job = KCode" "jb_status verifying_job = Verifying" "jb_event_sequence verifying_job = 2"
  "jb_result_proposal verifying_job = Some sample_result" "jb_result_receipt verifying_job = None"
  "jb_result_message verifying_job = None" "jb_delivery_target verifying_job = TPatch"
  "jb_input_sequence verifying_job = 0" "jb_stop_target verifying_job = Cancelled"
  by (simp_all add: verifying_job_def)

lemma finished_sel [simp]:
  "db_jobs finished_db = [verifying_job]" "db_attempts finished_db = [stopped_attempt]"
  "db_operations finished_db = [checks_operation]" "db_verifications finished_db = [unit_verification]"
  "db_artifacts finished_db = [sample_file 201 ArtSummary, sample_file 202 ArtDiff, sample_file 203 ArtVerification]"
  "db_blobs finished_db = [(201, []), (202, []), (203, [])]" "db_inputs finished_db = []"
  "db_approvals finished_db = []" "db_checkpoints finished_db = []" "db_next finished_db = 210"
  "db_conversations finished_db = [sample_conversation]" "db_audit finished_db = db_audit running_db"
  by (simp_all add: finished_db_def) (simp_all add: running_db_def)

lemma finished_sampled: "sampled finished_db"
  using queued_sampled by (simp add: finished_db_def sampled_def running_db_def)

lemma finished_get:
  "get_job 101 finished_db = Some verifying_job" "get_attempt 104 finished_db = Some stopped_attempt"
  "latest_attempt 101 finished_db = Some stopped_attempt"
  by (simp_all add: get_defs latest_attempt_def job_attempts_def)

section \<open>Publication\<close>

lemma sample_result_valid [simp]: "valid_result sample_result"
  by (simp add: valid_result_def len_in_def git_hash_ok_def sample_tree_def is_hex_def is_decimal_def list_all_iff)

lemma finished_prepared: "prepare_publication sample_env verifying_job finished_db =
    Inr (sample_result, [sample_file 201 ArtSummary, sample_file 202 ArtDiff])"
  by (simp add: prepare_publication_def proposal_artifacts_def verification_artifacts_def job_of_attempt_def
      finished_get read_artifact_def Let_def unit_verification_def sample_sha_def)

lemma finished_verified:
  "verify_result verifying_job stopped_attempt [sample_file 201 ArtSummary, sample_file 202 ArtDiff] True finished_db = Inr ()"
proof -
  have "check_proves stopped_attempt (last_mutation 104 finished_db) sample_check finished_db"
    by (simp add: check_proves_def latest_verification_def unit_verification_def artifact_available_def
        operation_succeeded_def get_defs last_mutation_def checks_operation_def mutating_tools_def new_operation_def
        sample_check_def)
  moreover have "get_conversation 100 finished_db = Some sample_conversation" "cv_binding sample_conversation = Some sample_audience"
    by (simp_all add: get_defs sample_conversation_def)
  moreover have "rc_required_checks (repository_dto sample_job sample_repository) = [sample_check]"
    by (simp add: repository_dto_def)
  moreover have "\<not> unresolved_operation checks_operation"
    by (simp add: unresolved_operation_def checks_operation_def)
  moreover have "sample_tree \<noteq> []" by (simp add: sample_tree_def)
  ultimately show ?thesis
    by (simp add: verify_result_def job_conversation_def summary_ok_def is_space_def has_open_input_def
        job_unresolved_def verify_code_def)
qed

lemma finished_clean: "reject_secrets finished_db verifying_job (utf8 ''more'') = Inr ()"
proof -
  have "\<not> credential_bytes (utf8 ''more'')" by code_simp
  then show ?thesis
    using finished_sampled by (simp add: reject_secrets_def job_profile_def fetch_opt_def job_secrets_def sampled_def)
qed

lemma get_job_transition:
  "get_job i d = Some j \<Longrightarrow> get_job i (transition i st m d) =
     Some (j\<lparr>jb_status := st, jb_blocked_reason := m, jb_version := jb_version j + 1\<rparr>)"
  using jobs.get_key [of i d j] by (simp add: get_job_def tbl_get_where)

lemma delivered_frame [simp]:
  "sampled d \<Longrightarrow> sampled (mark_delivered now j d)" "db_audit (mark_delivered now j d) = db_audit d"
  "db_next (mark_delivered now j d) = db_next d"
  by (simp_all add: sampled_def mark_delivered_def add_defs put_defs split: option.split)

lemma sample_published: "\<exists>e rc. publish_result sample_env 1100 101 (Some 900) finished_db = (e, Inr rc)"
proof -
  let ?c = "en_silent_mention sample_env 11 @ '' '' @ result_message_content sample_env verifying_job ''more'' @ '' '' @
      job_task_link sample_env verifying_job"
  let ?d1 = "finished_db\<lparr>db_sent := db_sent finished_db @ [\<lparr>sent_job = 101, sent_to = ToUsers [11, 12],
      sent_content = ?c, sent_id = 900\<rparr>]\<rparr>"
  let ?r = "\<lparr>rcp_message_id = 900, rcp_attempt_id = 104, rcp_published_at = 1100, rcp_private = False\<rparr>"
  let ?f = "\<lambda>r. r\<lparr>jb_result_message := Some 900, jb_result_receipt := Some ?r, jb_completed_at := Some 1100,
      jb_phase := Deliver\<rparr>"
  let ?d2 = "mark_delivered 1100 verifying_job (transition 101 Completed [] (update_job 101 ?f ?d1))"
  let ?j = "(?f verifying_job)\<lparr>jb_status := Completed, jb_blocked_reason := [], jb_version := jb_version verifying_job + 1\<rparr>"
  have c: "get_conversation 100 finished_db = Some sample_conversation"
    by (simp add: get_defs sample_conversation_def)
  have aud: "require_audience sample_env finished_db verifying_job = Inr sample_audience"
    using finished_sampled c by (intro sample_require_audience) simp_all
  have acc: "check_attempt_access sample_env 1100 finished_db 11 verifying_job stopped_attempt ProfileUse = Inr ()"
    using finished_sampled c by (intro sample_attempt_access) simp_all
  have dest: "audience_destination sample_env sample_audience = Inr (ToUsers [11, 12])"
    by (simp add: audience_destination_def) (simp add: sample_audience_def)
  have "get_job 101 ?d1 = Some verifying_job" by (simp add: get_defs)
  then have "get_job 101 (update_job 101 ?f ?d1) = Some (?f verifying_job)" by simp
  then have j: "get_job 101 ?d2 = Some ?j" by (simp add: get_job_transition)
  have "\<exists>e. audit sample_env 1100 101 (ServerEv ResultPublished) (ServerPl (APublication (Some 900) [])) (Some 104)
      AuthPublisher None None ?d2 = Inr e"
  proof (subst sample_audit_by [where j = ?j])
    show "sampled ?d2" by (rule delivered_frame(1)) (use finished_sampled in \<open>simp add: sampled_def\<close>)
    show "get_job 101 ?d2 = Some ?j" by (rule j)
    have "get_attempt 104 ?d1 = Some stopped_attempt" by (simp add: get_defs)
    then have "get_attempt 104 ?d2 = Some stopped_attempt" by simp
    then show "Some 104 = None \<or> (\<exists>a. Some 104 = Some (at_id a) \<and> get_attempt (at_id a) ?d2 = Some a \<and>
        at_job a = 101 \<and> at_realm a = 5 \<and> at_lease_epoch a = 1)"
      by (intro disjI2 exI [of _ stopped_attempt]) simp
  qed (simp_all add: len_in_def event_authorities_def audit_conflict_def bump_sequence_def running_db_def queued_db_def)
  then obtain e where "audit sample_env 1100 101 (ServerEv ResultPublished) (ServerPl (APublication (Some 900) []))
      (Some 104) AuthPublisher None None ?d2 = Inr e" by blast
  then show ?thesis
    using finished_get finished_prepared finished_verified finished_clean aud acc dest
    by (simp add: publish_result_def try_publication_def commit_publication_def post_result_def send_message_def
        complete_job_def Let_def)
qed

end
