(* ===== verification/Publication_Properties.thy ===== *)
theory Publication_Properties
  imports Event_Properties Sample_Results
begin

text \<open>
  Publication: a result is published when the attempt is contained, its evidence proves the required
  checks and the conversation may still read it; it is published once.
\<close>

section \<open>What a publication has checked\<close>

text \<open>The evidence of a coding task.\<close>

definition code_proved :: "job \<Rightarrow> attempt \<Rightarrow> result_payload \<Rightarrow> db \<Rightarrow> bool" where
  "code_proved j a r d =
     (rp_tree_hash r = Some (at_tree_hash a) \<and>
      (\<exists>f\<in>set (db_artifacts d). af_attempt f = at_id a \<and> af_kind f = ArtDiff) \<and>
      (\<exists>w. de_repository (at_descriptor a) = Some w \<and> rc_required_checks w \<noteq> [] \<and>
        (\<forall>c\<in>set (rc_required_checks w). \<exists>v. latest_verification (at_id a) (chk_id c) (at_tree_hash a) d = Some v \<and>
          vf_exit_code v = Some 0 \<and> \<not> vf_timed_out v \<and> vf_command v = chk_argv c \<and>
          operation_succeeded (vf_operation v) d)) \<and>
      (jb_delivery_target j = TDraftPr \<longrightarrow>
        (\<forall>act\<in>{GitPush, GitDraftPr}. \<exists>x\<in>set (db_operations d). delivered_by a act x d)))"

lemma verify_code_proved:
  assumes "verify_code j a r arts d = Inr u" "set arts \<subseteq> set (db_artifacts d)"
    and "\<not> list_ex (\<lambda>f. af_attempt f \<noteq> at_id a \<or> af_audience_binding f \<noteq> at_audience_binding a) arts"
  shows "code_proved j a r d"
proof -
  obtain w where w: "de_repository (at_descriptor a) = Some w" "rc_required_checks w \<noteq> []"
    "list_all (\<lambda>c. check_proves a (last_mutation (at_id a) d) c d) (rc_required_checks w)"
    and t: "rp_tree_hash r = Some (at_tree_hash a)" "list_ex (\<lambda>f. af_kind f = ArtDiff) arts"
    and p: "jb_delivery_target j = TDraftPr \<Longrightarrow>
      list_all (\<lambda>act. list_ex (\<lambda>x. delivered_by a act x d) (db_operations d)) remote_tools"
    using assms(1) by (auto simp: verify_code_def)
  have "\<exists>f\<in>set (db_artifacts d). af_attempt f = at_id a \<and> af_kind f = ArtDiff"
    using t(2) assms(2,3) by (auto simp: list_ex_iff)
  moreover have "\<exists>v. latest_verification (at_id a) (chk_id c) (at_tree_hash a) d = Some v \<and>
      vf_exit_code v = Some 0 \<and> \<not> vf_timed_out v \<and> vf_command v = chk_argv c \<and> operation_succeeded (vf_operation v) d"
    if "c \<in> set (rc_required_checks w)" for c
  proof -
    have "check_proves a (last_mutation (at_id a) d) c d" using w(3) that by (simp add: list_all_iff)
    then show ?thesis
      by (cases "latest_verification (at_id a) (chk_id c) (at_tree_hash a) d") (simp_all add: check_proves_def)
  qed
  ultimately show ?thesis
    using w(1,2) t(1) p unfolding code_proved_def
    by (auto simp: remote_tools_def list_ex_iff)
qed

lemma complete_job_row:
  assumes "complete_job en now j a m private d = Inr (e, rc)" "get_job (jb_id j) d = Some j"
  shows "rc = \<lparr>rcp_message_id = m, rcp_attempt_id = at_id a, rcp_published_at = now, rcp_private = private\<rparr> \<and>
    db_sent e = db_sent d \<and>
    (\<exists>k. get_job (jb_id j) e = Some k \<and> jb_status k = Completed \<and> jb_result_receipt k = Some rc)"
proof -
  let ?r = "\<lparr>rcp_message_id = m, rcp_attempt_id = at_id a, rcp_published_at = now, rcp_private = private\<rparr>"
  let ?d1 = "update_job (jb_id j) (\<lambda>r. r\<lparr>jb_result_message := Some m, jb_result_receipt := Some ?r,
      jb_completed_at := Some now, jb_phase := Deliver\<rparr>) d"
  let ?d2 = "mark_delivered now j (transition (jb_id j) Completed [] ?d1)"
  have rc: "rc = ?r" and e: "audit en now (jb_id j) (ServerEv ResultPublished)
      (ServerPl (APublication (Some m) (if private then ''delivered_privately'' else [])))
      (Some (at_id a)) AuthPublisher None None ?d2 = Inr e"
    using assms(1) by (auto simp: complete_job_def Let_def)
  have d1: "get_job (jb_id j) ?d1 = Some (j\<lparr>jb_result_message := Some m, jb_result_receipt := Some ?r,
      jb_completed_at := Some now, jb_phase := Deliver\<rparr>)"
    using assms(2) by simp
  obtain k where k: "get_job (jb_id j) ?d2 = Some k" "jb_status k = Completed" "jb_result_receipt k = Some ?r"
    using get_job_transition [OF d1, of Completed "[]"] by simp
  have j: "get_job (jb_id j) e = Some (bump_sequence k)"
    using k(1) jobs.get_key [OF k(1)] audit_tables(1) [OF e] by (simp add: get_job_def tbl_get_where)
  have "db_sent ?d2 = db_sent d"
    by (simp add: transition_def Let_def mark_delivered_def add_defs put_defs notify_job_ended_def
        notify_conversation_def update_job_def split: option.split)
  then show ?thesis using rc j k(2,3) audit_tables(11) [OF e] by (simp add: bump_sequence_def)
qed

lemma post_result_sent:
  "yields (\<lambda>(e, m). db_jobs e = db_jobs d \<and> (db_sent e = db_sent d \<or> (\<exists>x. db_sent e = db_sent d @ [x] \<and> sent_id x = m)))
     (post_result j dest c sent d)"
  unfolding post_result_def send_message_def by (intro yields_rules) auto

text \<open>The row, the receipt and the message of a first publication.\<close>

lemma committed:
  assumes "commit_publication en now i r arts sent d = Inr (e, rc)" "get_job i d = Some j"
    and "jb_result_receipt j = None" "jb_result_proposal j = Some r"
  shows "(rcp_published_at rc = now \<and> \<not> rcp_private rc) \<and>
    (\<exists>k. get_job i e = Some k \<and> jb_status k = Completed \<and> jb_result_receipt k = Some rc) \<and>
    length (db_sent e) \<le> length (db_sent d) + 1 \<and>
    (\<exists>a aud. latest_attempt i d = Some a \<and> require_audience en d j = Inr aud \<and>
      check_attempt_access en now d (jb_requester j) j a ProfileUse = Inr () \<and>
      verify_result j a arts True d = Inr () \<and> reject_secrets d j (utf8 (rp_summary r)) = Inr () \<and>
      rcp_attempt_id rc = at_id a)"
proof -
  have i: "jb_id j = i" by (rule jobs.get_key [OF assms(2)])
  obtain a aud dest d1 m where a: "latest_attempt i d = Some a" and aud: "require_audience en d j = Inr aud"
    and acc: "check_attempt_access en now d (jb_requester j) j a ProfileUse = Inr ()"
    and v: "verify_result j a arts True d = Inr ()" and s: "reject_secrets d j (utf8 (rp_summary r)) = Inr ()"
    and m: "post_result j dest (en_silent_mention en (jb_requester j) @ '' '' @
        result_message_content en j (rp_summary r) @ '' '' @ job_task_link en j) sent d = Inr (d1, m)"
    and e: "complete_job en now j a m False d1 = Inr (e, rc)"
    using assms by (auto simp: commit_publication_def)
  have "get_job (jb_id j) d1 = Some j"
    using yieldsD [OF post_result_sent m] assms(2) i by (simp add: get_job_def)
  with complete_job_row [OF e] yieldsD [OF post_result_sent m] i
  have "rcp_attempt_id rc = at_id a \<and> rcp_published_at rc = now \<and> \<not> rcp_private rc"
    "\<exists>k. get_job i e = Some k \<and> jb_status k = Completed \<and> jb_result_receipt k = Some rc"
    "length (db_sent e) \<le> length (db_sent d) + 1"
    by auto
  with a aud acc v s show ?thesis by blast
qed

lemma publication_steps:
  assumes "publish_result en now i sent d = (e, Inr rc)" "get_job i d = Some j" "jb_result_receipt j = None"
  obtains r arts where "prepare_publication en j d = Inr (r, arts)"
    "commit_publication en now i r arts sent d = Inr (e, rc)" "jb_result_proposal j = Some r"
    "set arts \<subseteq> set (db_artifacts d)"
proof -
  have t: "try_publication en now i sent d = Inr (e, rc)"
    using assms(1) by (auto simp: publish_result_def split: sum.splits option.splits)
  then obtain r arts where p: "prepare_publication en j d = Inr (r, arts)"
    and c: "commit_publication en now i r arts sent d = Inr (e, rc)"
    using assms(2,3) by (auto simp: try_publication_def)
  have "jb_result_proposal j = Some r" "set arts \<subseteq> set (db_artifacts d)"
    using p by (auto simp: prepare_publication_def proposal_artifacts_def Let_def split: option.splits if_splits)
  with p c that show thesis by blast
qed

text \<open>
  C12: A result is published only when it is proved: the job was waiting for verification, its newest
  attempt is contained and stopped, no input is open and no operation unresolved, the requester may
  still use the attempt and the audience is the one that was accepted; for a coding task every
  required check passed on the very tree of the result, a diff of the attempt exists, and a draft
  pull request was pushed and opened under consumed approvals.  The job is then completed with the
  receipt, and at most one message is sent.
\<close>

theorem published_result_is_proved:
  assumes "publish_result en now i sent d = (e, Inr rc)" "get_job i d = Some j" "jb_result_receipt j = None"
  shows "\<exists>a r. latest_attempt i d = Some a \<and> jb_result_proposal j = Some r \<and> jb_status j = Verifying \<and>
    \<not> at_active a \<and> at_process_state a = Stopped \<and> \<not> has_open_input i d \<and> \<not> job_unresolved i d \<and>
    succeeds (require_audience en d j) \<and> check_attempt_access en now d (jb_requester j) j a ProfileUse = Inr () \<and>
    reject_secrets d j (utf8 (rp_summary r)) = Inr () \<and>
    (jb_job_kind j = KCode \<longrightarrow> code_proved j a r d) \<and>
    rcp_attempt_id rc = at_id a \<and> rcp_published_at rc = now \<and> \<not> rcp_private rc \<and>
    (\<exists>k. get_job i e = Some k \<and> jb_status k = Completed \<and> jb_result_receipt k = Some rc) \<and>
    length (db_sent e) \<le> length (db_sent d) + 1"
proof -
  have i: "jb_id j = i" by (rule jobs.get_key [OF assms(2)])
  from publication_steps [OF assms] obtain r arts
    where c: "commit_publication en now i r arts sent d = Inr (e, rc)"
    and r: "jb_result_proposal j = Some r" "set arts \<subseteq> set (db_artifacts d)" by blast
  note row = committed [OF c assms(2,3) r(1)]
  then obtain a aud where a: "latest_attempt i d = Some a" "require_audience en d j = Inr aud"
    "check_attempt_access en now d (jb_requester j) j a ProfileUse = Inr ()"
    and v: "verify_result j a arts True d = Inr ()" and s: "reject_secrets d j (utf8 (rp_summary r)) = Inr ()"
    and rc: "rcp_attempt_id rc = at_id a" by blast
  have contained: "jb_status j = Verifying" "\<not> at_active a" "at_process_state a = Stopped"
    using v verify_result_contained [of j a arts True d] by simp_all
  have settled: "\<not> has_open_input i d" "\<not> job_unresolved i d"
    and code: "jb_job_kind j = KCode \<longrightarrow> verify_code j a r arts d = Inr ()"
    and scope: "\<not> list_ex (\<lambda>f. af_attempt f \<noteq> at_id a \<or> af_audience_binding f \<noteq> at_audience_binding a) arts"
    using v r(1) i by (auto simp: verify_result_def split: if_splits)
  from row a s rc contained settled r(1) code verify_code_proved [OF _ r(2) scope] show ?thesis
    by (auto simp: succeeds_iff)
qed

theorem published_result_is_proved_witness:
  "\<exists>e rc. publish_result sample_env 1100 101 (Some 900) finished_db = (e, Inr rc) \<and>
     code_proved verifying_job stopped_attempt sample_result finished_db \<and> rcp_attempt_id rc = 104"
proof -
  obtain e rc where p: "publish_result sample_env 1100 101 (Some 900) finished_db = (e, Inr rc)"
    using sample_published by blast
  have j: "get_job 101 finished_db = Some verifying_job" "jb_result_receipt verifying_job = None"
    using finished_get by simp_all
  show ?thesis
    using published_result_is_proved [OF p j] p finished_get by auto
qed

text \<open>
  C13: A result is published once: after a publication, publishing again, at any later time and
  whatever happened in between, returns the same receipt, sends nothing and changes nothing.
\<close>

theorem published_once:
  assumes "service_ok d" "publish_result en now i sent d = (e, Inr rc)"
  shows "publish_result en' now' i sent' (serve_all rs e) = (serve_all rs e, Inr rc)"
proof -
  have "\<exists>j. get_job i e = Some j \<and> jb_result_receipt j = Some rc"
  proof -
    have t: "try_publication en now i sent d = Inr (e, rc)"
      using assms(2) by (auto simp: publish_result_def split: sum.splits option.splits)
    then obtain j where j: "get_job i d = Some j" by (auto simp: try_publication_def)
    show ?thesis
    proof (cases "jb_result_receipt j")
      case None
      from publication_steps [OF assms(2) j None] obtain r arts
        where "commit_publication en now i r arts sent d = Inr (e, rc)" "jb_result_proposal j = Some r" by blast
      then show ?thesis using committed [OF _ j None] by blast
    next
      case (Some x)
      then show ?thesis using t j by (auto simp: try_publication_def)
    qed
  qed
  then obtain j where j: "get_job i e = Some j" "jb_result_receipt j = Some rc" by blast
  have ok: "service_ok e"
    using serve_ok [OF assms(1), of en now "RqPublish i sent"] assms(2) by (simp add: serve_def)
  have "jb_status j = Completed"
    using linv_job [OF service_okD(4) [OF ok], of i "jcore_of j"] j by (simp add: job_ok_def jcore_of_def)
  moreover have "lf_job (life e) i = Some (jcore_of j)" using j(1) by simp
  ultimately have "lf_job (life (serve_all rs e)) i = Some (jcore_of j)"
    using run_forward [OF ok, of rs] unfolding forward_def by fastforce
  then obtain k where "get_job i (serve_all rs e) = Some k" "jb_result_receipt k = Some rc"
    using j(2) by (auto simp: jcore_of_def)
  then show ?thesis by (simp add: publish_result_def try_publication_def)
qed

lemma finished_ok: "service_ok finished_db"
proof -
  have a: "db_audit finished_db = [audit_row 1000 (bump_sequence sample_job) (ServerEv JobQueued)
       (ServerPl (AJobState Queued [])) None AuthServer None (Some 11) 103,
     audit_row 1010 (sample_job\<lparr>jb_event_sequence := 2\<rparr>)
       (ServerEv SrvAttemptStarting) (ServerPl (AJobState Running [])) (Some 104) AuthServer None None 105]"
    by (simp add: running_db_def queued_db_def)
  have b: "[1..2] = [1, 2 :: int]" by (simp add: upto_rec1)
  have r: "bud_tool_rounds sample_budget = 3" "at_tool_rounds stopped_attempt = 0" "at_event_cursor stopped_attempt = 0"
    by (simp_all add: sample_budget_def stopped_attempt_def)
  have c: "oper_tool_class checks_operation = ChecksRun" "oper_id checks_operation = 205"
    "oper_attempt checks_operation = 104"
    by (simp_all add: checks_operation_def new_operation_def)
  have k: "keys_ok finished_db"
    by (auto simp: keys_ok_def keyed_def approval_links_def linked_def get_defs)
  have l: "linv (life finished_db)"
    by (auto simp: linv_def attempts_ok_def numbers_ok_def jobs_ok_def life_def get_defs job_ok_def
        jcore_of_def acore_of_def idle_def runs_def stop_targets_def newest_def)
  have "ids_ok finished_db" using a c by (simp add: ids_ok_def id_lists_def)
  moreover have "journal_ok finished_db"
    using a b by (auto simp: journal_ok_def job_entries_def get_defs)
  moreover have "inputs_ok finished_db" "events_ok finished_db"
    using a r by (auto simp: inputs_ok_def job_input_rows_def get_defs max_inputs_def events_ok_def attempt_events_def)
  moreover have "rounds_ok finished_db" using r by (simp add: rounds_ok_def)
  moreover have "approvals_ok finished_db" "remote_ok finished_db"
    using c by (simp_all add: approvals_ok_def remote_ok_def remote_tools_def)
  ultimately show ?thesis
    using k l by (simp add: service_ok_def records_ok_def drafts_ok_def)
qed

theorem published_once_witness:
  "\<exists>e rc. publish_result sample_env 1100 101 (Some 900) finished_db = (e, Inr rc) \<and>
     publish_result sample_env 1200 101 (Some 901) e = (e, Inr rc)"
proof -
  obtain e rc where p: "publish_result sample_env 1100 101 (Some 900) finished_db = (e, Inr rc)"
    using sample_published by blast
  show ?thesis
    using published_once [OF finished_ok p, of sample_env 1200 "Some 901" "[]"] p by auto
qed

end
