(* ===== verification/Approval_Properties.thy ===== *)
theory Approval_Properties
  imports Event_Properties
begin

text \<open>
  Operations and the decisions of people: what a decision is bound to, what the start of an operation
  has checked, and that an operation starts at most once.
\<close>

section \<open>Decisions\<close>

lemma get_approval_cong: "db_approvals e = db_approvals d \<Longrightarrow> get_approval i e = get_approval i d"
  by (simp add: get_approval_def)

lemma stopped_approvals:
  assumes "request_stop en now j (Some k) t m d = Inr e" "get_approval i d = Some q"
    and "ap_decision q \<notin> {ApPending, ApApproved}"
  shows "get_approval i e = Some q"
proof -
  let ?d = "update_attempt k (\<lambda>a. a\<lparr>at_process_state := Stopping\<rparr>) (update_job (jb_id j) (\<lambda>r. r\<lparr>jb_stop_target := t\<rparr>) d)"
  have "db_approvals e = db_approvals (invalidate_approvals k ?d)"
    using assms(1)
    by (auto simp: request_stop_def Let_def audit_server_def audit_tables ensure_stop_outbox_def create_outbox_def
        add_defs split: sum.splits option.splits if_splits)
  then have "get_approval i e = get_approval i (invalidate_approvals k ?d)" by (rule get_approval_cong)
  also have "\<dots> = Some q"
    using assms(2,3) by (simp add: invalidate_approvals_def get_approval_def tbl_get_where)
  finally show ?thesis .
qed

lemma settled_approval:
  assumes "settle_approval en now u j a x p ok d = Inr e" "get_approval (ap_id p) d = Some p"
  shows "\<exists>q. get_approval (ap_id p) e = Some q \<and> ap_decision q = (if ok then ApApproved else ApRejected) \<and>
      ap_approver q = Some (us_id u) \<and> ap_version q = ap_version p + 1"
proof -
  let ?q = "p\<lparr>ap_approver := Some (us_id u), ap_decision := (if ok then ApApproved else ApRejected),
      ap_decided_at := Some now, ap_version := ap_version p + 1\<rparr>"
  let ?d = "update_approval (ap_id p) (\<lambda>r. r\<lparr>ap_approver := Some (us_id u),
      ap_decision := (if ok then ApApproved else ApRejected), ap_decided_at := Some now,
      ap_version := ap_version r + 1\<rparr>) d"
  have q: "get_approval (ap_id p) ?d = Some ?q"
    using assms(2) by (simp add: get_update_approval)
  obtain f where f: "(if ok then Inr (transition (jb_id j) Running [] ?d)
      else request_stop en now j (Some (at_id a)) Blocked ''approval_rejected'' ?d) = Inr f"
    and e: "audit_server en now (jb_id j) ApprovalResolved
      (AApproval (ap_id p) (oper_argument_digest x) (ap_version p + 1) (if ok then ApApproved else ApRejected))
      (Some (at_id a)) (Some (us_id u)) f = Inr e"
    using assms(1) by (auto simp: settle_approval_def Let_def)
  have "get_approval (ap_id p) e = get_approval (ap_id p) f"
    using e by (intro get_approval_cong) (simp add: audit_server_def audit_tables)
  also have "\<dots> = Some ?q"
  proof (cases ok)
    case True
    then have "f = transition (jb_id j) Running [] ?d" using f by simp
    then show ?thesis using q get_approval_cong [of f ?d] by simp
  next
    case False
    then have "request_stop en now j (Some (at_id a)) Blocked ''approval_rejected'' ?d = Inr f" using f by simp
    from stopped_approvals [OF this q] False show ?thesis by simp
  qed
  finally show ?thesis by simp
qed

text \<open>
  C14: A decision is bound to the proposal that was shown: it succeeds only while the attempt is live
  and the approval pending and unexpired, for the very hash, nonce and version the person saw, the
  tree and the policy the proposal was made for, by someone who may take part in the task and use
  the tool; a team operation is decided by the requester alone.  The decision records who made it.
\<close>

theorem decision_is_bound_to_proposal:
  assumes "decide_approval en now u i v h n ok d = Inr e" "get_approval i d = Some p"
  shows "ap_decision p = ApPending \<and> now < ap_expires_at p \<and> ap_operation_hash p = h \<and> ap_nonce p = n \<and>
    ap_version p = v \<and> ap_realm p = us_realm u \<and>
    (\<exists>j a x. get_job (ap_job p) d = Some j \<and> get_attempt (ap_attempt p) d = Some a \<and>
      get_operation (ap_operation p) d = Some x \<and> at_active a \<and> now < at_lease_expires_at a \<and>
      at_tree_hash a = ap_tree_hash p \<and> require_job_access en now d u j = Inr () \<and>
      check_attempt_access en now d (us_id u) j a (oper_tool_class x) = Inr () \<and>
      (oper_tool_class x = TeamManage \<longrightarrow> us_id u = jb_requester j)) \<and>
    (\<exists>q. get_approval i e = Some q \<and> ap_decision q = (if ok then ApApproved else ApRejected) \<and>
      ap_approver q = Some (us_id u) \<and> ap_version q = v + 1)"
proof -
  obtain a0 :: attempt and r j a x and pr :: profile where l: "locked_attempt en now r (ap_job p) (ap_attempt p) (at_lease_epoch a0) None True d = Inr (j, a)"
    and x: "get_operation (ap_operation p) d = Some x" and acc: "require_job_access en now d u j = Inr ()"
    and team: "\<not> (oper_tool_class x = TeamManage \<and> us_id u \<noteq> jb_requester j)"
    and tool: "check_attempt_access en now d (us_id u) j a (oper_tool_class x) = Inr ()"
    and cur: "approval_current now a pr p v h n" and realm: "ap_realm p = us_realm u"
    and st: "settle_approval en now u j a x p ok d = Inr e"
    using assms by (auto simp: decide_approval_def)
  have "ap_id p = i" by (rule approvals.get_key [OF assms(2)])
  then show ?thesis
    using l locked_attemptD(1,2) [OF l] executionD(1,4) [OF l] x acc team tool cur realm
      settled_approval [OF st] assms(2)
    unfolding approval_current_def by auto
qed

theorem decision_is_bound_to_proposal_witness:
  "1030 < ap_expires_at push_approval \<and> (\<exists>q. get_approval 107 approved_db = Some q \<and> ap_decision q = ApApproved \<and>
     ap_approver q = Some 11)"
proof -
  have p: "get_approval 107 asking_db = Some push_approval" by (simp add: get_defs)
  show ?thesis using decision_is_bound_to_proposal [OF push_decided p] by auto
qed

section \<open>Starting an operation\<close>

lemma find_where:
  assumes "find P xs = Some x" "\<And>y. P (f y) = P y"
  shows "find P (tbl_where Q f xs) = Some (if Q x then f x else x)"
  using assms(1) by (induction xs) (auto simp: tbl_where_def assms(2) split: if_splits)

text \<open>The guards of a start, and the row after it.\<close>

lemma consumed:
  assumes "consume_operation en now ru i k n oid v h nonce d = Inr (e, po)"
  shows "\<exists>j a x. get_job i d = Some j \<and> get_attempt k d = Some a \<and> attempt_operation a j oid d = Inr x \<and>
    at_active a \<and> now < at_lease_expires_at a \<and>
    at_tool_rounds a < bud_tool_rounds (de_budget (at_descriptor a)) \<and>
    oper_status x \<in> {Proposed, Authorized} \<and> oper_version x = v \<and> oper_argument_digest x = h \<and>
    (oper_status x = Proposed \<longrightarrow> (\<exists>p\<in>set (db_approvals d). ap_operation p = oper_id x \<and> ap_decision p = ApApproved \<and>
       now < ap_expires_at p \<and> Some (ap_nonce p) = nonce \<and> ap_operation_hash p = h \<and> ap_tree_hash p = at_tree_hash a \<and>
       (\<exists>who. ap_approver p = Some who \<and> check_attempt_access en now d who j a (oper_tool_class x) = Inr ()))) \<and>
    (oper_status x = Authorized \<longrightarrow> check_attempt_access en now d (jb_requester j) j a (oper_tool_class x) = Inr ()) \<and>
    attempt_operation a j oid e = Inr (start_operation now x)"
proof -
  obtain j a x p d1 where l: "locked_attempt en now ru i k n None True d = Inr (j, a)"
    and x: "attempt_operation a j oid d = Inr x" and c: "consumable j p a x v h = Inr ()"
    and s: "(if oper_status x = Proposed then spend_approval en now j a x h nonce d
       else rbind (check_attempt_access en now d (jb_requester j) j a (oper_tool_class x)) (\<lambda>_. Inr d)) = Inr d1"
    and e: "e = update_attempt (at_id a) (\<lambda>r. r\<lparr>at_tool_rounds := at_tool_rounds r + 1\<rparr>)
      (update_operation (oper_id x) (start_operation now)
        (update_job (jb_id j) (\<lambda>r. r\<lparr>jb_phase := phase_of_tool (oper_tool_class x)\<rparr>) d1))"
    using assms by (auto simp: consume_operation_def Let_def)
  have g: "oper_status x \<in> {Proposed, Authorized}" "oper_version x = v" "oper_argument_digest x = h"
    "at_tool_rounds a < bud_tool_rounds (de_budget (at_descriptor a))"
    using c by (auto simp: consumable_def split: if_splits)
  have ap: "\<exists>p\<in>set (db_approvals d). ap_operation p = oper_id x \<and> ap_decision p = ApApproved \<and>
       now < ap_expires_at p \<and> Some (ap_nonce p) = nonce \<and> ap_operation_hash p = h \<and> ap_tree_hash p = at_tree_hash a \<and>
       (\<exists>who. ap_approver p = Some who \<and> check_attempt_access en now d who j a (oper_tool_class x) = Inr ())"
    if "oper_status x = Proposed"
    using s that by (auto simp: spend_approval_def approved_approval_def find_Some_iff)
  have "db_operations d1 = db_operations d"
    using s by (auto simp: spend_approval_def split: if_splits)
  then have "db_operations e = tbl_where (\<lambda>r. oper_id r = oper_id x) (start_operation now) (db_operations d)"
    by (simp add: e)
  then have "attempt_operation a j oid e = Inr (start_operation now x)"
    using x find_where [of _ "db_operations d" x "start_operation now"]
    by (auto simp: attempt_operation_def start_operation_def)
  moreover have "oper_status x = Authorized \<Longrightarrow> check_attempt_access en now d (jb_requester j) j a (oper_tool_class x) = Inr ()"
    using s by auto
  ultimately show ?thesis
    using l locked_attemptD(1,2) [OF l] executionD(1,4) [OF l] x g ap by blast
qed

text \<open>
  C16: An operation starts at most once: after it was consumed, consuming it again fails, at any later
  time, with whatever version, hash and nonce, and whatever happened in between.
\<close>

theorem operation_starts_at_most_once:
  assumes "service_ok d" "consume_operation en now ru i k n oid v h nonce d = Inr (e, po)"
  shows "\<exists>f. consume_operation en' now' ru' i k n' oid v' h' nonce' (serve_all rs e) = Inl f"
proof (rule ccontr)
  assume "\<not> ?thesis"
  then obtain e' po' where c': "consume_operation en' now' ru' i k n' oid v' h' nonce' (serve_all rs e) = Inr (e', po')"
    by (metis old.sum.exhaust surj_pair)
  obtain j a x where d: "get_job i d = Some j" "get_attempt k d = Some a"
    "attempt_operation a j oid e = Inr (start_operation now x)"
    using consumed [OF assms(2)] by blast
  obtain j' a' x' where d': "get_job i (serve_all rs e) = Some j'" "get_attempt k (serve_all rs e) = Some a'"
    "attempt_operation a' j' oid (serve_all rs e) = Inr x'" "oper_status x' \<in> {Proposed, Authorized}"
    using consumed [OF c'] by blast
  have e: "serve en now (RqConsume ru i k n oid v h nonce) d = e" using assms(2) by (simp add: serve_def state_of_def)
  then have ok: "service_ok e" using serve_ok [OF assms(1)] by metis
  let ?all = "(en, now, RqConsume ru i k n oid v h nonce) # rs"
  have all: "serve_all ?all d = serve_all rs e" using e by simp
  have ids: "jb_realm j' = jb_realm j" "at_id a' = at_id a"
    using run_job [OF assms(1) d(1), of ?all] run_attempt [OF assms(1) d(2), of ?all] d'(1,2)
    unfolding all by (auto simp: job_later_def job_identity_def attempt_later_def attempt_kept_def)
  have g: "grown operation_later (db_operations e) (db_operations (serve_all rs e))"
    using run_later [OF ok] by (simp add: later_def)
  have x: "find (\<lambda>x. oper_operation_id x = oid \<and> oper_attempt x = at_id a \<and> oper_realm x = jb_realm j)
      (db_operations e) = Some (start_operation now x)"
    using d(3) by (simp add: attempt_operation_def)
  from find_grown [OF g x] obtain y where "find (\<lambda>x. oper_operation_id x = oid \<and> oper_attempt x = at_id a \<and> oper_realm x = jb_realm j)
      (db_operations (serve_all rs e)) = Some y" "operation_later (start_operation now x) y"
    by (auto simp: operation_later_def operation_kept_def)
  then have "operation_later (start_operation now x) x'" using d'(3) ids by (simp add: attempt_operation_def)
  then have "1 \<le> operation_rank (oper_status x')" by (simp add: operation_later_def start_operation_def)
  with d'(4) show False by auto
qed

theorem operation_starts_at_most_once_witness:
  "\<exists>f. consume_operation sample_env 1041 sample_runner 101 104 1 700 2 zero_digest (Some 108) pushing_db = Inl f"
proof -
  have ok: "service_ok approved_db"
    using serve_ok [OF asking_ok, of sample_env 1030 "RqDecide owner_user 107 1 zero_digest 108 True"]
    by (simp add: push_approved)
  obtain r where "consume_operation sample_env 1040 sample_runner 101 104 1 700 1 zero_digest (Some 108) approved_db =
      Inr (pushing_db, r)"
    using push_consume by blast
  from operation_starts_at_most_once [OF ok this, of sample_env 1041 sample_runner 1 2 zero_digest "Some 108" "[]"]
  show ?thesis by simp
qed

text \<open>
  C15: The start of an operation proves its authority: the lease is live, the budget of tool rounds is
  not used up, the operation is the version and digest that was proposed, and either it was
  authorized and the requester may use the tool now, or an unexpired approval of that digest, nonce
  and tree was given by someone who may use the tool now.
\<close>

theorem start_is_authorized:
  assumes "consume_operation en now ru i k n oid v h nonce d = Inr (e, po)"
  shows "\<exists>j a x. get_job i d = Some j \<and> get_attempt k d = Some a \<and> attempt_operation a j oid d = Inr x \<and>
    at_active a \<and> now < at_lease_expires_at a \<and>
    at_tool_rounds a < bud_tool_rounds (de_budget (at_descriptor a)) \<and>
    oper_version x = v \<and> oper_argument_digest x = h \<and>
    ((oper_status x = Authorized \<and> check_attempt_access en now d (jb_requester j) j a (oper_tool_class x) = Inr ()) \<or>
     (oper_status x = Proposed \<and> (\<exists>p\<in>set (db_approvals d). ap_operation p = oper_id x \<and> ap_decision p = ApApproved \<and>
       now < ap_expires_at p \<and> Some (ap_nonce p) = nonce \<and> ap_operation_hash p = h \<and> ap_tree_hash p = at_tree_hash a \<and>
       (\<exists>who. ap_approver p = Some who \<and> check_attempt_access en now d who j a (oper_tool_class x) = Inr ()))))"
proof -
  obtain j a x where x: "get_job i d = Some j" "get_attempt k d = Some a" "attempt_operation a j oid d = Inr x"
    "at_active a" "now < at_lease_expires_at a" "at_tool_rounds a < bud_tool_rounds (de_budget (at_descriptor a))"
    "oper_version x = v" "oper_argument_digest x = h"
    and s: "oper_status x \<in> {Proposed, Authorized}"
    and p: "oper_status x = Proposed \<longrightarrow> (\<exists>p\<in>set (db_approvals d). ap_operation p = oper_id x \<and> ap_decision p = ApApproved \<and>
       now < ap_expires_at p \<and> Some (ap_nonce p) = nonce \<and> ap_operation_hash p = h \<and> ap_tree_hash p = at_tree_hash a \<and>
       (\<exists>who. ap_approver p = Some who \<and> check_attempt_access en now d who j a (oper_tool_class x) = Inr ()))"
    and q: "oper_status x = Authorized \<longrightarrow> check_attempt_access en now d (jb_requester j) j a (oper_tool_class x) = Inr ()"
    using consumed [OF assms] by blast
  from s show ?thesis
  proof
    assume "oper_status x = Proposed"
    with p x show ?thesis by blast
  next
    assume "oper_status x \<in> {Authorized}"
    with q x show ?thesis by blast
  qed
qed

theorem start_is_authorized_witness:
  "\<exists>p\<in>set (db_approvals approved_db). ap_decision p = ApApproved \<and> 1040 < ap_expires_at p \<and> ap_approver p = Some 11"
proof -
  obtain r where "consume_operation sample_env 1040 sample_runner 101 104 1 700 1 zero_digest (Some 108) approved_db =
      Inr (pushing_db, r)"
    using push_consume by blast
  from start_is_authorized [OF this]
  show ?thesis by (auto simp: attempt_operation_def)
qed

end
