(* ===== verification/Artifact_Properties.thy ===== *)
theory Artifact_Properties
  imports Event_Properties
begin

text \<open>
  Files of a task: the bounded upload, the limits it keeps, and that a stored file reads back as the
  bytes that were sent.
\<close>

section \<open>The upload\<close>

lemma receive_chunks_acc:
  "int (length data) \<le> limit \<Longrightarrow> receive_chunks limit chunks data =
     (if int (length (data @ concat chunks)) \<le> limit then Inr (data @ concat chunks)
      else Inl (ValueErr ''Artifact size limit exceeded.''))"
  by (induction chunks arbitrary: data) auto

text \<open>
  The upload loop, which stops at the first chunk that would exceed the limit, accepts exactly
  the uploads whose total size is within the limit, and returns their concatenation.
\<close>

theorem receive_chunks_is_bounded_concat:
  "0 \<le> limit \<Longrightarrow> receive_chunks limit chunks [] =
     (if int (length (concat chunks)) \<le> limit then Inr (concat chunks)
      else Inl (ValueErr ''Artifact size limit exceeded.''))"
  using receive_chunks_acc [of "[]" limit chunks] by simp

theorem receive_chunks_is_bounded_concat_witness:
  "receive_chunks 4 [[1, 2], [3], [4]] [] = Inr [1, 2, 3, 4] \<and>
   receive_chunks 3 [[1, 2], [3], [4]] [] = Inl (ValueErr ''Artifact size limit exceeded.'')"
  using receive_chunks_is_bounded_concat [of 4 "[[1, 2], [3], [4]]"]
    receive_chunks_is_bounded_concat [of 3 "[[1, 2], [3], [4]]"] by simp

section \<open>What is stored\<close>

lemma stored:
  assumes "store_artifact en now ru i k n meta chunks tok d = Inr (e, f)"
  shows "\<exists>j a. get_job i d = Some j \<and> get_attempt k d = Some a \<and> at_active a \<and> now < at_lease_expires_at a \<and>
    f = artifact_row now (db_next d) j a meta (concat chunks) \<and>
    db_artifacts e = db_artifacts d @ [f] \<and> db_blobs e = db_blobs d @ [(db_next d, concat chunks)] \<and>
    en_sha en (concat chunks) = ar_checksum meta \<and> reject_secrets d j (concat chunks) = Inr () \<and>
    (ar_media_type meta \<noteq> OctetStream \<longrightarrow> utf8_valid (concat chunks)) \<and>
    int (length (concat chunks)) \<le> bud_artifact_bytes (de_budget (at_descriptor a)) \<and>
    int (length (concat chunks)) \<le> max_artifact_bytes \<and>
    job_artifact_bytes i d + int (length (concat chunks)) \<le> bud_job_artifact_bytes (de_budget (at_descriptor a))"
proof -
  obtain j b data where ab: "artifact_budget en now ru i k n meta d = Inr (j, b)"
    and cc: "checked_content en d j b meta chunks = Inr data"
    and reg: "register_artifact en now ru i k n b meta data tok d = Inr (e, f)"
    using assms by (auto simp: store_artifact_def)
  obtain a where l: "locked_attempt en now ru i k n None True d = Inr (j, a)"
    and b: "b = de_budget (at_descriptor a)" "valid_budget b"
    using ab by (auto simp: artifact_budget_def split: if_splits)
  have lim: "0 \<le> bud_artifact_bytes b" "bud_artifact_bytes b \<le> max_artifact_bytes"
    using b(2) by (simp_all add: valid_budget_def)
  have "receive_chunks (bud_artifact_bytes b) chunks [] = Inr data"
    using cc by (auto simp: checked_content_def)
  then have data: "data = concat chunks" "int (length (concat chunks)) \<le> bud_artifact_bytes b"
    using receive_chunks_acc [of "[]" "bud_artifact_bytes b" chunks] lim(1) by (auto split: if_splits)
  have c: "en_sha en data = ar_checksum meta" "ar_media_type meta \<noteq> OctetStream \<longrightarrow> utf8_valid data"
    "reject_secrets d j data = Inr ()"
    using cc by (auto simp: checked_content_def split: if_splits)
  have r: "f = artifact_row now (db_next d) j a meta data" "db_artifacts e = db_artifacts d @ [f]"
    "db_blobs e = db_blobs d @ [(db_next d, data)]"
    "job_artifact_bytes (jb_id j) d + int (length data) \<le> bud_job_artifact_bytes b"
    using reg l by (auto simp: register_artifact_def fresh_def add_artifact_def Let_def)
  show ?thesis
    using locked_attemptD(1,2,3) [OF l] executionD(1,4) [OF l] data b(1) c r lim(2) by auto
qed

section \<open>A stored file\<close>

definition sample_meta :: artifact_record where
  "sample_meta = \<lparr>ar_kind = ArtLog, ar_checksum = zero_digest, ar_size = 2, ar_media_type = TextPlain,
     ar_filename = ''log''\<rparr>"

lemma sample_meta_valid [simp]: "valid_artifact_record sample_meta" "filename_ok (ar_filename sample_meta)"
  by (simp_all add: valid_artifact_record_def sample_meta_def filename_ok_def len_in_def max_artifact_bytes_def)

lemma sample_upload: "\<exists>e f. store_artifact sample_env 1030 sample_runner 101 104 1 sample_meta [[104], [105]] None asking_db = Inr (e, f)"
proof -
  have l: "locked_attempt sample_env 1030 sample_runner 101 104 1 None b asking_db = Inr (asking_job, working_attempt)" for b
    using push_sampled by (intro sample_locked) (simp_all add: get_defs executing_states_def sample_conversation_def)
  have b: "valid_budget (de_budget (at_descriptor working_attempt))"
    by (simp add: sample_budget_def) code_simp
  have "\<not> credential_bytes [104, 105]" by code_simp
  then have c: "reject_secrets asking_db asking_job [104, 105] = Inr ()"
    using push_sampled by (simp add: reject_secrets_def job_profile_def fetch_opt_def job_secrets_def sampled_def)
  have r: "receive_chunks (bud_artifact_bytes sample_budget) [[104], [105]] [] = Inr [104, 105]"
    by (simp add: sample_budget_def default_budget_fields_def max_artifact_bytes_def max_job_artifact_bytes_def)
  have "utf8_valid [104, 105]" by code_simp
  with c r have "checked_content sample_env asking_db asking_job sample_budget sample_meta [[104], [105]] = Inr [104, 105]"
    by (simp add: checked_content_def) (simp add: sample_meta_def sample_sha_def)
  moreover have "job_artifact_bytes 101 asking_db = 0"
    by (simp add: job_artifact_bytes_def asking_db_def running_db_def queued_db_def)
  moreover have "2 \<le> bud_job_artifact_bytes sample_budget" by (simp add: sample_budget_def default_budget_fields_def max_artifact_bytes_def max_job_artifact_bytes_def)
  ultimately show ?thesis
    using l b by (simp add: store_artifact_def artifact_budget_def register_artifact_def same_credential_def fresh_def Let_def)
qed

text \<open>
  C26: A stored file respects every limit: its size is within the budget of the attempt and the ten
  megabytes of the protocol, all files of the job stay within the budget of the job, its checksum is
  the announced one, text is valid UTF-8, no secret was found in it, and the lease was live.
\<close>

theorem stored_artifact_is_checked:
  assumes "store_artifact en now ru i k n meta chunks tok d = Inr (e, f)"
  shows "\<exists>j a. get_job i d = Some j \<and> get_attempt k d = Some a \<and> at_active a \<and> now < at_lease_expires_at a \<and>
    af_attempt f = k \<and> af_size f = int (length (concat chunks)) \<and>
    af_size f \<le> bud_artifact_bytes (de_budget (at_descriptor a)) \<and> af_size f \<le> 10485760 \<and>
    job_artifact_bytes i d + af_size f \<le> bud_job_artifact_bytes (de_budget (at_descriptor a)) \<and>
    af_checksum f = en_sha en (concat chunks) \<and> reject_secrets d j (concat chunks) = Inr () \<and>
    (af_media_type f \<noteq> OctetStream \<longrightarrow> utf8_valid (concat chunks))"
  using stored [OF assms] attempts.get_key by (fastforce simp: artifact_row_def max_artifact_bytes_def)

theorem stored_artifact_is_checked_witness:
  "\<exists>e f. store_artifact sample_env 1030 sample_runner 101 104 1 sample_meta [[104], [105]] None asking_db = Inr (e, f) \<and>
     af_size f = 2"
proof -
  obtain e f where u: "store_artifact sample_env 1030 sample_runner 101 104 1 sample_meta [[104], [105]] None asking_db = Inr (e, f)"
    using sample_upload by blast
  from stored_artifact_is_checked [OF u] u show ?thesis by auto
qed

text \<open>
  C27: A stored file reads back: at any later time its row is still there and reading it returns
  exactly the bytes that were sent.  (Every file on disk belongs to a row, as in any database the
  service has built.)
\<close>

theorem stored_artifact_reads_back:
  assumes "service_ok d" "store_artifact en now ru i k n meta chunks tok d = Inr (e, f)"
    and "fst ` set (db_blobs d) \<subseteq> af_id ` set (db_artifacts d)" "en_sha en' = en_sha en"
  shows "get_artifact (af_id f) (serve_all rs e) = Some f \<and> read_artifact en' f (serve_all rs e) = Inr (concat chunks)"
proof -
  obtain j a where f: "f = artifact_row now (db_next d) j a meta (concat chunks)"
    and e: "db_artifacts e = db_artifacts d @ [f]" "db_blobs e = db_blobs d @ [(db_next d, concat chunks)]"
    and c: "en_sha en (concat chunks) = ar_checksum meta" "int (length (concat chunks)) \<le> max_artifact_bytes"
    using stored [OF assms(2)] by blast
  have "serve en now (RqArtifact ru i k n meta chunks tok) d = e"
    using assms(2) by (simp add: serve_def state_of_def)
  then have ok: "service_ok e" using serve_ok [OF assms(1)] by metis
  obtain fs bs where g: "db_artifacts (serve_all rs e) = db_artifacts e @ fs" "db_blobs (serve_all rs e) = db_blobs e @ bs"
    using run_later [OF ok, of rs] by (auto simp: later_def grown_prefix)
  have "db_next d \<notin> af_id ` set (db_artifacts d)"
    using service_okD(5) [OF assms(1)] by (fastforce simp: ids_ok_def id_lists_def)
  then have "map_of (db_blobs d) (db_next d) = None"
    using assms(3) by (auto simp: map_of_eq_None_iff)
  then have "map_of (db_blobs (serve_all rs e)) (af_id f) = Some (concat chunks)"
    using g(2) e(2) by (simp add: f artifact_row_def map_add_def)
  moreover have "take (nat max_artifact_bytes + 1) (concat chunks) = concat chunks"
    using c(2) by (simp add: max_artifact_bytes_def)
  moreover have "get_artifact (af_id f) (serve_all rs e) = Some f"
    using ids_unique(6) [OF service_okD(5) [OF run_ok [OF ok]], of f rs] g(1) e(1) by simp
  ultimately show ?thesis
    using c(1) assms(4) by (simp add: read_artifact_def f artifact_row_def)
qed

theorem stored_artifact_reads_back_witness:
  "\<exists>e f. store_artifact sample_env 1030 sample_runner 101 104 1 sample_meta [[104], [105]] None asking_db = Inr (e, f) \<and>
     read_artifact sample_env f e = Inr [104, 105]"
proof -
  obtain e f where u: "store_artifact sample_env 1030 sample_runner 101 104 1 sample_meta [[104], [105]] None asking_db = Inr (e, f)"
    using sample_upload by blast
  have "db_blobs asking_db = []" by (simp add: asking_db_def running_db_def queued_db_def)
  then have "fst ` set (db_blobs asking_db) \<subseteq> af_id ` set (db_artifacts asking_db)" by simp
  from stored_artifact_reads_back [OF asking_ok u this refl, of "[]"] u show ?thesis by auto
qed

end
