(* ===== verification/Agent_Dispatch.thy ===== *)
theory Agent_Dispatch
  imports Agent_Jobs
begin

text \<open>
  Admission of chat messages, \<^verbatim>\<open>zerver/actions/agent_dispatch.py\<close>: the agents a stored message
  addresses, the task each of them receives and the receipt that records the decision.  \<open>uuid5\<close>
  (the name-based uuid of the standard library) and whether a recipient is a direct message group
  are arguments.
\<close>

section \<open>Targets\<close>

definition mentioned :: "message \<Rightarrow> uid list \<Rightarrow> db \<Rightarrow> profile list" where
  "mentioned m ids d = filter (\<lambda>p. pr_realm p = ms_realm m \<and> pr_bot_user p \<in> set ids) (db_profiles d)"

text \<open>The partner of a direct conversation of two, when the message is the other side's.\<close>

definition addressed :: "env \<Rightarrow> (nat \<Rightarrow> bool) \<Rightarrow> message \<Rightarrow> db \<Rightarrow> profile list" where
  "addressed en grp m d =
     (let members = remdups (en_dm_members en (ms_recipient_id m)) in
      if \<not> grp (ms_recipient_id m) then []
      else if length members \<noteq> 2 \<or> ms_sender m \<notin> set members then []
      else filter (\<lambda>p. pr_realm p = ms_realm m \<and> pr_bot_user p \<in> set members \<and>
                       pr_bot_user p \<noteq> ms_sender m) (db_profiles d))"

definition targets ::
    "env \<Rightarrow> (nat \<Rightarrow> bool) \<Rightarrow> message \<Rightarrow> uid list \<Rightarrow> db \<Rightarrow> (profile \<times> trigger_kind) list" where
  "targets en grp m ids d =
     (let ms = mentioned m ids d in
      map (\<lambda>p. (p, Mention)) ms @
      map (\<lambda>p. (p, DirectMessage))
        (filter (\<lambda>p. pr_id p \<notin> pr_id ` set ms) (addressed en grp m d)))"

section \<open>Choices of a coding task\<close>

definition repository_complete :: "repository option \<Rightarrow> bool" where
  "repository_complete w = (case w of
     None \<Rightarrow> False
   | Some r \<Rightarrow> length (repo_allowed_refs r) = 1 \<and> repo_required_checks r \<noteq> [])"

definition coding_choices :: "profile \<Rightarrow> db \<Rightarrow> exn + repository option \<times> string \<times> bool" where
  "coding_choices p d =
     rbind (fetch_opt ''repository'' get_repository (pr_default_repository p) d) (\<lambda>w.
       Inr (w, (case w of
                  None \<Rightarrow> []
                | Some r \<Rightarrow> if repository_complete w then repo_allowed_refs r ! 0 else []),
            repository_complete w))"

section \<open>The check before a task is offered\<close>

datatype preflight = PreflightAccepted | PreflightNeedsInput

definition preflight_repository ::
    "profile \<Rightarrow> job_kind option \<Rightarrow> repository option \<Rightarrow> db \<Rightarrow> exn + repository option \<times> bool" where
  "preflight_repository p kind repo d = (case kind of
     None \<Rightarrow>
       rbind (coding_choices p d) (\<lambda>(w, _, complete).
         Inr (if pr_default_mode p \<noteq> KCode then None else w, complete))
   | Some _ \<Rightarrow>
       if repo \<noteq> None \<and> map_option repo_id repo \<noteq> pr_default_repository p
       then Inl (ValueErr ''Repository requires a new configuration.'')
       else Inr (repo, repository_complete repo \<and> cap_code_ready (pr_capability_report p)))"

definition preflight_actions :: "job_kind \<Rightarrow> bool \<Rightarrow> action list" where
  "preflight_actions kind complete = [ProfileUse, ContextRead] @
     (if kind = KCode \<and> complete then coding_actions else if kind = KManage then [TeamManage] else [])"

definition preflight_settings :: "env \<Rightarrow> user \<Rightarrow> profile \<Rightarrow> db \<Rightarrow> exn + realm_settings" where
  "preflight_settings en actor p d =
     (case get_user en (pr_bot_user p) of
        None \<Rightarrow> Inl AccessDenied
      | Some b \<Rightarrow>
          if us_realm b \<noteq> us_realm actor \<or> \<not> us_active b then Inl AccessDenied
          else (case realm_row (us_realm actor) d of
              None \<Rightarrow> Inl AccessDenied
            | Some st \<Rightarrow> if \<not> rs_enabled st \<or> us_bot actor then Inl AccessDenied else Inr st))"

definition preflight_profile ::
    "env \<Rightarrow> time \<Rightarrow> user \<Rightarrow> profile \<Rightarrow> message option \<Rightarrow> scope option \<Rightarrow> job_kind option \<Rightarrow>
     repository option \<Rightarrow> bool \<Rightarrow> db \<Rightarrow> exn + preflight" where
  "preflight_profile en now who p source dest kind repo strict d =
     rbind (active_realm_user en (us_realm who) (us_id who)) (\<lambda>actor.
     rbind (preflight_settings en actor p d) (\<lambda>st.
     rbind (admission_block en now d p (\<not> strict)) (\<lambda>_.
     rbind (preflight_repository p kind repo d) (\<lambda>(w, complete).
       let k = (case kind of None \<Rightarrow> pr_default_mode p | Some k \<Rightarrow> k) in
       rbind (each (\<lambda>act. check_agent_access en now d actor (pr_id p) (map_option repo_id w) source act dest)
                (preflight_actions k complete)) (\<lambda>_.
         if (k \<noteq> KCode \<or> complete) \<and> queue_full st p d
         then Inl (if strict then ValueErr ''Agent queue is full.'' else AccessDenied)
         else Inr (if k = KCode \<and> \<not> complete then PreflightNeedsInput else PreflightAccepted))))))"

section \<open>Receipts\<close>

definition new_receipt ::
    "message \<Rightarrow> profile \<Rightarrow> user \<Rightarrow> trigger_kind \<Rightarrow> dispatch_decision \<Rightarrow> string \<Rightarrow> uuid option \<Rightarrow> dispatch_receipt" where
  "new_receipt m p who tr dec reason job = \<lparr>dr_realm = ms_realm m, dr_source = Some (ms_id m),
     dr_profile = pr_id p, dr_requester = us_id who, dr_trigger = tr, dr_decision = dec,
     dr_reason = reason, dr_job = job\<rparr>"

definition receipt_of :: "message \<Rightarrow> profile \<Rightarrow> trigger_kind \<Rightarrow> db \<Rightarrow> dispatch_receipt option" where
  "receipt_of m p tr d = find (\<lambda>r. dr_realm r = ms_realm m \<and> dr_source r = Some (ms_id m) \<and>
     dr_profile r = pr_id p \<and> dr_trigger r = tr) (db_receipts d)"

text \<open>\<open>get_or_create\<close>.\<close>

definition receipt ::
    "message \<Rightarrow> profile \<Rightarrow> user \<Rightarrow> trigger_kind \<Rightarrow> dispatch_decision \<Rightarrow> string \<Rightarrow> uuid option \<Rightarrow> db \<Rightarrow>
     db \<times> dispatch_receipt" where
  "receipt m p who tr dec reason job d = (case receipt_of m p tr d of
     Some r \<Rightarrow> (d, r)
   | None \<Rightarrow>
       (let r = new_receipt m p who tr dec reason job in (d\<lparr>db_receipts := db_receipts d @ [r]\<rparr>, r)))"

section \<open>Admission\<close>

definition message_key :: "(string \<Rightarrow> uuid) \<Rightarrow> message \<Rightarrow> profile \<Rightarrow> trigger_kind \<Rightarrow> uuid" where
  "message_key u5 m p tr = u5 (''agent-message:'' @ int_str (int (ms_id m)) @ '':'' @
     uuid_str (pr_id p) @ '':'' @ trigger_name tr)"

definition message_request ::
    "(string \<Rightarrow> uuid) \<Rightarrow> message \<Rightarrow> profile \<Rightarrow> trigger_kind \<Rightarrow> repository option \<Rightarrow> string \<Rightarrow> bool \<Rightarrow> job_request" where
  "message_request u5 m p tr repo base ready =
     \<lparr>rq_profile = pr_id p, rq_source = ms_id m, rq_text = ms_content m, rq_key = message_key u5 m p tr,
      rq_kind = pr_default_mode p,
      rq_delivery = (if pr_default_mode p = KCode then TPatch else TAnswer),
      rq_repository = repo, rq_base_ref = base, rq_messages = [], rq_attachments = [],
      rq_trigger = tr, rq_draft = \<not> ready, rq_allow_blocked = True, rq_follows = None\<rparr>"

text \<open>The task of one target, with the decision about it.\<close>

definition admit_target ::
    "env \<Rightarrow> time \<Rightarrow> (string \<Rightarrow> uuid) \<Rightarrow> message \<Rightarrow> user \<Rightarrow> profile \<Rightarrow> trigger_kind \<Rightarrow> db \<Rightarrow>
     exn + db \<times> job \<times> dispatch_decision \<times> string" where
  "admit_target en now u5 m sender p tr d =
     (if pr_default_mode p = KCode then
        rbind (coding_choices p d) (\<lambda>(w, base, ready).
        rbind (create_job en now sender (message_request u5 m p tr w base ready) None d) (\<lambda>(d1, j).
          Inr (d1, j, if ready then DispatchAccepted else DispatchNeedsInput,
               if ready then [] else ''configuration_needed'')))
      else
        rbind (create_job en now sender (message_request u5 m p tr None [] True) None d) (\<lambda>(d1, j).
          Inr (d1, j, DispatchAccepted, [])))"

text \<open>The refusals that become a receipt; every other exception ends the whole admission.\<close>

definition refusal :: "profile \<Rightarrow> exn \<Rightarrow> string option" where
  "refusal p e =
     (if e = AccessDenied
      then Some (if pr_default_mode p = KManage then ''command_not_allowed'' else ''not_shared'')
      else if is_jsonable_error e \<or> is_value_error e \<or> e = DoesNotExist ''settings''
      then Some (if e = ValueErr ''Agent queue is full.'' then ''queue_full'' else ''admission_denied'')
      else None)"

definition runner_busy :: "runner \<Rightarrow> db \<Rightarrow> bool" where
  "runner_busy r d = (row_count (\<lambda>a. at_runner a = ru_id r \<and> at_active a) (db_attempts d) \<ge> ru_capacity r)"

definition waiting_reason :: "time \<Rightarrow> runner \<Rightarrow> job \<Rightarrow> db \<Rightarrow> string" where
  "waiting_reason now r j d =
     (if jb_blocked_reason j \<noteq> [] then jb_blocked_reason j
      else if observed_runner_status now r = ROffline then ''runner_offline''
      else if observed_runner_status now r = RUnknown then ''runner_unknown''
      else if runner_busy r d then ''runner_busy'' else [])"

definition dispatch_target ::
    "env \<Rightarrow> time \<Rightarrow> (string \<Rightarrow> uuid) \<Rightarrow> message \<Rightarrow> user \<Rightarrow> profile \<times> trigger_kind \<Rightarrow> db \<Rightarrow>
     exn + db \<times> dispatch_receipt" where
  "dispatch_target en now u5 m sender t d = (let (p, tr) = t in
     case admit_target en now u5 m sender p tr d of
       Inl e \<Rightarrow> (case refusal p e of
           None \<Rightarrow> Inl e
         | Some reason \<Rightarrow> Inr (receipt m p sender tr DispatchRejected reason None d))
     | Inr (d1, j, dec, reason) \<Rightarrow>
         if dec = DispatchAccepted
         then rbind (fetch ''runner'' (get_runner (pr_runner p) d1)) (\<lambda>r.
           Inr (receipt m p sender tr dec (waiting_reason now r j d1) (Some (jb_id j)) d1))
         else Inr (receipt m p sender tr dec reason (Some (jb_id j)) d1))"

fun dispatch_targets ::
    "env \<Rightarrow> time \<Rightarrow> (string \<Rightarrow> uuid) \<Rightarrow> message \<Rightarrow> user \<Rightarrow> (profile \<times> trigger_kind) list \<Rightarrow> db \<Rightarrow>
     exn + db \<times> dispatch_receipt list" where
  "dispatch_targets en now u5 m sender [] d = Inr (d, [])"
| "dispatch_targets en now u5 m sender (t # ts) d =
     rbind (dispatch_target en now u5 m sender t d) (\<lambda>(d1, r).
     rbind (dispatch_targets en now u5 m sender ts d1) (\<lambda>(d2, rs). Inr (d2, r # rs)))"

definition admit_message ::
    "env \<Rightarrow> time \<Rightarrow> (string \<Rightarrow> uuid) \<Rightarrow> (nat \<Rightarrow> bool) \<Rightarrow> message \<Rightarrow> uid list \<Rightarrow> db \<Rightarrow>
     exn + db \<times> dispatch_receipt list" where
  "admit_message en now u5 grp m ids d =
     rbind (fetch ''sender'' (get_user en (ms_sender m))) (\<lambda>sender.
       if us_bot sender then Inr (d, [])
       else dispatch_targets en now u5 m sender (targets en grp m ids d) d)"

end
