(* ===== verification/Agent_Selection.thy ===== *)
theory Agent_Selection
  imports Agent_Dispatch
begin

text \<open>
  The advisory selection of \<^verbatim>\<open>zerver/lib/agent_selection.py\<close>: it predicts, for the form of a new task,
  which agent would take it and whether the task may be queued.  It changes no state.
\<close>

section \<open>The advisory selection\<close>

datatype selection_state = SelUnset | SelExplicit | SelCleared
datatype selection_source = SourceNone | SourceExplicit | SourceTeamDefault

record selection =
  sl_source :: selection_source
  sl_profile :: "(uuid \<times> int) option"
  sl_selection_revision :: "int option"
  sl_state :: selection_state
  sl_kind :: "job_kind option"
  sl_repository :: "uuid option"
  sl_default_repository :: "(uuid \<times> string \<times> string) option"
  sl_runner :: "(string \<times> host_kind \<times> runner_state) option"
  sl_eligible :: bool
  sl_queue_permitted :: bool
  sl_reason :: string

definition empty_selection :: "selection_state \<Rightarrow> string \<Rightarrow> selection" where
  "empty_selection state reason = \<lparr>sl_source = SourceNone, sl_profile = None,
     sl_selection_revision = None, sl_state = state, sl_kind = None, sl_repository = None,
     sl_default_repository = None, sl_runner = None, sl_eligible = False,
     sl_queue_permitted = False, sl_reason = reason\<rparr>"

text \<open>The context of the new task: exactly one of a readable destination and a readable message.\<close>

definition selection_context :: "env \<Rightarrow> user \<Rightarrow> scope option \<Rightarrow> nat option \<Rightarrow> exn + message option" where
  "selection_context en actor dest src =
     (if (dest = None) = (src = None) then Inl (ValueErr ''Provide one task context.'')
      else if dest \<noteq> None \<and> \<not> fst (readable_scope en actor actor dest)
      then Inl (ValueErr ''Task context is unavailable.'')
      else (case src of
          None \<Rightarrow> Inr None
        | Some i \<Rightarrow> (case en_access_message en (us_id actor) i of
            None \<Rightarrow> Inl (ValueErr ''Task context is unavailable.'')
          | Some m \<Rightarrow>
              if ms_realm m \<noteq> us_realm actor then Inl (ValueErr ''Task context is unavailable.'')
              else Inr (Some m))))"

definition default_repository_info :: "repository option \<Rightarrow> (uuid \<times> string \<times> string) option" where
  "default_repository_info w = (case w of
     None \<Rightarrow> None
   | Some r \<Rightarrow>
       if repo_allowed_refs r = [] then None
       else Some (repo_id r, repo_workspace_alias r, repo_allowed_refs r ! 0))"

definition selected_repository ::
    "user \<Rightarrow> uuid option \<Rightarrow> job_kind \<Rightarrow> repository option \<Rightarrow> db \<Rightarrow> repository option" where
  "selected_repository actor rid kind w d = (case rid of
     Some i \<Rightarrow> (case get_repository i d of
         None \<Rightarrow> None
       | Some r \<Rightarrow> if repo_realm r = us_realm actor then Some r else None)
   | None \<Rightarrow> if kind = KCode then w else None)"

text \<open>The verdict about a visible candidate: the reason, and whether the task may be queued.\<close>

definition selection_verdict ::
    "env \<Rightarrow> time \<Rightarrow> user \<Rightarrow> message option \<Rightarrow> scope option \<Rightarrow> profile \<Rightarrow> runner_state \<Rightarrow> uuid option \<Rightarrow>
     job_kind \<Rightarrow> repository option \<Rightarrow> db \<Rightarrow> exn + string \<times> bool" where
  "selection_verdict en now actor m dest p status rid kind repo d =
     (if rid \<noteq> None \<and> repo = None then Inr (''repository_unavailable'', False)
      else if repo \<noteq> None \<and> map_option repo_id repo \<noteq> pr_default_repository p
      then Inr (''repository_unavailable'', False)
      else if pr_desired_state p \<noteq> PEnabled \<or> pr_archived_at p \<noteq> None
      then Inr (''profile_unavailable'', False)
      else if status = RRevoked then Inr (''runner_unavailable'', False)
      else if kind = KCode \<and> \<not> cap_code_ready (pr_capability_report p)
      then Inr (''coding_unavailable'', False)
      else (case preflight_profile en now actor p m dest (Some kind) repo True d of
          Inl e \<Rightarrow>
            if e = AccessDenied then Inr (''access_denied'', False)
            else if is_value_error e \<or> e = DoesNotExist ''settings''
            then Inr (if e = ValueErr ''Agent queue is full.'' then ''queue_full'' else ''profile_not_ready'', False)
            else Inl e
        | Inr PreflightNeedsInput \<Rightarrow> Inr (''coding_needs_input'', False)
        | Inr PreflightAccepted \<Rightarrow>
            Inr (if status = ROffline then ''runner_offline''
                 else if status = RUnknown then ''runner_unknown'' else ''available'', True)))"

definition candidate :: "uuid option \<Rightarrow> nat \<Rightarrow> db \<Rightarrow> (selection_source \<times> uuid \<times> int option) option" where
  "candidate explicit realm d = (case explicit of
     Some i \<Rightarrow> Some (SourceExplicit, i, None)
   | None \<Rightarrow> (case realm_row realm d of
       None \<Rightarrow> None
     | Some st \<Rightarrow> (case rs_default_profile st of
         None \<Rightarrow> None
       | Some i \<Rightarrow> Some (SourceTeamDefault, i, Some (rs_default_selection_revision st)))))"

definition selection_of ::
    "env \<Rightarrow> time \<Rightarrow> user \<Rightarrow> message option \<Rightarrow> scope option \<Rightarrow> job_kind option \<Rightarrow> uuid option \<Rightarrow>
     selection_state \<Rightarrow> selection_source \<Rightarrow> int option \<Rightarrow> profile \<Rightarrow> db \<Rightarrow> exn + selection" where
  "selection_of en now actor m dest kind rid state source sr p d =
     rbind (fetch ''runner'' (get_runner (pr_runner p) d)) (\<lambda>r.
     rbind (fetch_opt ''repository'' get_repository (pr_default_repository p) d) (\<lambda>w.
       let k = (case kind of None \<Rightarrow> pr_default_mode p | Some k \<Rightarrow> k);
           repo = selected_repository actor rid k w d;
           status = observed_runner_status now r
       in rbind (selection_verdict en now actor m dest p status rid k repo d) (\<lambda>(reason, eligible).
            Inr \<lparr>sl_source = source, sl_profile = Some (pr_id p, pr_revision p),
                 sl_selection_revision = sr, sl_state = state, sl_kind = Some k,
                 sl_repository = map_option repo_id repo,
                 sl_default_repository = default_repository_info w,
                 sl_runner = Some (ru_name r, ru_host_kind r, status), sl_eligible = eligible,
                 sl_queue_permitted = eligible, sl_reason = reason\<rparr>)))"

definition resolve_agent_selection ::
    "env \<Rightarrow> time \<Rightarrow> user \<Rightarrow> scope option \<Rightarrow> nat option \<Rightarrow> job_kind option \<Rightarrow> uuid option \<Rightarrow> uuid option \<Rightarrow>
     selection_state \<Rightarrow> db \<Rightarrow> exn + selection" where
  "resolve_agent_selection en now actor dest src kind rid explicit state d =
     rbind (selection_context en actor dest src) (\<lambda>m.
       if state = SelCleared then Inr (empty_selection state ''cleared'')
       else (case candidate explicit (us_realm actor) d of
           None \<Rightarrow> Inr (empty_selection state ''no_eligible_default'')
         | Some (source, i, sr) \<Rightarrow>
             (case find (\<lambda>p. pr_id p = i) (accessible_profiles en now d actor) of
                None \<Rightarrow> Inr (empty_selection state
                  (if source = SourceTeamDefault then ''no_eligible_default'' else ''unavailable''))
              | Some p \<Rightarrow> selection_of en now actor m dest kind rid state source sr p d)))"

end
