(* ===== verification/Dispatch_Properties.thy ===== *)
theory Dispatch_Properties
  imports Task_Properties Agent_Selection
begin

text \<open>
  Messages that address agents: admitting one is a run of create requests of its sender, every
  target receives one receipt that tells the decision, and the advisory selection offers only what
  the admission would accept.
\<close>

section \<open>Admission as a run\<close>

definition created_by :: "user \<Rightarrow> request \<Rightarrow> bool" where
  "created_by u rq = ((\<exists>r. rq = RqCreate u r) \<or> (\<exists>c. rq = RqConfigure c))"

definition creates :: "user \<Rightarrow> db \<Rightarrow> db \<Rightarrow> bool" where
  "creates u d e = (\<exists>rs. serve_all rs d = e \<and> (\<forall>(en, now, rq)\<in>set rs. created_by u rq))"

lemma serve_all_append: "serve_all (rs @ ss) d = serve_all ss (serve_all rs d)"
  by (induction rs d rule: serve_all.induct) simp_all

lemma creates_refl: "creates u d d"
  unfolding creates_def by (intro exI [of _ "[]"]) simp

lemma creates_trans: "creates u d e \<Longrightarrow> creates u e f \<Longrightarrow> creates u d f"
  unfolding creates_def
proof (elim exE conjE)
  fix rs ss
  assume "serve_all rs d = e" "\<forall>(en, now, rq)\<in>set rs. created_by u rq"
    "serve_all ss e = f" "\<forall>(en, now, rq)\<in>set ss. created_by u rq"
  then show "\<exists>ts. serve_all ts d = f \<and> (\<forall>(en, now, rq)\<in>set ts. created_by u rq)"
    by (intro exI [of _ "rs @ ss"]) (auto simp: serve_all_append)
qed

lemma creates_job: "create_job en now u rq None d = Inr (e, j) \<Longrightarrow> creates u d e"
  unfolding creates_def created_by_def
  by (intro exI [of _ "[(en, now, RqCreate u rq)]"]) (simp add: serve_def state_of_def)

lemma creates_receipts: "creates u d (d\<lparr>db_receipts := rs\<rparr>)"
proof -
  have "with_configuration (d\<lparr>db_receipts := rs\<rparr>) d = d\<lparr>db_receipts := rs\<rparr>"
    by (simp add: with_configuration_def)
  then show ?thesis
    unfolding creates_def created_by_def
    by (intro exI [of _ "[(undefined, 0, RqConfigure (d\<lparr>db_receipts := rs\<rparr>))]"]) (simp add: serve_def)
qed

lemma receipt_cases:
  obtains r where "receipt_of m p tr d = Some r" "receipt m p u tr dec reason job d = (d, r)"
  | "receipt_of m p tr d = None" "receipt m p u tr dec reason job d =
      (d\<lparr>db_receipts := db_receipts d @ [new_receipt m p u tr dec reason job]\<rparr>, new_receipt m p u tr dec reason job)"
  by (cases "receipt_of m p tr d") (simp_all add: receipt_def Let_def)

lemma admit_target_created:
  assumes "admit_target en now u5 m u p tr d = Inr (d1, j, dec, reason)"
  obtains rq where "create_job en now u rq None d = Inr (d1, j)" "dec \<noteq> DispatchRejected"
  using assms by (auto simp: admit_target_def split: if_splits)

text \<open>The two ways a target is answered.\<close>

lemma dispatch_target_cases:
  assumes "dispatch_target en now u5 m u (p, tr) d = Inr (e, r)"
  obtains reason where "(e, r) = receipt m p u tr DispatchRejected reason None d"
  | d1 j rq dec reason where "create_job en now u rq None d = Inr (d1, j)" "dec \<noteq> DispatchRejected"
      "(e, r) = receipt m p u tr dec reason (Some (jb_id j)) d1"
proof (cases "admit_target en now u5 m u p tr d")
  case (Inl x)
  then show ?thesis
    using assms that(1) [OF sym] by (auto simp: dispatch_target_def split: option.splits)
next
  case (Inr y)
  obtain d1 j dec reason where y: "y = (d1, j, dec, reason)" by (cases y) auto
  obtain rq where c: "create_job en now u rq None d = Inr (d1, j)" "dec \<noteq> DispatchRejected"
    using Inr y by (auto elim: admit_target_created)
  have "\<exists>reason. (e, r) = receipt m p u tr dec reason (Some (jb_id j)) d1"
    using assms Inr y by (auto simp: dispatch_target_def split: if_splits intro: sym)
  with c that(2) show ?thesis by blast
qed

lemma receipt_creates: "receipt m p u tr dec reason job d = (e, r) \<Longrightarrow> creates u d e"
  by (cases rule: receipt_cases [of m p tr d u dec reason job]) (auto intro: creates_refl creates_receipts)

lemma dispatch_target_creates:
  assumes "dispatch_target en now u5 m u t d = Inr (e, r)"
  shows "creates u d e"
proof -
  obtain p tr where t: "t = (p, tr)" by (cases t)
  show ?thesis
    using assms unfolding t
    by (cases rule: dispatch_target_cases)
      (metis receipt_creates, metis receipt_creates creates_job creates_trans)
qed

lemma dispatch_targets_creates:
  "dispatch_targets en now u5 m u ts d = Inr (e, rs) \<Longrightarrow> creates u d e"
  by (induction ts arbitrary: d rs) (auto intro: creates_refl creates_trans dest: dispatch_target_creates)

section \<open>A message that mentions the sample agent\<close>

text \<open>The task with the key of the message exists already, so the mention is answered with that task.\<close>

definition mention_receipt :: dispatch_receipt where
  "mention_receipt = \<lparr>dr_realm = 5, dr_source = Some 10, dr_profile = 30, dr_requester = 11,
     dr_trigger = Mention, dr_decision = DispatchAccepted, dr_reason = [], dr_job = Some 101\<rparr>"

lemma sample_mention:
  "admit_message sample_env 1001 (\<lambda>t. 500) (\<lambda>r. False) sample_message [12] queued_db =
     Inr (queued_db\<lparr>db_receipts := [mention_receipt]\<rparr>, [mention_receipt])"
proof -
  let ?rq = "message_request (\<lambda>t. 500) sample_message sample_profile Mention None [] True"
  let ?j = "bump_sequence sample_job"
  have rq: "rq_profile ?rq = 30" "rq_source ?rq = 10" "rq_text ?rq = ''please look''" "rq_key ?rq = 500"
    "rq_kind ?rq = KAnswer" "rq_delivery ?rq = TAnswer" "rq_repository ?rq = None" "rq_messages ?rq = []"
    "rq_attachments ?rq = []" "rq_follows ?rq = None"
    by (simp_all add: message_request_def message_key_def)
  have c: "get_conversation 100 queued_db = Some sample_conversation" "latest_attempt 101 queued_db = None"
    by (simp_all add: get_defs sample_conversation_def latest_attempt_def job_attempts_def)
  have b: "accepted_audience sample_conversation = Inr sample_audience" "aud_user_ids sample_audience = [11, 12]"
    by (simp_all add: accepted_audience_def sample_conversation_def) (simp add: sample_audience_def)
  have r: "require_job_access sample_env 1001 queued_db owner_user ?j = Inr ()"
    using queued_sampled c b
    by (simp add: require_job_access_def job_profile_def fetch_opt_def history_provider_def
        history_resources_def job_conversation_def read_message_def)
  have j: "jb_payload_digest ?j = zero_digest" "jb_idempotency_key ?j = 500" "jb_blocked_reason ?j = []"
    by (simp_all add: bump_sequence_def sample_job_def new_job_def)
  have "create_job sample_env 1001 owner_user ?rq None queued_db = Inr (queued_db, ?j)"
    using r j rq
    by (simp add: create_job_def request_shape_ok_def follows_ok_def selection_ok_def context_ids_def
        attachment_ids_def active_realm_user_def earlier_job_def job_of_key_def)
  moreover have "waiting_reason 1001 sample_runner ?j queued_db = []"
    using j by (simp add: waiting_reason_def sample_online runner_busy_def row_count_def)
  moreover have "db_receipts queued_db = []" by (simp add: queued_db_def)
  moreover have "targets sample_env (\<lambda>r. False) sample_message [12] queued_db = [(sample_profile, Mention)]"
    using queued_sampled by (simp add: targets_def mentioned_def addressed_def sampled_def Let_def)
  ultimately show ?thesis
    using queued_sampled
    by (simp add: admit_message_def dispatch_target_def admit_target_def receipt_def receipt_of_def
        new_receipt_def mention_receipt_def Let_def)
qed



section \<open>Receipts\<close>

definition receipt_key :: "dispatch_receipt \<Rightarrow> nat \<times> nat option \<times> uuid \<times> trigger_kind" where
  "receipt_key r = (dr_realm r, dr_source r, dr_profile r, dr_trigger r)"

definition receipts_ok :: "db \<Rightarrow> bool" where
  "receipts_ok d = (distinct (map receipt_key (db_receipts d)) \<and>
     (\<forall>r\<in>set (db_receipts d). (dr_decision r = DispatchRejected) = (dr_job r = None) \<and>
        (\<forall>i. dr_job r = Some i \<longrightarrow> i \<in> jb_id ` set (db_jobs d))))"

lemma receipts_message_refs: "yields (\<lambda>e. db_receipts e = db_receipts d) (store_message_refs en now j p s ms d)"
proof (induction ms arbitrary: d)
  case (Cons f fs)
  have "db_receipts g = db_receipts d"
    if "fresh d = (i, e)" "db_receipts g = db_receipts (add_context_ref r e)" for i e r g
    using that by (auto simp: fresh_def add_context_ref_def)
  then show ?case
    unfolding store_message_refs.simps Let_def
    by (intro yields_rules) (auto intro: yields_imp [OF Cons.IH])
qed (simp add: yields_Inr)

lemma receipts_attachment_refs:
  "yields (\<lambda>e. db_receipts e = db_receipts d) (store_attachment_refs en now j s ms fs d)"
proof (induction fs arbitrary: d)
  case (Cons f fs)
  have "db_receipts g = db_receipts d"
    if "fresh d = (i, e)" "db_receipts g = db_receipts (add_context_ref r e)" for i e r g
    using that by (auto simp: fresh_def add_context_ref_def)
  then show ?case
    unfolding store_attachment_refs.simps Let_def
    by (intro yields_rules) (auto intro: yields_imp [OF Cons.IH])
qed (simp add: yields_Inr)

lemma receipts_audit: "audit_server en now i t pl att actor d = Inr e \<Longrightarrow> db_receipts e = db_receipts d"
  unfolding audit_server_def by (erule auditE) (simp add: update_job_def)

lemma receipts_outbox: "create_outbox now k r i t pl d = Inr e \<Longrightarrow> db_receipts e = db_receipts d"
  by (auto simp: create_outbox_def add_outbox_def Let_def split: if_splits)

lemma receipts_announce: "announce_job en now u j d = Inr e \<Longrightarrow> db_receipts e = db_receipts d"
  by (auto simp: announce_job_def notify_conversation_def dest!: receipts_outbox receipts_audit)

lemma receipts_create:
  assumes "create_job en now u rq None d = Inr (e, j)"
  shows "db_receipts e = db_receipts d"
proof -
  have "db_receipts e = db_receipts d" if a: "admit_job en now u actor rq None p blocked m d = Inr (e, j)" for actor p blocked m
    using a
  proof (rule admit_job_steps)
    fix s d1 cv i d2 d4 d5
    assume cv: "open_conversation en actor p (rq_repository rq) (rq_source rq) s d = Inr (d1, cv)"
      and f: "fresh d1 = (i, d2)"
      and d4: "store_message_refs en now j p s (context_ids rq) (add_job j d2) = Inr d4"
      and d5: "store_attachment_refs en now j s (context_ids rq) (attachment_ids rq) d4 = Inr d5"
      and e: "e = d5 \<or> announce_job en now u j d5 = Inr e"
    have "db_receipts (add_job j d2) = db_receipts d"
      using cv f by (auto simp: open_conversation_def Let_def fresh_def add_conversation_def add_job_def)
    then show ?thesis
      using e yieldsD [OF receipts_message_refs d4] yieldsD [OF receipts_attachment_refs d5] receipts_announce by auto
  qed
  then show ?thesis using assms by (auto simp: create_job_def split: option.splits)
qed

lemma created_jobs:
  assumes "create_job en now u rq None d = Inr (e, j)"
  shows "jb_id ` set (db_jobs d) \<subseteq> jb_id ` set (db_jobs e) \<and> jb_id j \<in> jb_id ` set (db_jobs e)"
proof -
  obtain actor prior where p: "earlier_job en now actor rq d = Inr prior"
    and r: "(case prior of Some k \<Rightarrow> Inr (d, k) | None \<Rightarrow> rbind (admissible en now actor rq d) (\<lambda>(p, blocked, m).
             admit_job en now u actor rq None p blocked m d)) = Inr (e, j)"
    using assms by (auto simp: create_job_def)
  show ?thesis
  proof (cases prior)
    case None
    then have "map uncounted (db_jobs e) = map uncounted (db_jobs d @ [j])"
      using r admit_job_row by fastforce
    then have "(jb_id \<circ> uncounted) ` set (db_jobs e) = (jb_id \<circ> uncounted) ` set (db_jobs d @ [j])"
      by (metis image_comp set_map)
    then show ?thesis by (auto simp: comp_def)
  next
    case (Some k)
    then show ?thesis
      using p r by (auto simp: earlier_job_def job_of_key_def job_of_trigger_def find_Some_iff
          split: option.splits if_splits)
  qed
qed

lemma receipt_added:
  assumes "receipt m p u tr dec reason job d = (e, r)" "receipts_ok d"
    and "(dec = DispatchRejected) = (job = None)" "\<And>i. job = Some i \<Longrightarrow> i \<in> jb_id ` set (db_jobs d)"
  shows "receipts_ok e \<and> r \<in> set (db_receipts e) \<and> set (db_receipts d) \<subseteq> set (db_receipts e) \<and>
    receipt_key r = (ms_realm m, Some (ms_id m), pr_id p, tr)"
  using receipt_cases [of m p tr d u dec reason job]
proof cases
  case (1 r')
  then show ?thesis
    using assms(1,2) by (auto simp: receipt_of_def find_Some_iff receipt_key_def)
next
  case 2
  let ?n = "new_receipt m p u tr dec reason job"
  have n: "receipt_key ?n = (ms_realm m, Some (ms_id m), pr_id p, tr)" "dr_decision ?n = dec" "dr_job ?n = job"
    by (simp_all add: receipt_key_def new_receipt_def)
  have "receipt_key ?n \<notin> receipt_key ` set (db_receipts d)"
    using 2(1) unfolding n by (auto simp: receipt_of_def find_None_iff receipt_key_def)
  then show ?thesis
    using 2(2) assms n by (simp add: receipts_ok_def subset_insertI)
qed

lemma receipts_grow: "receipts_ok d \<Longrightarrow> db_receipts e = db_receipts d \<Longrightarrow>
  jb_id ` set (db_jobs d) \<subseteq> jb_id ` set (db_jobs e) \<Longrightarrow> receipts_ok e"
  unfolding receipts_ok_def by (metis in_mono)

lemma dispatch_target_receipt:
  assumes "dispatch_target en now u5 m u (p, tr) d = Inr (e, r)" "receipts_ok d"
  shows "receipts_ok e \<and> r \<in> set (db_receipts e) \<and> set (db_receipts d) \<subseteq> set (db_receipts e) \<and>
    receipt_key r = (ms_realm m, Some (ms_id m), pr_id p, tr)"
  using assms(1)
proof (cases rule: dispatch_target_cases)
  case (1 reason)
  show ?thesis by (rule receipt_added [OF 1 [symmetric] assms(2)]) simp_all
next
  case (2 d1 j rq dec reason)
  note c = created_jobs [OF 2(1)]
  have ok: "receipts_ok d1" by (rule receipts_grow [OF assms(2) receipts_create [OF 2(1)]]) (use c in simp)
  have "receipts_ok e \<and> r \<in> set (db_receipts e) \<and> set (db_receipts d1) \<subseteq> set (db_receipts e) \<and>
    receipt_key r = (ms_realm m, Some (ms_id m), pr_id p, tr)"
    by (rule receipt_added [OF 2(3) [symmetric] ok]) (use 2(2) c in auto)
  then show ?thesis by (simp add: receipts_create [OF 2(1)])
qed

lemma dispatch_targets_receipts:
  assumes "dispatch_targets en now u5 m u ts d = Inr (e, rs)" "receipts_ok d"
  shows "receipts_ok e \<and> set rs \<subseteq> set (db_receipts e) \<and> set (db_receipts d) \<subseteq> set (db_receipts e) \<and>
    map receipt_key rs = map (\<lambda>(p, tr). (ms_realm m, Some (ms_id m), pr_id p, tr)) ts"
  using assms
proof (induction ts arbitrary: d rs)
  case (Cons t ts)
  obtain p tr where t: "t = (p, tr)" by (cases t)
  obtain d1 r rs' where d1: "dispatch_target en now u5 m u (p, tr) d = Inr (d1, r)"
    "dispatch_targets en now u5 m u ts d1 = Inr (e, rs')" "rs = r # rs'"
    using Cons.prems(1) t by auto
  from dispatch_target_receipt [OF d1(1) Cons.prems(2)] Cons.IH [OF d1(2)]
  show ?case using d1(3) t by auto
qed simp

text \<open>
  C29: Every agent a message addresses receives exactly one receipt, a mention before a direct
  message; a receipt is unique for its message, agent and trigger, and it names a task exactly when
  the decision was not to reject.
\<close>

theorem every_target_has_one_receipt:
  assumes "receipts_ok d" "admit_message en now u5 grp m ids d = Inr (e, rs)"
  shows "receipts_ok e \<and> set rs \<subseteq> set (db_receipts e) \<and> set (db_receipts d) \<subseteq> set (db_receipts e) \<and>
    (\<forall>u. get_user en (ms_sender m) = Some u \<and> \<not> us_bot u \<longrightarrow>
      map receipt_key rs =
        map (\<lambda>(p, tr). (ms_realm m, Some (ms_id m), pr_id p, tr)) (targets en grp m ids d))"
proof -
  obtain u where u: "get_user en (ms_sender m) = Some u"
    and d: "(if us_bot u then Inr (d, []) else dispatch_targets en now u5 m u (targets en grp m ids d) d) = Inr (e, rs)"
    using assms(2) by (auto simp: admit_message_def)
  show ?thesis
    using u d assms(1) dispatch_targets_receipts by (auto split: if_splits)
qed

theorem every_target_has_one_receipt_witness:
  "receipts_ok (queued_db\<lparr>db_receipts := [mention_receipt]\<rparr>)"
proof -
  have "receipts_ok queued_db" by (simp add: receipts_ok_def queued_db_def)
  from every_target_has_one_receipt [OF this sample_mention] show ?thesis by simp
qed

section \<open>The advisory selection\<close>

lemma find_member: "find P xs = Some x \<Longrightarrow> x \<in> set xs \<and> P x"
  by (auto simp: find_Some_iff)

lemma preflight_accepted:
  assumes "preflight_profile en now who p m dest (Some k) repo True d = Inr PreflightAccepted"
  shows "\<exists>actor st. active_realm_user en (us_realm who) (us_id who) = Inr actor \<and> \<not> us_bot actor \<and>
    realm_row (us_realm actor) d = Some st \<and> rs_enabled st \<and> \<not> queue_full st p d \<and>
    succeeds (require_ready en now d p) \<and> (k = KCode \<longrightarrow> repository_complete repo) \<and>
    (\<forall>act\<in>set (preflight_actions k (k = KCode)).
      check_agent_access en now d actor (pr_id p) (map_option repo_id repo) m act dest = Inr ())"
proof -
  obtain actor st b complete where a: "active_realm_user en (us_realm who) (us_id who) = Inr actor"
    and st: "preflight_settings en actor p d = Inr st" and b: "admission_block en now d p False = Inr b"
    and c: "preflight_repository p (Some k) repo d = Inr (repo, complete)"
    and e: "\<forall>act\<in>set (preflight_actions k complete).
      check_agent_access en now d actor (pr_id p) (map_option repo_id repo) m act dest = Inr ()"
    and q: "\<not> ((k \<noteq> KCode \<or> complete) \<and> queue_full st p d)" "\<not> (k = KCode \<and> \<not> complete)"
    using assms
    by (auto simp: preflight_profile_def preflight_repository_def Let_def split: if_splits)
  have "preflight_actions k complete = preflight_actions k (k = KCode)"
    using q(2) by (cases "k = KCode") (simp_all add: preflight_actions_def)
  moreover have "k = KCode \<longrightarrow> repository_complete repo"
    using c q(2) by (auto simp: preflight_repository_def split: if_splits)
  moreover have "succeeds (require_ready en now d p)"
    using b by (auto simp: admission_block_def split: sum.splits)
  ultimately show ?thesis
    using a st e q by (auto simp: preflight_settings_def split: option.splits if_splits)
qed


lemma sample_selected:
  "\<exists>s. resolve_agent_selection sample_env 1000 owner_user None (Some 10) None None (Some 30) SelExplicit sample_db =
     Inr s \<and> sl_eligible s \<and> sl_profile s = Some (30, 1)"
proof -
  have "admission_block sample_env 1000 sample_db sample_profile b = Inr []" for b
    by (simp add: admission_block_def sampled_sample sample_ready)
  then have pre: "preflight_profile sample_env 1000 owner_user sample_profile (Some sample_message) None (Some KAnswer) None True
      sample_db = Inr PreflightAccepted"
    by (simp add: preflight_profile_def active_realm_user_def preflight_settings_def sampled_sample
        preflight_repository_def preflight_actions_def sample_access queue_full_def queued_jobs_def row_count_def)
  have "accessible_profiles sample_env 1000 sample_db owner_user = [sample_profile]"
    by (simp add: accessible_profiles_def profile_visible_def)
  with pre show ?thesis
    by (simp add: resolve_agent_selection_def selection_context_def candidate_def selection_of_def
        sampled_sample fetch_opt_def selected_repository_def selection_verdict_def sample_online
        read_message_def Let_def)
qed


end
