(* ===== verification/Recovery_Properties.thy ===== *)
theory Recovery_Properties
  imports Publication_Properties
begin

text \<open>
  Recovery: the outbox never starves.  A pass over the due deliveries always returns, and leaves
  each of them delivered, parked or due again within five minutes.
\<close>

section \<open>Rows of the outbox\<close>

text \<open>A row keeps its schedule, and its status but for being delivered or parked.\<close>

definition advanced :: "outbox \<Rightarrow> outbox \<Rightarrow> bool" where
  "advanced x y = (ob_next_attempt_at y = ob_next_attempt_at x \<and> ob_attempt_count y = ob_attempt_count x \<and>
     (ob_status y = ob_status x \<or> ob_status y \<in> {ObDelivered, ObBlocked}))"

definition outbox_advanced :: "db \<Rightarrow> db \<Rightarrow> bool" where
  "outbox_advanced d e = (\<forall>k x. get_outbox k d = Some x \<longrightarrow> (\<exists>y. get_outbox k e = Some y \<and> advanced x y))"

lemma advanced_refl: "advanced x x"
  by (simp add: advanced_def)

lemma advanced_trans: "advanced x y \<Longrightarrow> advanced y z \<Longrightarrow> advanced x z"
  by (auto simp: advanced_def)

lemma outbox_advanced_refl: "db_outbox e = db_outbox d \<Longrightarrow> outbox_advanced d e"
  by (auto simp: outbox_advanced_def get_outbox_def intro: advanced_refl)

lemma outbox_advanced_trans: "outbox_advanced d e \<Longrightarrow> outbox_advanced e f \<Longrightarrow> outbox_advanced d f"
  unfolding outbox_advanced_def by (meson advanced_trans)

lemma outbox_advanced_cong:
  "outbox_advanced d e \<Longrightarrow> db_outbox f = db_outbox e \<Longrightarrow> outbox_advanced d f"
  by (simp add: outbox_advanced_def get_outbox_def)

lemma mark_delivered_advanced: "outbox_advanced d (mark_delivered now j d)"
proof (cases "get_outbox (ResultKey (jb_id j)) d")
  case None
  then show ?thesis
    by (auto simp: outbox_advanced_def mark_delivered_def outbox.get_add intro: advanced_refl)
next
  case (Some x)
  let ?x = "x\<lparr>ob_realm := jb_realm j, ob_job := Some (jb_id j), ob_event_type := ResultPublish,
    ob_status := ObDelivered, ob_delivered_at := Some now\<rparr>"
  have k: "ob_key x = ResultKey (jb_id j)" by (rule outbox.get_key [OF Some])
  have "get_outbox (ob_key ?x) (put_outbox ?x d) = Some ?x" using Some k by (simp add: outbox.get_put_same)
  moreover have "get_outbox i (put_outbox ?x d) = get_outbox i d" if "i \<noteq> ob_key ?x" for i
    by (rule outbox.get_put_other) (use that in simp)
  ultimately have "\<exists>z. get_outbox i (put_outbox ?x d) = Some z \<and> advanced y z" if "get_outbox i d = Some y" for i y
    using that Some k by (cases "i = ob_key x") (simp_all add: advanced_def)
  then show ?thesis
    using Some unfolding outbox_advanced_def mark_delivered_def by simp
qed

lemma park_advanced: "outbox_advanced d (park_publication i d)"
  by (auto simp: outbox_advanced_def park_publication_def get_outbox_def tbl_get_where advanced_def)

lemma audit_outbox: "audit en now i t pl att auth ev actor d = Inr e \<Longrightarrow> db_outbox e = db_outbox d"
  by (simp add: audit_tables)

lemma complete_job_advanced:
  assumes "complete_job en now j a m private d = Inr (e, rc)"
  shows "outbox_advanced d e"
proof -
  let ?r = "\<lparr>rcp_message_id = m, rcp_attempt_id = at_id a, rcp_published_at = now, rcp_private = private\<rparr>"
  let ?d2 = "transition (jb_id j) Completed [] (update_job (jb_id j) (\<lambda>r. r\<lparr>jb_result_message := Some m,
      jb_result_receipt := Some ?r, jb_completed_at := Some now, jb_phase := Deliver\<rparr>) d)"
  have "db_outbox e = db_outbox (mark_delivered now j ?d2)"
    using assms by (auto simp: complete_job_def Let_def dest!: audit_outbox)
  moreover have "outbox_advanced d ?d2" by (rule outbox_advanced_refl) simp
  ultimately show ?thesis
    by (blast intro: outbox_advanced_trans outbox_advanced_cong mark_delivered_advanced)
qed

lemma post_result_outbox: "yields (\<lambda>(e, m). db_outbox e = db_outbox d) (post_result j dest c sent d)"
  unfolding post_result_def send_message_def by (intro yields_rules) auto

lemma commit_advanced:
  assumes "commit_publication en now i r arts sent d = Inr (e, rc)"
  shows "outbox_advanced d e"
proof -
  obtain j where j: "get_job i d = Some j" using assms by (auto simp: commit_publication_def)
  show ?thesis
  proof (cases "jb_result_receipt j")
    case None
    obtain a dest c d1 m where p: "post_result j dest c sent d = Inr (d1, m)"
      and e: "complete_job en now j a m False d1 = Inr (e, rc)"
      using assms j None by (auto simp: commit_publication_def)
    have "outbox_advanced d d1" using yieldsD [OF post_result_outbox p] by (auto intro: outbox_advanced_refl)
    then show ?thesis using complete_job_advanced [OF e] by (rule outbox_advanced_trans)
  next
    case (Some x)
    then show ?thesis using assms j by (auto simp: commit_publication_def intro: outbox_advanced_refl)
  qed
qed

lemma block_advanced:
  assumes "block_publication en now i t r park d = Inr e"
  shows "outbox_advanced d e"
proof -
  have "e = d \<or> (\<exists>d1. db_outbox d1 = db_outbox d \<and> (e = d1 \<or> e = park_publication i d1))"
    using assms by (auto simp: block_publication_def dest!: audit_outbox split: if_splits)
  then show ?thesis
    using park_advanced by (auto intro: outbox_advanced_refl outbox_advanced_trans)
qed

lemma publish_advanced: "outbox_advanced d (fst (publish_result en now i sent d))"
proof -
  have "outbox_advanced d e" if "try_publication en now i sent d = Inr (e, rc)" for e rc
    using that by (auto simp: try_publication_def intro: outbox_advanced_refl commit_advanced split: option.splits)
  then show ?thesis
    by (auto simp: publish_result_def intro: outbox_advanced_refl block_advanced split: sum.splits option.splits)
qed

lemma deliver_advanced: "outbox_advanced d (fst (deliver en now sent notify x d))"
  using publish_advanced
  by (auto simp: deliver_def Let_def case_prod_beta intro: outbox_advanced_refl split: option.splits)

section \<open>One delivery\<close>

definition settled_until :: "time \<Rightarrow> outbox \<Rightarrow> bool" where
  "settled_until now y = (ob_status y \<in> {ObDelivered, ObBlocked} \<or>
     (now < ob_next_attempt_at y \<and> ob_next_attempt_at y \<le> now + 300))"

lemma backoff_bounds: "1 \<le> n \<Longrightarrow> 1 < backoff n \<and> backoff n \<le> 300"
proof -
  assume "1 \<le> n"
  then have "(2::int) ^ 1 \<le> 2 ^ min n 8" by (intro power_increasing) simp_all
  then show ?thesis by (simp add: backoff_def)
qed

lemma advanced_settled: "advanced x y \<Longrightarrow> settled_until now x \<Longrightarrow> settled_until now y"
  by (auto simp: advanced_def settled_until_def)

text \<open>\<open>settle_delivery\<close> after the delivery.\<close>

lemma settle_row:
  assumes "get_outbox k d = Some y" "settled_until now y"
  shows "\<exists>e. settle_delivery now k b d = Inr e \<and> (\<exists>z. get_outbox k e = Some z \<and> settled_until now z) \<and>
    (\<forall>i. i \<noteq> k \<longrightarrow> get_outbox i e = get_outbox i d)"
proof -
  let ?z = "y\<lparr>ob_status := (if b then ObDelivered else ObPending), ob_delivered_at := (if b then Some now else None)\<rparr>"
  have k: "ob_key y = k" by (rule outbox.get_key [OF assms(1)])
  have put: "get_outbox k (put_outbox ?z d) = Some ?z" using assms(1) k by (simp add: outbox.get_put_same)
  have other: "get_outbox i (put_outbox ?z d) = get_outbox i d" if "i \<noteq> k" for i
    by (rule outbox.get_put_other) (use that k in simp)
  show ?thesis
  proof (cases "ob_status y \<in> {ObDelivered, ObBlocked}")
    case True
    then show ?thesis using assms by (auto simp: settle_delivery_def)
  next
    case False
    then have "settled_until now ?z" using assms(2) by (auto simp: settled_until_def)
    with False put other assms(1) show ?thesis by (auto simp: settle_delivery_def)
  qed
qed

lemma reconcile_one_settles:
  assumes "get_outbox k d = Some x"
  shows "\<exists>e. reconcile_one en now sent notify k d = Inr e \<and>
    (ob_next_attempt_at x \<le> now \<or> settled_until now x \<longrightarrow> (\<exists>z. get_outbox k e = Some z \<and> settled_until now z)) \<and>
    (\<forall>i y. i \<noteq> k \<and> get_outbox i d = Some y \<longrightarrow> (\<exists>z. get_outbox i e = Some z \<and> advanced y z)) \<and>
    (\<exists>z. get_outbox k e = Some z)"
proof (cases "ob_status x = ObDelivered \<or> now < ob_next_attempt_at x")
  case True
  then show ?thesis
    using assms by (auto simp: reconcile_one_def take_delivery_def settled_until_def intro: advanced_refl)
next
  case False
  let ?y = "x\<lparr>ob_status := ObProcessing, ob_attempt_count := ob_attempt_count x + 1,
    ob_next_attempt_at := now + backoff (ob_attempt_count x + 1)\<rparr>"
  have k: "ob_key x = k" by (rule outbox.get_key [OF assms])
  let ?d1 = "put_outbox ?y d"
  have t: "take_delivery now k d = Inr (?d1, Some ?y)"
    using False assms by (simp add: take_delivery_def Let_def)
  have y: "get_outbox k ?d1 = Some ?y" using assms k by (simp add: outbox.get_put_same)
  have other: "get_outbox i ?d1 = get_outbox i d" if "i \<noteq> k" for i
    by (rule outbox.get_put_other) (use that k in simp)
  obtain d2 b where d2: "deliver en now sent notify ?y ?d1 = (d2, b)" by (cases "deliver en now sent notify ?y ?d1")
  have adv: "outbox_advanced ?d1 d2" using deliver_advanced [of ?d1 en now sent notify ?y] d2 by simp
  have "settled_until now ?y" using backoff_bounds [of "ob_attempt_count x + 1"] by (simp add: settled_until_def)
  then obtain z where "get_outbox k d2 = Some z" "settled_until now z"
    using adv y advanced_settled unfolding outbox_advanced_def by blast
  from settle_row [OF this, of b] obtain e where e: "settle_delivery now k b d2 = Inr e"
    "\<exists>z. get_outbox k e = Some z \<and> settled_until now z" "\<forall>i. i \<noteq> k \<longrightarrow> get_outbox i e = get_outbox i d2" by blast
  have "reconcile_one en now sent notify k d = Inr e" using t d2 e(1) by (simp add: reconcile_one_def)
  moreover have "\<exists>z. get_outbox i e = Some z \<and> advanced w z" if "i \<noteq> k" "get_outbox i d = Some w" for i w
    using adv other [OF that(1)] that e(3) unfolding outbox_advanced_def by auto
  ultimately show ?thesis using e(2) by blast
qed

section \<open>A pass\<close>



lemma over_settles:
  assumes "\<And>k. k \<in> set ks \<Longrightarrow> \<exists>x. get_outbox k d = Some x \<and> ob_next_attempt_at x \<le> now \<or>
      (\<exists>x. get_outbox k d = Some x \<and> settled_until now x)"
  shows "\<exists>e. over (reconcile_one en now sent notify) ks d = Inr e \<and>
    (\<forall>k\<in>set ks. \<exists>z. get_outbox k e = Some z \<and> settled_until now z) \<and>
    (\<forall>k z. get_outbox k d = Some z \<and> settled_until now z \<longrightarrow> (\<exists>z. get_outbox k e = Some z \<and> settled_until now z))"
  using assms
proof (induction ks arbitrary: d)
  case (Cons k ks)
  from Cons.prems [of k] obtain x where x: "get_outbox k d = Some x" "ob_next_attempt_at x \<le> now \<or> settled_until now x"
    by auto
  from reconcile_one_settles [OF x(1), of en now sent notify] obtain e where
    e: "reconcile_one en now sent notify k d = Inr e" "\<exists>z. get_outbox k e = Some z \<and> settled_until now z"
    "\<forall>i y. i \<noteq> k \<and> get_outbox i d = Some y \<longrightarrow> (\<exists>z. get_outbox i e = Some z \<and> advanced y z)"
    using x(2) by blast
  have kept: "\<exists>z. get_outbox i e = Some z \<and> settled_until now z"
    if "get_outbox i d = Some y" "settled_until now y" for i y
    using that e(2,3) advanced_settled by (cases "i = k") blast+
  have "\<exists>x. get_outbox i e = Some x \<and> ob_next_attempt_at x \<le> now \<or>
      (\<exists>x. get_outbox i e = Some x \<and> settled_until now x)" if i: "i \<in> set ks" for i
  proof (cases "i = k")
    case False
    from Cons.prems [of i] i obtain y where y: "get_outbox i d = Some y" "ob_next_attempt_at y \<le> now \<or> settled_until now y"
      by auto
    then obtain z where "get_outbox i e = Some z" "advanced y z" using e(3) False by blast
    with y(2) show ?thesis using advanced_settled by (auto simp: advanced_def)
  qed (use e(2) in blast)
  from Cons.IH [OF this] obtain f where f: "over (reconcile_one en now sent notify) ks e = Inr f"
    "\<forall>k\<in>set ks. \<exists>z. get_outbox k f = Some z \<and> settled_until now z"
    "\<forall>k z. get_outbox k e = Some z \<and> settled_until now z \<longrightarrow> (\<exists>z. get_outbox k f = Some z \<and> settled_until now z)"
    by blast
  then show ?case using e(1,2) kept by (auto intro!: exI [of _ f])
qed simp

text \<open>
  C31: No delivery starves: a pass over the outbox always returns, and every due row it took is then
  delivered, parked by the publication, or due again later, within five minutes, whatever the notifier
  and the publication answered.  (The delivery key is unique in the table.)
\<close>

theorem every_due_delivery_is_settled_or_retried:
  assumes "distinct (map ob_key (db_outbox d))"
  shows "\<exists>e. reconcile_outbox en now sent notify limit d = Inr e \<and>
    (\<forall>x\<in>set (due_deliveries now limit d). \<exists>y. get_outbox (ob_key x) e = Some y \<and>
      (ob_status y = ObDelivered \<or> ob_status y = ObBlocked \<or>
       (now < ob_next_attempt_at y \<and> ob_next_attempt_at y \<le> now + 300)))"
proof -
  have due: "get_outbox (ob_key x) d = Some x \<and> ob_next_attempt_at x \<le> now" if "x \<in> set (due_deliveries now limit d)" for x
  proof -
    have "x \<in> set (db_outbox d)" "ob_next_attempt_at x \<le> now"
      using that by (auto simp: due_deliveries_def dest!: in_set_takeD)
    then show ?thesis using tbl_get_distinct [OF assms] by (simp add: get_outbox_def)
  qed
  have "\<exists>e. over (reconcile_one en now sent notify) (map ob_key (due_deliveries now limit d)) d = Inr e \<and>
    (\<forall>k\<in>set (map ob_key (due_deliveries now limit d)). \<exists>z. get_outbox k e = Some z \<and> settled_until now z) \<and>
    (\<forall>k z. get_outbox k d = Some z \<and> settled_until now z \<longrightarrow> (\<exists>z. get_outbox k e = Some z \<and> settled_until now z))"
    by (rule over_settles) (use due in fastforce)
  then show ?thesis
    by (auto simp: reconcile_outbox_def settled_until_def)
qed

theorem every_due_delivery_is_settled_or_retried_witness:
  "\<exists>e y. reconcile_outbox sample_env 1000 (\<lambda>i. None) None 10 queued_db = Inr e \<and> get_outbox (WakeKey 101 1) e = Some y \<and>
     (ob_status y = ObDelivered \<or> ob_status y = ObBlocked \<or>
       (1000 < ob_next_attempt_at y \<and> ob_next_attempt_at y \<le> 1300))"
proof -
  have "\<exists>x\<in>set (due_deliveries 1000 10 queued_db). ob_key x = WakeKey 101 1"
    by (simp add: due_deliveries_def queued_db_def)
  moreover have "distinct (map ob_key (db_outbox queued_db))" by (simp add: queued_db_def)
  ultimately show ?thesis
    using every_due_delivery_is_settled_or_retried [of queued_db sample_env 1000 "\<lambda>i. None" None 10] by fastforce
qed

end
