(* ===== verification/Credential_Properties.thy ===== *)
theory Credential_Properties
  imports Event_Properties
begin

text \<open>
  Who may speak to the service: guessing the code of a pairing closes it, a revoked runner and a
  rotated credential are refused, and no secret of a task enters its journal.
\<close>

section \<open>Guessing the code of a pairing\<close>

text \<open>Somebody enters a code, in the preview or, signed in as a user, in the approval.\<close>

datatype guess = PreviewCode time string | ApproveCode time user string

fun guess_code :: "guess \<Rightarrow> string" where
  "guess_code (PreviewCode t c) = c"
| "guess_code (ApproveCode t u c) = c"

fun guess_run :: "env \<Rightarrow> guess list \<Rightarrow> uuid \<Rightarrow> db \<Rightarrow> db" where
  "guess_run en [] i d = d"
| "guess_run en (PreviewCode t c # gs) i d = guess_run en gs i (fst (preview_pairing en t i c d))"
| "guess_run en (ApproveCode t u c # gs) i d = guess_run en gs i (fst (approve_pairing en t u i c d))"

fun as_preview :: "guess \<Rightarrow> time \<times> string" where
  "as_preview (PreviewCode t c) = (t, c)"
| "as_preview (ApproveCode t u c) = (t, c)"

text \<open>A wrong code writes the same row in both places.\<close>

lemma approve_wrong:
  assumes "get_pairing i d = Some p" "\<not> credential_matches en c (pa_user_code_hash p)"
  shows "fst (approve_pairing en t u i c d) = fst (preview_pairing en t i c d)"
  using assms by (auto simp: approve_pairing_def preview_pairing_def check_pairing_code_def Let_def)

lemma preview_hash:
  assumes "get_pairing i d = Some p"
  shows "\<exists>q. get_pairing i (fst (preview_pairing en t i c d)) = Some q \<and> pa_user_code_hash q = pa_user_code_hash p"
proof -
  let ?q = "fst (check_pairing_code en t p c)"
  have q: "pa_id ?q = i" "pa_user_code_hash ?q = pa_user_code_hash p"
    using pairings.get_key [OF assms] by (auto simp: check_pairing_code_def)
  have "get_pairing i (put_pairing ?q d) = Some ?q" using assms q(1) by (simp add: pairings.get_put_same)
  then show ?thesis
    using assms q(2) by (auto simp: preview_pairing_def split: prod.splits)
qed

lemma guess_run_codes:
  assumes "get_pairing i d = Some p" "\<forall>g\<in>set gs. \<not> credential_matches en (guess_code g) (pa_user_code_hash p)"
  shows "guess_run en gs i d = try_codes en (map as_preview gs) i d"
  using assms
proof (induction gs arbitrary: d p)
  case (Cons g gs)
  obtain t c where c: "as_preview g = (t, c)" "guess_code g = c" by (cases g) auto
  obtain q where q: "get_pairing i (fst (preview_pairing en t i c d)) = Some q" "pa_user_code_hash q = pa_user_code_hash p"
    using preview_hash [OF Cons.prems(1)] by blast
  have "guess_run en (g # gs) i d = guess_run en gs i (fst (preview_pairing en t i c d))"
    using c Cons.prems approve_wrong [OF Cons.prems(1)] by (cases g) auto
  with c Cons.IH [OF q(1)] Cons.prems(2) q(2) show ?case by simp
qed simp

text \<open>
  C32: Five wrong codes close a pairing for good: after any five guesses that are not its code, in the
  preview or in the approval and at any times, neither the right code approves it nor the right
  secret exchanges it.
\<close>

theorem wrong_codes_close_a_pairing:
  assumes "get_pairing i d = Some p" "pa_state p = PaPending" "pa_failed_attempts p < 5"
    and "5 \<le> length gs" "\<forall>g\<in>set gs. \<not> credential_matches en (guess_code g) (pa_user_code_hash p)"
  shows "(\<exists>e. snd (approve_pairing en' now u i code (guess_run en gs i d)) = Inl e) \<and>
    (\<exists>e. exchange_pairing en' now i secret token refresh (guess_run en gs i d) = (guess_run en gs i d, Inl e))"
proof -
  have "\<forall>(t, c)\<in>set (map as_preview gs). \<not> credential_matches en c (pa_user_code_hash p)"
  proof
    fix x assume "x \<in> set (map as_preview gs)"
    then obtain g where "g \<in> set gs" "x = as_preview g" by auto
    moreover have "snd (as_preview g) = guess_code g" by (cases g) simp_all
    ultimately show "case x of (t, c) \<Rightarrow> \<not> credential_matches en c (pa_user_code_hash p)"
      using assms(5) by (simp add: case_prod_beta)
  qed
  from wrong_codes_spend [OF assms(1) _ _ this] obtain q
    where "get_pairing i (try_codes en (map as_preview gs) i d) = Some q" "spent q"
    using assms(2-4) by (auto simp: failures_bounded_def pairing_max_failures_def)
  then show ?thesis
    unfolding guess_run_codes [OF assms(1,5)] using spent_not_approved spent_not_exchanged by blast
qed

definition code_env :: env where
  "code_env = sample_env\<lparr>en_sha := (\<lambda>bs. map char_of bs)\<rparr>"

definition open_pairing :: pairing where
  "open_pairing = \<lparr>pa_id = 50, pa_realm = None, pa_owner = None, pa_runner = None, pa_device_name = ''laptop'',
     pa_fingerprint = ''f'', pa_polling_secret_hash = ''secret'', pa_user_code_hash = ''ABCD'',
     pa_expires_at = 1600, pa_approved_at = None, pa_exchanged_at = None, pa_failed_attempts = 0,
     pa_state = PaPending\<rparr>"

theorem wrong_codes_close_a_pairing_witness:
  "\<exists>e. snd (approve_pairing code_env 1010 owner_user 50 ''ABCD''
      (guess_run code_env (replicate 4 (PreviewCode 1000 ''AAAA'') @ [ApproveCode 1000 owner_user ''BBBB'']) 50
        (add_pairing open_pairing sample_db))) = Inl e"
proof -
  let ?gs = "replicate 4 (PreviewCode 1000 ''AAAA'') @ [ApproveCode 1000 owner_user ''BBBB'']"
  have "get_pairing 50 (add_pairing open_pairing sample_db) = Some open_pairing"
    by (simp add: add_pairing_def get_pairing_def tbl_get_def open_pairing_def)
  moreover have "\<not> credential_matches code_env ''AAAA'' ''ABCD''" "\<not> credential_matches code_env ''BBBB'' ''ABCD''"
    by (simp_all add: credential_matches_def hash_agent_credential_def code_env_def) (code_simp, code_simp)
  then have "\<forall>g\<in>set ?gs. \<not> credential_matches code_env (guess_code g) (pa_user_code_hash open_pairing)"
    by (auto simp: open_pairing_def)
  ultimately show ?thesis
    using wrong_codes_close_a_pairing [of 50 _ open_pairing ?gs code_env] by (simp add: open_pairing_def)
qed

section \<open>Revoked and rotated credentials\<close>

text \<open>
  A revoked runner cannot authenticate: once its revocation is committed, no access token and no
  refresh token, of whatever credential, identifies it.
\<close>

theorem revoked_runner_is_refused:
  assumes "revoke_runner now rid d = Inr e"
  shows "(\<forall>c r. authenticate_runner_token en t v e = Inr (c, r) \<longrightarrow> cd_runner c \<noteq> rid \<and> ru_id r \<noteq> rid) \<and>
    (\<forall>c r. authenticate_runner_refresh en t v e = Inr (c, r) \<longrightarrow> cd_runner c \<noteq> rid \<and> ru_id r \<noteq> rid)"
proof -
  have "cd_runner c \<noteq> rid \<and> ru_id r \<noteq> rid" if "authenticate_runner en t f x v e = Inr (c, r)" for f x c r
  proof -
    have r: "get_runner (cd_runner c) e = Some r" "ru_revoked_at r = None"
      using authenticate_runnerD [OF that] by simp_all
    then show ?thesis
      using revoke_runner_runner [OF assms] runners.get_key [OF r(1)] by auto
  qed
  then show ?thesis by (simp add: authenticate_runner_token_def authenticate_runner_refresh_def)
qed

definition sample_credential :: credential where
  "sample_credential = \<lparr>cd_id = 60, cd_realm = 5, cd_runner = 20, cd_token_hash = zero_digest,
     cd_refresh_hash = zero_digest, cd_expires_at = 5000, cd_refresh_expires_at = 9000,
     cd_revoked_at = None, cd_rotated_at = None, cd_parent = None\<rparr>"

definition paired_db :: db where
  "paired_db = add_credential sample_credential sample_db"

lemma paired_token: "authenticate_runner_token sample_env 1000 ''tok'' paired_db = Inr (sample_credential, sample_runner)"
  by (simp add: authenticate_runner_token_def authenticate_runner_def paired_db_def add_credential_def
      sample_credential_def hash_agent_credential_def sample_sha_def credential_matches_def get_runner_def tbl_get_def)

theorem revoked_runner_is_refused_witness:
  "succeeds (authenticate_runner_token sample_env 1000 ''tok'' paired_db) \<and>
   (\<exists>e. revoke_runner 1000 20 paired_db = Inr e \<and>
     (\<forall>c r. authenticate_runner_token sample_env 1000 ''tok'' e = Inr (c, r) \<longrightarrow> ru_id r \<noteq> 20))"
proof -
  have "get_runner 20 paired_db = Some sample_runner"
    by (simp add: paired_db_def add_credential_def get_runner_def tbl_get_def)
  then obtain e where e: "revoke_runner 1000 20 paired_db = Inr e"
    by (auto simp: revoke_runner_def Let_def)
  then show ?thesis
    using revoked_runner_is_refused [OF e, of sample_env 1000 "''tok''"] by (auto simp: paired_token)
qed

section \<open>The journal holds no secret\<close>

text \<open>
  C33: No secret of a task enters its journal: an entry is written only when neither its payload, as
  canonical text, contains a stored secret of the providers of the task, nor does it look like a
  credential.  The entries of a stop, whose payload has no free text, are exempt.
\<close>

theorem journal_screens_secrets:
  assumes "audit en now jid t pl att auth ev actor d = Inr e" "t \<notin> set unscreened_types"
  shows "\<exists>j p pv. get_job jid d = Some j \<and> get_profile (jb_profile j) d = Some p \<and>
    fetch_opt ''provider'' get_provider (pr_provider p) d = Inr pv \<and>
    (\<forall>s\<in>set (job_secrets d j pv). se_plaintext s = [] \<or>
      (\<forall>a b. canonical_json (dump_audit_payload en pl) \<noteq> a @ utf8 (se_plaintext s) @ b)) \<and>
    \<not> credential_bytes (canonical_json (dump_audit_payload en pl))"
proof -
  let ?c = "canonical_json (dump_audit_payload en pl)"
  obtain j where j: "get_job jid d = Some j"
    and s: "reject_secrets (update_job jid bump_sequence d) (bump_sequence j) ?c = Inr ()"
    using assms by (auto elim!: auditE)
  have b: "jb_profile (bump_sequence j) = jb_profile j" by (simp add: bump_sequence_def)
  have js: "job_secrets (update_job jid bump_sequence d) (bump_sequence j) pv = job_secrets d j pv" for pv
    by (simp add: job_secrets_def attempt_secret_refs_def job_attempts_def bump_sequence_def)
  have g: "get_profile k (update_job jid bump_sequence d) = get_profile k d" for k by (simp add: get_profile_def)
  have f: "fetch_opt w get_provider k (update_job jid bump_sequence d) = fetch_opt w get_provider k d" for w k
    by (simp add: fetch_opt_def get_provider_def split: option.split)
  obtain p pv where "get_profile (jb_profile j) d = Some p"
    "fetch_opt ''provider'' get_provider (pr_provider p) d = Inr pv"
    "\<not> list_ex (\<lambda>s. se_plaintext s \<noteq> [] \<and> contains (utf8 (se_plaintext s)) ?c) (job_secrets d j pv)"
    "\<not> credential_bytes ?c"
    using s by (simp only: reject_secrets_def job_profile_def b js g f rbind_eq_Inr fetch_eq_Inr guard_eq_Inr) blast
  then show ?thesis
    using j by (auto simp: list_ex_iff contains_iff)
qed

theorem journal_screens_secrets_witness:
  "(\<exists>e. audit sample_env 1002 101 (ServerEv InputReceived) (ServerPl (AInput 104 1 InPending)) None AuthServer None
      (Some 11) queued_db = Inr e) \<and> \<not> credential_bytes (canonical_json JNull)"
proof -
  let ?j = "bump_sequence sample_job"
  have j: "get_job 101 queued_db = Some ?j" by (simp add: get_defs)
  have s: "jb_profile ?j = 30" "jb_realm ?j = 5" "jb_id ?j = 101" "jb_event_sequence ?j = 1"
    by (simp_all add: bump_sequence_def)
  have a: "db_audit queued_db = [audit_row 1000 ?j (ServerEv JobQueued)
       (ServerPl (AJobState Queued [])) None AuthServer None (Some 11) 103]"
    by (simp add: queued_db_def)
  have "\<exists>e. audit sample_env 1002 101 (ServerEv InputReceived) (ServerPl (AInput 104 1 InPending)) None AuthServer None
      (Some 11) queued_db = Inr e"
    by (subst sample_audit_by [OF queued_sampled j])
      (use a s in \<open>simp_all add: event_authorities_def audit_conflict_def\<close>)
  then obtain e where e: "audit sample_env 1002 101 (ServerEv InputReceived) (ServerPl (AInput 104 1 InPending)) None
      AuthServer None (Some 11) queued_db = Inr e" ..
  have "ServerEv InputReceived \<notin> set unscreened_types" by (simp add: unscreened_types_def)
  from journal_screens_secrets [OF e this] e show ?thesis
    by (auto simp: dump_audit_payload_def)
qed

end
