(* ===== verification/Access_Properties.thy ===== *)
theory Access_Properties
  imports Sample_Runs
begin

text \<open>What a successful access check means.\<close>

definition holds :: "env \<Rightarrow> time \<Rightarrow> db \<Rightarrow> user \<Rightarrow> resource \<Rightarrow> action \<Rightarrow> bool" where
  "holds en now d actor res act =
     (active_user en (res_owner res) \<and> (res_owner res = us_id actor \<or> granted en now d actor res act))"



end
