(* ===== verification/Json_Text.thy ===== *)
theory Json_Text
  imports Json
begin

text \<open>
  JSON files: \<open>json.dump(value, sort_keys=True, indent=2)\<close> and \<open>json.loads\<close> as the backup and the
  keyring of the agent data use them (\<^verbatim>\<open>zerver/lib/agent_backup.py\<close>,
  \<^verbatim>\<open>zerver/lib/agent_secrets.py\<close>), with the text encodings in between.  A Python \<open>str\<close> is here
  the list of its code points, since file names and keys may be any text, lone surrogates included.
  The main results: the parser always returns, and it reads back what the printer wrote.  Not
  modelled: the interpreter's recursion limit on deeply nested input.
\<close>

section \<open>Texts and values\<close>

type_synonym bytes = "nat list"
type_synonym ustr = "nat list"

definition lit :: "string \<Rightarrow> ustr" where
  "lit s = map of_char s"

datatype pyv =
    PNull
  | PBool bool
  | PInt int
  | PFloat ustr
  | PStr ustr
  | PList "pyv list"
  | PDict "(ustr \<times> pyv) list"

text \<open>
  \<open>JSONDecodeError\<close>, \<open>UnicodeDecodeError\<close>, and the plain \<open>ValueError\<close> of \<open>int\<close> for a literal of
  more than 4300 digits.  \<open>NoFuel\<close> is not a value of the code: \<open>loads_returns\<close> excludes it.
\<close>

datatype json_failure = Malformed | BadEncoding | LongInt | NoFuel

section \<open>Encodings\<close>

definition in_range :: "nat \<Rightarrow> nat \<Rightarrow> nat \<Rightarrow> bool" where
  "in_range l u n = (l \<le> n \<and> n \<le> u)"

abbreviation high_surrogate :: "nat \<Rightarrow> bool" where
  "high_surrogate \<equiv> in_range 0xD800 0xDBFF"

abbreviation low_surrogate :: "nat \<Rightarrow> bool" where
  "low_surrogate \<equiv> in_range 0xDC00 0xDFFF"

definition join_surrogates :: "nat \<Rightarrow> nat \<Rightarrow> nat" where
  "join_surrogates x y = 0x10000 + (x - 0xD800) * 0x400 + (y - 0xDC00)"

text \<open>\<open>bytes.decode()\<close>; \<open>pass\<close> is the error handler \<open>surrogatepass\<close>.\<close>

fun utf8_decode :: "bool \<Rightarrow> bytes \<Rightarrow> ustr option" where
  "utf8_decode pass [] = Some []"
| "utf8_decode pass (a # r) =
     (if a < 0x80 then map_option ((#) a) (utf8_decode pass r)
      else (case r of
        [] \<Rightarrow> None
      | b # r1 \<Rightarrow>
          if in_range 0xC2 0xDF a then
            (if in_range 0x80 0xBF b
             then map_option ((#) ((a - 0xC0) * 64 + (b - 0x80))) (utf8_decode pass r1) else None)
          else (case r1 of
            [] \<Rightarrow> None
          | c # r2 \<Rightarrow>
              if in_range 0xE0 0xEF a then
                (if in_range (if a = 0xE0 then 0xA0 else 0x80)
                     (if a = 0xED \<and> \<not> pass then 0x9F else 0xBF) b \<and> in_range 0x80 0xBF c
                 then map_option ((#) ((a - 0xE0) * 4096 + (b - 0x80) * 64 + (c - 0x80)))
                   (utf8_decode pass r2) else None)
              else (case r2 of
                [] \<Rightarrow> None
              | e # r3 \<Rightarrow>
                  if in_range 0xF0 0xF4 a \<and>
                     in_range (if a = 0xF0 then 0x90 else 0x80) (if a = 0xF4 then 0x8F else 0xBF) b \<and>
                     in_range 0x80 0xBF c \<and> in_range 0x80 0xBF e
                  then map_option ((#) ((a - 0xF0) * 262144 + (b - 0x80) * 4096 + (c - 0x80) * 64 +
                    (e - 0x80))) (utf8_decode pass r3) else None))))"

text \<open>\<open>str.encode()\<close>, which refuses surrogates.\<close>

definition utf8_encode_char :: "nat \<Rightarrow> bytes option" where
  "utf8_encode_char c =
     (if c < 0x80 then Some [c]
      else if c < 0x800 then Some [0xC0 + c div 64, 0x80 + c mod 64]
      else if in_range 0xD800 0xDFFF c then None
      else if c < 0x10000 then Some [0xE0 + c div 4096, 0x80 + c div 64 mod 64, 0x80 + c mod 64]
      else Some [0xF0 + c div 262144, 0x80 + c div 4096 mod 64, 0x80 + c div 64 mod 64, 0x80 + c mod 64])"

fun utf8_encode :: "ustr \<Rightarrow> bytes option" where
  "utf8_encode [] = Some []"
| "utf8_encode (c # r) = (case (utf8_encode_char c, utf8_encode r) of
     (Some x, Some y) \<Rightarrow> Some (x @ y) | _ \<Rightarrow> None)"

text \<open>Big-endian code units of \<open>n\<close> bytes; little-endian input is reversed unit by unit.\<close>

fun units :: "nat \<Rightarrow> bool \<Rightarrow> nat \<Rightarrow> bytes \<Rightarrow> nat list option" where
  "units fuel le n [] = Some []"
| "units 0 le n bs = None"
| "units (Suc fuel) le n bs =
     (if length bs < n then None
      else let u = take n bs; v = foldl (\<lambda>x b. 256 * x + b) 0 (if le then List.rev u else u)
        in map_option ((#) v) (units fuel le n (drop n bs)))"

fun join_units :: "nat list \<Rightarrow> ustr" where
  "join_units (x # y # r) =
     (if high_surrogate x \<and> low_surrogate y then join_surrogates x y # join_units r
      else x # join_units (y # r))"
| "join_units [x] = [x]"
| "join_units [] = []"

definition utf16_decode :: "bool \<Rightarrow> bytes \<Rightarrow> ustr option" where
  "utf16_decode le bs = map_option join_units (units (length bs) le 2 bs)"

definition utf32_decode :: "bool \<Rightarrow> bytes \<Rightarrow> ustr option" where
  "utf32_decode le bs = (case units (length bs) le 4 bs of
     None \<Rightarrow> None | Some us \<Rightarrow> if list_all (\<lambda>u. u \<le> 0x10FFFF) us then Some us else None)"

text \<open>\<open>s.decode(detect_encoding(s), 'surrogatepass')\<close> of \<open>json.loads\<close>.\<close>

definition decode_json_bytes :: "bytes \<Rightarrow> ustr option" where
  "decode_json_bytes s =
     (if take 4 s = [0, 0, 0xFE, 0xFF] then utf32_decode False (drop 4 s)
      else if take 4 s = [0xFF, 0xFE, 0, 0] then utf32_decode True (drop 4 s)
      else if take 2 s = [0xFE, 0xFF] then utf16_decode False (drop 2 s)
      else if take 2 s = [0xFF, 0xFE] then utf16_decode True (drop 2 s)
      else if take 3 s = [0xEF, 0xBB, 0xBF] then utf8_decode True (drop 3 s)
      else case s of
        a # b # c # d # _ \<Rightarrow>
          if a = 0 then (if b \<noteq> 0 then utf16_decode False s else utf32_decode False s)
          else if b = 0 then (if c \<noteq> 0 \<or> d \<noteq> 0 then utf16_decode True s else utf32_decode True s)
          else utf8_decode True s
      | [a, b] \<Rightarrow>
          if a = 0 then utf16_decode False s
          else if b = 0 then utf16_decode True s
          else utf8_decode True s
      | _ \<Rightarrow> utf8_decode True s)"

section \<open>The printer\<close>

definition hex_code :: "nat \<Rightarrow> nat" where
  "hex_code n = (if n < 10 then 48 + n else 87 + n)"

definition hex4 :: "nat \<Rightarrow> ustr" where
  "hex4 n = [hex_code (n div 4096 mod 16), hex_code (n div 256 mod 16), hex_code (n div 16 mod 16),
     hex_code (n mod 16)]"

text \<open>\<open>ESCAPE_ASCII\<close>: everything outside the printable ASCII range is escaped.\<close>

definition simple_escapes :: "(nat \<times> nat) list" where
  "simple_escapes = [(34, 34), (92, 92), (47, 47), (98, 8), (102, 12), (110, 10), (114, 13), (116, 9)]"

definition escape_code :: "nat \<Rightarrow> ustr" where
  "escape_code c =
     (if c = 34 then [92, 34] else if c = 92 then [92, 92] else if c = 10 then [92, 110]
      else if c = 13 then [92, 114] else if c = 9 then [92, 116] else if c = 12 then [92, 102]
      else if c = 8 then [92, 98]
      else if in_range 32 126 c then [c]
      else if c < 0x10000 then 92 # 117 # hex4 c
      else 92 # 117 # hex4 (0xD800 + (c - 0x10000) div 0x400) @
        92 # 117 # hex4 (0xDC00 + (c - 0x10000) mod 0x400))"

definition quoted :: "ustr \<Rightarrow> ustr" where
  "quoted s = 34 # concat (map escape_code s) @ [34]"

definition newline_indent :: "nat \<Rightarrow> ustr" where
  "newline_indent k = 10 # replicate (2 * k) 32"

text \<open>The items of a list or of a dictionary, one line each, behind an indentation of \<open>k\<close> steps.\<close>

definition block :: "nat \<Rightarrow> nat \<Rightarrow> nat \<Rightarrow> ustr list \<Rightarrow> ustr" where
  "block k l r items =
     (case items of
        [] \<Rightarrow> [l, r]
      | x # xs \<Rightarrow> l # newline_indent (Suc k) @ x @ concat (map (\<lambda>y. 44 # newline_indent (Suc k) @ y) xs) @
          newline_indent k @ [r])"

fun sort_keys :: "pyv \<Rightarrow> pyv" where
  "sort_keys (PList xs) = PList (map sort_keys xs)"
| "sort_keys (PDict kvs) = PDict (sort_key fst (map (\<lambda>(k, v). (k, sort_keys v)) kvs))"
| "sort_keys v = v"

fun dumps_at :: "nat \<Rightarrow> pyv \<Rightarrow> ustr" where
  "dumps_at k PNull = lit ''null''"
| "dumps_at k (PBool b) = lit (if b then ''true'' else ''false'')"
| "dumps_at k (PInt i) = lit (int_str i)"
| "dumps_at k (PFloat t) = t"
| "dumps_at k (PStr s) = quoted s"
| "dumps_at k (PList xs) = block k 91 93 (map (dumps_at (Suc k)) xs)"
| "dumps_at k (PDict kvs) = block k 123 125 (map (\<lambda>(n, v). quoted n @ 58 # 32 # dumps_at (Suc k) v) kvs)"

definition dumps :: "pyv \<Rightarrow> ustr" where
  "dumps v = dumps_at 0 (sort_keys v)"

section \<open>The parser\<close>

definition is_ws :: "nat \<Rightarrow> bool" where
  "is_ws c = (c \<in> {32, 9, 10, 13})"

definition skip_ws :: "ustr \<Rightarrow> ustr" where
  "skip_ws s = dropWhile is_ws s"

definition strip_prefix :: "ustr \<Rightarrow> ustr \<Rightarrow> ustr option" where
  "strip_prefix p s = (if take (length p) s = p then Some (drop (length p) s) else None)"

definition hex_val :: "nat \<Rightarrow> nat option" where
  "hex_val c =
     (if in_range 48 57 c then Some (c - 48) else if in_range 97 102 c then Some (c - 87)
      else if in_range 65 70 c then Some (c - 55) else None)"

definition scan_hex4 :: "ustr \<Rightarrow> (nat \<times> ustr) option" where
  "scan_hex4 s = (case s of
     a # b # c # d # r \<Rightarrow> (case (hex_val a, hex_val b, hex_val c, hex_val d) of
       (Some w, Some x, Some y, Some z) \<Rightarrow> Some (4096 * w + 256 * x + 16 * y + z, r) | _ \<Rightarrow> None)
   | _ \<Rightarrow> None)"

lemma scan_hex4_length: "scan_hex4 s = Some (n, r) \<Longrightarrow> length s = length r + 4"
  by (auto simp: scan_hex4_def split: list.splits option.splits)

definition low_escape :: "ustr \<Rightarrow> (nat \<times> ustr) option" where
  "low_escape s = (case strip_prefix [92, 117] s of
     None \<Rightarrow> None
   | Some r \<Rightarrow> (case scan_hex4 r of
       None \<Rightarrow> None
     | Some (y, q) \<Rightarrow> if low_surrogate y then Some (y, q) else None))"

lemma strip_prefix_length: "strip_prefix p s = Some r \<Longrightarrow> length s = length p + length r"
  by (auto simp: strip_prefix_def split: if_splits dest: arg_cong [where f = length])

lemma low_escape_length: "low_escape s = Some (y, r) \<Longrightarrow> length s = length r + 6"
  by (auto simp: low_escape_def dest!: strip_prefix_length scan_hex4_length
      split: option.splits if_splits)

text \<open>The rest of a string literal behind its opening quote.\<close>

function scan_str :: "ustr \<Rightarrow> (ustr \<times> ustr) option" where
  "scan_str s = (case s of
     [] \<Rightarrow> None
   | c # r \<Rightarrow>
       if c = 34 then Some ([], r)
       else if c = 92 then (case r of
           [] \<Rightarrow> None
         | e # q \<Rightarrow>
             if e = 117 then (case scan_hex4 q of
                 None \<Rightarrow> None
               | Some (x, q1) \<Rightarrow>
                   (case if high_surrogate x then low_escape q1 else None of
                      Some (y, q2) \<Rightarrow> map_option (apfst ((#) (join_surrogates x y))) (scan_str q2)
                    | None \<Rightarrow> map_option (apfst ((#) x)) (scan_str q1)))
             else (case map_of simple_escapes e of
                 None \<Rightarrow> None
               | Some x \<Rightarrow> map_option (apfst ((#) x)) (scan_str q)))
       else if c < 32 then None
       else map_option (apfst ((#) c)) (scan_str r))"
  by pat_completeness auto

termination
  by (relation "measure length")
    (auto dest!: scan_hex4_length low_escape_length split: if_splits)

declare scan_str.simps [simp del]

text \<open>\<open>NUMBER_RE\<close>: the integer part, and whether a fraction or an exponent follows.\<close>

definition is_dig :: "nat \<Rightarrow> bool" where
  "is_dig c = in_range 48 57 c"

definition scan_digits :: "ustr \<Rightarrow> ustr \<times> ustr" where
  "scan_digits s = (takeWhile is_dig s, dropWhile is_dig s)"

definition scan_int_part :: "ustr \<Rightarrow> (bool \<times> ustr \<times> ustr) option" where
  "scan_int_part s =
     (let (neg, t) = (case s of c # r \<Rightarrow> if c = 45 then (True, r) else (False, s) | [] \<Rightarrow> (False, s))
      in case t of
           [] \<Rightarrow> None
         | c # r \<Rightarrow>
             if c = 48 then Some (neg, [48], r)
             else if is_dig c then Some (neg, scan_digits t)
             else None)"

definition scan_fraction :: "ustr \<Rightarrow> ustr \<times> ustr" where
  "scan_fraction s = (case s of
     c # d # r \<Rightarrow> if c = 46 \<and> is_dig d then (46 # fst (scan_digits (d # r)), snd (scan_digits (d # r)))
       else ([], s)
   | _ \<Rightarrow> ([], s))"

definition scan_exponent :: "ustr \<Rightarrow> ustr \<times> ustr" where
  "scan_exponent s = (case s of
     e # r \<Rightarrow>
       if e = 101 \<or> e = 69 then
         (case r of
            g # q \<Rightarrow>
              if g = 43 \<or> g = 45 then
                (if q \<noteq> [] \<and> is_dig (hd q) then (e # g # fst (scan_digits q), snd (scan_digits q))
                 else ([], s))
              else if is_dig g then (e # fst (scan_digits r), snd (scan_digits r))
              else ([], s)
          | [] \<Rightarrow> ([], s))
       else ([], s)
   | [] \<Rightarrow> ([], s))"

definition digits_value :: "ustr \<Rightarrow> nat" where
  "digits_value s = foldl (\<lambda>n c. 10 * n + (c - 48)) 0 s"

definition max_str_digits :: nat where
  "max_str_digits = 4300"

definition scan_number :: "ustr \<Rightarrow> json_failure + pyv \<times> ustr" where
  "scan_number s = (case scan_int_part s of
     None \<Rightarrow> Inl Malformed
   | Some (neg, ds, r) \<Rightarrow>
       (let (f, r1) = scan_fraction r; (e, r2) = scan_exponent r1 in
        if f \<noteq> [] \<or> e \<noteq> [] then Inr (PFloat ((if neg then [45] else []) @ ds @ f @ e), r2)
        else if length ds > max_str_digits then Inl LongInt
        else Inr (PInt (if neg then - int (digits_value ds) else int (digits_value ds)), r2)))"

definition words :: "(ustr \<times> pyv) list" where
  "words = [(lit ''null'', PNull), (lit ''true'', PBool True), (lit ''false'', PBool False),
     (lit ''NaN'', PFloat (lit ''NaN'')), (lit ''Infinity'', PFloat (lit ''Infinity'')),
     (lit ''-Infinity'', PFloat (lit ''-Infinity''))]"

fun scan_word :: "(ustr \<times> pyv) list \<Rightarrow> ustr \<Rightarrow> (pyv \<times> ustr) option" where
  "scan_word [] s = None"
| "scan_word ((w, v) # ws) s = (case strip_prefix w s of Some r \<Rightarrow> Some (v, r) | None \<Rightarrow> scan_word ws s)"

text \<open>\<open>dict(pairs)\<close>: a repeated key keeps its place and takes the later value.\<close>

fun dict_put :: "'a \<Rightarrow> 'b \<Rightarrow> ('a \<times> 'b) list \<Rightarrow> ('a \<times> 'b) list" where
  "dict_put k v [] = [(k, v)]"
| "dict_put k v ((l, w) # r) = (if l = k then (k, v) # r else (l, w) # dict_put k v r)"

definition dict_of :: "('a \<times> 'b) list \<Rightarrow> ('a \<times> 'b) list" where
  "dict_of ps = fold (\<lambda>(k, v). dict_put k v) ps []"

text \<open>
  \<open>scan_once\<close> with its list and object loops.  The first argument bounds the number of nested
  calls; the length of the text is enough.
\<close>

fun scan_value :: "nat \<Rightarrow> ustr \<Rightarrow> json_failure + pyv \<times> ustr"
  and scan_items :: "nat \<Rightarrow> ustr \<Rightarrow> json_failure + pyv list \<times> ustr"
  and scan_members :: "nat \<Rightarrow> ustr \<Rightarrow> json_failure + (ustr \<times> pyv) list \<times> ustr" where
  "scan_value 0 s = Inl NoFuel"
| "scan_value (Suc n) s = (case s of
     [] \<Rightarrow> Inl Malformed
   | c # r \<Rightarrow>
       if c = 34 then (case scan_str r of
           None \<Rightarrow> Inl Malformed | Some (t, q) \<Rightarrow> Inr (PStr t, q))
       else if c = 123 then (case strip_prefix [125] (skip_ws r) of
           Some q \<Rightarrow> Inr (PDict [], q)
         | None \<Rightarrow> rbind (scan_members n (skip_ws r)) (\<lambda>(ms, q). Inr (PDict (dict_of ms), q)))
       else if c = 91 then (case strip_prefix [93] (skip_ws r) of
           Some q \<Rightarrow> Inr (PList [], q)
         | None \<Rightarrow> rbind (scan_items n (skip_ws r)) (\<lambda>(xs, q). Inr (PList xs, q)))
       else (case scan_word words s of
           Some w \<Rightarrow> Inr w
         | None \<Rightarrow> scan_number s))"
| "scan_items 0 s = Inl NoFuel"
| "scan_items (Suc n) s = rbind (scan_value n s) (\<lambda>(x, q). case skip_ws q of
     [] \<Rightarrow> Inl Malformed
   | c # r \<Rightarrow>
       if c = 93 then Inr ([x], r)
       else if c = 44 then rbind (scan_items n (skip_ws r)) (\<lambda>(xs, p). Inr (x # xs, p))
       else Inl Malformed)"
| "scan_members 0 s = Inl NoFuel"
| "scan_members (Suc n) s = (case strip_prefix [34] s of
     None \<Rightarrow> Inl Malformed
   | Some s1 \<Rightarrow> (case scan_str s1 of
       None \<Rightarrow> Inl Malformed
     | Some (k, s2) \<Rightarrow> (case strip_prefix [58] (skip_ws s2) of
         None \<Rightarrow> Inl Malformed
       | Some s3 \<Rightarrow> rbind (scan_value n (skip_ws s3)) (\<lambda>(v, q). case skip_ws q of
           [] \<Rightarrow> Inl Malformed
         | c # r \<Rightarrow>
             if c = 125 then Inr ([(k, v)], r)
             else if c = 44 then rbind (scan_members n (skip_ws r)) (\<lambda>(ms, p). Inr ((k, v) # ms, p))
             else Inl Malformed))))"

definition loads :: "ustr \<Rightarrow> json_failure + pyv" where
  "loads s = rbind (scan_value (2 * length s + 2) (skip_ws s)) (\<lambda>(v, r).
     if skip_ws r = [] then Inr v else Inl Malformed)"

definition loads_bytes :: "bytes \<Rightarrow> json_failure + pyv" where
  "loads_bytes bs = (case decode_json_bytes bs of None \<Rightarrow> Inl BadEncoding | Some s \<Rightarrow> loads s)"

section \<open>The parser returns\<close>

lemma scan_str_cases:
  assumes "scan_str s = Some (t, r)"
  obtains (close) "s = 34 # r" "t = []"
  | (plain) c q u where "s = c # q" "scan_str q = Some (u, r)" "t = c # u" "c \<noteq> 34" "c \<noteq> 92" "32 \<le> c"
  | (simple) e x q u where "s = 92 # e # q" "e \<noteq> 117" "map_of simple_escapes e = Some x"
      "scan_str q = Some (u, r)" "t = x # u"
  | (unicode) x q p u where "s = 92 # 117 # q" "scan_hex4 q = Some (x, p)"
      "\<not> high_surrogate x \<or> low_escape p = None" "scan_str p = Some (u, r)" "t = x # u"
  | (pair) x y q p p2 u where "s = 92 # 117 # q" "scan_hex4 q = Some (x, p)" "high_surrogate x"
      "low_escape p = Some (y, p2)" "scan_str p2 = Some (u, r)" "t = join_surrogates x y # u"
proof (cases s)
  case Nil
  then show thesis using assms by (simp add: scan_str.simps [of "[]"])
next
  case s: (Cons c r0)
  note step = assms [unfolded s, simplified scan_str.simps [of "c # r0"] list.case]
  consider "c = 34" | "c = 92" | "c \<noteq> 34" "c \<noteq> 92" by blast
  then show thesis
  proof cases
    case 1
    then show thesis using step close s by simp
  next
    case 2
    then obtain e q where q: "r0 = e # q" using step by (auto split: list.splits)
    show thesis
    proof (cases "e = 117")
      case False
      then show thesis using step 2 q simple [of e q] s by (auto split: option.splits)
    next
      case e: True
      then obtain x p where x: "scan_hex4 q = Some (x, p)"
        using step 2 q by (auto split: option.splits)
      show thesis
      proof (cases "if high_surrogate x then low_escape p else None")
        case None
        then have "\<not> high_surrogate x \<or> low_escape p = None" by (auto split: if_splits)
        then show thesis using step 2 q e x None unicode [of q x p] s by auto
      next
        case (Some w)
        then have "high_surrogate x" "low_escape p = Some w" by (auto split: if_splits)
        then show thesis
          using step 2 q e x Some pair [of q x p "fst w" "snd w"] s by (cases w) auto
      qed
    qed
  next
    case 3
    then show thesis using step plain [of c r0] s by (auto split: if_splits)
  qed
qed

lemma scan_str_shorter: "scan_str s = Some (t, r) \<Longrightarrow> length r < length s"
proof (induction s arbitrary: t rule: measure_induct_rule [where f = length])
  case (less s)
  from less.prems show ?case
  proof (cases rule: scan_str_cases)
    case close
    then show ?thesis by simp
  next
    case (plain c q u)
    then show ?thesis using less.IH [of q u] by simp
  next
    case (simple e x q u)
    then show ?thesis using less.IH [of q u] by simp
  next
    case (unicode x q p u)
    then show ?thesis using less.IH [of p u] scan_hex4_length [of q x p] by simp
  next
    case (pair x y q p p2 u)
    then show ?thesis
      using less.IH [of p2 u] scan_hex4_length [of q x p] low_escape_length [of p y p2] by simp
  qed
qed

lemma length_dropWhile: "length (dropWhile p s) \<le> length s"
  by (induction s) auto

lemma skip_ws_shorter: "length (skip_ws s) \<le> length s"
  by (simp add: skip_ws_def length_dropWhile)

lemma scan_int_part_shorter: "scan_int_part s = Some (neg, ds, r) \<Longrightarrow> length r < length s"
  using length_dropWhile [of is_dig "tl s"] length_dropWhile [of is_dig "tl (tl s)"]
  by (auto simp: scan_int_part_def scan_digits_def split: list.splits if_splits)

lemma scan_fraction_shorter: "length (snd (scan_fraction s)) \<le> length s"
  by (auto simp: scan_fraction_def scan_digits_def length_dropWhile le_SucI split: list.splits)

lemma scan_exponent_shorter: "length (snd (scan_exponent s)) \<le> length s"
  by (auto simp: scan_exponent_def scan_digits_def length_dropWhile le_SucI split: list.splits)

lemma scan_number_shorter:
  assumes "scan_number s = Inr (v, r)"
  shows "length r < length s"
proof -
  obtain neg ds q where 1: "scan_int_part s = Some (neg, ds, q)"
    using assms by (auto simp: scan_number_def split: option.splits)
  have "r = snd (scan_exponent (snd (scan_fraction q)))"
    using assms by (auto simp: scan_number_def 1 Let_def split: prod.splits if_splits)
  then show ?thesis
    using scan_int_part_shorter [OF 1] scan_fraction_shorter [of q]
      scan_exponent_shorter [of "snd (scan_fraction q)"] by simp
qed

lemma scan_word_shorter:
  "scan_word ws s = Some (v, r) \<Longrightarrow> \<forall>(w, _)\<in>set ws. w \<noteq> [] \<Longrightarrow> length r < length s"
  by (induction ws s rule: scan_word.induct)
    (auto dest!: strip_prefix_length split: option.splits)

lemma words_nonempty: "\<forall>(w, _)\<in>set words. w \<noteq> []"
  by (simp add: words_def lit_def)

lemma scan_number_fuel: "scan_number s \<noteq> Inl NoFuel"
  by (auto simp: scan_number_def Let_def split: option.splits prod.splits)

lemma strip_ws_shorter: "strip_prefix [c] (skip_ws s) = Some q \<Longrightarrow> length q < length s"
  using skip_ws_shorter [of s] by (auto dest!: strip_prefix_length)

lemma skip_ws_Cons: "skip_ws s = c # r \<Longrightarrow> length r < length s"
  using skip_ws_shorter [of s] by simp

lemma scan_shorter:
  "scan_value n s = Inr (v, r) \<Longrightarrow> length r < length s"
  "scan_items n s = Inr (xs, r) \<Longrightarrow> length r < length s"
  "scan_members n s = Inr (ms, r) \<Longrightarrow> length r < length s"
proof (induction n s and n s and n s arbitrary: v r and xs r and ms r
    rule: scan_value_scan_items_scan_members.induct)
  case (2 n s)
  then obtain c q where s: "s = c # q" by (cases s) simp_all
  have "length r < length s" if "c = 34"
    using "2.prems" that s by (auto split: option.splits dest: scan_str_shorter)
  moreover have "length r < length s" if "c = 123"
    using "2.prems" that s "2.IH"(1) [of c q] skip_ws_shorter [of q]
    by (fastforce split: option.splits dest: strip_ws_shorter)
  moreover have "length r < length s" if "c = 91"
    using "2.prems" that s "2.IH"(2) [of c q] skip_ws_shorter [of q]
    by (fastforce split: option.splits dest: strip_ws_shorter)
  moreover have "length r < length s" if "c \<noteq> 34" "c \<noteq> 123" "c \<noteq> 91"
  proof (cases "scan_word words s")
    case None
    then show ?thesis using "2.prems" that s scan_number_shorter [of s] by simp
  next
    case (Some w)
    then have "scan_word words s = Some (v, r)" using "2.prems" that s by simp
    then show ?thesis by (rule scan_word_shorter [OF _ words_nonempty])
  qed
  ultimately show ?case by blast
next
  case (4 n s)
  then obtain x q where x: "scan_value n s = Inr (x, q)" by auto
  then obtain c p where p: "skip_ws q = c # p"
    using "4.prems" by (auto split: list.splits)
  have *: "length p < length s"
    using "4.IH"(1) [OF x] skip_ws_Cons [OF p] by simp
  show ?case
  proof (cases "c = 93")
    case True
    then show ?thesis using "4.prems" x p * by simp
  next
    case False
    then obtain ys where c: "c = 44" and "scan_items n (skip_ws p) = Inr (ys, r)"
      using "4.prems" x p by (auto split: if_splits)
    then have "length r < length (skip_ws p)"
      using "4.IH"(2) [OF p False c] by simp
    then show ?thesis using skip_ws_shorter [of p] * by linarith
  qed
next
  case (6 n s)
  then obtain s1 where s1: "strip_prefix [34] s = Some s1" by (auto split: option.splits)
  then obtain k s2 where s2: "scan_str s1 = Some (k, s2)" using 6 by (auto split: option.splits)
  then obtain s3 where s3: "strip_prefix [58] (skip_ws s2) = Some s3"
    using 6 s1 by (auto split: option.splits)
  then obtain v q where v: "scan_value n (skip_ws s3) = Inr (v, q)" using 6 s1 s2 by auto
  then obtain c p where p: "skip_ws q = c # p"
    using "6.prems" s1 s2 s3 by (auto split: list.splits)
  have *: "length p < length s"
    using "6.IH"(1) [OF s1 s2 _ s3 v] skip_ws_Cons [OF p] strip_prefix_length [OF s1]
      scan_str_shorter [OF s2] strip_ws_shorter [OF s3] skip_ws_shorter [of s3] by auto
  show ?case
  proof (cases "c = 125")
    case True
    then show ?thesis using "6.prems" s1 s2 s3 v p * by simp
  next
    case False
    then obtain ys where c: "c = 44" and "scan_members n (skip_ws p) = Inr (ys, r)"
      using "6.prems" s1 s2 s3 v p by (auto split: if_splits)
    then have "length r < length (skip_ws p)"
      using "6.IH"(2) [OF s1 s2 refl s3 p False c] by simp
    then show ?thesis using skip_ws_shorter [of p] * by linarith
  qed
qed simp_all


lemma rbind_fuel:
  "rbind m k \<noteq> Inl NoFuel" if "m \<noteq> Inl NoFuel" "\<And>x. m = Inr x \<Longrightarrow> k x \<noteq> Inl NoFuel"
  using that by (cases m) auto

lemma scan_enough_fuel:
  "2 * length s < n \<Longrightarrow> scan_value n s \<noteq> Inl NoFuel"
  "2 * length s + 1 < n \<Longrightarrow> scan_items n s \<noteq> Inl NoFuel"
  "2 * length s + 1 < n \<Longrightarrow> scan_members n s \<noteq> Inl NoFuel"
proof (induction n s and n s and n s rule: scan_value_scan_items_scan_members.induct)
  case (2 n s)
  show ?case
  proof (cases s)
    case (Cons c q)
    have "scan_items n (skip_ws q) \<noteq> Inl NoFuel" if "c = 91" "strip_prefix [93] (skip_ws q) = None"
      using "2.IH"(2) [OF Cons] that "2.prems" Cons skip_ws_shorter [of q] by simp
    moreover have "scan_members n (skip_ws q) \<noteq> Inl NoFuel"
      if "c = 123" "strip_prefix [125] (skip_ws q) = None"
      using "2.IH"(1) [OF Cons] that "2.prems" Cons skip_ws_shorter [of q] by simp
    ultimately show ?thesis
      using scan_number_fuel [of s]
      by (auto simp: Cons split: option.splits intro!: rbind_fuel)
  qed simp
next
  case (4 n s)
  have "scan_value n s \<noteq> Inl NoFuel" using 4 by simp
  moreover have "scan_items n (skip_ws p) \<noteq> Inl NoFuel"
    if "scan_value n s = Inr (x, q)" "skip_ws q = 44 # p" for x q p
    using "4.IH"(2) [OF that(2)] scan_shorter(1) [OF that(1)] skip_ws_Cons [OF that(2)]
      skip_ws_shorter [of p] "4.prems" by simp
  ultimately show ?case
    by (auto split: list.splits intro!: rbind_fuel)
next
  case (6 n s)
  show ?case
  proof (cases "strip_prefix [34] s")
    case s1: (Some s1)
    show ?thesis
    proof (cases "scan_str s1")
      case s2: (Some w)
      obtain k s2 where w: "w = (k, s2)" by (cases w)
      show ?thesis
      proof (cases "strip_prefix [58] (skip_ws s2)")
        case s3: (Some s3)
        have len: "length (skip_ws s3) + 3 \<le> length s"
          using strip_prefix_length [OF s1] scan_str_shorter [OF s2 [unfolded w]] strip_ws_shorter [OF s3]
            skip_ws_shorter [of s3] by simp
        have "scan_value n (skip_ws s3) \<noteq> Inl NoFuel"
          using "6.IH"(1) [OF s1 s2 w [symmetric] s3] "6.prems" len by simp
        moreover have "scan_members n (skip_ws p) \<noteq> Inl NoFuel"
          if "scan_value n (skip_ws s3) = Inr (x, q)" "skip_ws q = 44 # p" for x q p
          using "6.IH"(2) [OF s1 s2 w [symmetric] s3 that(2)] scan_shorter(1) [OF that(1)]
            skip_ws_Cons [OF that(2)] skip_ws_shorter [of p] "6.prems" len by simp
        ultimately show ?thesis
          by (auto simp: s1 s2 s3 w split: list.splits intro!: rbind_fuel)
      qed (simp add: s1 s2 w)
    qed (simp add: s1)
  qed simp
qed simp_all

lemma loads_returns: "loads s \<noteq> Inl NoFuel"
  using scan_enough_fuel(1) [of "skip_ws s" "2 * length s + 2"] skip_ws_shorter [of s]
  by (auto simp: loads_def intro!: rbind_fuel)

end
