(* ===== verification/Json_Roundtrip.thy ===== *)
theory Json_Roundtrip
  imports Json_Text
begin

text \<open>
  \<open>json.loads\<close> reads back what \<open>json.dump(..., sort_keys=True, indent=2)\<close> wrote: strings through
  their escapes and surrogate pairs, integers, and the nested blocks of lists and objects; and the
  text of a printed value is plain ASCII, so its bytes decode to itself.
\<close>

section \<open>The parser reads what the printer wrote\<close>

text \<open>
  The texts \<open>json.loads\<close> can give back: a high surrogate directly before a low one would come back
  joined.
\<close>

fun unicode_ok :: "ustr \<Rightarrow> bool" where
  "unicode_ok (c # d # s) = (c < 0x110000 \<and> \<not> (high_surrogate c \<and> low_surrogate d) \<and> unicode_ok (d # s))"
| "unicode_ok [c] = (c < 0x110000)"
| "unicode_ok [] = True"

lemma unicode_ok_small: "\<forall>c\<in>set s. c < 0xD800 \<Longrightarrow> unicode_ok s"
  by (induction s rule: unicode_ok.induct) (auto simp: in_range_def)

fun printable :: "pyv \<Rightarrow> bool" where
  "printable (PInt i) = (length (nat_str (nat \<bar>i\<bar>)) \<le> max_str_digits)"
| "printable (PFloat t) = False"
| "printable (PStr s) = unicode_ok s"
| "printable (PList xs) = (\<forall>x\<in>set xs. printable x)"
| "printable (PDict kvs) = (distinct (map fst kvs) \<and> (\<forall>(k, v)\<in>set kvs. unicode_ok k \<and> printable v))"
| "printable v = True"

lemma hex_val_code: "n < 16 \<Longrightarrow> hex_val (hex_code n) = Some n"
  by (auto simp: hex_val_def hex_code_def in_range_def)

lemma scan_hex4_hex4: "n < 0x10000 \<Longrightarrow> scan_hex4 (hex4 n @ r) = Some (n, r)"
proof -
  assume n: "n < 0x10000"
  have "n div 16 = 16 * (n div 256) + n div 16 mod 16" "n div 256 = 16 * (n div 4096) + n div 256 mod 16"
    using div_mult_mod_eq [of "n div 16" 16] div_mult_mod_eq [of "n div 256" 16]
    by (simp_all flip: div_mult2_eq)
  moreover have m: "n div 4096 mod 16 = n div 4096" using n by simp
  ultimately have "4096 * (n div 4096 mod 16) + 256 * (n div 256 mod 16) + 16 * (n div 16 mod 16) + n mod 16 = n"
    using div_mult_mod_eq [of n 16] by linarith
  moreover have "hex_val (hex_code (n div 4096)) = Some (n div 4096)" using n by (intro hex_val_code) simp
  ultimately show ?thesis by (simp add: scan_hex4_def hex4_def hex_val_code m)
qed

lemma scan_str_close: "scan_str (34 # r) = Some ([], r)"
  by (subst scan_str.simps) simp

lemma scan_str_plain: "in_range 32 126 c \<Longrightarrow> c \<noteq> 34 \<Longrightarrow> c \<noteq> 92 \<Longrightarrow>
    scan_str (c # r) = map_option (apfst ((#) c)) (scan_str r)"
  by (subst scan_str.simps) (simp add: in_range_def)

lemma scan_str_simple: "e \<noteq> 117 \<Longrightarrow> map_of simple_escapes e = Some x \<Longrightarrow>
    scan_str (92 # e # r) = map_option (apfst ((#) x)) (scan_str r)"
  by (subst scan_str.simps) simp

lemma scan_str_unicode: "x < 0x10000 \<Longrightarrow> \<not> high_surrogate x \<or> low_escape r = None \<Longrightarrow>
    scan_str (92 # 117 # hex4 x @ r) = map_option (apfst ((#) x)) (scan_str r)"
  by (subst scan_str.simps) (auto simp: scan_hex4_hex4)

lemma low_escape_hex4: "y < 0x10000 \<Longrightarrow>
    low_escape (92 # 117 # hex4 y @ r) = (if low_surrogate y then Some (y, r) else None)"
  by (simp add: low_escape_def strip_prefix_def scan_hex4_hex4)

lemma scan_str_pair: "high_surrogate x \<Longrightarrow> low_surrogate y \<Longrightarrow>
    scan_str (92 # 117 # hex4 x @ 92 # 117 # hex4 y @ r) =
      map_option (apfst ((#) (join_surrogates x y))) (scan_str r)"
  by (subst scan_str.simps) (simp add: scan_hex4_hex4 low_escape_hex4 in_range_def)

lemma scan_str_astral:
  assumes "0x10000 \<le> c" "c < 0x110000"
  shows "scan_str (escape_code c @ r) = map_option (apfst ((#) c)) (scan_str r)"
proof -
  let ?x = "0xD800 + (c - 0x10000) div 0x400" and ?y = "0xDC00 + (c - 0x10000) mod 0x400"
  have "high_surrogate ?x" "low_surrogate ?y" using assms by (auto simp: in_range_def)
  moreover have "join_surrogates ?x ?y = c" using assms by (simp add: join_surrogates_def)
  moreover have "escape_code c = 92 # 117 # hex4 ?x @ 92 # 117 # hex4 ?y"
    using assms by (simp add: escape_code_def in_range_def)
  ultimately show ?thesis using scan_str_pair [of ?x ?y r] by simp
qed

lemma low_escape_escape_code:
  assumes "c < 0x110000" "\<not> low_surrogate c"
  shows "low_escape (escape_code c @ r) = None"
proof (cases "c < 0x10000")
  case True
  then show ?thesis using assms low_escape_hex4 [OF True]
    by (auto simp: escape_code_def low_escape_def strip_prefix_def in_range_def)
next
  case False
  then show ?thesis
    using assms low_escape_hex4 [of "0xD800 + (c - 0x10000) div 0x400"]
    by (auto simp: escape_code_def in_range_def)
qed

lemma scan_str_escape_code:
  assumes "c < 0x110000" "\<not> high_surrogate c \<or> low_escape r = None"
  shows "scan_str (escape_code c @ r) = map_option (apfst ((#) c)) (scan_str r)"
proof (cases "c < 0x10000")
  case True
  consider "c \<in> {34, 92, 10, 13, 9, 12, 8}"
    | "c \<notin> {34, 92, 10, 13, 9, 12, 8}" "in_range 32 126 c"
    | "c \<notin> {34, 92, 10, 13, 9, 12, 8}" "\<not> in_range 32 126 c" by blast
  then show ?thesis
  proof cases
    case 1
    then show ?thesis by (auto simp: escape_code_def scan_str_simple simple_escapes_def)
  next
    case 2
    then show ?thesis by (simp add: escape_code_def scan_str_plain)
  next
    case 3
    then show ?thesis using True assms(2) by (simp add: escape_code_def scan_str_unicode)
  qed
next
  case False
  then show ?thesis using assms(1) scan_str_astral by simp
qed

lemma scan_str_escaped: "unicode_ok s \<Longrightarrow> scan_str (concat (map escape_code s) @ 34 # r) = Some (s, r)"
proof (induction s rule: unicode_ok.induct)
  case (1 c d s)
  then have "\<not> high_surrogate c \<or> low_escape (escape_code d @ concat (map escape_code s) @ 34 # r) = None"
    by (cases s) (auto intro: low_escape_escape_code)
  then show ?case using 1 scan_str_escape_code [of c] by simp
next
  case (2 c)
  have "low_escape (34 # r) = None" by (simp add: low_escape_def strip_prefix_def)
  then show ?case using 2 scan_str_escape_code [of c "34 # r"] by (simp add: scan_str_close)
qed (simp add: scan_str_close)

section \<open>Numbers\<close>

lemma lit_simps [simp]: "lit [] = []" "lit (c # s) = of_char c # lit s" "lit (s @ t) = lit s @ lit t"
  "length (lit s) = length s"
  by (simp_all add: lit_def)

lemma lit_digits: "list_all is_digit s \<Longrightarrow> list_all is_dig (lit s)"
  by (induction s) (auto simp: is_digit_def is_dig_def in_range_def)

lemma digits_value_lit: "digits_value (lit s) = digits_val s"
proof -
  have "foldl (\<lambda>n c. 10 * n + (c - 48)) a (lit s) = foldl (\<lambda>n c. 10 * n + (of_char c - 48)) a s" for a :: nat
    by (induction s arbitrary: a) simp_all
  then show ?thesis by (simp add: digits_value_def digits_val_def)
qed

lemma hd_nat_str: "0 < n \<Longrightarrow> of_char (hd (nat_str n)) \<noteq> (48::nat)"
proof (induction n rule: nat_str.induct)
  case (1 n)
  show ?case
  proof (cases "n < 10")
    case True
    then show ?thesis using 1 by (subst nat_str.simps) (simp add: digit_char_def)
  next
    case False
    then show ?thesis using 1 by (subst nat_str.simps) simp
  qed
qed

text \<open>What may follow a number that the printer wrote.\<close>

definition ends :: "ustr \<Rightarrow> bool" where
  "ends r = (r = [] \<or> hd r \<in> {10, 44})"

lemma scan_digits_append:
  "list_all is_dig ds \<Longrightarrow> ends r \<Longrightarrow> scan_digits (ds @ r) = (ds, r)"
  by (induction ds; cases r) (auto simp: scan_digits_def ends_def is_dig_def in_range_def)

lemma nat_str_0: "nat_str 0 = [digit_char 0]"
  by (subst nat_str.simps) simp

lemma scan_int_part_nat:
  assumes "ends r"
  shows "scan_int_part (lit (nat_str n) @ r) = Some (False, lit (nat_str n), r)"
    and "scan_int_part (45 # lit (nat_str n) @ r) = Some (True, lit (nat_str n), r)"
proof -
  have ds: "list_all is_dig (lit (nat_str n))" by (rule lit_digits [OF nat_str_digits])
  obtain c s where s: "nat_str n = c # s" by (cases "nat_str n") simp_all
  have "n = 0 \<and> s = [] \<and> of_char c = (48::nat) \<or> 0 < n \<and> of_char c \<noteq> (48::nat)"
    using hd_nat_str [of n] s by (cases "n = 0") (auto simp: nat_str_0 digit_char_def)
  moreover have "is_dig (of_char c)" "of_char c \<noteq> (45::nat)"
    using ds s by (auto simp: is_dig_def in_range_def)
  ultimately show "scan_int_part (lit (nat_str n) @ r) = Some (False, lit (nat_str n), r)"
    and "scan_int_part (45 # lit (nat_str n) @ r) = Some (True, lit (nat_str n), r)"
    using scan_digits_append [OF ds assms] by (auto simp: scan_int_part_def s Let_def)
qed

lemma scan_number_int:
  assumes "ends r" "length (nat_str (nat \<bar>i\<bar>)) \<le> max_str_digits"
  shows "scan_number (lit (int_str i) @ r) = Inr (PInt i, r)"
proof -
  have "scan_fraction r = ([], r)" "scan_exponent r = ([], r)"
    using assms(1) by (auto simp: scan_fraction_def scan_exponent_def ends_def split: list.splits)
  then show ?thesis
    using assms scan_int_part_nat [OF assms(1), of "nat \<bar>i\<bar>"]
    by (auto simp: int_str_def scan_number_def digits_value_lit digits_val_nat_str abs_if)
qed


section \<open>Values\<close>

lemma fold_dict_put:
  "distinct (map fst (acc @ ps)) \<Longrightarrow> fold (\<lambda>(k, v). dict_put k v) ps acc = acc @ ps"
proof (induction ps arbitrary: acc)
  case (Cons p ps)
  have "dict_put k v acc = acc @ [(k, v)]" if "k \<notin> fst ` set acc" for k v
    using that by (induction acc) auto
  then show ?case using Cons.IH [of "acc @ [p]"] Cons.prems by (cases p) auto
qed simp

lemma dict_of_distinct: "distinct (map fst ps) \<Longrightarrow> dict_of ps = ps"
  using fold_dict_put [of "[]" ps] by (simp add: dict_of_def)

lemma skip_ws_id: "s \<noteq> [] \<Longrightarrow> \<not> is_ws (hd s) \<Longrightarrow> skip_ws s = s"
  by (cases s) (simp_all add: skip_ws_def)

lemma skip_newline_indent: "skip_ws (newline_indent k @ s) = skip_ws s"
proof -
  have "dropWhile is_ws (replicate m 32 @ s) = dropWhile is_ws s" for m
    by (induction m) (simp_all add: is_ws_def)
  then show ?thesis by (simp add: skip_ws_def newline_indent_def is_ws_def)
qed

lemma hd_int_code: "int_str i = c # s \<Longrightarrow> of_char c = (45::nat) \<or> is_dig (of_char c)"
  using hd_int_str [of i "[]"] lit_digits [of "[c]"] by auto

lemma dumps_at_start:
  "printable v \<Longrightarrow> \<exists>c s. dumps_at k v = c # s \<and> \<not> is_ws c \<and> c \<noteq> 93"
proof (cases v)
  case (PInt i)
  obtain c s where "int_str i = c # s" by (cases "int_str i") simp_all
  then show ?thesis using hd_int_code [of i c s] PInt by (auto simp: is_ws_def is_dig_def in_range_def)
qed (auto simp: is_ws_def quoted_def block_def split: list.splits)

definition starts :: "ustr \<Rightarrow> bool" where
  "starts s = (s \<noteq> [] \<and> \<not> is_ws (hd s))"

lemma skip_to_item:
  "starts s \<Longrightarrow> skip_ws (newline_indent k @ s @ r) = s @ r"
  by (cases s) (simp_all add: skip_newline_indent starts_def skip_ws_id)

text \<open>The cost of the items in calls.\<close>

definition cost :: "ustr list \<Rightarrow> nat" where
  "cost ts = 2 * (sum_list (map length ts) + length ts)"

lemma cost_simps [simp]: "cost [] = 0" "cost (t # ts) = 2 * length t + 2 + cost ts"
  by (simp_all add: cost_def)

lemma block_Cons: "block k l r (x # xs) = l # newline_indent (Suc k) @ x @
    concat (map (\<lambda>y. 44 # newline_indent (Suc k) @ y) xs) @ newline_indent k @ [r]"
  by (simp add: block_def)

lemma block_cost: "2 * length (block k l r ts) \<ge> cost ts + 2"
proof (cases ts)
  case (Cons x xs)
  have "2 * length (concat (map (\<lambda>y. 44 # newline_indent (Suc k) @ y) xs)) \<ge> cost xs"
    by (induction xs) auto
  then show ?thesis by (simp add: Cons block_Cons newline_indent_def)
qed (simp add: block_def)

definition reads :: "nat \<Rightarrow> pyv \<Rightarrow> bool" where
  "reads k v = (\<forall>n r. 2 * length (dumps_at k v) < n \<longrightarrow> ends r \<longrightarrow> scan_value n (dumps_at k v @ r) = Inr (v, r))"

lemma ends_simps [simp]: "ends (44 # r)" "ends (newline_indent k @ r)"
  by (simp_all add: ends_def newline_indent_def)

lemma skip_close: "c \<noteq> 32 \<Longrightarrow> c \<noteq> 9 \<Longrightarrow> c \<noteq> 10 \<Longrightarrow> c \<noteq> 13 \<Longrightarrow> skip_ws (newline_indent k @ c # r) = c # r"
  by (subst skip_newline_indent) (simp add: skip_ws_def is_ws_def)

lemma skip_comma: "skip_ws (44 # s) = 44 # s"
  by (simp add: skip_ws_def is_ws_def)

lemma scan_items_reads:
  assumes "\<forall>v\<in>set (x # xs). reads k v \<and> starts (dumps_at k v)"
    "cost (map (dumps_at k) (x # xs)) \<le> n"
  shows "scan_items n (dumps_at k x @ concat (map (\<lambda>y. 44 # newline_indent k @ dumps_at k y) xs) @
    newline_indent j @ 93 # r) = Inr (x # xs, r)"
  using assms
proof (induction xs arbitrary: x n)
  case Nil
  then obtain m where n: "n = Suc m" by (cases n) auto
  then show ?case using Nil by (simp add: reads_def skip_close)
next
  case (Cons y ys)
  then obtain m where n: "n = Suc m" by (cases n) auto
  have "scan_items m (dumps_at k y @ concat (map (\<lambda>y. 44 # newline_indent k @ dumps_at k y) ys) @
    newline_indent j @ 93 # r) = Inr (y # ys, r)"
    using Cons.prems n by (intro Cons.IH) auto
  then show ?case
    using Cons.prems by (simp add: n reads_def skip_comma skip_to_item)
qed

abbreviation member_text :: "nat \<Rightarrow> ustr \<times> pyv \<Rightarrow> ustr" where
  "member_text k \<equiv> \<lambda>(n, v). quoted n @ 58 # 32 # dumps_at k v"

lemma skip_space: "starts s \<Longrightarrow> skip_ws (32 # s @ r) = s @ r"
  by (cases s) (simp_all add: skip_ws_def is_ws_def starts_def)

lemma scan_members_reads:
  assumes "\<forall>(l, v)\<in>set (x # xs). unicode_ok l \<and> reads k v \<and> starts (dumps_at k v)"
    "cost (map (member_text k) (x # xs)) \<le> n"
  shows "scan_members n (member_text k x @ concat (map (\<lambda>y. 44 # newline_indent k @ member_text k y) xs) @
    newline_indent j @ 125 # r) = Inr (x # xs, r)"
  using assms
proof (induction xs arbitrary: x n)
  case Nil
  then obtain m where n: "n = Suc m" by (cases n) (auto split: prod.splits)
  obtain l v where x: "x = (l, v)" by (cases x)
  show ?case
    using Nil by (simp add: x n quoted_def strip_prefix_def scan_str_escaped skip_close skip_space
        reads_def skip_ws_id is_ws_def)
next
  case (Cons y ys)
  then obtain m where n: "n = Suc m" by (cases n) (auto split: prod.splits)
  obtain l v where x: "x = (l, v)" by (cases x)
  have "scan_members m (member_text k y @ concat (map (\<lambda>y. 44 # newline_indent k @ member_text k y) ys) @
    newline_indent j @ 125 # r) = Inr (y # ys, r)"
    using Cons.prems n by (intro Cons.IH) (auto split: prod.splits)
  moreover have "starts (member_text k y)"
    by (cases y) (simp add: starts_def quoted_def is_ws_def)
  ultimately show ?case
    using Cons.prems by (simp add: x n quoted_def strip_prefix_def scan_str_escaped skip_space
        reads_def skip_ws_id is_ws_def skip_comma skip_to_item)
qed

lemma dumps_starts: "printable v \<Longrightarrow> starts (dumps_at k v)"
  using dumps_at_start [of v k] by (auto simp: starts_def)

lemma readsI:
  assumes "\<And>m r. ends r \<Longrightarrow> 2 * length (dumps_at k v) \<le> m \<Longrightarrow>
    scan_value (Suc m) (dumps_at k v @ r) = Inr (v, r)"
  shows "reads k v"
  unfolding reads_def
proof (intro allI impI)
  fix n r
  assume "2 * length (dumps_at k v) < n" "ends r"
  then show "scan_value n (dumps_at k v @ r) = Inr (v, r)"
    using assms [of r "n - 1"] by (cases n) auto
qed

lemma reads_words: "reads k PNull" "reads k (PBool b)"
  by (auto intro!: readsI simp: words_def strip_prefix_def)

lemma strip_prefix_neq: "p \<noteq> [] \<Longrightarrow> s = [] \<or> hd p \<noteq> hd s \<Longrightarrow> strip_prefix p s = None"
  by (cases p; cases s) (auto simp: strip_prefix_def)

lemma reads_int:
  assumes "length (nat_str (nat \<bar>i\<bar>)) \<le> max_str_digits"
  shows "reads k (PInt i)"
proof (rule readsI)
  fix m r
  assume r: "ends r"
  obtain c s where cs: "int_str i = c # s" by (cases "int_str i") simp_all
  have c: "of_char c = (45::nat) \<or> is_dig (of_char c)" by (rule hd_int_code [OF cs])
  have "strip_prefix (lit ''-Infinity'') (lit (int_str i) @ r) = None"
  proof (cases "i < 0")
    case True
    then obtain e t where e: "nat_str (nat (- i)) = e # t" by (cases "nat_str (nat (- i))") simp_all
    then have "is_dig (of_char e)" using lit_digits [OF nat_str_digits, of "nat (- i)"] by simp
    then show ?thesis using True e by (auto simp: int_str_def strip_prefix_def is_dig_def in_range_def)
  next
    case False
    then have "is_digit c" using cs nat_str_digits [of "nat i"] by (simp add: int_str_def)
    then have "is_dig (of_char c)" using lit_digits [of "[c]"] by simp
    then show ?thesis using cs by (auto intro!: strip_prefix_neq simp: is_dig_def in_range_def)
  qed
  then have "scan_word words (lit (int_str i) @ r) = None"
    using c cs by (auto simp: words_def strip_prefix_neq is_dig_def in_range_def)
  then show "scan_value (Suc m) (dumps_at k (PInt i) @ r) = Inr (PInt i, r)"
    using scan_number_int [OF r assms] c cs by (auto simp: is_dig_def in_range_def)
qed

lemma reads_list:
  assumes "\<And>x. x \<in> set xs \<Longrightarrow> printable x \<and> reads (Suc k) x"
  shows "reads k (PList xs)"
proof (rule readsI)
  fix m r
  assume m: "2 * length (dumps_at k (PList xs)) \<le> m"
  show "scan_value (Suc m) (dumps_at k (PList xs) @ r) = Inr (PList xs, r)"
  proof (cases xs)
    case Nil
    then show ?thesis by (simp add: block_def skip_ws_def is_ws_def strip_prefix_def)
  next
    case (Cons y ys)
    let ?body = "dumps_at (Suc k) y @ concat (map (\<lambda>y. 44 # newline_indent (Suc k) @ dumps_at (Suc k) y) ys) @
      newline_indent k @ 93 # r"
    have all: "\<forall>v\<in>set (y # ys). reads (Suc k) v \<and> starts (dumps_at (Suc k) v)"
      using assms Cons dumps_starts by auto
    have "cost (map (dumps_at (Suc k)) (y # ys)) \<le> m"
      using m block_cost [of "map (dumps_at (Suc k)) xs" k 91 93] Cons by simp
    then have items: "scan_items m ?body = Inr (y # ys, r)"
      using scan_items_reads [OF all] by simp
    obtain c s where cs: "dumps_at (Suc k) y = c # s" "\<not> is_ws c" "c \<noteq> 93"
      using dumps_at_start [of y "Suc k"] assms Cons by auto
    have "skip_ws (newline_indent (Suc k) @ ?body) = ?body"
      using all by (intro skip_to_item) simp
    then show ?thesis
      using items cs by (simp add: Cons block_Cons comp_def strip_prefix_neq)
  qed
qed

lemma reads_dict:
  assumes "\<And>l x. (l, x) \<in> set kvs \<Longrightarrow> unicode_ok l \<and> printable x \<and> reads (Suc k) x"
    "distinct (map fst kvs)"
  shows "reads k (PDict kvs)"
proof (rule readsI)
  fix m r
  assume m: "2 * length (dumps_at k (PDict kvs)) \<le> m"
  show "scan_value (Suc m) (dumps_at k (PDict kvs) @ r) = Inr (PDict kvs, r)"
  proof (cases kvs)
    case Nil
    then show ?thesis by (simp add: block_def skip_ws_def is_ws_def strip_prefix_def)
  next
    case (Cons y ys)
    let ?body = "member_text (Suc k) y @ concat (map (\<lambda>y. 44 # newline_indent (Suc k) @ member_text (Suc k) y) ys) @
      newline_indent k @ 125 # r"
    have all: "\<forall>(l, v)\<in>set (y # ys). unicode_ok l \<and> reads (Suc k) v \<and> starts (dumps_at (Suc k) v)"
      using assms Cons dumps_starts by fastforce
    have "cost (map (member_text (Suc k)) (y # ys)) \<le> m"
      using m block_cost [of "map (member_text (Suc k)) kvs" k 123 125] Cons by simp
    then have items: "scan_members m ?body = Inr (y # ys, r)"
      by (rule scan_members_reads [OF all])
    have start: "starts (member_text (Suc k) y)" "hd (member_text (Suc k) y) = 34"
      by (cases y; simp add: starts_def quoted_def is_ws_def)+
    have "skip_ws (newline_indent (Suc k) @ ?body) = ?body"
      by (rule skip_to_item [OF start(1)])
    moreover have "hd ?body = 34"
      by (cases y) (simp add: quoted_def)
    ultimately show ?thesis
      using items dict_of_distinct [OF assms(2)]
      by (simp add: Cons block_Cons comp_def strip_prefix_neq del: scan_members.simps)
  qed
qed

lemma reads_printable: "printable v \<Longrightarrow> reads k v"
proof (induction v arbitrary: k)
  case (PStr s)
  then show ?case by (auto intro!: readsI simp: quoted_def scan_str_escaped)
next
  case (PList xs)
  then show ?case by (auto intro: reads_list)
next
  case (PDict kvs)
  then show ?case by (intro reads_dict) fastforce+
qed (simp_all add: reads_words reads_int)

lemma map_fst_sort: "map fst (sort_key fst kvs) = sort (map fst kvs)"
  by (rule properties_for_sort [symmetric]) simp_all

lemma sort_keys_printable: "printable v \<Longrightarrow> printable (sort_keys v)"
proof (induction v)
  case (PDict kvs)
  have "distinct (map fst (sort_key fst (map (\<lambda>(k, v). (k, sort_keys v)) kvs)))"
    using PDict.prems by (simp add: map_fst_sort comp_def case_prod_beta)
  then show ?case using PDict by fastforce
qed auto

theorem loads_dumps:
  assumes "printable v"
  shows "loads (dumps v @ [10]) = Inr (sort_keys v)"
proof -
  have p: "printable (sort_keys v)" by (rule sort_keys_printable [OF assms])
  have "skip_ws (dumps v @ [10]) = dumps v @ [10]"
    using dumps_starts [OF p, of 0] by (intro skip_ws_id) (auto simp: dumps_def starts_def)
  moreover have "scan_value (2 * length (dumps v @ [10]) + 2) (dumps v @ [10]) = Inr (sort_keys v, [10])"
    using reads_printable [OF p, of 0] by (simp add: reads_def dumps_def ends_def del: scan_value.simps)
  ultimately show ?thesis by (simp add: loads_def skip_ws_def is_ws_def)
qed

section \<open>The bytes of the file\<close>

text \<open>\<open>ensure_ascii\<close>: the text of a printed value is its own encoding.\<close>

definition ascii :: "ustr \<Rightarrow> bool" where
  "ascii s = (\<forall>c\<in>set s. 0 < c \<and> c < 128)"

lemma ascii_simps [simp]: "ascii []" "ascii (c # s) = (0 < c \<and> c < 128 \<and> ascii s)"
  "ascii (s @ t) = (ascii s \<and> ascii t)"
  by (auto simp: ascii_def)

lemma hex_code_ascii: "n < 16 \<Longrightarrow> 0 < hex_code n \<and> hex_code n < 128"
  by (simp add: hex_code_def)

lemma quoted_ascii: "ascii (quoted s)"
proof -
  have "ascii (escape_code c)" for c
    by (simp add: escape_code_def hex4_def hex_code_ascii in_range_def)
  then show ?thesis by (induction s) (auto simp: quoted_def)
qed

lemma block_ascii: "(\<forall>x\<in>set xs. ascii x) \<Longrightarrow> 0 < l \<Longrightarrow> l < 128 \<Longrightarrow> 0 < r \<Longrightarrow> r < 128 \<Longrightarrow>
    ascii (block k l r xs)"
proof -
  have "ascii (newline_indent k)" for k by (simp add: newline_indent_def ascii_def)
  moreover assume "\<forall>x\<in>set xs. ascii x" "0 < l" "l < 128" "0 < r" "r < 128"
  ultimately show ?thesis by (auto simp: block_def ascii_def split: list.splits)
qed

lemma dumps_at_ascii: "printable v \<Longrightarrow> ascii (dumps_at k v)"
proof (induction v arbitrary: k)
  case (PInt i)
  have "ascii (lit (nat_str n))" for n
    using lit_digits [OF nat_str_digits, of n]
    by (fastforce simp: ascii_def list_all_iff is_dig_def in_range_def)
  then show ?case by (simp add: int_str_def)
next
  case (PList xs)
  then show ?case by (auto intro!: block_ascii)
next
  case (PDict kvs)
  then show ?case by (fastforce intro!: block_ascii simp: quoted_ascii)
qed (simp_all add: quoted_ascii)

lemma utf8_decode_ascii: "ascii s \<Longrightarrow> utf8_decode pass s = Some s"
  by (induction s) simp_all

lemma utf8_encode_ascii: "ascii s \<Longrightarrow> utf8_encode s = Some s"
  by (induction s) (simp_all add: utf8_encode_char_def)

lemma decode_json_bytes_ascii: "ascii s \<Longrightarrow> decode_json_bytes s = Some s"
proof -
  assume a: "ascii s"
  then show ?thesis
    using utf8_decode_ascii [OF a, of True]
    by (cases s; cases "tl s"; cases "tl (tl s)"; cases "tl (tl (tl s))")
      (simp_all add: decode_json_bytes_def del: utf8_decode.simps)
qed

lemma loads_bytes_dumps:
  assumes "printable v"
  shows "loads_bytes (dumps v @ [10]) = Inr (sort_keys v)" "utf8_encode (dumps v @ [10]) = Some (dumps v @ [10])"
proof -
  have "ascii (dumps v @ [10])"
    using dumps_at_ascii [OF sort_keys_printable [OF assms]] by (simp add: dumps_def)
  then show "loads_bytes (dumps v @ [10]) = Inr (sort_keys v)" "utf8_encode (dumps v @ [10]) = Some (dumps v @ [10])"
    by (simp_all only: loads_bytes_def decode_json_bytes_ascii option.case loads_dumps [OF assms] utf8_encode_ascii)
qed

end
