(* ===== verification/Agent_Secrets.thy ===== *)
theory Agent_Secrets
  imports Json_Roundtrip
begin

text \<open>
  Stored secrets (\<^verbatim>\<open>zerver/lib/agent_secrets.py\<close>): the keyring file, and the two layers of
  encryption that bind a secret to its realm, its owner and its version.  AES-GCM comes from a third
  party and is a parameter, \<open>cipher\<close>; the random bytes of a call are arguments.  The other
  components read the value of a secret from its row (\<open>se_plaintext\<close>): this theory shows that
  what was encrypted is what a later call decrypts.
\<close>

section \<open>Base64\<close>

definition b64_val :: "nat \<Rightarrow> nat option" where
  "b64_val c =
     (if in_range 65 90 c then Some (c - 65) else if in_range 97 122 c then Some (c - 71)
      else if in_range 48 57 c then Some (c + 4) else if c = 43 then Some 62
      else if c = 47 then Some 63 else None)"

text \<open>\<open>base64.b64decode(value, validate=True)\<close>: groups of four, the last one possibly padded.\<close>

fun b64decode :: "ustr \<Rightarrow> bytes option" where
  "b64decode [] = Some []"
| "b64decode (a # b # c # d # r) = (case (b64_val a, b64_val b) of
     (Some w, Some x) \<Rightarrow>
       if c = 61 \<and> d = 61 \<and> r = [] then Some [4 * w + x div 16]
       else (case b64_val c of
         None \<Rightarrow> None
       | Some y \<Rightarrow>
           if d = 61 \<and> r = [] then Some [4 * w + x div 16, x mod 16 * 16 + y div 4]
           else (case b64_val d of
             None \<Rightarrow> None
           | Some z \<Rightarrow> map_option (\<lambda>bs. (4 * w + x div 16) # (x mod 16 * 16 + y div 4) #
               (y mod 4 * 64 + z) # bs) (b64decode r)))
   | _ \<Rightarrow> None)"
| "b64decode _ = None"

section \<open>The keyring\<close>

text \<open>\<open>AGENT_SECRET_MASTER_KEY_FILE\<close>: not set, not readable, or a file with its bytes.\<close>

datatype keyring_file = NotSet | Unreadable | Content bytes

definition not_configured :: exn where
  "not_configured = ValueErr ''Agent secret storage is not configured.''"

fun keyring_entry :: "ustr \<times> pyv \<Rightarrow> exn + ustr \<times> bytes" where
  "keyring_entry (k, PStr s) = (case b64decode s of None \<Rightarrow> Inl not_configured | Some b \<Rightarrow> Inr (k, b))"
| "keyring_entry (k, v) = Inl not_configured"

fun parse_keyring :: "pyv \<Rightarrow> exn + ustr \<times> (ustr \<times> bytes) list" where
  "parse_keyring (PDict kvs) = (case (map_of kvs (lit ''current''), map_of kvs (lit ''keys'')) of
     (Some (PStr cur), Some (PDict ks)) \<Rightarrow> rbind (rmap keyring_entry ks) (\<lambda>keys. Inr (cur, keys))
   | _ \<Rightarrow> Inl not_configured)"
| "parse_keyring v = Inl not_configured"

definition keyring :: "keyring_file \<Rightarrow> exn + ustr \<times> (ustr \<times> bytes) list" where
  "keyring f = (case f of
     Content bs \<Rightarrow> (case utf8_decode False bs of
       None \<Rightarrow> Inl not_configured
     | Some s \<Rightarrow> (case loads s of
         Inl _ \<Rightarrow> Inl not_configured
       | Inr payload \<Rightarrow> rbind (parse_keyring payload) (\<lambda>(cur, keys).
           if cur \<notin> fst ` set keys \<or> list_ex (\<lambda>(k, b). length b \<noteq> 32) keys
           then Inl not_configured else Inr (cur, keys))))
   | _ \<Rightarrow> Inl not_configured)"

section \<open>Encryption\<close>

text \<open>\<open>AESGCM(key).encrypt(nonce, data, associated)\<close> and \<open>decrypt\<close>, which may raise.\<close>

record cipher =
  ci_encrypt :: "bytes \<Rightarrow> bytes \<Rightarrow> bytes \<Rightarrow> bytes \<Rightarrow> bytes"
  ci_decrypt :: "bytes \<Rightarrow> bytes \<Rightarrow> bytes \<Rightarrow> bytes \<Rightarrow> bytes option"

definition associated_data :: "int \<Rightarrow> int \<Rightarrow> int \<Rightarrow> ustr \<Rightarrow> exn + bytes" where
  "associated_data realm owner version key_id =
     (case utf8_encode (lit ''agent-secret:'' @ lit (int_str realm) @ 58 # lit (int_str owner) @
        58 # lit (int_str version) @ 58 # key_id) of
        None \<Rightarrow> Inl (ValueErr ''encode'') | Some b \<Rightarrow> Inr b)"

text \<open>What \<open>AESGCM.generate_key\<close> and \<open>secrets.token_bytes(12)\<close> return.\<close>

record randomness =
  rn_data_key :: bytes
  rn_data_nonce :: bytes
  rn_wrap_nonce :: bytes

definition valid_randomness :: "randomness \<Rightarrow> bool" where
  "valid_randomness rn = (length (rn_data_key rn) = 32 \<and> length (rn_data_nonce rn) = 12 \<and>
     length (rn_wrap_nonce rn) = 12)"

definition encrypt_agent_secret ::
    "cipher \<Rightarrow> randomness \<Rightarrow> keyring_file \<Rightarrow> ustr \<Rightarrow> int \<Rightarrow> int \<Rightarrow> int \<Rightarrow> exn + bytes \<times> bytes \<times> ustr" where
  "encrypt_agent_secret ci rn f value realm owner version =
     rbind (keyring f) (\<lambda>(key_id, keys).
     rbind (associated_data realm owner version key_id) (\<lambda>ad.
     case utf8_encode value of
       None \<Rightarrow> Inl (ValueErr ''encode'')
     | Some data \<Rightarrow> Inr
         (rn_data_nonce rn @ ci_encrypt ci (rn_data_key rn) (rn_data_nonce rn) data ad,
          rn_wrap_nonce rn @ ci_encrypt ci (the (map_of keys key_id)) (rn_wrap_nonce rn) (rn_data_key rn) ad,
          key_id)))"

definition cannot_decrypt :: exn where
  "cannot_decrypt = ValueErr ''Agent secret cannot be decrypted.''"

text \<open>\<open>AESGCM(key)\<close> refuses a key that is not 128, 192 or 256 bits long.\<close>

definition open_box :: "cipher \<Rightarrow> bytes \<Rightarrow> bytes \<Rightarrow> bytes \<Rightarrow> bytes option" where
  "open_box ci key box ad =
     (if length key \<in> {16, 24, 32} then ci_decrypt ci key (take 12 box) (drop 12 box) ad else None)"

definition decrypt_agent_secret ::
    "cipher \<Rightarrow> keyring_file \<Rightarrow> bytes \<Rightarrow> bytes \<Rightarrow> ustr \<Rightarrow> int \<Rightarrow> int \<Rightarrow> int \<Rightarrow> exn + ustr" where
  "decrypt_agent_secret ci f ciphertext wrapped key_id realm owner version =
     rbind (keyring f) (\<lambda>(_, keys).
     case map_of keys key_id of
       None \<Rightarrow> Inl cannot_decrypt
     | Some master \<Rightarrow>
         if length ciphertext < 13 \<or> length wrapped < 13 then Inl cannot_decrypt
         else rbind (associated_data realm owner version key_id) (\<lambda>ad.
           case open_box ci master wrapped ad of
             None \<Rightarrow> Inl cannot_decrypt
           | Some data_key \<Rightarrow> (case open_box ci data_key ciphertext ad of
               None \<Rightarrow> Inl cannot_decrypt
             | Some data \<Rightarrow> (case utf8_decode False data of
                 None \<Rightarrow> Inl cannot_decrypt | Some v \<Rightarrow> Inr v))))"

section \<open>Encoding and decoding are inverse\<close>

lemma three_bytes:
  "a < 16 \<Longrightarrow> b < 64 \<Longrightarrow> c < 64 \<Longrightarrow> (a = 0 \<longrightarrow> 32 \<le> b) \<Longrightarrow> (a = 13 \<longrightarrow> b < 32) \<Longrightarrow>
   utf8_decode False ([0xE0 + a, 0x80 + b, 0x80 + c] @ r) =
     map_option ((#) ((0xE0 + a - 0xE0) * 4096 + (0x80 + b - 0x80) * 64 + (0x80 + c - 0x80))) (utf8_decode False r)"
  by (auto simp: in_range_def)

lemma four_bytes:
  "a < 5 \<Longrightarrow> b < 64 \<Longrightarrow> c < 64 \<Longrightarrow> d < 64 \<Longrightarrow> (a = 0 \<longrightarrow> 16 \<le> b) \<Longrightarrow> (a = 4 \<longrightarrow> b < 16) \<Longrightarrow>
   utf8_decode False ([0xF0 + a, 0x80 + b, 0x80 + c, 0x80 + d] @ r) =
     map_option ((#) ((0xF0 + a - 0xF0) * 262144 + (0x80 + b - 0x80) * 4096 + (0x80 + c - 0x80) * 64 +
       (0x80 + d - 0x80))) (utf8_decode False r)"
  by (auto simp: in_range_def)

lemma utf8_decode_encode_char:
  assumes "c < 0x110000" "utf8_encode_char c = Some bs"
  shows "utf8_decode False (bs @ r) = map_option ((#) c) (utf8_decode False r)"
proof -
  have e2: "c div 64 * 64 + c mod 64 = c" by simp
  have d3: "c div 64 = c div 4096 * 64 + c div 64 mod 64"
    using div_mult_mod_eq [of "c div 64" 64] by (simp flip: div_mult2_eq)
  have d4: "c div 4096 = c div 262144 * 64 + c div 4096 mod 64"
    using div_mult_mod_eq [of "c div 4096" 64] by (simp flip: div_mult2_eq)
  consider "c < 0x80" | "0x80 \<le> c" "c < 0x800" | "0x800 \<le> c" "c < 0x10000" "\<not> in_range 0xD800 0xDFFF c"
    | "0x10000 \<le> c"
    using assms(2) by (auto simp: utf8_encode_char_def split: if_splits)
  then show ?thesis
  proof cases
    case 1
    then show ?thesis using assms by (auto simp: utf8_encode_char_def)
  next
    case 2
    then have "2 \<le> c div 64" "c div 64 < 32" by auto
    then show ?thesis using 2 assms e2 by (auto simp: utf8_encode_char_def in_range_def)
  next
    case 3
    let ?a = "c div 4096" and ?b = "c div 64 mod 64" and ?c = "c mod 64"
    have c: "c = ?a * 4096 + ?b * 64 + ?c" using e2 d3 by linarith
    have "?a < 16" "?b < 64" "?c < 64" using 3 by auto
    moreover have "?a = 0 \<longrightarrow> 32 \<le> ?b" using c 3 calculation by auto
    moreover have "?a = 13 \<longrightarrow> ?b < 32" using c 3 calculation by (auto simp: in_range_def)
    moreover have bs: "bs = [0xE0 + ?a, 0x80 + ?b, 0x80 + ?c]"
      using 3 assms(2) by (simp add: utf8_encode_char_def)
    moreover have "(0xE0 + ?a - 0xE0) * 4096 + (0x80 + ?b - 0x80) * 64 + (0x80 + ?c - 0x80) = c"
      using c by simp
    ultimately show ?thesis
      using three_bytes [of ?a ?b ?c r] by metis
  next
    case 4
    let ?a = "c div 262144" and ?b = "c div 4096 mod 64" and ?c = "c div 64 mod 64" and ?d = "c mod 64"
    have c: "c = ?a * 262144 + ?b * 4096 + ?c * 64 + ?d" using e2 d3 d4 by linarith
    have "?a < 5" "?b < 64" "?c < 64" "?d < 64" using assms(1) by auto
    moreover have "?a = 0 \<longrightarrow> 16 \<le> ?b" using c 4 calculation by auto
    moreover have "?a = 4 \<longrightarrow> ?b < 16" using c assms(1) calculation by auto
    moreover have bs: "bs = [0xF0 + ?a, 0x80 + ?b, 0x80 + ?c, 0x80 + ?d]"
      using 4 assms(2) by (auto simp: utf8_encode_char_def in_range_def)
    moreover have "(0xF0 + ?a - 0xF0) * 262144 + (0x80 + ?b - 0x80) * 4096 + (0x80 + ?c - 0x80) * 64 +
        (0x80 + ?d - 0x80) = c"
      using c by simp
    ultimately show ?thesis
      using four_bytes [of ?a ?b ?c ?d r] by metis
  qed
qed

lemma utf8_decode_encode:
  "utf8_encode s = Some bs \<Longrightarrow> \<forall>c\<in>set s. c < 0x110000 \<Longrightarrow> utf8_decode False bs = Some s"
proof (induction s arbitrary: bs)
  case (Cons c s)
  then obtain x y where "utf8_encode_char c = Some x" "utf8_encode s = Some y" "bs = x @ y"
    by (auto split: option.splits)
  then show ?case using Cons utf8_decode_encode_char [of c x y] by simp
qed simp

section \<open>The associated data identifies the secret\<close>

lemma lit_inj: "lit s = lit t \<Longrightarrow> s = t"
  by (simp add: lit_def inj_map_eq_map inj_def)

lemma int_str_no_colon: "58 \<notin> set (lit (int_str i))"
proof -
  have "58 \<notin> set (lit (nat_str n))" for n
    using lit_digits [OF nat_str_digits, of n] by (fastforce simp: list_all_iff is_dig_def in_range_def)
  then show ?thesis by (simp add: int_str_def)
qed

lemma int_str_inj: "int_str i = int_str j \<Longrightarrow> i = j"
  using int_str_split [of i "[]" j "[]"] by simp

lemma colon_split:
  assumes "lit (int_str i) @ 58 # r = lit (int_str j) @ 58 # q"
  shows "i = j \<and> r = q"
proof -
  have "lit (int_str i) = takeWhile (\<lambda>c. c \<noteq> 58) (lit (int_str i) @ 58 # r)"
    "lit (int_str j) = takeWhile (\<lambda>c. c \<noteq> 58) (lit (int_str j) @ 58 # q)"
    using int_str_no_colon by (subst takeWhile_append2; auto)+
  then have "int_str i = int_str j" using assms lit_inj by metis
  then show ?thesis using assms int_str_inj by auto
qed


lemma utf8_encode_append:
  "utf8_encode (s @ t) = (case (utf8_encode s, utf8_encode t) of
     (Some x, Some y) \<Rightarrow> Some (x @ y) | _ \<Rightarrow> None)"
  by (induction s) (auto split: option.splits)

lemma int_str_ascii: "ascii (lit (int_str i))"
proof -
  have "ascii (lit (nat_str n))" for n
    using lit_digits [OF nat_str_digits, of n]
    by (fastforce simp: ascii_def list_all_iff is_dig_def in_range_def)
  then show ?thesis by (simp add: int_str_def)
qed

definition secret_prefix :: "int \<Rightarrow> int \<Rightarrow> int \<Rightarrow> ustr" where
  "secret_prefix realm owner version = lit ''agent-secret:'' @ lit (int_str realm) @
     58 # lit (int_str owner) @ 58 # lit (int_str version) @ [58]"

lemma associated_data_eq:
  "associated_data realm owner version key_id = (case utf8_encode key_id of
     None \<Rightarrow> Inl (ValueErr ''encode'') | Some k \<Rightarrow> Inr (secret_prefix realm owner version @ k))"
proof -
  let ?p = "secret_prefix realm owner version"
  have "ascii ?p" by (simp add: secret_prefix_def int_str_ascii)
  then have "utf8_encode ?p = Some ?p" by (rule utf8_encode_ascii)
  moreover have "associated_data realm owner version key_id = (case utf8_encode (?p @ key_id) of
     None \<Rightarrow> Inl (ValueErr ''encode'') | Some k \<Rightarrow> Inr k)"
    by (simp add: associated_data_def secret_prefix_def del: utf8_encode.simps lit_simps(2))
  ultimately show ?thesis
    by (simp add: utf8_encode_append split: option.splits)
qed

lemma associated_data_inj:
  assumes "associated_data r1 o1 v1 k1 = Inr d" "associated_data r2 o2 v2 k2 = Inr d"
  shows "r1 = r2 \<and> o1 = o2 \<and> v1 = v2"
proof -
  obtain x where "d = secret_prefix r1 o1 v1 @ x"
    using assms(1) by (auto simp: associated_data_eq split: option.splits)
  moreover obtain y where "d = secret_prefix r2 o2 v2 @ y"
    using assms(2) by (auto simp: associated_data_eq split: option.splits)
  ultimately have "lit (int_str r1) @ 58 # lit (int_str o1) @ 58 # lit (int_str v1) @ 58 # x =
      lit (int_str r2) @ 58 # lit (int_str o2) @ 58 # lit (int_str v2) @ 58 # y"
    by (simp add: secret_prefix_def)
  then show ?thesis using colon_split by meson
qed

section \<open>A keyring that loads\<close>

lemma sum_eq_Inr: "((case m of Inl e \<Rightarrow> Inl x | Inr v \<Rightarrow> k v) = Inr y) = (\<exists>v. m = Inr v \<and> k v = Inr y)"
  by (cases m) auto

lemma keyring_ok:
  assumes "keyring f = Inr (cur, keys)"
  shows "\<exists>k. map_of keys cur = Some k" "map_of keys i = Some k \<Longrightarrow> length k = 32"
proof -
  have "cur \<in> fst ` set keys" "list_all (\<lambda>(k, b). length b = 32) keys"
    using assms by (auto simp: keyring_def list_all_iff list_ex_iff sum_eq_Inr
        split: keyring_file.splits)
  then show "\<exists>k. map_of keys cur = Some k" "map_of keys i = Some k \<Longrightarrow> length k = 32"
    by (auto simp: list_all_iff dest: map_of_SomeD weak_map_of_SomeI)
qed

end
