(* ===== verification/Secret_Properties.thy ===== *)
theory Secret_Properties
  imports Agent_Secrets
begin

text \<open>
  What the two layers of encryption promise: a secret comes back as it was stored, also after the
  current key has changed, and it comes back nowhere else.
\<close>

section \<open>What is relied on of AES-GCM\<close>

text \<open>
  The documentation of \<open>AESGCM\<close>: \<open>decrypt\<close> returns the data for the key, nonce and associated
  data of \<open>encrypt\<close>, and the ciphertext is 16 bytes longer than the data.
\<close>

definition documented_cipher :: "cipher \<Rightarrow> bool" where
  "documented_cipher ci = (\<forall>k n d a. ci_decrypt ci k n (ci_encrypt ci k n d a) a = Some d \<and>
     length (ci_encrypt ci k n d a) = length d + 16)"

text \<open>\<open>InvalidTag\<close>: this box, sealed with \<open>a\<close>, does not open with the associated data \<open>b\<close>.\<close>

definition refuses :: "cipher \<Rightarrow> bytes \<Rightarrow> bytes \<Rightarrow> bytes \<Rightarrow> bytes \<Rightarrow> bytes \<Rightarrow> bool" where
  "refuses ci key nonce data a b =
     (a \<noteq> b \<longrightarrow> ci_decrypt ci key nonce (ci_encrypt ci key nonce data a) b = None)"

section \<open>The stored secret\<close>

lemma encrypt_agent_secretD:
  assumes "encrypt_agent_secret ci rn f value realm owner version = Inr (ct, wk, kid)"
    "keyring f = Inr (cur, keys)"
  shows "kid = cur" "\<exists>ad data. associated_data realm owner version cur = Inr ad \<and> utf8_encode value = Some data \<and>
    ct = rn_data_nonce rn @ ci_encrypt ci (rn_data_key rn) (rn_data_nonce rn) data ad \<and>
    wk = rn_wrap_nonce rn @ ci_encrypt ci (the (map_of keys cur)) (rn_wrap_nonce rn) (rn_data_key rn) ad"
  using assms by (auto simp: encrypt_agent_secret_def split: option.splits)

lemma open_box_sealed:
  assumes "documented_cipher ci" "length key = 32" "length nonce = 12"
  shows "open_box ci key (nonce @ ci_encrypt ci key nonce data ad) ad = Some data"
    and "length (nonce @ ci_encrypt ci key nonce data ad) \<ge> 13"
    and "refuses ci key nonce data ad bd \<Longrightarrow> bd \<noteq> ad \<Longrightarrow>
      open_box ci key (nonce @ ci_encrypt ci key nonce data ad) bd = None"
  using assms by (auto simp: open_box_def documented_cipher_def refuses_def)

lemma associated_data_total:
  "associated_data realm owner version k = Inr ad \<Longrightarrow> \<exists>bd. associated_data realm2 owner2 version2 k = Inr bd"
  by (auto simp: associated_data_eq split: option.splits)

text \<open>
  C35: A secret that was stored for a realm, an owner and a version is decrypted to the same text for
  exactly that realm, owner and version, with any later keyring that still holds the key it was
  sealed with, whatever key is current by then; for any other realm, owner or version the call
  raises.
\<close>

theorem secret_opens_only_where_it_belongs:
  assumes "documented_cipher ci" "valid_randomness rn" "\<forall>c\<in>set value. c < 0x110000"
    and stored: "encrypt_agent_secret ci rn f value realm owner version = Inr (ct, wk, kid)"
    and rings: "keyring f = Inr (cur, keys)" "keyring g = Inr (cur2, keys2)" "map_of keys2 kid = map_of keys kid"
    and tag: "\<forall>a b. associated_data realm owner version kid = Inr a \<longrightarrow>
      associated_data realm2 owner2 version2 kid = Inr b \<longrightarrow>
      refuses ci (the (map_of keys kid)) (rn_wrap_nonce rn) (rn_data_key rn) a b"
  shows "decrypt_agent_secret ci g ct wk kid realm2 owner2 version2 =
    (if (realm2, owner2, version2) = (realm, owner, version) then Inr value else Inl cannot_decrypt)"
proof -
  obtain ad data where kid: "kid = cur" and ad: "associated_data realm owner version kid = Inr ad"
    and data: "utf8_encode value = Some data"
    and ct: "ct = rn_data_nonce rn @ ci_encrypt ci (rn_data_key rn) (rn_data_nonce rn) data ad"
    and wk: "wk = rn_wrap_nonce rn @ ci_encrypt ci (the (map_of keys kid)) (rn_wrap_nonce rn) (rn_data_key rn) ad"
    using encrypt_agent_secretD [OF stored rings(1)] by auto
  obtain bd where bd: "associated_data realm2 owner2 version2 kid = Inr bd"
    using associated_data_total [OF ad] by blast
  obtain master where m: "map_of keys kid = Some master" "length master = 32"
    using keyring_ok [OF rings(1)] kid by blast
  note boxes = open_box_sealed [OF assms(1)]
  have len: "length (rn_data_key rn) = 32" "length (rn_data_nonce rn) = 12" "length (rn_wrap_nonce rn) = 12"
    using assms(2) by (simp_all add: valid_randomness_def)
  have long: "13 \<le> length ct" "13 \<le> length wk"
    using m boxes(2) [OF len(1,2), of data ad] boxes(2) [OF m(2) len(3), of "rn_data_key rn" ad]
    by (simp_all add: ct wk)
  have opened: "decrypt_agent_secret ci g ct wk kid realm2 owner2 version2 =
    (case open_box ci master wk bd of None \<Rightarrow> Inl cannot_decrypt
     | Some k \<Rightarrow> (case open_box ci k ct bd of None \<Rightarrow> Inl cannot_decrypt
       | Some x \<Rightarrow> (case utf8_decode False x of None \<Rightarrow> Inl cannot_decrypt | Some v \<Rightarrow> Inr v)))"
    using rings m bd long by (simp add: decrypt_agent_secret_def)
  show ?thesis
  proof (cases "bd = ad")
    case True
    then have "(realm2, owner2, version2) = (realm, owner, version)"
      using associated_data_inj [OF ad] bd by simp
    then show ?thesis
      using opened True boxes(1) [OF m(2) len(3)] boxes(1) [OF len(1,2)] utf8_decode_encode [OF data assms(3)]
      by (simp add: ct wk m)
  next
    case False
    then have "(realm2, owner2, version2) \<noteq> (realm, owner, version)" using ad bd by auto
    then show ?thesis
      using opened False boxes(3) [OF m(2) len(3)] tag ad bd by (auto simp: wk m)
  qed
qed

section \<open>A secret of a service whose key has changed\<close>

text \<open>A cipher with the documented interface: the tag is the end of the associated data.\<close>

definition sample_tag :: "bytes \<Rightarrow> bytes" where
  "sample_tag a = take 16 (List.rev a @ replicate 16 0)"

definition sample_cipher :: cipher where
  "sample_cipher = \<lparr>ci_encrypt = (\<lambda>k n d a. d @ sample_tag a),
     ci_decrypt = (\<lambda>k n x a. if drop (length x - 16) x = sample_tag a then Some (take (length x - 16) x) else None)\<rparr>"

lemma sample_cipher_documented: "documented_cipher sample_cipher"
proof -
  have "length (sample_tag a) = 16" for a by (simp add: sample_tag_def)
  then show ?thesis by (simp add: documented_cipher_def sample_cipher_def)
qed

definition sample_key_text :: "nat \<Rightarrow> ustr" where
  "sample_key_text c = [c, c, c, c, c, c, c, c, c, c, c, c, c, c, c, c, c, c, c, c, c,
     c, c, c, c, c, c, c, c, c, c, c, c, c, c, c, c, c, c, c, c, c, 65, 61]"

definition first_ring :: keyring_file where
  "first_ring = Content (dumps (PDict [(lit ''current'', PStr (lit ''a'')),
     (lit ''keys'', PDict [(lit ''a'', PStr (sample_key_text 65))])]) @ [10])"

definition second_ring :: keyring_file where
  "second_ring = Content (dumps (PDict [(lit ''current'', PStr (lit ''b'')),
     (lit ''keys'', PDict [(lit ''a'', PStr (sample_key_text 65)), (lit ''b'', PStr (sample_key_text 66))])]) @ [10])"

definition sample_randomness :: randomness where
  "sample_randomness = \<lparr>rn_data_key = replicate 32 7, rn_data_nonce = replicate 12 8,
     rn_wrap_nonce = replicate 12 9\<rparr>"

definition master_key :: "nat \<Rightarrow> bytes" where
  "master_key c = the (b64decode (sample_key_text c))"

lemma keyring_printed:
  assumes "printable v" "keyring_file = Content (dumps v @ [10])"
  shows "keyring keyring_file = rbind (parse_keyring (sort_keys v)) (\<lambda>(cur, keys).
    if cur \<notin> fst ` set keys \<or> list_ex (\<lambda>(k, b). length b \<noteq> 32) keys
    then Inl not_configured else Inr (cur, keys))"
proof -
  have "ascii (dumps v @ [10])"
    using dumps_at_ascii [OF sort_keys_printable [OF assms(1)]] by (simp add: dumps_def)
  then show ?thesis
    by (simp add: keyring_def assms(2) utf8_decode_ascii loads_dumps [OF assms(1)] del: utf8_decode.simps)
qed

lemma sample_key: "c = 65 \<or> c = 66 \<Longrightarrow> b64decode (sample_key_text c) = Some (master_key c) \<and> length (master_key c) = 32"
  by (auto simp: master_key_def sample_key_text_def b64_val_def in_range_def)

lemma sample_texts: "unicode_ok (lit ''current'')" "unicode_ok (lit ''keys'')" "unicode_ok (lit ''a'')" "unicode_ok (lit ''b'')"
  "c < 128 \<Longrightarrow> unicode_ok (sample_key_text c)"
  by (auto intro!: unicode_ok_small simp: sample_key_text_def simp del: unicode_ok.simps)

lemma first_ring_loads: "keyring first_ring = Inr (lit ''a'', [(lit ''a'', master_key 65)])"
  by (subst keyring_printed [OF _ first_ring_def])
    (simp_all add: sample_key sample_texts [simplified])

lemma second_ring_loads:
  "keyring second_ring = Inr (lit ''b'', [(lit ''a'', master_key 65), (lit ''b'', master_key 66)])"
  by (subst keyring_printed [OF _ second_ring_def])
    (simp_all add: sample_key sample_texts [simplified])


definition sealed :: "bytes \<times> bytes \<times> ustr" where
  "sealed = (case encrypt_agent_secret sample_cipher sample_randomness first_ring (lit ''token'') 1 20 3 of
     Inr x \<Rightarrow> x | Inl _ \<Rightarrow> ([], [], []))"

lemma sealed_ok:
  "encrypt_agent_secret sample_cipher sample_randomness first_ring (lit ''token'') 1 20 3 =
     Inr (fst sealed, fst (snd sealed), lit ''a'')"
  by (simp add: encrypt_agent_secret_def first_ring_loads associated_data_eq utf8_encode_char_def sealed_def)

lemma sample_tags:
  assumes "associated_data 1 20 3 (lit ''a'') = Inr a" "associated_data 2 20 3 (lit ''a'') = Inr b"
  shows "refuses sample_cipher k n d a b"
  using assms
  by (auto simp: refuses_def sample_cipher_def associated_data_eq utf8_encode_char_def secret_prefix_def
      int_str_def sample_tag_def nat_str.simps digit_char_def)

theorem secret_opens_only_where_it_belongs_witness:
  "decrypt_agent_secret sample_cipher second_ring (fst sealed) (fst (snd sealed)) (lit ''a'') 1 20 3 = Inr (lit ''token'') \<and>
   decrypt_agent_secret sample_cipher second_ring (fst sealed) (fst (snd sealed)) (lit ''a'') 2 20 3 = Inl cannot_decrypt"
proof -
  have rn: "valid_randomness sample_randomness" by (simp add: valid_randomness_def sample_randomness_def)
  have plain: "\<forall>c\<in>set (lit ''token''). c < 0x110000" by simp
  have key: "map_of [(lit ''a'', master_key 65), (lit ''b'', master_key 66)] (lit ''a'') =
    map_of [(lit ''a'', master_key 65)] (lit ''a'')" by simp
  note opens = secret_opens_only_where_it_belongs [OF sample_cipher_documented rn plain sealed_ok
      first_ring_loads second_ring_loads key]
  have "\<forall>a b. associated_data 1 20 3 (lit ''a'') = Inr a \<longrightarrow> associated_data 1 20 3 (lit ''a'') = Inr b \<longrightarrow>
    refuses sample_cipher (the (map_of [(lit ''a'', master_key 65)] (lit ''a''))) (rn_wrap_nonce sample_randomness)
      (rn_data_key sample_randomness) a b"
    by (auto simp: refuses_def)
  then show ?thesis
    using opens [of 1 20 3] opens [of 2 20 3] sample_tags by (auto simp del: lit_simps)
qed

end
