(* ===== verification/Agent_Backup.thy ===== *)
theory Agent_Backup
  imports Agent_Secrets
begin

text \<open>
  The private files of the agents in a database backup (\<^verbatim>\<open>zerver/lib/agent_backup.py\<close>): staging
  copies the artifact directory and the keyring beside a manifest, verification compares a restored
  tree with its manifest.  The file system is a tree of nodes; what concurrent writers and the
  operating system may do (a file that changes while it is read, a short write, a full disk) is data of
  the tree or an argument.  A failed staging leaves its partial tree behind, which the model does not
  keep.  Not modelled: entries that appear between the listing of a directory and the opening of an
  entry.
\<close>

section \<open>The file system\<close>

text \<open>The permission bits, the link count, the size and the two times of \<open>os.fstat\<close>.\<close>

record fstat =
  st_mode :: nat
  st_nlink :: nat
  st_size :: nat
  st_mtime :: int
  st_ctime :: int

text \<open>
  A regular file with its state before and after it is read and the bytes a reader gets; a directory
  with its entries in the order of \<open>os.listdir\<close>; another kind of file that can be opened (a fifo, a
  device); and what \<open>os.open\<close> refuses (a symbolic link, a file without permission).
\<close>

datatype node =
    RegFile fstat fstat bytes
  | Directory fstat "(ustr \<times> node) list"
  | OtherFile fstat
  | Refused

text \<open>\<open>OSError\<close>, \<open>AgentBackupError\<close>, and the failures of \<open>json.loads\<close>.\<close>

datatype backup_exn = OsErr | BackupErr string | ParseErr json_failure

fun find_entry :: "ustr \<Rightarrow> (ustr \<times> node) list \<Rightarrow> backup_exn + node" where
  "find_entry n [] = Inl OsErr"
| "find_entry n ((m, x) # es) = (if m = n then Inr x else find_entry n es)"

text \<open>
  \<open>_open_path\<close> on the components of an absolute path.  The last component is opened as a directory
  or as a file; a file is opened without following links and may be of any kind.
\<close>

fun open_dir :: "node \<Rightarrow> backup_exn + fstat \<times> (ustr \<times> node) list" where
  "open_dir (Directory st es) = Inr (st, es)"
| "open_dir _ = Inl OsErr"

fun open_file :: "node \<Rightarrow> backup_exn + node" where
  "open_file Refused = Inl OsErr"
| "open_file x = Inr x"

fun walk :: "node \<Rightarrow> ustr list \<Rightarrow> backup_exn + node" where
  "walk x [] = Inr x"
| "walk x (p # ps) = rbind (open_dir x) (\<lambda>(_, es). rbind (find_entry p es) (\<lambda>y. walk y ps))"

definition open_path :: "node \<Rightarrow> ustr list \<Rightarrow> backup_exn + node" where
  "open_path root parts =
     (if lit ''..'' \<in> set parts
      then Inl (BackupErr ''Agent backup paths cannot contain parent traversal.'')
      else walk root parts)"

section \<open>Copying one file\<close>

record backup_file =
  bf_path :: ustr
  bf_size :: nat
  bf_sha :: ustr

text \<open>\<open>info.st_mode & 0o077\<close>: the lower six bits.\<close>

definition require_private :: "fstat \<Rightarrow> backup_exn + unit" where
  "require_private st =
     (if st_mode st mod 64 \<noteq> 0
      then Inl (BackupErr ''Agent backup files and directories must be private.'') else Inr ())"

text \<open>
  \<open>os.write\<close> with what the file holds already and the pending bytes: the number of bytes it took, or
  an \<open>OSError\<close>.
\<close>

type_synonym os_write = "bytes \<Rightarrow> bytes \<Rightarrow> nat option"

function write_all :: "os_write \<Rightarrow> bytes \<Rightarrow> bytes \<Rightarrow> backup_exn + bytes" where
  "write_all w written pending =
     (if pending = [] then Inr written
      else case w written pending of
        None \<Rightarrow> Inl OsErr
      | Some n \<Rightarrow>
          if n = 0 then Inl (BackupErr ''Agent backup cannot write the staged file.'')
          else write_all w (written @ take n pending) (drop n pending))"
  by pat_completeness auto

termination
  by (relation "measure (\<lambda>(w, written, pending). length pending)") auto

declare write_all.simps [simp del]

definition chunk_size :: nat where
  "chunk_size = 1024 * 1024"

text \<open>
  The loop of \<open>_file_record\<close>: the size and the bytes read so far, what the target holds, and what the
  source still gives.  Without a target nothing is written.
\<close>

function copy_loop ::
    "os_write option \<Rightarrow> nat \<Rightarrow> bytes \<Rightarrow> bytes \<Rightarrow> bytes \<Rightarrow> backup_exn + bytes \<times> bytes" where
  "copy_loop target whole seen written rest =
     (if length seen < whole then
        (let chunk = take (min chunk_size (whole - length seen)) rest in
         if chunk = [] then Inr (seen, written)
         else rbind (case target of None \<Rightarrow> Inr written | Some w \<Rightarrow> write_all w written chunk) (\<lambda>written2.
           copy_loop target whole (seen @ chunk) written2 (drop (length chunk) rest)))
      else Inr (seen, written))"
  by pat_completeness auto

termination
  by (relation "measure (\<lambda>(target, whole, seen, written, rest). whole - length seen)")
    (auto intro!: diff_less_mono2 simp: chunk_size_def)

declare copy_loop.simps [simp del]

fun file_record ::
    "(bytes \<Rightarrow> ustr) \<Rightarrow> os_write option \<Rightarrow> bool \<Rightarrow> ustr \<Rightarrow> node \<Rightarrow> backup_exn + backup_file \<times> bytes" where
  "file_record sha target private relative (RegFile before after data) =
     (if st_nlink before \<noteq> 1
      then Inl (BackupErr ''Agent backup requires regular files without hard links.'')
      else rbind (if private then require_private before else Inr ()) (\<lambda>_.
           rbind (copy_loop target (st_size before) [] [] data) (\<lambda>(seen, written).
             if (st_size before, st_mtime before, st_ctime before) \<noteq>
                (st_size after, st_mtime after, st_ctime after) \<or> length seen \<noteq> st_size before
             then Inl (BackupErr ''An agent backup source changed during the copy.'')
             else Inr (\<lparr>bf_path = relative, bf_size = length seen, bf_sha = sha seen\<rparr>, written))))"
| "file_record sha target private relative (Directory st es) = Inl OsErr"
| "file_record sha target private relative (OtherFile st) =
     Inl (BackupErr ''Agent backup requires regular files without hard links.'')"
| "file_record sha target private relative Refused = Inl OsErr"

section \<open>Copying a directory\<close>

text \<open>What \<open>fstat\<close> says of the files and directories that staging creates.\<close>

definition new_stat :: "nat \<Rightarrow> nat \<Rightarrow> fstat" where
  "new_stat mode len = \<lparr>st_mode = mode, st_nlink = 1, st_size = len, st_mtime = 0, st_ctime = 0\<rparr>"

definition new_file :: "bytes \<Rightarrow> node" where
  "new_file data = RegFile (new_stat 0x180 (length data)) (new_stat 0x180 (length data)) data"

definition new_dir :: "(ustr \<times> node) list \<Rightarrow> node" where
  "new_dir es = Directory (new_stat 0x1C0 0) es"

definition child_path :: "ustr \<Rightarrow> ustr \<Rightarrow> ustr" where
  "child_path relative name = relative @ 47 # name"

lemma size_list_sort_key: "size_list f (sort_key k xs) = size_list f xs"
  by (simp add: size_list_conv_sum_list flip: sum_mset_sum_list)

lemma subtree_size:
  "size_list (\<lambda>(_, x). size x) es \<le> size_list (\<lambda>x. Suc (size (snd x))) (es :: (ustr \<times> node) list)"
  by (rule size_list_pointwise) auto

text \<open>
  \<open>_directory_records\<close> over the sorted entries of a directory that has passed its own check: the
  records, and the entries of the copy.
\<close>

function directory_records ::
    "(bytes \<Rightarrow> ustr) \<Rightarrow> os_write option \<Rightarrow> bool \<Rightarrow> ustr \<Rightarrow> (ustr \<times> node) list \<Rightarrow>
     backup_exn + backup_file list \<times> (ustr \<times> node) list" where
  "directory_records sha target private relative [] = Inr ([], [])"
| "directory_records sha target private relative ((name, Directory st es) # rest) =
     rbind (if private then require_private st else Inr ()) (\<lambda>_.
     rbind (directory_records sha target private (child_path relative name) (sort_key fst es)) (\<lambda>(rs, copied).
     rbind (directory_records sha target private relative rest) (\<lambda>(rs2, copied2).
       Inr (rs @ rs2, (name, new_dir copied) # copied2))))"
| "directory_records sha target private relative ((name, RegFile before after data) # rest) =
     rbind (file_record sha target private (child_path relative name) (RegFile before after data)) (\<lambda>(r, written).
     rbind (directory_records sha target private relative rest) (\<lambda>(rs2, copied2).
       Inr (r # rs2, (name, new_file written) # copied2)))"
| "directory_records sha target private relative ((name, OtherFile st) # rest) =
     Inl (BackupErr ''Agent backup requires regular files without hard links.'')"
| "directory_records sha target private relative ((name, Refused) # rest) = Inl OsErr"
  by pat_completeness auto

termination
  by (relation "measure (\<lambda>(sha, target, private, relative, es). size_list (\<lambda>(_, x). size x) es)")
    (auto simp: size_list_sort_key size_prod_simp intro: le_less_trans [OF subtree_size])


section \<open>Staging\<close>

record manifest =
  mf_artifacts :: bool
  mf_keyring :: bool
  mf_files :: "backup_file list"

definition file_json :: "backup_file \<Rightarrow> pyv" where
  "file_json f = PDict [(lit ''path'', PStr (bf_path f)), (lit ''size'', PInt (int (bf_size f))),
     (lit ''sha256'', PStr (bf_sha f))]"

definition manifest_json :: "manifest \<Rightarrow> pyv" where
  "manifest_json m = PDict [(lit ''schema_version'', PInt 1), (lit ''artifacts'', PBool (mf_artifacts m)),
     (lit ''keyring'', PBool (mf_keyring m)), (lit ''files'', PList (map file_json (mf_files m)))]"

definition manifest_bytes :: "manifest \<Rightarrow> bytes" where
  "manifest_bytes m = dumps (manifest_json m) @ [10]"

text \<open>\<open>Path.is_relative_to\<close> on absolute paths.\<close>

definition relative_to :: "ustr list \<Rightarrow> ustr list \<Rightarrow> bool" where
  "relative_to p q = (take (length q) p = q)"

definition reads_or_stages :: "backup_exn + 'a \<Rightarrow> backup_exn + 'a" where
  "reads_or_stages r = (case r of
     Inl OsErr \<Rightarrow> Inl (BackupErr ''Agent backup cannot read or stage a configured source.'') | _ \<Rightarrow> r)"

definition stage_artifacts ::
    "(bytes \<Rightarrow> ustr) \<Rightarrow> os_write \<Rightarrow> node \<Rightarrow> ustr list \<Rightarrow> backup_exn + backup_file list \<times> (ustr \<times> node) list" where
  "stage_artifacts sha w fs root =
     rbind (open_path fs root) (\<lambda>x. rbind (open_dir x) (\<lambda>(st, es).
     rbind (require_private st) (\<lambda>_.
     rbind (directory_records sha (Some w) True (lit ''artifacts'') (sort_key fst es)) (\<lambda>(rs, copied).
       Inr (rs, [(lit ''artifacts'', new_dir copied)])))))"

definition stage_keyring ::
    "(bytes \<Rightarrow> ustr) \<Rightarrow> os_write \<Rightarrow> node \<Rightarrow> ustr list \<Rightarrow> backup_exn + backup_file list \<times> (ustr \<times> node) list" where
  "stage_keyring sha w fs file =
     rbind (open_path fs (butlast file)) (\<lambda>x. rbind (open_dir x) (\<lambda>(st, _).
     rbind (require_private st) (\<lambda>_.
     rbind (open_path fs file) (\<lambda>y. rbind (open_file y) (\<lambda>z.
     rbind (file_record sha (Some w) True (lit ''keyring.json'') z) (\<lambda>(r, written).
       Inr ([r], [(lit ''keyring.json'', new_file written)])))))))"

definition if_given :: "'a option \<Rightarrow> ('a \<Rightarrow> backup_exn + 'b list \<times> 'c list) \<Rightarrow> backup_exn + 'b list \<times> 'c list" where
  "if_given x f = (case x of None \<Rightarrow> Inr ([], []) | Some y \<Rightarrow> f y)"

text \<open>The files and the manifest; the result is the new tree \<open>backup_root / agent\<close>.\<close>

definition stage_files ::
    "(bytes \<Rightarrow> ustr) \<Rightarrow> os_write \<Rightarrow> node \<Rightarrow> ustr list \<Rightarrow> ustr list option \<Rightarrow> ustr list option \<Rightarrow>
     backup_exn + node" where
  "stage_files sha w fs backup_root artifact_root keyring_file =
     rbind (open_path fs backup_root) (\<lambda>x. rbind (open_dir x) (\<lambda>(_, es).
     if lit ''agent'' \<in> fst ` set es then Inl OsErr
     else rbind (if_given artifact_root (stage_artifacts sha w fs)) (\<lambda>(rs1, es1).
       rbind (if_given keyring_file (stage_keyring sha w fs)) (\<lambda>(rs2, es2).
       let m = \<lparr>mf_artifacts = artifact_root \<noteq> None, mf_keyring = keyring_file \<noteq> None,
         mf_files = sort_key bf_path (rs1 @ rs2)\<rparr>
       in rbind (write_all w [] (manifest_bytes m)) (\<lambda>written.
         Inr (new_dir (es1 @ es2 @ [(lit ''manifest.json'', new_file written)])))))))"

definition stage_agent_backup ::
    "(bytes \<Rightarrow> ustr) \<Rightarrow> os_write \<Rightarrow> node \<Rightarrow> ustr list \<Rightarrow> ustr list option \<Rightarrow> ustr list option \<Rightarrow> bool \<Rightarrow> bool \<Rightarrow>
     backup_exn + node option" where
  "stage_agent_backup sha w fs backup_root artifact_root keyring_file require_artifacts require_keyring =
     (if require_artifacts \<and> artifact_root = None
      then Inl (BackupErr ''Agent artifacts require a configured backup source.'')
      else if require_keyring \<and> keyring_file = None
      then Inl (BackupErr ''Agent secrets require a configured keyring backup source.'')
      else if artifact_root = None \<and> keyring_file = None then Inr None
      else if (case artifact_root of None \<Rightarrow> False | Some a \<Rightarrow> relative_to backup_root a)
      then Inl (BackupErr ''Agent backup staging must be outside the artifact directory.'')
      else if (case (artifact_root, keyring_file) of (Some a, Some k) \<Rightarrow> relative_to k a | _ \<Rightarrow> False)
      then Inl (BackupErr ''The agent keyring must be outside the artifact directory.'')
      else rbind (reads_or_stages (stage_files sha w fs backup_root artifact_root keyring_file))
        (\<lambda>staged. Inr (Some staged)))"

section \<open>Verification\<close>

text \<open>The parts of a \<open>PurePosixPath\<close>, and its \<open>as_posix\<close>.\<close>

fun split_slash :: "ustr \<Rightarrow> ustr list" where
  "split_slash [] = [[]]"
| "split_slash (c # s) =
     (if c = 47 then [] # split_slash s
      else case split_slash s of [] \<Rightarrow> [[c]] | w # ws \<Rightarrow> (c # w) # ws)"

definition path_parts :: "ustr \<Rightarrow> ustr list" where
  "path_parts p = filter (\<lambda>w. w \<noteq> [] \<and> w \<noteq> [46]) (split_slash p)"

fun join_slash :: "ustr list \<Rightarrow> ustr" where
  "join_slash [] = []"
| "join_slash [w] = w"
| "join_slash (w # v # ws) = w @ 47 # join_slash (v # ws)"

definition is_absolute :: "ustr \<Rightarrow> bool" where
  "is_absolute p = (p \<noteq> [] \<and> hd p = 47)"

definition as_posix :: "ustr \<Rightarrow> ustr" where
  "as_posix p =
     (let root = (if take 2 p = [47, 47] \<and> take 3 p \<noteq> [47, 47, 47] then [47, 47]
        else if is_absolute p then [47] else [])
      in if root = [] \<and> path_parts p = [] then [46] else root @ join_slash (path_parts p))"

definition hex64 :: "ustr \<Rightarrow> bool" where
  "hex64 s = (length s = 64 \<and> list_all (\<lambda>c. in_range 48 57 c \<or> in_range 97 102 c) s)"

definition valid_record :: "ustr set \<Rightarrow> ustr \<Rightarrow> int \<Rightarrow> ustr \<Rightarrow> bool" where
  "valid_record seen name len checksum =
     (as_posix name = name \<and> \<not> is_absolute name \<and> lit ''..'' \<notin> set (path_parts name) \<and> name \<notin> seen \<and>
      (name = lit ''keyring.json'' \<or> take 10 name = lit ''artifacts/'') \<and> 0 \<le> len \<and> hex64 checksum)"

definition bad_record :: "backup_exn" where
  "bad_record = BackupErr ''An agent backup file record is invalid.''"

definition has_keys :: "ustr list \<Rightarrow> (ustr \<times> pyv) list \<Rightarrow> bool" where
  "has_keys ks kvs = (fst ` set kvs = set ks)"

definition parse_record :: "ustr set \<Rightarrow> pyv \<Rightarrow> backup_exn + backup_file" where
  "parse_record seen v = (case v of
     PDict kvs \<Rightarrow>
       if \<not> has_keys [lit ''path'', lit ''size'', lit ''sha256''] kvs then Inl bad_record
       else (case (map_of kvs (lit ''path''), map_of kvs (lit ''size''), map_of kvs (lit ''sha256'')) of
         (Some (PStr name), Some (PInt len), Some (PStr checksum)) \<Rightarrow>
           if valid_record seen name len checksum
           then Inr \<lparr>bf_path = name, bf_size = nat len, bf_sha = checksum\<rparr> else Inl bad_record
       | _ \<Rightarrow> Inl bad_record)
   | _ \<Rightarrow> Inl bad_record)"

fun parse_records :: "ustr set \<Rightarrow> pyv list \<Rightarrow> backup_exn + backup_file list" where
  "parse_records seen [] = Inr []"
| "parse_records seen (v # vs) = rbind (parse_record seen v) (\<lambda>f.
     rbind (parse_records (insert (bf_path f) seen) vs) (\<lambda>fs. Inr (f # fs)))"

definition bad_manifest :: backup_exn where
  "bad_manifest = BackupErr ''The agent backup manifest is invalid.''"

definition max_manifest :: nat where
  "max_manifest = 64 * 1024 * 1024"

text \<open>The open manifest file: its state and its bytes.\<close>

definition manifest_content :: "node \<Rightarrow> backup_exn + bytes" where
  "manifest_content x = (case x of
     RegFile st _ data \<Rightarrow> rbind (require_private st) (\<lambda>_.
       if st_nlink st \<noteq> 1 \<or> st_size st > max_manifest \<or> length (take (max_manifest + 1) data) > max_manifest
       then Inl bad_manifest else Inr (take (max_manifest + 1) data))
   | OtherFile st \<Rightarrow> rbind (require_private st) (\<lambda>_. Inl bad_manifest)
   | _ \<Rightarrow> Inl OsErr)"

definition parse_manifest :: "pyv \<Rightarrow> backup_exn + manifest" where
  "parse_manifest v = (case v of
     PDict kvs \<Rightarrow>
       if \<not> has_keys [lit ''schema_version'', lit ''artifacts'', lit ''keyring'', lit ''files''] kvs
       then Inl bad_manifest
       else (case (map_of kvs (lit ''schema_version''), map_of kvs (lit ''artifacts''),
           map_of kvs (lit ''keyring''), map_of kvs (lit ''files'')) of
         (Some (PInt n), Some (PBool a), Some (PBool k), Some (PList fs)) \<Rightarrow>
           if n \<noteq> 1 then Inl bad_manifest
           else rbind (parse_records {} fs) (\<lambda>rs. Inr \<lparr>mf_artifacts = a, mf_keyring = k, mf_files = rs\<rparr>)
       | _ \<Rightarrow> Inl bad_manifest)
   | _ \<Rightarrow> Inl bad_manifest)"

definition load_manifest :: "bytes \<Rightarrow> backup_exn + manifest" where
  "load_manifest bs = (case loads_bytes bs of Inl e \<Rightarrow> Inl (ParseErr e) | Inr v \<Rightarrow> parse_manifest v)"

text \<open>The files that are really there.\<close>

definition actual_artifacts :: "(bytes \<Rightarrow> ustr) \<Rightarrow> (ustr \<times> node) list \<Rightarrow> backup_exn + backup_file list" where
  "actual_artifacts sha es =
     rbind (find_entry (lit ''artifacts'') es) (\<lambda>x. rbind (open_dir x) (\<lambda>(st, sub).
     rbind (require_private st) (\<lambda>_.
     rbind (directory_records sha None True (lit ''artifacts'') (sort_key fst sub)) (\<lambda>(rs, _). Inr rs))))"

definition actual_keyring :: "(bytes \<Rightarrow> ustr) \<Rightarrow> (ustr \<times> node) list \<Rightarrow> backup_exn + backup_file list" where
  "actual_keyring sha es =
     rbind (find_entry (lit ''keyring.json'') es) (\<lambda>x. rbind (open_file x) (\<lambda>y.
     rbind (file_record sha None True (lit ''keyring.json'') y) (\<lambda>(r, _). Inr [r])))"

definition verify_tree :: "(bytes \<Rightarrow> ustr) \<Rightarrow> node \<Rightarrow> backup_exn + manifest" where
  "verify_tree sha root =
     rbind (open_dir root) (\<lambda>(st, es).
     rbind (require_private st) (\<lambda>_.
     rbind (find_entry (lit ''manifest.json'') es) (\<lambda>x.
     rbind (manifest_content x) (\<lambda>bs.
     rbind (load_manifest bs) (\<lambda>m.
     rbind (if mf_artifacts m then actual_artifacts sha es else Inr []) (\<lambda>rs1.
     rbind (if mf_keyring m then actual_keyring sha es else Inr []) (\<lambda>rs2.
     if fst ` set es \<noteq> {lit ''manifest.json''} \<union> (if mf_artifacts m then {lit ''artifacts''} else {}) \<union>
          (if mf_keyring m then {lit ''keyring.json''} else {}) \<or>
        sort_key bf_path (rs1 @ rs2) \<noteq> sort_key bf_path (mf_files m)
     then Inl (BackupErr ''The agent backup file set or checksum does not match.'')
     else Inr (m\<lparr>mf_files := rs1 @ rs2\<rparr>))))))))"

text \<open>\<open>except (OSError, UnicodeError, JSONDecodeError)\<close>; another \<open>ValueError\<close> passes.\<close>

definition verify_agent_backup :: "(bytes \<Rightarrow> ustr) \<Rightarrow> node \<Rightarrow> ustr list \<Rightarrow> backup_exn + manifest" where
  "verify_agent_backup sha fs staged =
     (case rbind (open_path fs staged) (verify_tree sha) of
        Inl e \<Rightarrow>
          if e \<in> {OsErr, ParseErr Malformed, ParseErr BadEncoding}
          then Inl (BackupErr ''Agent backup cannot read a valid manifest and file set.'') else Inl e
      | Inr m \<Rightarrow> Inr m)"

section \<open>References of the database\<close>

definition key_ok :: "ustr \<times> pyv \<Rightarrow> bool" where
  "key_ok kv = (case snd kv of
     PStr s \<Rightarrow> (case b64decode s of None \<Rightarrow> False | Some b \<Rightarrow> length b = 32) | _ \<Rightarrow> False)"

definition keyring_restores :: "ustr set \<Rightarrow> pyv \<Rightarrow> bool" where
  "keyring_restores ids v = (case v of
     PDict kvs \<Rightarrow> has_keys [lit ''current'', lit ''keys''] kvs \<and>
       (case (map_of kvs (lit ''current''), map_of kvs (lit ''keys'')) of
          (Some (PStr cur), Some (PDict ks)) \<Rightarrow>
            cur \<in> fst ` set ks \<and> ids \<subseteq> fst ` set ks \<and> list_all key_ok ks
        | _ \<Rightarrow> False)
   | _ \<Rightarrow> False)"

definition max_keyring :: nat where
  "max_keyring = 64 * 1024"

definition staged_keyring_ok :: "node \<Rightarrow> ustr list \<Rightarrow> ustr set \<Rightarrow> bool" where
  "staged_keyring_ok fs staged ids =
     (case rbind (open_path fs (staged @ [lit ''keyring.json''])) open_file of
        Inr (RegFile _ _ data) \<Rightarrow>
          length data \<le> max_keyring \<and>
          (case loads_bytes data of Inl _ \<Rightarrow> False | Inr v \<Rightarrow> keyring_restores ids v)
      | _ \<Rightarrow> False)"

definition reference_ok :: "backup_file list \<Rightarrow> ustr \<times> int \<times> ustr \<Rightarrow> bool" where
  "reference_ok fs ref = (case ref of (storage_ref, len, checksum) \<Rightarrow>
     (case find (\<lambda>f. bf_path f = lit ''artifacts/'' @ storage_ref) fs of
        None \<Rightarrow> False | Some f \<Rightarrow> int (bf_size f) = len \<and> bf_sha f = checksum))"

definition verify_agent_backup_references ::
    "(bytes \<Rightarrow> ustr) \<Rightarrow> node \<Rightarrow> ustr list \<Rightarrow> (ustr \<times> int \<times> ustr) list \<Rightarrow> ustr set \<Rightarrow> backup_exn + manifest" where
  "verify_agent_backup_references sha fs staged artifacts secret_key_ids =
     rbind (verify_agent_backup sha fs staged) (\<lambda>m.
     if \<not> list_all (reference_ok (mf_files m)) artifacts
     then Inl (BackupErr ''An agent artifact reference does not match the backup.'')
     else if secret_key_ids \<noteq> {} \<and> \<not> mf_keyring m
     then Inl (BackupErr ''Agent secrets require their retained encryption keys.'')
     else if mf_keyring m \<and> \<not> staged_keyring_ok fs staged secret_key_ids
     then Inl (BackupErr ''The agent backup keyring cannot restore its secrets.'')
     else Inr m)"

end
