(* ===== verification/Backup_Properties.thy ===== *)
theory Backup_Properties
  imports Agent_Backup
begin

text \<open>
  How a backup copies: the loops return with the whole file however the operating system splits the
  writes, a copied directory has the records of its source, and the paths of a tree are distinct and
  well formed.
\<close>

section \<open>The copy loops\<close>

lemma write_all_exact: "write_all w written pending = Inr r \<Longrightarrow> r = written @ pending"
proof (induction w written pending rule: write_all.induct)
  case (1 w written pending)
  show ?case
  proof (cases "pending = []")
    case True
    then show ?thesis using "1.prems" by (simp add: write_all.simps)
  next
    case False
    then obtain n where "w written pending = Some n" "n \<noteq> 0"
      "write_all w (written @ take n pending) (drop n pending) = Inr r"
      using "1.prems" by (subst (asm) write_all.simps) (auto split: if_splits)
    then show ?thesis using "1.IH" [of n] False by simp
  qed
qed

definition progresses :: "os_write \<Rightarrow> bool" where
  "progresses w = (\<forall>written pending. pending \<noteq> [] \<longrightarrow> (\<exists>n. w written pending = Some n \<and> 0 < n))"

lemma write_all_returns: "progresses w \<Longrightarrow> write_all w written pending = Inr (written @ pending)"
proof (induction w written pending rule: write_all.induct)
  case (1 w written pending)
  show ?case
  proof (cases "pending = []")
    case False
    then obtain n where n: "w written pending = Some n" "0 < n"
      using "1.prems" by (auto simp: progresses_def)
    then have "write_all w (written @ take n pending) (drop n pending) = Inr (written @ pending)"
      using "1.IH" [of n] "1.prems" False by simp
    then show ?thesis using n False by (subst write_all.simps) simp
  qed (simp add: write_all.simps)
qed

definition write_chunk :: "os_write option \<Rightarrow> bytes \<Rightarrow> bytes \<Rightarrow> backup_exn + bytes" where
  "write_chunk target written chunk =
     (case target of None \<Rightarrow> Inr written | Some w \<Rightarrow> write_all w written chunk)"

lemma copy_loop_step:
  assumes "length seen < whole" "rest \<noteq> []"
  shows "\<exists>n. 0 < n \<and> n \<le> whole - length seen \<and> n \<le> length rest \<and> copy_loop target whole seen written rest =
    rbind (write_chunk target written (take n rest)) (\<lambda>written2.
      copy_loop target whole (seen @ take n rest) written2 (drop n rest))"
proof -
  let ?m = "min chunk_size (whole - length seen)"
  obtain n where n: "0 < n" "n \<le> whole - length seen" "n \<le> length rest" "take ?m rest = take n rest"
  proof
    show "take ?m rest = take (min ?m (length rest)) rest" by (auto simp: min_def)
  qed (use assms in \<open>auto simp: chunk_size_def\<close>)
  then have "take n rest \<noteq> []" "length (take n rest) = n" using assms by auto
  then have "copy_loop target whole seen written rest =
    rbind (write_chunk target written (take n rest)) (\<lambda>written2.
      copy_loop target whole (seen @ take n rest) written2 (drop n rest))"
    using assms by (subst copy_loop.simps) (simp only: n(4) write_chunk_def Let_def if_True if_False)
  then show ?thesis using n by blast
qed

lemma copy_loop_end:
  "\<not> (length seen < whole \<and> rest \<noteq> []) \<Longrightarrow> copy_loop target whole seen written rest = Inr (seen, written)"
  by (subst copy_loop.simps) auto

lemma take_take_drop: "n \<le> k \<Longrightarrow> take n xs @ take (k - n) (drop n xs) = take k xs"
  by (metis le_add_diff_inverse take_add)

lemma copy_loop_exact:
  "copy_loop target whole seen written rest = Inr (s, out) \<Longrightarrow>
   s = seen @ take (whole - length seen) rest \<and>
   out = written @ (if target = None then [] else take (whole - length seen) rest)"
proof (induction "whole - length seen" arbitrary: seen written rest rule: less_induct)
  case less
  show ?case
  proof (cases "length seen < whole \<and> rest \<noteq> []")
    case True
    then obtain n where n: "0 < n" "n \<le> whole - length seen" "n \<le> length rest"
      and eq: "copy_loop target whole seen written rest =
      rbind (write_chunk target written (take n rest)) (\<lambda>written2.
        copy_loop target whole (seen @ take n rest) written2 (drop n rest))"
      using copy_loop_step [of seen whole rest target written] by blast
    obtain v where v: "write_chunk target written (take n rest) = Inr v"
      "copy_loop target whole (seen @ take n rest) v (drop n rest) = Inr (s, out)"
      using less.prems unfolding eq by auto
    have "v = written @ (if target = None then [] else take n rest)"
      using v(1) write_all_exact by (auto simp: write_chunk_def split: option.splits)
    then show ?thesis
      using less.hyps [OF _ v(2)] n True take_take_drop [OF n(2), of rest] by (auto simp: diff_diff_eq)
  next
    case False
    then show ?thesis using less.prems by (auto simp: copy_loop_end)
  qed
qed

lemma copy_loop_returns:
  assumes "case target of None \<Rightarrow> True | Some w \<Rightarrow> progresses w"
  shows "\<exists>x. copy_loop target whole seen written rest = Inr x"
proof (induction "whole - length seen" arbitrary: seen written rest rule: less_induct)
  case less
  show ?case
  proof (cases "length seen < whole \<and> rest \<noteq> []")
    case True
    then obtain n where n: "0 < n" "n \<le> whole - length seen" "n \<le> length rest"
      and eq: "copy_loop target whole seen written rest =
      rbind (write_chunk target written (take n rest)) (\<lambda>written2.
        copy_loop target whole (seen @ take n rest) written2 (drop n rest))"
      using copy_loop_step [of seen whole rest target written] by blast
    obtain v where v: "write_chunk target written (take n rest) = Inr v"
      using assms write_all_returns by (auto simp: write_chunk_def split: option.splits)
    show ?thesis
      unfolding eq v using less [of "seen @ take n rest" v "drop n rest"] n True by simp
  next
    case False
    then show ?thesis by (auto simp: copy_loop_end)
  qed
qed

lemma copy_loop_whole:
  assumes "case target of None \<Rightarrow> True | Some w \<Rightarrow> progresses w"
  shows "copy_loop target whole [] [] data = Inr (take whole data, if target = None then [] else take whole data)"
  using copy_loop_returns [OF assms, of whole "[]" "[]" data] copy_loop_exact [of target whole "[]" "[]" data]
  by fastforce

text \<open>
  C36: The copy of a file returns.  If every write call takes at least one byte of what is pending,
  however few, then copying a private regular file that nobody changes meanwhile ends with a target
  that holds exactly its bytes and with the record of its size and checksum.
\<close>

theorem copying_a_file_returns:
  assumes "progresses w" "st_nlink st = 1" "st_mode st mod 64 = 0" "st_size st = length data"
  shows "file_record sha (Some w) True relative (RegFile st st data) =
    Inr (\<lparr>bf_path = relative, bf_size = length data, bf_sha = sha data\<rparr>, data)"
  using assms copy_loop_whole [of "Some w" "length data" data] by (simp add: require_private_def)

text \<open>A disk that takes at most two bytes of a write.\<close>

definition slow_write :: os_write where
  "slow_write written pending = Some (min 2 (length pending))"

theorem copying_a_file_returns_witness:
  "file_record (\<lambda>b. b) (Some slow_write) True [97] (RegFile (new_stat 0x180 5) (new_stat 0x180 5) [5, 6, 7, 8, 9]) =
    Inr (\<lparr>bf_path = [97], bf_size = 5, bf_sha = [5, 6, 7, 8, 9]\<rparr>, [5, 6, 7, 8, 9])"
proof -
  have "progresses slow_write" by (auto simp: progresses_def slow_write_def)
  then show ?thesis
    using copying_a_file_returns [of slow_write "new_stat 0x180 5" "[5, 6, 7, 8, 9]" "\<lambda>b. b" "[97]"]
    by (simp add: new_stat_def)
qed

section \<open>The files of a tree\<close>

text \<open>The regular files below a directory with their paths and bytes.\<close>

function regular_files :: "ustr \<Rightarrow> (ustr \<times> node) list \<Rightarrow> (ustr \<times> bytes) list" where
  "regular_files relative [] = []"
| "regular_files relative ((name, Directory st es) # rest) =
     regular_files (child_path relative name) es @ regular_files relative rest"
| "regular_files relative ((name, RegFile before after data) # rest) =
     (child_path relative name, take (st_size before) data) # regular_files relative rest"
| "regular_files relative ((name, OtherFile st) # rest) = regular_files relative rest"
| "regular_files relative ((name, Refused) # rest) = regular_files relative rest"
  by pat_completeness auto

termination
  by (relation "measure (\<lambda>(relative, es). size_list (\<lambda>(_, x). size x) es)")
    (auto simp: size_prod_simp intro: le_less_trans [OF subtree_size])

lemma regular_files_Cons: "regular_files relative (e # es) = regular_files relative [e] @ regular_files relative es"
  by (cases "(relative, e # es)" rule: regular_files.cases) auto

lemma set_regular_files: "set (regular_files relative es) = (\<Union>e\<in>set es. set (regular_files relative [e]))"
proof (induction es)
  case (Cons e es)
  then show ?case by (subst regular_files_Cons) simp
qed simp

lemma regular_files_sorted: "set (regular_files relative (sort_key f es)) = set (regular_files relative es)"
  by (simp add: set_regular_files [of relative "sort_key f es"] set_regular_files [of relative es])

definition record_of :: "(bytes \<Rightarrow> ustr) \<Rightarrow> ustr \<times> bytes \<Rightarrow> backup_file" where
  "record_of sha pb = \<lparr>bf_path = fst pb, bf_size = length (snd pb), bf_sha = sha (snd pb)\<rparr>"

lemma file_record_ok:
  assumes "file_record sha target True relative (RegFile before after data) = Inr (r, written)"
  shows "r = record_of sha (relative, take (st_size before) data)"
    and "length (take (st_size before) data) = st_size before"
    and "target \<noteq> None \<Longrightarrow> written = take (st_size before) data"
proof -
  obtain seen where loop: "copy_loop target (st_size before) [] [] data = Inr (seen, written)"
    and r: "r = \<lparr>bf_path = relative, bf_size = length seen, bf_sha = sha seen\<rparr>"
    and len: "length seen = st_size before"
    using assms by (auto simp del: One_nat_def split: if_split_asm simp: Let_def) 
  have "seen = take (st_size before) data" "target \<noteq> None \<Longrightarrow> written = take (st_size before) data"
    using copy_loop_exact [OF loop] by auto
  then show "r = record_of sha (relative, take (st_size before) data)"
    and "length (take (st_size before) data) = st_size before"
    and "target \<noteq> None \<Longrightarrow> written = take (st_size before) data"
    using r len by (simp_all add: record_of_def)
qed

lemma new_file_record:
  "file_record sha None True relative (new_file data) = Inr (record_of sha (relative, data), [])"
  by (simp add: new_file_def new_stat_def require_private_def record_of_def copy_loop_whole)

lemma directory_records_files:
  "directory_records sha target True relative es = Inr (rs, copied) \<Longrightarrow>
   set rs = record_of sha ` set (regular_files relative es)"
proof (induction sha target "True" relative es arbitrary: rs copied rule: directory_records.induct)
  case (2 sha target relative name st es rest)
  then show ?case by (auto simp: regular_files_sorted image_Un)
next
  case (3 sha target relative name before after data rest)
  then show ?case by (auto simp del: file_record.simps dest!: file_record_ok(1))
qed auto

lemma sorted_sort_key_id: "map fst copied = map fst (sort_key fst es) \<Longrightarrow> sort_key fst copied = copied"
  by (rule sort_key_id_if_sorted) simp

lemma directory_records_copy:
  assumes "directory_records sha (Some w) True relative es = Inr (rs, copied)"
  shows "map fst copied = map fst es \<and> (\<exists>c. directory_records sha None True relative copied = Inr (rs, c))"
  using assms
proof (induction sha "Some w" "True" relative es arbitrary: rs copied rule: directory_records.induct)
  case (2 sha relative name st es rest)
  then obtain rs1 c1 rs2 c2 where *: "require_private st = Inr ()"
    "directory_records sha (Some w) True (child_path relative name) (sort_key fst es) = Inr (rs1, c1)"
    "directory_records sha (Some w) True relative rest = Inr (rs2, c2)"
    "rs = rs1 @ rs2" "copied = (name, new_dir c1) # c2"
    by auto
  have 1: "map fst c1 = map fst (sort_key fst es)"
    "\<exists>c. directory_records sha None True (child_path relative name) c1 = Inr (rs1, c)"
    using 2 * by auto
  have 2: "map fst c2 = map fst rest" "\<exists>c. directory_records sha None True relative c2 = Inr (rs2, c)"
    using 2 * by auto
  show ?case
    using 1 2 sorted_sort_key_id [OF 1(1)] * by (auto simp: new_dir_def new_stat_def require_private_def)
next
  case (3 sha relative name before after data rest)
  then obtain r written rs2 c2 where *:
    "file_record sha (Some w) True (child_path relative name) (RegFile before after data) = Inr (r, written)"
    "directory_records sha (Some w) True relative rest = Inr (rs2, c2)"
    "rs = r # rs2" "copied = (name, new_file written) # c2"
    by auto
  have 2: "map fst c2 = map fst rest" "\<exists>c. directory_records sha None True relative c2 = Inr (rs2, c)"
    using 3 * by auto
  have "file_record sha None True (child_path relative name) (new_file written) = Inr (r, [])"
    using file_record_ok [OF *(1)] new_file_record by simp
  then show ?case using 2 * by (auto simp: new_file_def simp del: file_record.simps)
qed auto

section \<open>The paths of a tree\<close>

definition name_ok :: "ustr \<Rightarrow> bool" where
  "name_ok n = (n \<notin> {[], [46], [46, 46]} \<and> 47 \<notin> set n \<and> unicode_ok n)"

text \<open>
  What the kernel guarantees of directory entries: names are not empty, not a dot or two dots, have no
  slash, and are distinct; a size fits into 63 bits; and the name is a text Python decodes.
\<close>

fun node_ok :: "node \<Rightarrow> bool" where
  "node_ok (Directory st es) = (distinct (map fst es) \<and> (\<forall>(n, x)\<in>set es. name_ok n \<and> node_ok x))"
| "node_ok (RegFile before after data) = (st_size before < 2 ^ 63)"
| "node_ok x = True"

definition tree_ok :: "(ustr \<times> node) list \<Rightarrow> bool" where
  "tree_ok es = (distinct (map fst es) \<and> (\<forall>(n, x)\<in>set es. name_ok n \<and> node_ok x))"

lemma tree_ok_simps [simp]: "tree_ok []"
  "tree_ok ((n, x) # es) = (n \<notin> fst ` set es \<and> name_ok n \<and> node_ok x \<and> tree_ok es)"
  by (auto simp: tree_ok_def)

lemma tree_ok_sorted: "tree_ok (sort_key fst es) = tree_ok es"
proof -
  have "distinct (map fst (sort_key fst es)) = distinct (map fst es)"
    by (simp add: map_fst_sort)
  then show ?thesis by (simp add: tree_ok_def)
qed

lemma node_ok_tree: "node_ok (Directory st es) = tree_ok es"
  by (simp add: tree_ok_def)

lemma split_slash_nonempty [simp]: "split_slash s \<noteq> []"
  by (induction s) (auto split: list.splits)

lemma split_slash_append: "split_slash (s @ 47 # t) = split_slash s @ split_slash t"
  by (induction s) (auto split: list.splits)

lemma split_slash_name: "47 \<notin> set n \<Longrightarrow> split_slash n = [n]"
  by (induction n) auto

lemma join_split_slash: "join_slash (split_slash s) = s"
proof (induction s)
  case (Cons c s)
  obtain w ws where "split_slash s = w # ws" by (cases "split_slash s") auto
  then show ?case using Cons by (cases ws) auto
qed simp

definition path_ok :: "ustr \<Rightarrow> bool" where
  "path_ok p = (unicode_ok p \<and> (\<forall>w\<in>set (split_slash p). w \<notin> {[], [46], [46, 46]}))"

lemma unicode_ok_append: "unicode_ok s \<Longrightarrow> unicode_ok t \<Longrightarrow> unicode_ok (s @ 47 # t)"
proof (induction s rule: unicode_ok.induct)
  case (2 c)
  then show ?case by (cases t) (auto simp: in_range_def)
next
  case 3
  then show ?case by (cases t) (auto simp: in_range_def)
qed auto

lemma path_ok_child: "path_ok relative \<Longrightarrow> name_ok n \<Longrightarrow> path_ok (child_path relative n)"
  by (auto simp: path_ok_def name_ok_def child_path_def split_slash_append split_slash_name unicode_ok_append)

lemma path_ok_posix: "path_ok p \<Longrightarrow> as_posix p = p \<and> \<not> is_absolute p \<and> lit ''..'' \<notin> set (path_parts p)"
proof -
  assume p: "path_ok p"
  have f: "path_parts p = split_slash p"
    using p by (auto simp: path_parts_def path_ok_def filter_id_conv)
  obtain c q where cq: "p = c # q" "c \<noteq> 47"
  proof (cases p)
    case Nil
    then show thesis using p by (simp add: path_ok_def)
  next
    case (Cons c q)
    have "c \<noteq> 47"
    proof
      assume "c = 47"
      then have "[] \<in> set (split_slash p)" using Cons by simp
      then show False using p unfolding path_ok_def by blast
    qed
    with Cons show thesis by (rule that)
  qed
  have "lit ''..'' \<notin> set (split_slash p)" using p by (auto simp: path_ok_def)
  moreover have "\<not> is_absolute p" "take 2 p \<noteq> [47, 47]" using cq by (auto simp: is_absolute_def)
  ultimately show ?thesis by (simp add: as_posix_def f join_split_slash)
qed

text \<open>A path below the entry \<open>n\<close> of a directory.\<close>

definition below :: "ustr \<Rightarrow> ustr \<Rightarrow> ustr \<Rightarrow> bool" where
  "below relative n p = (\<exists>u. p = child_path relative n @ u \<and> (u = [] \<or> hd u = 47))"

lemma takeWhile_name: "47 \<notin> set k \<Longrightarrow> u = [] \<or> hd u = 47 \<Longrightarrow> takeWhile (\<lambda>c. c \<noteq> 47) (k @ u) = k"
proof (induction k)
  case Nil
  then show ?case by (cases u) auto
qed simp

lemma below_unique:
  assumes "below relative n p" "below relative m p" "47 \<notin> set n" "47 \<notin> set m"
  shows "n = m"
proof -
  obtain u where u: "p = relative @ 47 # n @ u" "u = [] \<or> hd u = 47"
    using assms(1) by (auto simp: below_def child_path_def)
  obtain v where v: "p = relative @ 47 # m @ v" "v = [] \<or> hd v = 47"
    using assms(2) by (auto simp: below_def child_path_def)
  have "n @ u = m @ v" using u v by simp
  then show ?thesis
    using takeWhile_name [OF assms(3) u(2)] takeWhile_name [OF assms(4) v(2)] by simp
qed

lemma below_child: "below (child_path relative n) m p \<Longrightarrow> below relative n p"
  by (auto simp: below_def child_path_def)

lemma regular_files_below:
  "(p, b) \<in> set (regular_files relative es) \<Longrightarrow> \<exists>n\<in>fst ` set es. below relative n p"
proof (induction relative es rule: regular_files.induct)
  case (2 relative name st es rest)
  then show ?case by (auto dest: below_child)
next
  case (3 relative name before after data rest)
  then show ?case by (auto simp: below_def)
qed auto

lemma disjoint_paths:
  assumes "\<And>p. p \<in> A \<Longrightarrow> below relative name p" "\<And>p. p \<in> B \<Longrightarrow> \<exists>n\<in>N. below relative n p" "name \<notin> N"
    "47 \<notin> set name" "\<And>n. n \<in> N \<Longrightarrow> 47 \<notin> set n"
  shows "A \<inter> B = {}"
proof (rule ccontr)
  assume "A \<inter> B \<noteq> {}"
  then obtain p where "p \<in> A" "p \<in> B" by blast
  then obtain n where "n \<in> N" "below relative n p" using assms(2) by blast
  then show False using below_unique [OF assms(1) [OF \<open>p \<in> A\<close>]] assms(3-5) by blast
qed

lemma record_below:
  assumes "directory_records sha target True relative es = Inr (rs, copied)" "p \<in> bf_path ` set rs"
  shows "\<exists>n\<in>fst ` set es. below relative n p"
proof -
  obtain b where "(p, b) \<in> set (regular_files relative es)"
    using assms(2) directory_records_files [OF assms(1)] by (auto simp: record_of_def)
  then show ?thesis by (rule regular_files_below)
qed

lemma directory_records_paths:
  assumes "directory_records sha target True relative es = Inr (rs, copied)" "tree_ok es" "path_ok relative"
  shows "distinct (map bf_path rs) \<and> (\<forall>r\<in>set rs. path_ok (bf_path r) \<and> bf_size r < 2 ^ 63)"
  using assms
proof (induction sha target "True" relative es arbitrary: rs copied rule: directory_records.induct)
  case (2 sha target relative name st es rest)
  then obtain rs1 c1 rs2 c2 where *:
    "directory_records sha target True (child_path relative name) (sort_key fst es) = Inr (rs1, c1)"
    "directory_records sha target True relative rest = Inr (rs2, c2)" "rs = rs1 @ rs2"
    by auto
  have ok: "tree_ok (sort_key fst es)" "path_ok (child_path relative name)" "tree_ok rest" "name_ok name"
    using 2 by (auto simp: tree_ok_sorted node_ok_tree path_ok_child simp del: node_ok.simps)
  have "bf_path ` set rs1 \<inter> bf_path ` set rs2 = {}"
  proof (rule disjoint_paths)
    show "below relative name p" if "p \<in> bf_path ` set rs1" for p
      using record_below [OF *(1) that] below_child by blast
    show "\<exists>n\<in>fst ` set rest. below relative n p" if "p \<in> bf_path ` set rs2" for p
      by (rule record_below [OF *(2) that])
  qed (use 2 in \<open>auto simp: tree_ok_def name_ok_def\<close>)
  moreover have "distinct (map bf_path rs1) \<and> (\<forall>r\<in>set rs1. path_ok (bf_path r) \<and> bf_size r < 2 ^ 63)"
    "distinct (map bf_path rs2) \<and> (\<forall>r\<in>set rs2. path_ok (bf_path r) \<and> bf_size r < 2 ^ 63)"
    using 2 * ok by auto
  ultimately show ?case using *(3) by auto
next
  case (3 sha target relative name before after data rest)
  then obtain r w rs2 c2 where *:
    "file_record sha target True (child_path relative name) (RegFile before after data) = Inr (r, w)"
    "directory_records sha target True relative rest = Inr (rs2, c2)" "rs = r # rs2"
    by auto
  have r: "bf_path r = child_path relative name" "bf_size r = st_size before"
    using file_record_ok [OF *(1)] by (auto simp: record_of_def)
  have "name \<notin> fst ` set rest" "47 \<notin> set name" "\<forall>n\<in>fst ` set rest. 47 \<notin> set n" "tree_ok rest" "name_ok name"
    "st_size before < 2 ^ 63"
    using 3 by (auto simp: tree_ok_def name_ok_def)
  moreover have "{bf_path r} \<inter> bf_path ` set rs2 = {}"
  proof (rule disjoint_paths)
    show "below relative name p" if "p \<in> {bf_path r}" for p using that by (auto simp: r below_def)
    show "\<exists>n\<in>fst ` set rest. below relative n p" if "p \<in> bf_path ` set rs2" for p
      by (rule record_below [OF *(2) that])
  qed (use 3 in \<open>auto simp: tree_ok_def name_ok_def\<close>)
  moreover have "distinct (map bf_path rs2) \<and> (\<forall>r\<in>set rs2. path_ok (bf_path r) \<and> bf_size r < 2 ^ 63)"
    using 3 * by auto
  ultimately show ?case using 3 * r path_ok_child by auto
qed auto

end
