(* ===== verification/Backup_Verification.thy ===== *)
theory Backup_Verification
  imports Backup_Properties
begin

text \<open>
  Verification of a backup: the manifest that staging writes reads back, the tree it stages is
  accepted wherever it is restored, and two trees accepted against one manifest hold the same files.
\<close>

section \<open>The manifest reads back\<close>

lemma nat_str_length: "n < 10 ^ k \<Longrightarrow> 0 < k \<Longrightarrow> length (nat_str n) \<le> k"
proof (induction n arbitrary: k rule: nat_str.induct)
  case (1 n)
  show ?case
  proof (cases "n < 10")
    case True
    then show ?thesis using "1.prems" by (subst nat_str.simps) simp
  next
    case False
    obtain l where k: "k = Suc l" using "1.prems" by (cases k) auto
    have "n div 10 < 10 ^ l" using "1.prems" k by (simp add: less_mult_imp_div_less mult.commute)
    moreover from this False have "0 < l" by (cases l) auto
    ultimately show ?thesis using "1.IH" [of l] False k by (subst nat_str.simps) simp
  qed
qed

lemma size_printable: "n < 2 ^ 63 \<Longrightarrow> printable (PInt (int n))"
  using nat_str_length [of n 19] by (simp add: max_str_digits_def)

lemma hex64_text: "hex64 s \<Longrightarrow> unicode_ok s"
  by (rule unicode_ok_small) (auto simp: hex64_def list_all_iff in_range_def)

definition file_ok :: "backup_file \<Rightarrow> bool" where
  "file_ok f = (path_ok (bf_path f) \<and> bf_size f < 2 ^ 63 \<and> hex64 (bf_sha f) \<and>
     (bf_path f = lit ''keyring.json'' \<or> take 10 (bf_path f) = lit ''artifacts/''))"

lemma unicode_ok_lit: "unicode_ok (lit s)"
  by (rule unicode_ok_small) (auto simp: lit_def in_range_def intro: less_trans [OF nat_of_char_less_256])

lemma file_json_printable: "file_ok f \<Longrightarrow> printable (file_json f)"
  using size_printable [of "bf_size f"] hex64_text [of "bf_sha f"]
    unicode_ok_lit [of "''path''"] unicode_ok_lit [of "''size''"] unicode_ok_lit [of "''sha256''"]
  by (simp add: file_json_def file_ok_def path_ok_def)

lemma manifest_printable: "list_all file_ok (mf_files m) \<Longrightarrow> printable (manifest_json m)"
  using file_json_printable unicode_ok_lit [of "''schema_version''"] unicode_ok_lit [of "''artifacts''"]
    unicode_ok_lit [of "''keyring''"] unicode_ok_lit [of "''files''"]
  by (auto simp: manifest_json_def list_all_iff nat_str_length max_str_digits_def nat_str.simps)

lemma parse_record_ok:
  assumes "file_ok f" "bf_path f \<notin> seen"
  shows "parse_record seen (sort_keys (file_json f)) = Inr f"
proof -
  have "sort_keys (file_json f) = PDict [(lit ''path'', PStr (bf_path f)),
      (lit ''sha256'', PStr (bf_sha f)), (lit ''size'', PInt (int (bf_size f)))]"
    by (simp add: file_json_def)
  moreover have "valid_record seen (bf_path f) (int (bf_size f)) (bf_sha f)"
    using assms path_ok_posix by (auto simp: valid_record_def file_ok_def)
  ultimately show ?thesis
    by (simp add: parse_record_def has_keys_def insert_commute)
qed

lemma parse_records_ok:
  "list_all file_ok fs \<Longrightarrow> distinct (map bf_path fs) \<Longrightarrow> \<forall>f\<in>set fs. bf_path f \<notin> seen \<Longrightarrow>
   parse_records seen (map (\<lambda>f. sort_keys (file_json f)) fs) = Inr fs"
proof (induction fs arbitrary: seen)
  case (Cons f fs)
  then have "parse_records (insert (bf_path f) seen) (map (\<lambda>f. sort_keys (file_json f)) fs) = Inr fs"
    by (intro Cons.IH) (auto simp: image_iff)
  then show ?case using Cons.prems by (simp add: parse_record_ok)
qed simp

lemma load_manifest_ok:
  assumes "list_all file_ok (mf_files m)" "distinct (map bf_path (mf_files m))"
  shows "load_manifest (manifest_bytes m) = Inr m"
proof -
  have "sort_keys (manifest_json m) = PDict [(lit ''artifacts'', PBool (mf_artifacts m)),
      (lit ''files'', PList (map (\<lambda>f. sort_keys (file_json f)) (mf_files m))),
      (lit ''keyring'', PBool (mf_keyring m)), (lit ''schema_version'', PInt 1)]"
    by (simp add: manifest_json_def comp_def)
  then show ?thesis
    using loads_bytes_dumps(1) [OF manifest_printable [OF assms(1)]] parse_records_ok [OF assms, of "{}"]
    by (simp add: load_manifest_def manifest_bytes_def parse_manifest_def has_keys_def insert_commute)
qed

section \<open>Staging, part by part\<close>

lemma find_entry_in: "find_entry n es = Inr x \<Longrightarrow> (n, x) \<in> set es"
  by (induction es) (auto split: if_splits)

lemma walk_ok: "walk x ps = Inr y \<Longrightarrow> node_ok x \<Longrightarrow> node_ok y"
proof (induction ps arbitrary: x)
  case (Cons p ps)
  then show ?case by (cases x) (auto dest!: find_entry_in)
qed simp

lemma open_path_ok: "open_path fs p = Inr x \<Longrightarrow> node_ok fs \<Longrightarrow> node_ok x"
  by (auto simp: open_path_def walk_ok split: if_splits)

lemma open_file_eq: "open_file x = Inr y \<longleftrightarrow> y = x \<and> x \<noteq> Refused"
  by (cases x) auto

lemma open_dir_eq: "open_dir x = Inr (st, es) \<longleftrightarrow> x = Directory st es"
  by (cases x) auto

definition source_files :: "node \<Rightarrow> ustr list option \<Rightarrow> ustr list option \<Rightarrow> (ustr \<times> bytes) set" where
  "source_files fs artifact_root keyring_file =
     (case artifact_root of None \<Rightarrow> {} | Some p \<Rightarrow> (case open_path fs p of
        Inr (Directory st es) \<Rightarrow> set (regular_files (lit ''artifacts'') es) | _ \<Rightarrow> {})) \<union>
     (case keyring_file of None \<Rightarrow> {} | Some p \<Rightarrow> (case open_path fs p of
        Inr (RegFile before after data) \<Rightarrow> {(lit ''keyring.json'', take (st_size before) data)} | _ \<Rightarrow> {}))"

lemma artifacts_path_ok: "path_ok (lit ''artifacts'')"
  using unicode_ok_lit [of "''artifacts''"] by (simp add: path_ok_def)

lemma stage_artifacts_ok:
  assumes "stage_artifacts sha w fs root = Inr (rs, es)" "node_ok fs" "\<And>b. hex64 (sha b)"
  shows "list_all file_ok rs" "distinct (map bf_path rs)" "\<forall>f\<in>set rs. take 10 (bf_path f) = lit ''artifacts/''"
    and "set rs = record_of sha ` source_files fs (Some root) None"
    and "\<exists>copied. es = [(lit ''artifacts'', new_dir copied)]"
    and "find_entry (lit ''artifacts'') all = find_entry (lit ''artifacts'') es \<Longrightarrow> actual_artifacts sha all = Inr rs"
proof -
  obtain st sub copied where x: "open_path fs root = Inr (Directory st sub)"
    and rs: "directory_records sha (Some w) True (lit ''artifacts'') (sort_key fst sub) = Inr (rs, copied)"
    and es: "es = [(lit ''artifacts'', new_dir copied)]"
    using assms(1) by (auto simp: stage_artifacts_def open_dir_eq simp del: lit_simps)
  have ok: "tree_ok (sort_key fst sub)"
    using open_path_ok [OF x assms(2)] by (simp add: tree_ok_sorted node_ok_tree del: node_ok.simps)
  have paths: "distinct (map bf_path rs)" "\<forall>r\<in>set rs. path_ok (bf_path r) \<and> bf_size r < 2 ^ 63"
    using directory_records_paths [OF rs ok artifacts_path_ok] by auto
  have pre: "take 10 (bf_path f) = lit ''artifacts/''" if "f \<in> set rs" for f
    using record_below [OF rs, of "bf_path f"] that by (auto simp: below_def child_path_def)
  have hash: "hex64 (bf_sha f)" if "f \<in> set rs" for f
    using directory_records_files [OF rs] that assms(3) by (auto simp: record_of_def)
  show "list_all file_ok rs" using paths pre hash by (auto simp: list_all_iff file_ok_def simp del: lit_simps)
  show "distinct (map bf_path rs)" "\<forall>f\<in>set rs. take 10 (bf_path f) = lit ''artifacts/''" by (use paths pre in auto)
  show "set rs = record_of sha ` source_files fs (Some root) None"
    using directory_records_files [OF rs] by (simp add: source_files_def x regular_files_sorted del: lit_simps)
  show "\<exists>copied. es = [(lit ''artifacts'', new_dir copied)]" using es by blast
  have copy: "map fst copied = map fst (sort_key fst sub)"
    "\<exists>c. directory_records sha None True (lit ''artifacts'') copied = Inr (rs, c)"
    using directory_records_copy [OF rs] by auto
  show "actual_artifacts sha all = Inr rs"
    if "find_entry (lit ''artifacts'') all = find_entry (lit ''artifacts'') es"
    using copy sorted_sort_key_id [OF copy(1)]
    by (auto simp: actual_artifacts_def that es new_dir_def new_stat_def require_private_def simp del: lit_simps)
qed

lemma stage_keyring_ok:
  assumes "stage_keyring sha w fs file = Inr (rs, es)" "node_ok fs" "\<And>b. hex64 (sha b)"
  shows "list_all file_ok rs" "map bf_path rs = [lit ''keyring.json'']"
    and "set rs = record_of sha ` source_files fs None (Some file)"
    and "\<exists>x. es = [(lit ''keyring.json'', x)]"
    and "find_entry (lit ''keyring.json'') all = find_entry (lit ''keyring.json'') es \<Longrightarrow> actual_keyring sha all = Inr rs"
proof -
  obtain y r written where y: "open_path fs file = Inr y"
    and r: "file_record sha (Some w) True (lit ''keyring.json'') y = Inr (r, written)"
    and rs: "rs = [r]" "es = [(lit ''keyring.json'', new_file written)]"
    using assms(1) by (auto simp: stage_keyring_def open_file_eq simp del: lit_simps file_record.simps split: prod.splits)
  obtain before after data where n: "y = RegFile before after data" using r by (cases y) auto
  note f = file_record_ok [OF r [unfolded n]]
  have ok: "st_size before < 2 ^ 63" using open_path_ok [OF y assms(2)] n by simp
  have p: "path_ok (lit ''keyring.json'')"
    using unicode_ok_lit [of "''keyring.json''"] by (simp add: path_ok_def)
  show "list_all file_ok rs"
    using f(1,2) ok p assms(3) by (simp add: rs file_ok_def record_of_def del: lit_simps)
  show "map bf_path rs = [lit ''keyring.json'']" using f(1) by (simp add: rs record_of_def del: lit_simps)
  show "set rs = record_of sha ` source_files fs None (Some file)"
    using f(1) by (simp add: rs source_files_def y n del: lit_simps)
  show "\<exists>x. es = [(lit ''keyring.json'', x)]" using rs by blast
  show "actual_keyring sha all = Inr rs"
    if "find_entry (lit ''keyring.json'') all = find_entry (lit ''keyring.json'') es"
  proof -
    have "open_file (new_file written) = Inr (new_file written)" by (simp add: new_file_def)
    then show ?thesis
      using f new_file_record [of sha "lit ''keyring.json''" written]
      by (simp add: actual_keyring_def that rs del: lit_simps file_record.simps)
  qed
qed


section \<open>A staged backup verifies\<close>

lemma sort_key_idem: "sort_key f (sort_key f xs) = sort_key f xs"
  by (rule sort_key_id_if_sorted) simp

lemma map_sort_key: "map f (sort_key f xs) = sort (map f xs)"
  by (rule properties_for_sort [symmetric]) simp_all

lemma if_given_simps [simp]: "if_given None f = Inr ([], [])" "if_given (Some x) f = f x"
  by (simp_all add: if_given_def)

lemma source_files_split:
  "source_files fs a k = source_files fs a None \<union> source_files fs None k" "source_files fs None None = {}"
  by (simp_all add: source_files_def)

text \<open>The bytes of the manifest in a staged tree.\<close>

definition small_manifest :: "node \<Rightarrow> bool" where
  "small_manifest staged = (case rbind (open_dir staged) (\<lambda>(_, es). find_entry (lit ''manifest.json'') es) of
     Inr (RegFile _ _ data) \<Rightarrow> length data \<le> max_manifest | _ \<Rightarrow> True)"

lemma given_artifacts:
  assumes "if_given a (stage_artifacts sha w fs) = Inr (rs, es)" "node_ok fs" "\<And>b. hex64 (sha b)"
  shows "list_all file_ok rs" "distinct (map bf_path rs)" "\<forall>f\<in>set rs. take 10 (bf_path f) = lit ''artifacts/''"
    and "set rs = record_of sha ` source_files fs a None"
    and "map fst es = (if a = None then [] else [lit ''artifacts''])"
    and "find_entry (lit ''artifacts'') all = find_entry (lit ''artifacts'') es \<Longrightarrow>
      (if a \<noteq> None then actual_artifacts sha all else Inr []) = Inr rs"
proof -
  have "list_all file_ok rs \<and> distinct (map bf_path rs) \<and> (\<forall>f\<in>set rs. take 10 (bf_path f) = lit ''artifacts/'') \<and>
    set rs = record_of sha ` source_files fs a None \<and> map fst es = (if a = None then [] else [lit ''artifacts'']) \<and>
    (find_entry (lit ''artifacts'') all = find_entry (lit ''artifacts'') es \<longrightarrow>
      (if a \<noteq> None then actual_artifacts sha all else Inr []) = Inr rs)"
  proof (cases a)
    case None
    then show ?thesis using assms(1) by (simp add: source_files_split(2))
  next
    case (Some p)
    then have "stage_artifacts sha w fs p = Inr (rs, es)" using assms(1) by simp
    note ok = stage_artifacts_ok [OF this assms(2,3)]
    have "map fst es = [lit ''artifacts'']" using ok(5) by force
    then show ?thesis using ok(1-4,6) Some by (simp del: lit_simps)
  qed
  then show "list_all file_ok rs" "distinct (map bf_path rs)" "\<forall>f\<in>set rs. take 10 (bf_path f) = lit ''artifacts/''"
    "set rs = record_of sha ` source_files fs a None" "map fst es = (if a = None then [] else [lit ''artifacts''])"
    "find_entry (lit ''artifacts'') all = find_entry (lit ''artifacts'') es \<Longrightarrow>
      (if a \<noteq> None then actual_artifacts sha all else Inr []) = Inr rs"
    by blast+
qed

lemma given_keyring:
  assumes "if_given k (stage_keyring sha w fs) = Inr (rs, es)" "node_ok fs" "\<And>b. hex64 (sha b)"
  shows "list_all file_ok rs" "map bf_path rs = (if k = None then [] else [lit ''keyring.json''])"
    and "set rs = record_of sha ` source_files fs None k"
    and "map fst es = (if k = None then [] else [lit ''keyring.json''])"
    and "find_entry (lit ''keyring.json'') all = find_entry (lit ''keyring.json'') es \<Longrightarrow>
      (if k \<noteq> None then actual_keyring sha all else Inr []) = Inr rs"
proof -
  have "list_all file_ok rs \<and> map bf_path rs = (if k = None then [] else [lit ''keyring.json'']) \<and>
    set rs = record_of sha ` source_files fs None k \<and> map fst es = (if k = None then [] else [lit ''keyring.json'']) \<and>
    (find_entry (lit ''keyring.json'') all = find_entry (lit ''keyring.json'') es \<longrightarrow>
      (if k \<noteq> None then actual_keyring sha all else Inr []) = Inr rs)"
  proof (cases k)
    case None
    then show ?thesis using assms(1) by (simp add: source_files_split(2))
  next
    case (Some p)
    then have "stage_keyring sha w fs p = Inr (rs, es)" using assms(1) by simp
    note ok = stage_keyring_ok [OF this assms(2,3)]
    have "map fst es = [lit ''keyring.json'']" using ok(4) by force
    then show ?thesis using ok(1-3,5) Some by (simp del: lit_simps)
  qed
  then show "list_all file_ok rs" "map bf_path rs = (if k = None then [] else [lit ''keyring.json''])"
    "set rs = record_of sha ` source_files fs None k" "map fst es = (if k = None then [] else [lit ''keyring.json''])"
    "find_entry (lit ''keyring.json'') all = find_entry (lit ''keyring.json'') es \<Longrightarrow>
      (if k \<noteq> None then actual_keyring sha all else Inr []) = Inr rs"
    by blast+
qed

lemma find_entry_append:
  "find_entry n (xs @ ys) = (if n \<in> fst ` set xs then find_entry n xs else find_entry n ys)"
proof (induction xs)
  case (Cons x xs)
  then show ?case by (cases x) auto
qed simp

lemma staged_names: "lit ''artifacts'' \<noteq> lit ''keyring.json''" "lit ''artifacts'' \<noteq> lit ''manifest.json''"
  "lit ''keyring.json'' \<noteq> lit ''manifest.json''" "take 10 (lit ''keyring.json'') \<noteq> lit ''artifacts/''"
  by simp_all

lemma stage_files_verify:
  assumes "stage_files sha w fs backup_root a k = Inr staged" "node_ok fs" "\<And>b. hex64 (sha b)" "small_manifest staged"
  shows "\<exists>m. verify_tree sha staged = Inr m \<and> mf_artifacts m = (a \<noteq> None) \<and> mf_keyring m = (k \<noteq> None) \<and>
    set (mf_files m) = record_of sha ` source_files fs a k"
proof -
  obtain rs1 es1 rs2 es2 m written where
    1: "if_given a (stage_artifacts sha w fs) = Inr (rs1, es1)"
    and 2: "if_given k (stage_keyring sha w fs) = Inr (rs2, es2)"
    and m: "m = \<lparr>mf_artifacts = a \<noteq> None, mf_keyring = k \<noteq> None, mf_files = sort_key bf_path (rs1 @ rs2)\<rparr>"
    and written: "write_all w [] (manifest_bytes m) = Inr written"
    and staged: "staged = new_dir (es1 @ es2 @ [(lit ''manifest.json'', new_file written)])"
    using assms(1) by (auto simp: stage_files_def Let_def simp del: lit_simps)
  note A = given_artifacts [OF 1 assms(2,3)] and K = given_keyring [OF 2 assms(2,3)]
  let ?all = "es1 @ es2 @ [(lit ''manifest.json'', new_file written)]"
  have w: "written = manifest_bytes m" using write_all_exact [OF written] by simp
  have names: "fst ` set es1 = (if a = None then {} else {lit ''artifacts''})"
    "fst ` set es2 = (if k = None then {} else {lit ''keyring.json''})"
    using A(5) K(4) by (auto simp flip: set_map simp del: lit_simps)
  have found: "find_entry (lit ''manifest.json'') ?all = Inr (new_file written)"
    using names staged_names by (simp add: find_entry_append del: lit_simps)
  have kr: "k \<noteq> None \<Longrightarrow> actual_keyring sha ?all = Inr rs2" and ar: "a \<noteq> None \<Longrightarrow> actual_artifacts sha ?all = Inr rs1"
    using K(5) [of ?all] A(6) [of ?all] names staged_names by (auto simp: find_entry_append simp del: lit_simps)
  have none: "a = None \<Longrightarrow> rs1 = []" "k = None \<Longrightarrow> rs2 = []" using 1 2 by auto
  have dis: "distinct (map bf_path (rs1 @ rs2))"
    using A(2,3) K(2) staged_names by (auto simp: map_eq_Cons_conv split: if_splits simp del: lit_simps)
  have ok: "list_all file_ok (mf_files m)" "distinct (map bf_path (mf_files m))"
    using A(1) K(1) dis by (auto simp: m list_all_iff map_sort_key simp del: map_append)
  have size: "length written \<le> max_manifest"
    using assms(4) found by (simp add: small_manifest_def staged new_dir_def new_file_def del: lit_simps)
  have content: "manifest_content (new_file written) = Inr (manifest_bytes m)"
    using size w by (simp add: manifest_content_def new_file_def new_stat_def require_private_def)
  have "verify_tree sha staged = Inr (m\<lparr>mf_files := rs1 @ rs2\<rparr>)"
    using found content load_manifest_ok [OF ok] kr ar none names
    by (simp add: verify_tree_def staged new_dir_def new_stat_def require_private_def m image_Un sort_key_idem del: lit_simps)
  moreover have "set (rs1 @ rs2) = record_of sha ` source_files fs a k"
    using A(4) K(3) by (simp add: source_files_split(1) [of fs a k] image_Un)
  ultimately show ?thesis by (simp add: m)
qed


section \<open>A verified backup holds what was staged\<close>

text \<open>The files of a backup tree: its artifacts and its keyring.\<close>

definition backup_files :: "node \<Rightarrow> (ustr \<times> bytes) set" where
  "backup_files root = (case root of
     Directory st es \<Rightarrow>
       (case find_entry (lit ''artifacts'') es of
          Inr (Directory _ sub) \<Rightarrow> set (regular_files (lit ''artifacts'') sub) | _ \<Rightarrow> {}) \<union>
       (case find_entry (lit ''keyring.json'') es of
          Inr (RegFile before _ data) \<Rightarrow> {(lit ''keyring.json'', take (st_size before) data)} | _ \<Rightarrow> {})
   | _ \<Rightarrow> {})"

definition staged_manifest :: "node \<Rightarrow> backup_exn + bytes" where
  "staged_manifest root = rbind (open_dir root) (\<lambda>(_, es).
     rbind (find_entry (lit ''manifest.json'') es) manifest_content)"

lemma find_entry_None: "n \<notin> fst ` set es \<Longrightarrow> find_entry n es = Inl OsErr"
  by (induction es) auto

lemma verified_files:
  assumes "verify_tree sha root = Inr m"
  shows "\<exists>bs m0. staged_manifest root = Inr bs \<and> load_manifest bs = Inr m0 \<and>
    set (mf_files m0) = record_of sha ` backup_files root"
proof -
  obtain st es x bs m0 rs1 rs2 where root: "root = Directory st es"
    and x: "find_entry (lit ''manifest.json'') es = Inr x" "manifest_content x = Inr bs"
    and m0: "load_manifest bs = Inr m0"
    and rs1: "(if mf_artifacts m0 then actual_artifacts sha es else Inr []) = Inr rs1"
    and rs2: "(if mf_keyring m0 then actual_keyring sha es else Inr []) = Inr rs2"
    and names: "fst ` set es = {lit ''manifest.json''} \<union> (if mf_artifacts m0 then {lit ''artifacts''} else {}) \<union>
      (if mf_keyring m0 then {lit ''keyring.json''} else {})"
    and eq: "sort_key bf_path (rs1 @ rs2) = sort_key bf_path (mf_files m0)"
  proof -
    obtain st es where root: "root = Directory st es" using assms by (cases root) (auto simp: verify_tree_def)
    show thesis
      using assms unfolding verify_tree_def root
      apply (simp only: open_dir.simps rbind_Inr prod.case rbind_eq_Inr guard_eq_Inr de_Morgan_disj not_not)
      apply (elim exE conjE)
      apply (rule that [OF root]; assumption)
      done
  qed
  have 1: "set rs1 = record_of sha ` (case find_entry (lit ''artifacts'') es of
          Inr (Directory _ sub) \<Rightarrow> set (regular_files (lit ''artifacts'') sub) | _ \<Rightarrow> {})"
  proof (cases "mf_artifacts m0")
    case True
    then show ?thesis
      using rs1 directory_records_files
      by (auto simp: actual_artifacts_def open_dir_eq regular_files_sorted simp del: lit_simps)
  next
    case False
    then have "lit ''artifacts'' \<notin> fst ` set es" using names staged_names by (auto simp del: lit_simps)
    then show ?thesis using rs1 False by (simp add: find_entry_None del: lit_simps)
  qed
  have 2: "set rs2 = record_of sha ` (case find_entry (lit ''keyring.json'') es of
          Inr (RegFile before _ data) \<Rightarrow> {(lit ''keyring.json'', take (st_size before) data)} | _ \<Rightarrow> {})"
  proof (cases "mf_keyring m0")
    case True
    then obtain y r v where y: "find_entry (lit ''keyring.json'') es = Inr y" and rs: "rs2 = [r]"
      and r: "file_record sha None True (lit ''keyring.json'') y = Inr (r, v)"
      using rs2 by (auto simp: actual_keyring_def open_file_eq simp del: lit_simps file_record.simps)
    then obtain before after data where n: "y = RegFile before after data" by (cases y) auto
    then show ?thesis using file_record_ok(1) [OF r [unfolded n]] y rs by (simp del: lit_simps)
  next
    case False
    then have "lit ''keyring.json'' \<notin> fst ` set es" using names staged_names by (auto simp del: lit_simps)
    then show ?thesis using rs2 False by (simp add: find_entry_None del: lit_simps)
  qed
  have "set (mf_files m0) = set rs1 \<union> set rs2"
    using arg_cong [OF eq, of set] by simp
  then show ?thesis
    using x m0 1 2 by (auto simp: staged_manifest_def root backup_files_def image_Un simp del: lit_simps)
qed

text \<open>
  C38: Verification detects a changed backup.  If two trees are verified against the same manifest
  bytes, and no two of their files collide under the hash, they hold the same files with the same
  bytes: nothing was altered, added or lost between the two.
\<close>

theorem verified_backups_agree:
  assumes "verify_agent_backup sha fs1 place1 = Inr m1" "verify_agent_backup sha fs2 place2 = Inr m2"
    "open_path fs1 place1 = Inr root1" "open_path fs2 place2 = Inr root2"
    "staged_manifest root1 = staged_manifest root2" "inj_on sha (snd ` (backup_files root1 \<union> backup_files root2))"
  shows "backup_files root1 = backup_files root2"
proof -
  have "verify_tree sha root1 = Inr m1" "verify_tree sha root2 = Inr m2"
    using assms(1-4) by (auto simp: verify_agent_backup_def split: sum.splits if_splits)
  then have "record_of sha ` backup_files root1 = record_of sha ` backup_files root2"
    using verified_files [of sha root1 m1] verified_files [of sha root2 m2] assms(5) by auto
  moreover have "inj_on (record_of sha) (backup_files root1 \<union> backup_files root2)"
  proof (rule inj_onI)
    fix x y
    assume xy: "x \<in> backup_files root1 \<union> backup_files root2" "y \<in> backup_files root1 \<union> backup_files root2"
      "record_of sha x = record_of sha y"
    then have "fst x = fst y" "sha (snd x) = sha (snd y)" by (auto simp: record_of_def)
    then show "x = y" using inj_onD [OF assms(6)] xy(1,2) by (simp add: prod_eq_iff image_iff) blast
  qed
  ultimately show ?thesis by (simp add: inj_on_image_eq_iff)
qed


section \<open>A backup of two files\<close>

definition private_file :: "bytes \<Rightarrow> node" where
  "private_file data = RegFile (new_stat 0x180 (length data)) (new_stat 0x180 (length data)) data"

definition backup_sha :: "bytes \<Rightarrow> ustr" where
  "backup_sha b = replicate 64 (48 + sum_list b mod 10)"

definition sample_fs :: node where
  "sample_fs = Directory (new_stat 0x1ED 0)
     [(lit ''store'', Directory (new_stat 0x1C0 0) [(lit ''b'', private_file [1, 2, 3]), (lit ''a'', private_file [])]),
      (lit ''keys'', Directory (new_stat 0x1C0 0) [(lit ''ring'', private_file [123, 125])]),
      (lit ''backup'', Directory (new_stat 0x1C0 0) [])]"

definition sample_manifest :: manifest where
  "sample_manifest = \<lparr>mf_artifacts = True, mf_keyring = True, mf_files =
     [record_of backup_sha (lit ''artifacts/a'', []), record_of backup_sha (lit ''artifacts/b'', [1, 2, 3]),
      record_of backup_sha (lit ''keyring.json'', [123, 125])]\<rparr>"

definition sample_staged :: node where
  "sample_staged = new_dir
     [(lit ''artifacts'', new_dir [(lit ''a'', new_file []), (lit ''b'', new_file [1, 2, 3])]),
      (lit ''keyring.json'', new_file [123, 125]), (lit ''manifest.json'', new_file (manifest_bytes sample_manifest))]"

lemma backup_sha_hex: "hex64 (backup_sha b)"
proof -
  have "sum_list b mod 10 \<le> 9" using mod_less_divisor [of 10 "sum_list b"] by linarith
  then show ?thesis by (simp add: hex64_def backup_sha_def list_all_iff in_range_def)
qed

lemma slow_progresses: "progresses slow_write"
  by (auto simp: progresses_def slow_write_def)

lemma sample_stage:
  "stage_agent_backup backup_sha slow_write sample_fs [lit ''backup''] (Some [lit ''store''])
     (Some [lit ''keys'', lit ''ring'']) True True = Inr (Some sample_staged)"
  using copy_loop_whole [of "Some slow_write"] write_all_returns [OF slow_progresses] slow_progresses
  by (simp add: stage_agent_backup_def reads_or_stages_def stage_files_def sample_fs_def open_path_def relative_to_def
      stage_artifacts_def stage_keyring_def require_private_def new_stat_def private_file_def child_path_def
      sample_staged_def sample_manifest_def record_of_def new_dir_def new_file_def Let_def)


lemma sample_fs_ok: "node_ok sample_fs"
  by (simp add: sample_fs_def private_file_def new_stat_def name_ok_def in_range_def)

lemma sample_small: "length (manifest_bytes sample_manifest) \<le> max_manifest"
  by (simp add: manifest_bytes_def dumps_def manifest_json_def file_json_def block_def quoted_def escape_code_def
      in_range_def newline_indent_def sample_manifest_def record_of_def backup_sha_def max_manifest_def length_concat
      sum_list_replicate int_str_def nat_str.simps)

lemma sample_small_manifest: "small_manifest sample_staged"
  using sample_small by (simp add: small_manifest_def sample_staged_def new_dir_def new_file_def)



text \<open>The same backup after a restore that lists its entries in another order and at other times.\<close>

definition restored_stat :: "nat \<Rightarrow> fstat" where
  "restored_stat len = \<lparr>st_mode = 0x180, st_nlink = 1, st_size = len, st_mtime = 7, st_ctime = 9\<rparr>"

definition restored_file :: "bytes \<Rightarrow> node" where
  "restored_file data = RegFile (restored_stat (length data)) (restored_stat (length data)) data"

definition sample_restored :: node where
  "sample_restored = Directory (new_stat 0x1C0 4096)
     [(lit ''manifest.json'', restored_file (manifest_bytes sample_manifest)),
      (lit ''keyring.json'', restored_file [123, 125]),
      (lit ''artifacts'', Directory (new_stat 0x1C0 4096)
         [(lit ''b'', restored_file [1, 2, 3]), (lit ''a'', restored_file [])])]"

lemma sample_manifest_loads: "load_manifest (manifest_bytes sample_manifest) = Inr sample_manifest"
  using backup_sha_hex
  by (intro load_manifest_ok)
    (simp_all add: sample_manifest_def record_of_def file_ok_def path_ok_def in_range_def)

lemma restored_content: "manifest_content (restored_file (manifest_bytes sample_manifest)) = Inr (manifest_bytes sample_manifest)"
  "manifest_content (new_file (manifest_bytes sample_manifest)) = Inr (manifest_bytes sample_manifest)"
  using sample_small
  by (simp_all add: manifest_content_def restored_file_def restored_stat_def new_file_def new_stat_def Let_def require_private_def)

lemma same_manifest: "staged_manifest sample_staged = Inr (manifest_bytes sample_manifest)"
  "staged_manifest sample_restored = Inr (manifest_bytes sample_manifest)"
  by (simp_all add: staged_manifest_def sample_staged_def sample_restored_def new_dir_def restored_content)

lemma sample_verified:
  "verify_agent_backup backup_sha sample_staged [] = Inr sample_manifest"
  "verify_agent_backup backup_sha sample_restored [] = Inr sample_manifest"
  unfolding verify_agent_backup_def verify_tree_def sample_staged_def sample_restored_def new_dir_def open_path_def
  by (simp_all add: restored_content sample_manifest_loads)
    (simp_all add: sample_manifest_def actual_artifacts_def actual_keyring_def require_private_def new_stat_def
      restored_file_def restored_stat_def new_file_def copy_loop_whole child_path_def record_of_def insert_commute)

lemma sample_files: "backup_files sample_staged =
    {(lit ''artifacts/a'', []), (lit ''artifacts/b'', [1, 2, 3]), (lit ''keyring.json'', [123, 125])}"
  "backup_files sample_restored =
    {(lit ''artifacts/a'', []), (lit ''artifacts/b'', [1, 2, 3]), (lit ''keyring.json'', [123, 125])}"
  by (auto simp: backup_files_def sample_staged_def sample_restored_def new_dir_def new_file_def restored_file_def restored_stat_def
      new_stat_def child_path_def)

theorem verified_backups_agree_witness:
  "verify_agent_backup backup_sha sample_restored [] = Inr sample_manifest \<and>
   backup_files sample_staged = backup_files sample_restored"
proof -
  have "inj_on backup_sha {[], [1, 2, 3], [123, 125]}"
    by (auto simp: inj_on_def backup_sha_def)
  then have "inj_on backup_sha (snd ` (backup_files sample_staged \<union> backup_files sample_restored))"
    by (simp add: sample_files insert_commute)
  then have "backup_files sample_staged = backup_files sample_restored"
    using verified_backups_agree [OF sample_verified] same_manifest by (simp add: open_path_def)
  then show ?thesis using sample_verified by simp
qed

end
