(* ===== verification/Agent_Sharing.thy ===== *)
theory Agent_Sharing
  imports Agent_Dispatch
begin

text \<open>
  Sharing of an agent profile (the last part of \<^verbatim>\<open>zerver/actions/agents.py\<close>): one grant on the
  profile and one on each resource it runs on, so that the principal passes the access checks, and the
  way back.  The existence of a user group in a realm is an argument, \<open>gx\<close>: the group tables belong
  to the chat core.
\<close>

section \<open>One grant\<close>

type_synonym group_exists = "nat \<Rightarrow> nat \<Rightarrow> bool"

definition grant_row ::
    "uuid \<Rightarrow> user \<Rightarrow> uid option \<Rightarrow> nat option \<Rightarrow> resource \<Rightarrow> action list \<Rightarrow> time option \<Rightarrow> scope option \<Rightarrow>
     uuid option \<Rightarrow> grant" where
  "grant_row i owner pu pg target acts expires scope repo = \<lparr>gr_id = i, gr_realm = us_realm owner,
     gr_owner = us_id owner, gr_principal_user = pu, gr_principal_group = pg, gr_target_kind = res_kind target,
     gr_runner = (case target of ResRunner r \<Rightarrow> Some (ru_id r) | _ \<Rightarrow> None),
     gr_provider = (case target of ResProvider r \<Rightarrow> Some (pv_id r) | _ \<Rightarrow> None),
     gr_profile = (case target of ResProfile r \<Rightarrow> Some (pr_id r) | _ \<Rightarrow> None),
     gr_repository = (case target of ResRepository r \<Rightarrow> Some (repo_id r) | _ \<Rightarrow> repo),
     gr_scope = scope, gr_actions = acts, gr_policy_version = 1, gr_expires_at = expires, gr_revoked_at = None\<rparr>"

definition grant_config_of :: "grant \<Rightarrow> grant_config" where
  "grant_config_of g = \<lparr>gc_principal_user = gr_principal_user g, gc_principal_group = gr_principal_group g,
     gc_target_kind = gr_target_kind g, gc_runner_id = gr_runner g, gc_provider_id = gr_provider g,
     gc_profile_id = gr_profile g, gc_repository_id = gr_repository g, gc_scope = gr_scope g,
     gc_actions = gr_actions g, gc_policy_version = gr_policy_version g\<rparr>"

text \<open>
  The guards compare the realms of every reference, so \<open>clean\<close> can only fail on the shape of the grant.
\<close>

definition create_agent_grant ::
    "group_exists \<Rightarrow> env \<Rightarrow> user \<Rightarrow> uid option \<Rightarrow> nat option \<Rightarrow> resource \<Rightarrow> action list \<Rightarrow> time option \<Rightarrow>
     scope option \<Rightarrow> repository option \<Rightarrow> db \<Rightarrow> exn + db \<times> grant" where
  "create_agent_grant gx en owner pu pg target acts expires scope repo d =
     (if res_realm target \<noteq> us_realm owner \<or> res_owner target \<noteq> us_id owner
      then Inl (ValueErr ''Grant target is unavailable.'')
      else if (case pu of None \<Rightarrow> False | Some u \<Rightarrow>
          (case get_user en u of None \<Rightarrow> True | Some x \<Rightarrow> us_realm x \<noteq> us_realm owner))
      then Inl (ValueErr ''Grant principal is unavailable.'')
      else if (case pg of None \<Rightarrow> False | Some g \<Rightarrow> \<not> gx g (us_realm owner))
      then Inl (ValueErr ''Grant principal is unavailable.'')
      else if (pu = None) = (pg = None) \<or> acts = [] then Inl (ValueErr ''Invalid grant.'')
      else if (case repo of None \<Rightarrow> False | Some w \<Rightarrow>
          res_kind target \<noteq> TkProfile \<or> repo_realm w \<noteq> us_realm owner)
      then Inl (ValueErr ''Invalid repository grant.'')
      else let (i, d1) = fresh d;
          g = grant_row i owner pu pg target acts expires scope (map_option repo_id repo)
        in if valid_grant (grant_config_of g) then Inr (add_grant g d1, g)
           else Inl (ValueErr ''Invalid grant.''))"

section \<open>What a share consists of\<close>

definition code_job_actions :: "action list" where
  "code_job_actions = [RepositoryRead, RepositoryEdit, ChecksRun]"

definition share_targets :: "db \<Rightarrow> profile \<Rightarrow> exn + resource list" where
  "share_targets d p =
     rbind (fetch ''runner'' (get_runner (pr_runner p) d)) (\<lambda>r.
     rbind (fetch_opt ''provider'' get_provider (pr_provider p) d) (\<lambda>pv.
     rbind (fetch_opt ''repository'' get_repository (pr_default_repository p) d) (\<lambda>w.
       Inr ([ResProfile p, ResRunner r] @ map ResProvider (case pv of None \<Rightarrow> [] | Some x \<Rightarrow> [x]) @
         map ResRepository (case w of None \<Rightarrow> [] | Some x \<Rightarrow> [x])))))"

fun share_min_actions :: "target_kind \<Rightarrow> profile \<Rightarrow> action list" where
  "share_min_actions TkProfile p = [ProfileUse, ContextRead] @
     (if pr_default_mode p = KManage then [TeamManage] else []) @
     (if pr_default_repository p \<noteq> None then code_job_actions else [])"
| "share_min_actions TkRepository p = code_job_actions"
| "share_min_actions TkRunner p = [RunnerUse]"
| "share_min_actions TkProvider p = [ProviderUse]"

definition share_action_combinations :: "target_kind \<Rightarrow> profile \<Rightarrow> action set list" where
  "share_action_combinations kind p =
     (let base = set (share_min_actions kind p) in
      if kind \<noteq> TkProfile then [base]
      else [base, base \<union> {JobControl}, base \<union> {JobReview}, base \<union> {JobControl, JobReview}])"

text \<open>\<open>_share_grant_filters\<close>; an expiry date is not part of them.\<close>

definition share_grant_filters :: "user \<Rightarrow> uid option \<Rightarrow> nat option \<Rightarrow> resource \<Rightarrow> grant \<Rightarrow> bool" where
  "share_grant_filters owner pu pg target g =
     (gr_realm g = us_realm owner \<and> gr_owner g = us_id owner \<and> gr_principal_user g = pu \<and>
      gr_principal_group g = pg \<and> gr_target_kind g = res_kind target \<and> gr_revoked_at g = None \<and>
      gr_scope g = None \<and> gr_target (res_kind target) g = Some (res_id target) \<and>
      (res_kind target = TkProfile \<longrightarrow> gr_repository g = None))"

definition validate_share_request ::
    "group_exists \<Rightarrow> env \<Rightarrow> user \<Rightarrow> uuid \<Rightarrow> uid option \<Rightarrow> nat option \<Rightarrow> db \<Rightarrow> exn + profile" where
  "validate_share_request gx en owner pid pu pg d =
     (if (pu = None) = (pg = None) then Inl (ValueErr ''Choose exactly one share principal.'')
      else rbind (fetch ''profile'' (get_profile pid d)) (\<lambda>p.
        if pr_realm p \<noteq> us_realm owner \<or> pr_owner p \<noteq> us_id owner
        then Inl (ValueErr ''Agent profile is unavailable.'')
        else if (case pu of None \<Rightarrow> False | Some u \<Rightarrow>
            (case get_user en u of None \<Rightarrow> True | Some x \<Rightarrow> us_realm x \<noteq> us_realm owner))
        then Inl (ValueErr ''Share principal is unavailable.'')
        else if (case pg of None \<Rightarrow> False | Some g \<Rightarrow> \<not> gx g (us_realm owner))
        then Inl (ValueErr ''Share principal is unavailable.'')
        else Inr p))"

section \<open>Sharing\<close>

definition wanted_actions :: "bool \<Rightarrow> bool \<Rightarrow> target_kind \<Rightarrow> profile \<Rightarrow> action list" where
  "wanted_actions control review kind p = share_min_actions kind p @
     (if kind = TkProfile \<and> control then [JobControl] else []) @
     (if kind = TkProfile \<and> review then [JobReview] else [])"

text \<open>The grants, and the kinds of the targets that belong to somebody else.\<close>

fun share_loop ::
    "group_exists \<Rightarrow> env \<Rightarrow> user \<Rightarrow> profile \<Rightarrow> uid option \<Rightarrow> nat option \<Rightarrow> bool \<Rightarrow> bool \<Rightarrow> resource list \<Rightarrow> db \<Rightarrow>
     exn + db \<times> grant list \<times> target_kind list" where
  "share_loop gx en owner p pu pg control review [] d = Inr (d, [], [])"
| "share_loop gx en owner p pu pg control review (t # ts) d =
     (let acts = wanted_actions control review (res_kind t) p in
      case find (\<lambda>g. set (gr_actions g) = set acts) (filter (share_grant_filters owner pu pg t) (db_grants d)) of
        Some g \<Rightarrow> rbind (share_loop gx en owner p pu pg control review ts d) (\<lambda>(e, gs, sk). Inr (e, g # gs, sk))
      | None \<Rightarrow> (case create_agent_grant gx en owner pu pg t acts None None None d of
          Inr (d1, g) \<Rightarrow>
            rbind (share_loop gx en owner p pu pg control review ts d1) (\<lambda>(e, gs, sk). Inr (e, g # gs, sk))
        | Inl x \<Rightarrow>
            if is_value_error x
            then rbind (share_loop gx en owner p pu pg control review ts d) (\<lambda>(e, gs, sk). Inr (e, gs, res_kind t # sk))
            else Inl x))"

definition share_agent_profile ::
    "group_exists \<Rightarrow> env \<Rightarrow> user \<Rightarrow> uuid \<Rightarrow> uid option \<Rightarrow> nat option \<Rightarrow> bool \<Rightarrow> bool \<Rightarrow> db \<Rightarrow>
     exn + db \<times> grant list \<times> target_kind list" where
  "share_agent_profile gx en owner pid pu pg control review d =
     rbind (validate_share_request gx en owner pid pu pg d) (\<lambda>p.
     rbind (share_targets d p) (\<lambda>ts. share_loop gx en owner p pu pg control review ts d))"

section \<open>Unsharing\<close>

definition share_made :: "user \<Rightarrow> profile \<Rightarrow> uid option \<Rightarrow> nat option \<Rightarrow> resource \<Rightarrow> grant \<Rightarrow> bool" where
  "share_made owner p pu pg t g =
     (share_grant_filters owner pu pg t g \<and>
      set (gr_actions g) \<in> set (share_action_combinations (res_kind t) p))"

definition revoked_grant :: "time \<Rightarrow> grant \<Rightarrow> grant" where
  "revoked_grant now g = g\<lparr>gr_revoked_at := Some now, gr_policy_version := gr_policy_version g + 1\<rparr>"

fun unshare_loop ::
    "time \<Rightarrow> user \<Rightarrow> profile \<Rightarrow> uid option \<Rightarrow> nat option \<Rightarrow> resource list \<Rightarrow> db \<Rightarrow> db \<times> grant list" where
  "unshare_loop now owner p pu pg [] d = (d, [])"
| "unshare_loop now owner p pu pg (t # ts) d =
     (let gs = filter (share_made owner p pu pg t) (db_grants d);
          d1 = d\<lparr>db_grants := tbl_where (share_made owner p pu pg t) (revoked_grant now) (db_grants d)\<rparr>;
          (e, more) = unshare_loop now owner p pu pg ts d1
      in (e, map (revoked_grant now) gs @ more))"

definition unshare_agent_profile ::
    "group_exists \<Rightarrow> env \<Rightarrow> time \<Rightarrow> user \<Rightarrow> uuid \<Rightarrow> uid option \<Rightarrow> nat option \<Rightarrow> db \<Rightarrow> exn + db \<times> grant list" where
  "unshare_agent_profile gx en now owner pid pu pg d =
     rbind (validate_share_request gx en owner pid pu pg d) (\<lambda>p.
     rbind (share_targets d p) (\<lambda>ts. Inr (unshare_loop now owner p pu pg ts d)))"

section \<open>Whom a profile is shared with\<close>

text \<open>The dictionary key: a user or a group; \<open>sorted\<close> puts the groups first.\<close>

definition principal_key :: "grant \<Rightarrow> bool \<times> nat" where
  "principal_key g = (case gr_principal_user g of
     Some u \<Rightarrow> (True, u)
   | None \<Rightarrow> (False, case gr_principal_group g of Some i \<Rightarrow> i | None \<Rightarrow> 0))"

definition covering_grants :: "db \<Rightarrow> profile \<Rightarrow> resource \<Rightarrow> grant list" where
  "covering_grants d p t = filter (\<lambda>g. gr_realm g = pr_realm p \<and> gr_owner g = pr_owner p \<and>
     gr_target_kind g = res_kind t \<and> gr_revoked_at g = None \<and> gr_scope g = None \<and>
     gr_target (res_kind t) g = Some (res_id t) \<and> (res_kind t = TkProfile \<longrightarrow> gr_repository g = None) \<and>
     set (share_min_actions (res_kind t) p) \<subseteq> set (gr_actions g)) (db_grants d)"

definition shared_agent_principals :: "db \<Rightarrow> uuid \<Rightarrow> exn + ((bool \<times> nat) \<times> bool) list" where
  "shared_agent_principals d pid =
     rbind (fetch ''profile'' (get_profile pid d)) (\<lambda>p.
     rbind (share_targets d p) (\<lambda>ts.
       let covers = (\<lambda>k t. k \<in> principal_key ` set (covering_grants d p t));
           keys = remdups (concat (map (\<lambda>t. map principal_key (covering_grants d p t)) ts));
           keys_of = (\<lambda>b. map (Pair b) (sort (map snd (filter (\<lambda>k. fst k = b) keys))))
       in Inr (map (\<lambda>k. (k, list_all (covers k) ts)) (keys_of False @ keys_of True))))"

end
