(* ===== verification/Sharing_Properties.thy ===== *)
theory Sharing_Properties
  imports Agent_Sharing Sample_Results
begin

text \<open>
  What sharing promises: the grants it makes are enough for the access checks, unsharing revokes
  exactly the grants a share makes, and an expired grant is not replaced.
\<close>

section \<open>The grants of a share\<close>

lemma create_agent_grantD:
  assumes "create_agent_grant gx en owner pu pg t acts None None None d = Inr (e, g)"
  shows "g = grant_row (db_next d) owner pu pg t acts None None None"
    and "e = d\<lparr>db_next := db_next d + 1, db_grants := db_grants d @ [g]\<rparr>"
    and "res_owner t = us_id owner"
  using assms by (auto simp: create_agent_grant_def fresh_def add_grant_def Let_def split: if_split_asm)

lemma grant_row_filters:
  "share_grant_filters owner pu pg t (grant_row i owner pu pg t acts None None None)"
  "gr_actions (grant_row i owner pu pg t acts ex sc r) = acts"
  "gr_expires_at (grant_row i owner pu pg t acts ex sc r) = ex"
  by (cases t; simp add: share_grant_filters_def grant_row_def)+

definition holds_share :: "user \<Rightarrow> profile \<Rightarrow> uid option \<Rightarrow> nat option \<Rightarrow> bool \<Rightarrow> bool \<Rightarrow> resource \<Rightarrow> grant \<Rightarrow> bool" where
  "holds_share owner p pu pg control review t g =
     (share_grant_filters owner pu pg t g \<and> set (gr_actions g) = set (wanted_actions control review (res_kind t) p))"

text \<open>Only the table of grants and the supply of identifiers change.\<close>

definition only_grants :: "db \<Rightarrow> db \<Rightarrow> bool" where
  "only_grants d e = (\<exists>gs n. e = d\<lparr>db_next := n, db_grants := gs\<rparr>)"

lemma only_grants_refl: "only_grants d d"
  unfolding only_grants_def by (rule exI [of _ "db_grants d"], rule exI [of _ "db_next d"]) simp

lemma only_grants_step: "only_grants (d\<lparr>db_next := n, db_grants := gs\<rparr>) e \<Longrightarrow> only_grants d e"
  by (auto simp: only_grants_def)

lemma only_grants_frame:
  assumes "only_grants d e"
  shows "get_profile i e = get_profile i d" "get_runner i e = get_runner i d" "get_provider i e = get_provider i d"
    "get_repository i e = get_repository i d" "share_targets e p = share_targets d p"
  using assms by (auto simp: only_grants_def get_defs share_targets_def fetch_opt_def split: option.splits)

lemma share_loopD:
  assumes "share_loop gx en owner p pu pg control review ts d = Inr (e, gs, sk)"
  shows "only_grants d e \<and> (\<exists>new. db_grants e = db_grants d @ new \<and>
      (\<forall>g\<in>set new. gr_expires_at g = None \<and> (\<exists>t\<in>set ts. holds_share owner p pu pg control review t g))) \<and>
    (\<forall>g\<in>set gs. \<exists>t\<in>set ts. g \<in> set (db_grants e) \<and> holds_share owner p pu pg control review t g) \<and>
    (sk = [] \<longrightarrow> (\<forall>t\<in>set ts. \<exists>g\<in>set gs. holds_share owner p pu pg control review t g))"
  using assms
proof (induction ts arbitrary: d e gs sk)
  case Nil
  then show ?case by (auto intro: only_grants_refl)
next
  case (Cons t ts)
  let ?acts = "wanted_actions control review (res_kind t) p"
  show ?case
  proof (cases "find (\<lambda>g. set (gr_actions g) = set ?acts) (filter (share_grant_filters owner pu pg t) (db_grants d))")
    case (Some g)
    then have g: "g \<in> set (db_grants d)" "holds_share owner p pu pg control review t g"
      using find_Some_iff by (fastforce simp: holds_share_def find_Some_iff dest: nth_mem)+
    obtain gs1 where "share_loop gx en owner p pu pg control review ts d = Inr (e, gs1, sk)" "gs = g # gs1"
      using Cons.prems Some by (auto simp: Let_def)
    then show ?thesis using Cons.IH g by fastforce
  next
    case None
    show ?thesis
    proof (cases "create_agent_grant gx en owner pu pg t ?acts None None None d")
      case (Inl x)
      then obtain sk1 where "share_loop gx en owner p pu pg control review ts d = Inr (e, gs, sk1)" "sk = res_kind t # sk1"
        using Cons.prems None by (auto simp: Let_def split: if_split_asm)
      then show ?thesis using Cons.IH by fastforce
    next
      case (Inr r)
      then obtain d1 g where r: "create_agent_grant gx en owner pu pg t ?acts None None None d = Inr (d1, g)"
        by (cases r) simp
      note made = create_agent_grantD [OF r]
      obtain gs1 where rest: "share_loop gx en owner p pu pg control review ts d1 = Inr (e, gs1, sk)" "gs = g # gs1"
        using Cons.prems None r by (auto simp: Let_def)
      have g: "holds_share owner p pu pg control review t g" "gr_expires_at g = None"
        using made(1) by (simp_all add: holds_share_def grant_row_filters)
      note ih = Cons.IH [OF rest(1)]
      obtain new where new: "db_grants e = db_grants d1 @ new"
        "\<forall>g\<in>set new. gr_expires_at g = None \<and> (\<exists>t\<in>set ts. holds_share owner p pu pg control review t g)"
        using ih by blast
      have "only_grants d e" using ih made(2) only_grants_step by blast
      moreover have "db_grants e = db_grants d @ g # new" using new(1) made(2) by simp
      ultimately show ?thesis using ih new(2) g rest(2) by auto
    qed
  qed
qed

section \<open>A share is enough\<close>

text \<open>The actor is the principal, or an active member of the principal group.\<close>

definition shared_with :: "env \<Rightarrow> user \<Rightarrow> uid option \<Rightarrow> nat option \<Rightarrow> bool" where
  "shared_with en actor pu pg = (us_active actor \<and> active_user en (us_id actor) \<and>
     (pu = Some (us_id actor) \<or>
      (\<exists>i. pg = Some i \<and> \<not> en_group_deactivated en i \<and> us_id actor \<in> set (en_group_members en i))))"

lemma share_gives_access:
  assumes "holds_share owner p pu pg control review t g" "g \<in> set (db_grants d)" "grant_live now g"
    "shared_with en actor pu pg" "us_realm actor = us_realm owner" "active_user en (us_id owner)"
    "active_user en (res_owner t)" "act \<in> set (share_min_actions (res_kind t) p)"
  shows "owner_or_grant en now d actor t act repo msg dest True"
proof -
  have "principal_matches en actor g"
    using assms(1,4) by (auto simp: holds_share_def share_grant_filters_def shared_with_def principal_matches_def)
  then show ?thesis
    using assms
    by (auto simp: owner_or_grant_def grant_matches_def grant_query_def list_ex_iff holds_share_def
        share_grant_filters_def wanted_actions_def intro!: bexI [of _ g])
qed

text \<open>
  C39: A share is complete.  When sharing a profile skips no resource, the principal, or any active
  member of the principal group, afterwards passes the authority check for the profile, its runner,
  its provider and its default repository, for every action that sharing is meant to give; provided
  the owners are active and no grant of the owner to this principal has run out.
\<close>

theorem a_share_is_complete:
  assumes "share_agent_profile gx en owner pid pu pg control review d = Inr (e, grants, [])"
    and "shared_with en actor pu pg" "us_realm actor = us_realm owner" "active_user en (us_id owner)"
    and "\<forall>g\<in>set (db_grants d). gr_owner g = us_id owner \<and> gr_principal_user g = pu \<and> gr_principal_group g = pg \<longrightarrow>
      (\<forall>t. gr_expires_at g = Some t \<longrightarrow> now < t)"
    and "get_profile pid d = Some p" "share_targets d p = Inr ts" "\<forall>t\<in>set ts. active_user en (res_owner t)"
    and "act \<in> set (share_min_actions TkProfile p)" "get_runner (pr_runner p) e = Some r"
    and "fetch_opt ''provider'' get_provider (pr_provider p) e = Inr pv"
    and "fetch_opt ''repository'' get_repository (pr_default_repository p) e = Inr rp"
  shows "holds_resources en now e actor p r pv rp msg act dest"
proof -
  have loop: "share_loop gx en owner p pu pg control review ts d = Inr (e, grants, [])"
    using assms(1,6,7) by (auto simp: share_agent_profile_def validate_share_request_def)
  note D = share_loopD [OF loop]
  note frame = only_grants_frame [of d e]
  have ts: "ts = [ResProfile p, ResRunner r] @ map ResProvider (case pv of None \<Rightarrow> [] | Some x \<Rightarrow> [x]) @
      map ResRepository (case rp of None \<Rightarrow> [] | Some x \<Rightarrow> [x])"
    using assms(7,10-12) D frame by (auto simp: share_targets_def simp del: append.simps)
  have access: "owner_or_grant en now e actor t a repo msg dest True"
    if t: "t \<in> set ts" and a: "a \<in> set (share_min_actions (res_kind t) p)" for t a repo
  proof -
    obtain g where g: "g \<in> set grants" "holds_share owner p pu pg control review t g"
      using D t by blast
    then have "g \<in> set (db_grants e)" using D by blast
    moreover have "grant_live now g"
      using D \<open>g \<in> set (db_grants e)\<close> g(2) assms(5)
      by (fastforce simp: grant_live_def holds_share_def share_grant_filters_def split: option.split)
    ultimately show ?thesis
      using share_gives_access [OF g(2) _ _ assms(2,3,4) _ a] assms(8) t by blast
  qed
  have code: "repository_action_of act \<in> set code_job_actions"
    using assms(9) by (auto simp: code_job_actions_def repository_action_of_def split: if_split_asm)
  show ?thesis
    unfolding holds_resources_def
    using access [of "ResProfile p"] access [of "ResRunner r"] access [of "ResProvider _"] access [of "ResRepository _"]
      ts assms(9) code by (auto split: option.splits)
qed

section \<open>Unsharing\<close>

lemma revoked_not_made: "\<not> share_made owner p pu pg t (revoked_grant now g)"
  by (simp add: share_made_def share_grant_filters_def revoked_grant_def)

lemma unshare_loopD:
  assumes "unshare_loop now owner p pu pg ts d = (e, revoked)"
  shows "db_grants e = tbl_where (\<lambda>g. \<exists>t\<in>set ts. share_made owner p pu pg t g) (revoked_grant now) (db_grants d)"
    and "set revoked = revoked_grant now ` {g \<in> set (db_grants d). \<exists>t\<in>set ts. share_made owner p pu pg t g}"
proof -
  have "db_grants e = tbl_where (\<lambda>g. \<exists>t\<in>set ts. share_made owner p pu pg t g) (revoked_grant now) (db_grants d) \<and>
    set revoked = revoked_grant now ` {g \<in> set (db_grants d). \<exists>t\<in>set ts. share_made owner p pu pg t g}"
    using assms
  proof (induction ts arbitrary: d revoked)
    case Nil
    then show ?case by (auto simp: tbl_where_def)
  next
    case (Cons t ts)
    let ?d = "d\<lparr>db_grants := tbl_where (share_made owner p pu pg t) (revoked_grant now) (db_grants d)\<rparr>"
    obtain more where *: "unshare_loop now owner p pu pg ts ?d = (e, more)"
      "revoked = map (revoked_grant now) (filter (share_made owner p pu pg t) (db_grants d)) @ more"
      using Cons.prems by (auto simp: Let_def split: prod.splits)
    show ?case
      using Cons.IH [OF *(1)] *(2) revoked_not_made
      by (auto simp: tbl_where_def image_iff split: if_split_asm)
  qed
  then show "db_grants e = tbl_where (\<lambda>g. \<exists>t\<in>set ts. share_made owner p pu pg t g) (revoked_grant now) (db_grants d)"
    "set revoked = revoked_grant now ` {g \<in> set (db_grants d). \<exists>t\<in>set ts. share_made owner p pu pg t g}"
    by blast+
qed

lemma holds_share_made: "holds_share owner p pu pg control review t g \<Longrightarrow> share_made owner p pu pg t g"
  by (cases "res_kind t") (auto simp: holds_share_def share_made_def share_action_combinations_def wanted_actions_def Let_def)

text \<open>
  C40: Unsharing undoes sharing.  It revokes every grant that sharing the profile with the same
  principal returned, whatever optional actions were chosen, leaves no grant of that shape in force,
  and changes no other grant.
\<close>

theorem unsharing_undoes_sharing:
  assumes "share_agent_profile gx en owner pid pu pg control review d = Inr (d1, grants, skipped)"
    and "unshare_agent_profile gx en now owner pid pu pg d1 = Inr (d2, revoked)"
    and "get_profile pid d = Some p" "share_targets d p = Inr ts"
  shows "(\<forall>g\<in>set grants. revoked_grant now g \<in> set revoked \<and> revoked_grant now g \<in> set (db_grants d2)) \<and>
    (\<forall>g\<in>set (db_grants d2). \<forall>t\<in>set ts. \<not> share_made owner p pu pg t g) \<and>
    (\<forall>g\<in>set (db_grants d). (\<forall>t\<in>set ts. \<not> share_made owner p pu pg t g) \<longrightarrow> g \<in> set (db_grants d2))"
proof -
  have loop: "share_loop gx en owner p pu pg control review ts d = Inr (d1, grants, skipped)"
    using assms(1,3,4) by (auto simp: share_agent_profile_def validate_share_request_def)
  note D = share_loopD [OF loop]
  have "unshare_loop now owner p pu pg ts d1 = (d2, revoked)"
    using assms(2-4) only_grants_frame [of d d1] D
    by (auto simp: unshare_agent_profile_def validate_share_request_def)
  note U = unshare_loopD [OF this]
  have "\<forall>g\<in>set grants. revoked_grant now g \<in> set revoked \<and> revoked_grant now g \<in> set (db_grants d2)"
    using D holds_share_made unfolding U tbl_where_def by fastforce
  moreover have "\<forall>g\<in>set (db_grants d2). \<forall>t\<in>set ts. \<not> share_made owner p pu pg t g"
    using revoked_not_made by (auto simp: U(1) tbl_where_def split: if_split_asm)
  moreover have "set (db_grants d) \<subseteq> set (db_grants d1)" using D by auto
  then have "\<forall>g\<in>set (db_grants d). (\<forall>t\<in>set ts. \<not> share_made owner p pu pg t g) \<longrightarrow> g \<in> set (db_grants d2)"
    by (auto simp: U(1) tbl_where_def image_iff)
  ultimately show ?thesis by blast
qed


section \<open>A profile that is shared and unshared\<close>

definition sample_share_targets :: "resource list" where
  "sample_share_targets = [ResProfile sample_profile, ResRunner sample_runner, ResRepository sample_repository]"

definition no_groups :: group_exists where
  "no_groups i realm = False"

text \<open>The owner shares the profile with a colleague, who may also control its tasks.\<close>

definition sample_grants :: "grant list" where
  "sample_grants = map (\<lambda>(i, t). grant_row i owner_user (Some 13) None t
     (wanted_actions True False (res_kind t) sample_profile) None None None)
     (zip [db_next sample_db, db_next sample_db + 1, db_next sample_db + 2] sample_share_targets)"

definition shared_db :: db where
  "shared_db = sample_db\<lparr>db_next := db_next sample_db + 3, db_grants := sample_grants\<rparr>"

lemma sample_targets: "share_targets sample_db sample_profile = Inr sample_share_targets"
  using sampled_sample by (simp add: share_targets_def fetch_opt_def sample_share_targets_def)

lemma no_grants: "sampled d \<Longrightarrow> db_grants d = []"
  by (simp add: sampled_def)

lemma sample_share:
  "share_agent_profile no_groups sample_env owner_user 30 (Some 13) None True False sample_db =
    Inr (shared_db, sample_grants, [])"
  using no_grants [OF sampled_sample]
  by (simp add: share_agent_profile_def validate_share_request_def sample_targets sampled_sample sample_share_targets_def
      create_agent_grant_def Let_def fresh_def add_grant_def grant_row_def valid_grant_def grant_config_of_def
      wanted_actions_def code_job_actions_def share_grant_filters_def repository_actions_def sample_grants_def
      shared_db_def)

theorem a_share_is_complete_witness:
  "holds_resources sample_env 1000 shared_db stranger sample_profile sample_runner None (Some sample_repository)
     None RepositoryEdit None"
proof -
  have "get_runner 20 shared_db = Some sample_runner" "get_repository 40 shared_db = Some sample_repository"
    using sampled_sample by (simp_all add: shared_db_def get_defs sampled_def)
  then show ?thesis
    using a_share_is_complete [OF sample_share, of stranger 1000 sample_profile sample_share_targets RepositoryEdit
        sample_runner None "Some sample_repository" None None] no_grants [OF sampled_sample] sample_targets
      sampled_get(3) [OF sampled_sample]
    by (simp add: shared_with_def fetch_opt_def sample_share_targets_def code_job_actions_def)
qed

lemma granted_made:
  "res_kind t = k \<Longrightarrow>
   share_made owner p pu pg t (grant_row i owner pu pg t (wanted_actions control review k p) None None None)"
  by (rule holds_share_made) (simp add: holds_share_def grant_row_filters)

lemma other_made:
  "res_kind t \<noteq> res_kind s \<Longrightarrow> \<not> share_made owner p pu pg t (grant_row i owner pu pg s acts None None None)"
  by (simp add: share_made_def share_grant_filters_def grant_row_def)

definition unshared_db :: db where
  "unshared_db = shared_db\<lparr>db_grants := map (revoked_grant 2000) sample_grants\<rparr>"

lemma sample_unshare:
  "unshare_agent_profile no_groups sample_env 2000 owner_user 30 (Some 13) None shared_db =
    Inr (unshared_db, map (revoked_grant 2000) sample_grants)"
proof -
  have "get_profile 30 shared_db = Some sample_profile" "share_targets shared_db sample_profile = Inr sample_share_targets"
    using sampled_sample sample_targets
    by (simp_all add: shared_db_def get_defs sampled_def share_targets_def fetch_opt_def)
  then show ?thesis
    by (simp add: unshare_agent_profile_def validate_share_request_def sample_share_targets_def shared_db_def
        sample_grants_def Let_def tbl_where_def granted_made other_made revoked_not_made unshared_db_def)
qed

theorem unsharing_undoes_sharing_witness:
  "length sample_grants = 3 \<and> set (map (revoked_grant 2000) sample_grants) \<subseteq> set (db_grants unshared_db) \<and>
   list_all (\<lambda>g. \<not> share_made owner_user sample_profile (Some 13) None (ResRunner sample_runner) g) (db_grants unshared_db)"
  using unsharing_undoes_sharing [OF sample_share sample_unshare sampled_get(3) [OF sampled_sample] sample_targets]
  by (auto simp: sample_grants_def sample_share_targets_def list_all_iff)

section \<open>An expired grant\<close>

text \<open>
  Sharing again with a principal whose grant has run out changes nothing: the filter does not look at
  the expiry date, so the expired grant is returned as the shared one.
\<close>

lemma expired_grant_is_reused:
  assumes "db_grants d = [g]" "holds_share owner p pu pg control review t g" "gr_expires_at g = Some x" "x \<le> now"
  shows "share_loop gx en owner p pu pg control review [t] d = Inr (d, [g], [])" "\<not> grant_live now g"
  using assms by (simp_all add: holds_share_def grant_live_def)

end
