(* ===== verification/Spec2Isabelle.thy ===== *)
theory Spec2Isabelle
  imports Service_Properties Record_Properties Task_Properties Attempt_Properties Lease_Properties
    Event_Properties Publication_Properties Approval_Properties Artifact_Properties Dispatch_Properties
    Recovery_Properties Credential_Properties Access_Properties
    Secret_Properties Backup_Verification Sharing_Properties
begin

text \<open>
  The agent service of Grow Team.  This is the skeleton of the header; the library below it holds
  the protocol, the records, the access rules and the handlers of the service.
\<close>

section \<open>Canonical texts\<close>


end
